(* ===== verification/Prelude.thy ===== *)
theory Prelude
  imports Main "HOL-Library.Word" "HOL-Library.Multiset"
begin

text \<open>
  Shared vocabulary of the development: the machine types of the C code, the bytes of an
  integer as they travel through a socket, the primitive receive operations, half-open
  memory regions with the counting function used by every memory invariant, and the
  splice of a byte image.  Nothing in this theory depends on the program; the component
  theories build on its simplification rules.
\<close>

unbundle bit_operations_syntax

named_theorems socket_simps "receiving what was sent"
named_theorems cuenta_simps "counting the regions that cover an address"

section \<open>Machine types\<close>

type_synonym u8 = "8 word"
type_synonym u32 = "32 word"
type_synonym byte = u8

text \<open>A C \<open>int\<close> is kept as an HOL \<open>int\<close>; \<open>en_int\<close> is its 32-bit range.\<close>

definition en_int :: "int \<Rightarrow> bool" where
  "en_int i \<longleftrightarrow> - (2 ^ 31) \<le> i \<and> i < 2 ^ 31"

definition u32_de_int :: "int \<Rightarrow> u32" where
  "u32_de_int i = word_of_int i"

definition int_de_u32 :: "u32 \<Rightarrow> int" where
  "int_de_u32 w = sint w"

lemma en_int_de_u32 [simp]: "en_int (int_de_u32 w)"
proof -
  have "sint w < 2 ^ (LENGTH(32) - 1)" by (rule sint_lt)
  moreover have "- (2 ^ (LENGTH(32) - 1)) \<le> sint w" by (rule sint_ge)
  ultimately show ?thesis by (simp add: en_int_def int_de_u32_def)
qed

lemma u32_de_int_de_u32 [simp]: "u32_de_int (int_de_u32 w) = w"
  by (simp add: u32_de_int_def int_de_u32_def)

lemma int_de_u32_de_int [simp]:
  assumes "en_int i"
  shows "int_de_u32 (u32_de_int i) = i"
proof -
  have "sint (word_of_int i :: u32) = signed_take_bit 31 i"
    by (simp add: sint_sbintrunc')
  also have "\<dots> = i"
    using assms by (simp add: en_int_def signed_take_bit_int_eq_self_iff)
  finally show ?thesis by (simp add: int_de_u32_def u32_de_int_def)
qed

lemma int_de_u32_chico:
  assumes "unat w < 2 ^ 31"
  shows "int_de_u32 w = int (unat w)"
proof -
  have "sint w = signed_take_bit 31 (uint w)" by (simp add: sint_uint)
  also have "\<dots> = uint w"
  proof (rule signed_take_bit_int_eq_self)
    show "- (2 ^ 31) \<le> uint w" by (rule order_trans [of _ 0]) simp_all
    show "uint w < 2 ^ 31" using assms by (metis of_nat_less_iff of_nat_numeral of_nat_power uint_nat)
  qed
  finally show ?thesis by (simp add: int_de_u32_def)
qed

section \<open>The bytes of an integer\<close>

text \<open>
  The modules send the memory representation of \<open>int\<close> and \<open>uint32_t\<close> values.  All of
  them run on the same little-endian machine type, and each side reads the bytes back
  with the same representation.
\<close>

definition bytes_u32 :: "u32 \<Rightarrow> byte list" where
  "bytes_u32 w = [ucast w, ucast (drop_bit 8 w), ucast (drop_bit 16 w), ucast (drop_bit 24 w)]"

definition u32_de_bytes :: "byte list \<Rightarrow> u32" where
  "u32_de_bytes bs =
     (case bs of
        [a, b, c, d] \<Rightarrow>
          ucast a OR push_bit 8 (ucast b) OR push_bit 16 (ucast c) OR push_bit 24 (ucast d)
      | _ \<Rightarrow> 0)"

definition bytes_int :: "int \<Rightarrow> byte list" where
  "bytes_int i = bytes_u32 (u32_de_int i)"

lemma length_bytes_u32 [simp]: "length (bytes_u32 w) = 4"
  by (simp add: bytes_u32_def)

lemma length_bytes_int [simp]: "length (bytes_int i) = 4"
  by (simp add: bytes_int_def)

lemma u32_de_bytes_bytes [simp]: "u32_de_bytes (bytes_u32 w) = w"
proof (rule bit_word_eqI)
  fix n
  assume n: "n < LENGTH(32)"
  have "n < 8 \<or> (8 \<le> n \<and> n < 16) \<or> (16 \<le> n \<and> n < 24) \<or> (24 \<le> n \<and> n < 32)"
    using n by auto
  then show "bit (u32_de_bytes (bytes_u32 w)) n = bit w n"
    by (elim disjE) (auto simp: u32_de_bytes_def bytes_u32_def bit_or_iff bit_ucast_iff
      bit_push_bit_iff bit_drop_bit_eq)
qed

section \<open>Receiving from a socket\<close>

text \<open>
  The incoming side of a connection is the list of bytes the peer delivers before it
  closes.  \<open>recv\<close> with \<open>MSG_WAITALL\<close>, and the \<open>recibir_exactamente\<close> loops around a
  plain \<open>recv\<close>, deliver exactly \<open>n\<close> bytes or report failure when the connection ends
  first.
\<close>

definition recibir_exacto :: "nat \<Rightarrow> byte list \<Rightarrow> (byte list \<times> byte list) option" where
  "recibir_exacto n ent = (if n \<le> length ent then Some (take n ent, drop n ent) else None)"

definition recibir_u32 :: "byte list \<Rightarrow> (u32 \<times> byte list) option" where
  "recibir_u32 ent =
     (case recibir_exacto 4 ent of None \<Rightarrow> None | Some (bs, r) \<Rightarrow> Some (u32_de_bytes bs, r))"

definition recibir_int :: "byte list \<Rightarrow> (int \<times> byte list) option" where
  "recibir_int ent =
     (case recibir_u32 ent of None \<Rightarrow> None | Some (w, r) \<Rightarrow> Some (int_de_u32 w, r))"

lemma recibir_exacto_append [simp, socket_simps]:
  "length bs = n \<Longrightarrow> recibir_exacto n (bs @ r) = Some (bs, r)"
  by (simp add: recibir_exacto_def)

lemma recibir_exacto_todo [simp, socket_simps]:
  "length bs = n \<Longrightarrow> recibir_exacto n bs = Some (bs, [])"
  by (simp add: recibir_exacto_def)

lemma recibir_exacto_length:
  "recibir_exacto n ent = Some (bs, r) \<Longrightarrow> length bs = n \<and> length ent = n + length r"
  by (auto simp: recibir_exacto_def split: if_splits)

lemma recibir_u32_append [simp, socket_simps]: "recibir_u32 (bytes_u32 w @ r) = Some (w, r)"
  by (simp add: recibir_u32_def)

lemma recibir_u32_solo [simp, socket_simps]: "recibir_u32 (bytes_u32 w) = Some (w, [])"
  using recibir_u32_append [of w "[]"] by simp

lemma recibir_int_append [simp, socket_simps]:
  "en_int i \<Longrightarrow> recibir_int (bytes_int i @ r) = Some (i, r)"
  by (simp add: recibir_int_def bytes_int_def)

lemma recibir_int_solo [simp, socket_simps]:
  "en_int i \<Longrightarrow> recibir_int (bytes_int i) = Some (i, [])"
  using recibir_int_append [of i "[]"] by simp

lemma recibir_u32_Nil [simp]: "recibir_u32 [] = None"
  by (simp add: recibir_u32_def recibir_exacto_def)

lemma recibir_int_Nil [simp]: "recibir_int [] = None"
  by (simp add: recibir_int_def)

lemma recibir_u32_length: "recibir_u32 ent = Some (w, r) \<Longrightarrow> length ent = 4 + length r"
  by (auto simp: recibir_u32_def dest: recibir_exacto_length split: option.splits)

lemma recibir_int_length: "recibir_int ent = Some (i, r) \<Longrightarrow> length ent = 4 + length r"
  by (auto simp: recibir_int_def dest: recibir_u32_length split: option.splits)

lemma recibir_int_rango: "recibir_int ent = Some (i, r) \<Longrightarrow> en_int i"
  by (auto simp: recibir_int_def split: option.splits)

section \<open>Unsigned arithmetic\<close>

lemma unat_suma_u32:
  fixes a b :: u32
  assumes "unat a + unat b < 2 ^ 32"
  shows "unat (a + b) = unat a + unat b"
  using assms by (simp add: unat_word_ariths)

lemma unat_resta_u32:
  fixes a b :: u32
  assumes "b \<le> a"
  shows "unat (a - b) = unat a - unat b"
  using assms by (rule unat_sub)

lemma unat_u32_lt: "unat (a :: u32) < 4294967296"
  using unsigned_less [of a] by simp

section \<open>Memory regions\<close>

text \<open>
  A region \<open>(b, l)\<close> is the set of the \<open>l\<close> addresses from \<open>b\<close>.  \<open>cuenta rs a\<close> is the
  number of regions of \<open>rs\<close> that hold the address \<open>a\<close>: a list of regions partitions the
  first \<open>m\<close> addresses exactly when \<open>cuenta\<close> is one below \<open>m\<close> and zero from there on.
\<close>

type_synonym region = "nat \<times> nat"

definition en_region :: "region \<Rightarrow> nat \<Rightarrow> bool" where
  "en_region r a \<longleftrightarrow> fst r \<le> a \<and> a < fst r + snd r"

definition cuenta :: "region list \<Rightarrow> nat \<Rightarrow> nat" where
  "cuenta rs a = length (filter (\<lambda>r. en_region r a) rs)"

definition particiona :: "region list \<Rightarrow> nat \<Rightarrow> bool" where
  "particiona rs m \<longleftrightarrow> (\<forall>a. cuenta rs a = (if a < m then 1 else 0))"

definition disjuntas :: "region \<Rightarrow> region \<Rightarrow> bool" where
  "disjuntas r s \<longleftrightarrow> (\<forall>a. \<not> (en_region r a \<and> en_region s a))"

lemma cuenta_Nil [simp, cuenta_simps]: "cuenta [] a = 0"
  by (simp add: cuenta_def)

lemma cuenta_Cons [cuenta_simps]:
  "cuenta (r # rs) a = (if en_region r a then 1 else 0) + cuenta rs a"
  by (simp add: cuenta_def)

lemma cuenta_append [cuenta_simps]: "cuenta (rs @ ss) a = cuenta rs a + cuenta ss a"
  by (simp add: cuenta_def)

lemma cuenta_mset:
  assumes "mset rs = mset ss"
  shows "cuenta rs a = cuenta ss a"
proof -
  have "size (filter_mset (\<lambda>r. en_region r a) (mset rs)) =
        size (filter_mset (\<lambda>r. en_region r a) (mset ss))"
    using assms by simp
  then show ?thesis by (simp add: cuenta_def flip: size_mset)
qed

lemma cuenta_remove1: "r \<in> set rs \<Longrightarrow>
  cuenta rs a = (if en_region r a then 1 else 0) + cuenta (remove1 r rs) a"
  by (induction rs) (auto simp: cuenta_simps)

lemma cuenta_pos: "r \<in> set rs \<Longrightarrow> en_region r a \<Longrightarrow> 0 < cuenta rs a"
  by (induction rs) (auto simp: cuenta_simps)

lemma en_region_pair [cuenta_simps]: "en_region (b, l) a \<longleftrightarrow> b \<le> a \<and> a < b + l"
  by (simp add: en_region_def)

lemma en_region_vacia [simp]: "\<not> en_region (b, 0) a"
  by (simp add: en_region_def)

text \<open>A region of a partition lies inside it.\<close>

lemma cuenta_acotada:
  assumes cota: "\<And>a. m \<le> a \<Longrightarrow> cuenta rs a = 0" and r: "(b, l) \<in> set rs" and l: "0 < l"
  shows "b + l \<le> m"
proof (rule ccontr)
  assume "\<not> b + l \<le> m"
  with l have "en_region (b, l) (b + l - 1)" and "m \<le> b + l - 1"
    by (auto simp: en_region_def)
  with cuenta_pos [OF r] cota show False by fastforce
qed

lemma particiona_cota: "particiona rs m \<Longrightarrow> (b, l) \<in> set rs \<Longrightarrow> 0 < l \<Longrightarrow> b + l \<le> m"
  by (rule cuenta_acotada) (auto simp: particiona_def)

text \<open>Two different positions of a partition never share an address.\<close>

lemma cuenta_dos:
  assumes "i < length rs" "j < length rs" "i \<noteq> j" "en_region (rs ! i) a" "en_region (rs ! j) a"
  shows "2 \<le> cuenta rs a"
proof -
  have "{i, j} \<subseteq> {k. k < length rs \<and> en_region (rs ! k) a}" using assms by auto
  then have "card {i, j} \<le> card {k. k < length rs \<and> en_region (rs ! k) a}"
    by (intro card_mono) simp_all
  then show ?thesis using assms(3) by (simp add: cuenta_def length_filter_conv_card)
qed

lemma particiona_disjuntas:
  assumes "particiona rs m" "i < length rs" "j < length rs" "i \<noteq> j"
  shows "disjuntas (rs ! i) (rs ! j)"
proof (unfold disjuntas_def, intro allI notI)
  fix a
  assume "en_region (rs ! i) a \<and> en_region (rs ! j) a"
  then have "2 \<le> cuenta rs a" using cuenta_dos [OF assms(2-4)] by blast
  moreover have "cuenta rs a \<le> 1" using assms(1) by (simp add: particiona_def)
  ultimately show False by simp
qed

text \<open>Counting addresses: the lengths of a partition of \<open>m\<close> addresses add up to \<open>m\<close>.\<close>

definition extension :: "region list \<Rightarrow> nat" where
  "extension rs = sum_list (map snd rs)"

lemma extension_simps [simp, cuenta_simps]:
  "extension [] = 0" "extension (r # rs) = snd r + extension rs" "extension (rs @ ss) = extension rs + extension ss"
  by (simp_all add: extension_def)

lemma suma_en_region:
  assumes "b + l \<le> n"
  shows "(\<Sum>a<n. if en_region (b, l) a then 1 else 0) = l"
proof -
  have "(\<Sum>a<n. if en_region (b, l) a then 1 else (0::nat)) =
        card {a \<in> {..<n}. en_region (b, l) a}"
    by (simp add: sum.If_cases Int_def)
  also have "{a \<in> {..<n}. en_region (b, l) a} = {b..<b + l}"
    using assms by (auto simp: en_region_def)
  finally show ?thesis by simp
qed

lemma suma_cuenta:
  assumes "\<And>b l. (b, l) \<in> set rs \<Longrightarrow> 0 < l \<Longrightarrow> b + l \<le> n"
  shows "(\<Sum>a<n. cuenta rs a) = extension rs"
  using assms
proof (induction rs)
  case Nil
  then show ?case by simp
next
  case (Cons r rs)
  obtain b l where r: "r = (b, l)" by (cases r)
  have "(\<Sum>a<n. if en_region (b, l) a then 1 else 0) = l"
  proof (cases "l = 0")
    case False
    then show ?thesis using Cons.prems [of b l] r by (intro suma_en_region) simp
  qed simp
  moreover have "(\<Sum>a<n. cuenta rs a) = extension rs" using Cons by auto
  ultimately show ?case by (simp add: r cuenta_simps sum.distrib)
qed

lemma particiona_extension:
  assumes "particiona rs m"
  shows "extension rs = m"
proof -
  have "extension rs = (\<Sum>a<m. cuenta rs a)"
    using particiona_cota [OF assms] by (subst suma_cuenta) auto
  also have "\<dots> = (\<Sum>a<m. 1)"
    using assms by (intro sum.cong) (auto simp: particiona_def)
  finally show ?thesis by simp
qed

section \<open>Splicing a byte image\<close>

definition empalmar :: "nat \<Rightarrow> 'a list \<Rightarrow> 'a list \<Rightarrow> 'a list" where
  "empalmar d datos img = take d img @ datos @ drop (d + length datos) img"

definition ventana :: "nat \<Rightarrow> nat \<Rightarrow> 'a list \<Rightarrow> 'a list" where
  "ventana d n img = take n (drop d img)"

lemma length_empalmar [simp]:
  "d + length datos \<le> length img \<Longrightarrow> length (empalmar d datos img) = length img"
  by (simp add: empalmar_def)

lemma length_ventana [simp]: "d + n \<le> length img \<Longrightarrow> length (ventana d n img) = n"
  by (simp add: ventana_def)

lemma nth_ventana: "d + n \<le> length img \<Longrightarrow> k < n \<Longrightarrow> ventana d n img ! k = img ! (d + k)"
  by (simp add: ventana_def)

lemma nth_empalmar:
  "d + length datos \<le> length img \<Longrightarrow> a < length img \<Longrightarrow>
   empalmar d datos img ! a = (if d \<le> a \<and> a < d + length datos then datos ! (a - d) else img ! a)"
  by (auto simp: empalmar_def nth_append min_def)

lemma ventana_empalmar [simp]:
  "d + length datos \<le> length img \<Longrightarrow> n = length datos \<Longrightarrow>
   ventana d n (empalmar d datos img) = datos"
  by (simp add: ventana_def empalmar_def)

lemma ventana_empalmar_disj:
  assumes "d + length datos \<le> length img" "e + n \<le> length img"
    and "e + n \<le> d \<or> d + length datos \<le> e"
  shows "ventana e n (empalmar d datos img) = ventana e n img"
  using assms by (intro nth_equalityI) (auto simp: nth_ventana nth_empalmar)

lemma ventana_0 [simp]: "ventana d 0 img = []"
  by (simp add: ventana_def)

lemma empalmar_Nil [simp]: "d \<le> length img \<Longrightarrow> empalmar d [] img = img"
  by (simp add: empalmar_def)

lemma empalmar_ventana [simp]:
  "d + n \<le> length img \<Longrightarrow> empalmar d (ventana d n img) img = img"
  by (intro nth_equalityI) (auto simp: nth_empalmar nth_ventana)

lemma ventana_suma:
  "d + n + m \<le> length img \<Longrightarrow> ventana d n img @ ventana (d + n) m img = ventana d (n + m) img"
  by (simp add: ventana_def take_add drop_drop add.commute [of d n])

lemma empalmar_suma:
  assumes "d + length xs + length ys \<le> length img"
  shows "empalmar (d + length xs) ys (empalmar d xs img) = empalmar d (xs @ ys) img"
  using assms by (intro nth_equalityI) (auto simp: nth_empalmar nth_append)

end
