(* ===== verification/Protocolo.thy ===== *)
theory Protocolo
  imports Prelude
begin

text \<open>
  \<open>utils/src/utils/protocolo.h\<close>: the operation codes every module shares and the segment
  descriptor that travels between Kernel Memory and the CPUs.
\<close>

datatype op_code =
    HANDSHAKE_KERNEL_SCHEDULER | HANDSHAKE_CPU | HANDSHAKE_MEMORY_STICK | HANDSHAKE_SWAP
  | HANDSHAKE_IO | HANDSHAKE_KS_NOTIFICACIONES | HANDSHAKE_OK | HANDSHAKE_ERROR
  | OP_FETCH | OP_OBTENER_CONTEXTO | OP_GUARDAR_CONTEXTO
  | OP_LEER_MEMORIA | OP_ESCRIBIR_MEMORIA | OP_LISTA_STICKS
  | OP_CREAR_PROCESO | OP_FINALIZAR_PROCESO | OP_SUSPENDER_PROCESO | OP_DESSUSPENDER_PROCESO
  | OP_MEMORIA_DISPONIBLE | OP_COMPACTAR | OP_FIN_COMPACTACION | OP_CREAR_SEGMENTO
  | OP_ELIMINAR_SEGMENTO | OP_LEER_DATOS | OP_ESCRIBIR_DATOS
  | OP_MEMORIA_LISTA | OP_MEMORIA_CORRUPTA
  | OP_SWAP_LEER_BLOQUE | OP_SWAP_ESCRIBIR_BLOQUE
  | OP_EJECUTAR_PROCESO | OP_INTERRUMPIR_PROCESO | OP_PROCESO_EXIT | OP_PROCESO_SYSCALL
  | OP_PROCESO_FIN_QUANTUM | OP_MUTEX_CREATE | OP_MUTEX_LOCK | OP_MUTEX_UNLOCK
  | OP_INIT_PROC | OP_MEM_ALLOC | OP_MEM_FREE | OP_PROCESO_SEG_FAULT
  | OP_IO_SLEEP | OP_IO_STDIN | OP_IO_STDOUT
  | OP_OK | OP_ERROR | OP_BLOQUEADO

fun codigo :: "op_code \<Rightarrow> int" where
  "codigo HANDSHAKE_KERNEL_SCHEDULER = 1"
| "codigo HANDSHAKE_CPU = 2"
| "codigo HANDSHAKE_MEMORY_STICK = 3"
| "codigo HANDSHAKE_SWAP = 4"
| "codigo HANDSHAKE_IO = 5"
| "codigo HANDSHAKE_KS_NOTIFICACIONES = 6"
| "codigo HANDSHAKE_OK = 100"
| "codigo HANDSHAKE_ERROR = 101"
| "codigo OP_FETCH = 200"
| "codigo OP_OBTENER_CONTEXTO = 201"
| "codigo OP_GUARDAR_CONTEXTO = 202"
| "codigo OP_LEER_MEMORIA = 210"
| "codigo OP_ESCRIBIR_MEMORIA = 211"
| "codigo OP_LISTA_STICKS = 212"
| "codigo OP_CREAR_PROCESO = 300"
| "codigo OP_FINALIZAR_PROCESO = 301"
| "codigo OP_SUSPENDER_PROCESO = 302"
| "codigo OP_DESSUSPENDER_PROCESO = 303"
| "codigo OP_MEMORIA_DISPONIBLE = 304"
| "codigo OP_COMPACTAR = 305"
| "codigo OP_FIN_COMPACTACION = 306"
| "codigo OP_CREAR_SEGMENTO = 307"
| "codigo OP_ELIMINAR_SEGMENTO = 308"
| "codigo OP_LEER_DATOS = 309"
| "codigo OP_ESCRIBIR_DATOS = 310"
| "codigo OP_MEMORIA_LISTA = 400"
| "codigo OP_MEMORIA_CORRUPTA = 401"
| "codigo OP_SWAP_LEER_BLOQUE = 320"
| "codigo OP_SWAP_ESCRIBIR_BLOQUE = 321"
| "codigo OP_EJECUTAR_PROCESO = 600"
| "codigo OP_INTERRUMPIR_PROCESO = 601"
| "codigo OP_PROCESO_EXIT = 602"
| "codigo OP_PROCESO_SYSCALL = 603"
| "codigo OP_PROCESO_FIN_QUANTUM = 604"
| "codigo OP_MUTEX_CREATE = 608"
| "codigo OP_MUTEX_LOCK = 609"
| "codigo OP_MUTEX_UNLOCK = 610"
| "codigo OP_INIT_PROC = 611"
| "codigo OP_MEM_ALLOC = 612"
| "codigo OP_MEM_FREE = 613"
| "codigo OP_PROCESO_SEG_FAULT = 614"
| "codigo OP_IO_SLEEP = 605"
| "codigo OP_IO_STDIN = 606"
| "codigo OP_IO_STDOUT = 607"
| "codigo OP_OK = 500"
| "codigo OP_ERROR = 501"
| "codigo OP_BLOQUEADO = 502"

lemma en_int_codigo [simp]: "en_int (codigo c)"
  by (cases c) (simp_all add: en_int_def)

lemma codigo_no_menos_uno [simp]: "codigo c \<noteq> - 1" "- 1 \<noteq> codigo c"
  by (cases c; simp)+

text \<open>No two operations share a code, so comparing codes is comparing operations.\<close>

definition op_de_codigo :: "int \<Rightarrow> op_code option" where
  "op_de_codigo i = find (\<lambda>c. codigo c = i)
     [HANDSHAKE_KERNEL_SCHEDULER, HANDSHAKE_CPU, HANDSHAKE_MEMORY_STICK, HANDSHAKE_SWAP,
      HANDSHAKE_IO, HANDSHAKE_KS_NOTIFICACIONES, HANDSHAKE_OK, HANDSHAKE_ERROR,
      OP_FETCH, OP_OBTENER_CONTEXTO, OP_GUARDAR_CONTEXTO,
      OP_LEER_MEMORIA, OP_ESCRIBIR_MEMORIA, OP_LISTA_STICKS,
      OP_CREAR_PROCESO, OP_FINALIZAR_PROCESO, OP_SUSPENDER_PROCESO, OP_DESSUSPENDER_PROCESO,
      OP_MEMORIA_DISPONIBLE, OP_COMPACTAR, OP_FIN_COMPACTACION, OP_CREAR_SEGMENTO,
      OP_ELIMINAR_SEGMENTO, OP_LEER_DATOS, OP_ESCRIBIR_DATOS,
      OP_MEMORIA_LISTA, OP_MEMORIA_CORRUPTA, OP_SWAP_LEER_BLOQUE, OP_SWAP_ESCRIBIR_BLOQUE,
      OP_EJECUTAR_PROCESO, OP_INTERRUMPIR_PROCESO, OP_PROCESO_EXIT, OP_PROCESO_SYSCALL,
      OP_PROCESO_FIN_QUANTUM, OP_MUTEX_CREATE, OP_MUTEX_LOCK, OP_MUTEX_UNLOCK,
      OP_INIT_PROC, OP_MEM_ALLOC, OP_MEM_FREE, OP_PROCESO_SEG_FAULT,
      OP_IO_SLEEP, OP_IO_STDIN, OP_IO_STDOUT, OP_OK, OP_ERROR, OP_BLOQUEADO]"

lemma op_de_codigo_codigo [simp]: "op_de_codigo (codigo c) = Some c"
  by (cases c) (simp_all add: op_de_codigo_def)

lemma codigo_eq_iff [simp]: "codigo c = codigo d \<longleftrightarrow> c = d"
  by (metis op_de_codigo_codigo option.inject)

instantiation op_code :: linorder
begin

definition less_eq_op_code :: "op_code \<Rightarrow> op_code \<Rightarrow> bool" where
  "less_eq_op_code c d \<longleftrightarrow> codigo c \<le> codigo d"

definition less_op_code :: "op_code \<Rightarrow> op_code \<Rightarrow> bool" where
  "less_op_code c d \<longleftrightarrow> codigo c < codigo d"

instance
  by standard (auto simp: less_eq_op_code_def less_op_code_def)

end

declare codigo.simps [simp del]

text \<open>\<open>t_segmento\<close>: its global physical base and its size in bytes.\<close>

record t_segmento =
  seg_id :: int
  seg_base :: u32
  seg_limite :: u32

definition region_seg :: "t_segmento \<Rightarrow> region" where
  "region_seg s = (unat (seg_base s), unat (seg_limite s))"

text \<open>Receiving the code another module sent.\<close>

lemma recibir_codigo_append [simp, socket_simps]:
  "recibir_int (bytes_int (codigo c) @ r) = Some (codigo c, r)"
  by simp

lemma recibir_codigo_solo [simp, socket_simps]:
  "recibir_int (bytes_int (codigo c)) = Some (codigo c, [])"
  by simp

end
