(* ===== verification/Registros.thy ===== *)
theory Registros
  imports Protocolo
begin

text \<open>
  \<open>cpu/src/cpu.h\<close>, \<open>cpu.c\<close> and \<open>instrucciones.c\<close>: the register file, access to a
  register by name, and the instructions that use registers only.  Kernel Memory keeps the
  same structure in the context of a process (\<open>kernel_memory/src/contexto.h\<close>), and the two
  sides exchange its memory representation.
\<close>

section \<open>The register file\<close>

record t_registros =
  PC :: u32
  AX :: u8
  BX :: u8
  CX :: u8
  DX :: u8
  EAX :: u32
  EBX :: u32
  ECX :: u32
  EDX :: u32
  SI :: u32
  DI :: u32

definition inicializar_registros :: t_registros where
  "inicializar_registros =
     \<lparr>PC = 0, AX = 0, BX = 0, CX = 0, DX = 0, EAX = 0, EBX = 0, ECX = 0, EDX = 0, SI = 0, DI = 0\<rparr>"

definition obtener_valor_registro :: "string \<Rightarrow> t_registros \<Rightarrow> u32" where
  "obtener_valor_registro nombre r =
     (if nombre = ''PC'' then PC r
      else if nombre = ''AX'' then ucast (AX r)
      else if nombre = ''BX'' then ucast (BX r)
      else if nombre = ''CX'' then ucast (CX r)
      else if nombre = ''DX'' then ucast (DX r)
      else if nombre = ''EAX'' then EAX r
      else if nombre = ''EBX'' then EBX r
      else if nombre = ''ECX'' then ECX r
      else if nombre = ''EDX'' then EDX r
      else if nombre = ''SI'' then SI r
      else if nombre = ''DI'' then DI r
      else 0)"

definition setear_valor_registro :: "string \<Rightarrow> u32 \<Rightarrow> t_registros \<Rightarrow> t_registros" where
  "setear_valor_registro nombre v r =
     (if nombre = ''PC'' then r\<lparr>PC := v\<rparr>
      else if nombre = ''AX'' then r\<lparr>AX := ucast v\<rparr>
      else if nombre = ''BX'' then r\<lparr>BX := ucast v\<rparr>
      else if nombre = ''CX'' then r\<lparr>CX := ucast v\<rparr>
      else if nombre = ''DX'' then r\<lparr>DX := ucast v\<rparr>
      else if nombre = ''EAX'' then r\<lparr>EAX := v\<rparr>
      else if nombre = ''EBX'' then r\<lparr>EBX := v\<rparr>
      else if nombre = ''ECX'' then r\<lparr>ECX := v\<rparr>
      else if nombre = ''EDX'' then r\<lparr>EDX := v\<rparr>
      else if nombre = ''SI'' then r\<lparr>SI := v\<rparr>
      else if nombre = ''DI'' then r\<lparr>DI := v\<rparr>
      else r)"

text \<open>The width in bytes of a register, 0 for a name that is none (\<open>ciclo_instruccion.c\<close>).\<close>

definition tamanio_registro :: "string option \<Rightarrow> u32" where
  "tamanio_registro nombre =
     (case nombre of
        None \<Rightarrow> 0
      | Some n \<Rightarrow>
          if n = ''AX'' \<or> n = ''BX'' \<or> n = ''CX'' \<or> n = ''DX'' then 1
          else if n = ''EAX'' \<or> n = ''EBX'' \<or> n = ''ECX'' \<or> n = ''EDX'' \<or> n = ''SI'' \<or>
            n = ''DI'' \<or> n = ''PC'' then 4
          else 0)"

section \<open>Instructions on registers\<close>

definition ejecutar_NOOP :: "t_registros \<Rightarrow> t_registros" where
  "ejecutar_NOOP r = r"

definition ejecutar_SET :: "string \<Rightarrow> u32 \<Rightarrow> t_registros \<Rightarrow> t_registros" where
  "ejecutar_SET registro v r = setear_valor_registro registro v r"

definition ejecutar_SUM :: "string \<Rightarrow> string \<Rightarrow> t_registros \<Rightarrow> t_registros" where
  "ejecutar_SUM destino sumando r =
     setear_valor_registro destino
       (obtener_valor_registro destino r + obtener_valor_registro sumando r) r"

definition ejecutar_SUB :: "string \<Rightarrow> string \<Rightarrow> t_registros \<Rightarrow> t_registros" where
  "ejecutar_SUB destino restando r =
     setear_valor_registro destino
       (obtener_valor_registro destino r - obtener_valor_registro restando r) r"

text \<open>The jump answers whether it was taken.\<close>

definition ejecutar_JNZ :: "string \<Rightarrow> u32 \<Rightarrow> t_registros \<Rightarrow> t_registros \<times> bool" where
  "ejecutar_JNZ registro nro r =
     (if obtener_valor_registro registro r \<noteq> 0 then (r\<lparr>PC := nro\<rparr>, True) else (r, False))"

section \<open>Reading back a register\<close>

definition es_registro :: "string \<Rightarrow> bool" where
  "es_registro n \<longleftrightarrow> tamanio_registro (Some n) \<noteq> 0"

definition registros_validos :: "string list" where
  "registros_validos = [''PC'', ''AX'', ''BX'', ''CX'', ''DX'', ''EAX'', ''EBX'', ''ECX'', ''EDX'', ''SI'', ''DI'']"

lemma es_registro_iff: "es_registro n \<longleftrightarrow> n \<in> set registros_validos"
  by (auto simp: es_registro_def tamanio_registro_def registros_validos_def)

lemma tamanio_registro_valores: "tamanio_registro n \<in> {0, 1, 4}"
  by (auto simp: tamanio_registro_def split: option.splits)

text \<open>
  A register keeps the low bytes of what is stored in it: the whole value in a 4-byte
  register, the value modulo 256 in a 1-byte register.
\<close>

definition recortar :: "u32 \<Rightarrow> u32 \<Rightarrow> u32" where
  "recortar tam v = (if tam = 1 then ucast (ucast v :: u8) else v)"

lemma obtener_seteado:
  "es_registro n \<Longrightarrow>
   obtener_valor_registro n (setear_valor_registro n v r) = recortar (tamanio_registro (Some n)) v"
  by (auto simp: es_registro_iff registros_validos_def obtener_valor_registro_def
      setear_valor_registro_def recortar_def tamanio_registro_def)

lemma obtener_otro:
  assumes "m \<noteq> n"
  shows "obtener_valor_registro m (setear_valor_registro n v r) = obtener_valor_registro m r"
  using assms by (auto simp: obtener_valor_registro_def setear_valor_registro_def)

lemma setear_invalido: "\<not> es_registro n \<Longrightarrow> setear_valor_registro n v r = r"
  by (simp add: es_registro_iff registros_validos_def setear_valor_registro_def)

lemma obtener_invalido: "\<not> es_registro n \<Longrightarrow> obtener_valor_registro n r = 0"
  by (simp add: es_registro_iff registros_validos_def obtener_valor_registro_def)

lemma PC_setear: "n \<noteq> ''PC'' \<Longrightarrow> PC (setear_valor_registro n v r) = PC r"
  by (simp add: setear_valor_registro_def)

lemma u8_de_u32_de_u8 [simp]: "ucast (ucast (b :: u8) :: u32) = b"
  by (rule bit_word_eqI) (auto simp: bit_ucast_iff)

lemma recortar_idem: "recortar t (recortar t v) = recortar t v"
  by (simp add: recortar_def)

lemma obtener_incrementado:
  "q \<noteq> ''PC'' \<Longrightarrow> obtener_valor_registro q (r\<lparr>PC := x\<rparr>) = obtener_valor_registro q r"
  by (simp add: obtener_valor_registro_def)

lemma recortar_bytes:
  assumes "tamanio_registro (Some r) \<noteq> 0"
  shows "recortar (tamanio_registro (Some r))
      (u32_de_bytes (take (unat (tamanio_registro (Some r))) (bytes_u32 (obtener_valor_registro r regs)) @
        replicate (4 - unat (tamanio_registro (Some r))) 0)) = obtener_valor_registro r regs"
proof (cases "tamanio_registro (Some r) = 1")
  case True
  have "ucast (u32_de_bytes (b # replicate 3 0)) = b" for b
    by (simp add: u32_de_bytes_def numeral_eq_Suc)
  moreover have "ucast (ucast (obtener_valor_registro r regs) :: u8) = obtener_valor_registro r regs"
    using True by (auto simp: tamanio_registro_def obtener_valor_registro_def split: if_splits)
  ultimately show ?thesis using True by (simp add: recortar_def bytes_u32_def)
next
  case False
  then have "tamanio_registro (Some r) = 4" using assms tamanio_registro_valores [of "Some r"] by auto
  then show ?thesis by (simp add: recortar_def)
qed

lemma unat_recortar_1: "unat (recortar 1 v) = unat v mod 256"
  by (simp add: recortar_def unsigned_ucast_eq take_bit_eq_mod unat_mod)

section \<open>The bytes of the register file\<close>

text \<open>
  The 32 bytes of the structure as the C compilers of both modules lay it out: the fields
  in order, the four one-byte registers filling one aligned word, so without padding.
\<close>

definition bytes_registros :: "t_registros \<Rightarrow> byte list" where
  "bytes_registros r =
     bytes_u32 (PC r) @ [AX r, BX r, CX r, DX r] @
     bytes_u32 (EAX r) @ bytes_u32 (EBX r) @ bytes_u32 (ECX r) @ bytes_u32 (EDX r) @
     bytes_u32 (SI r) @ bytes_u32 (DI r)"

definition registros_de_bytes :: "byte list \<Rightarrow> t_registros" where
  "registros_de_bytes bs =
     \<lparr>PC = u32_de_bytes (ventana 0 4 bs),
      AX = bs ! 4, BX = bs ! 5, CX = bs ! 6, DX = bs ! 7,
      EAX = u32_de_bytes (ventana 8 4 bs), EBX = u32_de_bytes (ventana 12 4 bs),
      ECX = u32_de_bytes (ventana 16 4 bs), EDX = u32_de_bytes (ventana 20 4 bs),
      SI = u32_de_bytes (ventana 24 4 bs), DI = u32_de_bytes (ventana 28 4 bs)\<rparr>"

lemma length_bytes_registros [simp]: "length (bytes_registros r) = 32"
  by (simp add: bytes_registros_def)

lemma registros_bytes [simp]: "registros_de_bytes (bytes_registros r) = r"
  by (simp add: registros_de_bytes_def bytes_registros_def ventana_def nth_append)

text \<open>Receiving a register file from a socket.\<close>

definition recibir_registros :: "byte list \<Rightarrow> (t_registros \<times> byte list) option" where
  "recibir_registros ent =
     (case recibir_exacto 32 ent of None \<Rightarrow> None | Some (bs, r) \<Rightarrow> Some (registros_de_bytes bs, r))"

lemma recibir_registros_append [simp, socket_simps]:
  "recibir_registros (bytes_registros r @ rest) = Some (r, rest)"
  by (simp add: recibir_registros_def)

lemma recibir_registros_solo [simp, socket_simps]:
  "recibir_registros (bytes_registros r) = Some (r, [])"
  using recibir_registros_append [of r "[]"] by simp

end
