(* ===== verification/Contexto.thy ===== *)
theory Contexto
  imports Registros
begin

text \<open>
  \<open>kernel_memory/src/contexto.c\<close>: the contexts Kernel Memory keeps for the processes, the
  loading of a script, and the search, removal and register update by PID.

  A \<open>t_segmento*\<close> is a reference (\<open>nat\<close>) into the store of segments of
  \<open>MemoriaUsuario\<close>; the segment table of a process is a list of references, as the C list
  is a list of pointers.  The file system is the parameter \<open>archivos\<close>: the text of the
  file a path opens, \<open>None\<close> where \<open>fopen\<close> fails.
\<close>

section \<open>State and operations\<close>

record t_contexto =
  ctx_pid :: int
  ctx_registros :: t_registros
  ctx_path :: string
  ctx_instrucciones :: "string list"
  ctx_tabla :: "nat list"

type_synonym contextos = "t_contexto list"

definition contextos_init :: contextos where
  "contextos_init = []"

text \<open>\<open>fgets\<close> with a buffer for \<open>n\<close> characters: up to a newline, which it keeps.\<close>

fun leer_linea :: "nat \<Rightarrow> string \<Rightarrow> string \<times> string" where
  "leer_linea 0 s = ([], s)"
| "leer_linea (Suc n) [] = ([], [])"
| "leer_linea (Suc n) (c # s) =
     (if c = CHR 0x0A then ([c], s) else (case leer_linea n s of (l, r) \<Rightarrow> (c # l, r)))"

text \<open>Cutting the line at the newline (or at a NUL, where a C string ends).\<close>

definition recortar_linea :: "string \<Rightarrow> string" where
  "recortar_linea l = takeWhile (\<lambda>c. c \<noteq> CHR 0x0A \<and> c \<noteq> CHR 0x00) l"

lemma leer_linea_longitud: "length (snd (leer_linea n s)) \<le> length s"
  by (induction n s rule: leer_linea.induct) (auto split: prod.splits)

lemma leer_linea_consume: "s \<noteq> [] \<Longrightarrow> length (snd (leer_linea (Suc n) s)) < length s"
  using leer_linea_longitud [of n "tl s"]
  by (cases s) (auto split: prod.splits)

function cargar_instrucciones :: "string \<Rightarrow> string list" where
  "cargar_instrucciones s =
     (if s = [] then []
      else recortar_linea (fst (leer_linea 255 s)) # cargar_instrucciones (snd (leer_linea 255 s)))"
  by pat_completeness auto
termination
  by (relation "measure length") (use leer_linea_consume [of _ 254] in \<open>simp_all add: numeral_eq_Suc\<close>)

declare cargar_instrucciones.simps [simp del]

definition path_completo :: "string option \<Rightarrow> string \<Rightarrow> string" where
  "path_completo basepath path =
     (case basepath of
        None \<Rightarrow> take 511 path
      | Some b \<Rightarrow> if b \<noteq> [] then take 511 (b @ ''/'' @ path) else take 511 path)"

definition contexto_crear ::
    "(string \<Rightarrow> string option) \<Rightarrow> string option \<Rightarrow> int \<Rightarrow> string \<Rightarrow> contextos \<Rightarrow> contextos" where
  "contexto_crear archivos basepath pid path cs =
     cs @ [\<lparr>ctx_pid = pid, ctx_registros = inicializar_registros, ctx_path = path,
            ctx_instrucciones =
              (case archivos (path_completo basepath path) of
                 None \<Rightarrow> [] | Some texto \<Rightarrow> cargar_instrucciones texto),
            ctx_tabla = []\<rparr>]"

fun contexto_buscar :: "int \<Rightarrow> contextos \<Rightarrow> t_contexto option" where
  "contexto_buscar pid [] = None"
| "contexto_buscar pid (c # cs) = (if ctx_pid c = pid then Some c else contexto_buscar pid cs)"

fun contexto_eliminar :: "int \<Rightarrow> contextos \<Rightarrow> contextos" where
  "contexto_eliminar pid [] = []"
| "contexto_eliminar pid (c # cs) = (if ctx_pid c = pid then cs else c # contexto_eliminar pid cs)"

text \<open>An assignment through the pointer that \<open>contexto_buscar\<close> returned.\<close>

fun contexto_modificar :: "int \<Rightarrow> (t_contexto \<Rightarrow> t_contexto) \<Rightarrow> contextos \<Rightarrow> contextos" where
  "contexto_modificar pid f [] = []"
| "contexto_modificar pid f (c # cs) =
     (if ctx_pid c = pid then f c # cs else c # contexto_modificar pid f cs)"

definition contexto_guardar :: "int \<Rightarrow> t_registros \<Rightarrow> contextos \<Rightarrow> contextos" where
  "contexto_guardar pid regs cs = contexto_modificar pid (\<lambda>c. c\<lparr>ctx_registros := regs\<rparr>) cs"

section \<open>Lookup laws\<close>

lemma buscar_pid: "contexto_buscar pid cs = Some c \<Longrightarrow> ctx_pid c = pid \<and> c \<in> set cs"
  by (induction cs) (auto split: if_splits)

lemma buscar_None: "contexto_buscar pid cs = None \<longleftrightarrow> pid \<notin> ctx_pid ` set cs"
  by (induction cs) auto

lemma buscar_append:
  "contexto_buscar pid (cs @ ds) =
     (case contexto_buscar pid cs of None \<Rightarrow> contexto_buscar pid ds | Some c \<Rightarrow> Some c)"
  by (induction cs) auto

lemma buscar_modificar:
  assumes "\<And>c. ctx_pid (f c) = ctx_pid c"
  shows "contexto_buscar q (contexto_modificar pid f cs) =
    (if q = pid then map_option f (contexto_buscar pid cs) else contexto_buscar q cs)"
  by (induction cs) (auto simp: assms)

lemma pids_modificar:
  assumes "\<And>c. ctx_pid (f c) = ctx_pid c"
  shows "map ctx_pid (contexto_modificar pid f cs) = map ctx_pid cs"
  by (induction cs) (auto simp: assms)

lemma buscar_eliminar:
  assumes "distinct (map ctx_pid cs)"
  shows "contexto_buscar q (contexto_eliminar pid cs) =
    (if q = pid then None else contexto_buscar q cs)"
  using assms by (induction cs) (auto simp: buscar_None image_iff)

lemma partir_buscado:
  "contexto_buscar pid cs = Some c \<Longrightarrow>
   \<exists>pre post. cs = pre @ c # post \<and> pid \<notin> ctx_pid ` set pre"
proof (induction cs)
  case (Cons d cs)
  show ?case
  proof (cases "ctx_pid d = pid")
    case True
    with Cons.prems have "d # cs = [] @ c # cs" by simp
    then show ?thesis by (metis empty_iff empty_set image_empty)
  next
    case False
    with Cons obtain pre post where "cs = pre @ c # post" "pid \<notin> ctx_pid ` set pre" by auto
    with False show ?thesis by (intro exI [of _ "d # pre"] exI [of _ post]) auto
  qed
qed simp

lemma modificar_partido:
  "pid \<notin> ctx_pid ` set pre \<Longrightarrow> ctx_pid c = pid \<Longrightarrow>
   contexto_modificar pid f (pre @ c # post) = pre @ f c # post"
  by (induction pre) auto

lemma eliminar_partido:
  "pid \<notin> ctx_pid ` set pre \<Longrightarrow> ctx_pid c = pid \<Longrightarrow>
   contexto_eliminar pid (pre @ c # post) = pre @ post"
  by (induction pre) auto

lemma buscar_guardar:
  "contexto_buscar q (contexto_guardar pid regs cs) =
    (if q = pid then map_option (\<lambda>c. c\<lparr>ctx_registros := regs\<rparr>) (contexto_buscar pid cs)
     else contexto_buscar q cs)"
  by (simp add: contexto_guardar_def buscar_modificar)

section \<open>Loading a script\<close>

definition linea_normal :: "string \<Rightarrow> bool" where
  "linea_normal l \<longleftrightarrow> (\<forall>c \<in> set l. c \<noteq> CHR 0x0A \<and> c \<noteq> CHR 0x00)"

definition texto_de :: "string list \<Rightarrow> string" where
  "texto_de ls = concat (map (\<lambda>l. l @ [CHR 0x0A]) ls)"

lemma leer_linea_normal:
  "linea_normal l \<Longrightarrow> length l < n \<Longrightarrow> leer_linea n (l @ CHR 0x0A # s) = (l @ [CHR 0x0A], s)"
proof (induction l arbitrary: n)
  case Nil
  then show ?case by (cases n) auto
next
  case (Cons c l)
  then obtain m where "n = Suc m" "length l < m" by (cases n) auto
  with Cons show ?case by (simp add: linea_normal_def)
qed

lemma leer_linea_llena:
  "linea_normal l \<Longrightarrow> length l = n \<Longrightarrow> leer_linea n (l @ s) = (l, s)"
proof (induction l arbitrary: n)
  case (Cons c l)
  then show ?case by (cases n) (simp_all add: linea_normal_def)
qed simp

lemma recortar_normal [simp]: "linea_normal l \<Longrightarrow> recortar_linea (l @ CHR 0x0A # s) = l"
  by (simp add: recortar_linea_def linea_normal_def takeWhile_append2)

lemma recortar_normal_solo [simp]: "linea_normal l \<Longrightarrow> recortar_linea l = l"
  by (simp add: recortar_linea_def linea_normal_def)

lemma cargar_Nil [simp]: "cargar_instrucciones [] = []"
  by (simp add: cargar_instrucciones.simps)

lemma cargar_linea:
  assumes "linea_normal l" "length l \<le> 254"
  shows "cargar_instrucciones (l @ CHR 0x0A # s) = l # cargar_instrucciones s"
proof -
  have "leer_linea 255 (l @ CHR 0x0A # s) = (l @ [CHR 0x0A], s)"
    using assms by (intro leer_linea_normal) auto
  then show ?thesis
    using assms(1) by (subst cargar_instrucciones.simps) simp
qed

lemma cargar_texto:
  assumes "\<forall>l \<in> set ls. linea_normal l \<and> length l \<le> 254"
  shows "cargar_instrucciones (texto_de ls) = ls"
  using assms by (induction ls) (simp_all add: texto_de_def cargar_linea)

text \<open>A line of 255 characters fills the buffer: its newline is read as one more line.\<close>

lemma cargar_linea_255:
  assumes "linea_normal l" "length l = 255"
  shows "cargar_instrucciones (l @ CHR 0x0A # s) = l # [] # cargar_instrucciones s"
proof -
  have "leer_linea 255 (l @ CHR 0x0A # s) = (l, CHR 0x0A # s)"
    using assms by (intro leer_linea_llena)
  then have "cargar_instrucciones (l @ CHR 0x0A # s) = l # cargar_instrucciones (CHR 0x0A # s)"
    using assms(1) by (subst cargar_instrucciones.simps) simp
  then show ?thesis using cargar_linea [of "[]" s] by (simp add: linea_normal_def)
qed

end
