(* ===== verification/StickModulo.thy ===== *)
theory StickModulo
  imports Protocolo
begin

text \<open>
  \<open>memory_stick/src/main.c\<close>: the process that owns one stick of physical memory and
  serves reads and writes with addresses local to it.  \<open>memoria\<close> is a buffer of
  \<open>tamanio_memoria\<close> bytes; an access beyond it is the outcome \<open>Desborde\<close>, because the C
  code would then touch memory it does not own.
\<close>

section \<open>State and operations\<close>

record t_stick =
  st_memoria :: "byte list"
  st_tamanio :: u32
  st_malloc :: "u32 \<Rightarrow> bool"  \<comment> \<open>whether the C library grants a request of that size\<close>

datatype paso_stick =
    Espera t_stick                            \<comment> \<open>the connection ended: leave the loop\<close>
  | Sirve t_stick "byte list" "byte list"     \<comment> \<open>the bytes answered and the input left\<close>
  | Desborde                                  \<comment> \<open>access outside the buffer\<close>

definition stick_leer :: "t_stick \<Rightarrow> byte list \<Rightarrow> paso_stick" where
  "stick_leer st ent =
     (case recibir_u32 ent of None \<Rightarrow> Espera st | Some (offset, r1) \<Rightarrow>
      (case recibir_u32 r1 of None \<Rightarrow> Espera st | Some (tam, r2) \<Rightarrow>
        if offset + tam > st_tamanio st \<or> tam > st_tamanio st - offset
        then Sirve st (bytes_int (codigo OP_ERROR)) r2
        else if unat offset + unat tam \<le> length (st_memoria st)
        then Sirve st (bytes_int (codigo OP_OK) @
                       ventana (unat offset) (unat tam) (st_memoria st)) r2
        else Desborde))"

definition stick_escribir :: "t_stick \<Rightarrow> byte list \<Rightarrow> paso_stick" where
  "stick_escribir st ent =
     (case recibir_u32 ent of None \<Rightarrow> Espera st | Some (offset, r1) \<Rightarrow>
      (case recibir_u32 r1 of None \<Rightarrow> Espera st | Some (tam, r2) \<Rightarrow>
        if offset + tam > st_tamanio st
        then Sirve st (bytes_int (codigo OP_ERROR))
               (if st_malloc st tam then drop (unat tam) r2 else r2)
        else if unat offset + unat tam \<le> length (st_memoria st)
        then (case recibir_exacto (unat tam) r2 of
                None \<Rightarrow> Espera (st\<lparr>st_memoria := empalmar (unat offset) r2 (st_memoria st)\<rparr>)
              | Some (datos, r3) \<Rightarrow>
                  Sirve (st\<lparr>st_memoria := empalmar (unat offset) datos (st_memoria st)\<rparr>)
                    (bytes_int (codigo OP_OK)) r3)
        else Desborde))"

definition stick_operacion :: "t_stick \<Rightarrow> byte list \<Rightarrow> paso_stick" where
  "stick_operacion st ent =
     (case recibir_int ent of None \<Rightarrow> Espera st | Some (op, r) \<Rightarrow>
        if op = codigo OP_LEER_MEMORIA then stick_leer st r
        else if op = codigo OP_ESCRIBIR_MEMORIA then stick_escribir st r
        else Sirve st [] r)"

lemma stick_operacion_consume:
  "stick_operacion st ent = Sirve st' resp r \<Longrightarrow> length r < length ent"
  by (auto simp: stick_operacion_def stick_leer_def stick_escribir_def
      dest!: recibir_int_length recibir_u32_length recibir_exacto_length
      split: option.splits if_splits prod.splits)

text \<open>The service loop: the final state and everything answered, \<open>None\<close> on an overflow.\<close>

function atender_operaciones :: "t_stick \<Rightarrow> byte list \<Rightarrow> (t_stick \<times> byte list) option" where
  "atender_operaciones st ent =
     (case stick_operacion st ent of
        Espera st' \<Rightarrow> Some (st', [])
      | Desborde \<Rightarrow> None
      | Sirve st' resp r \<Rightarrow>
          (case atender_operaciones st' r of
             None \<Rightarrow> None
           | Some (st'', resp') \<Rightarrow> Some (st'', resp @ resp')))"
  by pat_completeness auto
termination
  by (relation "measure (\<lambda>(st, ent). length ent)") (auto dest: stick_operacion_consume)

declare atender_operaciones.simps [simp del]

text \<open>A CPU that connects introduces itself; anybody else is rejected.\<close>

definition stick_atender_cliente :: "t_stick \<Rightarrow> byte list \<Rightarrow> (t_stick \<times> byte list) option" where
  "stick_atender_cliente st ent =
     (case recibir_int ent of
        None \<Rightarrow> Some (st, bytes_int (codigo HANDSHAKE_ERROR))
      | Some (cod, r) \<Rightarrow>
          (case recibir_int r of
             None \<Rightarrow> Some (st, bytes_int (codigo HANDSHAKE_ERROR))
           | Some (id_cpu, r') \<Rightarrow>
               if cod \<noteq> codigo HANDSHAKE_CPU
               then Some (st, bytes_int (codigo HANDSHAKE_ERROR))
               else map_option (\<lambda>(st', resp). (st', bytes_int (codigo HANDSHAKE_OK) @ resp))
                      (atender_operaciones st r')))"

section \<open>Requests and their service\<close>

definition stick_valido :: "t_stick \<Rightarrow> bool" where
  "stick_valido st \<longleftrightarrow> length (st_memoria st) = unat (st_tamanio st)"

definition pedido_leer :: "u32 \<Rightarrow> u32 \<Rightarrow> byte list" where
  "pedido_leer offset tam = bytes_int (codigo OP_LEER_MEMORIA) @ bytes_u32 offset @ bytes_u32 tam"

definition pedido_escribir :: "u32 \<Rightarrow> u32 \<Rightarrow> byte list \<Rightarrow> byte list" where
  "pedido_escribir offset tam datos =
     bytes_int (codigo OP_ESCRIBIR_MEMORIA) @ bytes_u32 offset @ bytes_u32 tam @ datos"

lemma stick_operacion_vacia [simp]: "stick_operacion st [] = Espera st"
  by (simp add: stick_operacion_def)

lemma atender_vacia [simp]: "atender_operaciones st [] = Some (st, [])"
  by (simp add: atender_operaciones.simps)

lemma en_rango_u32:
  fixes offset tam t :: u32
  assumes "unat offset + unat tam \<le> unat t"
  shows "\<not> t < offset + tam" "\<not> t - offset < tam" "offset \<le> t"
proof -
  have s: "unat (offset + tam) = unat offset + unat tam"
    using le_less_trans [OF assms unat_u32_lt] by (intro unat_suma_u32) simp
  show "\<not> t < offset + tam" using assms by (simp add: word_less_nat_alt s)
  show o: "offset \<le> t" using assms by (simp add: word_le_nat_alt)
  show "\<not> t - offset < tam"
    using assms by (simp add: word_less_nat_alt unat_resta_u32 [OF o])
qed

lemma servir_lectura:
  assumes "stick_valido st" and "unat offset + unat tam \<le> unat (st_tamanio st)"
  shows "atender_operaciones st (pedido_leer offset tam) =
         Some (st, bytes_int (codigo OP_OK) @ ventana (unat offset) (unat tam) (st_memoria st))"
proof -
  have "stick_operacion st (pedido_leer offset tam) =
      Sirve st (bytes_int (codigo OP_OK) @ ventana (unat offset) (unat tam) (st_memoria st)) []"
    using assms en_rango_u32 [OF assms(2)]
    by (simp add: stick_operacion_def pedido_leer_def stick_leer_def stick_valido_def)
  then show ?thesis by (simp add: atender_operaciones.simps [of st "pedido_leer offset tam"])
qed

lemma servir_escritura:
  assumes "stick_valido st" and "unat offset + unat tam \<le> unat (st_tamanio st)"
    and "length datos = unat tam"
  shows "atender_operaciones st (pedido_escribir offset tam datos) =
         Some (st\<lparr>st_memoria := empalmar (unat offset) datos (st_memoria st)\<rparr>,
               bytes_int (codigo OP_OK))"
proof -
  have "stick_operacion st (pedido_escribir offset tam datos) =
      Sirve (st\<lparr>st_memoria := empalmar (unat offset) datos (st_memoria st)\<rparr>)
        (bytes_int (codigo OP_OK)) []"
    using assms en_rango_u32 [OF assms(2)]
    by (simp add: stick_operacion_def pedido_escribir_def stick_escribir_def stick_valido_def)
  then show ?thesis
    by (simp add: atender_operaciones.simps [of st "pedido_escribir offset tam datos"])
qed

lemma servir_escritura_valido:
  "stick_valido st \<Longrightarrow> unat offset + length datos \<le> unat (st_tamanio st) \<Longrightarrow>
   stick_valido (st\<lparr>st_memoria := empalmar (unat offset) datos (st_memoria st)\<rparr>)"
  by (simp add: stick_valido_def)

section \<open>The range checks\<close>

text \<open>
  The read check is exact for every offset inside the stick: the service answers the bytes
  when the access is in range and \<open>OP_ERROR\<close> otherwise, without ever leaving the buffer.
\<close>

lemma lectura_chequeo:
  fixes offset tam t :: u32
  assumes "offset \<le> t"
  shows "\<not> (offset + tam > t \<or> tam > t - offset) \<longleftrightarrow> unat offset + unat tam \<le> unat t"
proof
  assume h: "\<not> (offset + tam > t \<or> tam > t - offset)"
  then have "unat tam \<le> unat t - unat offset"
    using unat_resta_u32 [OF assms] by (auto simp: not_less word_le_nat_alt)
  with assms show "unat offset + unat tam \<le> unat t" by (simp add: word_le_nat_alt)
next
  assume "unat offset + unat tam \<le> unat t"
  from en_rango_u32 [OF this] show "\<not> (offset + tam > t \<or> tam > t - offset)"
    by simp
qed

text \<open>
  The write check lets a sum that wraps around pass: the request is accepted and the
  bytes go outside the buffer.
\<close>

lemma escritura_vuelta:
  assumes "stick_valido st" and "unat offset + unat tam \<ge> 2 ^ 32"
    and "offset + tam \<le> st_tamanio st"
  shows "stick_operacion st (pedido_escribir offset tam datos) = Desborde"
proof -
  have "\<not> unat offset + unat tam \<le> length (st_memoria st)"
    using assms(1,2) unat_u32_lt [of "st_tamanio st"] by (simp add: stick_valido_def)
  with assms(3) show ?thesis
    by (simp add: stick_operacion_def pedido_escribir_def stick_escribir_def not_less)
qed

lemma escritura_sin_vuelta:
  assumes "stick_valido st" and "unat offset + unat tam < 2 ^ 32"
  shows "stick_escribir st (bytes_u32 offset @ bytes_u32 tam @ datos) \<noteq> Desborde"
proof -
  have "unat (offset + tam) = unat offset + unat tam" using assms(2) by (rule unat_suma_u32)
  then show ?thesis
    using assms(1)
    by (auto simp: stick_escribir_def stick_valido_def not_less word_le_nat_alt
        split: option.splits)
qed

end
