(* ===== verification/Huecos.thy ===== *)
theory Huecos
  imports Protocolo
begin

text \<open>
  \<open>kernel_memory/src/huecos.c\<close>: the list of free holes of the physical memory, its two
  placement searches, and the operations that take and give back space.  A \<open>t_hueco*\<close>
  returned by a search is the position of that hole in the list, which is what identifies
  it there.
\<close>

section \<open>State and operations\<close>

record t_hueco =
  h_base :: u32
  h_tamanio :: u32

type_synonym huecos = "t_hueco list"

definition huecos_init :: huecos where
  "huecos_init = []"

definition huecos_extender :: "u32 \<Rightarrow> u32 \<Rightarrow> huecos \<Rightarrow> huecos" where
  "huecos_extender base_nueva bytes_nuevos hs =
     (if hs \<noteq> [] \<and> h_base (last hs) + h_tamanio (last hs) = base_nueva
      then butlast hs @ [(last hs)\<lparr>h_tamanio := h_tamanio (last hs) + bytes_nuevos\<rparr>]
      else hs @ [\<lparr>h_base = base_nueva, h_tamanio = bytes_nuevos\<rparr>])"

text \<open>
  The two searches scan the list once, \<open>i\<close> being the loop counter and \<open>mejor\<close> (\<open>peor\<close>)
  the candidate found so far.
\<close>

fun best_fit_desde :: "u32 \<Rightarrow> nat \<Rightarrow> (nat \<times> t_hueco) option \<Rightarrow> huecos \<Rightarrow> (nat \<times> t_hueco) option"
  where
  "best_fit_desde req i mejor [] = mejor"
| "best_fit_desde req i mejor (h # hs) =
     best_fit_desde req (Suc i)
       (if req \<le> h_tamanio h then
          (case mejor of
             None \<Rightarrow> Some (i, h)
           | Some (j, m) \<Rightarrow> if h_tamanio h < h_tamanio m then Some (i, h) else Some (j, m))
        else mejor) hs"

definition buscar_hueco_best_fit :: "u32 \<Rightarrow> huecos \<Rightarrow> nat option" where
  "buscar_hueco_best_fit req hs = map_option fst (best_fit_desde req 0 None hs)"

fun worst_fit_desde :: "u32 \<Rightarrow> nat \<Rightarrow> (nat \<times> t_hueco) option \<Rightarrow> huecos \<Rightarrow> (nat \<times> t_hueco) option"
  where
  "worst_fit_desde req i peor [] = peor"
| "worst_fit_desde req i peor (h # hs) =
     worst_fit_desde req (Suc i)
       (if req \<le> h_tamanio h then
          (case peor of
             None \<Rightarrow> Some (i, h)
           | Some (j, m) \<Rightarrow> if h_tamanio m < h_tamanio h then Some (i, h) else Some (j, m))
        else peor) hs"

definition buscar_hueco_worst_fit :: "u32 \<Rightarrow> huecos \<Rightarrow> nat option" where
  "buscar_hueco_worst_fit req hs = map_option fst (worst_fit_desde req 0 None hs)"

definition hueco_ocupar :: "nat \<Rightarrow> u32 \<Rightarrow> huecos \<Rightarrow> huecos" where
  "hueco_ocupar i tam hs =
     (if h_tamanio (hs ! i) = tam
      then take i hs @ drop (Suc i) hs
      else hs[i := (hs ! i)\<lparr>h_base := h_base (hs ! i) + tam,
                            h_tamanio := h_tamanio (hs ! i) - tam\<rparr>])"

definition hueco_liberar :: "u32 \<Rightarrow> u32 \<Rightarrow> huecos \<Rightarrow> huecos" where
  "hueco_liberar base tam hs = hs @ [\<lparr>h_base = base, h_tamanio = tam\<rparr>]"

fun total_libre_desde :: "u32 \<Rightarrow> huecos \<Rightarrow> u32" where
  "total_libre_desde acum [] = acum"
| "total_libre_desde acum (h # hs) = total_libre_desde (acum + h_tamanio h) hs"

definition huecos_total_libre :: "huecos \<Rightarrow> u32" where
  "huecos_total_libre hs = total_libre_desde 0 hs"

definition huecos_reconstruir :: "u32 \<Rightarrow> u32 \<Rightarrow> huecos \<Rightarrow> huecos" where
  "huecos_reconstruir base_libre memoria_total hs =
     (if base_libre < memoria_total
      then [\<lparr>h_base = base_libre, h_tamanio = memoria_total - base_libre\<rparr>]
      else [])"

section \<open>Abstraction: the regions the holes cover\<close>

definition region_hueco :: "t_hueco \<Rightarrow> region" where
  "region_hueco h = (unat (h_base h), unat (h_tamanio h))"

definition libres :: "huecos \<Rightarrow> region list" where
  "libres hs = map region_hueco hs"

lemma libres_simps [simp, cuenta_simps]:
  "libres [] = []" "libres (h # hs) = region_hueco h # libres hs"
  "libres (hs @ gs) = libres hs @ libres gs"
  by (simp_all add: libres_def)

section \<open>The placement searches\<close>

text \<open>What a scan keeps: the candidate is a hole of the list that is large enough.\<close>

definition candidato :: "u32 \<Rightarrow> huecos \<Rightarrow> nat \<times> t_hueco \<Rightarrow> bool" where
  "candidato req hs p \<longleftrightarrow> fst p < length hs \<and> snd p = hs ! fst p \<and> req \<le> h_tamanio (snd p)"

text \<open>
  Both scans are the same search for the first hole that is extreme in an order: \<open>mejora a b\<close>
  says that a hole of size \<open>a\<close> replaces a candidate of size \<open>b\<close>.
\<close>

locale busqueda =
  fixes desde :: "u32 \<Rightarrow> nat \<Rightarrow> (nat \<times> t_hueco) option \<Rightarrow> huecos \<Rightarrow> (nat \<times> t_hueco) option"
    and mejora :: "u32 \<Rightarrow> u32 \<Rightarrow> bool"
  assumes desde_Nil: "desde req i c [] = c"
    and desde_Cons: "desde req i c (h # hs) =
      desde req (Suc i)
        (if req \<le> h_tamanio h then
           (case c of None \<Rightarrow> Some (i, h)
            | Some (j, m) \<Rightarrow> if mejora (h_tamanio h) (h_tamanio m) then Some (i, h) else Some (j, m))
         else c) hs"
    and mejora_irrefl: "\<not> mejora x x"
    and mejora_trans: "mejora x y \<Longrightarrow> mejora y z \<Longrightarrow> mejora x z"
begin

definition optimo :: "u32 \<Rightarrow> huecos \<Rightarrow> (nat \<times> t_hueco) option \<Rightarrow> bool" where
  "optimo req hs c \<longleftrightarrow>
     (case c of
        None \<Rightarrow> (\<forall>h \<in> set hs. \<not> req \<le> h_tamanio h)
      | Some p \<Rightarrow> candidato req hs p \<and>
          (\<forall>h \<in> set hs. req \<le> h_tamanio h \<longrightarrow> \<not> mejora (h_tamanio h) (h_tamanio (snd p))))"

lemma optimo_paso:
  assumes "optimo req gs c"
  shows "optimo req (gs @ [h])
     (if req \<le> h_tamanio h then
        (case c of None \<Rightarrow> Some (length gs, h)
         | Some (j, m) \<Rightarrow> if mejora (h_tamanio h) (h_tamanio m) then Some (length gs, h) else Some (j, m))
      else c)"
proof (cases c)
  case None
  with assms show ?thesis by (auto simp: optimo_def candidato_def mejora_irrefl)
next
  case (Some p)
  obtain j m where p: "p = (j, m)" by (cases p)
  with assms Some show ?thesis
    by (auto simp: optimo_def candidato_def nth_append mejora_irrefl dest: mejora_trans)
qed

lemma desde_optimo: "optimo req gs c \<Longrightarrow> optimo req (gs @ hs) (desde req (length gs) c hs)"
proof (induction hs arbitrary: gs c)
  case Nil
  then show ?case by (simp add: desde_Nil)
next
  case (Cons h hs)
  from Cons.IH [OF optimo_paso [OF Cons.prems, of h]] show ?case
    by (simp add: desde_Cons)
qed

lemma busqueda_optima: "optimo req hs (desde req 0 None hs)"
  using desde_optimo [of req "[]" None hs] by (simp add: optimo_def)

lemma busqueda_Some:
  assumes "map_option fst (desde req 0 None hs) = Some i"
  shows "i < length hs" "req \<le> h_tamanio (hs ! i)"
    "h \<in> set hs \<Longrightarrow> req \<le> h_tamanio h \<Longrightarrow> \<not> mejora (h_tamanio h) (h_tamanio (hs ! i))"
  using busqueda_optima [of req hs] assms
  by (auto simp: optimo_def candidato_def split: option.splits)

lemma busqueda_None:
  "map_option fst (desde req 0 None hs) = None \<longleftrightarrow> (\<forall>h \<in> set hs. h_tamanio h < req)"
proof (cases "desde req 0 None hs")
  case None
  then show ?thesis
    using busqueda_optima [of req hs] by (auto simp: optimo_def not_le)
next
  case (Some p)
  then have "hs ! fst p \<in> set hs" and "\<not> h_tamanio (hs ! fst p) < req"
    using busqueda_optima [of req hs] by (auto simp: optimo_def candidato_def not_less)
  with Some show ?thesis by auto
qed

end

interpretation bft: busqueda best_fit_desde "\<lambda>a b. a < b"
  by unfold_locales auto

interpretation wft: busqueda worst_fit_desde "\<lambda>a b. b < a"
  by unfold_locales auto

text \<open>
  The contract a placement search offers to the allocator, whichever its strategy: the
  hole it returns exists and is large enough, and it gives up only when no hole is.
\<close>

definition sin_vuelta :: "t_hueco \<Rightarrow> bool" where
  "sin_vuelta h \<longleftrightarrow> unat (h_base h) + unat (h_tamanio h) \<le> 2 ^ 32"

lemma cuenta_ocupar:
  assumes i: "i < length hs" and tam: "tam \<le> h_tamanio (hs ! i)" and sv: "sin_vuelta (hs ! i)"
  shows "cuenta ((unat (h_base (hs ! i)), unat tam) # libres (hueco_ocupar i tam hs)) a =
         cuenta (libres hs) a"
proof -
  define h where "h = hs ! i"
  have hs: "hs = take i hs @ h # drop (Suc i) hs"
    using i by (simp add: h_def id_take_nth_drop)
  have antes: "cuenta (libres hs) a =
      cuenta (libres (take i hs)) a + cuenta (libres (h # drop (Suc i) hs)) a"
    by (subst hs) (simp add: cuenta_simps del: libres_simps(2))
  show ?thesis
  proof (cases "h_tamanio h = tam")
    case True
    then show ?thesis
      using antes by (simp add: hueco_ocupar_def h_def [symmetric] cuenta_simps region_hueco_def)
  next
    case False
    with tam have lt: "tam < h_tamanio h" by (simp add: h_def)
    then have ult: "unat tam < unat (h_tamanio h)" by (simp add: word_less_nat_alt)
    have b: "unat (h_base h + tam) = unat (h_base h) + unat tam"
      using ult sv by (intro unat_suma_u32) (simp add: sin_vuelta_def h_def)
    have t: "unat (h_tamanio h - tam) = unat (h_tamanio h) - unat tam"
      using lt by (intro unat_resta_u32) simp
    have "libres (hueco_ocupar i tam hs) = libres (take i hs) @
        (unat (h_base h) + unat tam, unat (h_tamanio h) - unat tam) # libres (drop (Suc i) hs)"
      using False i
      by (simp add: hueco_ocupar_def h_def [symmetric] upd_conv_take_nth_drop region_hueco_def b t)
    then show ?thesis
      using antes ult by (auto simp: cuenta_simps region_hueco_def h_def [symmetric])
  qed
qed

locale colocacion =
  fixes buscar :: "u32 \<Rightarrow> huecos \<Rightarrow> nat option"
  assumes buscar_Some: "buscar req hs = Some i \<Longrightarrow> i < length hs \<and> req \<le> h_tamanio (hs ! i)"
    and buscar_None: "buscar req hs = None \<longleftrightarrow> (\<forall>h \<in> set hs. h_tamanio h < req)"
begin

lemma ocupar_buscado:
  assumes "buscar req hs = Some i" and "\<forall>h \<in> set hs. sin_vuelta h"
  shows "cuenta ((unat (h_base (hs ! i)), unat req) # libres (hueco_ocupar i req hs)) a =
         cuenta (libres hs) a"
  using buscar_Some [OF assms(1)] assms(2) by (intro cuenta_ocupar) auto

lemma buscar_si_entra: "h \<in> set hs \<Longrightarrow> req \<le> h_tamanio h \<Longrightarrow> \<exists>i. buscar req hs = Some i"
  using buscar_None [of req hs] by (cases "buscar req hs") (auto simp: not_le)

end

interpretation bfc: colocacion buscar_hueco_best_fit
  by unfold_locales
    (unfold buscar_hueco_best_fit_def, blast intro: bft.busqueda_Some(1,2), rule bft.busqueda_None)

interpretation wfc: colocacion buscar_hueco_worst_fit
  by unfold_locales
    (unfold buscar_hueco_worst_fit_def, blast intro: wft.busqueda_Some(1,2), rule wft.busqueda_None)

lemma best_fit_minimo:
  "buscar_hueco_best_fit req hs = Some i \<Longrightarrow> h \<in> set hs \<Longrightarrow> req \<le> h_tamanio h \<Longrightarrow>
   h_tamanio (hs ! i) \<le> h_tamanio h"
  using bft.busqueda_Some(3) [of req hs i h] by (simp add: buscar_hueco_best_fit_def not_less)

lemma worst_fit_maximo:
  "buscar_hueco_worst_fit req hs = Some i \<Longrightarrow> h \<in> set hs \<Longrightarrow> req \<le> h_tamanio h \<Longrightarrow>
   h_tamanio h \<le> h_tamanio (hs ! i)"
  using wft.busqueda_Some(3) [of req hs i h] by (simp add: buscar_hueco_worst_fit_def not_less)

section \<open>The regions the other operations cover\<close>

lemma cuenta_liberar [cuenta_simps]:
  "cuenta (libres (hueco_liberar base tam hs)) a =
   cuenta ((unat base, unat tam) # libres hs) a"
  by (simp add: hueco_liberar_def cuenta_simps region_hueco_def)

lemma cuenta_extender:
  assumes "\<forall>h \<in> set hs. h_tamanio h \<noteq> 0 \<longrightarrow> unat (h_base h) + unat (h_tamanio h) \<le> unat base"
    and "unat base + unat n < 2 ^ 32"
  shows "cuenta (libres (huecos_extender base n hs)) a = cuenta ((unat base, unat n) # libres hs) a"
proof (cases "hs \<noteq> [] \<and> h_base (last hs) + h_tamanio (last hs) = base")
  case True
  define h where "h = last hs"
  have hs: "hs = butlast hs @ [h]" and hin: "h \<in> set hs" using True by (auto simp: h_def)
  have b: "unat base = unat (h_base h) + unat (h_tamanio h)"
  proof (cases "h_tamanio h = 0")
    case False
    then have cota: "unat (h_base h) + unat (h_tamanio h) \<le> unat base" using assms(1) hin by auto
    have "unat (h_base h + h_tamanio h) = unat (h_base h) + unat (h_tamanio h)"
      using le_less_trans [OF cota unat_u32_lt] by (intro unat_suma_u32) simp
    with True show ?thesis by (simp add: h_def)
  qed (use True in \<open>simp add: h_def\<close>)
  have t: "unat (h_tamanio h + n) = unat (h_tamanio h) + unat n"
    using b assms(2) by (intro unat_suma_u32) simp
  have "cuenta (libres hs) a = cuenta (libres (butlast hs)) a + cuenta [region_hueco h] a"
    by (subst hs) (simp add: cuenta_simps)
  moreover have "huecos_extender base n hs = butlast hs @ [h\<lparr>h_tamanio := h_tamanio h + n\<rparr>]"
    using True by (simp add: huecos_extender_def h_def)
  ultimately show ?thesis using b t by (auto simp: cuenta_simps region_hueco_def)
next
  case False
  then show ?thesis by (auto simp: huecos_extender_def cuenta_simps region_hueco_def)
qed

lemma total_libre_desde_of_nat:
  "total_libre_desde acum hs = acum + of_nat (extension (libres hs))"
  by (induction hs arbitrary: acum) (simp_all add: region_hueco_def)

lemma unat_total_libre:
  assumes "extension (libres hs) < 2 ^ 32"
  shows "unat (huecos_total_libre hs) = extension (libres hs)"
  using assms by (simp add: huecos_total_libre_def total_libre_desde_of_nat unat_of_nat)

lemma libres_reconstruir:
  assumes "b \<le> m"
  shows "cuenta (libres (huecos_reconstruir b m hs)) a =
         (if unat b \<le> a \<and> a < unat m then 1 else 0)"
  using assms
  by (auto simp: huecos_reconstruir_def cuenta_simps region_hueco_def unat_sub word_less_nat_alt
      word_le_nat_alt)

lemma libres_region: "h \<in> set hs \<Longrightarrow> (unat (h_base h), unat (h_tamanio h)) \<in> set (libres hs)"
  by (auto simp: libres_def region_hueco_def)

end
