(* ===== verification/MemoriaFisica.thy ===== *)
theory MemoriaFisica
  imports StickModulo Huecos
begin

text \<open>
  \<open>kernel_memory/src/memory_stick.c\<close>: the table of connected sticks, the translation of a
  global physical address into a stick and an offset, and the physical reads and writes,
  which split an operation at stick boundaries.  The processes at the other end of the
  sockets are the stick modules of \<open>StickModulo\<close>: \<open>red fd\<close> is the process connected at
  \<open>fd\<close>, and \<open>None\<close> a connection that is gone.  A request is written to the socket byte by
  byte, served by the stick's own loop, and its answer parsed.
\<close>

section \<open>State and operations\<close>

record t_memory_stick =
  ms_fd :: int
  ms_tamanio :: u32
  ms_base_global :: u32
  ms_ip :: string
  ms_puerto :: int

type_synonym sticks = "t_memory_stick list"
type_synonym red = "int \<Rightarrow> t_stick option"

text \<open>The globals \<open>lista_memory_sticks\<close>, \<open>memoria_total\<close> and \<open>lista_huecos\<close>.\<close>

record mapa_memoria =
  lista_sticks :: sticks
  memoria_total :: u32
  lista_huecos :: huecos

definition memory_sticks_init :: mapa_memoria where
  "memory_sticks_init = \<lparr>lista_sticks = [], memoria_total = 0, lista_huecos = huecos_init\<rparr>"

definition memory_stick_agregar :: "int \<Rightarrow> u32 \<Rightarrow> string \<Rightarrow> int \<Rightarrow> mapa_memoria \<Rightarrow> mapa_memoria" where
  "memory_stick_agregar fd tam ip puerto m =
     (let stick = \<lparr>ms_fd = fd, ms_tamanio = tam, ms_base_global = memoria_total m,
                   ms_ip = take 63 ip, ms_puerto = puerto\<rparr>
      in m\<lparr>lista_sticks := lista_sticks m @ [stick],
           memoria_total := memoria_total m + tam,
           lista_huecos := huecos_extender (ms_base_global stick) tam (lista_huecos m)\<rparr>)"

fun quitar_stick :: "int \<Rightarrow> sticks \<Rightarrow> sticks" where
  "quitar_stick fd [] = []"
| "quitar_stick fd (s # ss) = (if ms_fd s = fd then ss else s # quitar_stick fd ss)"

definition memory_stick_eliminar :: "int \<Rightarrow> mapa_memoria \<Rightarrow> mapa_memoria" where
  "memory_stick_eliminar fd m = m\<lparr>lista_sticks := quitar_stick fd (lista_sticks m)\<rparr>"

fun localizar_desde :: "u32 \<Rightarrow> u32 \<Rightarrow> sticks \<Rightarrow> (t_memory_stick \<times> u32) option" where
  "localizar_desde acumulado dir [] = None"
| "localizar_desde acumulado dir (s # ss) =
     (if dir < acumulado + ms_tamanio s then Some (s, dir - acumulado)
      else localizar_desde (acumulado + ms_tamanio s) dir ss)"

definition memory_stick_localizar :: "sticks \<Rightarrow> u32 \<Rightarrow> (t_memory_stick \<times> u32) option" where
  "memory_stick_localizar ss dir = localizar_desde 0 dir ss"

text \<open>
  One exchange: the bytes reach the process at \<open>fd\<close>, which serves them and answers.  A
  stick that overflows its buffer is gone, and its answer with it.
\<close>

definition intercambio :: "red \<Rightarrow> int \<Rightarrow> byte list \<Rightarrow> red \<times> byte list" where
  "intercambio red fd pedido =
     (case red fd of
        None \<Rightarrow> (red, [])
      | Some st \<Rightarrow>
          (case atender_operaciones st pedido of
             None \<Rightarrow> (red(fd := None), [])
           | Some (st', resp) \<Rightarrow> (red(fd := Some st'), resp)))"

lemma localizar_progreso:
  "localizar_desde acumulado dir ss = Some (s, off) \<Longrightarrow> ms_tamanio s - off \<noteq> 0"
  by (induction ss arbitrary: acumulado) (auto split: if_splits)

lemma avance_u32:
  fixes tam hechos paso :: u32
  assumes "hechos < tam" "paso \<noteq> 0" "paso \<le> tam - hechos"
  shows "unat (tam - (hechos + paso)) < unat (tam - hechos)"
proof -
  have "tam - (hechos + paso) = (tam - hechos) - paso" by (simp only: diff_diff_eq)
  moreover have "unat (tam - hechos - paso) = unat (tam - hechos) - unat paso"
    using assms(3) by (rule unat_resta_u32)
  moreover have "0 < unat paso" using assms(2) by (simp add: unat_gt_0)
  moreover have "unat paso \<le> unat (tam - hechos)" using assms(3) by (simp add: word_le_nat_alt)
  ultimately show ?thesis by (simp only: diff_less)
qed

lemma resta_pos_u32: "(h :: u32) < t \<Longrightarrow> 0 < unat (t - h)"
  by (simp add: unat_gt_0)

text \<open>The two loops; \<open>leidos\<close> and \<open>escritos\<close> count the bytes already moved.\<close>

function leer_bucle :: "sticks \<Rightarrow> red \<Rightarrow> u32 \<Rightarrow> u32 \<Rightarrow> u32 \<Rightarrow> byte list \<Rightarrow> red \<times> byte list option"
  where
  "leer_bucle ss red dir tam leidos destino =
     (if leidos < tam then
        (case memory_stick_localizar ss (dir + leidos) of
           None \<Rightarrow> (red, None)
         | Some (stick, offset) \<Rightarrow>
             let restante_op = tam - leidos;
                 restante_stick = ms_tamanio stick - offset;
                 a_leer = (if restante_op < restante_stick then restante_op else restante_stick);
                 (red', resp) = intercambio red (ms_fd stick) (pedido_leer offset a_leer)
             in (case recibir_int resp of
                   None \<Rightarrow> (red', None)
                 | Some (status, r) \<Rightarrow>
                     if status \<noteq> codigo OP_OK then (red', None)
                     else (case recibir_exacto (unat a_leer) r of
                             None \<Rightarrow> (red', None)
                           | Some (bs, _) \<Rightarrow>
                               leer_bucle ss red' dir tam (leidos + a_leer) (destino @ bs))))
      else (red, Some destino))"
  by pat_completeness auto
termination
  by (relation "measure (\<lambda>(ss, red, dir, tam, leidos, destino). unat (tam - leidos))")
    (auto simp: memory_stick_localizar_def not_less dest: localizar_progreso intro!: avance_u32 resta_pos_u32)

function escribir_bucle :: "sticks \<Rightarrow> red \<Rightarrow> u32 \<Rightarrow> u32 \<Rightarrow> u32 \<Rightarrow> byte list \<Rightarrow> red \<times> bool" where
  "escribir_bucle ss red dir tam escritos origen =
     (if escritos < tam then
        (case memory_stick_localizar ss (dir + escritos) of
           None \<Rightarrow> (red, False)
         | Some (stick, offset) \<Rightarrow>
             let restante_op = tam - escritos;
                 restante_stick = ms_tamanio stick - offset;
                 a_escribir = (if restante_op < restante_stick then restante_op else restante_stick);
                 (red', resp) = intercambio red (ms_fd stick)
                   (pedido_escribir offset a_escribir
                      (ventana (unat escritos) (unat a_escribir) origen))
             in (case recibir_int resp of
                   None \<Rightarrow> (red', False)
                 | Some (status, r) \<Rightarrow>
                     if status \<noteq> codigo OP_OK then (red', False)
                     else escribir_bucle ss red' dir tam (escritos + a_escribir) origen))
      else (red, True))"
  by pat_completeness auto
termination
  by (relation "measure (\<lambda>(ss, red, dir, tam, escritos, origen). unat (tam - escritos))")
    (auto simp: memory_stick_localizar_def not_less dest: localizar_progreso intro!: avance_u32 resta_pos_u32)

declare leer_bucle.simps [simp del] escribir_bucle.simps [simp del]

definition memoria_fisica_leer :: "sticks \<Rightarrow> red \<Rightarrow> u32 \<Rightarrow> u32 \<Rightarrow> red \<times> byte list option" where
  "memoria_fisica_leer ss red dir tam = leer_bucle ss red dir tam 0 []"

definition memoria_fisica_escribir :: "sticks \<Rightarrow> red \<Rightarrow> u32 \<Rightarrow> u32 \<Rightarrow> byte list \<Rightarrow> red \<times> bool" where
  "memoria_fisica_escribir ss red dir tam origen = escribir_bucle ss red dir tam 0 origen"

section \<open>Abstraction: one flat byte image\<close>

definition trozo :: "red \<Rightarrow> t_memory_stick \<Rightarrow> byte list" where
  "trozo red s = (case red (ms_fd s) of None \<Rightarrow> [] | Some st \<Rightarrow> st_memoria st)"

definition imagen :: "sticks \<Rightarrow> red \<Rightarrow> byte list" where
  "imagen ss red = concat (map (trozo red) ss)"

definition stick_conectado :: "red \<Rightarrow> t_memory_stick \<Rightarrow> bool" where
  "stick_conectado red s \<longleftrightarrow>
     (case red (ms_fd s) of
        None \<Rightarrow> False | Some st \<Rightarrow> stick_valido st \<and> st_tamanio st = ms_tamanio s)"

definition capacidad :: "sticks \<Rightarrow> nat" where
  "capacidad ss = sum_list (map (\<lambda>s. unat (ms_tamanio s)) ss)"

definition fisica_valida :: "sticks \<Rightarrow> red \<Rightarrow> bool" where
  "fisica_valida ss red \<longleftrightarrow>
     (\<forall>s \<in> set ss. stick_conectado red s) \<and> distinct (map ms_fd ss) \<and> capacidad ss < 2 ^ 32"

lemma length_trozo: "stick_conectado red s \<Longrightarrow> length (trozo red s) = unat (ms_tamanio s)"
  by (auto simp: stick_conectado_def trozo_def stick_valido_def split: option.splits)

lemma length_imagen: "\<forall>s \<in> set ss. stick_conectado red s \<Longrightarrow> length (imagen ss red) = capacidad ss"
  by (induction ss) (auto simp: imagen_def capacidad_def length_trozo)

lemma capacidad_simps [simp]:
  "capacidad [] = 0" "capacidad (s # ss) = unat (ms_tamanio s) + capacidad ss"
  "capacidad (ss @ ts) = capacidad ss + capacidad ts"
  by (simp_all add: capacidad_def)

lemma imagen_simps [simp]:
  "imagen [] red = []" "imagen (s # ss) red = trozo red s @ imagen ss red"
  "imagen (ss @ ts) red = imagen ss red @ imagen ts red"
  by (simp_all add: imagen_def)

section \<open>The translation of addresses\<close>

lemma localizar_desde_dentro:
  assumes "unat acum + capacidad ss < 2 ^ 32" "unat acum \<le> unat dir"
    and "unat dir < unat acum + capacidad ss"
  shows "\<exists>pre s post off. ss = pre @ s # post \<and> localizar_desde acum dir ss = Some (s, off) \<and>
     unat dir = unat acum + capacidad pre + unat off \<and> unat off < unat (ms_tamanio s)"
  using assms
proof (induction ss arbitrary: acum)
  case Nil
  then show ?case by simp
next
  case (Cons t ss)
  have suma: "unat (acum + ms_tamanio t) = unat acum + unat (ms_tamanio t)"
    using Cons.prems(1) by (intro unat_suma_u32) simp
  show ?case
  proof (cases "dir < acum + ms_tamanio t")
    case True
    have "unat (dir - acum) = unat dir - unat acum"
      using Cons.prems(2) by (intro unat_resta_u32) (simp add: word_le_nat_alt)
    with True Cons.prems(2) suma show ?thesis
      by (intro exI [of _ "[]"] exI [of _ t] exI [of _ ss] exI [of _ "dir - acum"])
         (auto simp: word_less_nat_alt)
  next
    case False
    then have le: "unat (acum + ms_tamanio t) \<le> unat dir" by (simp add: not_less word_le_nat_alt)
    obtain pre s post off where
      "ss = pre @ s # post" "localizar_desde (acum + ms_tamanio t) dir ss = Some (s, off)"
      "unat dir = unat (acum + ms_tamanio t) + capacidad pre + unat off"
      "unat off < unat (ms_tamanio s)"
      using Cons.IH [of "acum + ms_tamanio t"] Cons.prems le suma by auto
    with False suma show ?thesis
      by (intro exI [of _ "t # pre"] exI [of _ s] exI [of _ post] exI [of _ off]) simp
  qed
qed

lemma localizar_desde_fuera:
  assumes "unat acum + capacidad ss < 2 ^ 32" "unat acum + capacidad ss \<le> unat dir"
  shows "localizar_desde acum dir ss = None"
  using assms
proof (induction ss arbitrary: acum)
  case Nil
  then show ?case by simp
next
  case (Cons t ss)
  have suma: "unat (acum + ms_tamanio t) = unat acum + unat (ms_tamanio t)"
    using Cons.prems(1) by (intro unat_suma_u32) simp
  with Cons show ?case by (simp add: word_less_nat_alt)
qed

section \<open>Reads and writes on the flat image\<close>

text \<open>One turn of either loop stays inside one stick and makes progress.\<close>

lemma paso_fisico:
  assumes "fisica_valida ss red" "unat dir + unat hechos < capacidad ss" "hechos < tam"
  obtains pre s post off a where
    "ss = pre @ s # post" "memory_stick_localizar ss (dir + hechos) = Some (s, off)"
    "a = (if tam - hechos < ms_tamanio s - off then tam - hechos else ms_tamanio s - off)"
    "unat dir + unat hechos = capacidad pre + unat off"
    "unat off + unat a \<le> unat (ms_tamanio s)" "0 < unat a"
    "unat hechos + unat a \<le> unat tam" "unat (hechos + a) = unat hechos + unat a"
proof -
  have cap: "capacidad ss < 2 ^ 32" using assms(1) by (simp add: fisica_valida_def)
  have h: "unat hechos < unat tam" using assms(3) by (simp add: word_less_nat_alt)
  have d: "unat (dir + hechos) = unat dir + unat hechos"
    using assms(2) cap h by (intro unat_suma_u32) simp
  obtain pre s post off where ss: "ss = pre @ s # post"
    and loc: "localizar_desde 0 (dir + hechos) ss = Some (s, off)"
    and dir: "unat (dir + hechos) = capacidad pre + unat off"
    and off: "unat off < unat (ms_tamanio s)"
    using localizar_desde_dentro [of 0 ss "dir + hechos"] cap assms(2) h d by auto
  define a where "a = (if tam - hechos < ms_tamanio s - off then tam - hechos else ms_tamanio s - off)"
  have r1: "unat (tam - hechos) = unat tam - unat hechos"
    using assms(3) by (intro unat_resta_u32) simp
  have r2: "unat (ms_tamanio s - off) = unat (ms_tamanio s) - unat off"
    using off by (intro unat_resta_u32) (simp add: word_le_nat_alt)
  have a: "unat a = min (unat tam - unat hechos) (unat (ms_tamanio s) - unat off)"
    by (auto simp: a_def word_less_nat_alt r1 r2)
  have "unat hechos + unat a < 2 ^ 32"
    using a unat_u32_lt [of tam] h by simp
  then have "unat (hechos + a) = unat hechos + unat a" by (rule unat_suma_u32)
  with that [of pre s post off a] show thesis
    using ss loc dir d off a h a_def by (auto simp: memory_stick_localizar_def)
qed

text \<open>
  A located offset is inside its stick, also when the sizes add up to more than 32 bits, so a
  read from the sticks that are still connected changes none of them.
\<close>

lemma resta_dentro_u32:
  fixes a d t :: u32
  assumes "a \<le> d" "d < a + t"
  shows "d - a < t"
proof -
  have "unat (a + t) \<le> unat a + unat t" by (simp add: unat_word_ariths(1) mod_le_divisor)
  then have "unat d < unat a + unat t" using assms(2) by (simp add: word_less_nat_alt)
  then show ?thesis using assms(1) by (simp add: word_less_nat_alt unat_resta_u32 word_le_nat_alt)
qed

lemma localizar_dentro:
  "localizar_desde acumulado dir ss = Some (s, off) \<Longrightarrow> acumulado \<le> dir \<Longrightarrow>
   s \<in> set ss \<and> off < ms_tamanio s"
  by (induction ss arbitrary: acumulado) (auto simp: not_less resta_dentro_u32 split: if_splits)

definition sticks_fieles :: "sticks \<Rightarrow> red \<Rightarrow> bool" where
  "sticks_fieles ss red \<longleftrightarrow>
     (\<forall>s \<in> set ss. \<forall>st. red (ms_fd s) = Some st \<longrightarrow> stick_valido st \<and> st_tamanio st = ms_tamanio s)"

lemma fisica_fieles: "fisica_valida ss red \<Longrightarrow> sticks_fieles ss red"
  by (auto simp: fisica_valida_def stick_conectado_def sticks_fieles_def)

lemma atender_lectura:
  assumes "stick_valido st" "off \<le> st_tamanio st"
  shows "\<exists>resp. atender_operaciones st (pedido_leer off n) = Some (st, resp)"
proof -
  have "\<exists>resp. stick_operacion st (pedido_leer off n) = Sirve st resp []"
    using assms lectura_chequeo [OF assms(2), of n]
    by (auto simp: stick_operacion_def pedido_leer_def stick_leer_def stick_valido_def)
  then show ?thesis by (auto simp: atender_operaciones.simps [of st "pedido_leer off n"])
qed

lemma leer_no_escribe:
  assumes "sticks_fieles ss red"
  shows "fst (memoria_fisica_leer ss red dir tam) = red"
proof -
  have "fst (leer_bucle ss red dir tam leidos dst) = red" for leidos dst
  proof (induction "unat (tam - leidos)" arbitrary: leidos dst rule: less_induct)
    case less
    show ?case
    proof (cases "leidos < tam \<and> memory_stick_localizar ss (dir + leidos) \<noteq> None")
      case True
      then obtain s off where l: "memory_stick_localizar ss (dir + leidos) = Some (s, off)" by auto
      define a where "a = (if tam - leidos < ms_tamanio s - off then tam - leidos else ms_tamanio s - off)"
      have s: "s \<in> set ss" "off < ms_tamanio s"
        using localizar_dentro [of 0 "dir + leidos" ss s off] l by (simp_all add: memory_stick_localizar_def)
      have "intercambio red (ms_fd s) (pedido_leer off a) = (red, snd (intercambio red (ms_fd s) (pedido_leer off a)))"
      proof (cases "red (ms_fd s)")
        case (Some st)
        then have "stick_valido st" "off \<le> st_tamanio st" using assms s by (auto simp: sticks_fieles_def)
        from atender_lectura [OF this, of a] show ?thesis using Some by (auto simp: intercambio_def fun_upd_idem)
      qed (simp add: intercambio_def)
      then obtain resp where i: "intercambio red (ms_fd s) (pedido_leer off a) = (red, resp)" by metis
      have "unat (tam - (leidos + a)) < unat (tam - leidos)"
        using True l localizar_progreso [of 0 "dir + leidos" ss s off]
        by (intro avance_u32) (auto simp: a_def memory_stick_localizar_def not_less resta_pos_u32)
      note sigue = less [OF this]
      have "leer_bucle ss red dir tam leidos dst =
          (case recibir_int resp of None \<Rightarrow> (red, None)
           | Some (status, r) \<Rightarrow>
               if status \<noteq> codigo OP_OK then (red, None)
               else (case recibir_exacto (unat a) r of None \<Rightarrow> (red, None)
                     | Some (bs, _) \<Rightarrow> leer_bucle ss red dir tam (leidos + a) (dst @ bs)))"
        using True l by (subst leer_bucle.simps) (simp only: Let_def a_def [symmetric] i option.case prod.case if_True)
      then show ?thesis by (simp add: sigue split: option.split prod.split)
    next
      case False
      then show ?thesis
        by (cases "leidos < tam"; cases "memory_stick_localizar ss (dir + leidos)")
          (simp_all add: leer_bucle.simps [of ss red dir tam leidos dst])
    qed
  qed
  then show ?thesis by (simp add: memoria_fisica_leer_def)
qed

lemma intercambio_leer:
  assumes "stick_conectado red s" "unat off + unat n \<le> unat (ms_tamanio s)"
  shows "intercambio red (ms_fd s) (pedido_leer off n) =
         (red, bytes_int (codigo OP_OK) @ ventana (unat off) (unat n) (trozo red s))"
  using assms
  by (auto simp: stick_conectado_def intercambio_def trozo_def servir_lectura fun_upd_idem
      split: option.splits)

lemma ventana_trozo:
  assumes "\<forall>s \<in> set ss. stick_conectado red s" "ss = pre @ s # post"
    and "o' + n \<le> unat (ms_tamanio s)"
  shows "ventana (capacidad pre + o') n (imagen ss red) = ventana o' n (trozo red s)"
  using assms length_imagen [of pre red] length_trozo [of red s]
  by (simp add: ventana_def)

lemma leer_bucle_ok:
  assumes "fisica_valida ss red" "unat dir + unat tam \<le> capacidad ss" "unat leidos \<le> unat tam"
  shows "leer_bucle ss red dir tam leidos dst =
    (red, Some (dst @ ventana (unat dir + unat leidos) (unat tam - unat leidos) (imagen ss red)))"
  using assms(3)
proof (induction "unat tam - unat leidos" arbitrary: leidos dst rule: less_induct)
  case less
  have con: "\<forall>s \<in> set ss. stick_conectado red s"
    using assms(1) by (simp add: fisica_valida_def)
  show ?case
  proof (cases "leidos < tam")
    case False
    then have "unat leidos = unat tam" using less.prems by (simp add: word_less_nat_alt)
    with False show ?thesis by (simp add: leer_bucle.simps)
  next
    case True
    have dentro: "unat dir + unat leidos < capacidad ss"
      using True assms(2) by (simp add: word_less_nat_alt)
    obtain pre s post off a where p: "ss = pre @ s # post"
      "memory_stick_localizar ss (dir + leidos) = Some (s, off)"
      "a = (if tam - leidos < ms_tamanio s - off then tam - leidos else ms_tamanio s - off)"
      "unat dir + unat leidos = capacidad pre + unat off"
      "unat off + unat a \<le> unat (ms_tamanio s)" "0 < unat a"
      "unat leidos + unat a \<le> unat tam" "unat (leidos + a) = unat leidos + unat a"
      by (rule paso_fisico [OF assms(1) dentro True])
    let ?v = "ventana (unat off) (unat a) (trozo red s)"
    have s: "stick_conectado red s" using con p(1) by simp
    have "length ?v = unat a" using p(5) length_trozo [OF s] by simp
    then have paso: "leer_bucle ss red dir tam leidos dst =
        leer_bucle ss red dir tam (leidos + a) (dst @ ?v)"
      using True p(2) intercambio_leer [OF s p(5)]
      by (subst leer_bucle.simps) (simp add: p(3) [symmetric])
    have "?v = ventana (unat dir + unat leidos) (unat a) (imagen ss red)"
      using ventana_trozo [OF con p(1) p(5)] p(4) by simp
    moreover have "leer_bucle ss red dir tam (leidos + a) (dst @ ?v) =
      (red, Some ((dst @ ?v) @ ventana (unat dir + unat (leidos + a))
                                (unat tam - unat (leidos + a)) (imagen ss red)))"
      using p(6,7,8) by (intro less.hyps) auto
    moreover have "ventana (unat dir + unat leidos) (unat a) (imagen ss red) @
        ventana (unat dir + unat leidos + unat a) (unat tam - (unat leidos + unat a)) (imagen ss red)
        = ventana (unat dir + unat leidos) (unat tam - unat leidos) (imagen ss red)"
      using p(7) assms(2) length_imagen [OF con]
      by (subst ventana_suma) auto
    ultimately show ?thesis using paso p(8) by (simp add: add.assoc)
  qed
qed

theorem memoria_fisica_leer_ok:
  assumes "fisica_valida ss red" "unat dir + unat tam \<le> capacidad ss"
  shows "memoria_fisica_leer ss red dir tam = (red, Some (ventana (unat dir) (unat tam) (imagen ss red)))"
  using leer_bucle_ok [OF assms, of 0 "[]"] by (simp add: memoria_fisica_leer_def)

section \<open>Writes\<close>

lemma intercambio_escribir:
  assumes "stick_conectado red s" "unat off + unat n \<le> unat (ms_tamanio s)"
    and "length datos = unat n"
  shows "intercambio red (ms_fd s) (pedido_escribir off n datos) =
         (red(ms_fd s := map_option (\<lambda>st. st\<lparr>st_memoria := empalmar (unat off) datos (st_memoria st)\<rparr>)
                            (red (ms_fd s))), bytes_int (codigo OP_OK))"
  using assms
  by (auto simp: stick_conectado_def intercambio_def servir_escritura split: option.splits)

lemma escribir_trozo:
  assumes "fisica_valida ss red" "ss = pre @ s # post"
    and "unat off + length datos \<le> unat (ms_tamanio s)"
    and "red' = red(ms_fd s := map_option (\<lambda>st. st\<lparr>st_memoria := empalmar (unat off) datos (st_memoria st)\<rparr>)
                            (red (ms_fd s)))"
  shows "fisica_valida ss red'"
    "imagen ss red' = empalmar (capacidad pre + unat off) datos (imagen ss red)"
proof -
  have con: "\<forall>t \<in> set ss. stick_conectado red t" and dist: "distinct (map ms_fd ss)"
    using assms(1) by (simp_all add: fisica_valida_def)
  have otros: "\<And>t. t \<in> set pre \<union> set post \<Longrightarrow> ms_fd t \<noteq> ms_fd s"
  proof -
    fix t assume t: "t \<in> set pre \<union> set post"
    have "ms_fd s \<notin> ms_fd ` (set pre \<union> set post)"
      using dist unfolding assms(2) by (simp add: image_Un)
    then show "ms_fd t \<noteq> ms_fd s" using t by (metis imageI)
  qed
  have s: "stick_conectado red s" using con assms(2) by simp
  have con': "stick_conectado red' t" if "t \<in> set ss" for t
  proof (cases "ms_fd t = ms_fd s")
    case True
    then have "t = s" using that assms(2) otros by auto
    with s assms(3) show ?thesis
      by (auto simp: stick_conectado_def assms(4) servir_escritura_valido split: option.splits)
  next
    case False
    with con that show ?thesis by (simp add: stick_conectado_def assms(4))
  qed
  with assms(1) show "fisica_valida ss red'" by (simp add: fisica_valida_def)
  have ig: "trozo red' t = trozo red t" if "t \<in> set pre \<union> set post" for t
    using otros [OF that] by (simp add: trozo_def assms(4))
  have "trozo red' s = empalmar (unat off) datos (trozo red s)"
    using s by (auto simp: trozo_def assms(4) stick_conectado_def split: option.splits)
  moreover have "imagen pre red' = imagen pre red" "imagen post red' = imagen post red"
    using ig by (simp_all add: imagen_def cong: map_cong)
  ultimately show "imagen ss red' = empalmar (capacidad pre + unat off) datos (imagen ss red)"
    using assms(2,3) length_imagen [of pre red] con length_trozo [OF s]
    by (simp add: empalmar_def)
qed

lemma escribir_bucle_ok:
  assumes "fisica_valida ss red" "unat dir + unat tam \<le> capacidad ss" "unat escritos \<le> unat tam"
    and "unat tam \<le> length org"
  shows "\<exists>red'. escribir_bucle ss red dir tam escritos org = (red', True) \<and> fisica_valida ss red' \<and>
    imagen ss red' = empalmar (unat dir + unat escritos)
                       (ventana (unat escritos) (unat tam - unat escritos) org) (imagen ss red)"
  using assms(1,3)
proof (induction "unat tam - unat escritos" arbitrary: escritos red rule: less_induct)
  case less
  have con: "\<forall>s \<in> set ss. stick_conectado red s"
    using less.prems(1) by (simp add: fisica_valida_def)
  show ?case
  proof (cases "escritos < tam")
    case False
    then have "unat escritos = unat tam" using less.prems by (simp add: word_less_nat_alt)
    with False less.prems assms(2) length_imagen [OF con] show ?thesis
      by (simp add: escribir_bucle.simps)
  next
    case True
    have dentro: "unat dir + unat escritos < capacidad ss"
      using True assms(2) by (simp add: word_less_nat_alt)
    obtain pre s post off a where p: "ss = pre @ s # post"
      "memory_stick_localizar ss (dir + escritos) = Some (s, off)"
      "a = (if tam - escritos < ms_tamanio s - off then tam - escritos else ms_tamanio s - off)"
      "unat dir + unat escritos = capacidad pre + unat off"
      "unat off + unat a \<le> unat (ms_tamanio s)" "0 < unat a"
      "unat escritos + unat a \<le> unat tam" "unat (escritos + a) = unat escritos + unat a"
      by (rule paso_fisico [OF less.prems(1) dentro True])
    let ?v = "ventana (unat escritos) (unat a) org"
    have s: "stick_conectado red s" using con p(1) by simp
    have lv: "length ?v = unat a" using p(7) assms(4) by simp
    obtain red1 where red1: "red1 = red(ms_fd s := map_option
        (\<lambda>st. st\<lparr>st_memoria := empalmar (unat off) ?v (st_memoria st)\<rparr>) (red (ms_fd s)))"
      by simp
    have paso: "escribir_bucle ss red dir tam escritos org =
        escribir_bucle ss red1 dir tam (escritos + a) org"
      using True p(2) intercambio_escribir [OF s p(5) lv]
      by (subst escribir_bucle.simps) (simp add: p(3) [symmetric] red1)
    have lv5: "unat off + length ?v \<le> unat (ms_tamanio s)" using p(5) lv by simp
    note e = escribir_trozo [OF less.prems(1) p(1) lv5 red1]
    have menos: "unat tam - unat (escritos + a) < unat tam - unat escritos"
      and hasta: "unat (escritos + a) \<le> unat tam"
      using p(6,7) unfolding p(8) by linarith+
    obtain red' where r: "escribir_bucle ss red1 dir tam (escritos + a) org = (red', True)"
      "fisica_valida ss red'"
      "imagen ss red' = empalmar (unat dir + unat (escritos + a))
          (ventana (unat (escritos + a)) (unat tam - unat (escritos + a)) org) (imagen ss red1)"
      using less.hyps [OF menos e(1) hasta] by blast
    have v: "ventana (unat escritos) (unat tam - unat escritos) org =
        ?v @ ventana (unat escritos + unat a) (unat tam - (unat escritos + unat a)) org"
      using p(7) assms(4) by (subst ventana_suma) auto
    let ?w = "ventana (unat escritos + unat a) (unat tam - (unat escritos + unat a)) org"
    have pos: "unat dir + unat (escritos + a) = unat dir + unat escritos + length ?v"
      using p(8) lv by simp
    have cabe: "unat dir + unat escritos + length ?v + length ?w \<le> length (imagen ss red)"
      using p(7) lv assms(2,4) length_imagen [OF con] by simp
    have "imagen ss red' = empalmar (unat dir + unat escritos)
        (ventana (unat escritos) (unat tam - unat escritos) org) (imagen ss red)"
      using empalmar_suma [OF cabe] unfolding v r(3) pos p(4) e(2) by (simp add: p(8))
    with paso r show ?thesis by auto
  qed
qed

theorem memoria_fisica_escribir_ok:
  assumes "fisica_valida ss red" "unat dir + unat tam \<le> capacidad ss" "unat tam \<le> length org"
  shows "\<exists>red'. memoria_fisica_escribir ss red dir tam org = (red', True) \<and> fisica_valida ss red' \<and>
    imagen ss red' = empalmar (unat dir) (take (unat tam) org) (imagen ss red)"
  using escribir_bucle_ok [OF assms(1,2), of 0 org] assms(3)
  by (simp add: memoria_fisica_escribir_def ventana_def)

section \<open>Accesses out of range\<close>

text \<open>
  A read that goes past the last stick fails.  A write that does fails too, but only after
  the part that fits has been stored: it is not all or nothing.
\<close>

lemma leer_bucle_fuera:
  assumes "fisica_valida ss red" "capacidad ss < unat dir + unat tam" "leidos < tam"
    and "unat dir + unat leidos \<le> capacidad ss \<or> leidos = 0"
  shows "leer_bucle ss red dir tam leidos dst = (red, None)"
  using assms(3,4)
proof (induction "unat tam - unat leidos" arbitrary: leidos dst rule: less_induct)
  case less
  have cap: "capacidad ss < 2 ^ 32" using assms(1) by (simp add: fisica_valida_def)
  show ?case
  proof (cases "unat dir + unat leidos < capacidad ss")
    case False
    have "unat (dir + leidos) = unat dir + unat leidos"
    proof (cases "leidos = 0")
      case False
      then have "unat dir + unat leidos \<le> capacidad ss" using less.prems by simp
      with cap show ?thesis by (intro unat_suma_u32) simp
    qed simp
    with False cap have "localizar_desde 0 (dir + leidos) ss = None"
      by (intro localizar_desde_fuera) auto
    with less.prems show ?thesis
      by (simp add: leer_bucle.simps memory_stick_localizar_def)
  next
    case True
    obtain pre s post off a where p: "ss = pre @ s # post"
      "memory_stick_localizar ss (dir + leidos) = Some (s, off)"
      "a = (if tam - leidos < ms_tamanio s - off then tam - leidos else ms_tamanio s - off)"
      "unat dir + unat leidos = capacidad pre + unat off"
      "unat off + unat a \<le> unat (ms_tamanio s)" "0 < unat a"
      "unat leidos + unat a \<le> unat tam" "unat (leidos + a) = unat leidos + unat a"
      by (rule paso_fisico [OF assms(1) True less.prems(1)])
    let ?v = "ventana (unat off) (unat a) (trozo red s)"
    have s: "stick_conectado red s" using assms(1) p(1) by (simp add: fisica_valida_def)
    have "length ?v = unat a" using p(5) length_trozo [OF s] by simp
    then have paso: "leer_bucle ss red dir tam leidos dst =
        leer_bucle ss red dir tam (leidos + a) (dst @ ?v)"
      using less.prems(1) p(2) intercambio_leer [OF s p(5)]
      by (subst leer_bucle.simps) (simp add: p(3) [symmetric])
    have hasta: "unat dir + unat (leidos + a) \<le> capacidad ss"
      using p(1,4,5) unfolding p(8) by simp
    then have sigue: "leidos + a < tam"
      using assms(2) by (simp add: word_less_nat_alt)
    have menos: "unat tam - unat (leidos + a) < unat tam - unat leidos"
      using p(6,7) unfolding p(8) by linarith
    show ?thesis using less.hyps [OF menos sigue] hasta paso by simp
  qed
qed

theorem memoria_fisica_leer_fuera:
  assumes "fisica_valida ss red" "capacidad ss < unat dir + unat tam" "tam \<noteq> 0"
  shows "memoria_fisica_leer ss red dir tam = (red, None)"
  using leer_bucle_fuera [OF assms(1,2), of 0 "[]"] assms(3)
  by (simp add: memoria_fisica_leer_def word_neq_0_conv)

lemma escribir_bucle_fuera:
  assumes "fisica_valida ss red" "capacidad ss < unat dir + unat tam" "escritos < tam"
    and "unat tam \<le> length org" "unat dir + unat escritos \<le> capacidad ss"
  shows "\<exists>red'. escribir_bucle ss red dir tam escritos org = (red', False) \<and> fisica_valida ss red' \<and>
    imagen ss red' = empalmar (unat dir + unat escritos)
       (ventana (unat escritos) (capacidad ss - unat dir - unat escritos) org) (imagen ss red)"
  using assms(1,3,5)
proof (induction "unat tam - unat escritos" arbitrary: escritos red rule: less_induct)
  case less
  have cap: "capacidad ss < 2 ^ 32" and con: "\<forall>s \<in> set ss. stick_conectado red s"
    using less.prems(1) by (simp_all add: fisica_valida_def)
  show ?case
  proof (cases "unat dir + unat escritos < capacidad ss")
    case False
    then have eq: "unat dir + unat escritos = capacidad ss" using less.prems by simp
    then have "unat (dir + escritos) = capacidad ss"
      using cap by (subst unat_suma_u32) auto
    then have "localizar_desde 0 (dir + escritos) ss = None"
      using cap by (intro localizar_desde_fuera) auto
    with less.prems eq length_imagen [OF con] show ?thesis
      by (simp add: escribir_bucle.simps memory_stick_localizar_def)
  next
    case True
    obtain pre s post off a where p: "ss = pre @ s # post"
      "memory_stick_localizar ss (dir + escritos) = Some (s, off)"
      "a = (if tam - escritos < ms_tamanio s - off then tam - escritos else ms_tamanio s - off)"
      "unat dir + unat escritos = capacidad pre + unat off"
      "unat off + unat a \<le> unat (ms_tamanio s)" "0 < unat a"
      "unat escritos + unat a \<le> unat tam" "unat (escritos + a) = unat escritos + unat a"
      by (rule paso_fisico [OF less.prems(1) True less.prems(2)])
    let ?v = "ventana (unat escritos) (unat a) org"
    have s: "stick_conectado red s" using con p(1) by simp
    have lv: "length ?v = unat a" using p(7) assms(4) by simp
    obtain red1 where red1: "red1 = red(ms_fd s := map_option
        (\<lambda>st. st\<lparr>st_memoria := empalmar (unat off) ?v (st_memoria st)\<rparr>) (red (ms_fd s)))"
      by simp
    have paso: "escribir_bucle ss red dir tam escritos org =
        escribir_bucle ss red1 dir tam (escritos + a) org"
      using less.prems(2) p(2) intercambio_escribir [OF s p(5) lv]
      by (subst escribir_bucle.simps) (simp add: p(3) [symmetric] red1)
    have lv5: "unat off + length ?v \<le> unat (ms_tamanio s)" using p(5) lv by simp
    note e = escribir_trozo [OF less.prems(1) p(1) lv5 red1]
    have hasta: "unat dir + unat (escritos + a) \<le> capacidad ss"
      using p(1,4,5) unfolding p(8) by simp
    then have sigue: "escritos + a < tam"
      using assms(2) by (simp add: word_less_nat_alt)
    have menos: "unat tam - unat (escritos + a) < unat tam - unat escritos"
      using p(6,7) unfolding p(8) by linarith
    obtain red' where r: "escribir_bucle ss red1 dir tam (escritos + a) org = (red', False)"
      "fisica_valida ss red'"
      "imagen ss red' = empalmar (unat dir + unat (escritos + a))
          (ventana (unat (escritos + a)) (capacidad ss - unat dir - unat (escritos + a)) org)
          (imagen ss red1)"
      using less.hyps [OF menos e(1) sigue hasta] by blast
    let ?w = "ventana (unat escritos + unat a) (capacidad ss - unat dir - (unat escritos + unat a)) org"
    have pos: "unat dir + unat (escritos + a) = unat dir + unat escritos + length ?v"
      using p(8) lv by simp
    have corte: "capacidad ss - unat dir - unat escritos =
        unat a + (capacidad ss - unat dir - (unat escritos + unat a))"
      using hasta unfolding p(8) by simp
    have v: "ventana (unat escritos) (capacidad ss - unat dir - unat escritos) org = ?v @ ?w"
      unfolding corte using hasta assms(2,4) unfolding p(8) by (subst ventana_suma) auto
    have lw: "length ?w = capacidad ss - unat dir - (unat escritos + unat a)"
      using hasta assms(2,4) unfolding p(8) by (intro length_ventana) simp
    have cabe: "unat dir + unat escritos + length ?v + length ?w \<le> length (imagen ss red)"
      using hasta unfolding p(8) lv lw length_imagen [OF con] by simp
    have "imagen ss red' = empalmar (unat dir + unat escritos)
        (ventana (unat escritos) (capacidad ss - unat dir - unat escritos) org) (imagen ss red)"
      using empalmar_suma [OF cabe] unfolding v r(3) pos p(4) e(2) by (simp add: p(8))
    with paso r show ?thesis by auto
  qed
qed

theorem memoria_fisica_escribir_fuera:
  assumes "fisica_valida ss red" "capacidad ss < unat dir + unat tam" "unat dir \<le> capacidad ss"
    and "unat tam \<le> length org"
  shows "\<exists>red'. memoria_fisica_escribir ss red dir tam org = (red', False) \<and> fisica_valida ss red' \<and>
    imagen ss red' = empalmar (unat dir) (take (capacidad ss - unat dir) org) (imagen ss red)"
proof -
  have "0 < tam" using assms(2,3) by (simp add: word_less_nat_alt)
  then show ?thesis
    using escribir_bucle_fuera [OF assms(1,2), of 0 org] assms(3,4)
    by (simp add: memoria_fisica_escribir_def ventana_def)
qed

section \<open>The interface the clients of the physical memory use\<close>

locale memoria_direccionable =
  fixes leer :: "'m \<Rightarrow> u32 \<Rightarrow> u32 \<Rightarrow> 'm \<times> byte list option"
    and escribir :: "'m \<Rightarrow> u32 \<Rightarrow> u32 \<Rightarrow> byte list \<Rightarrow> 'm \<times> bool"
    and bytes_de :: "'m \<Rightarrow> byte list"
    and valida :: "'m \<Rightarrow> bool"
  assumes leer_ok: "valida m \<Longrightarrow> unat d + unat n \<le> length (bytes_de m) \<Longrightarrow>
      leer m d n = (m, Some (ventana (unat d) (unat n) (bytes_de m)))"
    and escribir_ok: "valida m \<Longrightarrow> unat d + unat n \<le> length (bytes_de m) \<Longrightarrow> unat n \<le> length datos \<Longrightarrow>
      \<exists>m'. escribir m d n datos = (m', True) \<and> valida m' \<and>
           bytes_de m' = empalmar (unat d) (take (unat n) datos) (bytes_de m)"
begin

lemma leer_escrito:
  assumes "valida m" "unat d + unat n \<le> length (bytes_de m)" "unat n \<le> length datos"
  shows "snd (leer (fst (escribir m d n datos)) d n) = Some (take (unat n) datos)"
proof -
  obtain m' where m': "escribir m d n datos = (m', True)" "valida m'"
    "bytes_de m' = empalmar (unat d) (take (unat n) datos) (bytes_de m)"
    using escribir_ok [OF assms] by blast
  have "unat d + unat n \<le> length (bytes_de m')" using m'(3) assms(2,3) by simp
  with leer_ok [OF m'(2)] m'(1,3) assms(2,3) show ?thesis by simp
qed

lemma leer_otra_zona:
  assumes "valida m" "unat d + unat n \<le> length (bytes_de m)" "unat n \<le> length datos"
    and "unat e + unat k \<le> length (bytes_de m)"
    and "unat e + unat k \<le> unat d \<or> unat d + unat n \<le> unat e"
  shows "snd (leer (fst (escribir m d n datos)) e k) = snd (leer m e k)"
proof -
  obtain m' where m': "escribir m d n datos = (m', True)" "valida m'"
    "bytes_de m' = empalmar (unat d) (take (unat n) datos) (bytes_de m)"
    using escribir_ok [OF assms(1-3)] by blast
  have "unat e + unat k \<le> length (bytes_de m')" using m'(3) assms(2,3,4) by simp
  with leer_ok [OF m'(2)] leer_ok [OF assms(1,4)] m'(1,3) assms(2-5) show ?thesis
    by (simp add: ventana_empalmar_disj min_absorb2)
qed

text \<open>Moving a block: read it whole, then write it elsewhere.\<close>

lemma mover_bloque:
  assumes "valida m" "unat d + unat n \<le> length (bytes_de m)" "unat e + unat n \<le> length (bytes_de m)"
  obtains m' where "leer m d n = (m, Some (ventana (unat d) (unat n) (bytes_de m)))"
    "escribir m e n (ventana (unat d) (unat n) (bytes_de m)) = (m', True)" "valida m'"
    "bytes_de m' = empalmar (unat e) (ventana (unat d) (unat n) (bytes_de m)) (bytes_de m)"
proof -
  have l: "length (ventana (unat d) (unat n) (bytes_de m)) = unat n"
    using assms(2) by simp
  then have "unat n \<le> length (ventana (unat d) (unat n) (bytes_de m))" by simp
  from escribir_ok [OF assms(1,3) this] l leer_ok [OF assms(1,2)] that
  show thesis by auto
qed

end

lemma length_imagen_valida [simp]:
  "fisica_valida ss red \<Longrightarrow> length (imagen ss red) = capacidad ss"
  by (simp add: fisica_valida_def length_imagen)

interpretation km: memoria_direccionable
  "memoria_fisica_leer ss" "memoria_fisica_escribir ss" "imagen ss" "fisica_valida ss" for ss
  by unfold_locales (simp_all add: memoria_fisica_leer_ok memoria_fisica_escribir_ok)

end
