(* ===== verification/SwapModulo.thy ===== *)
theory SwapModulo
  imports Protocolo
begin

text \<open>
  \<open>swap/src/main.c\<close>: the process that owns the swap file and serves reads and writes of
  whole blocks over its connection with Kernel Memory.
\<close>

section \<open>State and operations\<close>

record t_swap =
  sw_archivo :: "byte list"
  sw_block_size :: int
  sw_swap_size :: int

text \<open>Start-up: invalid sizes stop the module; the file starts as \<open>swap_size\<close> zero bytes.\<close>

definition swap_iniciar :: "int \<Rightarrow> int \<Rightarrow> t_swap option" where
  "swap_iniciar block_size swap_size =
     (if block_size \<le> 0 \<or> swap_size \<le> 0 then None
      else Some \<lparr>sw_archivo = replicate (nat swap_size) 0,
                 sw_block_size = block_size, sw_swap_size = swap_size\<rparr>)"

definition swap_total :: "t_swap \<Rightarrow> int" where
  "swap_total sw = (if sw_block_size sw > 0 then sw_swap_size sw div sw_block_size sw else 0)"

datatype paso_swap = SwFin t_swap | SwSigue t_swap "byte list" "byte list"

definition swap_op_escribir :: "t_swap \<Rightarrow> byte list \<Rightarrow> paso_swap" where
  "swap_op_escribir sw ent =
     (case recibir_int ent of None \<Rightarrow> SwFin sw | Some (nro, r1) \<Rightarrow>
      (case recibir_exacto (nat (sw_block_size sw)) r1 of None \<Rightarrow> SwFin sw | Some (buffer, r2) \<Rightarrow>
        if nro < 0 \<or> nro \<ge> swap_total sw then SwSigue sw (bytes_int (codigo OP_ERROR)) r2
        else SwSigue (sw\<lparr>sw_archivo := empalmar (nat (nro * sw_block_size sw)) buffer (sw_archivo sw)\<rparr>)
               (bytes_int (codigo OP_OK)) r2))"

definition swap_op_leer :: "t_swap \<Rightarrow> byte list \<Rightarrow> paso_swap" where
  "swap_op_leer sw ent =
     (case recibir_int ent of None \<Rightarrow> SwFin sw | Some (nro, r1) \<Rightarrow>
        if nro < 0 \<or> nro \<ge> swap_total sw then SwSigue sw (bytes_int (codigo OP_ERROR)) r1
        else let leidos = ventana (nat (nro * sw_block_size sw)) (nat (sw_block_size sw)) (sw_archivo sw)
             in SwSigue sw (bytes_int (codigo OP_OK) @ leidos @
                  replicate (nat (sw_block_size sw) - length leidos) 0) r1)"

definition swap_operacion :: "t_swap \<Rightarrow> byte list \<Rightarrow> paso_swap" where
  "swap_operacion sw ent =
     (case recibir_int ent of None \<Rightarrow> SwFin sw | Some (op, r) \<Rightarrow>
        if op = codigo OP_SWAP_ESCRIBIR_BLOQUE then swap_op_escribir sw r
        else if op = codigo OP_SWAP_LEER_BLOQUE then swap_op_leer sw r
        else SwSigue sw [] r)"

lemma swap_operacion_consume:
  "swap_operacion sw ent = SwSigue sw' resp r \<Longrightarrow> length r < length ent"
  by (auto simp: swap_operacion_def swap_op_escribir_def swap_op_leer_def Let_def
      dest!: recibir_int_length recibir_exacto_length
      split: option.splits if_splits prod.splits)

function swap_bucle :: "t_swap \<Rightarrow> byte list \<Rightarrow> t_swap \<times> byte list" where
  "swap_bucle sw ent =
     (case swap_operacion sw ent of
        SwFin sw' \<Rightarrow> (sw', [])
      | SwSigue sw' resp r \<Rightarrow>
          (case swap_bucle sw' r of (sw'', resp') \<Rightarrow> (sw'', resp @ resp')))"
  by pat_completeness auto
termination
  by (relation "measure (\<lambda>(sw, ent). length ent)") (auto dest: swap_operacion_consume)

declare swap_bucle.simps [simp del]

section \<open>Serving a block\<close>

definition swap_valido :: "t_swap \<Rightarrow> bool" where
  "swap_valido sw \<longleftrightarrow>
     0 < sw_block_size sw \<and> 0 < sw_swap_size sw \<and> sw_swap_size sw < 2 ^ 31 \<and>
     length (sw_archivo sw) = nat (sw_swap_size sw)"

definition bloque :: "t_swap \<Rightarrow> nat \<Rightarrow> byte list" where
  "bloque sw b = ventana (b * nat (sw_block_size sw)) (nat (sw_block_size sw)) (sw_archivo sw)"

definition pedido_bloque_leer :: "int \<Rightarrow> byte list" where
  "pedido_bloque_leer nro = bytes_int (codigo OP_SWAP_LEER_BLOQUE) @ bytes_int nro"

definition pedido_bloque_escribir :: "int \<Rightarrow> byte list \<Rightarrow> byte list" where
  "pedido_bloque_escribir nro contenido =
     bytes_int (codigo OP_SWAP_ESCRIBIR_BLOQUE) @ bytes_int nro @ contenido"

lemma swap_iniciar_valido:
  "swap_iniciar bs sz = Some sw \<Longrightarrow> en_int sz \<Longrightarrow> swap_valido sw"
  by (auto simp: swap_iniciar_def swap_valido_def en_int_def split: if_splits)

lemma swap_bucle_vacia [simp]: "swap_bucle sw [] = (sw, [])"
  by (simp add: swap_bucle.simps swap_operacion_def)

lemma bloque_cabe:
  assumes "swap_valido sw" "int b < swap_total sw"
  shows "Suc b * nat (sw_block_size sw) \<le> length (sw_archivo sw)" "en_int (int b)"
    "nat (int b * sw_block_size sw) = b * nat (sw_block_size sw)"
proof -
  have pos: "0 < sw_block_size sw" and t: "swap_total sw = sw_swap_size sw div sw_block_size sw"
    using assms(1) by (simp_all add: swap_valido_def swap_total_def)
  have "(int b + 1) * sw_block_size sw \<le> swap_total sw * sw_block_size sw"
    using assms(2) pos by (intro mult_right_mono) auto
  also have "\<dots> \<le> sw_swap_size sw"
    using pos unfolding t by (metis add_0 div_mult_mod_eq le_add_same_cancel1 pos_mod_sign add.commute mult.commute)
  finally have le: "(int b + 1) * sw_block_size sw \<le> sw_swap_size sw" .
  have "int (Suc b * nat (sw_block_size sw)) \<le> sw_swap_size sw"
    using le pos by (simp add: distrib_right)
  moreover have "sw_swap_size sw = int (length (sw_archivo sw))"
    using assms(1) by (simp add: swap_valido_def)
  ultimately show "Suc b * nat (sw_block_size sw) \<le> length (sw_archivo sw)"
    by (metis of_nat_le_iff)
  have "(int b + 1) * 1 \<le> (int b + 1) * sw_block_size sw"
    using pos by (intro mult_left_mono) auto
  with le have "int b + 1 \<le> sw_swap_size sw" by (metis mult_1_right order_trans)
  then show "en_int (int b)"
    using assms(1) by (simp add: en_int_def swap_valido_def)
  show "nat (int b * sw_block_size sw) = b * nat (sw_block_size sw)"
    using pos by (simp add: nat_mult_distrib)
qed

lemma servir_bloque_leer:
  assumes "swap_valido sw" "int b < swap_total sw"
  shows "swap_bucle sw (pedido_bloque_leer (int b)) = (sw, bytes_int (codigo OP_OK) @ bloque sw b)"
proof -
  have "length (bloque sw b) = nat (sw_block_size sw)"
    unfolding bloque_def using bloque_cabe(1) [OF assms] by (intro length_ventana) simp
  then have "swap_operacion sw (pedido_bloque_leer (int b)) =
      SwSigue sw (bytes_int (codigo OP_OK) @ bloque sw b) []"
    using assms(2) bloque_cabe(2,3) [OF assms]
    by (simp add: swap_operacion_def pedido_bloque_leer_def swap_op_leer_def bloque_def Let_def)
  then show ?thesis by (simp add: swap_bucle.simps [of sw "pedido_bloque_leer (int b)"])
qed

lemma servir_bloque_escribir:
  assumes "swap_valido sw" "int b < swap_total sw" "length cont = nat (sw_block_size sw)"
  shows "swap_bucle sw (pedido_bloque_escribir (int b) cont) =
    (sw\<lparr>sw_archivo := empalmar (b * nat (sw_block_size sw)) cont (sw_archivo sw)\<rparr>,
     bytes_int (codigo OP_OK))"
proof -
  have "swap_operacion sw (pedido_bloque_escribir (int b) cont) =
      SwSigue (sw\<lparr>sw_archivo := empalmar (b * nat (sw_block_size sw)) cont (sw_archivo sw)\<rparr>)
        (bytes_int (codigo OP_OK)) []"
    using assms(2,3) bloque_cabe(2,3) [OF assms(1,2)]
    by (simp add: swap_operacion_def pedido_bloque_escribir_def swap_op_escribir_def)
  then show ?thesis by (simp add: swap_bucle.simps [of sw "pedido_bloque_escribir (int b) cont"])
qed

lemma bloque_tras_escribir:
  assumes "swap_valido sw" "int b < swap_total sw" "int c < swap_total sw"
    and "length cont = nat (sw_block_size sw)"
    and "sw' = sw\<lparr>sw_archivo := empalmar (b * nat (sw_block_size sw)) cont (sw_archivo sw)\<rparr>"
  shows "swap_valido sw'" "bloque sw' c = (if c = b then cont else bloque sw c)"
    "swap_total sw' = swap_total sw"
proof -
  let ?n = "nat (sw_block_size sw)"
  have cb: "b * ?n + length cont \<le> length (sw_archivo sw)"
    using bloque_cabe(1) [OF assms(1,2)] assms(4) by simp
  have cc: "c * ?n + ?n \<le> length (sw_archivo sw)"
    using bloque_cabe(1) [OF assms(1,3)] by simp
  show "swap_valido sw'" using assms(1,5) cb by (simp add: swap_valido_def)
  show "swap_total sw' = swap_total sw" by (simp add: assms(5) swap_total_def)
  show "bloque sw' c = (if c = b then cont else bloque sw c)"
  proof (cases "c = b")
    case True
    then show ?thesis using cb assms(4) by (simp add: bloque_def assms(5))
  next
    case False
    then have "Suc c * ?n \<le> b * ?n \<or> Suc b * ?n \<le> c * ?n"
      by (metis Suc_leI mult_le_mono1 nat_neq_iff)
    then show ?thesis
      using False cb cc assms(4) by (simp add: bloque_def assms(5)) (rule ventana_empalmar_disj, auto)
  qed
qed

end
