(* ===== verification/Orden.thy ===== *)
theory Orden
  imports Main "HOL-Library.Multiset"
begin

text \<open>
  \<open>list_sort\<close> of the commons library, which the C code calls with a comparator: what its
  documentation promises, and a sort that keeps the promise.
\<close>

type_synonym list_sort = "(nat \<Rightarrow> nat \<Rightarrow> bool) \<Rightarrow> nat list \<Rightarrow> nat list"

text \<open>
  \<open>list_sort\<close> is documented to order the list by a comparator that says when the first
  argument goes before the second.  As for every sort, the comparator has to be a strict weak
  order.
\<close>

definition orden_debil :: "(nat \<Rightarrow> nat \<Rightarrow> bool) \<Rightarrow> bool" where
  "orden_debil antes \<longleftrightarrow>
     (\<forall>x. \<not> antes x x) \<and> (\<forall>x y z. antes x y \<longrightarrow> antes y z \<longrightarrow> antes x z) \<and>
     (\<forall>x y z. \<not> antes x y \<longrightarrow> \<not> antes y z \<longrightarrow> \<not> antes x z)"

definition list_sort_ok :: "list_sort \<Rightarrow> bool" where
  "list_sort_ok ls \<longleftrightarrow>
     (\<forall>antes xs. orden_debil antes \<longrightarrow>
        mset (ls antes xs) = mset xs \<and> sorted_wrt (\<lambda>x y. \<not> antes y x) (ls antes xs))"

text \<open>A sort that satisfies it: insertion with the comparator.\<close>

fun insertar_orden :: "(nat \<Rightarrow> nat \<Rightarrow> bool) \<Rightarrow> nat \<Rightarrow> nat list \<Rightarrow> nat list" where
  "insertar_orden antes x [] = [x]"
| "insertar_orden antes x (y # ys) =
     (if antes x y then x # y # ys else y # insertar_orden antes x ys)"

definition ordenar_insercion :: list_sort where
  "ordenar_insercion antes xs = fold (insertar_orden antes) xs []"

section \<open>The sort by insertion\<close>

lemma mset_insertar_orden: "mset (insertar_orden antes x ys) = add_mset x (mset ys)"
  by (induction ys) auto

lemma sorted_insertar_orden:
  assumes "orden_debil antes" "sorted_wrt (\<lambda>x y. \<not> antes y x) ys"
  shows "sorted_wrt (\<lambda>x y. \<not> antes y x) (insertar_orden antes x ys)"
  using assms(2)
proof (induction ys)
  case (Cons y ys)
  have "set (insertar_orden antes x ys) = insert x (set ys)"
    using mset_insertar_orden [of antes x ys] by (metis set_mset_add_mset_insert set_mset_mset)
  moreover have "\<not> antes z x" if "antes x y" "\<not> antes z y" for z
    using assms(1) that unfolding orden_debil_def by blast
  moreover have "\<not> antes y x" if "antes x y"
    using assms(1) that unfolding orden_debil_def by blast
  ultimately show ?case using Cons by auto
qed simp

lemma ordenar_insercion_aux:
  assumes "orden_debil antes" "sorted_wrt (\<lambda>x y. \<not> antes y x) ys"
  shows "mset (fold (insertar_orden antes) xs ys) = mset xs + mset ys \<and>
    sorted_wrt (\<lambda>x y. \<not> antes y x) (fold (insertar_orden antes) xs ys)"
  using assms(2) sorted_insertar_orden [OF assms(1)]
  by (induction xs arbitrary: ys) (simp_all add: mset_insertar_orden)

lemma list_sort_ok_insercion: "list_sort_ok ordenar_insercion"
  by (simp add: list_sort_ok_def ordenar_insercion_def ordenar_insercion_aux)

end
