(* ===== verification/MemoriaUsuario.thy ===== *)
theory MemoriaUsuario
  imports Contexto MemoriaFisica SwapModulo Orden
begin

text \<open>
  \<open>kernel_memory/src/memoria_usuario.c\<close>: creation and removal of segments, compaction,
  suspension to the swap module and back, and the release of a process's memory.

  Every operation of the C file holds \<open>mutex_contextos\<close> from its first access to the tables
  to its last, so each is one atomic transformation of the state \<open>km\<close>.  Segments live in
  the store \<open>km_segs\<close>, indexed by the references the tables hold; \<open>km_prox\<close> is the next
  unused reference (\<open>malloc\<close>).  \<open>list_sort\<close> of the commons library is the parameter \<open>ls\<close> of
  \<open>compactar\<close>.
\<close>

section \<open>State\<close>

record t_segmento_swap =
  ss_id :: int
  ss_limite :: u32
  ss_cantidad :: int
  ss_bloques :: "nat list"

record t_proceso_swap =
  ps_pid :: int
  ps_segmentos :: "t_segmento_swap list"

record estado_swap =
  fd_swap :: int
  swap_block_size :: int
  swap_total_bloques :: int
  swap_bloques_usados :: "bool list"
  procesos_en_swap :: "t_proceso_swap list"

record km =
  km_mapa :: mapa_memoria
  km_red :: red
  km_contextos :: contextos
  km_segs :: "nat \<Rightarrow> t_segmento"
  km_prox :: nat
  km_swap :: estado_swap
  km_red_swap :: "int \<Rightarrow> t_swap option"
  km_segment_max_size :: int
  km_best_fit :: bool
  km_malloc :: "u32 \<Rightarrow> bool"   \<comment> \<open>whether \<open>malloc\<close> grants a request of that size\<close>

datatype t_resultado_crear = CREAR_SEG_OK | CREAR_SEG_COMPACTAR | CREAR_SEG_ERROR

text \<open>Short forms for the fields the proofs speak of.\<close>

abbreviation km_huecos :: "km \<Rightarrow> huecos" where
  "km_huecos k \<equiv> lista_huecos (km_mapa k)"

abbreviation km_sticks :: "km \<Rightarrow> sticks" where
  "km_sticks k \<equiv> lista_sticks (km_mapa k)"

definition poner_huecos :: "huecos \<Rightarrow> km \<Rightarrow> km" where
  "poner_huecos hs k = k\<lparr>km_mapa := (km_mapa k)\<lparr>lista_huecos := hs\<rparr>\<rparr>"

section \<open>The swap client\<close>

definition memoria_usuario_init :: "estado_swap" where
  "memoria_usuario_init =
     \<lparr>fd_swap = - 1, swap_block_size = 0, swap_total_bloques = 0, swap_bloques_usados = [],
      procesos_en_swap = []\<rparr>"

definition swap_registrar :: "int \<Rightarrow> int \<Rightarrow> int \<Rightarrow> estado_swap \<Rightarrow> estado_swap" where
  "swap_registrar fd block_size swap_size w =
     (let n = (if block_size > 0 then sgn swap_size * (\<bar>swap_size\<bar> div block_size) else 0)
      in w\<lparr>fd_swap := fd, swap_block_size := block_size, swap_total_bloques := n,
           swap_bloques_usados := replicate (nat n) False\<rparr>)"

definition swap_desregistrar :: "estado_swap \<Rightarrow> estado_swap" where
  "swap_desregistrar w = w\<lparr>fd_swap := - 1\<rparr>"

definition swap_bloques_libres :: "estado_swap \<Rightarrow> int" where
  "swap_bloques_libres w =
     int (length (filter (\<lambda>b. \<not> swap_bloques_usados w ! b) [0..<nat (swap_total_bloques w)]))"

definition marcar_bloque :: "nat \<Rightarrow> bool \<Rightarrow> km \<Rightarrow> km" where
  "marcar_bloque b v k =
     k\<lparr>km_swap := (km_swap k)\<lparr>swap_bloques_usados := (swap_bloques_usados (km_swap k))[b := v]\<rparr>\<rparr>"

text \<open>One exchange with the swap process: a closed or unknown connection answers nothing.\<close>

definition swap_intercambio :: "byte list \<Rightarrow> km \<Rightarrow> km \<times> byte list" where
  "swap_intercambio pedido k =
     (if fd_swap (km_swap k) = - 1 then (k, [])
      else (case km_red_swap k (fd_swap (km_swap k)) of
              None \<Rightarrow> (k, [])
            | Some sw \<Rightarrow>
                (case swap_bucle sw pedido of (sw', resp) \<Rightarrow>
                   (k\<lparr>km_red_swap := (km_red_swap k)(fd_swap (km_swap k) := Some sw')\<rparr>, resp))))"

definition swap_escribir_bloque :: "nat \<Rightarrow> byte list \<Rightarrow> km \<Rightarrow> km \<times> bool" where
  "swap_escribir_bloque nro contenido k =
     (case swap_intercambio (pedido_bloque_escribir (int nro) contenido) k of
        (k', resp) \<Rightarrow>
          (case recibir_int resp of
             None \<Rightarrow> (k', False) | Some (respuesta, _) \<Rightarrow> (k', respuesta = codigo OP_OK)))"

definition swap_leer_bloque :: "nat \<Rightarrow> km \<Rightarrow> km \<times> byte list option" where
  "swap_leer_bloque nro k =
     (case swap_intercambio (pedido_bloque_leer (int nro)) k of
        (k', resp) \<Rightarrow>
          (case recibir_int resp of
             None \<Rightarrow> (k', None)
           | Some (status, r) \<Rightarrow>
               if status \<noteq> codigo OP_OK then (k', None)
               else (case recibir_exacto (nat (swap_block_size (km_swap k))) r of
                       None \<Rightarrow> (k', None) | Some (bs, _) \<Rightarrow> (k', Some bs))))"

fun buscar_proceso_swap :: "int \<Rightarrow> t_proceso_swap list \<Rightarrow> t_proceso_swap option" where
  "buscar_proceso_swap pid [] = None"
| "buscar_proceso_swap pid (p # ps) = (if ps_pid p = pid then Some p else buscar_proceso_swap pid ps)"

fun quitar_proceso_swap :: "int \<Rightarrow> t_proceso_swap list \<Rightarrow> t_proceso_swap list" where
  "quitar_proceso_swap pid [] = []"
| "quitar_proceso_swap pid (p # ps) = (if ps_pid p = pid then ps else p # quitar_proceso_swap pid ps)"

section \<open>Segments\<close>

definition buscar_hueco :: "bool \<Rightarrow> u32 \<Rightarrow> huecos \<Rightarrow> nat option" where
  "buscar_hueco allocation_best_fit tam hs =
     (if allocation_best_fit then buscar_hueco_best_fit tam hs else buscar_hueco_worst_fit tam hs)"

fun buscar_segmento :: "(nat \<Rightarrow> t_segmento) \<Rightarrow> int \<Rightarrow> nat list \<Rightarrow> nat option" where
  "buscar_segmento segs id_segmento [] = None"
| "buscar_segmento segs id_segmento (r # rs) =
     (if seg_id (segs r) = id_segmento then Some r else buscar_segmento segs id_segmento rs)"

definition agregar_segmento :: "int \<Rightarrow> t_segmento \<Rightarrow> km \<Rightarrow> km" where
  "agregar_segmento pid s k =
     k\<lparr>km_segs := (km_segs k)(km_prox k := s), km_prox := Suc (km_prox k),
       km_contextos := contexto_modificar pid (\<lambda>c. c\<lparr>ctx_tabla := ctx_tabla c @ [km_prox k]\<rparr>)
                         (km_contextos k)\<rparr>"

definition segmento_crear :: "int \<Rightarrow> int \<Rightarrow> u32 \<Rightarrow> km \<Rightarrow> km \<times> t_resultado_crear" where
  "segmento_crear pid id_segmento tam k =
     (if km_segment_max_size k > 0 \<and> tam > u32_de_int (km_segment_max_size k)
      then (k, CREAR_SEG_ERROR)
      else case contexto_buscar pid (km_contextos k) of
        None \<Rightarrow> (k, CREAR_SEG_ERROR)
      | Some ctx \<Rightarrow>
          (case buscar_hueco (km_best_fit k) tam (km_huecos k) of
             None \<Rightarrow> (k, if huecos_total_libre (km_huecos k) \<ge> tam
                         then CREAR_SEG_COMPACTAR else CREAR_SEG_ERROR)
           | Some i \<Rightarrow>
               (agregar_segmento pid
                  \<lparr>seg_id = id_segmento, seg_base = h_base (km_huecos k ! i), seg_limite = tam\<rparr>
                  (poner_huecos (hueco_ocupar i tam (km_huecos k)) k),
                CREAR_SEG_OK)))"

definition liberar_segmento :: "nat \<Rightarrow> km \<Rightarrow> km" where
  "liberar_segmento r k =
     poner_huecos (hueco_liberar (seg_base (km_segs k r)) (seg_limite (km_segs k r)) (km_huecos k)) k"

definition segmento_eliminar :: "int \<Rightarrow> int \<Rightarrow> km \<Rightarrow> km \<times> bool" where
  "segmento_eliminar pid id_segmento k =
     (case contexto_buscar pid (km_contextos k) of
        None \<Rightarrow> (k, False)
      | Some ctx \<Rightarrow>
          (case buscar_segmento (km_segs k) id_segmento (ctx_tabla ctx) of
             None \<Rightarrow> (k, False)
           | Some r \<Rightarrow>
               (liberar_segmento r
                  (k\<lparr>km_contextos := contexto_modificar pid
                       (\<lambda>c. c\<lparr>ctx_tabla := remove1 r (ctx_tabla c)\<rparr>) (km_contextos k)\<rparr>),
                True)))"

definition memoria_libre_total :: "km \<Rightarrow> u32" where
  "memoria_libre_total k = huecos_total_libre (km_huecos k)"

section \<open>Compaction\<close>

definition comparar_segmentos_por_base :: "(nat \<Rightarrow> t_segmento) \<Rightarrow> nat \<Rightarrow> nat \<Rightarrow> bool" where
  "comparar_segmentos_por_base segs a b \<longleftrightarrow> seg_base (segs a) < seg_base (segs b)"

definition todos_los_segmentos :: "contextos \<Rightarrow> nat list" where
  "todos_los_segmentos cs = concat (map ctx_tabla cs)"

definition escribir_km :: "u32 \<Rightarrow> u32 \<Rightarrow> byte list \<Rightarrow> km \<Rightarrow> km \<times> bool" where
  "escribir_km dir tam buffer k =
     (case memoria_fisica_escribir (km_sticks k) (km_red k) dir tam buffer of
        (red', ok) \<Rightarrow> (k\<lparr>km_red := red'\<rparr>, ok))"

definition leer_km :: "u32 \<Rightarrow> u32 \<Rightarrow> km \<Rightarrow> km \<times> byte list option" where
  "leer_km dir tam k =
     (case memoria_fisica_leer (km_sticks k) (km_red k) dir tam of
        (red', r) \<Rightarrow> (k\<lparr>km_red := red'\<rparr>, r))"

fun compactar_bucle :: "nat list \<Rightarrow> u32 \<Rightarrow> km \<Rightarrow> km \<times> u32 \<times> bool" where
  "compactar_bucle [] destino k = (k, destino, True)"
| "compactar_bucle (r # rs) destino k =
     (let seg = km_segs k r in
      if seg_base seg \<noteq> destino then
        if \<not> km_malloc k (seg_limite seg) then (k, destino, False)
        else (case leer_km (seg_base seg) (seg_limite seg) k of
                (k1, None) \<Rightarrow> (k1, destino, False)
              | (k1, Some buffer) \<Rightarrow>
                  (case escribir_km destino (seg_limite seg) buffer k1 of
                     (k2, False) \<Rightarrow> (k2, destino, False)
                   | (k2, True) \<Rightarrow>
                       compactar_bucle rs (destino + seg_limite seg)
                         (k2\<lparr>km_segs := (km_segs k2)(r := seg\<lparr>seg_base := destino\<rparr>)\<rparr>)))
      else compactar_bucle rs (destino + seg_limite seg) k)"

definition compactar :: "list_sort \<Rightarrow> km \<Rightarrow> km \<times> bool" where
  "compactar ls k =
     (case compactar_bucle
             (ls (comparar_segmentos_por_base (km_segs k)) (todos_los_segmentos (km_contextos k))) 0 k of
        (k', destino, ok) \<Rightarrow>
          if ok then (poner_huecos (huecos_reconstruir destino (memoria_total (km_mapa k'))
                                      (km_huecos k')) k', True)
          else (k', False))"

section \<open>Suspension\<close>

text \<open>
  The number of blocks is computed in \<open>uint32_t\<close> (the \<open>int\<close> operands are converted) and
  stored in an \<open>int\<close>.
\<close>

definition bloques_de :: "int \<Rightarrow> u32 \<Rightarrow> u32" where
  "bloques_de block_size limite =
     (limite + u32_de_int block_size - 1) div u32_de_int block_size"

definition bloques_necesarios :: "km \<Rightarrow> nat list \<Rightarrow> int" where
  "bloques_necesarios k tabla =
     int_de_u32 (sum_list (map (\<lambda>r. bloques_de (swap_block_size (km_swap k)) (seg_limite (km_segs k r)))
                            tabla))"

text \<open>
  The inner loop over the block numbers: \<open>asignados\<close> are the blocks taken so far for the
  segment.  A block is marked before it is written, so a failed write leaves it among the
  assigned ones.
\<close>

fun copiar_bloques :: "nat list \<Rightarrow> int \<Rightarrow> byte list \<Rightarrow> nat list \<Rightarrow> km \<Rightarrow> km \<times> nat list \<times> bool"
  where
  "copiar_bloques [] cantidad buffer asignados k = (k, asignados, True)"
| "copiar_bloques (b # bs) cantidad buffer asignados k =
     (if \<not> int (length asignados) < cantidad then (k, asignados, True)
      else if \<not> swap_bloques_usados (km_swap k) ! b then
        (let n = nat (swap_block_size (km_swap k)) in
         case swap_escribir_bloque b (ventana (length asignados * n) n buffer)
                (marcar_bloque b True k) of
           (k', ok) \<Rightarrow>
             if ok then copiar_bloques bs cantidad buffer (asignados @ [b]) k'
             else (k', asignados @ [b], False))
      else copiar_bloques bs cantidad buffer asignados k)"

fun desmarcar_bloques :: "nat list \<Rightarrow> km \<Rightarrow> km" where
  "desmarcar_bloques [] k = k"
| "desmarcar_bloques (b # bs) k = desmarcar_bloques bs (marcar_bloque b False k)"

text \<open>Phase 1: copy every segment to the swap, keeping the copies made so far.\<close>

fun suspender_bucle :: "nat list \<Rightarrow> t_segmento_swap list \<Rightarrow> km \<Rightarrow> km \<times> t_segmento_swap list \<times> bool"
  where
  "suspender_bucle [] copiados k = (k, copiados, True)"
| "suspender_bucle (r # rs) copiados k =
     (let seg = km_segs k r;
          cantidad = int_de_u32 (bloques_de (swap_block_size (km_swap k)) (seg_limite seg))
      in case leer_km (seg_base seg) (seg_limite seg) k of
           (k1, None) \<Rightarrow> (k1, copiados, False)
         | (k1, Some datos) \<Rightarrow>
             (case copiar_bloques [0..<nat (swap_total_bloques (km_swap k1))] cantidad
                     (datos @ replicate (nat cantidad * nat (swap_block_size (km_swap k1)) - length datos) 0)
                     [] k1 of
                (k2, asignados, ok) \<Rightarrow>
                  if ok then
                    suspender_bucle rs
                      (copiados @ [\<lparr>ss_id = seg_id seg, ss_limite = seg_limite seg,
                                    ss_cantidad = cantidad, ss_bloques = asignados\<rparr>]) k2
                  else (desmarcar_bloques asignados k2, copiados, False)))"

fun liberar_segmentos :: "nat list \<Rightarrow> km \<Rightarrow> km" where
  "liberar_segmentos [] k = k"
| "liberar_segmentos (r # rs) k = liberar_segmentos rs (liberar_segmento r k)"

definition vaciar_tabla :: "int \<Rightarrow> km \<Rightarrow> km" where
  "vaciar_tabla pid k =
     k\<lparr>km_contextos := contexto_modificar pid (\<lambda>c. c\<lparr>ctx_tabla := []\<rparr>) (km_contextos k)\<rparr>"

text \<open>\<open>None\<close> is the division by a zero block size, which stops the C process.\<close>

definition proceso_suspender :: "int \<Rightarrow> km \<Rightarrow> (km \<times> bool) option" where
  "proceso_suspender pid k =
     (if fd_swap (km_swap k) = - 1 then Some (k, False)
      else case contexto_buscar pid (km_contextos k) of
        None \<Rightarrow> Some (k, False)
      | Some ctx \<Rightarrow>
          if buscar_proceso_swap pid (procesos_en_swap (km_swap k)) \<noteq> None then Some (k, True)
          else if swap_block_size (km_swap k) = 0 \<and> ctx_tabla ctx \<noteq> [] then None
          else if bloques_necesarios k (ctx_tabla ctx) > swap_bloques_libres (km_swap k)
          then Some (k, False)
          else (case suspender_bucle (ctx_tabla ctx) [] k of
                  (k1, copiados, copia_ok) \<Rightarrow>
                    if \<not> copia_ok then
                      Some (desmarcar_bloques (concat (map ss_bloques copiados)) k1, False)
                    else
                      let k2 = vaciar_tabla pid (liberar_segmentos (ctx_tabla ctx) k1)
                      in Some (k2\<lparr>km_swap := (km_swap k2)\<lparr>procesos_en_swap :=
                                 procesos_en_swap (km_swap k2) @
                                   [\<lparr>ps_pid = pid, ps_segmentos = copiados\<rparr>]\<rparr>\<rparr>, True)))"

section \<open>De-suspension and release\<close>

text \<open>
  The tentative assignment of holes, in the order of the segments; \<open>None\<close> when some
  segment does not fit, with the holes given back one by one.
\<close>

fun devolver_huecos :: "(u32 \<times> u32) list \<Rightarrow> huecos \<Rightarrow> huecos" where
  "devolver_huecos [] hs = hs"
| "devolver_huecos ((b, t) # ps) hs = devolver_huecos ps (hueco_liberar b t hs)"

fun asignar_huecos :: "bool \<Rightarrow> u32 list \<Rightarrow> (u32 \<times> u32) list \<Rightarrow> huecos \<Rightarrow> huecos \<times> u32 list option"
  where
  "asignar_huecos bf [] hechos hs = (hs, Some (map fst hechos))"
| "asignar_huecos bf (t # ts) hechos hs =
     (case buscar_hueco bf t hs of
        None \<Rightarrow> (devolver_huecos hechos hs, None)
      | Some i \<Rightarrow> asignar_huecos bf ts (hechos @ [(h_base (hs ! i), t)]) (hueco_ocupar i t hs))"

text \<open>Reading the blocks back: a block that cannot be read stays zero in the buffer.\<close>

fun traer_bloques :: "nat list \<Rightarrow> km \<Rightarrow> km \<times> byte list" where
  "traer_bloques [] k = (k, [])"
| "traer_bloques (b # bs) k =
     (case swap_leer_bloque b k of
        (k1, r) \<Rightarrow>
          (case traer_bloques bs (marcar_bloque b False k1) of
             (k2, resto) \<Rightarrow>
               (k2, (case r of None \<Rightarrow> replicate (nat (swap_block_size (km_swap k))) 0
                     | Some cont \<Rightarrow> cont) @ resto)))"

fun restaurar_segmentos :: "int \<Rightarrow> (t_segmento_swap \<times> u32) list \<Rightarrow> km \<Rightarrow> km" where
  "restaurar_segmentos pid [] k = k"
| "restaurar_segmentos pid ((ss, base) # ps) k =
     (case traer_bloques (ss_bloques ss) k of
        (k1, buffer) \<Rightarrow>
          (case escribir_km base (ss_limite ss) buffer k1 of
             (k2, _) \<Rightarrow>
               restaurar_segmentos pid ps
                 (agregar_segmento pid
                    \<lparr>seg_id = ss_id ss, seg_base = base, seg_limite = ss_limite ss\<rparr> k2)))"

definition olvidar_proceso_swap :: "int \<Rightarrow> km \<Rightarrow> km" where
  "olvidar_proceso_swap pid k =
     k\<lparr>km_swap := (km_swap k)\<lparr>procesos_en_swap :=
         quitar_proceso_swap pid (procesos_en_swap (km_swap k))\<rparr>\<rparr>"

definition proceso_dessuspender :: "int \<Rightarrow> km \<Rightarrow> km \<times> bool" where
  "proceso_dessuspender pid k =
     (case buscar_proceso_swap pid (procesos_en_swap (km_swap k)) of
        None \<Rightarrow> (k, True)
      | Some ps \<Rightarrow>
          (case contexto_buscar pid (km_contextos k) of
             None \<Rightarrow> (k, False)
           | Some ctx \<Rightarrow>
               (case asignar_huecos (km_best_fit k) (map ss_limite (ps_segmentos ps)) [] (km_huecos k) of
                  (hs, None) \<Rightarrow> (poner_huecos hs k, False)
                | (hs, Some bases) \<Rightarrow>
                    (olvidar_proceso_swap pid
                       (restaurar_segmentos pid (zip (ps_segmentos ps) bases) (poner_huecos hs k)),
                     True))))"

definition proceso_liberar_memoria :: "int \<Rightarrow> km \<Rightarrow> km" where
  "proceso_liberar_memoria pid k =
     (let k1 = (case contexto_buscar pid (km_contextos k) of
                  None \<Rightarrow> k
                | Some ctx \<Rightarrow> vaciar_tabla pid (liberar_segmentos (ctx_tabla ctx) k))
      in case buscar_proceso_swap pid (procesos_en_swap (km_swap k1)) of
           None \<Rightarrow> k1
         | Some ps \<Rightarrow>
             olvidar_proceso_swap pid
               (desmarcar_bloques (concat (map ss_bloques (ps_segmentos ps))) k1))"

end
