(* ===== verification/Particion.thy ===== *)
theory Particion
  imports MemoriaUsuario
begin

text \<open>
  The invariant of the user memory: the holes and the segments of all processes partition
  the physical memory, and every operation of \<open>memoria_usuario.c\<close> that does not move
  segments keeps it.
\<close>

section \<open>Counting the segments over an address\<close>

definition ocupa :: "(nat \<Rightarrow> t_segmento) \<Rightarrow> nat multiset \<Rightarrow> nat \<Rightarrow> nat" where
  "ocupa segs M a = size {# r \<in># M. en_region (region_seg (segs r)) a #}"

lemma ocupa_simps [simp, cuenta_simps]:
  "ocupa segs {#} a = 0"
  "ocupa segs (add_mset r M) a =
     (if en_region (region_seg (segs r)) a then 1 else 0) + ocupa segs M a"
  "ocupa segs (M + N) a = ocupa segs M a + ocupa segs N a"
  by (simp_all add: ocupa_def)

lemma ocupa_otro [simp]: "r \<notin># M \<Longrightarrow> ocupa (segs(r := s)) M a = ocupa segs M a"
  unfolding ocupa_def by (intro arg_cong [of _ _ size] filter_mset_cong) auto

lemma ocupa_dos:
  assumes "r \<in># M" "s \<in># M" "r \<noteq> s"
    and "en_region (region_seg (segs r)) a" "en_region (region_seg (segs s)) a"
  shows "2 \<le> ocupa segs M a"
proof -
  obtain N where N: "M = add_mset r N" using multi_member_split [OF assms(1)] by blast
  with assms(2,3) have "s \<in># N" by simp
  then obtain L where "N = add_mset s L" using multi_member_split [of s N] by blast
  with N assms(4,5) show ?thesis by simp
qed

lemma ocupa_uno:
  assumes "r \<in># M" "en_region (region_seg (segs r)) a"
  shows "1 \<le> ocupa segs M a"
  using multi_member_split [OF assms(1)] assms(2) by auto

section \<open>The invariant\<close>

definition refs_vivas :: "km \<Rightarrow> nat multiset" where
  "refs_vivas k = mset (todos_los_segmentos (km_contextos k))"

definition cuenta_km :: "km \<Rightarrow> nat \<Rightarrow> nat" where
  "cuenta_km k a = cuenta (libres (km_huecos k)) a + ocupa (km_segs k) (refs_vivas k) a"

definition particion_km :: "km \<Rightarrow> bool" where
  "particion_km k \<longleftrightarrow> (\<forall>a. cuenta_km k a = (if a < unat (memoria_total (km_mapa k)) then 1 else 0))"

definition refs_validas :: "km \<Rightarrow> bool" where
  "refs_validas k \<longleftrightarrow>
     distinct (todos_los_segmentos (km_contextos k)) \<and> (\<forall>r \<in># refs_vivas k. r < km_prox k)"

definition km_valido :: "km \<Rightarrow> bool" where
  "km_valido k \<longleftrightarrow>
     fisica_valida (km_sticks k) (km_red k) \<and>
     capacidad (km_sticks k) = unat (memoria_total (km_mapa k)) \<and>
     particion_km k \<and> refs_validas k"

lemma cuenta_map_ocupa:
  "cuenta (map (\<lambda>r. region_seg (segs r)) rs) a = ocupa segs (mset rs) a"
  by (induction rs) (simp_all add: cuenta_simps)

text \<open>The same, as a partition of the list of all regions.\<close>

definition regiones_km :: "km \<Rightarrow> region list" where
  "regiones_km k = libres (km_huecos k) @
     map (\<lambda>r. region_seg (km_segs k r)) (todos_los_segmentos (km_contextos k))"

lemma particion_km_iff:
  "particion_km k \<longleftrightarrow> particiona (regiones_km k) (unat (memoria_total (km_mapa k)))"
  by (simp add: particion_km_def particiona_def regiones_km_def cuenta_append cuenta_km_def
      cuenta_map_ocupa refs_vivas_def)

lemma huecos_sin_vuelta:
  assumes "particion_km k"
  shows "\<forall>h \<in> set (km_huecos k). sin_vuelta h"
proof
  fix h assume h: "h \<in> set (km_huecos k)"
  show "sin_vuelta h"
  proof (cases "h_tamanio h = 0")
    case True
    then show ?thesis using unat_u32_lt [of "h_base h"] by (simp add: sin_vuelta_def)
  next
    case False
    have "(unat (h_base h), unat (h_tamanio h)) \<in> set (regiones_km k)"
      using libres_region [OF h] by (simp add: regiones_km_def)
    then have "unat (h_base h) + unat (h_tamanio h) \<le> unat (memoria_total (km_mapa k))"
      using assms False by (intro particiona_cota) (auto simp: particion_km_iff unat_gt_0)
    then show ?thesis
      using unat_u32_lt [of "memoria_total (km_mapa k)"] by (simp add: sin_vuelta_def)
  qed
qed

lemma segmento_acotado:
  assumes "particion_km k" "r \<in># refs_vivas k" "seg_limite (km_segs k r) \<noteq> 0"
  shows "unat (seg_base (km_segs k r)) + unat (seg_limite (km_segs k r))
         \<le> unat (memoria_total (km_mapa k))"
proof -
  have "region_seg (km_segs k r) \<in> set (regiones_km k)"
    using assms(2) by (auto simp: regiones_km_def refs_vivas_def)
  then show ?thesis
    using assms(1,3)
    by (intro particiona_cota) (auto simp: particion_km_iff unat_gt_0 region_seg_def)
qed

section \<open>What each primitive does to the count\<close>

text \<open>Changing the table of one process changes exactly its share of the references.\<close>

lemma refs_modificar:
  assumes "contexto_buscar pid cs = Some c"
  obtains X where "mset (todos_los_segmentos cs) = mset (ctx_tabla c) + X"
    "\<And>f. mset (todos_los_segmentos (contexto_modificar pid f cs)) = mset (ctx_tabla (f c)) + X"
proof -
  obtain pre post where p: "cs = pre @ c # post" "pid \<notin> ctx_pid ` set pre"
    using partir_buscado [OF assms] by blast
  have c: "ctx_pid c = pid" using buscar_pid [OF assms] by simp
  show thesis
    by (rule that [of "mset (todos_los_segmentos pre) + mset (todos_los_segmentos post)"])
      (simp_all add: p(1) modificar_partido [OF p(2) c] todos_los_segmentos_def)
qed

lemma refs_vivas_modificar:
  assumes "contexto_buscar pid (km_contextos k) = Some c"
  obtains X where "refs_vivas k = mset (ctx_tabla c) + X"
    "\<forall>f. refs_vivas (k\<lparr>km_contextos := contexto_modificar pid f (km_contextos k)\<rparr>) = mset (ctx_tabla (f c)) + X"
proof (rule refs_modificar [OF assms])
  fix X
  assume "mset (todos_los_segmentos (km_contextos k)) = mset (ctx_tabla c) + X"
    "\<And>f. mset (todos_los_segmentos (contexto_modificar pid f (km_contextos k))) = mset (ctx_tabla (f c)) + X"
  then show thesis by (intro that [of X]) (simp_all add: refs_vivas_def)
qed

lemma refs_validas_iff:
  "refs_validas k \<longleftrightarrow> (\<forall>r. count (refs_vivas k) r \<le> 1) \<and> (\<forall>r \<in># refs_vivas k. r < km_prox k)"
proof -
  have "distinct xs \<longleftrightarrow> (\<forall>r. count (mset xs) r \<le> 1)" for xs :: "nat list"
    by (auto simp: distinct_count_atmost_1 le_Suc_eq count_eq_zero_iff)
  then show ?thesis by (simp add: refs_validas_def refs_vivas_def)
qed

lemma refs_validas_menos:
  assumes "refs_validas k" "refs_vivas k' \<subseteq># refs_vivas k" "km_prox k' = km_prox k"
  shows "refs_validas k'"
  using assms unfolding refs_validas_iff
  by (auto dest: mset_subset_eqD) (meson dual_order.trans mset_subset_eq_count)

lemma poner_huecos_simps [simp]:
  "lista_huecos (km_mapa (poner_huecos hs k)) = hs"
  "lista_sticks (km_mapa (poner_huecos hs k)) = km_sticks k"
  "memoria_total (km_mapa (poner_huecos hs k)) = memoria_total (km_mapa k)"
  "km_segs (poner_huecos hs k) = km_segs k" "km_prox (poner_huecos hs k) = km_prox k"
  "km_contextos (poner_huecos hs k) = km_contextos k" "km_red (poner_huecos hs k) = km_red k"
  "km_swap (poner_huecos hs k) = km_swap k" "km_red_swap (poner_huecos hs k) = km_red_swap k"
  "km_best_fit (poner_huecos hs k) = km_best_fit k"
  "km_segment_max_size (poner_huecos hs k) = km_segment_max_size k"
  "km_malloc (poner_huecos hs k) = km_malloc k"
  "refs_vivas (poner_huecos hs k) = refs_vivas k"
  by (simp_all add: poner_huecos_def refs_vivas_def)

lemma cuenta_poner_huecos:
  "cuenta_km (poner_huecos hs k) a = cuenta (libres hs) a + ocupa (km_segs k) (refs_vivas k) a"
  by (simp add: cuenta_km_def)

interpretation col: colocacion "buscar_hueco bf" for bf
proof unfold_locales
  fix req hs i
  show "buscar_hueco bf req hs = Some i \<Longrightarrow> i < length hs \<and> req \<le> h_tamanio (hs ! i)"
    by (cases bf) (auto simp: buscar_hueco_def dest: bfc.buscar_Some wfc.buscar_Some)
  show "buscar_hueco bf req hs = None \<longleftrightarrow> (\<forall>h \<in> set hs. h_tamanio h < req)"
    by (cases bf) (simp_all add: buscar_hueco_def bfc.buscar_None wfc.buscar_None)
qed

lemma agregar_segmento_simps [simp]:
  "km_mapa (agregar_segmento pid s k) = km_mapa k" "km_red (agregar_segmento pid s k) = km_red k"
  "km_swap (agregar_segmento pid s k) = km_swap k"
  "km_red_swap (agregar_segmento pid s k) = km_red_swap k"
  "km_prox (agregar_segmento pid s k) = Suc (km_prox k)"
  "km_segs (agregar_segmento pid s k) = (km_segs k)(km_prox k := s)"
  "km_best_fit (agregar_segmento pid s k) = km_best_fit k"
  "km_malloc (agregar_segmento pid s k) = km_malloc k"
  by (simp_all add: agregar_segmento_def)

lemma agregar_segmento_refs:
  assumes "refs_validas k" "contexto_buscar pid (km_contextos k) = Some c"
  shows "refs_vivas (agregar_segmento pid s k) = add_mset (km_prox k) (refs_vivas k)"
    "refs_validas (agregar_segmento pid s k)"
    "cuenta_km (agregar_segmento pid s k) a =
       (if en_region (region_seg s) a then 1 else 0) + cuenta_km k a"
proof -
  obtain X where X: "refs_vivas k = mset (ctx_tabla c) + X"
    "\<forall>f. refs_vivas (k\<lparr>km_contextos := contexto_modificar pid f (km_contextos k)\<rparr>) = mset (ctx_tabla (f c)) + X"
    by (rule refs_vivas_modificar [OF assms(2)])
  show r: "refs_vivas (agregar_segmento pid s k) = add_mset (km_prox k) (refs_vivas k)"
    using spec [OF X(2), of "\<lambda>c. c\<lparr>ctx_tabla := ctx_tabla c @ [km_prox k]\<rparr>"] X(1)
    by (simp add: refs_vivas_def agregar_segmento_def)
  have nueva: "km_prox k \<notin># refs_vivas k" using assms(1) by (auto simp: refs_validas_def)
  then show "refs_validas (agregar_segmento pid s k)"
    using assms(1) r by (auto simp: refs_validas_iff less_Suc_eq not_in_iff)
  show "cuenta_km (agregar_segmento pid s k) a =
       (if en_region (region_seg s) a then 1 else 0) + cuenta_km k a"
    using nueva by (simp add: cuenta_km_def r)
qed

lemma liberar_segmento_simps [simp]:
  "km_segs (liberar_segmento r k) = km_segs k" "km_prox (liberar_segmento r k) = km_prox k"
  "km_contextos (liberar_segmento r k) = km_contextos k"
  "km_red (liberar_segmento r k) = km_red k" "km_sticks (liberar_segmento r k) = km_sticks k"
  "memoria_total (km_mapa (liberar_segmento r k)) = memoria_total (km_mapa k)"
  "km_swap (liberar_segmento r k) = km_swap k"
  "km_red_swap (liberar_segmento r k) = km_red_swap k"
  "refs_vivas (liberar_segmento r k) = refs_vivas k"
  by (simp_all add: liberar_segmento_def)

lemma cuenta_liberar_segmento:
  "cuenta_km (liberar_segmento r k) a =
     (if en_region (region_seg (km_segs k r)) a then 1 else 0) + cuenta_km k a"
  by (simp add: liberar_segmento_def cuenta_poner_huecos cuenta_liberar)
    (simp add: cuenta_simps region_seg_def cuenta_km_def)

lemma liberar_segmentos_simps [simp]:
  "km_segs (liberar_segmentos rs k) = km_segs k \<and> km_prox (liberar_segmentos rs k) = km_prox k \<and>
   km_contextos (liberar_segmentos rs k) = km_contextos k \<and>
   km_red (liberar_segmentos rs k) = km_red k \<and> km_sticks (liberar_segmentos rs k) = km_sticks k \<and>
   memoria_total (km_mapa (liberar_segmentos rs k)) = memoria_total (km_mapa k) \<and>
   km_swap (liberar_segmentos rs k) = km_swap k \<and>
   km_red_swap (liberar_segmentos rs k) = km_red_swap k \<and>
   refs_vivas (liberar_segmentos rs k) = refs_vivas k"
  by (induction rs arbitrary: k) simp_all

lemma cuenta_liberar_segmentos:
  "cuenta_km (liberar_segmentos rs k) a = ocupa (km_segs k) (mset rs) a + cuenta_km k a"
  by (induction rs arbitrary: k) (simp_all add: cuenta_liberar_segmento)

section \<open>Creation and removal keep the invariant\<close>

lemma segmento_crear_OK:
  assumes "segmento_crear pid id_seg tam k = (k', CREAR_SEG_OK)"
  obtains i c where "contexto_buscar pid (km_contextos k) = Some c"
    "buscar_hueco (km_best_fit k) tam (km_huecos k) = Some i"
    "k' = agregar_segmento pid \<lparr>seg_id = id_seg, seg_base = h_base (km_huecos k ! i), seg_limite = tam\<rparr>
            (poner_huecos (hueco_ocupar i tam (km_huecos k)) k)"
  using assms by (auto simp: segmento_crear_def split: if_splits option.splits)

lemma segmento_crear_no_OK:
  "segmento_crear pid id_seg tam k = (k', r) \<Longrightarrow> r \<noteq> CREAR_SEG_OK \<Longrightarrow> k' = k"
  by (auto simp: segmento_crear_def split: if_splits option.splits)

lemma segmento_crear_valido:
  assumes "km_valido k"
  shows "km_valido (fst (segmento_crear pid id_seg tam k))"
proof (cases "snd (segmento_crear pid id_seg tam k) = CREAR_SEG_OK")
  case False
  then show ?thesis
    using assms segmento_crear_no_OK [of pid id_seg tam k] by (metis prod.collapse)
next
  case True
  then obtain k' where k': "segmento_crear pid id_seg tam k = (k', CREAR_SEG_OK)"
    by (metis prod.collapse)
  obtain i c where ic: "contexto_buscar pid (km_contextos k) = Some c"
    "buscar_hueco (km_best_fit k) tam (km_huecos k) = Some i"
    and k'_def: "k' = agregar_segmento pid
        \<lparr>seg_id = id_seg, seg_base = h_base (km_huecos k ! i), seg_limite = tam\<rparr>
        (poner_huecos (hueco_ocupar i tam (km_huecos k)) k)"
    by (rule segmento_crear_OK [OF k'])
  let ?k1 = "poner_huecos (hueco_ocupar i tam (km_huecos k)) k"
  have p: "particion_km k" and rv: "refs_validas ?k1"
    using assms by (simp_all add: km_valido_def refs_validas_def)
  have "contexto_buscar pid (km_contextos ?k1) = Some c" using ic(1) by simp
  note agr = agregar_segmento_refs [OF rv this]
  have "cuenta_km k' a = cuenta_km k a" for a
    using col.ocupar_buscado [OF ic(2) huecos_sin_vuelta [OF p], of a]
    by (simp add: k'_def agr(3) cuenta_poner_huecos)
      (simp add: cuenta_simps region_seg_def cuenta_km_def split: if_splits)
  then have "km_valido k'"
    using assms agr(2) by (simp add: km_valido_def particion_km_def k'_def)
  with k' show ?thesis by simp
qed

lemma buscar_segmento_Some:
  "buscar_segmento segs i rs = Some r \<Longrightarrow> r \<in> set rs \<and> seg_id (segs r) = i"
  by (induction rs) (auto split: if_splits)

lemma segmento_eliminar_valido:
  assumes "km_valido k"
  shows "km_valido (fst (segmento_eliminar pid id_seg k))"
proof (cases "\<exists>c r. contexto_buscar pid (km_contextos k) = Some c \<and>
    buscar_segmento (km_segs k) id_seg (ctx_tabla c) = Some r")
  case False
  then show ?thesis
    using assms by (auto simp: segmento_eliminar_def split: option.splits)
next
  case True
  then obtain c r where cr: "contexto_buscar pid (km_contextos k) = Some c"
    "buscar_segmento (km_segs k) id_seg (ctx_tabla c) = Some r" by blast
  let ?k1 = "k\<lparr>km_contextos := contexto_modificar pid
               (\<lambda>c. c\<lparr>ctx_tabla := remove1 r (ctx_tabla c)\<rparr>) (km_contextos k)\<rparr>"
  obtain X where X: "refs_vivas k = mset (ctx_tabla c) + X"
    "\<forall>f. refs_vivas (k\<lparr>km_contextos := contexto_modificar pid f (km_contextos k)\<rparr>) = mset (ctx_tabla (f c)) + X"
    by (rule refs_vivas_modificar [OF cr(1)])
  have r: "r \<in> set (ctx_tabla c)" using buscar_segmento_Some [OF cr(2)] by simp
  then have q: "refs_vivas k = add_mset r (refs_vivas ?k1)" by (simp add: X)
  have sub: "refs_vivas ?k1 \<subseteq># refs_vivas k" unfolding q by simp
  have "cuenta_km (liberar_segmento r ?k1) a = cuenta_km k a" for a
    by (simp add: cuenta_liberar_segmento) (simp add: cuenta_km_def q)
  moreover have "refs_validas ?k1"
    by (rule refs_validas_menos [OF _ sub]) (use assms in \<open>simp_all add: km_valido_def\<close>)
  ultimately have "km_valido (liberar_segmento r ?k1)"
    using assms by (simp add: km_valido_def particion_km_def refs_validas_def)
  with cr show ?thesis by (simp add: segmento_eliminar_def)
qed

section \<open>Start-up and new sticks\<close>

text \<open>The state after the start-up functions, and the connection of a stick at socket \<open>fd\<close>.\<close>

definition km_inicial :: "int \<Rightarrow> bool \<Rightarrow> (u32 \<Rightarrow> bool) \<Rightarrow> km" where
  "km_inicial max_seg bf malloc =
     \<lparr>km_mapa = memory_sticks_init, km_red = (\<lambda>_. None), km_contextos = contextos_init,
      km_segs = (\<lambda>_. \<lparr>seg_id = 0, seg_base = 0, seg_limite = 0\<rparr>), km_prox = 0,
      km_swap = memoria_usuario_init, km_red_swap = (\<lambda>_. None), km_segment_max_size = max_seg,
      km_best_fit = bf, km_malloc = malloc\<rparr>"

lemma km_inicial_valido: "km_valido (km_inicial max_seg bf malloc)"
  by (simp add: km_inicial_def km_valido_def fisica_valida_def capacidad_def memory_sticks_init_def
      particion_km_def cuenta_km_def huecos_init_def libres_def refs_vivas_def contextos_init_def
      todos_los_segmentos_def refs_validas_def)

definition conectar_stick :: "int \<Rightarrow> t_stick \<Rightarrow> string \<Rightarrow> int \<Rightarrow> km \<Rightarrow> km" where
  "conectar_stick fd st ip puerto k =
     k\<lparr>km_mapa := memory_stick_agregar fd (st_tamanio st) ip puerto (km_mapa k),
       km_red := (km_red k)(fd := Some st)\<rparr>"

lemma conectar_stick_valido:
  assumes "km_valido k" "stick_valido st" "fd \<notin> ms_fd ` set (km_sticks k)"
    and "unat (memoria_total (km_mapa k)) + unat (st_tamanio st) < 2 ^ 32"
  shows "km_valido (conectar_stick fd st ip puerto k)"
proof -
  let ?k' = "conectar_stick fd st ip puerto k" and ?m = "memoria_total (km_mapa k)"
  have p: "particion_km k" and f: "fisica_valida (km_sticks k) (km_red k)"
    and cap: "capacidad (km_sticks k) = unat ?m" and rv: "refs_validas k"
    using assms(1) by (simp_all add: km_valido_def)
  have um: "unat (?m + st_tamanio st) = unat ?m + unat (st_tamanio st)"
    using assms(4) by (rule unat_suma_u32)
  have mapa: "memoria_total (km_mapa ?k') = ?m + st_tamanio st"
    "km_huecos ?k' = huecos_extender ?m (st_tamanio st) (km_huecos k)"
    "km_sticks ?k' = km_sticks k @ [\<lparr>ms_fd = fd, ms_tamanio = st_tamanio st, ms_base_global = ?m,
       ms_ip = take 63 ip, ms_puerto = puerto\<rparr>]"
    "refs_vivas ?k' = refs_vivas k" "km_segs ?k' = km_segs k"
    by (simp_all add: conectar_stick_def memory_stick_agregar_def Let_def refs_vivas_def)
  have "\<forall>h \<in> set (km_huecos k). h_tamanio h \<noteq> 0 \<longrightarrow> unat (h_base h) + unat (h_tamanio h) \<le> unat ?m"
  proof (intro ballI impI)
    fix h assume h: "h \<in> set (km_huecos k)" "h_tamanio h \<noteq> 0"
    have "(unat (h_base h), unat (h_tamanio h)) \<in> set (regiones_km k)"
      using libres_region [OF h(1)] by (simp add: regiones_km_def)
    then show "unat (h_base h) + unat (h_tamanio h) \<le> unat ?m"
      using p h(2) by (intro particiona_cota) (auto simp: particion_km_iff unat_gt_0)
  qed
  from cuenta_extender [OF this assms(4)]
  have "cuenta_km ?k' a = (if en_region (unat ?m, unat (st_tamanio st)) a then 1 else 0) + cuenta_km k a" for a
    unfolding cuenta_km_def mapa by (simp add: cuenta_Cons)
  then have "particion_km ?k'"
    using p unfolding particion_km_def mapa(1) um by (auto simp: en_region_def)
  moreover have "refs_validas ?k'"
    using rv by (simp add: refs_validas_def mapa(4)) (simp add: conectar_stick_def)
  moreover have "fisica_valida (km_sticks ?k') (km_red ?k')"
    using f assms(2,3,4) cap unfolding mapa(3)
    by (auto simp: fisica_valida_def stick_conectado_def conectar_stick_def)
  ultimately show ?thesis using cap unfolding km_valido_def mapa(1,3) by (simp add: um)
qed

end
