(* ===== verification/Intercambio.thy ===== *)
theory Intercambio
  imports Particion
begin

text \<open>
  The swap protocol between Kernel Memory and the swap module: what a connected swap
  answers to a block request, the copy of a buffer to free blocks and its reading back, and
  the bookkeeping of the bitmap of used blocks.
\<close>

section \<open>A connected swap\<close>

definition con_swap :: "bool list \<Rightarrow> (int \<Rightarrow> t_swap option) \<Rightarrow> km \<Rightarrow> km" where
  "con_swap us rsw k = k\<lparr>km_swap := (km_swap k)\<lparr>swap_bloques_usados := us\<rparr>, km_red_swap := rsw\<rparr>"

abbreviation km_usados :: "km \<Rightarrow> bool list" where
  "km_usados k \<equiv> swap_bloques_usados (km_swap k)"

abbreviation km_bs :: "km \<Rightarrow> nat" where
  "km_bs k \<equiv> nat (swap_block_size (km_swap k))"

abbreviation km_bloques :: "km \<Rightarrow> nat" where
  "km_bloques k \<equiv> nat (swap_total_bloques (km_swap k))"

definition conectado :: "km \<Rightarrow> t_swap \<Rightarrow> bool" where
  "conectado k sw \<longleftrightarrow>
     fd_swap (km_swap k) \<noteq> - 1 \<and> km_red_swap k (fd_swap (km_swap k)) = Some sw \<and> swap_valido sw \<and>
     sw_block_size sw = swap_block_size (km_swap k) \<and> swap_total sw = swap_total_bloques (km_swap k) \<and>
     length (km_usados k) = km_bloques k"

lemma con_swap_simps [simp]:
  "km_mapa (con_swap us rsw k) = km_mapa k" "km_red (con_swap us rsw k) = km_red k"
  "km_contextos (con_swap us rsw k) = km_contextos k" "km_segs (con_swap us rsw k) = km_segs k"
  "km_prox (con_swap us rsw k) = km_prox k" "km_usados (con_swap us rsw k) = us"
  "km_red_swap (con_swap us rsw k) = rsw" "fd_swap (km_swap (con_swap us rsw k)) = fd_swap (km_swap k)"
  "swap_block_size (km_swap (con_swap us rsw k)) = swap_block_size (km_swap k)"
  "swap_total_bloques (km_swap (con_swap us rsw k)) = swap_total_bloques (km_swap k)"
  "procesos_en_swap (km_swap (con_swap us rsw k)) = procesos_en_swap (km_swap k)"
  "km_best_fit (con_swap us rsw k) = km_best_fit k"
  "km_segment_max_size (con_swap us rsw k) = km_segment_max_size k"
  "km_malloc (con_swap us rsw k) = km_malloc k"
  "con_swap us' rsw' (con_swap us rsw k) = con_swap us' rsw' k"
  "refs_vivas (con_swap us rsw k) = refs_vivas k"
  by (simp_all add: con_swap_def refs_vivas_def)

lemma con_swap_id [simp]: "con_swap (km_usados k) (km_red_swap k) k = k"
  by (simp add: con_swap_def)

lemma marcar_con_swap: "marcar_bloque b v k = con_swap ((km_usados k)[b := v]) (km_red_swap k) k"
  by (simp add: marcar_bloque_def con_swap_def)

lemma leer_km_con_swap:
  "leer_km d n (con_swap us rsw k) = (con_swap us rsw (fst (leer_km d n k)), snd (leer_km d n k))"
  by (simp add: leer_km_def con_swap_def split: prod.splits)

lemma km_valido_con_swap [simp]: "km_valido (con_swap us rsw k) = km_valido k"
  by (simp add: km_valido_def particion_km_def cuenta_km_def refs_validas_def)

lemma swap_intercambio_conectado:
  "conectado k sw \<Longrightarrow> swap_intercambio pedido k =
     (k\<lparr>km_red_swap := (km_red_swap k)(fd_swap (km_swap k) := Some (fst (swap_bucle sw pedido)))\<rparr>,
      snd (swap_bucle sw pedido))"
  by (simp add: swap_intercambio_def conectado_def split: prod.splits)

lemma leer_bloque_conectado:
  assumes "conectado k sw" "b < km_bloques k"
  shows "swap_leer_bloque b k = (k, Some (bloque sw b))"
proof -
  have v: "swap_valido sw" "int b < swap_total sw" and r: "km_red_swap k (fd_swap (km_swap k)) = Some sw"
    using assms by (auto simp: conectado_def)
  have "length (bloque sw b) = km_bs k"
    using bloque_cabe(1) [OF v] assms(1) unfolding bloque_def conectado_def by (intro trans [OF length_ventana]) auto
  then show ?thesis
    using r by (simp add: swap_leer_bloque_def swap_intercambio_conectado [OF assms(1)]
        servir_bloque_leer [OF v] fun_upd_idem)
qed

lemma escribir_bloque_conectado:
  assumes "conectado k sw" "b < km_bloques k" "length cont = km_bs k"
  obtains sw' where
    "swap_escribir_bloque b cont k =
       (con_swap (km_usados k) ((km_red_swap k)(fd_swap (km_swap k) := Some sw')) k, True)"
    "conectado (con_swap (km_usados k) ((km_red_swap k)(fd_swap (km_swap k) := Some sw')) k) sw'"
    "\<forall>c < km_bloques k. bloque sw' c = (if c = b then cont else bloque sw c)"
proof -
  have v: "swap_valido sw" "int b < swap_total sw" and l: "length cont = nat (sw_block_size sw)"
    and t: "swap_total sw = swap_total_bloques (km_swap k)"
    using assms by (auto simp: conectado_def)
  define sw' where "sw' = sw\<lparr>sw_archivo := empalmar (b * nat (sw_block_size sw)) cont (sw_archivo sw)\<rparr>"
  note bt = bloque_tras_escribir [OF v _ l sw'_def]
  show thesis
  proof (rule that [of sw'])
    show "swap_escribir_bloque b cont k =
       (con_swap (km_usados k) ((km_red_swap k)(fd_swap (km_swap k) := Some sw')) k, True)"
      by (simp add: swap_escribir_bloque_def swap_intercambio_conectado [OF assms(1)]
          servir_bloque_escribir [OF v l] con_swap_def sw'_def)
    show "conectado (con_swap (km_usados k) ((km_red_swap k)(fd_swap (km_swap k) := Some sw')) k) sw'"
      using assms(1) bt(1,3) [OF v(2)] by (simp add: conectado_def) (simp add: sw'_def)
    show "\<forall>c < km_bloques k. bloque sw' c = (if c = b then cont else bloque sw c)"
      using bt(2) t by (auto simp: zless_nat_eq_int_zless)
  qed
qed

section \<open>Copying a buffer to free blocks\<close>

definition bloques_en :: "t_swap \<Rightarrow> nat list \<Rightarrow> byte list" where
  "bloques_en sw bs = concat (map (bloque sw) bs)"

lemma bloques_en_simps [simp]:
  "bloques_en sw [] = []" "bloques_en sw (b # bs) = bloque sw b @ bloques_en sw bs"
  "bloques_en sw (bs @ cs) = bloques_en sw bs @ bloques_en sw cs"
  by (simp_all add: bloques_en_def)

lemma bloques_en_cong: "(\<And>b. b \<in> set bs \<Longrightarrow> bloque sw b = bloque sw' b) \<Longrightarrow> bloques_en sw bs = bloques_en sw' bs"
  by (simp add: bloques_en_def cong: map_cong)

definition libres_en :: "bool list \<Rightarrow> nat list \<Rightarrow> nat" where
  "libres_en us bs = length (filter (\<lambda>b. \<not> us ! b) bs)"

definition marcados :: "bool list \<Rightarrow> nat list \<Rightarrow> bool list" where
  "marcados us bs = map (\<lambda>c. us ! c \<or> c \<in> set bs) [0..<length us]"

lemma marcados_simps [simp]:
  "length (marcados us bs) = length us"
  "c < length us \<Longrightarrow> marcados us bs ! c = (us ! c \<or> c \<in> set bs)"
  "marcados us [] = us"
  by (simp_all add: marcados_def map_nth)

lemma marcados_Cons: "b < length us \<Longrightarrow> marcados (us[b := True]) bs = marcados us (b # bs)"
  by (rule nth_equalityI) (auto simp: nth_list_update)

lemma marcados_marcados [simp]: "marcados (marcados us bs) cs = marcados us (bs @ cs)"
  by (rule nth_equalityI) auto

text \<open>
  With enough free blocks the copy succeeds: it takes distinct free blocks, as many as asked,
  and stores in them the rest of the buffer, leaving every other block as it was.
\<close>

definition copiado ::
    "km \<Rightarrow> t_swap \<Rightarrow> nat list \<Rightarrow> byte list \<Rightarrow> km \<Rightarrow> t_swap \<Rightarrow> bool" where
  "copiado k sw nuevos datos k' sw' \<longleftrightarrow>
     k' = con_swap (marcados (km_usados k) nuevos) (km_red_swap k') k \<and> conectado k' sw' \<and>
     distinct nuevos \<and> (\<forall>b \<in> set nuevos. b < km_bloques k \<and> \<not> km_usados k ! b) \<and>
     bloques_en sw' nuevos = datos \<and>
     (\<forall>c < km_bloques k. c \<notin> set nuevos \<longrightarrow> bloque sw' c = bloque sw c)"

lemma copiar_bloques_ok:
  assumes "conectado k sw" "distinct bs" "\<forall>b \<in> set bs. b < km_bloques k"
    and "length buffer = cantidad * km_bs k" "length asignados \<le> cantidad"
    and "cantidad \<le> length asignados + libres_en (km_usados k) bs"
  shows "\<exists>k' sw' nuevos. copiar_bloques bs (int cantidad) buffer asignados k = (k', asignados @ nuevos, True) \<and>
    length (asignados @ nuevos) = cantidad \<and> set nuevos \<subseteq> set bs \<and>
    copiado k sw nuevos (drop (length asignados * km_bs k) buffer) k' sw'"
  using assms
proof (induction bs arbitrary: asignados k sw)
  case Nil
  then show ?case
    by (intro exI [of _ k] exI [of _ sw] exI [of _ "[]"]) (simp add: copiado_def libres_en_def)
next
  case (Cons b bs)
  let ?n = "km_bs k" and ?a = "length asignados" and ?us = "km_usados k"
  show ?case
  proof (cases "?a < cantidad \<and> \<not> ?us ! b")
    case False
    show ?thesis
    proof (cases "?a < cantidad")
      case True
      with False have u: "?us ! b" by simp
      then have "cantidad \<le> ?a + libres_en ?us bs" using Cons.prems(6) by (simp add: libres_en_def)
      with Cons.IH [OF Cons.prems(1) _ _ Cons.prems(4,5)] Cons.prems(2,3)
      obtain k' sw' nuevos where "copiar_bloques bs (int cantidad) buffer asignados k = (k', asignados @ nuevos, True)"
        "length (asignados @ nuevos) = cantidad" "set nuevos \<subseteq> set bs"
        "copiado k sw nuevos (drop (?a * ?n) buffer) k' sw'" by auto
      with True u show ?thesis
        by (intro exI [of _ k'] exI [of _ sw'] exI [of _ nuevos]) auto
    next
      case False
      with Cons.prems show ?thesis
        by (intro exI [of _ k] exI [of _ sw] exI [of _ "[]"]) (simp add: copiado_def)
    qed
  next
    case True
    let ?k1 = "marcar_bloque b True k" and ?cont = "ventana (?a * ?n) ?n buffer"
    have b: "b < km_bloques k" "b < length ?us" using Cons.prems(1,3) by (simp_all add: conectado_def)
    have c1: "conectado ?k1 sw" using Cons.prems(1) by (simp add: conectado_def marcar_con_swap)
    have cabe: "?a * ?n + ?n \<le> length buffer"
      using True mult_le_mono1 [of "Suc ?a" cantidad ?n] by (simp add: Cons.prems(4) add.commute)
    have "length ?cont = km_bs ?k1" using cabe by (simp add: marcar_con_swap)
    moreover have "b < km_bloques ?k1" using b by (simp add: marcar_con_swap)
    ultimately obtain sw1 where e: "swap_escribir_bloque b ?cont ?k1 =
        (con_swap (km_usados ?k1) ((km_red_swap ?k1)(fd_swap (km_swap ?k1) := Some sw1)) ?k1, True)"
      "conectado (con_swap (km_usados ?k1) ((km_red_swap ?k1)(fd_swap (km_swap ?k1) := Some sw1)) ?k1) sw1"
      "\<forall>c < km_bloques ?k1. bloque sw1 c = (if c = b then ?cont else bloque sw c)"
      using escribir_bloque_conectado [OF c1, of b ?cont] by blast
    define k2 where "k2 = con_swap (km_usados ?k1) ((km_red_swap ?k1)(fd_swap (km_swap ?k1) := Some sw1)) ?k1"
    have k2: "k2 = con_swap (?us[b := True]) (km_red_swap k2) k" "km_usados k2 = ?us[b := True]"
      "km_bs k2 = ?n" "km_bloques k2 = km_bloques k"
      by (simp_all add: k2_def marcar_con_swap)
    have "libres_en ?us (b # bs) = Suc (libres_en ?us bs)" using True by (simp add: libres_en_def)
    moreover have "libres_en (km_usados k2) bs = libres_en ?us bs"
      using Cons.prems(2) unfolding libres_en_def k2(2)
      by (intro arg_cong [of _ _ length] filter_cong) (auto, (metis nth_list_update_neq)+)
    ultimately have hay: "cantidad \<le> length (asignados @ [b]) + libres_en (km_usados k2) bs"
      using Cons.prems(6) by simp
    obtain k' sw' nuevos where r: "copiar_bloques bs (int cantidad) buffer (asignados @ [b]) k2 =
        (k', (asignados @ [b]) @ nuevos, True)"
      "length ((asignados @ [b]) @ nuevos) = cantidad" "set nuevos \<subseteq> set bs"
      "copiado k2 sw1 nuevos (drop (length (asignados @ [b]) * km_bs k2) buffer) k' sw'"
      using Cons.IH [of k2 sw1 "asignados @ [b]"] Cons.prems(2-4) e(2) hay True
      by (auto simp: k2_def [symmetric] k2(3,4))
    have nb: "b \<notin> set nuevos" using r(3) Cons.prems(2) by auto
    have fila: "drop (?a * ?n) buffer = ?cont @ drop (length (asignados @ [b]) * ?n) buffer"
      by (simp add: ventana_def add.commute) (metis append_take_drop_id drop_drop add.commute)
    have blb: "bloque sw' b = ?cont"
      using r(4) nb e(3) b by (simp add: copiado_def k2(4) marcar_con_swap)
    have resto: "bloque sw' c = bloque sw c" if "c < km_bloques k" "c \<notin> set (b # nuevos)" for c
      using r(4) e(3) that by (simp add: copiado_def k2(4) marcar_con_swap)
    have "copiado k sw (b # nuevos) (drop (?a * ?n) buffer) k' sw'"
      unfolding copiado_def
    proof (intro conjI)
      have "k' = con_swap (marcados (km_usados k2) nuevos) (km_red_swap k') k2"
        using r(4) by (simp add: copiado_def)
      then show "k' = con_swap (marcados ?us (b # nuevos)) (km_red_swap k') k"
        by (simp add: k2_def marcar_con_swap marcados_Cons [OF b(2)])
      show "\<forall>d \<in> set (b # nuevos). d < km_bloques k \<and> \<not> ?us ! d"
        using r(4) b True nb by (auto simp: copiado_def k2(2,4) nth_list_update split: if_splits)
      show "bloques_en sw' (b # nuevos) = drop (?a * ?n) buffer"
        using r(4) blb unfolding fila by (simp add: copiado_def k2(3))
      show "\<forall>c<km_bloques k. c \<notin> set (b # nuevos) \<longrightarrow> bloque sw' c = bloque sw c"
        using resto by blast
    qed (use r(4) nb in \<open>simp_all add: copiado_def\<close>)
    moreover have "copiar_bloques (b # bs) (int cantidad) buffer asignados k = (k', asignados @ b # nuevos, True)"
      using r(1) True by (simp add: e(1) k2_def [symmetric])
    ultimately show ?thesis
      using r(2,3) by (intro exI [of _ k'] exI [of _ sw'] exI [of _ "b # nuevos"]) auto
  qed
qed

section \<open>Reading blocks back, and undoing a copy\<close>

definition desmarcados :: "bool list \<Rightarrow> nat list \<Rightarrow> bool list" where
  "desmarcados us bs = map (\<lambda>c. us ! c \<and> c \<notin> set bs) [0..<length us]"

lemma desmarcados_simps [simp]:
  "length (desmarcados us bs) = length us"
  "c < length us \<Longrightarrow> desmarcados us bs ! c = (us ! c \<and> c \<notin> set bs)"
  "desmarcados us [] = us"
  "desmarcados (desmarcados us bs) cs = desmarcados us (bs @ cs)"
  by (simp_all add: desmarcados_def map_nth)

lemma desmarcados_Cons: "desmarcados (us[b := False]) bs = desmarcados us (b # bs)"
  by (cases "b < length us") (auto intro!: nth_equalityI simp: nth_list_update split: if_splits)

lemma desmarcados_marcados:
  assumes "\<forall>b \<in> set bs. b < length us \<longrightarrow> \<not> us ! b"
  shows "desmarcados (marcados us (cs @ bs)) bs = desmarcados (marcados us cs) bs"
    "desmarcados (marcados us bs) bs = us"
  using assms by (auto intro!: nth_equalityI)

lemma desmarcar_con_swap:
  "desmarcar_bloques bs k = con_swap (desmarcados (km_usados k) bs) (km_red_swap k) k"
  by (induction bs arbitrary: k) (simp_all add: marcar_con_swap desmarcados_Cons)

lemma conectado_desmarcar:
  "conectado k sw \<Longrightarrow> conectado (con_swap (desmarcados (km_usados k) bs) (km_red_swap k) k) sw"
  by (simp add: conectado_def)

lemma traer_bloques_ok:
  assumes "conectado k sw" "\<forall>b \<in> set bs. b < km_bloques k"
  shows "traer_bloques bs k =
    (con_swap (desmarcados (km_usados k) bs) (km_red_swap k) k, bloques_en sw bs)"
  using assms
proof (induction bs arbitrary: k)
  case (Cons b bs)
  let ?k1 = "marcar_bloque b False k"
  have "conectado ?k1 sw" using Cons.prems(1) by (simp add: conectado_def marcar_con_swap)
  then have "traer_bloques bs ?k1 =
      (con_swap (desmarcados (km_usados ?k1) bs) (km_red_swap ?k1) ?k1, bloques_en sw bs)"
    using Cons by (simp add: marcar_con_swap)
  then show ?case
    using Cons.prems leer_bloque_conectado [OF Cons.prems(1), of b]
    by (simp add: marcar_con_swap desmarcados_Cons)
qed simp

lemma intercambio_con_swap: "\<exists>rsw. fst (swap_intercambio pedido k) = con_swap (km_usados k) rsw k"
proof -
  have "\<exists>rsw. fst (swap_intercambio pedido k) = k\<lparr>km_red_swap := rsw\<rparr>"
    by (cases "km_red_swap k (fd_swap (km_swap k))")
      (auto simp: swap_intercambio_def split: prod.splits intro: exI [of _ "km_red_swap k"])
  then show ?thesis by (simp add: con_swap_def)
qed

lemma escribir_bloque_con_swap:
  "\<exists>rsw. fst (swap_escribir_bloque b cont k) = con_swap (km_usados k) rsw k"
proof -
  have "fst (swap_escribir_bloque b cont k) = fst (swap_intercambio (pedido_bloque_escribir (int b) cont) k)"
    by (simp add: swap_escribir_bloque_def split: prod.splits option.splits)
  then show ?thesis by (simp add: intercambio_con_swap)
qed

lemma copiar_bloques_marca:
  assumes "copiar_bloques bs cantidad buffer asignados k = (k', asignados', ok)"
    and "distinct bs" "\<forall>b \<in> set bs. b < length (km_usados k)"
  shows "\<exists>nuevos rsw. asignados' = asignados @ nuevos \<and> set nuevos \<subseteq> set bs \<and> distinct nuevos \<and>
    k' = con_swap (marcados (km_usados k) nuevos) rsw k \<and> (\<forall>b \<in> set nuevos. \<not> km_usados k ! b)"
  using assms
proof (induction bs arbitrary: asignados k)
  case Nil
  then show ?case by (intro exI [of _ "[]"] exI [of _ "km_red_swap k"]) simp
next
  case (Cons b bs)
  let ?us = "km_usados k"
  show ?case
  proof (cases "int (length asignados) < cantidad \<and> \<not> ?us ! b")
    case False
    show ?thesis
    proof (cases "int (length asignados) < cantidad")
      case True
      with False Cons.prems have "copiar_bloques bs cantidad buffer asignados k = (k', asignados', ok)" by simp
      from Cons.IH [OF this] Cons.prems(2,3) show ?thesis by auto
    next
      case False
      with Cons.prems(1) show ?thesis
        by (intro exI [of _ "[]"] exI [of _ "km_red_swap k"]) simp
    qed
  next
    case True
    have b: "b < length ?us" using Cons.prems(3) by simp
    obtain k1 ok1 where e: "swap_escribir_bloque b
        (ventana (length asignados * km_bs k) (km_bs k) buffer) (marcar_bloque b True k) = (k1, ok1)"
      by (metis surj_pair)
    obtain rsw where k1: "k1 = con_swap (?us[b := True]) rsw k"
      using escribir_bloque_con_swap [of b _ "marcar_bloque b True k"] e
      by (auto simp: marcar_con_swap) (metis fst_conv)
    show ?thesis
    proof (cases ok1)
      case False
      with True e Cons.prems(1) have "k' = k1" "asignados' = asignados @ [b]" by (simp_all add: Let_def)
      with True b k1 marcados_Cons [OF b, of "[]"] show ?thesis
        by (intro exI [of _ "[b]"] exI [of _ rsw]) simp
    next
      case ok: True
      with True e Cons.prems(1)
      have r: "copiar_bloques bs cantidad buffer (asignados @ [b]) k1 = (k', asignados', ok)" by (simp add: Let_def)
      have "\<exists>nuevos rsw. asignados' = (asignados @ [b]) @ nuevos \<and> set nuevos \<subseteq> set bs \<and> distinct nuevos \<and>
          k' = con_swap (marcados (km_usados k1) nuevos) rsw k1 \<and> (\<forall>b \<in> set nuevos. \<not> km_usados k1 ! b)"
        using Cons.IH [OF r] Cons.prems(2,3) by (simp add: k1)
      then obtain nuevos rsw' where n: "asignados' = (asignados @ [b]) @ nuevos" "set nuevos \<subseteq> set bs"
        "distinct nuevos" "k' = con_swap (marcados (km_usados k1) nuevos) rsw' k1"
        "\<forall>b \<in> set nuevos. \<not> km_usados k1 ! b" by blast
      have "b \<notin> set nuevos" using n(2) Cons.prems(2) by auto
      moreover from this have "\<forall>c \<in> set (b # nuevos). \<not> ?us ! c"
        using n(5) True by (auto simp: k1) (metis nth_list_update_neq)
      ultimately show ?thesis
        using n by (intro exI [of _ "b # nuevos"] exI [of _ rsw']) (auto simp: k1 marcados_Cons [OF b])
    qed
  qed
qed

text \<open>Other sticks.\<close>

definition con_red :: "red \<Rightarrow> km \<Rightarrow> km" where
  "con_red red k = k\<lparr>km_red := red\<rparr>"

text \<open>Whether or not the copy ends well, a block that was in use keeps its bytes.\<close>

definition mismos_bloques :: "km \<Rightarrow> km \<Rightarrow> bool list \<Rightarrow> bool" where
  "mismos_bloques k k' us \<longleftrightarrow>
     (\<forall>sw. conectado k sw \<longrightarrow> (\<exists>sw'. conectado k' sw' \<and> (\<forall>c < km_bloques k. us ! c \<longrightarrow> bloque sw' c = bloque sw c)))"

lemma mismos_bloques_refl: "mismos_bloques k k us"
  by (auto simp: mismos_bloques_def)

lemma mismos_bloques_trans:
  "mismos_bloques k k' us \<Longrightarrow> mismos_bloques k' k'' us \<Longrightarrow> km_bloques k' = km_bloques k \<Longrightarrow> mismos_bloques k k'' us"
  unfolding mismos_bloques_def by metis

lemma mismos_bloques_mono:
  "mismos_bloques k k' vs \<Longrightarrow> (\<And>c. c < km_bloques k \<Longrightarrow> us ! c \<Longrightarrow> vs ! c) \<Longrightarrow> mismos_bloques k k' us"
  unfolding mismos_bloques_def by metis

lemma mismos_bloques_marcar:
  "mismos_bloques k (marcar_bloque b v k) us" "mismos_bloques k (con_red red k) us"
  by (auto simp: mismos_bloques_def conectado_def marcar_con_swap con_red_def)

lemma mismos_bloques_desmarcar: "mismos_bloques k (desmarcar_bloques bs k) us"
  by (auto simp: mismos_bloques_def desmarcar_con_swap intro: conectado_desmarcar)

lemma escribir_bloque_ajeno:
  assumes "swap_escribir_bloque b cont k = (k', ok)" "length cont \<le> km_bs k" "b < km_bloques k" "\<not> us ! b"
  shows "mismos_bloques k k' us"
  unfolding mismos_bloques_def
proof (intro allI impI)
  fix sw
  assume c: "conectado k sw"
  show "\<exists>sw'. conectado k' sw' \<and> (\<forall>c < km_bloques k. us ! c \<longrightarrow> bloque sw' c = bloque sw c)"
  proof (cases "length cont = km_bs k")
    case True
    obtain sw' where "swap_escribir_bloque b cont k =
        (con_swap (km_usados k) ((km_red_swap k)(fd_swap (km_swap k) := Some sw')) k, True)"
      "conectado (con_swap (km_usados k) ((km_red_swap k)(fd_swap (km_swap k) := Some sw')) k) sw'"
      "\<forall>c < km_bloques k. bloque sw' c = (if c = b then cont else bloque sw c)"
      by (rule escribir_bloque_conectado [OF c assms(3) True])
    with assms(1,4) show ?thesis by (intro exI [of _ sw']) auto
  next
    case False
    then have "recibir_exacto (nat (sw_block_size sw)) cont = None"
      using assms(2) c by (simp add: recibir_exacto_def conectado_def)
    moreover have "en_int (int b)" using bloque_cabe(2) [of sw b] c assms(3) by (auto simp: conectado_def)
    ultimately have "swap_operacion sw (pedido_bloque_escribir (int b) cont) = SwFin sw"
      by (simp add: swap_operacion_def pedido_bloque_escribir_def swap_op_escribir_def)
    then have "swap_bucle sw (pedido_bloque_escribir (int b) cont) = (sw, [])"
      by (simp add: swap_bucle.simps [of sw "pedido_bloque_escribir (int b) cont"])
    then have "k' = k" using assms(1) c
      by (auto simp: swap_escribir_bloque_def swap_intercambio_conectado [OF c] conectado_def fun_upd_idem
          split: option.splits)
    then show ?thesis using c by auto
  qed
qed

lemma copiar_bloques_ajenos:
  assumes "copiar_bloques bs cantidad buffer asignados k = (k', asignados', ok)"
    and "\<forall>b \<in> set bs. b < km_bloques k" "length (km_usados k) = km_bloques k"
    and "\<forall>c < km_bloques k. us ! c \<longrightarrow> km_usados k ! c"
  shows "mismos_bloques k k' us"
  using assms
proof (induction bs arbitrary: asignados k)
  case Nil
  then show ?case by (simp add: mismos_bloques_refl)
next
  case (Cons b bs)
  show ?case
  proof (cases "int (length asignados) < cantidad \<and> \<not> km_usados k ! b")
    case False
    with Cons show ?thesis by (auto simp: mismos_bloques_refl split: if_splits)
  next
    case True
    let ?k1 = "marcar_bloque b True k" and ?cont = "ventana (length asignados * km_bs k) (km_bs k) buffer"
    obtain k2 ok2 where e: "swap_escribir_bloque b ?cont ?k1 = (k2, ok2)" by (metis surj_pair)
    obtain rsw where k2: "k2 = con_swap ((km_usados k)[b := True]) rsw k"
      using escribir_bloque_con_swap [of b ?cont ?k1] e by (auto simp: marcar_con_swap)
    have b: "b < km_bloques k" "\<not> us ! b" using Cons.prems(2,4) True by auto
    have "length ?cont \<le> km_bs ?k1" by (simp add: ventana_def marcar_con_swap)
    from escribir_bloque_ajeno [OF e this] b have "mismos_bloques ?k1 k2 us" by (simp add: marcar_con_swap)
    from mismos_bloques_trans [OF mismos_bloques_marcar(1) this] have m: "mismos_bloques k k2 us"
      by (simp add: marcar_con_swap)
    show ?thesis
    proof (cases ok2)
      case False
      with True e Cons.prems(1) have "k' = k2" by (simp add: Let_def)
      with m show ?thesis by simp
    next
      case ok: True
      with True e Cons.prems(1)
      have "copiar_bloques bs cantidad buffer (asignados @ [b]) k2 = (k', asignados', ok)" by (simp add: Let_def)
      from Cons.IH [OF this] Cons.prems(2-4) have "mismos_bloques k2 k' us"
        by (simp add: k2 nth_list_update)
      from mismos_bloques_trans [OF m this] show ?thesis by (simp add: k2)
    qed
  qed
qed

end
