(* ===== verification/Compactacion.thy ===== *)
theory Compactacion
  imports Particion
begin

text \<open>
  Compaction is correct: with every stick connected and memory for the copies, it moves
  all segments to the start of the memory in the order of their bases, keeps the bytes of
  each, keeps the invariant of the user memory, leaves one hole, and makes room for the
  segment whose creation asked for it.
\<close>

section \<open>The loop on the flat image\<close>

definition contenido :: "byte list \<Rightarrow> t_segmento \<Rightarrow> byte list" where
  "contenido img s = ventana (unat (seg_base s)) (unat (seg_limite s)) img"

definition tamanio_total :: "(nat \<Rightarrow> t_segmento) \<Rightarrow> nat list \<Rightarrow> nat" where
  "tamanio_total segs rs = sum_list (map (\<lambda>r. unat (seg_limite (segs r))) rs)"

lemma tamanio_total_simps [simp]:
  "tamanio_total segs [] = 0"
  "tamanio_total segs (r # rs) = unat (seg_limite (segs r)) + tamanio_total segs rs"
  "tamanio_total segs (rs @ qs) = tamanio_total segs rs + tamanio_total segs qs"
  by (simp_all add: tamanio_total_def)

lemma tamanio_total_otro [simp]:
  "r \<notin> set rs \<Longrightarrow> tamanio_total (segs(r := s)) rs = tamanio_total segs rs"
  unfolding tamanio_total_def by (intro arg_cong [of _ _ sum_list] map_cong) auto

lemma tamanio_total_mset: "mset rs = mset qs \<Longrightarrow> tamanio_total segs rs = tamanio_total segs qs"
  unfolding tamanio_total_def by (metis mset_map sum_mset_sum_list)

fun reubicar :: "u32 \<Rightarrow> nat list \<Rightarrow> (nat \<Rightarrow> t_segmento) \<Rightarrow> nat \<Rightarrow> t_segmento" where
  "reubicar destino [] segs = segs"
| "reubicar destino (r # rs) segs =
     reubicar (destino + seg_limite (segs r)) rs (segs(r := (segs r)\<lparr>seg_base := destino\<rparr>))"

definition compactable :: "(nat \<Rightarrow> t_segmento) \<Rightarrow> nat \<Rightarrow> nat \<Rightarrow> nat list \<Rightarrow> bool" where
  "compactable segs d cap rs \<longleftrightarrow>
     distinct rs \<and> d + tamanio_total segs rs \<le> cap \<and>
     (\<forall>r \<in> set rs. seg_limite (segs r) \<noteq> 0 \<longrightarrow>
        d \<le> unat (seg_base (segs r)) \<and>
        unat (seg_base (segs r)) + unat (seg_limite (segs r)) \<le> cap) \<and>
     sorted_wrt (\<lambda>r s. seg_limite (segs r) \<noteq> 0 \<and> seg_limite (segs s) \<noteq> 0 \<longrightarrow>
        unat (seg_base (segs r)) + unat (seg_limite (segs r)) \<le> unat (seg_base (segs s))) rs"

lemma compactable_paso:
  assumes "compactable segs d cap (r # rs)"
  shows "compactable segs (d + unat (seg_limite (segs r))) cap rs"
proof -
  have "d + unat (seg_limite (segs r)) \<le> unat (seg_base (segs s))"
    if "s \<in> set rs" "seg_limite (segs s) \<noteq> 0" for s
    using assms that by (cases "seg_limite (segs r) = 0") (force simp: compactable_def)+
  with assms show ?thesis by (simp add: compactable_def add.assoc)
qed

lemma compactable_otra_base:
  assumes "r \<notin> set rs"
  shows "compactable (segs(r := s)) d cap rs \<longleftrightarrow> compactable segs d cap rs"
proof -
  have "tamanio_total (segs(r := s)) rs = tamanio_total segs rs"
    using assms unfolding tamanio_total_def by (intro arg_cong [of _ _ sum_list] map_cong) auto
  moreover have "sorted_wrt (\<lambda>q t. seg_limite ((segs(r := s)) q) \<noteq> 0 \<and> seg_limite ((segs(r := s)) t) \<noteq> 0 \<longrightarrow>
        unat (seg_base ((segs(r := s)) q)) + unat (seg_limite ((segs(r := s)) q)) \<le> unat (seg_base ((segs(r := s)) t))) rs
    \<longleftrightarrow> sorted_wrt (\<lambda>q t. seg_limite (segs q) \<noteq> 0 \<and> seg_limite (segs t) \<noteq> 0 \<longrightarrow>
        unat (seg_base (segs q)) + unat (seg_limite (segs q)) \<le> unat (seg_base (segs t))) rs"
    using assms by (induction rs) auto
  moreover have "(\<forall>q \<in> set rs. seg_limite ((segs(r := s)) q) \<noteq> 0 \<longrightarrow>
        d \<le> unat (seg_base ((segs(r := s)) q)) \<and>
        unat (seg_base ((segs(r := s)) q)) + unat (seg_limite ((segs(r := s)) q)) \<le> cap)
    \<longleftrightarrow> (\<forall>q \<in> set rs. seg_limite (segs q) \<noteq> 0 \<longrightarrow>
        d \<le> unat (seg_base (segs q)) \<and>
        unat (seg_base (segs q)) + unat (seg_limite (segs q)) \<le> cap)"
    using assms by auto
  ultimately show ?thesis unfolding compactable_def by simp
qed

lemma contenidos_intactos:
  assumes "compactable segs d cap (r # rs)" "length img = cap" "s \<in> set rs"
    and "length datos = unat (seg_limite (segs r))"
  shows "contenido (empalmar d datos img) (segs s) = contenido img (segs s)"
proof (cases "seg_limite (segs s) = 0")
  case True
  then show ?thesis by (simp add: contenido_def)
next
  case False
  have "d + length datos \<le> unat (seg_base (segs s))"
    using compactable_paso [OF assms(1)] assms(3,4) False by (simp add: compactable_def)
  then show ?thesis
    using assms False unfolding contenido_def
    by (intro ventana_empalmar_disj) (auto simp: compactable_def)
qed

lemma leer_km_0 [simp]: "leer_km dir 0 k = (k, Some [])"
  by (simp add: leer_km_def memoria_fisica_leer_def leer_bucle.simps)

lemma escribir_km_0 [simp]: "escribir_km dir 0 buffer k = (k, True)"
  by (simp add: escribir_km_def memoria_fisica_escribir_def escribir_bucle.simps)

text \<open>Moving one segment, empty or not, down to \<open>destino\<close>.\<close>

lemma mover_segmento:
  assumes "fisica_valida (km_sticks k) (km_red k)" "s = km_segs k r"
    and "seg_limite s \<noteq> 0 \<Longrightarrow> unat (seg_base s) + unat (seg_limite s) \<le> capacidad (km_sticks k)"
    and "unat destino + unat (seg_limite s) \<le> capacidad (km_sticks k)"
  obtains red' where
    "leer_km (seg_base s) (seg_limite s) k = (k, Some (contenido (imagen (km_sticks k) (km_red k)) s))"
    "escribir_km destino (seg_limite s) (contenido (imagen (km_sticks k) (km_red k)) s) k =
       (k\<lparr>km_red := red'\<rparr>, True)"
    "fisica_valida (km_sticks k) red'"
    "imagen (km_sticks k) red' =
       empalmar (unat destino) (contenido (imagen (km_sticks k) (km_red k)) s) (imagen (km_sticks k) (km_red k))"
proof (cases "seg_limite s = 0")
  case True
  then show thesis
    using assms by (intro that [of "km_red k"]) (simp_all add: contenido_def)
next
  case False
  show thesis
    using assms(1,4) assms(3) [OF False]
    by (rule_tac km.mover_bloque [of "km_sticks k" "km_red k" "seg_base s" "seg_limite s" destino])
      (auto simp: leer_km_def escribir_km_def contenido_def intro: that)
qed

theorem compactar_bucle_ok:
  assumes "fisica_valida (km_sticks k) (km_red k)" "\<forall>n. km_malloc k n"
    and "compactable (km_segs k) (unat destino) (capacidad (km_sticks k)) rs"
  shows "\<exists>red'. compactar_bucle rs destino k =
      (k\<lparr>km_red := red', km_segs := reubicar destino rs (km_segs k)\<rparr>,
       destino + of_nat (tamanio_total (km_segs k) rs), True) \<and>
    fisica_valida (km_sticks k) red' \<and>
    imagen (km_sticks k) red' = empalmar (unat destino)
      (concat (map (\<lambda>r. contenido (imagen (km_sticks k) (km_red k)) (km_segs k r)) rs))
      (imagen (km_sticks k) (km_red k))"
  using assms
proof (induction rs arbitrary: destino k)
  case Nil
  then show ?case by (intro exI [of _ "km_red k"]) (simp add: compactable_def)
next
  case (Cons r rs)
  let ?img = "imagen (km_sticks k) (km_red k)" and ?s = "km_segs k r"
  let ?l = "seg_limite ?s" and ?cap = "capacidad (km_sticks k)"
  have cap32: "?cap < 2 ^ 32" using Cons.prems(1) by (simp add: fisica_valida_def)
  have cabe: "unat destino + unat ?l \<le> ?cap" and nr: "r \<notin> set rs"
    and cs: "?l \<noteq> 0 \<Longrightarrow> unat (seg_base ?s) + unat ?l \<le> ?cap"
    using Cons.prems(3) by (auto simp: compactable_def)
  have d': "unat (destino + ?l) = unat destino + unat ?l"
    using cabe cap32 by (intro unat_suma_u32) simp
  obtain red1 where m: "leer_km (seg_base ?s) ?l k = (k, Some (contenido ?img ?s))"
    "escribir_km destino ?l (contenido ?img ?s) k = (k\<lparr>km_red := red1\<rparr>, True)"
    "fisica_valida (km_sticks k) red1"
    "imagen (km_sticks k) red1 = empalmar (unat destino) (contenido ?img ?s) ?img"
    using mover_segmento [OF Cons.prems(1) refl cs cabe] by blast
  have lc: "length (contenido ?img ?s) = unat ?l"
    using cs Cons.prems(1) by (cases "?l = 0") (auto simp: contenido_def)
  define k1 where "k1 = (if seg_base ?s \<noteq> destino
      then k\<lparr>km_red := red1, km_segs := (km_segs k)(r := ?s\<lparr>seg_base := destino\<rparr>)\<rparr> else k)"
  have paso: "compactar_bucle (r # rs) destino k = compactar_bucle rs (destino + ?l) k1"
    using m(1,2) Cons.prems(2) by (simp add: k1_def Let_def)
  have segs1: "km_segs k1 = (km_segs k)(r := ?s\<lparr>seg_base := destino\<rparr>)"
    by (auto simp: k1_def)
  have img1: "imagen (km_sticks k) (km_red k1) = empalmar (unat destino) (contenido ?img ?s) ?img"
  proof (cases "seg_base ?s = destino")
    case True
    then show ?thesis
      using cabe Cons.prems(1) by (simp add: k1_def contenido_def)
  qed (simp add: k1_def m(4))
  have st: "km_sticks k1 = km_sticks k" "\<forall>n. km_malloc k1 n"
    "fisica_valida (km_sticks k1) (km_red k1)"
    using Cons.prems(1,2) m(3) by (auto simp: k1_def)
  have comp1: "compactable (km_segs k1) (unat (destino + ?l)) (capacidad (km_sticks k1)) rs"
    using compactable_paso [OF Cons.prems(3)] by (simp add: segs1 d' st(1) compactable_otra_base [OF nr])
  obtain red' where r: "compactar_bucle rs (destino + ?l) k1 =
      (k1\<lparr>km_red := red', km_segs := reubicar (destino + ?l) rs (km_segs k1)\<rparr>,
       destino + ?l + of_nat (tamanio_total (km_segs k1) rs), True)"
    "fisica_valida (km_sticks k) red'"
    "imagen (km_sticks k) red' = empalmar (unat (destino + ?l))
      (concat (map (\<lambda>q. contenido (imagen (km_sticks k) (km_red k1)) (km_segs k1 q)) rs))
      (imagen (km_sticks k) (km_red k1))"
    using Cons.IH [OF st(3,2) comp1] st(1) by auto
  have cont: "map (\<lambda>q. contenido (imagen (km_sticks k) (km_red k1)) (km_segs k1 q)) rs =
      map (\<lambda>q. contenido ?img (km_segs k q)) rs"
    using nr contenidos_intactos [OF Cons.prems(3) _ _ lc] Cons.prems(1)
    by (intro map_cong) (auto simp: segs1 img1)
  have tt: "tamanio_total (km_segs k1) rs = tamanio_total (km_segs k) rs"
    using nr unfolding tamanio_total_def segs1 by (intro arg_cong [of _ _ sum_list] map_cong) auto
  have lcs: "length (concat (map (\<lambda>q. contenido ?img (km_segs k q)) rs)) = tamanio_total (km_segs k) rs"
  proof -
    have "length (contenido ?img (km_segs k q)) = unat (seg_limite (km_segs k q))" if "q \<in> set rs" for q
      using that Cons.prems(1,3)
      by (cases "seg_limite (km_segs k q) = 0") (auto simp: contenido_def compactable_def)
    then show ?thesis by (simp add: length_concat tamanio_total_def comp_def cong: map_cong)
  qed
  have cabe2: "unat destino + length (contenido ?img ?s) +
      length (concat (map (\<lambda>q. contenido ?img (km_segs k q)) rs)) \<le> length ?img"
    using Cons.prems(1,3) lc lcs by (simp add: compactable_def)
  have "imagen (km_sticks k) red' = empalmar (unat destino)
      (concat (map (\<lambda>q. contenido ?img (km_segs k q)) (r # rs))) ?img"
    using empalmar_suma [OF cabe2] unfolding r(3) [unfolded cont] img1 d' lc by simp
  moreover have "compactar_bucle (r # rs) destino k =
      (k\<lparr>km_red := red', km_segs := reubicar destino (r # rs) (km_segs k)\<rparr>,
       destino + of_nat (tamanio_total (km_segs k) (r # rs)), True)"
  proof -
    have "km_segs k1 = (km_segs k)(r := ?s\<lparr>seg_base := destino\<rparr>)" by (fact segs1)
    then have "k1\<lparr>km_red := red', km_segs := reubicar (destino + ?l) rs (km_segs k1)\<rparr> =
        k\<lparr>km_red := red', km_segs := reubicar destino (r # rs) (km_segs k)\<rparr>"
      by (simp add: k1_def del: fun_upd_apply)
    then show ?thesis unfolding paso r(1) tt by (simp add: add.assoc)
  qed
  ultimately show ?case using r(2) by blast
qed

section \<open>The order of the segments\<close>

text \<open>Sorted by base, the segments of a valid memory are compactable.\<close>

lemma ordenados_compactables:
  assumes "km_valido k" "mset rs = refs_vivas k"
    and "sorted_wrt (\<lambda>r s. \<not> comparar_segmentos_por_base (km_segs k) s r) rs"
  shows "compactable (km_segs k) 0 (capacidad (km_sticks k)) rs"
proof -
  let ?m = "unat (memoria_total (km_mapa k))"
  have p: "particion_km k" and cap: "capacidad (km_sticks k) = ?m"
    using assms(1) by (simp_all add: km_valido_def)
  have dist: "distinct rs"
    using assms(1,2) unfolding km_valido_def refs_validas_def refs_vivas_def
    by (metis mset_eq_imp_distinct_iff)
  have set_rs: "set rs = set_mset (refs_vivas k)" using assms(2) by (metis set_mset_mset)
  have total: "tamanio_total (km_segs k) rs \<le> ?m"
  proof -
    have "extension (regiones_km k) = ?m"
      using p by (simp add: particion_km_iff particiona_extension)
    moreover have "extension (map (\<lambda>r. region_seg (km_segs k r)) (todos_los_segmentos (km_contextos k)))
        = tamanio_total (km_segs k) (todos_los_segmentos (km_contextos k))"
      by (simp add: extension_def tamanio_total_def region_seg_def comp_def)
    ultimately show ?thesis
      using tamanio_total_mset [of rs "todos_los_segmentos (km_contextos k)" "km_segs k"] assms(2)
      by (simp add: regiones_km_def refs_vivas_def)
  qed
  have orden: "unat (seg_base (km_segs k r)) + unat (seg_limite (km_segs k r)) \<le> unat (seg_base (km_segs k s))"
    if "r \<in> set rs" "s \<in> set rs" "r \<noteq> s" "seg_limite (km_segs k r) \<noteq> 0" "seg_limite (km_segs k s) \<noteq> 0"
      and le: "\<not> seg_base (km_segs k s) < seg_base (km_segs k r)" for r s
  proof (rule ccontr)
    let ?a = "unat (seg_base (km_segs k s))"
    assume "\<not> ?thesis"
    then have "en_region (region_seg (km_segs k r)) ?a" "en_region (region_seg (km_segs k s)) ?a"
      using le that(5) by (simp_all add: en_region_def region_seg_def word_le_nat_alt word_less_nat_alt unat_gt_0)
    moreover have "r \<in># refs_vivas k" "s \<in># refs_vivas k" using that(1,2) set_rs by simp_all
    ultimately have "2 \<le> ocupa (km_segs k) (refs_vivas k) ?a"
      using that(3) by (metis ocupa_dos)
    moreover have "cuenta_km k ?a \<le> 1" using p by (simp add: particion_km_def)
    ultimately show False by (simp add: cuenta_km_def)
  qed
  have "sorted_wrt (\<lambda>r s. seg_limite (km_segs k r) \<noteq> 0 \<and> seg_limite (km_segs k s) \<noteq> 0 \<longrightarrow>
      unat (seg_base (km_segs k r)) + unat (seg_limite (km_segs k r)) \<le> unat (seg_base (km_segs k s))) rs"
    unfolding sorted_wrt_iff_nth_less
  proof (intro allI impI)
    fix i j
    assume ij: "i < j" "j < length rs"
      and nz: "seg_limite (km_segs k (rs ! i)) \<noteq> 0 \<and> seg_limite (km_segs k (rs ! j)) \<noteq> 0"
    have "\<not> seg_base (km_segs k (rs ! j)) < seg_base (km_segs k (rs ! i))"
      using assms(3) ij by (simp add: sorted_wrt_iff_nth_less comparar_segmentos_por_base_def)
    then show "unat (seg_base (km_segs k (rs ! i))) + unat (seg_limite (km_segs k (rs ! i)))
        \<le> unat (seg_base (km_segs k (rs ! j)))"
      using ij nz dist by (intro orden) (auto simp: nth_eq_iff_index_eq)
  qed
  moreover have "unat (seg_base (km_segs k r)) + unat (seg_limite (km_segs k r)) \<le> ?m"
    if "r \<in> set rs" "seg_limite (km_segs k r) \<noteq> 0" for r
    using segmento_acotado [OF p] that set_rs by simp
  ultimately show ?thesis using dist total cap by (simp add: compactable_def)
qed

section \<open>Where the segments end up\<close>

lemma reubicar_ajeno: "q \<notin> set rs \<Longrightarrow> reubicar d rs segs q = segs q"
  by (induction rs arbitrary: d segs) auto

lemma reubicar_en:
  assumes "distinct (pre @ r # post)"
  shows "reubicar d (pre @ r # post) segs r =
    (segs r)\<lparr>seg_base := d + of_nat (tamanio_total segs pre)\<rparr>"
  using assms
proof (induction pre arbitrary: d segs)
  case Nil
  then show ?case by (simp add: reubicar_ajeno)
next
  case (Cons p pre)
  then have "p \<notin> set pre" "r \<noteq> p" by auto
  with Cons show ?case by (simp add: add.assoc)
qed

lemma reubicar_datos:
  "seg_id (reubicar d rs segs r) = seg_id (segs r) \<and> seg_limite (reubicar d rs segs r) = seg_limite (segs r)"
  by (induction rs arbitrary: d segs) auto

lemma ocupa_reubicar:
  assumes "distinct rs" "unat d + tamanio_total segs rs < 2 ^ 32"
  shows "ocupa (reubicar d rs segs) (mset rs) a =
    (if unat d \<le> a \<and> a < unat d + tamanio_total segs rs then 1 else 0)"
  using assms
proof (induction rs arbitrary: d segs)
  case Nil
  then show ?case by simp
next
  case (Cons r rs)
  let ?l = "seg_limite (segs r)"
  have d': "unat (d + ?l) = unat d + unat ?l" using Cons.prems(2) by (intro unat_suma_u32) simp
  have r: "r \<notin> set rs" using Cons.prems(1) by simp
  have "reubicar d (r # rs) segs r = (segs r)\<lparr>seg_base := d\<rparr>"
    using reubicar_en [of "[]" r rs d segs] Cons.prems(1) by simp
  then have uno: "en_region (region_seg (reubicar d (r # rs) segs r)) a \<longleftrightarrow>
      unat d \<le> a \<and> a < unat d + unat ?l"
    by (simp add: region_seg_def en_region_def)
  have resto: "ocupa (reubicar d (r # rs) segs) (mset rs) a =
      (if unat d + unat ?l \<le> a \<and> a < unat d + unat ?l + tamanio_total segs rs then 1 else 0)"
    using Cons.IH [of "d + ?l" "segs(r := (segs r)\<lparr>seg_base := d\<rparr>)"] Cons.prems
    unfolding tamanio_total_otro [OF r] by (simp add: d' add.assoc del: fun_upd_apply)
  show ?case using uno resto by (simp del: reubicar.simps)
qed

section \<open>The whole operation\<close>

lemma comparar_orden: "orden_debil (comparar_segmentos_por_base segs)"
  by (auto simp: orden_debil_def comparar_segmentos_por_base_def)

theorem compactar_completo:
  assumes "km_valido k" "\<forall>n. km_malloc k n" "list_sort_ok ls"
  obtains k' rs where "compactar ls k = (k', True)" "mset rs = refs_vivas k" "distinct rs" "km_valido k'"
    "km_segs k' = reubicar 0 rs (km_segs k)"
    "km_huecos k' = huecos_reconstruir (of_nat (tamanio_total (km_segs k) rs)) (memoria_total (km_mapa k)) (km_huecos k)"
    "tamanio_total (km_segs k) rs \<le> unat (memoria_total (km_mapa k))"
    "imagen (km_sticks k) (km_red k') = empalmar 0
       (concat (map (\<lambda>r. contenido (imagen (km_sticks k) (km_red k)) (km_segs k r)) rs))
       (imagen (km_sticks k) (km_red k))"
    "km_sticks k' = km_sticks k" "km_contextos k' = km_contextos k"
    "memoria_total (km_mapa k') = memoria_total (km_mapa k)" "km_best_fit k' = km_best_fit k"
    "km_segment_max_size k' = km_segment_max_size k" "km_swap k' = km_swap k"
    "km_red_swap k' = km_red_swap k"
proof -
  define rs where "rs = ls (comparar_segmentos_por_base (km_segs k)) (todos_los_segmentos (km_contextos k))"
  let ?m = "memoria_total (km_mapa k)" and ?tt = "tamanio_total (km_segs k) rs"
  have f: "fisica_valida (km_sticks k) (km_red k)" and cap: "capacidad (km_sticks k) = unat ?m"
    using assms(1) by (simp_all add: km_valido_def)
  have ms: "mset rs = refs_vivas k"
    and so: "sorted_wrt (\<lambda>r s. \<not> comparar_segmentos_por_base (km_segs k) s r) rs"
    using assms(3) comparar_orden [of "km_segs k"] unfolding list_sort_ok_def rs_def refs_vivas_def by blast+
  have comp: "compactable (km_segs k) 0 (capacidad (km_sticks k)) rs"
    by (rule ordenados_compactables [OF assms(1) ms so])
  then have dist: "distinct rs" and tt: "?tt \<le> unat ?m" by (simp_all add: compactable_def cap)
  have comp': "compactable (km_segs k) (unat (0 :: u32)) (capacidad (km_sticks k)) rs"
    using comp by simp
  obtain red' where b: "compactar_bucle rs 0 k =
      (k\<lparr>km_red := red', km_segs := reubicar 0 rs (km_segs k)\<rparr>, 0 + of_nat ?tt, True)"
    "fisica_valida (km_sticks k) red'"
    "imagen (km_sticks k) red' = empalmar (unat (0 :: u32))
       (concat (map (\<lambda>r. contenido (imagen (km_sticks k) (km_red k)) (km_segs k r)) rs))
       (imagen (km_sticks k) (km_red k))"
    using compactar_bucle_ok [OF f assms(2) comp'] by blast
  define k' where "k' = poner_huecos (huecos_reconstruir (of_nat ?tt) ?m (km_huecos k))
      (k\<lparr>km_red := red', km_segs := reubicar 0 rs (km_segs k)\<rparr>)"
  have comp_eq: "compactar ls k = (k', True)"
    using b(1) by (simp add: compactar_def rs_def [symmetric] k'_def)
  have utt: "unat (of_nat ?tt :: u32) = ?tt"
    using le_less_trans [OF tt unat_u32_lt] by (simp add: unat_of_nat)
  have rv': "refs_vivas k' = mset rs" by (simp add: k'_def refs_vivas_def) (simp add: ms refs_vivas_def)
  have "cuenta_km k' a = (if a < unat ?m then 1 else 0)" for a
  proof -
    have "ocupa (reubicar 0 rs (km_segs k)) (mset rs) a = (if a < ?tt then 1 else 0)"
      using ocupa_reubicar [OF dist, of 0 "km_segs k" a] le_less_trans [OF tt unat_u32_lt] by simp
    moreover have "cuenta (libres (huecos_reconstruir (of_nat ?tt) ?m (km_huecos k))) a =
        (if ?tt \<le> a \<and> a < unat ?m then 1 else 0)"
      using tt by (subst libres_reconstruir) (simp_all add: word_le_nat_alt utt)
    ultimately show ?thesis
      using tt unfolding cuenta_km_def rv' by (simp add: k'_def)
  qed
  moreover have "refs_validas k'"
    using assms(1) by (simp add: km_valido_def k'_def refs_validas_def refs_vivas_def)
  ultimately have "km_valido k'"
    using b(2) cap by (simp add: km_valido_def particion_km_def) (simp add: k'_def)
  then show thesis
    using that [OF comp_eq ms dist] b(3) tt by (simp add: k'_def)
qed

text \<open>Every segment keeps its identifier, its size and its bytes.\<close>

lemma ventana_medio:
  "length xs + length ys + length zs \<le> length img \<Longrightarrow>
   ventana (length xs) (length ys) (empalmar 0 (xs @ ys @ zs) img) = ys"
  by (simp add: ventana_def empalmar_def)

lemma length_contenido_vivo:
  assumes "km_valido k" "r \<in># refs_vivas k"
  shows "length (contenido (imagen (km_sticks k) (km_red k)) (km_segs k r)) = unat (seg_limite (km_segs k r))"
proof (cases "seg_limite (km_segs k r) = 0")
  case False
  have "unat (seg_base (km_segs k r)) + unat (seg_limite (km_segs k r)) \<le> unat (memoria_total (km_mapa k))"
    using segmento_acotado [OF _ assms(2) False] assms(1) by (simp add: km_valido_def)
  then show ?thesis using assms(1) by (simp add: contenido_def km_valido_def)
qed (simp add: contenido_def)

lemma length_contenidos:
  assumes "km_valido k" "set rs \<subseteq> set_mset (refs_vivas k)"
  shows "length (concat (map (\<lambda>r. contenido (imagen (km_sticks k) (km_red k)) (km_segs k r)) rs)) =
    tamanio_total (km_segs k) rs"
  using assms(2) by (induction rs) (simp_all add: length_contenido_vivo [OF assms(1)])

lemma compactar_conserva:
  assumes "km_valido k" "\<forall>n. km_malloc k n" "list_sort_ok ls" "compactar ls k = (k', ok)"
    and "r \<in># refs_vivas k"
  shows "ok \<and> seg_id (km_segs k' r) = seg_id (km_segs k r) \<and>
    seg_limite (km_segs k' r) = seg_limite (km_segs k r) \<and>
    contenido (imagen (km_sticks k') (km_red k')) (km_segs k' r) =
    contenido (imagen (km_sticks k) (km_red k)) (km_segs k r)"
proof -
  let ?img = "imagen (km_sticks k) (km_red k)" and ?segs = "km_segs k"
  let ?c = "\<lambda>r. contenido ?img (?segs r)"
  obtain rs where c: "ok" "mset rs = refs_vivas k" "distinct rs" "km_segs k' = reubicar 0 rs ?segs"
    "tamanio_total ?segs rs \<le> unat (memoria_total (km_mapa k))"
    "imagen (km_sticks k) (km_red k') = empalmar 0 (concat (map ?c rs)) ?img"
    "km_sticks k' = km_sticks k"
    by (rule compactar_completo [OF assms(1-3)]) (use assms(4) in auto)
  have set_rs: "set rs = set_mset (refs_vivas k)" using c(2) by (metis set_mset_mset)
  then obtain pre post where rs: "rs = pre @ r # post" using assms(5) by (metis split_list)
  have seg: "km_segs k' r = (?segs r)\<lparr>seg_base := of_nat (tamanio_total ?segs pre)\<rparr>"
    using reubicar_en [of pre r post 0 ?segs] c(3,4) rs by simp
  have subs: "set pre \<subseteq> set_mset (refs_vivas k)" "set post \<subseteq> set_mset (refs_vivas k)"
    using set_rs rs by auto
  have lp: "length (concat (map ?c pre)) = tamanio_total ?segs pre"
    and lq: "length (concat (map ?c post)) = tamanio_total ?segs post"
    and lr: "length (?c r) = unat (seg_limite (?segs r))"
    using length_contenidos [OF assms(1)] subs length_contenido_vivo [OF assms(1,5)] by simp_all
  have "length ?img = unat (memoria_total (km_mapa k))" using assms(1) by (simp add: km_valido_def)
  then have cabe: "length (concat (map ?c pre)) + length (?c r) + length (concat (map ?c post)) \<le> length ?img"
    using c(5) rs lp lq lr by simp
  have "tamanio_total ?segs pre < 2 ^ 32"
    using le_less_trans [OF c(5) unat_u32_lt] rs by simp
  then have ub: "unat (of_nat (tamanio_total ?segs pre) :: u32) = tamanio_total ?segs pre"
    by (simp add: unat_of_nat)
  have "contenido (imagen (km_sticks k') (km_red k')) (km_segs k' r) =
      ventana (length (concat (map ?c pre))) (length (?c r))
        (empalmar 0 (concat (map ?c pre) @ ?c r @ concat (map ?c post)) ?img)"
    unfolding c(6,7) seg lp lr by (simp add: rs contenido_def ub)
  with ventana_medio [OF cabe] seg c(1) show ?thesis by simp
qed

section \<open>Room after compaction\<close>

lemma extension_libres:
  assumes "particion_km k"
  shows "extension (libres (km_huecos k)) + tamanio_total (km_segs k) (todos_los_segmentos (km_contextos k))
    = unat (memoria_total (km_mapa k))"
proof -
  have "extension (map (\<lambda>r. region_seg (km_segs k r)) (todos_los_segmentos (km_contextos k)))
      = tamanio_total (km_segs k) (todos_los_segmentos (km_contextos k))"
    by (simp add: extension_def tamanio_total_def region_seg_def comp_def)
  moreover have "extension (regiones_km k) = unat (memoria_total (km_mapa k))"
    using assms by (simp add: particion_km_iff particiona_extension)
  ultimately show ?thesis by (simp add: regiones_km_def)
qed

lemma memoria_libre_exacta:
  assumes "particion_km k"
  shows "unat (memoria_libre_total k) + tamanio_total (km_segs k) (todos_los_segmentos (km_contextos k))
    = unat (memoria_total (km_mapa k))"
proof -
  have "extension (libres (km_huecos k)) < 2 ^ 32"
    using extension_libres [OF assms] unat_u32_lt [of "memoria_total (km_mapa k)"] by simp
  with extension_libres [OF assms] show ?thesis
    by (simp add: memoria_libre_total_def unat_total_libre)
qed

text \<open>The creation that asked for compaction succeeds after it, unless it asked for nothing.\<close>

lemma crear_tras_compactar:
  assumes "km_valido k" "\<forall>n. km_malloc k n" "list_sort_ok ls" "tam \<noteq> 0"
    and "segmento_crear pid id_seg tam k = (k0, CREAR_SEG_COMPACTAR)" "compactar ls k = (k', ok)"
  shows "snd (segmento_crear pid id_seg tam k') = CREAR_SEG_OK"
proof -
  let ?m = "memoria_total (km_mapa k)" and ?segs = "km_segs k"
  have p: "particion_km k" using assms(1) by (simp add: km_valido_def)
  obtain c where c: "contexto_buscar pid (km_contextos k) = Some c"
    "\<not> (km_segment_max_size k > 0 \<and> tam > u32_de_int (km_segment_max_size k))"
    "tam \<le> memoria_libre_total k"
    using assms(5) by (auto simp: segmento_crear_def memoria_libre_total_def split: if_splits option.splits)
  obtain rs where r: "mset rs = refs_vivas k" "tamanio_total ?segs rs \<le> unat ?m"
    "km_huecos k' = huecos_reconstruir (of_nat (tamanio_total ?segs rs)) ?m (km_huecos k)"
    "km_contextos k' = km_contextos k" "km_segment_max_size k' = km_segment_max_size k"
    by (rule compactar_completo [OF assms(1-3)]) (use assms(6) in auto)
  let ?b = "of_nat (tamanio_total ?segs rs) :: u32"
  have "tamanio_total ?segs rs = tamanio_total ?segs (todos_los_segmentos (km_contextos k))"
    using r(1) by (intro tamanio_total_mset) (simp add: refs_vivas_def)
  then have libre: "unat (memoria_libre_total k) + tamanio_total ?segs rs = unat ?m"
    using memoria_libre_exacta [OF p] by simp
  have ub: "unat ?b = tamanio_total ?segs rs"
    using le_less_trans [OF r(2) unat_u32_lt] by (simp add: unat_of_nat)
  have "0 < unat tam" "unat tam \<le> unat (memoria_libre_total k)"
    using assms(4) c(3) by (simp_all add: unat_gt_0 word_le_nat_alt)
  then have b: "?b < ?m" "tam \<le> ?m - ?b"
    using libre ub by (simp_all add: word_less_nat_alt word_le_nat_alt unat_sub)
  then have "\<exists>i. buscar_hueco (km_best_fit k') tam (km_huecos k') = Some i"
    unfolding r(3) by (intro col.buscar_si_entra) (auto simp: huecos_reconstruir_def)
  with c(1,2) r(4,5) show ?thesis by (auto simp: segmento_crear_def)
qed

end
