(* ===== verification/Suspension.thy ===== *)
theory Suspension
  imports Intercambio Compactacion
begin

text \<open>
  Suspension to the swap and back: a failed suspension changes nothing but the swap file, a
  successful one stores the bytes of every segment in blocks of its own and frees its
  memory, and de-suspension restores identifiers, sizes and bytes.
\<close>

section \<open>The number of blocks of a segment\<close>

definition techo :: "nat \<Rightarrow> nat \<Rightarrow> nat" where
  "techo n l = (l + n - 1) div n"

lemma techo_alcanza:
  assumes "0 < n"
  shows "l \<le> techo n l * n"
proof -
  have "(l + n - 1) mod n < n" using assms by simp
  moreover have "techo n l * n + (l + n - 1) mod n = l + n - 1"
    unfolding techo_def by (rule div_mult_mod_eq)
  ultimately show ?thesis using assms by linarith
qed

lemma techo_le:
  assumes "0 < n"
  shows "techo n l \<le> l"
proof (cases l)
  case 0
  then show ?thesis using assms by (simp add: techo_def)
next
  case (Suc m)
  then have "techo n l = Suc (m div n)" using assms by (simp add: techo_def div_add_self2)
  with Suc show ?thesis by simp
qed

lemma unat_u32_de_int: "0 \<le> i \<Longrightarrow> i < 2 ^ 32 \<Longrightarrow> unat (u32_de_int i) = nat i"
  by (simp add: u32_de_int_def unat_eq_nat_uint uint_word_of_int)

lemma int_de_u32_pequeno: "unat w < 2 ^ 31 \<Longrightarrow> int_de_u32 w = int (unat w)"
proof -
  assume a: "unat w < 2 ^ 31"
  have "int (unat w) < int (2 ^ 31)" using a by (simp only: of_nat_less_iff)
  moreover have "- (2 ^ 31) \<le> int (unat w)" by (rule order_trans [of _ 0]) simp_all
  ultimately have "en_int (int (unat w))" unfolding en_int_def by simp
  moreover have "u32_de_int (int (unat w)) = w" by (simp add: u32_de_int_def)
  ultimately show ?thesis using int_de_u32_de_int by metis
qed

lemma unat_bloques_de:
  assumes "0 < bs" "unat limite + nat bs \<le> 2 ^ 31"
  shows "unat (bloques_de bs limite) = techo (nat bs) (unat limite)"
proof -
  let ?b = "u32_de_int bs"
  have b: "unat ?b = nat bs"
    using assms by (intro unat_u32_de_int) simp_all
  have s: "unat (limite + ?b) = unat limite + nat bs"
    using assms(2) b by (subst unat_suma_u32) simp_all
  have "unat (limite + ?b - 1) = unat limite + nat bs - 1"
    using s assms(1) by (subst unat_resta_u32) (simp_all add: word_le_nat_alt)
  with b show ?thesis by (simp add: bloques_de_def techo_def unat_div)
qed

lemma int_bloques_de:
  assumes "0 < bs" "unat limite + nat bs \<le> 2 ^ 31"
  shows "int_de_u32 (bloques_de bs limite) = int (techo (nat bs) (unat limite))"
proof -
  have "techo (nat bs) (unat limite) < 2 ^ 31"
    using techo_le [of "nat bs" "unat limite"] assms by simp
  then show ?thesis
    using unat_bloques_de [OF assms] by (simp add: int_de_u32_pequeno)
qed

section \<open>A failed suspension\<close>

lemma con_red_simps [simp]:
  "km_mapa (con_red red k) = km_mapa k" "km_contextos (con_red red k) = km_contextos k"
  "km_segs (con_red red k) = km_segs k" "km_prox (con_red red k) = km_prox k"
  "km_swap (con_red red k) = km_swap k" "km_red_swap (con_red red k) = km_red_swap k"
  "con_red red (con_swap us rsw k) = con_swap us rsw (con_red red k)"
  "con_red red' (con_red red k) = con_red red' k" "con_red (km_red k) k = k"
  by (simp_all add: con_red_def con_swap_def)

lemma leer_km_con_red: "\<exists>red. fst (leer_km d n k) = con_red red k"
  by (auto simp: leer_km_def con_red_def split: prod.splits)

definition bloques_copiados :: "t_segmento_swap list \<Rightarrow> nat list" where
  "bloques_copiados ss = concat (map ss_bloques ss)"

lemma bloques_copiados_simps [simp]:
  "bloques_copiados [] = []" "bloques_copiados (s # ss) = ss_bloques s @ bloques_copiados ss"
  "bloques_copiados (ss @ ts) = bloques_copiados ss @ bloques_copiados ts"
  by (simp_all add: bloques_copiados_def)

text \<open>
  Whatever the swap and the sticks answer, phase 1 only marks blocks that were free, and on
  failure exactly those of the segments that were copied.
\<close>

lemma suspender_bucle_marca:
  assumes "suspender_bucle rs copiados k = (k', copiados', ok)"
    and "length (km_usados k) = km_bloques k"
  shows "\<exists>nuevos red rsw. copiados' = copiados @ nuevos \<and>
    k' = con_swap (marcados (km_usados k) (bloques_copiados nuevos)) rsw (con_red red k) \<and>
    (\<forall>b \<in> set (bloques_copiados nuevos). b < km_bloques k \<and> \<not> km_usados k ! b)"
  using assms
proof (induction rs arbitrary: copiados k)
  case Nil
  then show ?case
    by (intro exI [of _ "[]"] exI [of _ "km_red k"] exI [of _ "km_red_swap k"]) simp
next
  case (Cons r rs)
  let ?seg = "km_segs k r" and ?us = "km_usados k"
  obtain k1 leido where l: "leer_km (seg_base ?seg) (seg_limite ?seg) k = (k1, leido)" by (metis surj_pair)
  obtain red1 where k1: "k1 = con_red red1 k"
    using leer_km_con_red [of "seg_base ?seg" "seg_limite ?seg" k] l by auto
  show ?case
  proof (cases leido)
    case None
    with Cons.prems(1) l k1 show ?thesis
      by (intro exI [of _ "[]"] exI [of _ red1] exI [of _ "km_red_swap k"])
        (simp add: Let_def, metis con_swap_id con_red_simps(5,6))
  next
    case (Some datos)
    let ?cant = "int_de_u32 (bloques_de (swap_block_size (km_swap k)) (seg_limite ?seg))"
    let ?buf = "datos @ replicate (nat ?cant * km_bs k1 - length datos) 0"
    obtain k2 asignados ok2 where c: "copiar_bloques [0..<km_bloques k1] ?cant ?buf [] k1 = (k2, asignados, ok2)"
      by (metis prod_cases3)
    obtain rsw where m: "distinct asignados" "set asignados \<subseteq> {0..<km_bloques k}"
      "k2 = con_swap (marcados ?us asignados) rsw (con_red red1 k)" "\<forall>b \<in> set asignados. \<not> ?us ! b"
      using copiar_bloques_marca [OF c] Cons.prems(2) by (auto simp: k1)
    have fresco: "\<forall>b \<in> set asignados. b < km_bloques k \<and> \<not> ?us ! b" using m(2,4) by auto
    show ?thesis
    proof (cases ok2)
      case False
      then have fin: "k' = desmarcar_bloques asignados k2" "copiados' = copiados"
        using Cons.prems(1) by (simp_all only: suspender_bucle.simps Let_def l Some c prod.case
            option.case if_False prod.inject)
      have "k' = con_swap ?us rsw (con_red red1 k)"
        using desmarcados_marcados(2) [of asignados ?us] m(4)
        by (simp add: fin desmarcar_con_swap m(3))
      with fin(2) show ?thesis by (intro exI [of _ "[]"] exI [of _ red1] exI [of _ rsw]) simp
    next
      case True
      let ?ss = "\<lparr>ss_id = seg_id ?seg, ss_limite = seg_limite ?seg, ss_cantidad = ?cant, ss_bloques = asignados\<rparr>"
      have sigue: "suspender_bucle rs (copiados @ [?ss]) k2 = (k', copiados', ok)"
        using Cons.prems(1) True by (simp only: suspender_bucle.simps Let_def l Some c prod.case
            option.case if_True)
      have l2: "length (km_usados k2) = km_bloques k2" using Cons.prems(2) by (simp add: m(3))
      obtain nuevos red rsw' where n: "copiados' = (copiados @ [?ss]) @ nuevos"
        "k' = con_swap (marcados (km_usados k2) (bloques_copiados nuevos)) rsw' (con_red red k2)"
        "\<forall>b \<in> set (bloques_copiados nuevos). b < km_bloques k2 \<and> \<not> km_usados k2 ! b"
        using Cons.IH [OF sigue l2] by blast
      have "\<forall>b \<in> set (bloques_copiados (?ss # nuevos)). b < km_bloques k \<and> \<not> ?us ! b"
        using n(3) fresco Cons.prems(2) by (auto simp: m(3))
      moreover have "k' = con_swap (marcados ?us (bloques_copiados (?ss # nuevos))) rsw' (con_red red k)"
        by (simp add: n(2) m(3))
      ultimately show ?thesis
        using n(1) by (intro exI [of _ "?ss # nuevos"] exI [of _ red] exI [of _ rsw']) simp
    qed
  qed
qed

lemma leer_km_fiel:
  assumes "sticks_fieles (km_sticks k) (km_red k)"
  shows "leer_km d n k = (k, snd (leer_km d n k))"
  using leer_no_escribe [OF assms, of d n] by (auto simp: leer_km_def split: prod.splits)

lemma suspender_bucle_ajenos:
  assumes "suspender_bucle rs copiados k = (k', copiados', ok)" "sticks_fieles (km_sticks k) (km_red k)"
    and "length (km_usados k) = km_bloques k" "\<forall>c < km_bloques k. us ! c \<longrightarrow> km_usados k ! c"
  shows "km_red k' = km_red k \<and> mismos_bloques k k' us"
  using assms
proof (induction rs arbitrary: copiados k)
  case Nil
  then show ?case by (simp add: mismos_bloques_refl)
next
  case (Cons r rs)
  let ?seg = "km_segs k r" and ?us = "km_usados k"
  obtain leido where l: "leer_km (seg_base ?seg) (seg_limite ?seg) k = (k, leido)"
    using leer_km_fiel [OF Cons.prems(2)] by metis
  show ?case
  proof (cases leido)
    case None
    with Cons.prems(1) l show ?thesis by (simp add: Let_def mismos_bloques_refl)
  next
    case (Some datos)
    let ?cant = "int_de_u32 (bloques_de (swap_block_size (km_swap k)) (seg_limite ?seg))"
    let ?buf = "datos @ replicate (nat ?cant * km_bs k - length datos) 0"
    obtain k2 asignados ok2 where c: "copiar_bloques [0..<km_bloques k] ?cant ?buf [] k = (k2, asignados, ok2)"
      by (metis prod_cases3)
    obtain rsw where k2: "k2 = con_swap (marcados ?us asignados) rsw k"
      using copiar_bloques_marca [OF c] Cons.prems(3) by auto
    have a: "mismos_bloques k k2 us" by (rule copiar_bloques_ajenos [OF c _ Cons.prems(3,4)]) simp
    show ?thesis
    proof (cases ok2)
      case False
      then have "k' = desmarcar_bloques asignados k2"
        using Cons.prems(1) by (simp_all only: suspender_bucle.simps Let_def l Some c prod.case
            option.case if_False prod.inject)
      then show ?thesis
        using mismos_bloques_trans [OF a mismos_bloques_desmarcar, of asignados] by (simp add: k2 desmarcar_con_swap)
    next
      case True
      have "suspender_bucle rs (copiados @ [\<lparr>ss_id = seg_id ?seg, ss_limite = seg_limite ?seg, ss_cantidad = ?cant,
          ss_bloques = asignados\<rparr>]) k2 = (k', copiados', ok)"
        using Cons.prems(1) True by (simp only: suspender_bucle.simps Let_def l Some c prod.case
            option.case if_True)
      from Cons.IH [OF this] Cons.prems(2-4) have "km_red k' = km_red k \<and> mismos_bloques k2 k' us"
        by (simp add: k2)
      then show ?thesis using mismos_bloques_trans [OF a, of k'] by (simp add: k2)
    qed
  qed
qed

text \<open>A suspension that fails leaves the module as it was, but for the bytes of free blocks of the swap.\<close>

lemma suspender_falla:
  assumes "proceso_suspender pid k = Some (k', False)" "length (km_usados k) = km_bloques k"
    and "sticks_fieles (km_sticks k) (km_red k)"
  shows "(\<exists>rsw. k' = k\<lparr>km_red_swap := rsw\<rparr>) \<and> mismos_bloques k k' (km_usados k)"
proof (cases "k' = k")
  case True
  have "k = k\<lparr>km_red_swap := km_red_swap k\<rparr>" by simp
  then show ?thesis unfolding True using mismos_bloques_refl by blast
next
  case False
  with assms(1) obtain ctx :: t_contexto and k1 copiados where s: "suspender_bucle (ctx_tabla ctx) [] k = (k1, copiados, False)"
    "k' = desmarcar_bloques (bloques_copiados copiados) k1"
    by (auto simp: proceso_suspender_def Let_def bloques_copiados_def
        split: if_splits option.splits prod.splits)
  obtain red rsw where m: "k1 = con_swap (marcados (km_usados k) (bloques_copiados copiados)) rsw (con_red red k)"
    "\<forall>b \<in> set (bloques_copiados copiados). b < km_bloques k \<and> \<not> km_usados k ! b"
    using suspender_bucle_marca [OF s(1) assms(2)] by auto
  have a: "km_red k1 = km_red k" "mismos_bloques k k1 (km_usados k)"
    using suspender_bucle_ajenos [OF s(1) assms(3,2)] by auto
  then have "con_red red k = k" by (simp add: m(1)) (simp add: con_red_def)
  then have k1: "k1 = con_swap (marcados (km_usados k) (bloques_copiados copiados)) rsw k"
    by (simp add: m(1))
  have "desmarcados (marcados (km_usados k) (bloques_copiados copiados)) (bloques_copiados copiados) = km_usados k"
    using m(2) by (intro desmarcados_marcados(2)) auto
  then have "k' = k\<lparr>km_red_swap := rsw\<rparr>" by (simp add: s(2) desmarcar_con_swap k1 con_swap_def)
  moreover have "mismos_bloques k k' (km_usados k)"
    unfolding s(2) by (rule mismos_bloques_trans [OF a(2) mismos_bloques_desmarcar]) (simp add: k1)
  ultimately show ?thesis by blast
qed

section \<open>A successful suspension\<close>

definition guardado :: "t_swap \<Rightarrow> byte list \<Rightarrow> t_segmento \<Rightarrow> t_segmento_swap \<Rightarrow> bool" where
  "guardado sw img s ss \<longleftrightarrow>
     ss_id ss = seg_id s \<and> ss_limite ss = seg_limite s \<and> ss_cantidad ss = int (length (ss_bloques ss)) \<and>
     unat (seg_limite s) \<le> length (bloques_en sw (ss_bloques ss)) \<and>
     take (unat (seg_limite s)) (bloques_en sw (ss_bloques ss)) = contenido img s"

lemma guardado_cong:
  assumes "guardado sw img s ss" "\<forall>b \<in> set (ss_bloques ss). bloque sw' b = bloque sw b"
  shows "guardado sw' img s ss"
proof -
  have "bloques_en sw' (ss_bloques ss) = bloques_en sw (ss_bloques ss)"
    using assms(2) by (intro bloques_en_cong) simp
  with assms(1) show ?thesis by (simp add: guardado_def)
qed

lemma libres_en_card: "libres_en us [0..<n] = card {b. b < n \<and> \<not> us ! b}"
proof -
  have "{b. b < n \<and> \<not> us ! b} = set (filter (\<lambda>b. \<not> us ! b) [0..<n])" by auto
  then show ?thesis unfolding libres_en_def by (metis distinct_card distinct_filter distinct_upt)
qed

lemma libres_en_marcados:
  assumes "distinct nuevos" "\<forall>b \<in> set nuevos. b < n \<and> \<not> us ! b" "length us = n"
  shows "libres_en (marcados us nuevos) [0..<n] + length nuevos = libres_en us [0..<n]"
proof -
  have d: "{b. b < n \<and> \<not> us ! b} = {b. b < n \<and> \<not> marcados us nuevos ! b} \<union> set nuevos"
    "{b. b < n \<and> \<not> marcados us nuevos ! b} \<inter> set nuevos = {}"
    using assms(2,3) by auto
  have "card ({b. b < n \<and> \<not> marcados us nuevos ! b} \<union> set nuevos) =
      card {b. b < n \<and> \<not> marcados us nuevos ! b} + card (set nuevos)"
    using d(2) by (intro card_Un_disjoint) auto
  then show ?thesis
    unfolding libres_en_card d(1) by (simp add: distinct_card [OF assms(1)])
qed

lemma leer_segmento_vivo:
  assumes "km_valido k" "r \<in># refs_vivas k"
  shows "leer_km (seg_base (km_segs k r)) (seg_limite (km_segs k r)) k =
    (k, Some (contenido (imagen (km_sticks k) (km_red k)) (km_segs k r)))"
proof (cases "seg_limite (km_segs k r) = 0")
  case True
  then show ?thesis by (simp add: contenido_def)
next
  case False
  have f: "fisica_valida (km_sticks k) (km_red k)" using assms(1) by (simp add: km_valido_def)
  have "unat (seg_base (km_segs k r)) + unat (seg_limite (km_segs k r))
      \<le> length (imagen (km_sticks k) (km_red k))"
    using segmento_acotado [OF _ assms(2) False] assms(1) by (simp add: km_valido_def)
  from km.leer_ok [OF f this] show ?thesis by (simp add: leer_km_def contenido_def)
qed

lemma segmento_chico:
  assumes "km_valido k" "r \<in># refs_vivas k"
  shows "unat (seg_limite (km_segs k r)) \<le> unat (memoria_total (km_mapa k))"
  using segmento_acotado [OF _ assms(2)] assms(1)
  by (cases "seg_limite (km_segs k r) = 0") (auto simp: km_valido_def)

definition bloques_para :: "km \<Rightarrow> nat list \<Rightarrow> nat" where
  "bloques_para k rs = sum_list (map (\<lambda>r. techo (km_bs k) (unat (seg_limite (km_segs k r)))) rs)"

lemma bloques_para_simps [simp]:
  "bloques_para k [] = 0"
  "bloques_para k (r # rs) = techo (km_bs k) (unat (seg_limite (km_segs k r))) + bloques_para k rs"
  by (simp_all add: bloques_para_def)

lemma conectado_bs: "conectado k sw \<Longrightarrow> 0 < swap_block_size (km_swap k)"
  by (auto simp: conectado_def swap_valido_def)

lemma suspender_bucle_ok:
  assumes "km_valido k" "conectado k sw" "set rs \<subseteq> set_mset (refs_vivas k)"
    and "unat (memoria_total (km_mapa k)) + km_bs k \<le> 2 ^ 31"
    and "bloques_para k rs \<le> libres_en (km_usados k) [0..<km_bloques k]"
  shows "\<exists>k' sw' nuevos. suspender_bucle rs copiados k = (k', copiados @ nuevos, True) \<and>
    k' = con_swap (marcados (km_usados k) (bloques_copiados nuevos)) (km_red_swap k') k \<and>
    conectado k' sw' \<and> distinct (bloques_copiados nuevos) \<and>
    (\<forall>b \<in> set (bloques_copiados nuevos). b < km_bloques k \<and> \<not> km_usados k ! b) \<and>
    list_all2 (\<lambda>r ss. guardado sw' (imagen (km_sticks k) (km_red k)) (km_segs k r) ss) rs nuevos \<and>
    (\<forall>c < km_bloques k. c \<notin> set (bloques_copiados nuevos) \<longrightarrow> bloque sw' c = bloque sw c)"
  using assms
proof (induction rs arbitrary: copiados k sw)
  case Nil
  then show ?case
    by (intro exI [of _ k] exI [of _ sw] exI [of _ "[]"]) simp
next
  case (Cons r rs)
  let ?seg = "km_segs k r" and ?us = "km_usados k" and ?img = "imagen (km_sticks k) (km_red k)"
  let ?t = "techo (km_bs k) (unat (seg_limite (km_segs k r)))"
  have r: "r \<in># refs_vivas k" using Cons.prems(3) by simp
  note leo = leer_segmento_vivo [OF Cons.prems(1) r]
  have bs: "0 < swap_block_size (km_swap k)" by (rule conectado_bs [OF Cons.prems(2)])
  have cant: "int_de_u32 (bloques_de (swap_block_size (km_swap k)) (seg_limite ?seg)) = int ?t"
    using segmento_chico [OF Cons.prems(1) r] Cons.prems(4) bs by (intro int_bloques_de) simp_all
  have lc: "length (contenido ?img ?seg) = unat (seg_limite ?seg)"
    by (rule length_contenido_vivo [OF Cons.prems(1) r])
  let ?buf = "contenido ?img ?seg @ replicate (?t * km_bs k - length (contenido ?img ?seg)) 0"
  have lb: "length ?buf = ?t * km_bs k"
    using techo_alcanza [of "km_bs k" "unat (seg_limite ?seg)"] bs lc by simp
  have us: "length ?us = km_bloques k" using Cons.prems(2) by (simp add: conectado_def)
  obtain k1 sw1 bl where c: "copiar_bloques [0..<km_bloques k] (int ?t) ?buf [] k = (k1, bl, True)"
    "length bl = ?t" "copiado k sw bl ?buf k1 sw1"
    using copiar_bloques_ok [OF Cons.prems(2) _ _ lb, of "[0..<km_bloques k]" "[]"] Cons.prems(5)
    by auto
  let ?ss = "\<lparr>ss_id = seg_id ?seg, ss_limite = seg_limite ?seg, ss_cantidad = int ?t, ss_bloques = bl\<rparr>"
  have k1: "k1 = con_swap (marcados ?us bl) (km_red_swap k1) k" and c1: "conectado k1 sw1"
    and bl: "distinct bl" "\<forall>b \<in> set bl. b < km_bloques k \<and> \<not> ?us ! b" "bloques_en sw1 bl = ?buf"
    and otros: "\<forall>c < km_bloques k. c \<notin> set bl \<longrightarrow> bloque sw1 c = bloque sw c"
    using c(3) by (simp_all add: copiado_def)
  have k1s: "km_valido k1 = km_valido k" "refs_vivas k1 = refs_vivas k" "km_mapa k1 = km_mapa k"
    "km_bs k1 = km_bs k" "km_bloques k1 = km_bloques k" "km_usados k1 = marcados ?us bl"
    "km_segs k1 = km_segs k" "km_red k1 = km_red k" "bloques_para k1 rs = bloques_para k rs"
    by (subst k1, simp add: bloques_para_def)+
  have "bloques_para k1 rs \<le> libres_en (km_usados k1) [0..<km_bloques k1]"
    using libres_en_marcados [OF bl(1,2) us] Cons.prems(5) c(2) unfolding k1s by simp
  then obtain k' sw' nuevos where n:
    "suspender_bucle rs (copiados @ [?ss]) k1 = (k', (copiados @ [?ss]) @ nuevos, True)"
    "k' = con_swap (marcados (marcados ?us bl) (bloques_copiados nuevos)) (km_red_swap k') k1"
    "conectado k' sw'" "distinct (bloques_copiados nuevos)"
    "\<forall>b \<in> set (bloques_copiados nuevos). b < km_bloques k \<and> \<not> marcados ?us bl ! b"
    "list_all2 (\<lambda>r ss. guardado sw' ?img (km_segs k r) ss) rs nuevos"
    "\<forall>c < km_bloques k. c \<notin> set (bloques_copiados nuevos) \<longrightarrow> bloque sw' c = bloque sw1 c"
    using Cons.IH [of k1 sw1 "copiados @ [?ss]"] Cons.prems(1,3,4) c1 unfolding k1s by auto
  have frescos: "\<forall>b \<in> set (bloques_copiados nuevos). b < km_bloques k \<and> \<not> ?us ! b \<and> b \<notin> set bl"
    using n(5) us by auto
  have "guardado sw1 ?img ?seg ?ss"
    using bl(3) lb lc c(2) techo_alcanza [of "km_bs k" "unat (seg_limite ?seg)"] bs
    by (simp add: guardado_def)
  moreover have "\<forall>b \<in> set (ss_bloques ?ss). bloque sw' b = bloque sw1 b"
    using bl(2) n(7) frescos by auto
  ultimately have g: "guardado sw' ?img ?seg ?ss" by (rule guardado_cong)
  have "suspender_bucle (r # rs) copiados k = (k', copiados @ ?ss # nuevos, True)"
    using c(1) n(1) by (simp add: leo cant Let_def)
  moreover have "k' = con_swap (marcados ?us (bloques_copiados (?ss # nuevos))) (km_red_swap k') k"
    by (subst n(2), subst k1) simp
  moreover have "distinct (bloques_copiados (?ss # nuevos))" using bl(1) n(4) frescos by auto
  moreover have "\<forall>c < km_bloques k. c \<notin> set (bloques_copiados (?ss # nuevos)) \<longrightarrow> bloque sw' c = bloque sw c"
    using n(7) otros by simp
  ultimately show ?case
    using n(3,6) g frescos bl(2)
    by (intro exI [of _ k'] exI [of _ sw'] exI [of _ "?ss # nuevos"]) auto
qed

text \<open>Giving back the memory of a process: its holes and its table.\<close>

lemma vaciar_tabla_simps [simp]:
  "km_mapa (vaciar_tabla pid k) = km_mapa k" "km_red (vaciar_tabla pid k) = km_red k"
  "km_segs (vaciar_tabla pid k) = km_segs k" "km_prox (vaciar_tabla pid k) = km_prox k"
  "km_swap (vaciar_tabla pid k) = km_swap k" "km_red_swap (vaciar_tabla pid k) = km_red_swap k"
  "km_contextos (vaciar_tabla pid k) =
     contexto_modificar pid (\<lambda>c. c\<lparr>ctx_tabla := []\<rparr>) (km_contextos k)"
  by (simp_all add: vaciar_tabla_def)

lemma vaciar_valido:
  assumes "km_valido k" "contexto_buscar pid (km_contextos k) = Some c"
  shows "km_valido (vaciar_tabla pid (liberar_segmentos (ctx_tabla c) k))"
proof -
  let ?k2 = "vaciar_tabla pid (liberar_segmentos (ctx_tabla c) k)"
  obtain X where X: "refs_vivas k = mset (ctx_tabla c) + X"
    "\<forall>f. refs_vivas (k\<lparr>km_contextos := contexto_modificar pid f (km_contextos k)\<rparr>) = mset (ctx_tabla (f c)) + X"
    by (rule refs_vivas_modificar [OF assms(2)])
  have rv: "refs_vivas ?k2 = X"
    using spec [OF X(2), of "\<lambda>c. c\<lparr>ctx_tabla := []\<rparr>"] by (simp add: refs_vivas_def)
  have "cuenta_km ?k2 a = cuenta_km k a" for a
    using cuenta_liberar_segmentos [of "ctx_tabla c" k a]
    by (simp add: cuenta_km_def rv) (simp add: X(1))
  moreover have "refs_validas ?k2"
    by (rule refs_validas_menos [of k]) (use assms(1) X(1) in \<open>simp_all add: km_valido_def rv\<close>)
  ultimately show ?thesis using assms(1) by (simp add: km_valido_def particion_km_def)
qed

text \<open>The C program's check of the blocks counts exactly.\<close>

lemma unat_sum_list_u32:
  "sum_list (map (\<lambda>r. unat (f r :: u32)) rs) < 2 ^ 32 \<Longrightarrow>
   unat (sum_list (map f rs)) = sum_list (map (\<lambda>r. unat (f r)) rs)"
proof (induction rs)
  case (Cons r rs)
  then have "unat (sum_list (map f rs)) = sum_list (map (\<lambda>r. unat (f r)) rs)" by simp
  with Cons.prems show ?case by (simp add: unat_suma_u32)
qed simp

lemma tamanio_tabla:
  assumes "km_valido k" "mset rs \<subseteq># refs_vivas k"
  shows "tamanio_total (km_segs k) rs \<le> unat (memoria_total (km_mapa k))"
proof -
  have "tamanio_total (km_segs k) rs \<le> tamanio_total (km_segs k) (todos_los_segmentos (km_contextos k))"
  proof -
    obtain qs where "mset (todos_los_segmentos (km_contextos k)) = mset (rs @ qs)"
      using assms(2) unfolding refs_vivas_def by (metis ex_mset mset_append subset_mset.add_diff_inverse)
    then show ?thesis by (metis tamanio_total_mset le_add1 tamanio_total_simps(3))
  qed
  also have "\<dots> \<le> unat (memoria_total (km_mapa k))"
    using memoria_libre_exacta [of k] assms(1) by (simp add: km_valido_def)
  finally show ?thesis .
qed

lemma bloques_para_le: "0 < km_bs k \<Longrightarrow> bloques_para k rs \<le> tamanio_total (km_segs k) rs"
  by (induction rs) (simp_all add: add_mono techo_le)

lemma tabla_viva:
  "contexto_buscar pid (km_contextos k) = Some c \<Longrightarrow> mset (ctx_tabla c) \<subseteq># refs_vivas k"
  by (rule refs_vivas_modificar) auto

lemma bloques_necesarios_exacto:
  assumes "km_valido k" "mset rs \<subseteq># refs_vivas k" "0 < swap_block_size (km_swap k)"
    and "unat (memoria_total (km_mapa k)) + km_bs k \<le> 2 ^ 31"
  shows "bloques_necesarios k rs = int (bloques_para k rs)"
proof -
  let ?f = "\<lambda>r. bloques_de (swap_block_size (km_swap k)) (seg_limite (km_segs k r))"
  have "unat (?f r) = techo (km_bs k) (unat (seg_limite (km_segs k r)))" if "r \<in> set rs" for r
    using segmento_chico [OF assms(1), of r] mset_subset_eqD [OF assms(2), of r] that assms(3,4)
    by (intro unat_bloques_de) auto
  then have s: "sum_list (map (\<lambda>r. unat (?f r)) rs) = bloques_para k rs"
    by (simp add: bloques_para_def cong: map_cong)
  have "bloques_para k rs < 2 ^ 31"
    using bloques_para_le [of k rs] tamanio_tabla [OF assms(1,2)] assms(3,4) by simp
  then show ?thesis
    unfolding bloques_necesarios_def
    using unat_sum_list_u32 [of ?f rs] int_de_u32_pequeno [of "sum_list (map ?f rs)"] s by simp
qed

lemma buscar_proceso_append:
  "buscar_proceso_swap pid (ps @ qs) =
    (case buscar_proceso_swap pid ps of None \<Rightarrow> buscar_proceso_swap pid qs | Some p \<Rightarrow> Some p)"
  by (induction ps) auto

definition agregar_proceso_swap :: "t_proceso_swap \<Rightarrow> km \<Rightarrow> km" where
  "agregar_proceso_swap p k =
     k\<lparr>km_swap := (km_swap k)\<lparr>procesos_en_swap := procesos_en_swap (km_swap k) @ [p]\<rparr>\<rparr>"

lemma agregar_proceso_swap_simps [simp]:
  "km_valido (agregar_proceso_swap p k) = km_valido k"
  "conectado (agregar_proceso_swap p k) sw = conectado k sw"
  "km_contextos (agregar_proceso_swap p k) = km_contextos k"
  "km_mapa (agregar_proceso_swap p k) = km_mapa k" "km_red (agregar_proceso_swap p k) = km_red k"
  "km_segs (agregar_proceso_swap p k) = km_segs k" "km_prox (agregar_proceso_swap p k) = km_prox k"
  "procesos_en_swap (km_swap (agregar_proceso_swap p k)) = procesos_en_swap (km_swap k) @ [p]"
  "km_usados (agregar_proceso_swap p k) = km_usados k"
  "km_bloques (agregar_proceso_swap p k) = km_bloques k"
  by (simp_all add: agregar_proceso_swap_def conectado_def km_valido_def particion_km_def
      cuenta_km_def refs_validas_def refs_vivas_def)

text \<open>What the operations on the user memory never touch.\<close>

definition marco_km :: "km \<Rightarrow> km \<Rightarrow> bool" where
  "marco_km k' k \<longleftrightarrow>
     km_malloc k' = km_malloc k \<and> km_best_fit k' = km_best_fit k \<and>
     km_segment_max_size k' = km_segment_max_size k \<and> km_sticks k' = km_sticks k \<and>
     memoria_total (km_mapa k') = memoria_total (km_mapa k) \<and>
     fd_swap (km_swap k') = fd_swap (km_swap k) \<and>
     swap_block_size (km_swap k') = swap_block_size (km_swap k) \<and>
     swap_total_bloques (km_swap k') = swap_total_bloques (km_swap k)"

lemma marco_liberar: "marco_km (liberar_segmentos rs k) k"
  by (induction rs arbitrary: k) (simp_all add: marco_km_def liberar_segmento_def)

theorem proceso_suspender_ok:
  assumes "km_valido k" "conectado k sw" "contexto_buscar pid (km_contextos k) = Some c"
    and "buscar_proceso_swap pid (procesos_en_swap (km_swap k)) = None"
    and "unat (memoria_total (km_mapa k)) + km_bs k \<le> 2 ^ 31"
    and "bloques_para k (ctx_tabla c) \<le> libres_en (km_usados k) [0..<km_bloques k]"
  obtains k' sw' copiados where "proceso_suspender pid k = Some (k', True)" "km_valido k'" "conectado k' sw'"
    "procesos_en_swap (km_swap k') = procesos_en_swap (km_swap k) @ [\<lparr>ps_pid = pid, ps_segmentos = copiados\<rparr>]"
    "list_all2 (\<lambda>r ss. guardado sw' (imagen (km_sticks k) (km_red k)) (km_segs k r) ss) (ctx_tabla c) copiados"
    "distinct (bloques_copiados copiados)"
    "\<forall>b \<in> set (bloques_copiados copiados). b < km_bloques k \<and> \<not> km_usados k ! b"
    "km_usados k' = marcados (km_usados k) (bloques_copiados copiados)"
    "\<forall>b < km_bloques k. b \<notin> set (bloques_copiados copiados) \<longrightarrow> bloque sw' b = bloque sw b"
    "km_contextos k' = contexto_modificar pid (\<lambda>c. c\<lparr>ctx_tabla := []\<rparr>) (km_contextos k)"
    "km_red k' = km_red k" "km_segs k' = km_segs k" "km_sticks k' = km_sticks k" "km_prox k' = km_prox k"
    "km_huecos k' = km_huecos (liberar_segmentos (ctx_tabla c) k)"
    "marco_km k' k"
proof -
  have viva: "mset (ctx_tabla c) \<subseteq># refs_vivas k" by (rule tabla_viva [OF assms(3)])
  then have sub: "set (ctx_tabla c) \<subseteq> set_mset (refs_vivas k)" by (metis set_mset_mono set_mset_mset)
  have bs: "0 < swap_block_size (km_swap k)" by (rule conectado_bs [OF assms(2)])
  obtain k1 sw' copiados where s: "suspender_bucle (ctx_tabla c) [] k = (k1, copiados, True)"
    "k1 = con_swap (marcados (km_usados k) (bloques_copiados copiados)) (km_red_swap k1) k"
    "conectado k1 sw'" "distinct (bloques_copiados copiados)"
    "\<forall>b \<in> set (bloques_copiados copiados). b < km_bloques k \<and> \<not> km_usados k ! b"
    "list_all2 (\<lambda>r ss. guardado sw' (imagen (km_sticks k) (km_red k)) (km_segs k r) ss) (ctx_tabla c) copiados"
    "\<forall>b < km_bloques k. b \<notin> set (bloques_copiados copiados) \<longrightarrow> bloque sw' b = bloque sw b"
    using suspender_bucle_ok [OF assms(1,2) sub assms(5,6), of "[]"] by auto
  let ?p = "\<lparr>ps_pid = pid, ps_segmentos = copiados\<rparr>"
  define k2 where "k2 = vaciar_tabla pid (liberar_segmentos (ctx_tabla c) k1)"
  have k1s: "km_valido k1" "km_contextos k1 = km_contextos k" "km_red k1 = km_red k"
    "km_segs k1 = km_segs k" "km_mapa k1 = km_mapa k" "km_prox k1 = km_prox k"
    "procesos_en_swap (km_swap k1) = procesos_en_swap (km_swap k)"
    "km_usados k1 = marcados (km_usados k) (bloques_copiados copiados)"
    by (subst s(2), simp add: assms(1))+
  have m1: "marco_km k1 k" by (subst s(2)) (simp add: marco_km_def)
  have "marco_km (agregar_proceso_swap ?p k2) k"
    using m1 marco_liberar [of "ctx_tabla c" k1]
    by (simp add: marco_km_def k2_def vaciar_tabla_def agregar_proceso_swap_def)
  moreover have "bloques_necesarios k (ctx_tabla c) \<le> swap_bloques_libres (km_swap k)"
    using bloques_necesarios_exacto [OF assms(1) viva bs assms(5)] assms(6)
    by (simp add: swap_bloques_libres_def libres_en_def)
  moreover from this have "proceso_suspender pid k = Some (agregar_proceso_swap ?p k2, True)"
    using assms(2-4) bs s(1)
    by (simp add: proceso_suspender_def conectado_def Let_def k2_def agregar_proceso_swap_def)
  moreover have "km_valido k2"
    unfolding k2_def by (rule vaciar_valido [OF k1s(1)]) (simp add: k1s(2) assms(3))
  moreover have "conectado k2 sw'" using s(3) by (simp add: k2_def conectado_def)
  moreover have "km_huecos (liberar_segmentos rs k1) = km_huecos (liberar_segmentos rs k)" for rs
  proof -
    have "km_mapa (liberar_segmentos rs q) = km_mapa (liberar_segmentos rs q')"
      if "km_mapa q = km_mapa q'" "km_segs q = km_segs q'" for q q'
      using that by (induction rs arbitrary: q q') (simp_all add: liberar_segmento_def poner_huecos_def)
    then show ?thesis using k1s(4,5) by metis
  qed
  ultimately show thesis
    using s(4-7) k1s(2-8)
    by (intro that [of "agregar_proceso_swap ?p k2" sw' copiados]) (simp_all add: k2_def)
qed

end
