(* ===== verification/Dessuspension.thy ===== *)
theory Dessuspension
  imports Suspension
begin

text \<open>
  De-suspension: the tentative assignment of holes takes memory from the holes only, a
  failed one gives all of it back, and a successful one rebuilds every segment with the
  bytes stored for it and touches no byte of another segment.
\<close>

section \<open>Several writes to separate places\<close>

definition escrituras :: "(nat \<times> byte list) list \<Rightarrow> byte list \<Rightarrow> byte list" where
  "escrituras ws img = fold (\<lambda>(d, xs) img. empalmar d xs img) ws img"

definition lugares :: "(nat \<times> byte list) list \<Rightarrow> region list" where
  "lugares ws = map (\<lambda>(d, xs). (d, length xs)) ws"

lemma escrituras_simps [simp]:
  "escrituras [] img = img"
  "escrituras ((d, xs) # ws) img = escrituras ws (empalmar d xs img)"
  "lugares [] = []" "lugares ((d, xs) # ws) = (d, length xs) # lugares ws"
  by (simp_all add: escrituras_def lugares_def)

lemma empalmar_vacio [simp]: "empalmar d [] img = img"
  by (simp add: empalmar_def)

lemma separar:
  assumes "\<forall>a. cuenta ((d, l) # rs) a \<le> 1" "(e, n) \<in> set rs" "0 < l" "0 < n"
  shows "d + l \<le> e \<or> e + n \<le> d"
proof (rule ccontr)
  assume "\<not> ?thesis"
  then have "en_region (d, l) (max d e)" "en_region (e, n) (max d e)"
    using assms(3,4) by (auto simp: en_region_def)
  then have "2 \<le> cuenta ((d, l) # rs) (max d e)"
    using cuenta_pos [OF assms(2)] by (fastforce simp: cuenta_simps)
  with assms(1) show False by (metis Suc_1 not_less_eq_eq)
qed

lemma escrituras_ajena:
  assumes "\<forall>(d, xs) \<in> set ws. xs \<noteq> [] \<longrightarrow> d + length xs \<le> length img"
    and "\<forall>a. cuenta ((e, n) # lugares ws) a \<le> 1" "0 < n \<Longrightarrow> e + n \<le> length img"
  shows "length (escrituras ws img) = length img \<and> ventana e n (escrituras ws img) = ventana e n img"
  using assms
proof (induction ws arbitrary: img)
  case (Cons w ws)
  obtain d xs where w: "w = (d, xs)" by (cases w)
  have l: "length (empalmar d xs img) = length img"
    using Cons.prems(1) by (cases "xs = []") (auto simp: w)
  have "cuenta ((e, n) # lugares ws) a \<le> cuenta ((e, n) # lugares (w # ws)) a" for a
    by (simp add: w cuenta_Cons)
  with Cons.prems(2) have c: "\<forall>a. cuenta ((e, n) # lugares ws) a \<le> 1" by (meson order_trans)
  have "ventana e n (empalmar d xs img) = ventana e n img"
  proof (cases "xs = [] \<or> n = 0")
    case False
    then have "e + n \<le> d \<or> d + length xs \<le> e"
      using separar [OF Cons.prems(2), of d "length xs"] by (auto simp: w)
    then show ?thesis using False Cons.prems(1,3) by (intro ventana_empalmar_disj) (auto simp: w)
  qed auto
  with Cons.IH [of "empalmar d xs img"] c Cons.prems(1,3) l show ?case by (simp add: w)
qed simp

lemma escrituras_propia:
  assumes "\<forall>(d, xs) \<in> set ws. xs \<noteq> [] \<longrightarrow> d + length xs \<le> length img"
    and "\<forall>a. cuenta (lugares ws) a \<le> 1" "(d, xs) \<in> set ws"
  shows "ventana d (length xs) (escrituras ws img) = xs"
  using assms
proof (induction ws arbitrary: img)
  case (Cons w ws)
  obtain e ys where w: "w = (e, ys)" by (cases w)
  have l: "length (empalmar e ys img) = length img"
    using Cons.prems(1) by (cases "ys = []") (auto simp: w)
  have c: "\<forall>a. cuenta (lugares ws) a \<le> 1"
    using Cons.prems(2) by (auto simp: w cuenta_Cons) (meson le_add2 order_trans)
  show ?case
  proof (cases "(d, xs) \<in> set ws")
    case True
    then show ?thesis using Cons.IH [of "empalmar e ys img"] Cons.prems(1) c l by (simp add: w)
  next
    case False
    then have eq: "d = e" "xs = ys" using Cons.prems(3) by (auto simp: w)
    show ?thesis
    proof (cases "ys = []")
      case False
      then have "e + length ys \<le> length img" using Cons.prems(1) by (simp add: w)
      then show ?thesis
        using escrituras_ajena [of ws "empalmar e ys img" e "length ys"] Cons.prems(1,2) l
        by (simp add: w eq)
    qed (simp add: eq)
  qed
qed simp

section \<open>The tentative assignment\<close>

definition regiones_en :: "u32 list \<Rightarrow> u32 list \<Rightarrow> region list" where
  "regiones_en bases ts = map (\<lambda>(b, t). (unat b, unat t)) (zip bases ts)"

lemma regiones_en_simps [simp]:
  "regiones_en [] ts = []" "regiones_en (b # bs) (t # ts) = (unat b, unat t) # regiones_en bs ts"
  by (simp_all add: regiones_en_def)

lemma sin_vuelta_ocupar:
  assumes "\<forall>h \<in> set hs. sin_vuelta h" "i < length hs" "t \<le> h_tamanio (hs ! i)"
  shows "\<forall>h \<in> set (hueco_ocupar i t hs). sin_vuelta h"
proof -
  let ?h = "hs ! i"
  have sv: "sin_vuelta ?h" using assms(1,2) by simp
  have "sin_vuelta (?h\<lparr>h_base := h_base ?h + t, h_tamanio := h_tamanio ?h - t\<rparr>)" if "h_tamanio ?h \<noteq> t"
  proof -
    have "unat t < unat (h_tamanio ?h)" using that assms(3) by (metis order_le_neq_trans word_less_nat_alt)
    then show ?thesis
      using sv assms(3) unat_suma_u32 [of "h_base ?h" t]
      by (simp add: sin_vuelta_def unat_resta_u32)
  qed
  then show ?thesis
    using assms(1,2) unfolding hueco_ocupar_def
    by (auto dest: in_set_takeD in_set_dropD set_update_subset_insert [THEN subsetD])
qed

lemma devolver_cuenta:
  "cuenta (libres (devolver_huecos ps hs)) a =
   cuenta (libres hs) a + cuenta (map (\<lambda>(b, t). (unat b, unat t)) ps) a"
  by (induction ps hs rule: devolver_huecos.induct) (simp_all add: cuenta_liberar cuenta_Cons)

lemma asignar_ok:
  assumes "asignar_huecos bf ts hechos hs = (hs', r)" "\<forall>h \<in> set hs. sin_vuelta h"
  shows "case r of
      None \<Rightarrow> cuenta (libres hs') a = cuenta (libres hs) a + cuenta (map (\<lambda>(b, t). (unat b, unat t)) hechos) a
    | Some bases \<Rightarrow> \<exists>nuevas. bases = map fst hechos @ nuevas \<and> length nuevas = length ts \<and>
        cuenta (libres hs') a + cuenta (regiones_en nuevas ts) a = cuenta (libres hs) a"
  using assms
proof (induction ts arbitrary: hechos hs)
  case Nil
  then show ?case by auto
next
  case (Cons t ts)
  show ?case
  proof (cases "buscar_hueco bf t hs")
    case None
    with Cons.prems(1) show ?thesis by (auto simp: devolver_cuenta)
  next
    case (Some i)
    let ?hs = "hueco_ocupar i t hs" and ?b = "h_base (hs ! i)"
    have i: "i < length hs" "t \<le> h_tamanio (hs ! i)" using col.buscar_Some [OF Some] by simp_all
    have sigue: "asignar_huecos bf ts (hechos @ [(?b, t)]) ?hs = (hs', r)"
      using Cons.prems(1) Some by simp
    note ih = Cons.IH [OF sigue sin_vuelta_ocupar [OF Cons.prems(2) i]]
    have q: "cuenta (libres hs) a = cuenta [(unat ?b, unat t)] a + cuenta (libres ?hs) a"
      using col.ocupar_buscado [OF Some Cons.prems(2), of a] by (simp add: cuenta_Cons)
    show ?thesis
    proof (cases r)
      case None
      then show ?thesis using ih q by (simp add: cuenta_append cuenta_Cons)
    next
      case (Some bases)
      then obtain nuevas where n: "bases = map fst (hechos @ [(?b, t)]) @ nuevas" "length nuevas = length ts"
        "cuenta (libres hs') a + cuenta (regiones_en nuevas ts) a = cuenta (libres ?hs) a"
        using ih by auto
      then have "bases = map fst hechos @ ?b # nuevas \<and> length (?b # nuevas) = length (t # ts) \<and>
          cuenta (libres hs') a + cuenta (regiones_en (?b # nuevas) (t # ts)) a = cuenta (libres hs) a"
        using q by (simp add: cuenta_Cons)
      then show ?thesis unfolding Some by auto
    qed
  qed
qed

section \<open>Rebuilding the segments\<close>

definition escrituras_de :: "t_swap \<Rightarrow> (t_segmento_swap \<times> u32) list \<Rightarrow> (nat \<times> byte list) list" where
  "escrituras_de sw ps =
     map (\<lambda>(ss, base). (unat base, take (unat (ss_limite ss)) (bloques_en sw (ss_bloques ss)))) ps"

fun nuevos_segs :: "(t_segmento_swap \<times> u32) list \<Rightarrow> nat \<Rightarrow> (nat \<Rightarrow> t_segmento) \<Rightarrow> nat \<Rightarrow> t_segmento" where
  "nuevos_segs [] prox segs = segs"
| "nuevos_segs ((ss, base) # ps) prox segs =
     nuevos_segs ps (Suc prox)
       (segs(prox := \<lparr>seg_id = ss_id ss, seg_base = base, seg_limite = ss_limite ss\<rparr>))"

lemma nuevos_segs_viejo: "r < prox \<Longrightarrow> nuevos_segs ps prox segs r = segs r"
  by (induction ps prox segs rule: nuevos_segs.induct) auto

lemma nuevos_segs_nuevo:
  "i < length ps \<Longrightarrow> nuevos_segs ps prox segs (prox + i) =
     \<lparr>seg_id = ss_id (fst (ps ! i)), seg_base = snd (ps ! i), seg_limite = ss_limite (fst (ps ! i))\<rparr>"
proof (induction ps prox segs arbitrary: i rule: nuevos_segs.induct)
  case (2 ss base ps prox segs)
  then show ?case by (cases i) (simp_all add: nuevos_segs_viejo del: fun_upd_apply add: fun_upd_same)
qed simp

definition restaurable :: "km \<Rightarrow> t_swap \<Rightarrow> t_segmento_swap \<times> u32 \<Rightarrow> bool" where
  "restaurable k sw p \<longleftrightarrow> (case p of (ss, base) \<Rightarrow>
     (\<forall>b \<in> set (ss_bloques ss). b < km_bloques k) \<and>
     unat (ss_limite ss) \<le> length (bloques_en sw (ss_bloques ss)) \<and>
     (ss_limite ss \<noteq> 0 \<longrightarrow> unat base + unat (ss_limite ss) \<le> capacidad (km_sticks k)))"

lemma modificar_modificar:
  assumes "\<And>c. ctx_pid (f c) = ctx_pid c"
  shows "contexto_modificar pid g (contexto_modificar pid f cs) = contexto_modificar pid (\<lambda>c. g (f c)) cs"
  by (induction cs) (auto simp: assms)

lemma modificar_id: "contexto_modificar pid (\<lambda>c. c) cs = cs"
  by (induction cs) auto

lemma escribir_km_ok:
  assumes "fisica_valida (km_sticks k) (km_red k)" "unat n \<le> length datos"
    and "n \<noteq> 0 \<Longrightarrow> unat d + unat n \<le> capacidad (km_sticks k)"
  obtains red where "escribir_km d n datos k = (con_red red k, True)" "fisica_valida (km_sticks k) red"
    "imagen (km_sticks k) red = empalmar (unat d) (take (unat n) datos) (imagen (km_sticks k) (km_red k))"
proof (cases "n = 0")
  case True
  with assms(1) show thesis by (intro that [of "km_red k"]) simp_all
next
  case False
  have "unat d + unat n \<le> length (imagen (km_sticks k) (km_red k))" using assms(1,3) False by simp
  from km.escribir_ok [OF assms(1) this assms(2)] show thesis
    by (auto simp: escribir_km_def con_red_def intro: that)
qed

lemma restaurar_ok:
  assumes "conectado k sw" "fisica_valida (km_sticks k) (km_red k)" "\<forall>p \<in> set ps. restaurable k sw p"
    and "refs_validas k" "contexto_buscar pid (km_contextos k) = Some c"
  shows "\<exists>red. restaurar_segmentos pid ps k =
      k\<lparr>km_red := red, km_segs := nuevos_segs ps (km_prox k) (km_segs k), km_prox := km_prox k + length ps,
        km_contextos := contexto_modificar pid
          (\<lambda>c. c\<lparr>ctx_tabla := ctx_tabla c @ [km_prox k..<km_prox k + length ps]\<rparr>) (km_contextos k),
        km_swap := (km_swap k)\<lparr>swap_bloques_usados :=
          desmarcados (km_usados k) (bloques_copiados (map fst ps))\<rparr>\<rparr> \<and>
    fisica_valida (km_sticks k) red \<and>
    imagen (km_sticks k) red = escrituras (escrituras_de sw ps) (imagen (km_sticks k) (km_red k)) \<and>
    refs_validas (restaurar_segmentos pid ps k) \<and>
    (\<forall>a. cuenta_km (restaurar_segmentos pid ps k) a =
      cuenta_km k a + cuenta (map (\<lambda>(ss, b). (unat b, unat (ss_limite ss))) ps) a)"
  using assms
proof (induction ps arbitrary: k c)
  case Nil
  then show ?case
    by (intro exI [of _ "km_red k"]) (simp add: modificar_id escrituras_de_def)
next
  case (Cons p ps)
  obtain ss base where p: "p = (ss, base)" by (cases p)
  let ?bl = "ss_bloques ss" and ?seg = "\<lparr>seg_id = ss_id ss, seg_base = base, seg_limite = ss_limite ss\<rparr>"
  have rp: "\<forall>b \<in> set ?bl. b < km_bloques k" "unat (ss_limite ss) \<le> length (bloques_en sw ?bl)"
    "ss_limite ss \<noteq> 0 \<Longrightarrow> unat base + unat (ss_limite ss) \<le> capacidad (km_sticks k)"
    using Cons.prems(3) by (auto simp: restaurable_def p)
  define k1 where "k1 = con_swap (desmarcados (km_usados k) ?bl) (km_red_swap k) k"
  have t: "traer_bloques ?bl k = (k1, bloques_en sw ?bl)"
    using traer_bloques_ok [OF Cons.prems(1) rp(1)] by (simp add: k1_def)
  have f1: "fisica_valida (km_sticks k1) (km_red k1)" using Cons.prems(2) by (simp add: k1_def)
  have m1: "ss_limite ss \<noteq> 0 \<Longrightarrow> unat base + unat (ss_limite ss) \<le> capacidad (km_sticks k1)"
    using rp(3) by (simp add: k1_def)
  obtain red1 where e: "escribir_km base (ss_limite ss) (bloques_en sw ?bl) k1 = (con_red red1 k1, True)"
    "fisica_valida (km_sticks k1) red1"
    "imagen (km_sticks k1) red1 = empalmar (unat base) (take (unat (ss_limite ss)) (bloques_en sw ?bl))
       (imagen (km_sticks k1) (km_red k1))"
    by (rule escribir_km_ok [OF f1 rp(2) m1])
  define k2 where "k2 = con_red red1 k1"
  define k3 where "k3 = agregar_segmento pid ?seg k2"
  have paso: "restaurar_segmentos pid (p # ps) k = restaurar_segmentos pid ps k3"
    by (simp add: p t e(1) k3_def k2_def)
  have k2s: "refs_validas k2" "contexto_buscar pid (km_contextos k2) = Some c" "cuenta_km k2 a = cuenta_km k a" for a
    using Cons.prems(4,5) by (simp_all add: k2_def k1_def refs_validas_def refs_vivas_def cuenta_km_def)
  note agr = agregar_segmento_refs [OF k2s(1,2), of ?seg, folded k3_def]
  have k3c: "km_contextos k3 = contexto_modificar pid (\<lambda>c. c\<lparr>ctx_tabla := ctx_tabla c @ [km_prox k]\<rparr>) (km_contextos k)"
    by (simp add: k3_def agregar_segmento_def k2_def k1_def)
  have k3: "conectado k3 sw" "km_mapa k3 = km_mapa k" "km_red k3 = red1" "km_prox k3 = Suc (km_prox k)"
    "km_segs k3 = (km_segs k)(km_prox k := ?seg)" "km_usados k3 = desmarcados (km_usados k) ?bl"
    "km_bloques k3 = km_bloques k"
    using conectado_desmarcar [OF Cons.prems(1), of ?bl]
    by (simp_all add: k3_def k2_def k1_def conectado_def) (simp add: con_red_def)
  have b3: "contexto_buscar pid (km_contextos k3) = Some (c\<lparr>ctx_tabla := ctx_tabla c @ [km_prox k]\<rparr>)"
    using Cons.prems(5) by (simp add: k3c buscar_modificar)
  have r3: "\<forall>p \<in> set ps. restaurable k3 sw p"
    using Cons.prems(3) by (simp add: restaurable_def k3)
  have f3: "fisica_valida (km_sticks k3) (km_red k3)"
    using e(2) by (simp add: k3 k1_def)
  note ih = Cons.IH [OF k3(1) f3 r3 agr(2) b3]
  then obtain red where n: "restaurar_segmentos pid ps k3 =
      k3\<lparr>km_red := red, km_segs := nuevos_segs ps (km_prox k3) (km_segs k3), km_prox := km_prox k3 + length ps,
        km_contextos := contexto_modificar pid
          (\<lambda>c. c\<lparr>ctx_tabla := ctx_tabla c @ [km_prox k3..<km_prox k3 + length ps]\<rparr>) (km_contextos k3),
        km_swap := (km_swap k3)\<lparr>swap_bloques_usados :=
          desmarcados (km_usados k3) (bloques_copiados (map fst ps))\<rparr>\<rparr>"
    "fisica_valida (km_sticks k3) red"
    "imagen (km_sticks k3) red = escrituras (escrituras_de sw ps) (imagen (km_sticks k3) (km_red k3))"
    by blast
  have "restaurar_segmentos pid (p # ps) k =
      k\<lparr>km_red := red, km_segs := nuevos_segs (p # ps) (km_prox k) (km_segs k),
        km_prox := km_prox k + length (p # ps),
        km_contextos := contexto_modificar pid
          (\<lambda>c. c\<lparr>ctx_tabla := ctx_tabla c @ [km_prox k..<km_prox k + length (p # ps)]\<rparr>) (km_contextos k),
        km_swap := (km_swap k)\<lparr>swap_bloques_usados :=
          desmarcados (km_usados k) (bloques_copiados (map fst (p # ps)))\<rparr>\<rparr>"
  proof -
    have up: "[km_prox k..<km_prox k + length (p # ps)] = km_prox k # [Suc (km_prox k)..<Suc (km_prox k) + length ps]"
      by (simp add: upt_conv_Cons del: upt_Suc)
    have "contexto_modificar pid
          (\<lambda>c. c\<lparr>ctx_tabla := ctx_tabla c @ [km_prox k3..<km_prox k3 + length ps]\<rparr>) (km_contextos k3) =
        contexto_modificar pid
          (\<lambda>c. c\<lparr>ctx_tabla := ctx_tabla c @ [km_prox k..<km_prox k + length (p # ps)]\<rparr>) (km_contextos k)"
      unfolding k3c up k3(4) by (subst modificar_modificar) simp_all
    then show ?thesis
      unfolding paso n(1)
      by (simp add: p k3(4-6) del: upt_Suc)
        (simp add: k3_def k2_def k1_def con_swap_def con_red_def agregar_segmento_def)
  qed
  moreover have "imagen (km_sticks k) red =
      escrituras (escrituras_de sw (p # ps)) (imagen (km_sticks k) (km_red k))"
    using n(3) e(3) by (simp add: p k3(2,3) escrituras_de_def k1_def)
  moreover have "\<forall>a. cuenta_km (restaurar_segmentos pid ps k3) a =
      cuenta_km k a + cuenta (map (\<lambda>(ss, b). (unat b, unat (ss_limite ss))) (p # ps)) a"
    using ih agr(3) k2s(3) by (auto simp: p cuenta_Cons region_seg_def)
  ultimately show ?case using ih n(2) unfolding paso k3(2) by blast
qed

section \<open>The whole operation\<close>

lemma regiones_zip:
  "length bases = length sgs \<Longrightarrow>
   map (\<lambda>(ss, b). (unat b, unat (ss_limite ss))) (zip sgs bases) = regiones_en bases (map ss_limite sgs)"
  by (induction sgs arbitrary: bases) (auto simp: length_Suc_conv)

lemma lugares_de:
  "\<forall>p \<in> set ps. restaurable k sw p \<Longrightarrow>
   lugares (escrituras_de sw ps) = map (\<lambda>(ss, b). (unat b, unat (ss_limite ss))) ps"
  by (induction ps) (auto simp: restaurable_def escrituras_de_def lugares_def min_absorb2)

lemma dessuspender_falla:
  assumes "km_valido k" "proceso_dessuspender pid k = (k', False)"
  shows "\<exists>hs. k' = poner_huecos hs k \<and> (\<forall>a. cuenta (libres hs) a = cuenta (libres (km_huecos k)) a)"
proof (cases "k' = k")
  case True
  then show ?thesis by (intro exI [of _ "km_huecos k"]) (simp add: poner_huecos_def)
next
  case False
  with assms(2) obtain ps hs where h: "k' = poner_huecos hs k"
    "asignar_huecos (km_best_fit k) (map ss_limite (ps_segmentos (ps :: t_proceso_swap))) [] (km_huecos k) = (hs, None)"
    by (auto simp: proceso_dessuspender_def split: option.splits prod.splits)
  have "\<forall>h \<in> set (km_huecos k). sin_vuelta h"
    using assms(1) by (intro huecos_sin_vuelta) (simp add: km_valido_def)
  from asignar_ok [OF h(2) this] h(1) show ?thesis by auto
qed

lemma quitar_proceso_simps [simp]:
  "km_valido (olvidar_proceso_swap pid k) = km_valido k"
  "km_contextos (olvidar_proceso_swap pid k) = km_contextos k"
  "km_mapa (olvidar_proceso_swap pid k) = km_mapa k" "km_red (olvidar_proceso_swap pid k) = km_red k"
  "km_segs (olvidar_proceso_swap pid k) = km_segs k" "km_prox (olvidar_proceso_swap pid k) = km_prox k"
  "procesos_en_swap (km_swap (olvidar_proceso_swap pid k)) =
     quitar_proceso_swap pid (procesos_en_swap (km_swap k))"
  "km_usados (olvidar_proceso_swap pid k) = km_usados k"
  "conectado (olvidar_proceso_swap pid k) sw = conectado k sw"
  by (simp_all add: olvidar_proceso_swap_def km_valido_def particion_km_def cuenta_km_def
      refs_validas_def refs_vivas_def conectado_def)

definition en_swap_ok :: "km \<Rightarrow> t_swap \<Rightarrow> t_segmento_swap \<Rightarrow> bool" where
  "en_swap_ok k sw ss \<longleftrightarrow> (\<forall>b \<in> set (ss_bloques ss). b < km_bloques k) \<and>
     unat (ss_limite ss) \<le> length (bloques_en sw (ss_bloques ss))"

theorem proceso_dessuspender_ok:
  assumes "km_valido k" "conectado k sw" "proceso_dessuspender pid k = (k', True)"
    and "buscar_proceso_swap pid (procesos_en_swap (km_swap k)) = Some pw"
    and "contexto_buscar pid (km_contextos k) = Some c"
    and "\<forall>ss \<in> set (ps_segmentos pw). en_swap_ok k sw ss"
  shows "km_valido k'" "conectado k' sw"
    "contexto_buscar pid (km_contextos k') =
       Some (c\<lparr>ctx_tabla := ctx_tabla c @ [km_prox k..<km_prox k + length (ps_segmentos pw)]\<rparr>)"
    "\<forall>i < length (ps_segmentos pw). let ss = ps_segmentos pw ! i; s = km_segs k' (km_prox k + i) in
       seg_id s = ss_id ss \<and> seg_limite s = ss_limite ss \<and>
       contenido (imagen (km_sticks k') (km_red k')) s = take (unat (ss_limite ss)) (bloques_en sw (ss_bloques ss))"
    "\<forall>r \<in># refs_vivas k. km_segs k' r = km_segs k r \<and>
       contenido (imagen (km_sticks k') (km_red k')) (km_segs k r) =
       contenido (imagen (km_sticks k) (km_red k)) (km_segs k r)"
    "km_usados k' = desmarcados (km_usados k) (bloques_copiados (ps_segmentos pw))"
    "procesos_en_swap (km_swap k') = quitar_proceso_swap pid (procesos_en_swap (km_swap k))"
    "marco_km k' k"
proof -
  let ?sgs = "ps_segmentos pw" and ?img = "imagen (km_sticks k) (km_red k)"
  let ?m = "unat (memoria_total (km_mapa k))"
  obtain hs bases where a: "asignar_huecos (km_best_fit k) (map ss_limite ?sgs) [] (km_huecos k) = (hs, Some bases)"
    and k': "k' = olvidar_proceso_swap pid (restaurar_segmentos pid (zip ?sgs bases) (poner_huecos hs k))"
    using assms(3-5) by (auto simp: proceso_dessuspender_def split: option.splits prod.splits)
  have p: "particion_km k" and rv: "refs_validas k" and f: "fisica_valida (km_sticks k) (km_red k)"
    and cap: "capacidad (km_sticks k) = ?m"
    using assms(1) by (simp_all add: km_valido_def)
  have lb: "length bases = length ?sgs"
    and q: "cuenta (libres hs) a + cuenta (regiones_en bases (map ss_limite ?sgs)) a = cuenta (libres (km_huecos k)) a" for a
    using asignar_ok [OF a huecos_sin_vuelta [OF p]] by auto
  define ps where "ps = zip ?sgs bases"
  let ?regs = "map (\<lambda>(ss, b). (unat b, unat (ss_limite ss))) ps"
  let ?k1 = "poner_huecos hs k"
  have regs: "?regs = regiones_en bases (map ss_limite ?sgs)" by (simp add: ps_def regiones_zip lb)
  have suma: "cuenta (libres hs) a + cuenta ?regs a + ocupa (km_segs k) (refs_vivas k) a = (if a < ?m then 1 else 0)" for a
    using p q [of a] by (simp add: regs particion_km_def cuenta_km_def)
  have nps: "length ps = length ?sgs" "map fst ps = ?sgs" by (simp_all add: ps_def lb)
  have rest: "\<forall>x \<in> set ps. restaurable ?k1 sw x"
  proof
    fix x assume x: "x \<in> set ps"
    obtain ss b where xs: "x = (ss, b)" by (cases x)
    have "ss \<in> set ?sgs" using x by (auto simp: xs ps_def dest: set_zip_leftD)
    moreover have "unat b + unat (ss_limite ss) \<le> ?m" if "ss_limite ss \<noteq> 0"
    proof (rule cuenta_acotada)
      show "(unat b, unat (ss_limite ss)) \<in> set ?regs" using x by (force simp: xs)
      show "0 < unat (ss_limite ss)" using that by (simp add: unat_gt_0)
      show "cuenta ?regs a = 0" if "?m \<le> a" for a using suma [of a] that by simp
    qed
    ultimately show "restaurable ?k1 sw x"
      using assms(6) cap by (simp add: restaurable_def xs en_swap_ok_def)
  qed
  have "conectado ?k1 sw" using assms(2) by (simp add: conectado_def)
  moreover have "fisica_valida (km_sticks ?k1) (km_red ?k1)" using f by simp
  moreover have "refs_validas ?k1" using rv by (simp add: refs_validas_def)
  moreover have "contexto_buscar pid (km_contextos ?k1) = Some c" using assms(5) by simp
  ultimately have rok: "\<exists>red. restaurar_segmentos pid ps ?k1 =
      ?k1\<lparr>km_red := red, km_segs := nuevos_segs ps (km_prox k) (km_segs k), km_prox := km_prox k + length ps,
        km_contextos := contexto_modificar pid
          (\<lambda>c. c\<lparr>ctx_tabla := ctx_tabla c @ [km_prox k..<km_prox k + length ps]\<rparr>) (km_contextos k),
        km_swap := (km_swap k)\<lparr>swap_bloques_usados :=
          desmarcados (km_usados k) (bloques_copiados (map fst ps))\<rparr>\<rparr> \<and>
    fisica_valida (km_sticks k) red \<and>
    imagen (km_sticks k) red = escrituras (escrituras_de sw ps) ?img \<and>
    refs_validas (restaurar_segmentos pid ps ?k1) \<and>
    (\<forall>a. cuenta_km (restaurar_segmentos pid ps ?k1) a = cuenta_km ?k1 a + cuenta ?regs a)"
    using restaurar_ok [of ?k1 sw ps pid c] rest by simp
  then obtain red where r: "restaurar_segmentos pid ps ?k1 =
      ?k1\<lparr>km_red := red, km_segs := nuevos_segs ps (km_prox k) (km_segs k), km_prox := km_prox k + length ps,
        km_contextos := contexto_modificar pid
          (\<lambda>c. c\<lparr>ctx_tabla := ctx_tabla c @ [km_prox k..<km_prox k + length ps]\<rparr>) (km_contextos k),
        km_swap := (km_swap k)\<lparr>swap_bloques_usados :=
          desmarcados (km_usados k) (bloques_copiados (map fst ps))\<rparr>\<rparr>"
    "fisica_valida (km_sticks k) red" "imagen (km_sticks k) red = escrituras (escrituras_de sw ps) ?img"
    by blast
  have k'_eq: "k' = olvidar_proceso_swap pid (restaurar_segmentos pid ps ?k1)" by (simp add: k' ps_def)
  have "cuenta_km (restaurar_segmentos pid ps ?k1) a = (if a < ?m then 1 else 0)" for a
    using rok suma [of a] by (auto simp: cuenta_poner_huecos)
  moreover have "refs_validas (restaurar_segmentos pid ps ?k1)" using rok by blast
  moreover have "km_mapa (restaurar_segmentos pid ps ?k1) = km_mapa ?k1"
    "km_red (restaurar_segmentos pid ps ?k1) = red" by (simp_all add: r(1))
  ultimately have "km_valido (restaurar_segmentos pid ps ?k1)"
    using r(2) cap unfolding km_valido_def particion_km_def by simp
  then show "km_valido k'" by (simp add: k'_eq)
  show "conectado k' sw" using assms(2) by (simp add: k'_eq r(1)) (simp add: conectado_def)
  show "contexto_buscar pid (km_contextos k') =
       Some (c\<lparr>ctx_tabla := ctx_tabla c @ [km_prox k..<km_prox k + length ?sgs]\<rparr>)"
    using assms(5) by (simp add: k'_eq r(1) buscar_modificar nps(1))
  have ki: "imagen (km_sticks k') (km_red k') = escrituras (escrituras_de sw ps) ?img"
    "km_segs k' = nuevos_segs ps (km_prox k) (km_segs k)"
    by (simp_all add: k'_eq r(1,3))
  have lug: "lugares (escrituras_de sw ps) = ?regs" by (rule lugares_de [OF rest])
  have dentro: "\<forall>(d, xs) \<in> set (escrituras_de sw ps). xs \<noteq> [] \<longrightarrow> d + length xs \<le> length ?img"
    using rest f by (auto simp: escrituras_de_def restaurable_def min_absorb2)
  have uno: "cuenta ?regs a \<le> 1" for a using suma [of a] by (simp split: if_splits)
  show "\<forall>i < length ?sgs. let ss = ?sgs ! i; s = km_segs k' (km_prox k + i) in
       seg_id s = ss_id ss \<and> seg_limite s = ss_limite ss \<and>
       contenido (imagen (km_sticks k') (km_red k')) s = take (unat (ss_limite ss)) (bloques_en sw (ss_bloques ss))"
  proof (intro allI impI)
    fix i assume i: "i < length ?sgs"
    let ?ss = "?sgs ! i" and ?datos = "take (unat (ss_limite (?sgs ! i))) (bloques_en sw (ss_bloques (?sgs ! i)))"
    have psi: "ps ! i = (?ss, bases ! i)" "i < length ps" using i lb by (simp_all add: ps_def)
    then have "(?ss, bases ! i) \<in> set ps" by (metis nth_mem)
    then have en: "(unat (bases ! i), ?datos) \<in> set (escrituras_de sw ps)"
      and ld: "length ?datos = unat (ss_limite ?ss)"
      using rest by (force simp: escrituras_de_def, auto simp: restaurable_def min_absorb2)
    have "ventana (unat (bases ! i)) (length ?datos) (escrituras (escrituras_de sw ps) ?img) = ?datos"
      by (rule escrituras_propia [OF dentro _ en]) (use uno in \<open>simp add: lug\<close>)
    then have "ventana (unat (bases ! i)) (unat (ss_limite ?ss)) (escrituras (escrituras_de sw ps) ?img) = ?datos"
      unfolding ld .
    then show "let ss = ?ss; s = km_segs k' (km_prox k + i) in
       seg_id s = ss_id ss \<and> seg_limite s = ss_limite ss \<and>
       contenido (imagen (km_sticks k') (km_red k')) s = take (unat (ss_limite ss)) (bloques_en sw (ss_bloques ss))"
      using nuevos_segs_nuevo [OF psi(2), of "km_prox k" "km_segs k"] psi(1)
      by (simp add: Let_def ki contenido_def)
  qed
  show "\<forall>r \<in># refs_vivas k. km_segs k' r = km_segs k r \<and>
       contenido (imagen (km_sticks k') (km_red k')) (km_segs k r) =
       contenido ?img (km_segs k r)"
  proof
    fix r assume rr: "r \<in># refs_vivas k"
    let ?s = "km_segs k r"
    have c1: "cuenta ((unat (seg_base ?s), unat (seg_limite ?s)) # lugares (escrituras_de sw ps)) a \<le> 1" for a
      using suma [of a] ocupa_uno [OF rr, of "km_segs k" a] uno [of a]
      by (auto simp: lug cuenta_Cons region_seg_def split: if_splits)
    have "ventana (unat (seg_base ?s)) (unat (seg_limite ?s)) (escrituras (escrituras_de sw ps) ?img) =
        ventana (unat (seg_base ?s)) (unat (seg_limite ?s)) ?img"
      using escrituras_ajena [OF dentro, of "unat (seg_base ?s)" "unat (seg_limite ?s)"] c1
        segmento_acotado [OF p rr] cap f by (simp add: unat_gt_0)
    moreover have "r < km_prox k" using rv rr by (simp add: refs_validas_def)
    ultimately show "km_segs k' r = ?s \<and> contenido (imagen (km_sticks k') (km_red k')) ?s = contenido ?img ?s"
      by (simp add: ki nuevos_segs_viejo contenido_def)
  qed
  show "km_usados k' = desmarcados (km_usados k) (bloques_copiados ?sgs)"
    by (simp add: k'_eq r(1) nps(2))
  show "procesos_en_swap (km_swap k') = quitar_proceso_swap pid (procesos_en_swap (km_swap k))"
    by (simp add: k'_eq r(1))
  show "marco_km k' k" by (simp add: k'_eq r(1) marco_km_def) (simp add: olvidar_proceso_swap_def)
qed

section \<open>Suspension and back\<close>

lemma buscar_agregado [simp]:
  "buscar_proceso_swap pid ps = None \<Longrightarrow>
   buscar_proceso_swap pid (ps @ [\<lparr>ps_pid = pid, ps_segmentos = ss\<rparr>]) =
     Some \<lparr>ps_pid = pid, ps_segmentos = ss\<rparr>"
  by (simp add: buscar_proceso_append)

lemma guardado_en_swap_ok:
  assumes "guardado sw img s ss" "\<forall>b \<in> set (ss_bloques ss). b < km_bloques k"
  shows "en_swap_ok k sw ss"
  using assms by (simp add: guardado_def en_swap_ok_def)

text \<open>
  What a segment holds, seen by its process: identifier, size and bytes.
\<close>

definition vista :: "km \<Rightarrow> nat \<Rightarrow> int \<times> u32 \<times> byte list" where
  "vista k r = (seg_id (km_segs k r), seg_limite (km_segs k r),
     contenido (imagen (km_sticks k) (km_red k)) (km_segs k r))"

lemma bloque_copiado_nth:
  "i < length copiados \<Longrightarrow> set (ss_bloques (copiados ! i)) \<subseteq> set (bloques_copiados copiados)"
  by (force simp: bloques_copiados_def)

lemma ida_y_vuelta:
  assumes "km_valido k" "conectado k sw" "contexto_buscar pid (km_contextos k) = Some c"
    and "buscar_proceso_swap pid (procesos_en_swap (km_swap k)) = None"
    and "unat (memoria_total (km_mapa k)) + km_bs k \<le> 2 ^ 31"
    and "bloques_para k (ctx_tabla c) \<le> libres_en (km_usados k) [0..<km_bloques k]"
    and "proceso_suspender pid k = Some (k1, ok1)" "proceso_dessuspender pid k1 = (k2, True)"
  shows "ok1 \<and> km_valido k2 \<and> km_usados k2 = km_usados k \<and>
    (\<exists>c2. contexto_buscar pid (km_contextos k2) = Some c2 \<and>
      ctx_registros c2 = ctx_registros c \<and>
      map (vista k2) (ctx_tabla c2) = map (vista k) (ctx_tabla c))"
proof -
  obtain k' sw' copiados where s: "proceso_suspender pid k = Some (k', True)" "km_valido k'" "conectado k' sw'"
    "procesos_en_swap (km_swap k') = procesos_en_swap (km_swap k) @ [\<lparr>ps_pid = pid, ps_segmentos = copiados\<rparr>]"
    "list_all2 (\<lambda>r ss. guardado sw' (imagen (km_sticks k) (km_red k)) (km_segs k r) ss) (ctx_tabla c) copiados"
    "\<forall>b \<in> set (bloques_copiados copiados). b < km_bloques k \<and> \<not> km_usados k ! b"
    "km_usados k' = marcados (km_usados k) (bloques_copiados copiados)"
    "km_contextos k' = contexto_modificar pid (\<lambda>c. c\<lparr>ctx_tabla := []\<rparr>) (km_contextos k)"
    "km_prox k' = km_prox k"
    by (rule proceso_suspender_ok [OF assms(1-6)])
  have k1: "k1 = k'" "ok1" using s(1) assms(7) by simp_all
  let ?pw = "\<lparr>ps_pid = pid, ps_segmentos = copiados\<rparr>"
  have pw: "buscar_proceso_swap pid (procesos_en_swap (km_swap k')) = Some ?pw"
    using assms(4) by (simp add: s(4))
  have c': "contexto_buscar pid (km_contextos k') = Some (c\<lparr>ctx_tabla := []\<rparr>)"
    using assms(3) by (simp add: s(8) buscar_modificar)
  have nb: "km_bloques k' = km_bloques k"
    using s(3,7) assms(2) by (simp add: conectado_def)
  have g: "guardado sw' (imagen (km_sticks k) (km_red k)) (km_segs k (ctx_tabla c ! i)) (copiados ! i)"
    if "i < length copiados" for i
    using s(5) that by (auto simp: list_all2_conv_all_nth)
  have "\<forall>ss \<in> set copiados. en_swap_ok k' sw' ss"
  proof
    fix ss assume "ss \<in> set copiados"
    then obtain i where i: "i < length copiados" "ss = copiados ! i" by (metis in_set_conv_nth)
    show "en_swap_ok k' sw' ss"
      using guardado_en_swap_ok [OF g [OF i(1)], of k'] bloque_copiado_nth [OF i(1)] s(6)
      by (auto simp: i(2) nb)
  qed
  then have en: "\<forall>ss \<in> set (ps_segmentos ?pw). en_swap_ok k' sw' ss" by simp
  note d = proceso_dessuspender_ok [OF s(2,3) assms(8) [unfolded k1] pw c' en]
  let ?c2 = "c\<lparr>ctx_tabla := [km_prox k..<km_prox k + length copiados]\<rparr>"
  have "contexto_buscar pid (km_contextos k2) = Some ?c2" using d(3) by (simp add: s(9))
  moreover have "map (vista k2) (ctx_tabla ?c2) = map (vista k) (ctx_tabla c)"
  proof (rule nth_equalityI)
    show "length (map (vista k2) (ctx_tabla ?c2)) = length (map (vista k) (ctx_tabla c))"
      using s(5) by (simp add: list_all2_lengthD)
    fix i assume "i < length (map (vista k2) (ctx_tabla ?c2))"
    then have i: "i < length copiados" by simp
    moreover have "i < length (ctx_tabla c)" using i s(5) by (simp add: list_all2_lengthD)
    ultimately show "map (vista k2) (ctx_tabla ?c2) ! i = map (vista k) (ctx_tabla c) ! i"
      using d(4) g [OF i] by (simp add: vista_def guardado_def Let_def s(9))
  qed
  moreover have "km_usados k2 = km_usados k"
    using d(6) s(6,7) desmarcados_marcados(2) [of "bloques_copiados copiados" "km_usados k"] by simp
  ultimately show ?thesis using k1(2) d(1) by auto
qed

section \<open>The bitmap and the process list agree\<close>

definition bloques_tomados :: "t_proceso_swap list \<Rightarrow> nat list" where
  "bloques_tomados ps = concat (map (\<lambda>p. bloques_copiados (ps_segmentos p)) ps)"

definition swap_coherente :: "km \<Rightarrow> bool" where
  "swap_coherente k \<longleftrightarrow>
     length (km_usados k) = km_bloques k \<and> distinct (bloques_tomados (procesos_en_swap (km_swap k))) \<and>
     set (bloques_tomados (procesos_en_swap (km_swap k))) = {b. b < km_bloques k \<and> km_usados k ! b}"

lemma bloques_tomados_simps [simp]:
  "bloques_tomados [] = []"
  "bloques_tomados (p # ps) = bloques_copiados (ps_segmentos p) @ bloques_tomados ps"
  "bloques_tomados (ps @ qs) = bloques_tomados ps @ bloques_tomados qs"
  by (simp_all add: bloques_tomados_def)

lemma quitar_tomados:
  assumes "buscar_proceso_swap pid ps = Some p" "distinct (bloques_tomados ps)"
  shows "distinct (bloques_tomados (quitar_proceso_swap pid ps)) \<and>
    set (bloques_tomados (quitar_proceso_swap pid ps)) =
      set (bloques_tomados ps) - set (bloques_copiados (ps_segmentos p)) \<and>
    set (bloques_copiados (ps_segmentos p)) \<subseteq> set (bloques_tomados ps)"
  using assms
proof (induction ps)
  case (Cons q ps)
  show ?case
  proof (cases "ps_pid q = pid")
    case False
    then have "buscar_proceso_swap pid ps = Some p" "distinct (bloques_tomados ps)"
      using Cons.prems by auto
    from Cons.IH [OF this] Cons.prems(2) False show ?thesis by auto
  qed (use Cons.prems in auto)
qed simp

lemma coherente_quitar:
  assumes "swap_coherente k" "buscar_proceso_swap pid (procesos_en_swap (km_swap k)) = Some p"
    and "km_usados k' = desmarcados (km_usados k) (bloques_copiados (ps_segmentos p))"
    and "km_bloques k' = km_bloques k"
    and "procesos_en_swap (km_swap k') = quitar_proceso_swap pid (procesos_en_swap (km_swap k))"
  shows "swap_coherente k'"
proof -
  let ?bs = "bloques_copiados (ps_segmentos p)"
  have c: "length (km_usados k) = km_bloques k" "distinct (bloques_tomados (procesos_en_swap (km_swap k)))"
    "set (bloques_tomados (procesos_en_swap (km_swap k))) = {b. b < km_bloques k \<and> km_usados k ! b}"
    using assms(1) by (simp_all add: swap_coherente_def)
  note q = quitar_tomados [OF assms(2) c(2)]
  have "{b. b < km_bloques k \<and> km_usados k ! b} - set ?bs =
      {b. b < km_bloques k \<and> desmarcados (km_usados k) ?bs ! b}"
    using c(1) by auto
  with q c show ?thesis by (simp add: swap_coherente_def assms(3-5))
qed

lemma coherente_agregar:
  assumes "swap_coherente k" "distinct (bloques_copiados ss)"
    and "\<forall>b \<in> set (bloques_copiados ss). b < km_bloques k \<and> \<not> km_usados k ! b"
    and "km_usados k' = marcados (km_usados k) (bloques_copiados ss)"
    and "km_bloques k' = km_bloques k"
    and "procesos_en_swap (km_swap k') =
      procesos_en_swap (km_swap k) @ [\<lparr>ps_pid = pid, ps_segmentos = ss\<rparr>]"
  shows "swap_coherente k'"
proof -
  let ?bs = "bloques_copiados ss"
  have c: "length (km_usados k) = km_bloques k" "distinct (bloques_tomados (procesos_en_swap (km_swap k)))"
    "set (bloques_tomados (procesos_en_swap (km_swap k))) = {b. b < km_bloques k \<and> km_usados k ! b}"
    using assms(1) by (simp_all add: swap_coherente_def)
  have "{b. b < km_bloques k \<and> km_usados k ! b} \<union> set ?bs =
      {b. b < km_bloques k \<and> marcados (km_usados k) ?bs ! b}"
    using c(1) assms(3) by auto
  moreover have "{b. b < km_bloques k \<and> km_usados k ! b} \<inter> set ?bs = {}" using assms(3) by auto
  ultimately show ?thesis using c assms(2) by (simp add: swap_coherente_def assms(4-6))
qed

lemma liberar_memoria_valido:
  assumes "km_valido k"
  shows "km_valido (proceso_liberar_memoria pid k)"
proof -
  define k1 where "k1 = (case contexto_buscar pid (km_contextos k) of
      None \<Rightarrow> k | Some ctx \<Rightarrow> vaciar_tabla pid (liberar_segmentos (ctx_tabla ctx) k))"
  have "km_valido k1"
    using assms vaciar_valido [OF assms] by (auto simp: k1_def split: option.splits)
  then show ?thesis
    by (auto simp: proceso_liberar_memoria_def k1_def [symmetric] desmarcar_con_swap split: option.splits)
qed

lemma liberar_memoria_coherente:
  assumes "swap_coherente k"
  shows "swap_coherente (proceso_liberar_memoria pid k)"
proof -
  define k1 where "k1 = (case contexto_buscar pid (km_contextos k) of
      None \<Rightarrow> k | Some ctx \<Rightarrow> vaciar_tabla pid (liberar_segmentos (ctx_tabla ctx) k))"
  have sw: "km_swap k1 = km_swap k" by (simp add: k1_def split: option.splits)
  have k1: "swap_coherente k1" using assms by (simp add: swap_coherente_def sw)
  show ?thesis
  proof (cases "buscar_proceso_swap pid (procesos_en_swap (km_swap k1))")
    case None
    then show ?thesis using k1 by (simp add: proceso_liberar_memoria_def k1_def [symmetric])
  next
    case (Some p)
    then have "proceso_liberar_memoria pid k =
        olvidar_proceso_swap pid (desmarcar_bloques (bloques_copiados (ps_segmentos p)) k1)"
      by (simp add: proceso_liberar_memoria_def k1_def [symmetric] bloques_copiados_def)
    then show ?thesis
      by (intro coherente_quitar [OF k1 Some])
        (simp_all add: desmarcar_con_swap, simp add: olvidar_proceso_swap_def)
  qed
qed

end
