(* ===== verification/Texto.thy ===== *)
theory Texto
  imports Protocolo
begin

text \<open>
  Text on the sockets: the bytes of a string, the string in a buffer and the message that
  \<open>enviar_string\<close> writes.
\<close>

definition texto :: "byte list \<Rightarrow> string" where
  "texto bs = map (\<lambda>b. char_of (unat b)) bs"

definition bytes_texto :: "string \<Rightarrow> byte list" where
  "bytes_texto s = map (\<lambda>c. of_nat (of_char c)) s"

text \<open>The C string in a buffer, up to its first NUL.\<close>

definition cadena :: "byte list \<Rightarrow> string" where
  "cadena bs = takeWhile (\<lambda>c. c \<noteq> CHR 0x00) (texto bs)"

definition bytes_cadena :: "string \<Rightarrow> byte list" where
  "bytes_cadena s = bytes_int (int (length s)) @ bytes_texto s"

lemma texto_bytes [simp]: "texto (bytes_texto s) = s"
proof -
  have "unat (of_nat (of_char c) :: byte) = of_char c" for c :: char
    using nat_of_char_less_256 [of c] by (simp add: unat_of_nat)
  then show ?thesis by (simp add: texto_def bytes_texto_def comp_def)
qed

lemma cadena_bytes: "CHR 0x00 \<notin> set s \<Longrightarrow> cadena (bytes_texto s) = s"
  by (simp add: cadena_def) (metis takeWhile_eq_all_conv)

lemma length_bytes_texto [simp]: "length (bytes_texto s) = length s"
  by (simp add: bytes_texto_def)

end
