(* ===== verification/HandlersKM.thy ===== *)
theory HandlersKM
  imports Dessuspension Texto
begin

text \<open>
  \<open>kernel_memory/src/handlers.c\<close>: the handshakes and the two service loops of Kernel
  Memory.  Each iteration of a loop is one step on the state of the module and the bytes
  that arrived on the connection, and returns the bytes it answers.  The request to compact
  is a dialogue: the handler leaves \<open>OP_COMPACTAR\<close> and waits for the confirmation of the
  Kernel Scheduler, a control state of its own, in which the other connections may step.

  The outcome \<open>Indefinido\<close> stands for what the C code does not define: a message cut in the
  middle (its variables stay uninitialised), a negative length, a buffer that \<open>malloc\<close> did
  not grant, and the division by a zero block size.
\<close>

section \<open>State\<close>

record servidor_km =
  sk_km :: km
  fd_ks_notificaciones :: int
  sk_avisos :: "byte list"          \<comment> \<open>the bytes written to the notification socket so far\<close>

datatype control_ks = AtendiendoKS | EsperandoDesalojo int int u32

datatype paso_ks =
    FinKS                                                     \<comment> \<open>the Kernel Scheduler left\<close>
  | SigueKS servidor_km control_ks "byte list" "byte list"   \<comment> \<open>answer and input left\<close>
  | IndefinidoKS

definition notificar_ks :: "op_code \<Rightarrow> servidor_km \<Rightarrow> servidor_km" where
  "notificar_ks cod h =
     (if fd_ks_notificaciones h \<noteq> - 1
      then h\<lparr>sk_avisos := sk_avisos h @ bytes_int (codigo cod)\<rparr> else h)"

definition con_km :: "km \<Rightarrow> servidor_km \<Rightarrow> servidor_km" where
  "con_km k h = h\<lparr>sk_km := k\<rparr>"

text \<open>
  \<open>recibir_codigo\<close> returns \<open>-1\<close> when the connection ended; a code cut in the middle, of
  which the C code would use the bytes that came, counts as the end.
\<close>

definition recibir_codigo :: "byte list \<Rightarrow> int \<times> byte list" where
  "recibir_codigo ent = (case recibir_int ent of None \<Rightarrow> (- 1, []) | Some (c, r) \<Rightarrow> (c, r))"

definition responder :: "bool \<Rightarrow> byte list" where
  "responder ok = bytes_int (codigo (if ok then OP_OK else OP_ERROR))"

section \<open>The requests of the Kernel Scheduler\<close>

type_synonym archivos = "string \<Rightarrow> string option"

definition ks_crear_proceso :: "archivos \<Rightarrow> string option \<Rightarrow> servidor_km \<Rightarrow> byte list \<Rightarrow> paso_ks" where
  "ks_crear_proceso archivos basepath h ent =
     (case recibir_int ent of None \<Rightarrow> IndefinidoKS | Some (pid, r1) \<Rightarrow>
      (case recibir_int r1 of None \<Rightarrow> IndefinidoKS | Some (len, r2) \<Rightarrow>
        if len < 0 \<or> \<not> km_malloc (sk_km h) (u32_de_int (len + 1)) then IndefinidoKS
        else (case recibir_exacto (nat len) r2 of None \<Rightarrow> IndefinidoKS | Some (path, r3) \<Rightarrow>
          let k = sk_km h
          in SigueKS (con_km (k\<lparr>km_contextos :=
                 contexto_crear archivos basepath pid (cadena path) (km_contextos k)\<rparr>) h)
               AtendiendoKS (bytes_int (codigo OP_OK)) r3)))"

definition ks_finalizar_proceso :: "servidor_km \<Rightarrow> byte list \<Rightarrow> paso_ks" where
  "ks_finalizar_proceso h ent =
     (case recibir_int ent of None \<Rightarrow> IndefinidoKS | Some (pid, r) \<Rightarrow>
        let k1 = proceso_liberar_memoria pid (sk_km h);
            k2 = k1\<lparr>km_contextos := contexto_eliminar pid (km_contextos k1)\<rparr>
        in SigueKS (notificar_ks OP_MEMORIA_DISPONIBLE (con_km k2 h)) AtendiendoKS
             (bytes_int (codigo OP_OK)) r)"

definition ks_crear_segmento :: "servidor_km \<Rightarrow> byte list \<Rightarrow> paso_ks" where
  "ks_crear_segmento h ent =
     (case recibir_int ent of None \<Rightarrow> IndefinidoKS | Some (pid, r1) \<Rightarrow>
      (case recibir_int r1 of None \<Rightarrow> IndefinidoKS | Some (id_segmento, r2) \<Rightarrow>
      (case recibir_int r2 of None \<Rightarrow> IndefinidoKS | Some (tamanio, r3) \<Rightarrow>
        (case segmento_crear pid id_segmento (u32_de_int tamanio) (sk_km h) of
           (k, CREAR_SEG_OK) \<Rightarrow> SigueKS (con_km k h) AtendiendoKS (bytes_int (codigo OP_OK)) r3
         | (k, CREAR_SEG_COMPACTAR) \<Rightarrow>
             SigueKS (con_km k h) (EsperandoDesalojo pid id_segmento (u32_de_int tamanio))
               (bytes_int (codigo OP_COMPACTAR)) r3
         | (k, CREAR_SEG_ERROR) \<Rightarrow>
             SigueKS (con_km k h) AtendiendoKS (bytes_int (codigo OP_ERROR)) r3))))"

text \<open>
  The second half of the dialogue.  Neither the result of \<open>compactar\<close> nor that of the second
  creation changes what is notified.
\<close>

definition ks_confirmacion ::
    "list_sort \<Rightarrow> int \<Rightarrow> int \<Rightarrow> u32 \<Rightarrow> servidor_km \<Rightarrow> byte list \<Rightarrow> paso_ks" where
  "ks_confirmacion ls pid id_segmento tam h ent =
     (case recibir_codigo ent of (confirmacion, r) \<Rightarrow>
        if confirmacion \<noteq> codigo OP_OK then SigueKS h AtendiendoKS [] r
        else
          let k1 = fst (compactar ls (sk_km h));
              k2 = fst (segmento_crear pid id_segmento tam k1)
          in SigueKS (notificar_ks OP_MEMORIA_DISPONIBLE (notificar_ks OP_FIN_COMPACTACION (con_km k2 h)))
               AtendiendoKS [] r)"

definition ks_eliminar_segmento :: "servidor_km \<Rightarrow> byte list \<Rightarrow> paso_ks" where
  "ks_eliminar_segmento h ent =
     (case recibir_int ent of None \<Rightarrow> IndefinidoKS | Some (pid, r1) \<Rightarrow>
      (case recibir_int r1 of None \<Rightarrow> IndefinidoKS | Some (id_segmento, r2) \<Rightarrow>
        (case segmento_eliminar pid id_segmento (sk_km h) of (k, ok) \<Rightarrow>
           SigueKS (if ok then notificar_ks OP_MEMORIA_DISPONIBLE (con_km k h) else con_km k h)
             AtendiendoKS (responder ok) r2)))"

definition ks_suspender_proceso :: "servidor_km \<Rightarrow> byte list \<Rightarrow> paso_ks" where
  "ks_suspender_proceso h ent =
     (case recibir_int ent of None \<Rightarrow> IndefinidoKS | Some (pid, r) \<Rightarrow>
        (case proceso_suspender pid (sk_km h) of
           None \<Rightarrow> IndefinidoKS
         | Some (k, ok) \<Rightarrow>
             SigueKS (if ok then notificar_ks OP_MEMORIA_DISPONIBLE (con_km k h) else con_km k h)
               AtendiendoKS (responder ok) r))"

definition ks_dessuspender_proceso :: "servidor_km \<Rightarrow> byte list \<Rightarrow> paso_ks" where
  "ks_dessuspender_proceso h ent =
     (case recibir_int ent of None \<Rightarrow> IndefinidoKS | Some (pid, r) \<Rightarrow>
        (case proceso_dessuspender pid (sk_km h) of (k, ok) \<Rightarrow>
           SigueKS (con_km k h) AtendiendoKS (responder ok) r))"

definition ks_escribir_datos :: "servidor_km \<Rightarrow> byte list \<Rightarrow> paso_ks" where
  "ks_escribir_datos h ent =
     (case recibir_int ent of None \<Rightarrow> IndefinidoKS | Some (pid, r1) \<Rightarrow>
      (case recibir_u32 r1 of None \<Rightarrow> IndefinidoKS | Some (direccion_fisica, r2) \<Rightarrow>
      (case recibir_int r2 of None \<Rightarrow> IndefinidoKS | Some (tamanio, r3) \<Rightarrow>
        if tamanio < 0 \<or> \<not> km_malloc (sk_km h) (u32_de_int tamanio) then IndefinidoKS
        else (case recibir_exacto (nat tamanio) r3 of None \<Rightarrow> IndefinidoKS | Some (cont, r4) \<Rightarrow>
          (case escribir_km direccion_fisica (u32_de_int tamanio) cont (sk_km h) of (k, ok) \<Rightarrow>
             SigueKS (con_km k h) AtendiendoKS (responder ok) r4)))))"

definition ks_leer_datos :: "servidor_km \<Rightarrow> byte list \<Rightarrow> paso_ks" where
  "ks_leer_datos h ent =
     (case recibir_int ent of None \<Rightarrow> IndefinidoKS | Some (pid, r1) \<Rightarrow>
      (case recibir_u32 r1 of None \<Rightarrow> IndefinidoKS | Some (direccion_fisica, r2) \<Rightarrow>
      (case recibir_int r2 of None \<Rightarrow> IndefinidoKS | Some (tamanio, r3) \<Rightarrow>
        if tamanio < 0 \<or> \<not> km_malloc (sk_km h) (u32_de_int tamanio) then IndefinidoKS
        else (case leer_km direccion_fisica (u32_de_int tamanio) (sk_km h) of
                (k, Some cont) \<Rightarrow>
                  SigueKS (con_km k h) AtendiendoKS (bytes_int (codigo OP_OK) @ cont) r3
              | (k, None) \<Rightarrow> SigueKS (con_km k h) AtendiendoKS (bytes_int (codigo OP_ERROR)) r3))))"

text \<open>One iteration of \<open>atender_ks\<close>.\<close>

definition atender_ks ::
    "archivos \<Rightarrow> string option \<Rightarrow> list_sort \<Rightarrow> control_ks \<Rightarrow> servidor_km \<Rightarrow> byte list \<Rightarrow> paso_ks" where
  "atender_ks archivos basepath ls ctl h ent =
     (case ctl of
        EsperandoDesalojo pid id_segmento tam \<Rightarrow> ks_confirmacion ls pid id_segmento tam h ent
      | AtendiendoKS \<Rightarrow>
          (case recibir_codigo ent of (op, r) \<Rightarrow>
             if op = - 1 then FinKS
             else if op = codigo OP_CREAR_PROCESO then ks_crear_proceso archivos basepath h r
             else if op = codigo OP_FINALIZAR_PROCESO then ks_finalizar_proceso h r
             else if op = codigo OP_CREAR_SEGMENTO then ks_crear_segmento h r
             else if op = codigo OP_ELIMINAR_SEGMENTO then ks_eliminar_segmento h r
             else if op = codigo OP_SUSPENDER_PROCESO then ks_suspender_proceso h r
             else if op = codigo OP_DESSUSPENDER_PROCESO then ks_dessuspender_proceso h r
             else if op = codigo OP_ESCRIBIR_DATOS then ks_escribir_datos h r
             else if op = codigo OP_LEER_DATOS then ks_leer_datos h r
             else if op = codigo OP_MEMORIA_LISTA then
               SigueKS h AtendiendoKS (bytes_u32 (memoria_libre_total (sk_km h))) r
             else SigueKS h AtendiendoKS [] r))"

section \<open>The requests of a CPU\<close>

datatype paso_cpu = FinCPU | SigueCPU servidor_km "byte list" "byte list" | IndefinidoCPU

definition cpu_fetch :: "servidor_km \<Rightarrow> byte list \<Rightarrow> paso_cpu" where
  "cpu_fetch h ent =
     (case recibir_int ent of None \<Rightarrow> IndefinidoCPU | Some (pid, r1) \<Rightarrow>
      (case recibir_int r1 of None \<Rightarrow> IndefinidoCPU | Some (pc, r2) \<Rightarrow>
        (case contexto_buscar pid (km_contextos (sk_km h)) of
           None \<Rightarrow> SigueCPU h (bytes_int (codigo OP_ERROR)) r2
         | Some ctx \<Rightarrow>
             if pc < 0 \<or> pc \<ge> int (length (ctx_instrucciones ctx))
             then SigueCPU h (bytes_int (codigo OP_ERROR)) r2
             else let instruccion = ctx_instrucciones ctx ! nat pc
                  in SigueCPU h (bytes_int (codigo OP_OK) @ bytes_int (int (length instruccion)) @
                       bytes_texto instruccion) r2)))"

definition bytes_segmento :: "t_segmento \<Rightarrow> byte list" where
  "bytes_segmento s = bytes_int (seg_id s) @ bytes_u32 (seg_base s) @ bytes_u32 (seg_limite s)"

definition bytes_contexto :: "t_registros \<Rightarrow> t_segmento list \<Rightarrow> byte list" where
  "bytes_contexto regs segs =
     bytes_registros regs @ bytes_int (int (length segs)) @ concat (map bytes_segmento segs)"

definition cpu_obtener_contexto :: "servidor_km \<Rightarrow> byte list \<Rightarrow> paso_cpu" where
  "cpu_obtener_contexto h ent =
     (case recibir_int ent of None \<Rightarrow> IndefinidoCPU | Some (pid, r) \<Rightarrow>
        (case contexto_buscar pid (km_contextos (sk_km h)) of
           None \<Rightarrow> SigueCPU h (bytes_int (codigo OP_ERROR)) r
         | Some ctx \<Rightarrow>
             SigueCPU h (bytes_int (codigo OP_OK) @
               bytes_contexto (ctx_registros ctx) (map (km_segs (sk_km h)) (ctx_tabla ctx))) r))"

definition cpu_guardar_contexto :: "servidor_km \<Rightarrow> byte list \<Rightarrow> paso_cpu" where
  "cpu_guardar_contexto h ent =
     (case recibir_int ent of None \<Rightarrow> IndefinidoCPU | Some (pid, r1) \<Rightarrow>
      (case recibir_registros r1 of None \<Rightarrow> IndefinidoCPU | Some (regs, r2) \<Rightarrow>
        SigueCPU (con_km ((sk_km h)\<lparr>km_contextos :=
             contexto_guardar pid regs (km_contextos (sk_km h))\<rparr>) h)
          (bytes_int (codigo OP_OK)) r2))"

definition bytes_stick :: "t_memory_stick \<Rightarrow> byte list" where
  "bytes_stick s =
     bytes_int (int (length (ms_ip s))) @ bytes_texto (ms_ip s) @ bytes_int (ms_puerto s) @
     bytes_u32 (ms_tamanio s)"

definition cpu_lista_sticks :: "servidor_km \<Rightarrow> byte list \<Rightarrow> paso_cpu" where
  "cpu_lista_sticks h ent =
     SigueCPU h (bytes_int (int (length (km_sticks (sk_km h)))) @
       concat (map bytes_stick (km_sticks (sk_km h)))) ent"

text \<open>One iteration of \<open>atender_cpu\<close>.\<close>

definition atender_cpu :: "servidor_km \<Rightarrow> byte list \<Rightarrow> paso_cpu" where
  "atender_cpu h ent =
     (case recibir_codigo ent of (op, r) \<Rightarrow>
        if op = - 1 then FinCPU
        else if op = codigo OP_FETCH then cpu_fetch h r
        else if op = codigo OP_OBTENER_CONTEXTO then cpu_obtener_contexto h r
        else if op = codigo OP_GUARDAR_CONTEXTO then cpu_guardar_contexto h r
        else if op = codigo OP_LISTA_STICKS then cpu_lista_sticks h r
        else SigueCPU h [] r)"

section \<open>Handshakes and disconnections\<close>

datatype sesion =
    SesionCPU | SesionKS control_ks | SesionNotificaciones | SesionStick | SesionSwap | SesionCerrada

text \<open>
  What a connection becomes after its handshake: the state, the session it opens, the answer
  and the input left.  \<open>None\<close> is a handshake cut in the middle.
\<close>

definition atender_cliente ::
    "int \<Rightarrow> string \<Rightarrow> servidor_km \<Rightarrow> byte list \<Rightarrow> (servidor_km \<times> sesion \<times> byte list \<times> byte list) option" where
  "atender_cliente fd ip h ent =
     (case recibir_codigo ent of (cod, r) \<Rightarrow>
        if cod = codigo HANDSHAKE_CPU then
          (case recibir_int r of None \<Rightarrow> Some (h, SesionCPU, bytes_int (codigo HANDSHAKE_OK), [])
           | Some (id_cpu, r1) \<Rightarrow> Some (h, SesionCPU, bytes_int (codigo HANDSHAKE_OK), r1))
        else if cod = codigo HANDSHAKE_KERNEL_SCHEDULER then
          Some (h, SesionKS AtendiendoKS, bytes_int (codigo HANDSHAKE_OK), r)
        else if cod = codigo HANDSHAKE_KS_NOTIFICACIONES then
          Some (h\<lparr>fd_ks_notificaciones := fd\<rparr>, SesionNotificaciones, bytes_int (codigo HANDSHAKE_OK), r)
        else if cod = codigo HANDSHAKE_MEMORY_STICK then
          (case recibir_u32 r of None \<Rightarrow> None | Some (tamanio, r1) \<Rightarrow>
           (case recibir_int r1 of None \<Rightarrow> None | Some (puerto, r2) \<Rightarrow>
             let k = sk_km h
             in Some (notificar_ks OP_MEMORIA_DISPONIBLE
                   (con_km (k\<lparr>km_mapa := memory_stick_agregar fd tamanio ip puerto (km_mapa k)\<rparr>) h),
                 SesionStick, bytes_int (codigo HANDSHAKE_OK), r2)))
        else if cod = codigo HANDSHAKE_SWAP then
          (case recibir_int r of None \<Rightarrow> None | Some (block_size, r1) \<Rightarrow>
           (case recibir_int r1 of None \<Rightarrow> None | Some (swap_size, r2) \<Rightarrow>
             let k = sk_km h
             in Some (con_km (k\<lparr>km_swap := swap_registrar fd block_size swap_size (km_swap k)\<rparr>) h,
                 SesionSwap, bytes_int (codigo HANDSHAKE_OK), r2)))
        else Some (h, SesionCerrada, bytes_int (codigo HANDSHAKE_ERROR), r))"

definition atender_memory_stick :: "int \<Rightarrow> servidor_km \<Rightarrow> servidor_km" where
  "atender_memory_stick fd h =
     (let k = sk_km h
      in notificar_ks OP_MEMORIA_CORRUPTA
           (con_km (k\<lparr>km_mapa := memory_stick_eliminar fd (km_mapa k)\<rparr>) h))"

definition desconexion :: "int \<Rightarrow> sesion \<Rightarrow> servidor_km \<Rightarrow> servidor_km" where
  "desconexion fd s h =
     (case s of
        SesionNotificaciones \<Rightarrow> h\<lparr>fd_ks_notificaciones := - 1\<rparr>
      | SesionStick \<Rightarrow> atender_memory_stick fd h
      | SesionSwap \<Rightarrow> con_km ((sk_km h)\<lparr>km_swap := swap_desregistrar (km_swap (sk_km h))\<rparr>) h
      | _ \<Rightarrow> h)"

end
