(* ===== verification/ServidorKM.thy ===== *)
theory ServidorKM
  imports HandlersKM
begin

text \<open>
  Kernel Memory as a server: the interleaving of the steps of all its connections, the
  invariant that every reachable state satisfies, and what each request answers.
\<close>

section \<open>The invariant of the module\<close>

definition swap_inv :: "km \<Rightarrow> bool" where
  "swap_inv k \<longleftrightarrow>
     (if fd_swap (km_swap k) = - 1 then procesos_en_swap (km_swap k) = []
      else swap_coherente k \<and> unat (memoria_total (km_mapa k)) + km_bs k \<le> 2 ^ 31 \<and>
        (\<exists>sw. conectado k sw \<and>
          (\<forall>p \<in> set (procesos_en_swap (km_swap k)). \<forall>ss \<in> set (ps_segmentos p). en_swap_ok k sw ss)))"

definition km_inv :: "km \<Rightarrow> bool" where
  "km_inv k \<longleftrightarrow> km_valido k \<and> (\<forall>n. km_malloc k n) \<and> swap_inv k"

lemma length_bloques_en:
  assumes "conectado k sw" "\<forall>b \<in> set bs. b < km_bloques k"
  shows "length (bloques_en sw bs) = length bs * km_bs k"
  using assms(2)
proof (induction bs)
  case (Cons b bs)
  have v: "swap_valido sw" "int b < swap_total sw"
    using assms(1) Cons.prems by (auto simp: conectado_def)
  have "length (bloque sw b) = km_bs k"
    using bloque_cabe(1) [OF v] assms(1) unfolding bloque_def conectado_def
    by (intro trans [OF length_ventana]) auto
  with Cons show ?case by simp
qed simp

text \<open>What a segment needs of its blocks does not depend on what the swap file holds.\<close>

lemma en_swap_ok_otro:
  assumes "en_swap_ok k sw ss" "conectado k sw" "conectado k' sw'" "km_bs k' = km_bs k"
    and "km_bloques k' = km_bloques k"
  shows "en_swap_ok k' sw' ss"
  using assms length_bloques_en [OF assms(2), of "ss_bloques ss"]
    length_bloques_en [OF assms(3), of "ss_bloques ss"]
  by (simp add: en_swap_ok_def)

lemma copiados_en_swap_ok:
  assumes "list_all2 (\<lambda>r ss. guardado sw img (segs r) ss) rs copiados"
    and "\<forall>b \<in> set (bloques_copiados copiados). b < km_bloques k \<and> P b"
  shows "\<forall>ss \<in> set copiados. en_swap_ok k sw ss"
  using assms
proof (induction rs copiados rule: list_all2_induct)
  case (Cons r rs ss copiados)
  then show ?case by (auto simp: en_swap_ok_def guardado_def)
qed simp

lemma buscar_proceso_en: "buscar_proceso_swap pid ps = Some p \<Longrightarrow> p \<in> set ps"
  by (induction ps) (auto split: if_splits)

lemma conectado_mismo: "km_swap k' = km_swap k \<Longrightarrow> km_red_swap k' = km_red_swap k \<Longrightarrow>
    conectado k' sw = conectado k sw"
  by (simp add: conectado_def)

lemma swap_inv_mismo:
  assumes "km_swap k' = km_swap k" "km_red_swap k' = km_red_swap k"
    and "memoria_total (km_mapa k') = memoria_total (km_mapa k)"
  shows "swap_inv k' = swap_inv k"
  using conectado_mismo [OF assms(1,2)]
  by (simp add: swap_inv_def swap_coherente_def en_swap_ok_def assms)

lemma km_inv_valido: "km_inv k \<Longrightarrow> km_valido k"
  by (simp add: km_inv_def)

section \<open>Every operation of the user memory keeps it\<close>

lemma segmento_crear_marco:
  "km_swap (fst (segmento_crear pid i tam k)) = km_swap k \<and>
   km_red_swap (fst (segmento_crear pid i tam k)) = km_red_swap k \<and>
   memoria_total (km_mapa (fst (segmento_crear pid i tam k))) = memoria_total (km_mapa k) \<and>
   km_malloc (fst (segmento_crear pid i tam k)) = km_malloc k"
  by (auto simp: segmento_crear_def split: option.splits)

lemma segmento_crear_inv: "km_inv k \<Longrightarrow> km_inv (fst (segmento_crear pid i tam k))"
  using segmento_crear_marco [of pid i tam k] segmento_crear_valido [of k pid i tam]
    swap_inv_mismo [of "fst (segmento_crear pid i tam k)" k]
  by (simp add: km_inv_def)

lemma segmento_eliminar_marco:
  "km_swap (fst (segmento_eliminar pid i k)) = km_swap k \<and>
   km_red_swap (fst (segmento_eliminar pid i k)) = km_red_swap k \<and>
   memoria_total (km_mapa (fst (segmento_eliminar pid i k))) = memoria_total (km_mapa k) \<and>
   km_malloc (fst (segmento_eliminar pid i k)) = km_malloc k"
  by (auto simp: segmento_eliminar_def liberar_segmento_def split: option.splits)

lemma segmento_eliminar_inv: "km_inv k \<Longrightarrow> km_inv (fst (segmento_eliminar pid i k))"
  using segmento_eliminar_marco [of pid i k] segmento_eliminar_valido [of k pid i]
    swap_inv_mismo [of "fst (segmento_eliminar pid i k)" k]
  by (simp add: km_inv_def)

lemma compactar_inv:
  assumes "km_inv k" "list_sort_ok ls"
  shows "km_inv (fst (compactar ls k))"
proof -
  have k: "km_valido k" "\<forall>n. km_malloc k n" "swap_inv k" using assms(1) by (simp_all add: km_inv_def)
  have m: "km_malloc (fst (compactar ls k)) = km_malloc k"
  proof -
    have "km_malloc (fst (compactar_bucle rs d k)) = km_malloc k" for rs d
      by (induction rs d k rule: compactar_bucle.induct)
        (auto simp: Let_def leer_km_def escribir_km_def split: prod.splits option.splits bool.splits)
    then show ?thesis
      by (auto simp: compactar_def split: prod.splits) (metis fst_conv)+
  qed
  obtain k' where "compactar ls k = (k', True)" "km_valido k'"
    "memoria_total (km_mapa k') = memoria_total (km_mapa k)" "km_swap k' = km_swap k"
    "km_red_swap k' = km_red_swap k"
    by (rule compactar_completo [OF k(1,2) assms(2)])
  with m k(2,3) swap_inv_mismo [of k' k] show ?thesis by (simp add: km_inv_def)
qed

lemma proceso_suspender_marco:
  assumes "km_inv k"
  shows "\<exists>k' ok. proceso_suspender pid k = Some (k', ok) \<and> km_inv k' \<and> (\<not> ok \<longrightarrow> k' = k)"
proof (cases "fd_swap (km_swap k) = - 1")
  case True
  then show ?thesis using assms by (auto simp: proceso_suspender_def)
next
  case False
  have k: "km_valido k" "\<forall>n. km_malloc k n" using assms by (simp_all add: km_inv_def)
  obtain sw where sw: "swap_coherente k" "unat (memoria_total (km_mapa k)) + km_bs k \<le> 2 ^ 31"
    "conectado k sw"
    "\<forall>p \<in> set (procesos_en_swap (km_swap k)). \<forall>ss \<in> set (ps_segmentos p). en_swap_ok k sw ss"
    using assms False by (auto simp: km_inv_def swap_inv_def)
  have bs: "0 < swap_block_size (km_swap k)" by (rule conectado_bs [OF sw(3)])
  show ?thesis
  proof (cases "contexto_buscar pid (km_contextos k)")
    case None
    then show ?thesis using assms False by (auto simp: proceso_suspender_def)
  next
    case (Some c)
    show ?thesis
    proof (cases "buscar_proceso_swap pid (procesos_en_swap (km_swap k)) \<noteq> None \<or>
        libres_en (km_usados k) [0..<km_bloques k] < bloques_para k (ctx_tabla c)")
      case True
      have "bloques_necesarios k (ctx_tabla c) = int (bloques_para k (ctx_tabla c))"
        by (rule bloques_necesarios_exacto [OF k(1) tabla_viva [OF Some] bs sw(2)])
      with True Some False bs assms show ?thesis
        by (auto simp: proceso_suspender_def swap_bloques_libres_def libres_en_def)
    next
      case entra: False
      then have n: "buscar_proceso_swap pid (procesos_en_swap (km_swap k)) = None"
        and l: "bloques_para k (ctx_tabla c) \<le> libres_en (km_usados k) [0..<km_bloques k]" by simp_all
      obtain k' sw' copiados where s: "proceso_suspender pid k = Some (k', True)" "km_valido k'" "conectado k' sw'"
        "procesos_en_swap (km_swap k') = procesos_en_swap (km_swap k) @ [\<lparr>ps_pid = pid, ps_segmentos = copiados\<rparr>]"
        "list_all2 (\<lambda>r ss. guardado sw' (imagen (km_sticks k) (km_red k)) (km_segs k r) ss) (ctx_tabla c) copiados"
        "distinct (bloques_copiados copiados)"
        "\<forall>b \<in> set (bloques_copiados copiados). b < km_bloques k \<and> \<not> km_usados k ! b"
        "km_usados k' = marcados (km_usados k) (bloques_copiados copiados)"
        by (rule proceso_suspender_ok [OF k(1) sw(3) Some n sw(2) l])
      have "marco_km k' k" by (rule proceso_suspender_ok [OF k(1) sw(3) Some n sw(2) l]) (use s(1) in auto)
      then have m: "km_malloc k' = km_malloc k" "km_bs k' = km_bs k" "km_bloques k' = km_bloques k"
        "fd_swap (km_swap k') = fd_swap (km_swap k)"
        "memoria_total (km_mapa k') = memoria_total (km_mapa k)"
        by (simp_all add: marco_km_def)
      have "\<forall>ss \<in> set copiados. en_swap_ok k' sw' ss"
        using copiados_en_swap_ok [OF s(5,7)] m(3) by (simp add: en_swap_ok_def)
      moreover have "en_swap_ok k' sw' ss"
        if "p \<in> set (procesos_en_swap (km_swap k))" "ss \<in> set (ps_segmentos p)" for p ss
        using en_swap_ok_otro [OF _ sw(3) s(3) m(2,3)] sw(4) that by blast
      moreover have "swap_coherente k'"
        by (rule coherente_agregar [OF sw(1) s(6,7,8) m(3) s(4)])
      ultimately have "swap_inv k'"
        using s(3) sw(2) False m by (auto simp: swap_inv_def s(4))
      then show ?thesis using s(1,2) k(2) m(1) by (auto simp: km_inv_def)
    qed
  qed
qed

lemma proceso_dessuspender_inv:
  assumes "km_inv k"
  shows "km_inv (fst (proceso_dessuspender pid k))"
proof -
  have k: "km_valido k" "\<forall>n. km_malloc k n" "swap_inv k" using assms by (simp_all add: km_inv_def)
  obtain k' ok where d: "proceso_dessuspender pid k = (k', ok)" by (metis surj_pair)
  show ?thesis
  proof (cases ok)
    case False
    then obtain hs where hs: "k' = poner_huecos hs k"
      "\<forall>a. cuenta (libres hs) a = cuenta (libres (km_huecos k)) a"
      using dessuspender_falla [OF k(1), of pid k'] d by auto
    have "km_valido k'"
      using k(1) hs(2) by (simp add: hs(1) km_valido_def particion_km_def cuenta_km_def refs_validas_def)
    moreover have "swap_inv k'" using k(3) swap_inv_mismo [of k' k] by (simp add: hs(1))
    ultimately show ?thesis using k(2) d by (simp add: km_inv_def hs(1))
  next
    case ok: True
    show ?thesis
    proof (cases "buscar_proceso_swap pid (procesos_en_swap (km_swap k))")
      case None
      then show ?thesis using assms by (simp add: proceso_dessuspender_def)
    next
      case (Some pw)
      then obtain c where c: "contexto_buscar pid (km_contextos k) = Some c"
        using d ok by (auto simp: proceso_dessuspender_def split: option.splits)
      have fd: "fd_swap (km_swap k) \<noteq> - 1" using k(3) Some by (auto simp: swap_inv_def)
      obtain sw where sw: "swap_coherente k" "unat (memoria_total (km_mapa k)) + km_bs k \<le> 2 ^ 31"
        "conectado k sw"
        "\<forall>p \<in> set (procesos_en_swap (km_swap k)). \<forall>ss \<in> set (ps_segmentos p). en_swap_ok k sw ss"
        using k(3) fd by (auto simp: swap_inv_def)
      have pw: "pw \<in> set (procesos_en_swap (km_swap k))"
        by (rule buscar_proceso_en [OF Some])
      have en: "\<forall>ss \<in> set (ps_segmentos pw). en_swap_ok k sw ss" using sw(4) pw by blast
      note r = proceso_dessuspender_ok [OF k(1) sw(3) d [unfolded eqTrueI [OF ok]] Some c en]
      have m: "km_malloc k' = km_malloc k" "km_bloques k' = km_bloques k"
        "fd_swap (km_swap k') = fd_swap (km_swap k)" "km_bs k' = km_bs k"
        "memoria_total (km_mapa k') = memoria_total (km_mapa k)"
        using r(8) by (simp_all add: marco_km_def)
      have "set (quitar_proceso_swap pid ps) \<subseteq> set ps" for ps by (induction ps) auto
      then have "\<forall>p \<in> set (procesos_en_swap (km_swap k')). \<forall>ss \<in> set (ps_segmentos p). en_swap_ok k' sw ss"
        using sw(4) unfolding r(7) en_swap_ok_def m(2) by blast
      moreover have "swap_coherente k'" by (rule coherente_quitar [OF sw(1) Some r(6) m(2) r(7)])
      ultimately have "swap_inv k'" using r(2) sw(2) fd m by (auto simp: swap_inv_def)
      with r(1) k(2) m(1) d show ?thesis by (simp add: km_inv_def)
    qed
  qed
qed

lemma en_swap_ok_quitar:
  "\<forall>p \<in> set (quitar_proceso_swap pid ps). P p" if "\<forall>p \<in> set ps. P p"
proof -
  have "set (quitar_proceso_swap pid ps) \<subseteq> set ps" by (induction ps) auto
  with that show ?thesis by blast
qed

lemma liberar_memoria_marco:
  "marco_km (proceso_liberar_memoria pid k) k \<and> km_red_swap (proceso_liberar_memoria pid k) = km_red_swap k \<and>
   (\<forall>p \<in> set (procesos_en_swap (km_swap (proceso_liberar_memoria pid k))). p \<in> set (procesos_en_swap (km_swap k)))"
proof -
  define k1 where "k1 = (case contexto_buscar pid (km_contextos k) of
      None \<Rightarrow> k | Some ctx \<Rightarrow> vaciar_tabla pid (liberar_segmentos (ctx_tabla ctx) k))"
  have k1: "marco_km k1 k" "km_swap k1 = km_swap k" "km_red_swap k1 = km_red_swap k"
    using marco_liberar [of _ k]
    by (auto simp: k1_def marco_km_def vaciar_tabla_def split: option.splits)
  have "\<forall>p \<in> set (quitar_proceso_swap pid (procesos_en_swap (km_swap k))). p \<in> set (procesos_en_swap (km_swap k))"
    by (rule en_swap_ok_quitar) simp
  with k1 show ?thesis
    unfolding proceso_liberar_memoria_def Let_def k1_def [symmetric]
    by (auto simp: marco_km_def olvidar_proceso_swap_def desmarcar_con_swap con_swap_def split: option.splits)
qed

lemma liberar_memoria_inv:
  assumes "km_inv k"
  shows "km_inv (proceso_liberar_memoria pid k)"
proof -
  let ?k' = "proceso_liberar_memoria pid k"
  have k: "km_valido k" "\<forall>n. km_malloc k n" "swap_inv k" using assms by (simp_all add: km_inv_def)
  have m: "km_malloc ?k' = km_malloc k" "km_bloques ?k' = km_bloques k"
    "fd_swap (km_swap ?k') = fd_swap (km_swap k)" "swap_block_size (km_swap ?k') = swap_block_size (km_swap k)"
    "swap_total_bloques (km_swap ?k') = swap_total_bloques (km_swap k)"
    "memoria_total (km_mapa ?k') = memoria_total (km_mapa k)" "km_red_swap ?k' = km_red_swap k"
    and ps: "set (procesos_en_swap (km_swap ?k')) \<subseteq> set (procesos_en_swap (km_swap k))"
    using liberar_memoria_marco [of pid k] by (auto simp: marco_km_def)
  have "swap_inv ?k'"
  proof (cases "fd_swap (km_swap k) = - 1")
    case True
    then show ?thesis using k(3) ps m(3) by (simp add: swap_inv_def)
  next
    case False
    then obtain sw where sw: "swap_coherente k" "unat (memoria_total (km_mapa k)) + km_bs k \<le> 2 ^ 31"
      "conectado k sw"
      "\<forall>p \<in> set (procesos_en_swap (km_swap k)). \<forall>ss \<in> set (ps_segmentos p). en_swap_ok k sw ss"
      using k(3) by (auto simp: swap_inv_def)
    have co: "swap_coherente ?k'" by (rule liberar_memoria_coherente [OF sw(1)])
    then have "conectado ?k' sw" using sw(3) m by (simp add: conectado_def swap_coherente_def)
    then show ?thesis using co sw(2,4) ps m False by (auto simp: swap_inv_def en_swap_ok_def)
  qed
  then show ?thesis using liberar_memoria_valido [OF k(1)] k(2) m(1) by (simp add: km_inv_def)
qed

text \<open>Changes of the contexts that leave the tables alone, or remove an empty one.\<close>

lemma contextos_inv:
  assumes "km_inv k" "mset (todos_los_segmentos cs) = mset (todos_los_segmentos (km_contextos k))"
  shows "km_inv (k\<lparr>km_contextos := cs\<rparr>)"
proof -
  let ?k' = "k\<lparr>km_contextos := cs\<rparr>"
  have r: "refs_vivas ?k' = refs_vivas k" using assms(2) by (simp add: refs_vivas_def)
  moreover have "distinct (todos_los_segmentos cs) = distinct (todos_los_segmentos (km_contextos k))"
    by (rule mset_eq_imp_distinct_iff [OF assms(2)])
  ultimately have "km_valido ?k'"
    using assms(1) by (simp add: km_inv_def km_valido_def particion_km_def cuenta_km_def refs_validas_def)
  moreover have "swap_inv ?k' = swap_inv k" by (rule swap_inv_mismo) simp_all
  ultimately show ?thesis using assms(1) by (simp add: km_inv_def)
qed

lemma contexto_crear_inv:
  "km_inv k \<Longrightarrow> km_inv (k\<lparr>km_contextos := contexto_crear archivos bp pid path (km_contextos k)\<rparr>)"
  by (rule contextos_inv) (simp_all add: contexto_crear_def todos_los_segmentos_def)

lemma contexto_guardar_inv:
  assumes "km_inv k"
  shows "km_inv (k\<lparr>km_contextos := contexto_guardar pid regs (km_contextos k)\<rparr>)"
proof -
  have "map ctx_tabla (contexto_guardar pid regs cs) = map ctx_tabla cs" for cs
    unfolding contexto_guardar_def by (induction cs) auto
  then show ?thesis using assms by (intro contextos_inv) (simp_all add: todos_los_segmentos_def)
qed

lemma contexto_eliminar_inv:
  assumes "km_inv k" "\<forall>c. contexto_buscar pid (km_contextos k) = Some c \<longrightarrow> ctx_tabla c = []"
  shows "km_inv (k\<lparr>km_contextos := contexto_eliminar pid (km_contextos k)\<rparr>)"
proof -
  have "\<forall>c. contexto_buscar pid cs = Some c \<longrightarrow> ctx_tabla c = [] \<Longrightarrow>
      todos_los_segmentos (contexto_eliminar pid cs) = todos_los_segmentos cs" for cs
    by (induction cs) (auto simp: todos_los_segmentos_def split: if_splits)
  with assms show ?thesis by (intro contextos_inv) simp_all
qed

lemma liberada_vacia:
  "contexto_buscar pid (km_contextos (proceso_liberar_memoria pid k)) = Some c \<Longrightarrow> ctx_tabla c = []"
proof -
  define k1 where "k1 = (case contexto_buscar pid (km_contextos k) of
      None \<Rightarrow> k | Some ctx \<Rightarrow> vaciar_tabla pid (liberar_segmentos (ctx_tabla ctx) k))"
  have "km_contextos (proceso_liberar_memoria pid k) = km_contextos k1"
    by (simp add: proceso_liberar_memoria_def Let_def k1_def [symmetric] desmarcar_con_swap split: option.splits)
  moreover have "\<forall>c. contexto_buscar pid (km_contextos k1) = Some c \<longrightarrow> ctx_tabla c = []"
    by (auto simp: k1_def buscar_modificar split: option.splits)
  ultimately show "contexto_buscar pid (km_contextos (proceso_liberar_memoria pid k)) = Some c \<Longrightarrow> ctx_tabla c = []"
    by simp
qed

section \<open>Physical accesses on behalf of the devices\<close>

lemma leer_km_inv: "km_inv k \<Longrightarrow> fst (leer_km d n k) = k"
proof -
  assume k: "km_inv k"
  then have f: "fisica_valida (km_sticks k) (km_red k)" by (simp add: km_inv_def km_valido_def)
  show ?thesis
  proof (cases "n = 0")
    case False
    then show ?thesis
      using km.leer_ok [OF f, of d n] memoria_fisica_leer_fuera [OF f, of d n] f
      by (cases "unat d + unat n \<le> capacidad (km_sticks k)") (simp_all add: leer_km_def)
  qed simp
qed

lemma escribir_fuera_total:
  assumes "fisica_valida ss red" "capacidad ss < unat dir" "tam \<noteq> 0"
  shows "memoria_fisica_escribir ss red dir tam org = (red, False)"
proof -
  have "0 < tam" using assms(3) by (simp add: word_neq_0_conv)
  moreover have "memory_stick_localizar ss dir = None"
    using assms(1,2) localizar_desde_fuera [of 0 ss dir]
    by (simp add: memory_stick_localizar_def fisica_valida_def)
  ultimately show ?thesis by (simp add: memoria_fisica_escribir_def escribir_bucle.simps)
qed

lemma escribir_km_inv:
  assumes "km_inv k" "unat n \<le> length datos"
  shows "km_inv (fst (escribir_km d n datos k))"
proof -
  have f: "fisica_valida (km_sticks k) (km_red k)" using assms(1) by (simp add: km_inv_def km_valido_def)
  have "\<exists>red'. fst (escribir_km d n datos k) = con_red red' k \<and> fisica_valida (km_sticks k) red'"
  proof (cases "n = 0 \<or> unat d + unat n \<le> capacidad (km_sticks k)")
    case True
    then show ?thesis by (rule_tac escribir_km_ok [OF f assms(2), of d]) auto
  next
    case False
    show ?thesis
    proof (cases "unat d \<le> capacidad (km_sticks k)")
      case True
      with False memoria_fisica_escribir_fuera [OF f _ True assms(2)] show ?thesis
        by (auto simp: escribir_km_def con_red_def)
    next
      case False
      with \<open>\<not> (n = 0 \<or> _)\<close> escribir_fuera_total [OF f, of d n datos] f show ?thesis
        by (auto simp: escribir_km_def con_red_def intro: exI [of _ "km_red k"])
    qed
  qed
  then obtain red' where r: "fst (escribir_km d n datos k) = con_red red' k" "fisica_valida (km_sticks k) red'" by blast
  have "swap_inv (con_red red' k) = swap_inv k" by (rule swap_inv_mismo) simp_all
  moreover have "km_valido (con_red red' k)"
    using assms(1) r(2)
    by (simp add: km_inv_def km_valido_def particion_km_def cuenta_km_def refs_validas_def refs_vivas_def)
      (simp add: con_red_def)
  ultimately show ?thesis using assms(1) r(1) by (auto simp: km_inv_def con_red_def)
qed

section \<open>New sticks and the swap\<close>

lemma agregar_stick_inv:
  assumes "km_inv k" "km_red k fd = Some st" "stick_valido st" "fd \<notin> ms_fd ` set (km_sticks k)"
    and "unat (memoria_total (km_mapa k)) + unat (st_tamanio st) < 2 ^ 32"
    and "fd_swap (km_swap k) = - 1 \<or> unat (memoria_total (km_mapa k)) + unat (st_tamanio st) + km_bs k \<le> 2 ^ 31"
  shows "km_inv (k\<lparr>km_mapa := memory_stick_agregar fd (st_tamanio st) ip puerto (km_mapa k)\<rparr>)"
proof -
  let ?k' = "k\<lparr>km_mapa := memory_stick_agregar fd (st_tamanio st) ip puerto (km_mapa k)\<rparr>"
  have "conectar_stick fd st ip puerto k = ?k'"
    using assms(2) by (simp add: conectar_stick_def fun_upd_idem)
  then have v: "km_valido ?k'"
    using conectar_stick_valido [OF _ assms(3-5)] assms(1) by (metis km_inv_valido)
  have m: "unat (memoria_total (km_mapa ?k')) = unat (memoria_total (km_mapa k)) + unat (st_tamanio st)"
    using assms(5) by (simp add: memory_stick_agregar_def Let_def unat_suma_u32)
  have c: "conectado ?k' sw = conectado k sw" for sw by (simp add: conectado_def)
  have "swap_inv ?k'"
    using assms(1,6) m unfolding km_inv_def swap_inv_def c
    by (auto simp: swap_coherente_def en_swap_ok_def)
  with v assms(1) show ?thesis by (simp add: km_inv_def)
qed

lemma swap_total_registrado:
  assumes "swap_valido sw" "sw_block_size sw = bs" "sw_swap_size sw = sz"
  shows "(if bs > 0 then sgn sz * (\<bar>sz\<bar> div bs) else 0) = swap_total sw"
  using assms by (auto simp: swap_valido_def swap_total_def)

lemma registrar_inv:
  assumes "km_inv k" "fd_swap (km_swap k) = - 1" "fd \<noteq> - 1" "km_red_swap k fd = Some sw" "swap_valido sw"
    and "unat (memoria_total (km_mapa k)) + nat (sw_block_size sw) \<le> 2 ^ 31"
  shows "km_inv (k\<lparr>km_swap := swap_registrar fd (sw_block_size sw) (sw_swap_size sw) (km_swap k)\<rparr>)"
proof -
  let ?k' = "k\<lparr>km_swap := swap_registrar fd (sw_block_size sw) (sw_swap_size sw) (km_swap k)\<rparr>"
  have sin: "procesos_en_swap (km_swap k) = []" using assms(1,2) by (simp add: km_inv_def swap_inv_def)
  have r: "km_swap ?k' = \<lparr>fd_swap = fd, swap_block_size = sw_block_size sw, swap_total_bloques = swap_total sw,
      swap_bloques_usados = replicate (nat (swap_total sw)) False, procesos_en_swap = []\<rparr>"
    using swap_total_registrado [OF assms(5) refl refl] sin
    by (simp add: swap_registrar_def Let_def)
  have "conectado ?k' sw" using assms(3-5) unfolding conectado_def r by simp
  moreover have "swap_coherente ?k'" unfolding swap_coherente_def r by auto
  ultimately have "swap_inv ?k'" using assms(6) unfolding swap_inv_def r by auto
  moreover have "km_valido ?k'"
    using assms(1) by (simp add: km_inv_def km_valido_def particion_km_def cuenta_km_def refs_validas_def refs_vivas_def)
  ultimately show ?thesis using assms(1) by (simp add: km_inv_def)
qed

section \<open>The interleaving of all connections\<close>

lemma inv_con_km [simp]: "sk_km (con_km k h) = k" "sk_km (notificar_ks c h) = sk_km h"
  by (simp_all add: con_km_def notificar_ks_def)

lemma atender_ks_inv:
  assumes "km_inv (sk_km h)" "list_sort_ok ls" "atender_ks archivos bp ls ctl h ent = SigueKS h' ctl' resp r"
  shows "km_inv (sk_km h')"
proof -
  let ?k = "sk_km h"
  have crear: "km_inv k'" if "segmento_crear pid i t ?k = (k', x)" for pid i t k' x
    using segmento_crear_inv [OF assms(1), of pid i t] that by simp
  have eliminar: "km_inv k'" if "segmento_eliminar pid i ?k = (k', x)" for pid i k' x
    using segmento_eliminar_inv [OF assms(1), of pid i] that by simp
  have susp: "km_inv k'" if "proceso_suspender pid ?k = Some (k', x)" for pid k' x
    using proceso_suspender_marco [OF assms(1), of pid] that by auto
  have des: "km_inv k'" if "proceso_dessuspender pid ?k = (k', x)" for pid k' x
    using proceso_dessuspender_inv [OF assms(1), of pid] that by simp
  have leer: "km_inv k'" if "leer_km d n ?k = (k', x)" for d n k' x
    using leer_km_inv [OF assms(1), of d n] that assms(1) by simp
  have escr: "km_inv k'" if "escribir_km d (u32_de_int n) cont ?k = (k', x)" "recibir_exacto (nat n) e = Some (cont, e')"
    "0 \<le> n" "recibir_int e0 = Some (n, e1)" for d n cont k' x e e' e0 e1
  proof -
    have "n < 2 ^ 31" using recibir_int_rango [OF that(4)] by (simp add: en_int_def)
    then have "unat (u32_de_int n) = length cont"
      using that(2,3) recibir_exacto_length [OF that(2)]
      by (subst unat_u32_de_int) (auto simp: recibir_exacto_def split: if_splits)
    then show ?thesis using escribir_km_inv [OF assms(1), of "u32_de_int n" cont d] that(1) by simp
  qed
  show ?thesis
  proof (cases ctl)
    case (EsperandoDesalojo pid i t)
    have "km_inv (fst (segmento_crear pid i t (fst (compactar ls ?k))))"
      by (intro segmento_crear_inv compactar_inv assms)
    then show ?thesis
      using assms(1,3) EsperandoDesalojo
      by (auto simp: atender_ks_def ks_confirmacion_def Let_def split: prod.splits if_splits)
  next
    case AtendiendoKS
    note paso = assms(3) [unfolded atender_ks_def AtendiendoKS control_ks.case]
    obtain op e where op: "recibir_codigo ent = (op, e)" by (metis surj_pair)
    consider "op = codigo OP_CREAR_PROCESO" | "op = codigo OP_FINALIZAR_PROCESO"
      | "op = codigo OP_CREAR_SEGMENTO" | "op = codigo OP_ELIMINAR_SEGMENTO"
      | "op = codigo OP_SUSPENDER_PROCESO" | "op = codigo OP_DESSUSPENDER_PROCESO"
      | "op = codigo OP_ESCRIBIR_DATOS" | "op = codigo OP_LEER_DATOS" | "sk_km h' = sk_km h"
      using paso op by (auto split: if_splits)
    then show ?thesis
    proof cases
      case 1
      then show ?thesis
        using paso op contexto_crear_inv [OF assms(1)]
        by (auto simp: ks_crear_proceso_def Let_def split: option.splits prod.splits if_splits)
    next
      case 2
      have "km_inv ((proceso_liberar_memoria pid ?k)\<lparr>km_contextos :=
          contexto_eliminar pid (km_contextos (proceso_liberar_memoria pid ?k))\<rparr>)" for pid
        by (intro contexto_eliminar_inv liberar_memoria_inv assms(1)) (auto dest: liberada_vacia)
      with 2 show ?thesis
        using paso op
        by (auto simp: ks_finalizar_proceso_def Let_def split: option.splits prod.splits if_splits)
    next
      case 3
      then show ?thesis
        using paso op crear
        by (auto simp: ks_crear_segmento_def split: option.splits prod.splits if_splits t_resultado_crear.splits)
    next
      case 4
      then show ?thesis
        using paso op eliminar
        by (auto simp: ks_eliminar_segmento_def split: option.splits prod.splits if_splits)
    next
      case 5
      then show ?thesis
        using paso op susp
        by (auto simp: ks_suspender_proceso_def split: option.splits prod.splits if_splits)
    next
      case 6
      then show ?thesis
        using paso op des
        by (auto simp: ks_dessuspender_proceso_def split: option.splits prod.splits if_splits)
    next
      case 7
      then show ?thesis
        using paso op escr
        by (auto simp: ks_escribir_datos_def not_less split: option.splits prod.splits if_splits)
    next
      case 8
      then show ?thesis
        using paso op leer
        by (auto simp: ks_leer_datos_def split: option.splits prod.splits if_splits)
    next
      case 9
      then show ?thesis using assms(1) by simp
    qed
  qed
qed

lemma atender_cpu_inv:
  assumes "km_inv (sk_km h)" "atender_cpu h ent = SigueCPU h' resp r"
  shows "km_inv (sk_km h')"
  using assms contexto_guardar_inv [OF assms(1)]
  by (auto simp: atender_cpu_def cpu_fetch_def cpu_obtener_contexto_def cpu_guardar_contexto_def
      cpu_lista_sticks_def Let_def split: prod.splits option.splits if_splits)

text \<open>
  A handshake of a stick or a swap is admissible when it announces what the process at the
  other end has, the total memory still fits 32 bits, and the memory plus one block the
  positive range of \<open>int\<close>.
\<close>

definition admisible :: "int \<Rightarrow> sesion \<Rightarrow> km \<Rightarrow> byte list \<Rightarrow> bool" where
  "admisible fd s k ent \<longleftrightarrow>
     (case s of
        SesionStick \<Rightarrow>
          (\<exists>st puerto r. km_red k fd = Some st \<and> stick_valido st \<and> en_int puerto \<and>
             ent = bytes_int (codigo HANDSHAKE_MEMORY_STICK) @ bytes_u32 (st_tamanio st) @ bytes_int puerto @ r \<and>
             fd \<notin> ms_fd ` set (km_sticks k) \<and>
             unat (memoria_total (km_mapa k)) + unat (st_tamanio st) < 2 ^ 32 \<and>
             (fd_swap (km_swap k) = - 1 \<or>
              unat (memoria_total (km_mapa k)) + unat (st_tamanio st) + km_bs k \<le> 2 ^ 31))
      | SesionSwap \<Rightarrow>
          (\<exists>sw r. km_red_swap k fd = Some sw \<and> swap_valido sw \<and> en_int (sw_block_size sw) \<and>
             ent = bytes_int (codigo HANDSHAKE_SWAP) @ bytes_int (sw_block_size sw) @
               bytes_int (sw_swap_size sw) @ r \<and>
             fd \<noteq> - 1 \<and> fd_swap (km_swap k) = - 1 \<and>
             unat (memoria_total (km_mapa k)) + nat (sw_block_size sw) \<le> 2 ^ 31)
      | _ \<Rightarrow> True)"

type_synonym estado_global = "servidor_km \<times> (int \<Rightarrow> sesion option)"

text \<open>
  One step: a new process at the other end of a socket, a handshake, a request on one of the
  connections, or the end of one.  Three things that the code also serves are left out, because
  after them the invariant does not hold: the end of the connection of a stick, whose addresses
  are lost while those of the others move; the end of the swap while it holds processes, which
  a new swap then does not have marked; and a handshake that is not admissible.
\<close>

inductive paso_km ::
    "archivos \<Rightarrow> string option \<Rightarrow> list_sort \<Rightarrow> estado_global \<Rightarrow> estado_global \<Rightarrow> bool"
  for archivos bp ls where
  llega_stick: "fd \<notin> ms_fd ` set (km_sticks (sk_km h)) \<Longrightarrow>
    paso_km archivos bp ls (h, ss)
      (con_km ((sk_km h)\<lparr>km_red := (km_red (sk_km h))(fd := Some st)\<rparr>) h, ss)"
| llega_swap: "fd_swap (km_swap (sk_km h)) = - 1 \<Longrightarrow>
    paso_km archivos bp ls (h, ss)
      (con_km ((sk_km h)\<lparr>km_red_swap := (km_red_swap (sk_km h))(fd := Some sw)\<rparr>) h, ss)"
| conecta: "ss fd = None \<Longrightarrow> atender_cliente fd ip h ent = Some (h', s, resp, r) \<Longrightarrow>
    admisible fd s (sk_km h) ent \<Longrightarrow> paso_km archivos bp ls (h, ss) (h', ss(fd \<mapsto> s))"
| pide_ks: "ss fd = Some (SesionKS ctl) \<Longrightarrow>
    atender_ks archivos bp ls ctl h ent = SigueKS h' ctl' resp r \<Longrightarrow>
    paso_km archivos bp ls (h, ss) (h', ss(fd \<mapsto> SesionKS ctl'))"
| pide_cpu: "ss fd = Some SesionCPU \<Longrightarrow> atender_cpu h ent = SigueCPU h' resp r \<Longrightarrow>
    paso_km archivos bp ls (h, ss) (h', ss)"
| se_va: "ss fd = Some s \<Longrightarrow> s \<noteq> SesionStick \<Longrightarrow>
    (s = SesionSwap \<longrightarrow> procesos_en_swap (km_swap (sk_km h)) = []) \<Longrightarrow>
    paso_km archivos bp ls (h, ss) (desconexion fd s h, ss(fd := None))"

inductive_cases paso_kmE: "paso_km archivos bp ls (h, ss) (h', ss')"

text \<open>Every \<open>malloc\<close> is granted from the start.\<close>

inductive alcanzable :: "archivos \<Rightarrow> string option \<Rightarrow> list_sort \<Rightarrow> estado_global \<Rightarrow> bool"
  for archivos bp ls where
  arranque: "\<forall>n. malloc n \<Longrightarrow>
    alcanzable archivos bp ls
      (\<lparr>sk_km = km_inicial max_seg bf malloc, fd_ks_notificaciones = - 1, sk_avisos = []\<rparr>, \<lambda>_. None)"
| paso: "alcanzable archivos bp ls g \<Longrightarrow> paso_km archivos bp ls g g' \<Longrightarrow> alcanzable archivos bp ls g'"

lemma llega_stick_inv:
  assumes "km_inv k" "fd \<notin> ms_fd ` set (km_sticks k)"
  shows "km_inv (k\<lparr>km_red := (km_red k)(fd := Some st)\<rparr>)"
proof -
  have "stick_conectado ((km_red k)(fd := Some st)) s = stick_conectado (km_red k) s"
    if "s \<in> set (km_sticks k)" for s
    using that assms(2) by (auto simp: stick_conectado_def)
  then have "fisica_valida (km_sticks k) ((km_red k)(fd := Some st)) = fisica_valida (km_sticks k) (km_red k)"
    by (simp add: fisica_valida_def)
  then have "km_valido (k\<lparr>km_red := (km_red k)(fd := Some st)\<rparr>) = km_valido k"
    by (simp add: km_valido_def particion_km_def cuenta_km_def refs_validas_def refs_vivas_def)
  moreover have "swap_inv (k\<lparr>km_red := (km_red k)(fd := Some st)\<rparr>) = swap_inv k"
    by (rule swap_inv_mismo) simp_all
  ultimately show ?thesis using assms(1) by (simp add: km_inv_def)
qed

lemma llega_swap_inv:
  assumes "km_inv k" "fd_swap (km_swap k) = - 1"
  shows "km_inv (k\<lparr>km_red_swap := (km_red_swap k)(fd := Some sw)\<rparr>)"
  using assms
  by (simp add: km_inv_def swap_inv_def km_valido_def particion_km_def cuenta_km_def refs_validas_def
      refs_vivas_def)

lemma en_int_swap: "swap_valido sw \<Longrightarrow> en_int (sw_swap_size sw)"
  by (simp add: swap_valido_def en_int_def)

lemma conecta_inv:
  assumes "km_inv (sk_km h)" "atender_cliente fd ip h ent = Some (h', s, resp, r)"
    and "admisible fd s (sk_km h) ent"
  shows "km_inv (sk_km h')"
proof (cases "s = SesionStick \<or> s = SesionSwap")
  case False
  with assms(2) have "sk_km h' = sk_km h"
    by (auto simp: atender_cliente_def Let_def split: prod.splits option.splits if_splits)
  with assms(1) show ?thesis by simp
next
  case True
  then show ?thesis
  proof
    assume s: "s = SesionStick"
    then obtain st puerto rest where a: "km_red (sk_km h) fd = Some st" "stick_valido st" "en_int puerto"
      "ent = bytes_int (codigo HANDSHAKE_MEMORY_STICK) @ bytes_u32 (st_tamanio st) @ bytes_int puerto @ rest"
      "fd \<notin> ms_fd ` set (km_sticks (sk_km h))"
      "unat (memoria_total (km_mapa (sk_km h))) + unat (st_tamanio st) < 2 ^ 32"
      "fd_swap (km_swap (sk_km h)) = - 1 \<or>
       unat (memoria_total (km_mapa (sk_km h))) + unat (st_tamanio st) + km_bs (sk_km h) \<le> 2 ^ 31"
      using assms(3) by (auto simp: admisible_def)
    have "sk_km h' = (sk_km h)\<lparr>km_mapa := memory_stick_agregar fd (st_tamanio st) ip puerto (km_mapa (sk_km h))\<rparr>"
      using assms(2) a(3) by (auto simp: a(4) atender_cliente_def recibir_codigo_def Let_def)
    then show ?thesis using agregar_stick_inv [OF assms(1) a(1,2,5,6,7)] by simp
  next
    assume s: "s = SesionSwap"
    then obtain sw rest where a: "km_red_swap (sk_km h) fd = Some sw" "swap_valido sw" "en_int (sw_block_size sw)"
      "ent = bytes_int (codigo HANDSHAKE_SWAP) @ bytes_int (sw_block_size sw) @ bytes_int (sw_swap_size sw) @ rest"
      "fd \<noteq> - 1" "fd_swap (km_swap (sk_km h)) = - 1"
      "unat (memoria_total (km_mapa (sk_km h))) + nat (sw_block_size sw) \<le> 2 ^ 31"
      using assms(3) by (auto simp: admisible_def)
    have "sk_km h' = (sk_km h)\<lparr>km_swap :=
        swap_registrar fd (sw_block_size sw) (sw_swap_size sw) (km_swap (sk_km h))\<rparr>"
      using assms(2) a(3) en_int_swap [OF a(2)]
      by (auto simp: a(4) atender_cliente_def recibir_codigo_def Let_def)
    then show ?thesis using registrar_inv [OF assms(1) a(6,5,1,2,7)] by simp
  qed
qed

lemma desregistrar_inv:
  assumes "km_inv k" "procesos_en_swap (km_swap k) = []"
  shows "km_inv (k\<lparr>km_swap := swap_desregistrar (km_swap k)\<rparr>)"
  using assms
  by (simp add: km_inv_def swap_inv_def swap_desregistrar_def km_valido_def particion_km_def cuenta_km_def
      refs_validas_def refs_vivas_def)

lemma paso_km_inv:
  assumes "paso_km archivos bp ls (h, ss) (h', ss')" "list_sort_ok ls" "km_inv (sk_km h)"
  shows "km_inv (sk_km h')"
  using assms(1)
proof (rule paso_kmE)
  fix fd ctl ent ctl' resp r
  assume "atender_ks archivos bp ls ctl h ent = SigueKS h' ctl' resp r"
  then show ?thesis by (rule atender_ks_inv [OF assms(3,2)])
next
  fix fd s
  assume "h' = desconexion fd s h" "s \<noteq> SesionStick"
    "s = SesionSwap \<longrightarrow> procesos_en_swap (km_swap (sk_km h)) = []"
  then show ?thesis
    using assms(3) desregistrar_inv [of "sk_km h"] by (cases s) (simp_all add: desconexion_def)
qed (use assms(3) in \<open>auto intro: llega_stick_inv llega_swap_inv conecta_inv atender_cpu_inv\<close>)

lemma km_inicial_inv: "\<forall>n. malloc n \<Longrightarrow> km_inv (km_inicial max_seg bf malloc)"
  using km_inicial_valido [of max_seg bf malloc]
  by (simp add: km_inv_def swap_inv_def) (simp add: km_inicial_def memoria_usuario_init_def)

lemma alcanzable_inv:
  assumes "alcanzable archivos bp ls g" "list_sort_ok ls"
  shows "km_inv (sk_km (fst g))"
  using assms(1)
proof induction
  case (arranque malloc max_seg bf)
  then show ?case by (simp add: km_inicial_inv)
next
  case (paso g g')
  then show ?case using paso_km_inv [OF _ assms(2)] by (cases g, cases g') auto
qed

end
