(* ===== verification/EstadosConcretos.thy ===== *)
theory EstadosConcretos
  imports ServidorKM
begin

text \<open>
  A small Kernel Memory, built only with the operations of the module: one stick of 16 bytes,
  one process with two segments of 4 bytes of which the first one is freed again, and a swap
  of four blocks of 4 bytes.  The properties are applied to it.
\<close>

definition stick_ej :: t_stick where
  "stick_ej = \<lparr>st_memoria = map of_nat [0..<16], st_tamanio = 16, st_malloc = (\<lambda>_. True)\<rparr>"

definition swap_ej :: t_swap where
  "swap_ej = \<lparr>sw_archivo = replicate 16 0, sw_block_size = 4, sw_swap_size = 16\<rparr>"

definition archivos_ej :: archivos where
  "archivos_ej nombre = Some ''SET AX 5\<newline>MOV_OUT AX\<newline>EXIT\<newline>''"

definition km_vacio :: km where
  "km_vacio = km_inicial 0 True (\<lambda>_. True)"

definition km_stick :: km where
  "km_stick = conectar_stick 7 stick_ej ''127.0.0.1'' 9000 km_vacio"

definition km_con_swap :: km where
  "km_con_swap = km_stick\<lparr>km_red_swap := (km_red_swap km_stick)(9 := Some swap_ej),
     km_swap := swap_registrar 9 4 16 (km_swap km_stick)\<rparr>"

definition km_proceso :: km where
  "km_proceso = km_con_swap\<lparr>km_contextos :=
     contexto_crear archivos_ej None 1 ''p'' (km_contextos km_con_swap)\<rparr>"

definition km_un_seg :: km where
  "km_un_seg = fst (segmento_crear 1 0 4 km_proceso)"

definition km_dos_segs :: km where
  "km_dos_segs = fst (segmento_crear 1 1 4 km_un_seg)"

definition km_fragmentado :: km where
  "km_fragmentado = fst (segmento_eliminar 1 0 km_dos_segs)"

lemma stick_ej_valido: "stick_valido stick_ej"
  by (simp add: stick_ej_def stick_valido_def)

lemma swap_ej_valido: "swap_valido swap_ej"
  by (simp add: swap_ej_def swap_valido_def)

lemma km_stick_inv: "km_inv km_stick"
proof -
  have v: "km_inv km_vacio" unfolding km_vacio_def by (rule km_inicial_inv) simp
  have s: "km_sticks km_vacio = []" "memoria_total (km_mapa km_vacio) = 0" "fd_swap (km_swap km_vacio) = - 1"
    by (simp_all add: km_vacio_def km_inicial_def memory_sticks_init_def memoria_usuario_init_def)
  let ?k = "km_vacio\<lparr>km_red := (km_red km_vacio)(7 := Some stick_ej)\<rparr>"
  have "km_inv ?k" by (rule llega_stick_inv [OF v]) (simp add: s)
  moreover have "km_stick = ?k\<lparr>km_mapa :=
      memory_stick_agregar 7 (st_tamanio stick_ej) ''127.0.0.1'' 9000 (km_mapa ?k)\<rparr>"
    by (rule km.equality) (simp_all add: km_stick_def conectar_stick_def)
  ultimately show ?thesis
    using agregar_stick_inv [of ?k 7 stick_ej "''127.0.0.1''" 9000]
    by (simp add: stick_ej_valido s) (simp add: stick_ej_def)
qed

lemma km_con_swap_inv: "km_inv km_con_swap"
proof -
  have s: "fd_swap (km_swap km_stick) = - 1" "memoria_total (km_mapa km_stick) = 16"
    by (simp_all add: km_stick_def conectar_stick_def km_vacio_def km_inicial_def memory_sticks_init_def
        memoria_usuario_init_def memory_stick_agregar_def stick_ej_def)
  from registrar_inv [OF llega_swap_inv [OF km_stick_inv s(1)], of 9 swap_ej 9 swap_ej] show ?thesis
    by (simp add: swap_ej_valido s km_con_swap_def) (simp add: swap_ej_def)
qed

lemma km_ejemplos_inv:
  "km_inv km_proceso" "km_inv km_un_seg" "km_inv km_dos_segs" "km_inv km_fragmentado"
proof -
  show p: "km_inv km_proceso" unfolding km_proceso_def by (rule contexto_crear_inv [OF km_con_swap_inv])
  show u: "km_inv km_un_seg" unfolding km_un_seg_def by (rule segmento_crear_inv [OF p])
  show d: "km_inv km_dos_segs" unfolding km_dos_segs_def by (rule segmento_crear_inv [OF u])
  show "km_inv km_fragmentado" unfolding km_fragmentado_def by (rule segmento_eliminar_inv [OF d])
qed

lemma km_ejemplos_valido:
  "km_valido km_proceso" "km_valido km_un_seg" "km_valido km_dos_segs" "km_valido km_fragmentado"
  "\<forall>n. km_malloc km_fragmentado n" "\<forall>n. km_malloc km_dos_segs n"
  using km_ejemplos_inv by (simp_all add: km_inv_def)

lemma fd_ejemplo: "fd_swap (km_swap km_dos_segs) = 9"
  by code_simp

text \<open>The process 1 is in swap and a second process took 12 of the 16 bytes of the memory.\<close>

definition km_sin_lugar :: km where
  "km_sin_lugar =
     (let k = fst (the (proceso_suspender 1 km_dos_segs));
          k1 = k\<lparr>km_contextos := contexto_crear archivos_ej None 2 ''q'' (km_contextos k)\<rparr>
      in fst (segmento_crear 2 1 4 (fst (segmento_crear 2 0 8 k1))))"

lemma km_sin_lugar_valido: "km_valido km_sin_lugar"
proof -
  obtain k ok where "proceso_suspender 1 km_dos_segs = Some (k, ok)" "km_inv k"
    using proceso_suspender_marco [OF km_ejemplos_inv(3), of 1] by blast
  then have "km_inv km_sin_lugar"
    unfolding km_sin_lugar_def by (simp add: Let_def segmento_crear_inv contexto_crear_inv)
  then show ?thesis by (simp add: km_inv_def)
qed

section \<open>Reachable states\<close>

definition h_inicio :: servidor_km where
  "h_inicio = \<lparr>sk_km = km_vacio, fd_ks_notificaciones = - 1, sk_avisos = []\<rparr>"

definition h_stick :: servidor_km where
  "h_stick = con_km (km_vacio\<lparr>km_red := (km_red km_vacio)(7 := Some stick_ej)\<rparr>) h_inicio"

definition saludo_stick :: "byte list" where
  "saludo_stick = bytes_int (codigo HANDSHAKE_MEMORY_STICK) @ bytes_u32 16 @ bytes_int 9000"

definition h_ej :: servidor_km where
  "h_ej = fst (the (atender_cliente 7 ''127.0.0.1'' h_stick saludo_stick))"

lemma h_ej_alcanzable: "alcanzable archivos_ej None ordenar_insercion (h_ej, (\<lambda>_. None)(7 \<mapsto> SesionStick))"
proof -
  have i: "alcanzable archivos_ej None ordenar_insercion (h_inicio, \<lambda>_. None)"
    unfolding h_inicio_def km_vacio_def by (rule alcanzable.arranque) simp
  have "paso_km archivos_ej None ordenar_insercion (h_inicio, \<lambda>_. None) (h_stick, \<lambda>_. None)"
    unfolding h_stick_def
    using paso_km.llega_stick [of 7 h_inicio archivos_ej None ordenar_insercion "\<lambda>_. None" stick_ej]
    by (simp add: h_inicio_def km_vacio_def km_inicial_def memory_sticks_init_def)
  with i have s: "alcanzable archivos_ej None ordenar_insercion (h_stick, \<lambda>_. None)" by (rule alcanzable.paso)
  have a: "atender_cliente 7 ''127.0.0.1'' h_stick saludo_stick =
      Some (h_ej, SesionStick, bytes_int (codigo HANDSHAKE_OK), [])"
    by (simp add: h_ej_def atender_cliente_def recibir_codigo_def saludo_stick_def Let_def en_int_def)
  have e: "sk_km h_stick = km_vacio\<lparr>km_red := (km_red km_vacio)(7 := Some stick_ej)\<rparr>"
    by (simp add: h_stick_def)
  have "admisible 7 SesionStick (sk_km h_stick) saludo_stick"
    unfolding admisible_def sesion.case e
    by (rule exI [of _ stick_ej], rule exI [of _ 9000], rule exI [of _ "[]"])
      (simp add: stick_ej_valido en_int_def saludo_stick_def, simp add: km_vacio_def km_inicial_def
        memory_sticks_init_def memoria_usuario_init_def stick_ej_def)
  from paso_km.conecta [OF _ a this]
  have "paso_km archivos_ej None ordenar_insercion (h_stick, \<lambda>_. None) (h_ej, (\<lambda>_. None)(7 \<mapsto> SesionStick))"
    by simp
  with s show ?thesis by (rule alcanzable.paso)
qed

text \<open>The Kernel Scheduler connects, creates the process 1 and asks for two segments of 4 bytes.\<close>

definition pedir_ej :: "byte list \<Rightarrow> servidor_km \<Rightarrow> servidor_km" where
  "pedir_ej ent h =
     (case atender_ks archivos_ej None ordenar_insercion AtendiendoKS h ent of
        SigueKS h' ctl resp r \<Rightarrow> h' | _ \<Rightarrow> h)"

definition atiende_ej :: "byte list \<Rightarrow> servidor_km \<Rightarrow> bool" where
  "atiende_ej ent h =
     (case atender_ks archivos_ej None ordenar_insercion AtendiendoKS h ent of
        SigueKS h' AtendiendoKS resp r \<Rightarrow> True | _ \<Rightarrow> False)"

definition pedido_proceso :: "byte list" where
  "pedido_proceso = bytes_int (codigo OP_CREAR_PROCESO) @ bytes_int 1 @ bytes_int 1 @ bytes_texto ''p''"

definition pedido_segmento :: "int \<Rightarrow> byte list" where
  "pedido_segmento i = bytes_int (codigo OP_CREAR_SEGMENTO) @ bytes_int 1 @ bytes_int i @ bytes_int 4"

definition h_dos :: servidor_km where
  "h_dos = pedir_ej (pedido_segmento 1) (pedir_ej (pedido_segmento 0) (pedir_ej pedido_proceso h_ej))"

definition sesiones_ej :: "int \<Rightarrow> sesion option" where
  "sesiones_ej = (\<lambda>_. None)(7 \<mapsto> SesionStick, 8 \<mapsto> SesionKS AtendiendoKS)"

lemma pedir_ej_alcanzable:
  assumes "alcanzable archivos_ej None ordenar_insercion (h, sesiones_ej)" "atiende_ej ent h"
  shows "alcanzable archivos_ej None ordenar_insercion (pedir_ej ent h, sesiones_ej)"
proof -
  obtain h' resp r where a: "atender_ks archivos_ej None ordenar_insercion AtendiendoKS h ent =
      SigueKS h' AtendiendoKS resp r"
    using assms(2) by (auto simp: atiende_ej_def split: paso_ks.splits control_ks.splits)
  have "paso_km archivos_ej None ordenar_insercion (h, sesiones_ej) (h', sesiones_ej(8 \<mapsto> SesionKS AtendiendoKS))"
    by (rule paso_km.pide_ks [OF _ a]) (simp add: sesiones_ej_def)
  with assms(1) have "alcanzable archivos_ej None ordenar_insercion (h', sesiones_ej(8 \<mapsto> SesionKS AtendiendoKS))"
    by (rule alcanzable.paso)
  moreover have "sesiones_ej(8 \<mapsto> SesionKS AtendiendoKS) = sesiones_ej" by (auto simp: sesiones_ej_def)
  ultimately show ?thesis by (simp add: pedir_ej_def a)
qed

lemma h_dos_alcanzable: "alcanzable archivos_ej None ordenar_insercion (h_dos, sesiones_ej)"
proof -
  have "paso_km archivos_ej None ordenar_insercion (h_ej, (\<lambda>_. None)(7 \<mapsto> SesionStick)) (h_ej, sesiones_ej)"
    unfolding sesiones_ej_def
    by (rule paso_km.conecta [of _ 8 _ _ "bytes_int (codigo HANDSHAKE_KERNEL_SCHEDULER)"])
      (simp_all add: atender_cliente_def recibir_codigo_def admisible_def)
  with h_ej_alcanzable have "alcanzable archivos_ej None ordenar_insercion (h_ej, sesiones_ej)"
    by (rule alcanzable.paso)
  moreover have "atiende_ej pedido_proceso h_ej" "atiende_ej (pedido_segmento 0) (pedir_ej pedido_proceso h_ej)"
    "atiende_ej (pedido_segmento 1) (pedir_ej (pedido_segmento 0) (pedir_ej pedido_proceso h_ej))"
    by code_simp+
  ultimately show ?thesis unfolding h_dos_def by (intro pedir_ej_alcanzable)
qed

lemma h_ej_total: "memoria_total (km_mapa (sk_km h_ej)) = 16"
  by code_simp

lemma h_dos_datos:
  "0 \<in># refs_vivas (sk_km h_dos)" "1 \<in># refs_vivas (sk_km h_dos)"
  "seg_limite (km_segs (sk_km h_dos) 0) = 4" "seg_limite (km_segs (sk_km h_dos) 1) = 4"
  unfolding refs_vivas_def set_mset_mset by code_simp+

end
