(* ===== verification/PropiedadesKM.thy ===== *)
theory PropiedadesKM
  imports EstadosConcretos
begin

text \<open>
  The properties of Kernel Memory, of the memory sticks and of the swap, each applied to a
  concrete state built with the operations of the module.
\<close>

section \<open>Shared steps\<close>

lemma alcanzable_km_inv: "alcanzable archivos bp ls (h, ss) \<Longrightarrow> list_sort_ok ls \<Longrightarrow> km_inv (sk_km h)"
  using alcanzable_inv [of archivos bp ls "(h, ss)"] by simp

lemma segmentos_disjuntos:
  assumes "particion_km k" "r \<in># refs_vivas k" "s \<in># refs_vivas k" "r \<noteq> s"
  shows "disjuntas (region_seg (km_segs k r)) (region_seg (km_segs k s))"
proof (unfold disjuntas_def, intro allI notI)
  fix a
  assume "en_region (region_seg (km_segs k r)) a \<and> en_region (region_seg (km_segs k s)) a"
  then have "2 \<le> ocupa (km_segs k) (refs_vivas k) a" using ocupa_dos [OF assms(2-4)] by blast
  moreover have "cuenta_km k a \<le> 1" using assms(1) by (simp add: particion_km_def)
  ultimately show False by (simp add: cuenta_km_def)
qed

lemma disjuntas_separadas:
  assumes "disjuntas (b, l) (c, m)" "0 < l" "0 < m"
  shows "b + l \<le> c \<or> c + m \<le> b"
  using assms(1) [unfolded disjuntas_def, rule_format, of "max b c"] assms(2,3)
  by (auto simp: en_region_def max_def split: if_splits)

text \<open>Writing inside a live segment, and what the other segments keep.\<close>

lemma escribir_en_segmento:
  assumes "km_valido k" "r \<in># refs_vivas k" "s \<in># refs_vivas k" "r \<noteq> s"
    and "off + length datos \<le> unat (seg_limite (km_segs k r))"
    and "escribir_km (seg_base (km_segs k r) + of_nat off) (of_nat (length datos)) datos k = (k', ok)"
  shows "ok \<and> vista k' s = vista k s \<and>
    contenido (imagen (km_sticks k') (km_red k')) (km_segs k' r) =
      empalmar off datos (contenido (imagen (km_sticks k) (km_red k)) (km_segs k r))"
proof -
  let ?sr = "km_segs k r" and ?ss = "km_segs k s" and ?img = "imagen (km_sticks k) (km_red k)"
  have p: "particion_km k" and f: "fisica_valida (km_sticks k) (km_red k)"
    and cap: "capacidad (km_sticks k) = unat (memoria_total (km_mapa k))"
    using assms(1) by (simp_all add: km_valido_def)
  have n: "unat (of_nat (length datos) :: u32) = length datos" "unat (of_nat off :: u32) = off"
    using le_less_trans [OF assms(5) unat_u32_lt] by (simp_all add: unat_of_nat)
  show ?thesis
  proof (cases "datos = []")
    case True
    then have "k' = k" "ok" using assms(6) by simp_all
    moreover have "off \<le> length (contenido ?img ?sr)"
      using assms(5) length_contenido_vivo [OF assms(1,2)] by simp
    ultimately show ?thesis using True by simp
  next
    case False
    have nz: "seg_limite ?sr \<noteq> 0" using assms(5) False by (auto simp: unat_gt_0)
    have cr: "unat (seg_base ?sr) + unat (seg_limite ?sr) \<le> capacidad (km_sticks k)"
      using segmento_acotado [OF p assms(2) nz] by (simp add: cap)
    have "unat (seg_base ?sr) + unat (of_nat off :: u32) < 2 ^ 32"
      using cr assms(5) unat_u32_lt [of "memoria_total (km_mapa k)"] n(2) by (simp add: cap)
    from unat_suma_u32 [OF this] have ub: "unat (seg_base ?sr + of_nat off) = unat (seg_base ?sr) + off"
      by (simp add: n)
    obtain red where w: "escribir_km (seg_base ?sr + of_nat off) (of_nat (length datos)) datos k = (con_red red k, True)"
      "imagen (km_sticks k) red = empalmar (unat (seg_base ?sr) + off) datos ?img"
      by (rule escribir_km_ok [OF f, of "of_nat (length datos)" datos "seg_base ?sr + of_nat off"])
        (use cr assms(5) in \<open>auto simp: n ub\<close>)
    have li: "length ?img = capacidad (km_sticks k)" using f by simp
    have "contenido (imagen (km_sticks k) red) ?sr = empalmar off datos (contenido ?img ?sr)"
      unfolding w(2) contenido_def using cr assms(5) li
      by (intro nth_equalityI) (auto simp: nth_ventana nth_empalmar)
    moreover have "contenido (imagen (km_sticks k) red) ?ss = contenido ?img ?ss"
    proof (cases "seg_limite ?ss = 0")
      case nz': False
      have "unat (seg_base ?ss) + unat (seg_limite ?ss) \<le> capacidad (km_sticks k)"
        using segmento_acotado [OF p assms(3) nz'] by (simp add: cap)
      moreover have "unat (seg_base ?sr) + unat (seg_limite ?sr) \<le> unat (seg_base ?ss) \<or>
          unat (seg_base ?ss) + unat (seg_limite ?ss) \<le> unat (seg_base ?sr)"
        using segmentos_disjuntos [OF p assms(2-4)] nz nz'
        by (intro disjuntas_separadas) (simp_all add: region_seg_def unat_gt_0)
      ultimately show ?thesis
        unfolding w(2) contenido_def using cr assms(5) li
        by (intro ventana_empalmar_disj) auto
    qed (simp add: contenido_def)
    ultimately show ?thesis using assms(6) w(1) by (auto simp: vista_def con_red_def)
  qed
qed

section \<open>Segments\<close>

text \<open>C1: whatever the order in which Kernel Memory serves its connections, each address of the
  installed memory belongs to exactly one free hole or live segment, no two tables share a
  segment, and the swap bitmap marks exactly the blocks of the suspended processes, each block
  in one of them.  It is so in the states of \<open>alcanzable\<close>: every \<open>malloc\<close> is granted, the
  handshakes of the sticks and of the swap announce the sizes their processes have and keep the
  total in 32 bits (\<open>admisible\<close>), no stick disconnects, and the swap does not while a process
  is in it; the scheduler, the CPUs and an empty swap may leave and come back.\<close>

theorem km_siempre_coherente:
  assumes "alcanzable archivos bp ls (h, ss)" "list_sort_ok ls"
  shows "particiona (regiones_km (sk_km h)) (unat (memoria_total (km_mapa (sk_km h)))) \<and>
    refs_validas (sk_km h) \<and>
    (fd_swap (km_swap (sk_km h)) \<noteq> - 1 \<longrightarrow> swap_coherente (sk_km h))"
proof -
  have "km_inv (sk_km h)" by (rule alcanzable_km_inv [OF assms])
  then show ?thesis by (auto simp: km_inv_def km_valido_def swap_inv_def particion_km_iff)
qed

lemma km_siempre_coherente_ejemplo:
  "particiona (regiones_km (sk_km h_ej)) 16 \<and> refs_validas (sk_km h_ej)"
  using km_siempre_coherente [OF h_ej_alcanzable list_sort_ok_insercion] by (simp add: h_ej_total)

text \<open>C3: in a state of \<open>alcanzable\<close> (the handshakes are admissible, no stick has disconnected, the
  swap has not while a process was in it) a write inside one live segment succeeds, puts the
  bytes where they were asked and leaves every other segment, of the same process or of another
  one, as it was.\<close>

theorem escritura_aislada:
  assumes "alcanzable archivos bp ls (h, ss)" "list_sort_ok ls"
    and "r \<in># refs_vivas (sk_km h)" "s \<in># refs_vivas (sk_km h)" "r \<noteq> s"
    and "off + length datos \<le> unat (seg_limite (km_segs (sk_km h) r))"
    and "escribir_km (seg_base (km_segs (sk_km h) r) + of_nat off) (of_nat (length datos)) datos (sk_km h) = (k', ok)"
  shows "ok \<and> vista k' s = vista (sk_km h) s \<and>
    contenido (imagen (km_sticks k') (km_red k')) (km_segs k' r) =
      empalmar off datos (contenido (imagen (km_sticks (sk_km h)) (km_red (sk_km h))) (km_segs (sk_km h) r))"
  using alcanzable_km_inv [OF assms(1,2)] assms(3-7)
  by (intro escribir_en_segmento) (simp_all add: km_inv_def)

lemma escritura_aislada_ejemplo:
  "\<exists>k'. escribir_km (seg_base (km_segs (sk_km h_dos) 0) + of_nat 1) (of_nat 2) [77, 78] (sk_km h_dos) = (k', True) \<and>
     vista k' 1 = vista (sk_km h_dos) 1"
proof -
  obtain k' ok where w:
    "escribir_km (seg_base (km_segs (sk_km h_dos) 0) + of_nat 1) (of_nat (length [77, 78 :: byte])) [77, 78] (sk_km h_dos) = (k', ok)"
    by (metis surj_pair)
  have "ok \<and> vista k' 1 = vista (sk_km h_dos) 1"
    using escritura_aislada [OF h_dos_alcanzable list_sort_ok_insercion h_dos_datos(1,2) _ _ w] h_dos_datos(3)
    by simp
  with w show ?thesis by simp
qed

text \<open>C11: \<open>segmento_crear\<close> on a valid memory.  When it succeeds the process gets a new segment
  with the identifier and the size asked, over addresses that were free, every other segment
  keeps its place, and the free memory shrinks by exactly that size.  It asks for a compaction
  only when the memory would do but no single hole does, and every refusal leaves the state
  as it was.\<close>

theorem segmento_crear_correcto:
  assumes "km_valido k" "segmento_crear pid i tam k = (k', res)"
  shows "case res of
      CREAR_SEG_OK \<Rightarrow> km_valido k' \<and>
        (\<exists>r c. contexto_buscar pid (km_contextos k) = Some c \<and> r \<notin># refs_vivas k \<and>
          contexto_buscar pid (km_contextos k') = Some (c\<lparr>ctx_tabla := ctx_tabla c @ [r]\<rparr>) \<and>
          refs_vivas k' = add_mset r (refs_vivas k) \<and>
          seg_id (km_segs k' r) = i \<and> seg_limite (km_segs k' r) = tam \<and>
          (\<forall>s \<in># refs_vivas k. km_segs k' s = km_segs k s)) \<and>
        unat (memoria_libre_total k') + unat tam = unat (memoria_libre_total k)
    | CREAR_SEG_COMPACTAR \<Rightarrow> k' = k \<and> tam \<le> memoria_libre_total k \<and>
        (\<forall>h \<in> set (km_huecos k). h_tamanio h < tam)
    | CREAR_SEG_ERROR \<Rightarrow> k' = k \<and>
        (contexto_buscar pid (km_contextos k) = None \<or> memoria_libre_total k < tam \<or>
         (0 < km_segment_max_size k \<and> u32_de_int (km_segment_max_size k) < tam))"
proof (cases res)
  case CREAR_SEG_OK
  then obtain j c where c: "contexto_buscar pid (km_contextos k) = Some c"
    "k' = agregar_segmento pid \<lparr>seg_id = i, seg_base = h_base (km_huecos k ! j), seg_limite = tam\<rparr>
       (poner_huecos (hueco_ocupar j tam (km_huecos k)) k)"
    using segmento_crear_OK [of pid i tam k k'] assms(2) by metis
  have v: "km_valido k'" using segmento_crear_valido [OF assms(1), of pid i tam] assms(2) by simp
  let ?k0 = "poner_huecos (hueco_ocupar j tam (km_huecos k)) k"
  have rv: "refs_validas ?k0" "refs_validas k"
    using assms(1) by (simp_all add: km_valido_def refs_validas_def)
  have nuevo: "km_prox k \<notin># refs_vivas k" using rv(2) by (auto simp: refs_validas_def)
  have refs: "refs_vivas k' = add_mset (km_prox k) (refs_vivas k)"
    using agregar_segmento_refs(1) [OF rv(1), of pid c] c by simp
  have ctx: "contexto_buscar pid (km_contextos k') = Some (c\<lparr>ctx_tabla := ctx_tabla c @ [km_prox k]\<rparr>)"
    using c by (simp add: agregar_segmento_def buscar_modificar)
  have segs: "km_segs k' = (km_segs k)(km_prox k := \<lparr>seg_id = i, seg_base = h_base (km_huecos k ! j), seg_limite = tam\<rparr>)"
    using c by simp
  have "tamanio_total (km_segs k') (todos_los_segmentos (km_contextos k')) =
      tamanio_total (km_segs k') (km_prox k # todos_los_segmentos (km_contextos k))"
    using refs by (intro tamanio_total_mset) (simp add: refs_vivas_def)
  also have "\<dots> = unat tam + tamanio_total (km_segs k) (todos_los_segmentos (km_contextos k))"
    using nuevo by (simp add: segs refs_vivas_def)
  finally have "unat (memoria_libre_total k') + unat tam = unat (memoria_libre_total k)"
    using memoria_libre_exacta [of k] memoria_libre_exacta [of k'] assms(1) v c(2)
    by (simp add: km_valido_def)
  moreover have "\<forall>s \<in># refs_vivas k. km_segs k' s = km_segs k s" using nuevo by (auto simp: segs)
  ultimately show ?thesis using CREAR_SEG_OK v c(1) nuevo ctx refs by (auto simp: segs)
next
  case CREAR_SEG_COMPACTAR
  then have "buscar_hueco (km_best_fit k) tam (km_huecos k) = None"
    using assms(2) by (auto simp: segmento_crear_def split: if_splits option.splits)
  then have "\<forall>h \<in> set (km_huecos k). h_tamanio h < tam"
    using bft.busqueda_None wft.busqueda_None
    by (simp add: buscar_hueco_def buscar_hueco_best_fit_def buscar_hueco_worst_fit_def split: if_splits)
  with CREAR_SEG_COMPACTAR assms(2) show ?thesis
    by (auto simp: segmento_crear_def memoria_libre_total_def split: if_splits option.splits)
next
  case CREAR_SEG_ERROR
  with assms(2) show ?thesis
    by (auto simp: segmento_crear_def memoria_libre_total_def not_le split: if_splits option.splits)
qed

lemma segmento_crear_correcto_ejemplo:
  "(\<exists>k'. segmento_crear 1 5 8 km_fragmentado = (k', CREAR_SEG_OK) \<and> km_valido k' \<and>
     unat (memoria_libre_total k') + 8 = unat (memoria_libre_total km_fragmentado)) \<and>
   snd (segmento_crear 1 5 10 km_fragmentado) = CREAR_SEG_COMPACTAR"
proof -
  have "snd (segmento_crear 1 5 8 km_fragmentado) = CREAR_SEG_OK" by code_simp
  then obtain k' where k': "segmento_crear 1 5 8 km_fragmentado = (k', CREAR_SEG_OK)" by (metis prod.collapse)
  moreover have "snd (segmento_crear 1 5 10 km_fragmentado) = CREAR_SEG_COMPACTAR" by code_simp
  ultimately show ?thesis
    using segmento_crear_correcto [OF km_ejemplos_valido(4) k'] by auto
qed

section \<open>Compaction\<close>

text \<open>C6: \<open>compactar\<close> on a valid memory, whose \<open>malloc\<close> grants the buffers and whatever sort the
  library uses, ends well: every segment of every process keeps its identifier, its size and
  its bytes, the tables are the same, and all the free memory is one hole behind them.\<close>

theorem compactar_correcto:
  assumes "km_valido k" "\<forall>n. km_malloc k n" "list_sort_ok ls" "compactar ls k = (k', ok)"
  shows "ok \<and> km_valido k' \<and> km_contextos k' = km_contextos k \<and>
    (\<forall>r \<in># refs_vivas k. vista k' r = vista k r) \<and>
    (\<forall>a. 0 < cuenta (libres (km_huecos k')) a \<longleftrightarrow>
       tamanio_total (km_segs k) (todos_los_segmentos (km_contextos k)) \<le> a \<and>
       a < unat (memoria_total (km_mapa k))) \<and>
    length (km_huecos k') \<le> 1"
proof -
  obtain rs where c: "ok" "mset rs = refs_vivas k" "km_valido k'"
    "km_huecos k' = huecos_reconstruir (of_nat (tamanio_total (km_segs k) rs)) (memoria_total (km_mapa k)) (km_huecos k)"
    "tamanio_total (km_segs k) rs \<le> unat (memoria_total (km_mapa k))"
    "km_contextos k' = km_contextos k"
    by (rule compactar_completo [OF assms(1-3)]) (use assms(4) in auto)
  have tt: "tamanio_total (km_segs k) rs = tamanio_total (km_segs k) (todos_los_segmentos (km_contextos k))"
    using c(2) by (intro tamanio_total_mset) (simp add: refs_vivas_def)
  have ub: "unat (of_nat (tamanio_total (km_segs k) rs) :: u32) = tamanio_total (km_segs k) rs"
    using le_less_trans [OF c(5) unat_u32_lt] by (simp add: unat_of_nat)
  have "of_nat (tamanio_total (km_segs k) rs) \<le> memoria_total (km_mapa k)"
    using c(5) by (simp add: word_le_nat_alt ub)
  from libres_reconstruir [OF this]
  have "cuenta (libres (km_huecos k')) a = (if tamanio_total (km_segs k) rs \<le> a \<and> a < unat (memoria_total (km_mapa k)) then 1 else 0)" for a
    by (simp add: c(4) ub en_region_def)
  then have "\<forall>a. 0 < cuenta (libres (km_huecos k')) a \<longleftrightarrow>
       tamanio_total (km_segs k) (todos_los_segmentos (km_contextos k)) \<le> a \<and>
       a < unat (memoria_total (km_mapa k))" by (simp add: tt)
  moreover have "length (km_huecos k') \<le> 1" by (simp add: c(4) huecos_reconstruir_def)
  moreover have "\<forall>r \<in># refs_vivas k. vista k' r = vista k r"
    using compactar_conserva [OF assms] by (simp add: vista_def)
  ultimately show ?thesis using c by blast
qed

lemma compactar_correcto_ejemplo:
  "\<exists>k'. compactar ordenar_insercion km_fragmentado = (k', True) \<and> km_valido k' \<and>
     vista k' 1 = vista km_fragmentado 1 \<and> vista k' 1 = (1, 4, [4, 5, 6, 7]) \<and> seg_base (km_segs k' 1) = 0"
proof -
  obtain k' ok where c: "compactar ordenar_insercion km_fragmentado = (k', ok)" by (metis surj_pair)
  have "1 \<in># refs_vivas km_fragmentado" unfolding refs_vivas_def set_mset_mset by code_simp
  then have "ok \<and> km_valido k' \<and> vista k' 1 = vista km_fragmentado 1"
    using compactar_correcto [OF km_ejemplos_valido(4,5) list_sort_ok_insercion c] by blast
  moreover have "vista km_fragmentado 1 = (1, 4, [4, 5, 6, 7])" by code_simp
  moreover have "seg_base (km_segs (fst (compactar ordenar_insercion km_fragmentado)) 1) = 0" by code_simp
  ultimately show ?thesis using c by simp
qed

text \<open>C33: in a valid memory, whose \<open>malloc\<close> grants the buffers of the compaction, a request of a
  segment that is not empty and for which \<open>segmento_crear\<close> asks for a compaction succeeds when it
  is made again after it.\<close>

theorem compactar_alcanza:
  assumes "km_valido k" "\<forall>n. km_malloc k n" "list_sort_ok ls" "tam \<noteq> 0"
    and "segmento_crear pid i tam k = (k0, CREAR_SEG_COMPACTAR)"
  shows "snd (segmento_crear pid i tam (fst (compactar ls k0))) = CREAR_SEG_OK"
proof -
  obtain k' ok where c: "compactar ls k = (k', ok)" by (metis surj_pair)
  have "k0 = k" using segmento_crear_no_OK [OF assms(5)] by simp
  then show ?thesis using crear_tras_compactar [OF assms c] c by simp
qed

lemma compactar_alcanza_ejemplo:
  "snd (segmento_crear 1 5 10 (fst (compactar ordenar_insercion km_fragmentado))) = CREAR_SEG_OK"
proof -
  have "snd (segmento_crear 1 5 10 km_fragmentado) = CREAR_SEG_COMPACTAR" by code_simp
  then have "segmento_crear 1 5 10 km_fragmentado = (fst (segmento_crear 1 5 10 km_fragmentado), CREAR_SEG_COMPACTAR)"
    by (metis prod.collapse)
  from this segmento_crear_no_OK [OF this] have "segmento_crear 1 5 10 km_fragmentado = (km_fragmentado, CREAR_SEG_COMPACTAR)"
    by simp
  from compactar_alcanza [OF km_ejemplos_valido(4,5) list_sort_ok_insercion _ this] show ?thesis by simp
qed

section \<open>Suspension\<close>

text \<open>C12: a suspension that is refused, or that fails half way because a stick or the swap has gone or
  answers an error, leaves Kernel Memory exactly as it was: the marks of all the blocks it had
  taken are undone, the tables, the holes, the memory and the list of the suspended processes
  are the same, and a swap that is still there has lost no block that was in use.  The bitmap
  has an entry for each block, and the sticks that are still connected are as they announced.\<close>

theorem suspender_todo_o_nada:
  assumes "length (km_usados k) = km_bloques k" "sticks_fieles (km_sticks k) (km_red k)"
    and "proceso_suspender pid k = Some (k', False)"
  shows "(\<exists>rsw. k' = k\<lparr>km_red_swap := rsw\<rparr>) \<and>
    (\<forall>sw. conectado k sw \<longrightarrow>
       (\<exists>sw'. conectado k' sw' \<and> (\<forall>b < km_bloques k. km_usados k ! b \<longrightarrow> bloque sw' b = bloque sw b)))"
  using suspender_falla [OF assms(3,1,2)] by (simp add: mismos_bloques_def)

text \<open>
  The swap file has a single block, although four were announced: the first segment of the
  process 1 is copied, the write of the second one is answered with an error.
\<close>

definition km_swap_corto :: km where
  "km_swap_corto = km_dos_segs\<lparr>km_red_swap :=
     (km_red_swap km_dos_segs)(9 := Some \<lparr>sw_archivo = replicate 4 0, sw_block_size = 4, sw_swap_size = 4\<rparr>)\<rparr>"

lemma suspender_todo_o_nada_ejemplo:
  "(case suspender_bucle [0, 1] [] km_swap_corto of
      (k1, copiados, ok) \<Rightarrow> bloques_copiados copiados = [0] \<and> km_usados k1 \<noteq> km_usados km_swap_corto) \<and>
   (\<exists>k'. proceso_suspender 1 km_swap_corto = Some (k', False) \<and> km_usados k' = km_usados km_swap_corto \<and>
      km_contextos k' = km_contextos km_swap_corto)"
proof
  show "case suspender_bucle [0, 1] [] km_swap_corto of
      (k1, copiados, ok) \<Rightarrow> bloques_copiados copiados = [0] \<and> km_usados k1 \<noteq> km_usados km_swap_corto" by code_simp
  have "map_option snd (proceso_suspender 1 km_swap_corto) = Some False" by code_simp
  then obtain k' where k': "proceso_suspender 1 km_swap_corto = Some (k', False)" by auto
  have "length (km_usados km_swap_corto) = km_bloques km_swap_corto" by code_simp
  moreover have "sticks_fieles (km_sticks km_swap_corto) (km_red km_swap_corto)"
    using km_ejemplos_valido(3) by (simp add: km_swap_corto_def km_valido_def fisica_fieles)
  ultimately show "\<exists>k'. proceso_suspender 1 km_swap_corto = Some (k', False) \<and> km_usados k' = km_usados km_swap_corto \<and>
      km_contextos k' = km_contextos km_swap_corto"
    using suspender_todo_o_nada [OF _ _ k'] k' by auto
qed

text \<open>
  What the scope of \<open>alcanzable\<close> leaves out: when the swap leaves with a process in it and another
  one connects, the process is still listed and its blocks are free in the new bitmap.
\<close>

lemma swap_olvida:
  "let k = fst (the (proceso_suspender 1 km_dos_segs));
       w = swap_registrar 9 4 16 (swap_desregistrar (km_swap k))
   in bloques_tomados (procesos_en_swap w) = [0, 1] \<and> swap_bloques_usados w = replicate 4 False"
  by code_simp

text \<open>C5: a process suspended to swap and brought back has the same registers and, in the same
  order, segments of the same identifiers, sizes and bytes, and all its swap blocks are free
  again.\<close>

theorem suspender_y_volver:
  assumes "km_valido k" "conectado k sw" "contexto_buscar pid (km_contextos k) = Some c"
    and "buscar_proceso_swap pid (procesos_en_swap (km_swap k)) = None"
    and "unat (memoria_total (km_mapa k)) + km_bs k \<le> 2 ^ 31"
    and "bloques_para k (ctx_tabla c) \<le> libres_en (km_usados k) [0..<km_bloques k]"
    and "proceso_suspender pid k = Some (k1, ok1)" "proceso_dessuspender pid k1 = (k2, True)"
  shows "ok1 \<and> km_valido k2 \<and> km_usados k2 = km_usados k \<and>
    (\<exists>c2. contexto_buscar pid (km_contextos k2) = Some c2 \<and>
      ctx_registros c2 = ctx_registros c \<and>
      map (vista k2) (ctx_tabla c2) = map (vista k) (ctx_tabla c))"
  by (rule ida_y_vuelta [OF assms])

lemma suspender_y_volver_ejemplo:
  "\<exists>k1 k2 c2. proceso_suspender 1 km_dos_segs = Some (k1, True) \<and> proceso_dessuspender 1 k1 = (k2, True) \<and>
     contexto_buscar 1 (km_contextos k2) = Some c2 \<and>
     map (vista k2) (ctx_tabla c2) = [(0, 4, [0, 1, 2, 3]), (1, 4, [4, 5, 6, 7])]"
proof -
  obtain c where c: "contexto_buscar 1 (km_contextos km_dos_segs) = Some c" "ctx_tabla c = [0, 1]"
  proof -
    have "map_option ctx_tabla (contexto_buscar 1 (km_contextos km_dos_segs)) = Some [0, 1]" by code_simp
    then show thesis using that by auto
  qed
  have s: "map_option snd (proceso_suspender 1 km_dos_segs) = Some True" by code_simp
  then obtain k1 where k1: "proceso_suspender 1 km_dos_segs = Some (k1, True)" by auto
  have "snd (proceso_dessuspender 1 (fst (the (proceso_suspender 1 km_dos_segs)))) = True" by code_simp
  then obtain k2 where k2: "proceso_dessuspender 1 k1 = (k2, True)" by (simp add: k1) (metis prod.collapse)
  obtain sw where sw: "conectado km_dos_segs sw"
    using km_ejemplos_inv(3) unfolding km_inv_def swap_inv_def fd_ejemplo by auto
  have d: "buscar_proceso_swap 1 (procesos_en_swap (km_swap km_dos_segs)) = None"
    "unat (memoria_total (km_mapa km_dos_segs)) = 16" "km_bs km_dos_segs = 4"
    "bloques_para km_dos_segs [0, 1] \<le> libres_en (km_usados km_dos_segs) [0..<km_bloques km_dos_segs]"
    "map (vista km_dos_segs) [0, 1] = [(0, 4, [0, 1, 2, 3]), (1, 4, [4, 5, 6, 7])]"
    by code_simp+
  show ?thesis
    using suspender_y_volver [OF km_ejemplos_valido(3) sw c(1) d(1) _ _ k1 k2] d(2-5) k1 k2 c(2) by auto
qed

text \<open>C34: a resumption that does not fit in the holes is undone: the tables, the memory and the
  swap are untouched and the same addresses are free, although maybe split in more holes.\<close>

theorem dessuspender_rechazado:
  assumes "km_valido k" "proceso_dessuspender pid k = (k', False)"
  shows "\<exists>hs. k' = poner_huecos hs k \<and> (\<forall>a. cuenta (libres hs) a = cuenta (libres (km_huecos k)) a)"
  by (rule dessuspender_falla [OF assms])

lemma dessuspender_rechazado_ejemplo:
  "\<exists>k' hs. proceso_dessuspender 1 km_sin_lugar = (k', False) \<and> k' = poner_huecos hs km_sin_lugar"
proof -
  have "snd (proceso_dessuspender 1 km_sin_lugar) = False" by code_simp
  then obtain k' where k': "proceso_dessuspender 1 km_sin_lugar = (k', False)" by (metis prod.collapse)
  from dessuspender_rechazado [OF km_sin_lugar_valido k'] k' show ?thesis by blast
qed

end
