(* ===== verification/PropiedadesDispositivos.thy ===== *)
theory PropiedadesDispositivos
  imports EstadosConcretos
begin

text \<open>
  The properties of the pieces Kernel Memory is built on: the search of holes, the memory
  stick, the memory spread over several sticks, the swap file, the loading of scripts, and the
  reads and writes that the Kernel Scheduler asks for.
\<close>

section \<open>Holes\<close>

text \<open>C37: the search of a hole, with either policy, finds one exactly when some hole is big
  enough; best fit returns a smallest one of those, worst fit a biggest one.\<close>

theorem buscar_hueco_optimo:
  "case buscar_hueco best req hs of
     None \<Rightarrow> \<forall>h \<in> set hs. h_tamanio h < req
   | Some i \<Rightarrow> i < length hs \<and> req \<le> h_tamanio (hs ! i) \<and>
       (\<forall>h \<in> set hs. req \<le> h_tamanio h \<longrightarrow>
          (if best then h_tamanio (hs ! i) \<le> h_tamanio h else h_tamanio h \<le> h_tamanio (hs ! i)))"
proof (cases best)
  case True
  then show ?thesis
    using bft.busqueda_None bft.busqueda_Some(1,2) best_fit_minimo
    by (auto simp: buscar_hueco_def buscar_hueco_best_fit_def split: option.split)
next
  case False
  then show ?thesis
    using wft.busqueda_None wft.busqueda_Some(1,2) worst_fit_maximo
    by (auto simp: buscar_hueco_def buscar_hueco_worst_fit_def split: option.split)
qed

lemma buscar_hueco_optimo_ejemplo:
  "\<exists>i. buscar_hueco False 3 [\<lparr>h_base = 0, h_tamanio = 4\<rparr>, \<lparr>h_base = 9, h_tamanio = 8\<rparr>] = Some i \<and>
     (8 :: u32) \<le> h_tamanio ([\<lparr>h_base = 0, h_tamanio = 4\<rparr>, \<lparr>h_base = 9, h_tamanio = 8\<rparr>] ! i)"
proof -
  have "buscar_hueco False 3 [\<lparr>h_base = 0, h_tamanio = 4\<rparr>, \<lparr>h_base = 9, h_tamanio = 8\<rparr>] = Some 1" by code_simp
  then show ?thesis
    using buscar_hueco_optimo [where best = False and req = 3 and
        hs = "[\<lparr>h_base = 0, h_tamanio = 4\<rparr>, \<lparr>h_base = 9, h_tamanio = 8\<rparr>]"]
    by simp
qed

section \<open>The memory stick\<close>

text \<open>What a stick is told to write inside its range it gives back when asked, through the
  byte protocol of its connections, and the rest of its memory keeps its bytes.\<close>

lemma stick_escribe_y_lee:
  assumes "stick_valido st" "unat offset + unat tam \<le> unat (st_tamanio st)" "length datos = unat tam"
  shows "\<exists>st'. atender_operaciones st (pedido_escribir offset tam datos) = Some (st', bytes_int (codigo OP_OK)) \<and>
    stick_valido st' \<and> st_tamanio st' = st_tamanio st \<and>
    atender_operaciones st' (pedido_leer offset tam) = Some (st', bytes_int (codigo OP_OK) @ datos) \<and>
    (\<forall>a < length (st_memoria st). a < unat offset \<or> unat offset + unat tam \<le> a \<longrightarrow>
       st_memoria st' ! a = st_memoria st ! a)"
proof -
  let ?st = "st\<lparr>st_memoria := empalmar (unat offset) datos (st_memoria st)\<rparr>"
  have l: "length (st_memoria st) = unat (st_tamanio st)" using assms(1) by (simp add: stick_valido_def)
  have v: "stick_valido ?st" by (rule servir_escritura_valido [OF assms(1)]) (simp add: assms(2,3))
  have "atender_operaciones ?st (pedido_leer offset tam) = Some (?st, bytes_int (codigo OP_OK) @ datos)"
    using servir_lectura [OF v, of offset tam] assms(2,3) l by simp
  moreover have "\<forall>a < length (st_memoria st). a < unat offset \<or> unat offset + unat tam \<le> a \<longrightarrow>
       st_memoria ?st ! a = st_memoria st ! a"
    using assms(2,3) l by (auto simp: nth_empalmar)
  ultimately show ?thesis using servir_escritura [OF assms] v by (intro exI [of _ ?st]) simp
qed

lemma stick_escribe_y_lee_ejemplo:
  "\<exists>st'. atender_operaciones stick_ej (pedido_escribir 14 2 [9, 8]) = Some (st', bytes_int (codigo OP_OK)) \<and>
     atender_operaciones st' (pedido_leer 14 2) = Some (st', bytes_int (codigo OP_OK) @ [9, 8])"
proof -
  have "unat (14 :: u32) + unat (2 :: u32) \<le> unat (st_tamanio stick_ej)" by (simp add: stick_ej_def)
  from stick_escribe_y_lee [OF stick_ej_valido this, of "[9, 8]"] show ?thesis by auto
qed

text \<open>C38: the range check of a write adds \<open>offset + tam\<close> in 32 bits.  When the true sum passes
  \<open>2 ^ 32\<close> and the wrapped one does not pass the size, the stick accepts the write and stores
  past the end of its buffer; with no wrap-around it never does.\<close>

theorem stick_escritura_desborda:
  assumes "stick_valido st"
  shows "(unat offset + unat tam \<ge> 2 ^ 32 \<and> offset + tam \<le> st_tamanio st \<longrightarrow>
      stick_operacion st (pedido_escribir offset tam datos) = Desborde) \<and>
    (unat offset + unat tam < 2 ^ 32 \<longrightarrow>
      stick_operacion st (pedido_escribir offset tam datos) \<noteq> Desborde)"
proof (intro conjI impI)
  assume "unat offset + unat tam \<ge> 2 ^ 32 \<and> offset + tam \<le> st_tamanio st"
  then show "stick_operacion st (pedido_escribir offset tam datos) = Desborde"
    using escritura_vuelta [OF assms] by blast
next
  assume "unat offset + unat tam < 2 ^ 32"
  from escritura_sin_vuelta [OF assms this, of datos]
  show "stick_operacion st (pedido_escribir offset tam datos) \<noteq> Desborde"
    by (simp add: stick_operacion_def pedido_escribir_def)
qed

lemma stick_escritura_desborda_ejemplo:
  "stick_operacion stick_ej (pedido_escribir 0xFFFFFFFF 5 [1, 2, 3, 4, 5]) = Desborde"
  using stick_escritura_desborda [OF stick_ej_valido, of "0xFFFFFFFF" 5 "[1, 2, 3, 4, 5]"]
  by (simp add: stick_ej_def)

section \<open>The memory over all the sticks\<close>

text \<open>C13: reads and writes by global address, split over the sticks that hold them, behave as
  on one array, the memories of the sticks one after the other.  An access that passes the end
  of the array is refused; a refused write that starts inside it has already stored the part
  that fits.\<close>

theorem memoria_fisica_es_un_arreglo:
  assumes "fisica_valida ss red" "unat dir \<le> capacidad ss" "unat tam \<le> length org" "tam \<noteq> 0"
  shows "memoria_fisica_leer ss red dir tam =
      (red, if unat dir + unat tam \<le> capacidad ss
            then Some (ventana (unat dir) (unat tam) (imagen ss red)) else None) \<and>
    (\<exists>red'. memoria_fisica_escribir ss red dir tam org = (red', unat dir + unat tam \<le> capacidad ss) \<and>
       fisica_valida ss red' \<and>
       imagen ss red' =
         empalmar (unat dir) (take (min (unat tam) (capacidad ss - unat dir)) org) (imagen ss red))"
proof (cases "unat dir + unat tam \<le> capacidad ss")
  case True
  moreover from True have "min (unat tam) (capacidad ss - unat dir) = unat tam" by simp
  ultimately show ?thesis
    using memoria_fisica_leer_ok [OF assms(1) True] memoria_fisica_escribir_ok [OF assms(1) True assms(3)] by simp
next
  case False
  then have f: "capacidad ss < unat dir + unat tam" by simp
  then have "min (unat tam) (capacidad ss - unat dir) = capacidad ss - unat dir" by simp
  with False f show ?thesis
    using memoria_fisica_leer_fuera [OF assms(1) f assms(4)]
      memoria_fisica_escribir_fuera [OF assms(1) f assms(2,3)] by simp
qed

definition dos_sticks :: sticks where
  "dos_sticks = [\<lparr>ms_fd = 3, ms_tamanio = 16, ms_base_global = 0, ms_ip = ''a'', ms_puerto = 1\<rparr>,
     \<lparr>ms_fd = 4, ms_tamanio = 16, ms_base_global = 16, ms_ip = ''b'', ms_puerto = 2\<rparr>]"

definition red_dos :: red where
  "red_dos = (\<lambda>_. None)(3 := Some stick_ej, 4 := Some stick_ej)"

lemma dos_sticks_valida: "fisica_valida dos_sticks red_dos"
  by (simp add: fisica_valida_def dos_sticks_def red_dos_def stick_conectado_def stick_ej_valido capacidad_def)
    (simp add: stick_ej_def)

lemma memoria_fisica_es_un_arreglo_ejemplo:
  "snd (memoria_fisica_leer dos_sticks red_dos 14 4) = Some [14, 15, 0, 1] \<and>
   snd (memoria_fisica_escribir dos_sticks red_dos 30 4 [7, 7, 7, 7]) = False"
proof -
  have c: "capacidad dos_sticks = 32" by (simp add: dos_sticks_def capacidad_def)
  have "ventana 14 4 (imagen dos_sticks red_dos) = [14, 15, 0, 1]" by code_simp
  then show ?thesis
    using memoria_fisica_es_un_arreglo [OF dos_sticks_valida, of 14 4 "[7, 7, 7, 7]"]
      memoria_fisica_es_un_arreglo [OF dos_sticks_valida, of 30 4 "[7, 7, 7, 7]"]
    by (auto simp: c)
qed

section \<open>The swap file\<close>

text \<open>A block written to the swap is read back byte by byte, over the protocol of the module,
  and no other block changes.\<close>

lemma swap_escribe_y_lee:
  assumes "swap_valido sw" "int b < swap_total sw" "length cont = nat (sw_block_size sw)"
  shows "\<exists>sw'. swap_bucle sw (pedido_bloque_escribir (int b) cont) = (sw', bytes_int (codigo OP_OK)) \<and>
    swap_valido sw' \<and>
    swap_bucle sw' (pedido_bloque_leer (int b)) = (sw', bytes_int (codigo OP_OK) @ cont) \<and>
    (\<forall>c. c \<noteq> b \<and> int c < swap_total sw \<longrightarrow> bloque sw' c = bloque sw c)"
proof -
  let ?sw = "sw\<lparr>sw_archivo := empalmar (b * nat (sw_block_size sw)) cont (sw_archivo sw)\<rparr>"
  note t = bloque_tras_escribir [OF assms(1,2) _ assms(3) refl]
  have v: "swap_valido ?sw" "swap_total ?sw = swap_total sw" "bloque ?sw b = cont"
    using t(1-3) [OF assms(2)] by simp_all
  have "swap_bucle ?sw (pedido_bloque_leer (int b)) = (?sw, bytes_int (codigo OP_OK) @ cont)"
    using servir_bloque_leer [OF v(1), of b] assms(2) v(2,3) by simp
  moreover have "\<forall>c. c \<noteq> b \<and> int c < swap_total sw \<longrightarrow> bloque ?sw c = bloque sw c"
    using t(2) by auto
  ultimately show ?thesis using servir_bloque_escribir [OF assms] v(1) by (intro exI [of _ ?sw]) simp
qed

lemma swap_escribe_y_lee_ejemplo:
  "\<exists>sw'. swap_bucle swap_ej (pedido_bloque_escribir 3 [1, 2, 3, 4]) = (sw', bytes_int (codigo OP_OK)) \<and>
     swap_bucle sw' (pedido_bloque_leer 3) = (sw', bytes_int (codigo OP_OK) @ [1, 2, 3, 4])"
  using swap_escribe_y_lee [OF swap_ej_valido, of 3 "[1, 2, 3, 4]"]
  by (auto simp: swap_ej_def swap_total_def)

section \<open>Scripts\<close>

text \<open>C39: loading a script gives back its lines, in order, when they are at most 254 characters
  long; a line of exactly 255 is followed by an empty instruction that is not in the script,
  because its line break is read by the next \<open>fgets\<close>.\<close>

theorem cargar_script:
  assumes "\<forall>l \<in> set ls. linea_normal l \<and> length l \<le> 254" "linea_normal m" "length m = 255"
  shows "cargar_instrucciones (texto_de ls) = ls \<and>
    cargar_instrucciones (m @ CHR 0x0A # texto_de ls) = m # [] # ls"
  using cargar_texto [OF assms(1)] cargar_linea_255 [OF assms(2,3)] by simp

lemma cargar_script_ejemplo:
  "cargar_instrucciones (texto_de [''SET AX 1'', ''EXIT'']) = [''SET AX 1'', ''EXIT''] \<and>
   cargar_instrucciones (replicate 255 CHR ''A'' @ CHR 0x0A # texto_de [''SET AX 1'', ''EXIT'']) =
     replicate 255 CHR ''A'' # [] # [''SET AX 1'', ''EXIT'']"
  by (rule cargar_script) (simp_all add: linea_normal_def)

section \<open>Input and output through Kernel Memory\<close>

text \<open>What the Kernel Scheduler writes for a process with \<open>OP_ESCRIBIR_DATOS\<close> it reads back
  with \<open>OP_LEER_DATOS\<close>, each request answered in its turn.\<close>

lemma datos_ida_y_vuelta:
  assumes "km_inv (sk_km h)" "unat dir + length datos \<le> unat (memoria_total (km_mapa (sk_km h)))"
    and "en_int pid" "length datos < 2 ^ 31"
  shows "\<exists>h'. atender_ks archivos bp ls AtendiendoKS h
        (bytes_int (codigo OP_ESCRIBIR_DATOS) @ bytes_int pid @ bytes_u32 dir @ bytes_int (int (length datos)) @ datos) =
      SigueKS h' AtendiendoKS (bytes_int (codigo OP_OK)) [] \<and>
    atender_ks archivos bp ls AtendiendoKS h'
        (bytes_int (codigo OP_LEER_DATOS) @ bytes_int pid @ bytes_u32 dir @ bytes_int (int (length datos))) =
      SigueKS h' AtendiendoKS (bytes_int (codigo OP_OK) @ datos) []"
proof -
  let ?k = "sk_km h" and ?n = "u32_de_int (int (length datos))"
  have f: "fisica_valida (km_sticks ?k) (km_red ?k)" and cap: "capacidad (km_sticks ?k) = unat (memoria_total (km_mapa ?k))"
    and m: "\<forall>n. km_malloc ?k n"
    using assms(1) by (simp_all add: km_inv_def km_valido_def)
  have n: "unat ?n = length datos" using assms(4) by (simp add: u32_de_int_def unat_of_nat)
  obtain red where w: "escribir_km dir ?n datos ?k = (con_red red ?k, True)" "fisica_valida (km_sticks ?k) red"
    "imagen (km_sticks ?k) red = empalmar (unat dir) datos (imagen (km_sticks ?k) (km_red ?k))"
    by (rule escribir_km_ok [OF f, of ?n datos dir]) (use assms(2) in \<open>auto simp: n cap\<close>)
  have "leer_km dir ?n (con_red red ?k) = (con_red red ?k, Some datos)"
    using km.leer_ok [OF w(2), of dir ?n] assms(2) f
    by (simp add: leer_km_def n cap w(3) con_red_def)
  moreover have i: "en_int (int (length datos))" using assms(4) by (simp add: en_int_def)
  ultimately show ?thesis
    using assms(3) w(1) m
    by (intro exI [of _ "con_km (con_red red ?k) h"])
      (simp add: atender_ks_def recibir_codigo_def ks_escribir_datos_def ks_leer_datos_def responder_def con_km_def
        con_red_def)
qed

lemma datos_ida_y_vuelta_ejemplo:
  "\<exists>h'. atender_ks archivos_ej None ordenar_insercion AtendiendoKS h_dos
        (bytes_int (codigo OP_ESCRIBIR_DATOS) @ bytes_int 1 @ bytes_u32 2 @ bytes_int 2 @ [8, 9]) =
      SigueKS h' AtendiendoKS (bytes_int (codigo OP_OK)) [] \<and>
    atender_ks archivos_ej None ordenar_insercion AtendiendoKS h'
        (bytes_int (codigo OP_LEER_DATOS) @ bytes_int 1 @ bytes_u32 2 @ bytes_int 2) =
      SigueKS h' AtendiendoKS (bytes_int (codigo OP_OK) @ [8, 9]) []"
proof -
  have i: "km_inv (sk_km h_dos)" using alcanzable_inv [OF h_dos_alcanzable list_sort_ok_insercion] by simp
  have "unat (memoria_total (km_mapa (sk_km h_dos))) = 16" by code_simp
  then show ?thesis
    using datos_ida_y_vuelta [OF i, of 2 "[8, 9]" 1 archivos_ej None ordenar_insercion]
    by (simp add: en_int_def)
qed

end
