(* ===== verification/Cpu.thy ===== *)
theory Cpu
  imports HandlersKM
begin

text \<open>
  The state of a CPU and its conversations with Kernel Memory: \<open>cpu/src/main.c\<close> (the
  serialisation functions), \<open>cpu/src/contexto.c\<close> (context switch) and \<open>cpu/src/mmu.c\<close>
  (address translation).

  Kernel Memory is the process modelled in \<open>HandlersKM\<close>: a request of the CPU is the bytes
  it writes, one step of \<open>atender_cpu\<close> serves it, and the answer is parsed as the C code
  does.  The Kernel Scheduler is open: \<open>ks_entrada\<close> are the bytes it will deliver,
  \<open>ks_salida\<close> those written to it, and \<open>entorno\<close> what the other modules do to Kernel
  Memory during each wait for an answer of the scheduler.
\<close>

section \<open>State\<close>

record t_stick_cpu =
  sc_socket :: int
  sc_ip :: string
  sc_puerto :: int
  sc_base_global :: u32
  sc_tamanio :: u32

record cpu =
  registros :: t_registros
  tabla_segmentos :: "t_segmento list"
  sticks_cpu :: "t_stick_cpu list option"       \<comment> \<open>\<open>None\<close> is the null list\<close>
  id_cpu_global :: int
  interrupcion_pendiente_pid :: int
  tam_max_segmento :: u32
  cpu_malloc :: "u32 \<Rightarrow> bool"
  km_remoto :: servidor_km
  km_conectado :: bool                           \<comment> \<open>whether the connection with it is alive\<close>
  ubicar :: "string \<Rightarrow> int \<Rightarrow> int option"        \<comment> \<open>the stick that listens at an address\<close>
  ks_entrada :: "byte list"
  ks_salida :: "byte list"
  ks_sondeos :: "bool list"                      \<comment> \<open>the answers of \<open>select\<close> on the scheduler's socket\<close>
  entorno :: "(servidor_km \<Rightarrow> servidor_km) list"

section \<open>Serialisation\<close>

definition pedir_km :: "byte list \<Rightarrow> cpu \<Rightarrow> cpu \<times> byte list" where
  "pedir_km pedido c =
     (if \<not> km_conectado c then (c, [])
      else case atender_cpu (km_remoto c) pedido of
             SigueCPU h' resp r \<Rightarrow> (c\<lparr>km_remoto := h'\<rparr>, resp)
           | _ \<Rightarrow> (c, []))"

definition enviar_ks :: "byte list \<Rightarrow> cpu \<Rightarrow> cpu" where
  "enviar_ks bs c = c\<lparr>ks_salida := ks_salida c @ bs\<rparr>"

text \<open>\<open>recibir_entero(socket_ks, \<dots>)\<close>: a code cut by the end of the connection is lost.\<close>

definition recibir_ks :: "cpu \<Rightarrow> cpu \<times> int option" where
  "recibir_ks c =
     (case recibir_int (ks_entrada c) of
        None \<Rightarrow> (c\<lparr>ks_entrada := []\<rparr>, None)
      | Some (v, r) \<Rightarrow> (c\<lparr>ks_entrada := r\<rparr>, Some v))"

section \<open>Context switch\<close>

text \<open>
  \<open>recibir_exactamente\<close> into the register file: what arrives overwrites its first bytes,
  even when the connection ends before the last.
\<close>

definition recibir_en_registros :: "byte list \<Rightarrow> t_registros \<Rightarrow> t_registros \<times> byte list option" where
  "recibir_en_registros ent r =
     (registros_de_bytes (take 32 ent @ drop (length ent) (bytes_registros r)),
      if 32 \<le> length ent then Some (drop 32 ent) else None)"

fun recibir_segmentos :: "nat \<Rightarrow> (u32 \<Rightarrow> bool) \<Rightarrow> byte list \<Rightarrow> t_segmento list \<Rightarrow> t_segmento list \<times> bool"
  where
  "recibir_segmentos 0 malloc ent tabla = (tabla, True)"
| "recibir_segmentos (Suc n) malloc ent tabla =
     (if \<not> malloc 12 then (tabla, False)
      else case recibir_int ent of None \<Rightarrow> (tabla, False) | Some (i, r1) \<Rightarrow>
       (case recibir_u32 r1 of None \<Rightarrow> (tabla, False) | Some (base, r2) \<Rightarrow>
        (case recibir_u32 r2 of None \<Rightarrow> (tabla, False) | Some (limite, r3) \<Rightarrow>
           recibir_segmentos n malloc r3
             (tabla @ [\<lparr>seg_id = i, seg_base = base, seg_limite = limite\<rparr>]))))"

definition obtener_contexto :: "u32 \<Rightarrow> cpu \<Rightarrow> cpu \<times> bool" where
  "obtener_contexto pid c =
     (case pedir_km (bytes_int (codigo OP_OBTENER_CONTEXTO) @ bytes_u32 pid) c of
        (c1, resp) \<Rightarrow>
          (case recibir_int resp of None \<Rightarrow> (c1, False) | Some (respuesta, r1) \<Rightarrow>
             if respuesta \<noteq> codigo OP_OK then (c1, False)
             else (case recibir_en_registros r1 (registros c1) of (regs, resto) \<Rightarrow>
               let c2 = c1\<lparr>registros := regs\<rparr> in
               (case resto of None \<Rightarrow> (c2, False) | Some r2 \<Rightarrow>
                (case recibir_int r2 of None \<Rightarrow> (c2, False) | Some (cantidad, r3) \<Rightarrow>
                  if cantidad < 0 then (c2, False)
                  else (case recibir_segmentos (nat cantidad) (cpu_malloc c2) r3 [] of
                          (tabla, ok) \<Rightarrow> (c2\<lparr>tabla_segmentos := tabla\<rparr>, ok)))))))"

definition guardar_contexto :: "u32 \<Rightarrow> cpu \<Rightarrow> cpu \<times> bool" where
  "guardar_contexto pid c =
     (case pedir_km (bytes_int (codigo OP_GUARDAR_CONTEXTO) @ bytes_u32 pid @ bytes_registros (registros c)) c of
        (c1, resp) \<Rightarrow>
          (case recibir_int resp of
             None \<Rightarrow> (c1, False) | Some (respuesta, _) \<Rightarrow> (c1, respuesta = codigo OP_OK)))"

section \<open>The memory management unit\<close>

fun buscar_segmento_por_id :: "int \<Rightarrow> t_segmento list \<Rightarrow> t_segmento option" where
  "buscar_segmento_por_id i [] = None"
| "buscar_segmento_por_id i (s # ss) = (if seg_id s = i then Some s else buscar_segmento_por_id i ss)"

definition traducir_direccion :: "u32 \<Rightarrow> t_segmento list \<Rightarrow> u32 \<Rightarrow> u32 \<Rightarrow> u32 option" where
  "traducir_direccion tam_max tabla direccion_logica tamanio_acceso =
     (if tam_max = 0 then None
      else
        let num_segmento = int_de_u32 (direccion_logica div tam_max);
            desplazamiento = direccion_logica mod tam_max
        in case buscar_segmento_por_id num_segmento tabla of
             None \<Rightarrow> None
           | Some segmento \<Rightarrow>
               if desplazamiento + tamanio_acceso > seg_limite segmento then None
               else Some (seg_base segmento + desplazamiento))"

section \<open>What a context switch transfers\<close>

lemma recibir_en_registros_todo [simp]:
  "recibir_en_registros (bytes_registros r @ resto) q = (r, Some resto)"
  by (simp add: recibir_en_registros_def)

lemma recibir_segmentos_todo:
  assumes "\<forall>s \<in> set segs. en_int (seg_id s)" "malloc 12"
  shows "recibir_segmentos (length segs) malloc (concat (map bytes_segmento segs)) tabla = (tabla @ segs, True)"
  using assms(1)
proof (induction segs arbitrary: tabla)
  case (Cons s segs)
  then show ?case using assms(2) by (simp add: bytes_segmento_def)
qed simp

lemma u32_int [simp]: "recibir_int (bytes_u32 w @ r) = Some (int_de_u32 w, r)"
  by (simp add: recibir_int_def)

lemma u32_int_solo [simp]: "recibir_int (bytes_u32 w) = Some (int_de_u32 w, [])"
  using u32_int [of w "[]"] by simp

lemma guardar_contexto_ok:
  assumes "km_conectado c" "km_remoto c = h"
  shows "guardar_contexto pid c =
    (c\<lparr>km_remoto := con_km ((sk_km h)\<lparr>km_contextos :=
        contexto_guardar (int_de_u32 pid) (registros c) (km_contextos (sk_km h))\<rparr>) h\<rparr>, True)"
  using assms
  by (simp add: guardar_contexto_def pedir_km_def atender_cpu_def recibir_codigo_def cpu_guardar_contexto_def)

lemma obtener_contexto_ok:
  assumes "km_conectado c" "km_remoto c = h" "contexto_buscar (int_de_u32 pid) (km_contextos (sk_km h)) = Some ctx"
    and "\<forall>r \<in> set (ctx_tabla ctx). en_int (seg_id (km_segs (sk_km h) r))"
    and "length (ctx_tabla ctx) < 2 ^ 31" "cpu_malloc c 12"
  shows "obtener_contexto pid c =
    (c\<lparr>registros := ctx_registros ctx, tabla_segmentos := map (km_segs (sk_km h)) (ctx_tabla ctx)\<rparr>, True)"
proof -
  let ?segs = "map (km_segs (sk_km h)) (ctx_tabla ctx)"
  have n: "en_int (int (length ?segs))" using assms(5) by (simp add: en_int_def)
  have p: "pedir_km (bytes_int (codigo OP_OBTENER_CONTEXTO) @ bytes_u32 pid) c =
      (c, bytes_int (codigo OP_OK) @ bytes_contexto (ctx_registros ctx) ?segs)"
    using assms(1-3)
    by (auto simp add: pedir_km_def atender_cpu_def recibir_codigo_def cpu_obtener_contexto_def)
  show ?thesis
    using recibir_segmentos_todo [of ?segs "cpu_malloc c" "[]"] assms(4,6) n
    by (simp add: obtener_contexto_def p bytes_contexto_def Let_def)
qed

section \<open>What a translation guarantees\<close>

lemma buscar_por_id: "buscar_segmento_por_id i ss = Some s \<Longrightarrow> s \<in> set ss \<and> seg_id s = i"
  by (induction ss) (auto split: if_splits)

lemma buscar_por_id_None: "buscar_segmento_por_id i ss = None \<longleftrightarrow> i \<notin> seg_id ` set ss"
  by (induction ss) auto

definition sin_desborde :: "u32 \<Rightarrow> u32 \<Rightarrow> u32 \<Rightarrow> bool" where
  "sin_desborde tam_max direccion tam \<longleftrightarrow> unat (direccion mod tam_max) + unat tam < 2 ^ 32"

lemma sin_desborde_chico:
  assumes "unat tam_max + unat tam \<le> 2 ^ 32" "tam_max \<noteq> 0"
  shows "sin_desborde tam_max direccion tam"
proof -
  have "unat (direccion mod tam_max) < unat tam_max"
    using assms(2) by (simp add: unat_mod unat_gt_0)
  with assms(1) show ?thesis by (simp add: sin_desborde_def)
qed

text \<open>A translated access lies inside one segment of the table.\<close>

lemma traducir_dentro:
  assumes "traducir_direccion tam_max tabla dl tam = Some df" "sin_desborde tam_max dl tam"
  obtains s where "s \<in> set tabla" "seg_id s = int_de_u32 (dl div tam_max)"
    "unat (dl mod tam_max) + unat tam \<le> unat (seg_limite s)" "df = seg_base s + dl mod tam_max"
proof -
  obtain s where s: "buscar_segmento_por_id (int_de_u32 (dl div tam_max)) tabla = Some s"
    "\<not> dl mod tam_max + tam > seg_limite s" "df = seg_base s + dl mod tam_max"
    using assms(1) by (auto simp: traducir_direccion_def Let_def split: if_splits option.splits)
  have "unat (dl mod tam_max + tam) = unat (dl mod tam_max) + unat tam"
    using assms(2) by (intro unat_suma_u32) (simp add: sin_desborde_def)
  then have "unat (dl mod tam_max) + unat tam \<le> unat (seg_limite s)"
    using s(2) by (simp add: not_less word_le_nat_alt)
  with buscar_por_id [OF s(1)] s(3) that show thesis by blast
qed

lemma traducir_fisica:
  assumes "traducir_direccion tam_max tabla dl tam = Some df" "sin_desborde tam_max dl tam"
    and "\<forall>s \<in> set tabla. unat (seg_base s) + unat (seg_limite s) < 2 ^ 32"
  obtains s where "s \<in> set tabla" "unat (seg_base s) \<le> unat df"
    "unat df + unat tam \<le> unat (seg_base s) + unat (seg_limite s)"
    "unat df = unat (seg_base s) + unat (dl mod tam_max)"
proof (rule traducir_dentro [OF assms(1,2)])
  fix s
  assume s: "s \<in> set tabla" "unat (dl mod tam_max) + unat tam \<le> unat (seg_limite s)"
    "df = seg_base s + dl mod tam_max"
  have "unat (seg_base s) + unat (dl mod tam_max) < 2 ^ 32"
    using assms(3) s(1,2) by (meson add_leE add_le_cancel_left le_less_trans)
  then have "unat df = unat (seg_base s) + unat (dl mod tam_max)"
    unfolding s(3) by (rule unat_suma_u32)
  with s that show thesis by simp
qed

text \<open>Without the hypothesis on the size the check lets an access through: it wraps.\<close>

lemma traducir_vuelta:
  assumes "tam_max \<noteq> 0" "buscar_segmento_por_id (int_de_u32 (dl div tam_max)) tabla = Some s"
    and "dl mod tam_max \<noteq> 0" "seg_limite s = dl mod tam_max"
  shows "traducir_direccion tam_max tabla dl (- (dl mod tam_max)) = Some (seg_base s + dl mod tam_max)"
  using assms by (simp add: traducir_direccion_def Let_def)

end
