(* ===== verification/CpuMemoria.thy ===== *)
theory CpuMemoria
  imports Cpu
begin

text \<open>
  \<open>cpu/src/memoria.c\<close>: the list of sticks a CPU keeps, its refresh from Kernel Memory, and
  the reads and writes of the CPU, which go to the sticks directly.  The main result is that
  with an up-to-date list the CPU reads and writes the same flat memory as Kernel Memory.
\<close>

section \<open>Operations\<close>

definition con_sticks :: "t_stick_cpu list option \<Rightarrow> cpu \<Rightarrow> cpu" where
  "con_sticks ss c = c\<lparr>sticks_cpu := ss\<rparr>"

definition con_red_cpu :: "red \<Rightarrow> cpu \<Rightarrow> cpu" where
  "con_red_cpu red c =
     c\<lparr>km_remoto := con_km ((sk_km (km_remoto c))\<lparr>km_red := red\<rparr>) (km_remoto c)\<rparr>"

abbreviation cpu_red :: "cpu \<Rightarrow> red" where
  "cpu_red c \<equiv> km_red (sk_km (km_remoto c))"

definition memoria_inicializar :: "int \<Rightarrow> cpu \<Rightarrow> cpu" where
  "memoria_inicializar id_cpu c =
     c\<lparr>id_cpu_global := id_cpu,
       sticks_cpu := (case sticks_cpu c of None \<Rightarrow> Some [] | Some ss \<Rightarrow> Some ss)\<rparr>"

definition conectar :: "string \<Rightarrow> int \<Rightarrow> cpu \<Rightarrow> int" where
  "conectar ip puerto c =
     (case ubicar c ip puerto of
        None \<Rightarrow> - 1
      | Some fd \<Rightarrow> if cpu_red c fd = None then - 1 else fd)"

definition hacer_handshake_stick :: "int \<Rightarrow> cpu \<Rightarrow> cpu \<times> bool" where
  "hacer_handshake_stick fd c =
     (case cpu_red c fd of
        None \<Rightarrow> (c, False)
      | Some st \<Rightarrow>
          (case stick_atender_cliente st (bytes_int (codigo HANDSHAKE_CPU) @ bytes_int (id_cpu_global c)) of
             None \<Rightarrow> (con_red_cpu ((cpu_red c)(fd := None)) c, False)
           | Some (st', resp) \<Rightarrow>
               (con_red_cpu ((cpu_red c)(fd := Some st')) c,
                case recibir_int resp of
                  None \<Rightarrow> False | Some (respuesta, _) \<Rightarrow> respuesta = codigo HANDSHAKE_OK)))"

text \<open>
  The loop over the announced sticks.  A stick that cannot be reached is left out, but its
  size counts for the base of the next ones.  \<open>None\<close> is the failure that discards the list.
\<close>

fun recibir_sticks ::
    "nat \<Rightarrow> byte list \<Rightarrow> u32 \<Rightarrow> t_stick_cpu list \<Rightarrow> cpu \<Rightarrow> cpu \<times> t_stick_cpu list option" where
  "recibir_sticks 0 ent base_actual nueva c = (c, Some nueva)"
| "recibir_sticks (Suc n) ent base_actual nueva c =
     (case recibir_int ent of None \<Rightarrow> (c, None) | Some (len_ip, r1) \<Rightarrow>
        if len_ip \<le> 0 \<or> len_ip > 255 then (c, None)
        else if \<not> cpu_malloc c (u32_de_int (len_ip + 1)) then (c, None)
        else (case recibir_exacto (nat len_ip) r1 of None \<Rightarrow> (c, None) | Some (ip, r2) \<Rightarrow>
         (case recibir_int r2 of None \<Rightarrow> (c, None) | Some (puerto, r3) \<Rightarrow>
          (case recibir_u32 r3 of None \<Rightarrow> (c, None) | Some (tamanio, r4) \<Rightarrow>
             if \<not> cpu_malloc c 40 then (c, None)
             else
               let fd = conectar (cadena ip) puerto c;
                   stick = \<lparr>sc_socket = fd, sc_ip = cadena ip, sc_puerto = puerto,
                            sc_base_global = base_actual, sc_tamanio = tamanio\<rparr>
               in if fd = - 1 then recibir_sticks n r4 (base_actual + tamanio) nueva c
                  else (case hacer_handshake_stick fd c of
                          (c1, ok) \<Rightarrow>
                            recibir_sticks n r4 (base_actual + tamanio)
                              (if ok then nueva @ [stick] else nueva) c1)))))"

definition actualizar_memory_sticks :: "cpu \<Rightarrow> cpu \<times> bool" where
  "actualizar_memory_sticks c =
     (case pedir_km (bytes_int (codigo OP_LISTA_STICKS)) c of
        (c1, resp) \<Rightarrow>
          (case recibir_int resp of None \<Rightarrow> (c1, False) | Some (cantidad, r) \<Rightarrow>
             if cantidad < 0 then (c1, False)
             else (case recibir_sticks (nat cantidad) r 0 [] c1 of
                     (c2, None) \<Rightarrow> (c2, False)
                   | (c2, Some nueva) \<Rightarrow> (con_sticks (Some nueva) c2, True))))"

fun buscar_en_sticks :: "t_stick_cpu list \<Rightarrow> u32 \<Rightarrow> (t_stick_cpu \<times> u32) option" where
  "buscar_en_sticks [] dir = None"
| "buscar_en_sticks (s # ss) dir =
     (if sc_base_global s \<le> dir \<and> dir < sc_base_global s + sc_tamanio s
      then Some (s, dir - sc_base_global s) else buscar_en_sticks ss dir)"

definition buscar_stick_por_direccion :: "u32 \<Rightarrow> cpu \<Rightarrow> (t_stick_cpu \<times> u32) option" where
  "buscar_stick_por_direccion dir c =
     (case sticks_cpu c of None \<Rightarrow> None | Some ss \<Rightarrow> buscar_en_sticks ss dir)"

definition buscar_o_refrescar_stick :: "u32 \<Rightarrow> cpu \<Rightarrow> cpu \<times> (t_stick_cpu \<times> u32) option" where
  "buscar_o_refrescar_stick dir c =
     (case buscar_stick_por_direccion dir c of
        Some x \<Rightarrow> (c, Some x)
      | None \<Rightarrow>
          (case actualizar_memory_sticks c of
             (c1, ok) \<Rightarrow> (c1, if ok then buscar_stick_por_direccion dir c1 else None)))"

definition intercambio_cpu :: "int \<Rightarrow> byte list \<Rightarrow> cpu \<Rightarrow> cpu \<times> byte list" where
  "intercambio_cpu fd pedido c =
     (case intercambio (cpu_red c) fd pedido of (red', resp) \<Rightarrow> (con_red_cpu red' c, resp))"

lemma buscar_en_sticks_progreso: "buscar_en_sticks ss dir \<noteq> Some (s, sc_tamanio s)"
  by (induction ss) (auto simp: diff_eq_eq add.commute)

lemma refrescar_progreso: "(c1, Some (s, sc_tamanio s)) \<noteq> buscar_o_refrescar_stick dir c"
  by (auto simp: buscar_o_refrescar_stick_def buscar_stick_por_direccion_def buscar_en_sticks_progreso
      buscar_en_sticks_progreso [symmetric] split: option.splits prod.splits if_splits)

function leer_memoria_bucle :: "u32 \<Rightarrow> u32 \<Rightarrow> u32 \<Rightarrow> byte list \<Rightarrow> cpu \<Rightarrow> cpu \<times> byte list option" where
  "leer_memoria_bucle dir tam leidos destino c =
     (if leidos < tam then
        (case buscar_o_refrescar_stick (dir + leidos) c of
           (c1, None) \<Rightarrow> (c1, None)
         | (c1, Some (stick, offset)) \<Rightarrow>
             let restante_operacion = tam - leidos;
                 restante_stick = sc_tamanio stick - offset;
                 a_leer = (if restante_operacion < restante_stick then restante_operacion else restante_stick);
                 (c2, resp) = intercambio_cpu (sc_socket stick) (pedido_leer offset a_leer) c1
             in (case recibir_int resp of
                   None \<Rightarrow> (c2, None)
                 | Some (respuesta, r) \<Rightarrow>
                     if respuesta \<noteq> codigo OP_OK then (c2, None)
                     else (case recibir_exacto (unat a_leer) r of
                             None \<Rightarrow> (c2, None)
                           | Some (bs, _) \<Rightarrow>
                               leer_memoria_bucle dir tam (leidos + a_leer) (destino @ bs) c2)))
      else (c, Some destino))"
  by pat_completeness auto
termination
  by (relation "measure (\<lambda>(dir, tam, leidos, destino, c). unat (tam - leidos))")
    (auto simp: not_less refrescar_progreso intro!: avance_u32 resta_pos_u32)

function escribir_memoria_bucle :: "u32 \<Rightarrow> u32 \<Rightarrow> u32 \<Rightarrow> byte list \<Rightarrow> cpu \<Rightarrow> cpu \<times> bool" where
  "escribir_memoria_bucle dir tam escritos origen c =
     (if escritos < tam then
        (case buscar_o_refrescar_stick (dir + escritos) c of
           (c1, None) \<Rightarrow> (c1, False)
         | (c1, Some (stick, offset)) \<Rightarrow>
             let restante_operacion = tam - escritos;
                 restante_stick = sc_tamanio stick - offset;
                 a_escribir = (if restante_operacion < restante_stick then restante_operacion else restante_stick);
                 (c2, resp) = intercambio_cpu (sc_socket stick)
                   (pedido_escribir offset a_escribir
                      (ventana (unat escritos) (unat a_escribir) origen)) c1
             in (case recibir_int resp of
                   None \<Rightarrow> (c2, False)
                 | Some (respuesta, r) \<Rightarrow>
                     if respuesta \<noteq> codigo OP_OK then (c2, False)
                     else escribir_memoria_bucle dir tam (escritos + a_escribir) origen c2))
      else (c, True))"
  by pat_completeness auto
termination
  by (relation "measure (\<lambda>(dir, tam, escritos, origen, c). unat (tam - escritos))")
    (auto simp: not_less refrescar_progreso intro!: avance_u32 resta_pos_u32)

declare leer_memoria_bucle.simps [simp del] escribir_memoria_bucle.simps [simp del]

text \<open>Before the first access the list is asked for.\<close>

definition asegurar_sticks :: "cpu \<Rightarrow> cpu \<times> bool" where
  "asegurar_sticks c =
     (if sticks_cpu c = None \<or> sticks_cpu c = Some [] then actualizar_memory_sticks c else (c, True))"

definition leer_memoria :: "u32 \<Rightarrow> u32 \<Rightarrow> cpu \<Rightarrow> cpu \<times> byte list option" where
  "leer_memoria dir tam c =
     (if tam = 0 then (c, Some [])
      else case asegurar_sticks c of
             (c1, False) \<Rightarrow> (c1, None)
           | (c1, True) \<Rightarrow> leer_memoria_bucle dir tam 0 [] c1)"

definition escribir_memoria :: "u32 \<Rightarrow> u32 \<Rightarrow> byte list \<Rightarrow> cpu \<Rightarrow> cpu \<times> bool" where
  "escribir_memoria dir tam origen c =
     (if tam = 0 then (c, True)
      else case asegurar_sticks c of
             (c1, False) \<Rightarrow> (c1, False)
           | (c1, True) \<Rightarrow> escribir_memoria_bucle dir tam 0 origen c1)"

section \<open>An up-to-date list of sticks\<close>

fun estampar :: "u32 \<Rightarrow> sticks \<Rightarrow> t_stick_cpu list" where
  "estampar base [] = []"
| "estampar base (s # ss) =
     \<lparr>sc_socket = ms_fd s, sc_ip = ms_ip s, sc_puerto = ms_puerto s, sc_base_global = base,
      sc_tamanio = ms_tamanio s\<rparr> # estampar (base + ms_tamanio s) ss"

definition sincronizada :: "cpu \<Rightarrow> bool" where
  "sincronizada c \<longleftrightarrow>
     sticks_cpu c = Some (estampar 0 (km_sticks (sk_km (km_remoto c)))) \<and>
     km_sticks (sk_km (km_remoto c)) \<noteq> [] \<and> capacidad (km_sticks (sk_km (km_remoto c))) < 2 ^ 32"

lemma con_red_cpu_simps [simp]:
  "km_sticks (sk_km (km_remoto (con_red_cpu red c))) = km_sticks (sk_km (km_remoto c))"
  "cpu_red (con_red_cpu red c) = red" "sticks_cpu (con_red_cpu red c) = sticks_cpu c"
  "registros (con_red_cpu red c) = registros c"
  "con_red_cpu red' (con_red_cpu red c) = con_red_cpu red' c"
  "con_red_cpu (cpu_red c) c = c"
  by (simp_all add: con_red_cpu_def con_km_def)

text \<open>On such a list the search of the CPU and the translation of Kernel Memory agree.\<close>

lemma buscar_estampada:
  assumes "unat base + capacidad ss < 2 ^ 32" "base \<le> dir"
  shows "buscar_en_sticks (estampar base ss) dir =
    map_option (\<lambda>(s, off). (\<lparr>sc_socket = ms_fd s, sc_ip = ms_ip s, sc_puerto = ms_puerto s,
      sc_base_global = dir - off, sc_tamanio = ms_tamanio s\<rparr>, off)) (localizar_desde base dir ss)"
  using assms
proof (induction ss arbitrary: base)
  case (Cons s ss)
  have suma: "unat (base + ms_tamanio s) = unat base + unat (ms_tamanio s)"
    using Cons.prems(1) by (intro unat_suma_u32) simp
  show ?case
  proof (cases "dir < base + ms_tamanio s")
    case False
    then have "unat (base + ms_tamanio s) + capacidad ss < 2 ^ 32" "base + ms_tamanio s \<le> dir"
      using Cons.prems(1) suma by simp_all
    from Cons.IH [OF this] False show ?thesis by simp
  qed (use Cons.prems(2) in simp)
qed simp

lemma sincronizada_buscar:
  assumes "sincronizada c" "memory_stick_localizar (km_sticks (sk_km (km_remoto c))) dir = Some (s, off)"
  shows "\<exists>base. buscar_o_refrescar_stick dir c =
    (c, Some (\<lparr>sc_socket = ms_fd s, sc_ip = ms_ip s, sc_puerto = ms_puerto s, sc_base_global = base,
       sc_tamanio = ms_tamanio s\<rparr>, off))"
proof -
  let ?ss = "km_sticks (sk_km (km_remoto c))"
  have "unat (0 :: u32) + capacidad ?ss < 2 ^ 32"
    using assms(1) by (simp add: sincronizada_def)
  from buscar_estampada [OF this, of dir] assms show ?thesis
    by (simp add: buscar_o_refrescar_stick_def buscar_stick_por_direccion_def sincronizada_def
        memory_stick_localizar_def)
qed

text \<open>So one turn of the loops of the CPU is one turn of the loops of Kernel Memory.\<close>

lemma sincronizada_con_red [simp]: "sincronizada (con_red_cpu red c) = sincronizada c"
  by (simp add: sincronizada_def)

abbreviation cpu_km_sticks :: "cpu \<Rightarrow> sticks" where
  "cpu_km_sticks c \<equiv> km_sticks (sk_km (km_remoto c))"

lemma paso_bucle_u32:
  fixes tam hechos :: u32
  assumes "hechos < tam" "memory_stick_localizar ss dir = Some (stick, offset)"
    and "a = (if tam - hechos < ms_tamanio stick - offset then tam - hechos else ms_tamanio stick - offset)"
  shows "unat (tam - (hechos + a)) < unat (tam - hechos)"
proof (rule avance_u32 [OF assms(1)])
  have "ms_tamanio stick - offset \<noteq> 0"
    using assms(2) localizar_progreso unfolding memory_stick_localizar_def by blast
  then show "a \<noteq> 0" using assms(1) by (auto simp: assms(3))
  show "a \<le> tam - hechos" by (auto simp: assms(3) not_less)
qed

lemma leer_bucle_igual:
  assumes "leer_bucle (cpu_km_sticks c) (cpu_red c) dir tam leidos dst = (red', Some bs)" "sincronizada c"
  shows "leer_memoria_bucle dir tam leidos dst c = (con_red_cpu red' c, Some bs)"
  using assms
proof (induction "unat (tam - leidos)" arbitrary: leidos dst c rule: less_induct)
  case less
  let ?ss = "cpu_km_sticks c" and ?red = "cpu_red c"
  show ?case
  proof (cases "leidos < tam")
    case False
    then show ?thesis
      using less.prems(1) by (subst leer_memoria_bucle.simps) (auto simp: leer_bucle.simps)
  next
    case True
    then obtain stick offset where loc: "memory_stick_localizar ?ss (dir + leidos) = Some (stick, offset)"
      using less.prems(1) by (subst (asm) leer_bucle.simps) (auto split: option.splits)
    define a where "a = (if tam - leidos < ms_tamanio stick - offset then tam - leidos
        else ms_tamanio stick - offset)"
    obtain red1 resp where e: "intercambio ?red (ms_fd stick) (pedido_leer offset a) = (red1, resp)"
      by (metis surj_pair)
    have "(case recibir_int resp of None \<Rightarrow> (red1, None)
        | Some (status, r) \<Rightarrow> if status \<noteq> codigo OP_OK then (red1, None)
            else (case recibir_exacto (unat a) r of None \<Rightarrow> (red1, None)
                  | Some (bs, _) \<Rightarrow> leer_bucle ?ss red1 dir tam (leidos + a) (dst @ bs))) = (red', Some bs)"
      using less.prems(1) True loc e by (subst (asm) leer_bucle.simps) (simp add: a_def [symmetric])
    then obtain r leido resto where p: "recibir_int resp = Some (codigo OP_OK, r)"
      "recibir_exacto (unat a) r = Some (leido, resto)"
      "leer_bucle ?ss red1 dir tam (leidos + a) (dst @ leido) = (red', Some bs)"
      by (auto split: option.splits if_splits prod.splits)
    have ih: "leer_memoria_bucle dir tam (leidos + a) (dst @ leido) (con_red_cpu red1 c) =
        (con_red_cpu red' c, Some bs)"
      using less.hyps [OF paso_bucle_u32 [OF True loc a_def], of "con_red_cpu red1 c"] p(3) less.prems(2)
      by simp
    obtain base where b: "buscar_o_refrescar_stick (dir + leidos) c =
        (c, Some (\<lparr>sc_socket = ms_fd stick, sc_ip = ms_ip stick, sc_puerto = ms_puerto stick,
           sc_base_global = base, sc_tamanio = ms_tamanio stick\<rparr>, offset))"
      using sincronizada_buscar [OF less.prems(2) loc] by blast
    have "intercambio_cpu (ms_fd stick) (pedido_leer offset a) c = (con_red_cpu red1 c, resp)"
      using e by (simp add: intercambio_cpu_def)
    then show ?thesis
      using True b p(1,2) ih
      by (subst leer_memoria_bucle.simps) (simp add: a_def [symmetric])
  qed
qed

lemma escribir_bucle_igual:
  assumes "escribir_bucle (cpu_km_sticks c) (cpu_red c) dir tam escritos org = (red', True)" "sincronizada c"
  shows "escribir_memoria_bucle dir tam escritos org c = (con_red_cpu red' c, True)"
  using assms
proof (induction "unat (tam - escritos)" arbitrary: escritos c rule: less_induct)
  case less
  let ?ss = "cpu_km_sticks c" and ?red = "cpu_red c"
  show ?case
  proof (cases "escritos < tam")
    case False
    then show ?thesis
      using less.prems(1) by (subst escribir_memoria_bucle.simps) (auto simp: escribir_bucle.simps)
  next
    case True
    then obtain stick offset where loc: "memory_stick_localizar ?ss (dir + escritos) = Some (stick, offset)"
      using less.prems(1) by (subst (asm) escribir_bucle.simps) (auto split: option.splits)
    define a where "a = (if tam - escritos < ms_tamanio stick - offset then tam - escritos
        else ms_tamanio stick - offset)"
    let ?pedido = "pedido_escribir offset a (ventana (unat escritos) (unat a) org)"
    obtain red1 resp where e: "intercambio ?red (ms_fd stick) ?pedido = (red1, resp)"
      by (metis surj_pair)
    have "(case recibir_int resp of None \<Rightarrow> (red1, False)
        | Some (status, r) \<Rightarrow> if status \<noteq> codigo OP_OK then (red1, False)
            else escribir_bucle ?ss red1 dir tam (escritos + a) org) = (red', True)"
      using less.prems(1) True loc e by (subst (asm) escribir_bucle.simps) (simp add: a_def [symmetric])
    then obtain r where p: "recibir_int resp = Some (codigo OP_OK, r)"
      "escribir_bucle ?ss red1 dir tam (escritos + a) org = (red', True)"
      by (auto split: option.splits if_splits prod.splits)
    have ih: "escribir_memoria_bucle dir tam (escritos + a) org (con_red_cpu red1 c) = (con_red_cpu red' c, True)"
      using less.hyps [OF paso_bucle_u32 [OF True loc a_def], of "con_red_cpu red1 c"] p(2) less.prems(2)
      by simp
    obtain base where b: "buscar_o_refrescar_stick (dir + escritos) c =
        (c, Some (\<lparr>sc_socket = ms_fd stick, sc_ip = ms_ip stick, sc_puerto = ms_puerto stick,
           sc_base_global = base, sc_tamanio = ms_tamanio stick\<rparr>, offset))"
      using sincronizada_buscar [OF less.prems(2) loc] by blast
    have "intercambio_cpu (ms_fd stick) ?pedido c = (con_red_cpu red1 c, resp)"
      using e by (simp add: intercambio_cpu_def)
    then show ?thesis
      using True b p(1) ih
      by (subst escribir_memoria_bucle.simps) (simp add: a_def [symmetric])
  qed
qed

lemma asegurar_sincronizada: "sincronizada c \<Longrightarrow> asegurar_sticks c = (c, True)"
  by (cases "cpu_km_sticks c") (auto simp: asegurar_sticks_def sincronizada_def)

section \<open>The CPU addresses the same memory\<close>

definition cpu_valida :: "cpu \<Rightarrow> bool" where
  "cpu_valida c \<longleftrightarrow> sincronizada c \<and> fisica_valida (cpu_km_sticks c) (cpu_red c)"

abbreviation cpu_imagen :: "cpu \<Rightarrow> byte list" where
  "cpu_imagen c \<equiv> imagen (cpu_km_sticks c) (cpu_red c)"

lemma leer_memoria_ok:
  assumes "cpu_valida c" "unat d + unat n \<le> length (cpu_imagen c)"
  shows "leer_memoria d n c = (c, Some (ventana (unat d) (unat n) (cpu_imagen c)))"
proof (cases "n = 0")
  case False
  have s: "sincronizada c" and f: "fisica_valida (cpu_km_sticks c) (cpu_red c)"
    using assms(1) by (simp_all add: cpu_valida_def)
  have "leer_bucle (cpu_km_sticks c) (cpu_red c) d n 0 [] =
      (cpu_red c, Some (ventana (unat d) (unat n) (cpu_imagen c)))"
    using memoria_fisica_leer_ok [OF f, of d n] assms(2) f by (simp add: memoria_fisica_leer_def)
  from leer_bucle_igual [OF this s] False asegurar_sincronizada [OF s] show ?thesis
    by (simp add: leer_memoria_def)
qed (simp add: leer_memoria_def)

lemma escribir_memoria_ok:
  assumes "cpu_valida c" "unat d + unat n \<le> length (cpu_imagen c)" "unat n \<le> length datos"
  shows "\<exists>red. escribir_memoria d n datos c = (con_red_cpu red c, True) \<and> cpu_valida (con_red_cpu red c) \<and>
    imagen (cpu_km_sticks c) red = empalmar (unat d) (take (unat n) datos) (cpu_imagen c)"
proof (cases "n = 0")
  case True
  then show ?thesis
    using assms(1) by (intro exI [of _ "cpu_red c"]) (simp add: escribir_memoria_def empalmar_def)
next
  case False
  have s: "sincronizada c" and f: "fisica_valida (cpu_km_sticks c) (cpu_red c)"
    using assms(1) by (simp_all add: cpu_valida_def)
  obtain red where r: "memoria_fisica_escribir (cpu_km_sticks c) (cpu_red c) d n datos = (red, True)"
    "fisica_valida (cpu_km_sticks c) red"
    "imagen (cpu_km_sticks c) red = empalmar (unat d) (take (unat n) datos) (cpu_imagen c)"
    using memoria_fisica_escribir_ok [OF f, of d n datos] assms(2,3) f by auto
  from r(1) have "escribir_bucle (cpu_km_sticks c) (cpu_red c) d n 0 datos = (red, True)"
    by (simp add: memoria_fisica_escribir_def)
  from escribir_bucle_igual [OF this s] False asegurar_sincronizada [OF s] s r(2,3) show ?thesis
    by (intro exI [of _ red]) (simp add: escribir_memoria_def cpu_valida_def)
qed

interpretation cm: memoria_direccionable
  "\<lambda>c d n. leer_memoria d n c" "\<lambda>c d n datos. escribir_memoria d n datos c" cpu_imagen cpu_valida
proof unfold_locales
  fix c :: cpu and d n :: u32 and datos :: "byte list"
  assume "cpu_valida c" "unat d + unat n \<le> length (cpu_imagen c)"
  then show "leer_memoria d n c = (c, Some (ventana (unat d) (unat n) (cpu_imagen c)))"
    by (rule leer_memoria_ok)
  assume "unat n \<le> length datos"
  with \<open>cpu_valida c\<close> \<open>unat d + unat n \<le> _\<close>
  show "\<exists>c'. escribir_memoria d n datos c = (c', True) \<and> cpu_valida c' \<and>
      cpu_imagen c' = empalmar (unat d) (take (unat n) datos) (cpu_imagen c)"
    using escribir_memoria_ok [of c d n datos] by auto
qed

section \<open>The refresh of the list\<close>

text \<open>What a CPU needs of a stick that Kernel Memory announces.\<close>

definition anunciado :: "cpu \<Rightarrow> t_memory_stick \<Rightarrow> bool" where
  "anunciado c s \<longleftrightarrow>
     stick_conectado (cpu_red c) s \<and> ms_fd s \<noteq> - 1 \<and> ubicar c (ms_ip s) (ms_puerto s) = Some (ms_fd s) \<and>
     ms_ip s \<noteq> [] \<and> length (ms_ip s) \<le> 255 \<and> CHR 0x00 \<notin> set (ms_ip s) \<and> en_int (ms_puerto s)"

lemma hacer_handshake_ok:
  assumes "anunciado c s" "en_int (id_cpu_global c)"
  shows "hacer_handshake_stick (ms_fd s) c = (c, True)"
proof -
  obtain st where st: "cpu_red c (ms_fd s) = Some st"
    using assms(1) by (auto simp: anunciado_def stick_conectado_def split: option.splits)
  then have "con_red_cpu ((cpu_red c)(ms_fd s := Some st)) c = c"
    by (simp add: fun_upd_idem)
  with st assms(2) show ?thesis
    by (simp add: hacer_handshake_stick_def stick_atender_cliente_def)
qed

lemma recibir_sticks_ok:
  assumes "\<forall>s \<in> set ss. anunciado c s" "\<forall>n. cpu_malloc c n" "en_int (id_cpu_global c)"
  shows "recibir_sticks (length ss) (concat (map bytes_stick ss)) base nueva c =
    (c, Some (nueva @ estampar base ss))"
  using assms(1)
proof (induction ss arbitrary: base nueva)
  case (Cons s ss)
  have a: "anunciado c s" using Cons.prems by simp
  have len: "en_int (int (length (ms_ip s)))" using a by (simp add: anunciado_def en_int_def)
  obtain st where st: "cpu_red c (ms_fd s) = Some st"
    using a by (auto simp: anunciado_def stick_conectado_def split: option.splits)
  have con: "conectar (cadena (bytes_texto (ms_ip s))) (ms_puerto s) c = ms_fd s"
    using a st by (simp add: anunciado_def conectar_def cadena_bytes)
  have ent: "concat (map bytes_stick (s # ss)) =
      bytes_int (int (length (ms_ip s))) @ bytes_texto (ms_ip s) @ bytes_int (ms_puerto s) @
      bytes_u32 (ms_tamanio s) @ concat (map bytes_stick ss)"
    by (simp add: bytes_stick_def)
  have rec: "recibir_exacto (length (ms_ip s)) (bytes_texto (ms_ip s) @ r) = Some (bytes_texto (ms_ip s), r)" for r
    by (simp add: recibir_exacto_def)
  have "recibir_sticks (length (s # ss)) (concat (map bytes_stick (s # ss))) base nueva c =
      recibir_sticks (length ss) (concat (map bytes_stick ss)) (base + ms_tamanio s)
        (nueva @ [\<lparr>sc_socket = ms_fd s, sc_ip = ms_ip s, sc_puerto = ms_puerto s, sc_base_global = base,
                   sc_tamanio = ms_tamanio s\<rparr>]) c"
    using a len con rec hacer_handshake_ok [OF a assms(3)] assms(2)
    unfolding ent by (auto simp: anunciado_def cadena_bytes Let_def)
  then show ?case using Cons.IH [of "base + ms_tamanio s"] Cons.prems by simp
qed simp

lemma actualizar_ok:
  assumes "km_conectado c" "\<forall>s \<in> set (cpu_km_sticks c). anunciado c s" "\<forall>n. cpu_malloc c n"
    and "en_int (id_cpu_global c)" "length (cpu_km_sticks c) < 2 ^ 31"
  shows "actualizar_memory_sticks c = (con_sticks (Some (estampar 0 (cpu_km_sticks c))) c, True)"
proof -
  let ?ss = "cpu_km_sticks c"
  have "pedir_km (bytes_int (codigo OP_LISTA_STICKS)) c =
      (c, bytes_int (int (length ?ss)) @ concat (map bytes_stick ?ss))"
    using assms(1) by (simp add: pedir_km_def atender_cpu_def recibir_codigo_def cpu_lista_sticks_def)
  moreover have "en_int (int (length ?ss))" using assms(5) by (simp add: en_int_def)
  ultimately show ?thesis
    using recibir_sticks_ok [OF assms(2,3,4), of 0 "[]"] by (simp add: actualizar_memory_sticks_def)
qed

lemma actualizar_sincroniza:
  assumes "km_conectado c" "\<forall>s \<in> set (cpu_km_sticks c). anunciado c s" "\<forall>n. cpu_malloc c n"
    and "en_int (id_cpu_global c)" "length (cpu_km_sticks c) < 2 ^ 31"
    and "cpu_km_sticks c \<noteq> []" "fisica_valida (cpu_km_sticks c) (cpu_red c)"
  shows "cpu_valida (fst (actualizar_memory_sticks c)) \<and> snd (actualizar_memory_sticks c)"
  using actualizar_ok [OF assms(1-5)] assms(6,7)
  by (simp add: cpu_valida_def sincronizada_def con_sticks_def fisica_valida_def)

end
