(* ===== verification/Ciclo.thy ===== *)
theory Ciclo
  imports CpuMemoria
begin

text \<open>
  \<open>cpu/src/ciclo_instruccion.c\<close> and the service loop of \<open>cpu/src/main.c\<close>: fetch, decode,
  execute and check for interrupts, the system calls, and the notice to the scheduler when
  a process leaves the CPU.
\<close>

section \<open>Outcomes, tokens and numbers\<close>

datatype t_motivo_desalojo =
    CPU_MOTIVO_CONTINUAR | CPU_MOTIVO_EXIT | CPU_MOTIVO_SYSCALL_BLOQUEANTE | CPU_MOTIVO_FIN_QUANTUM
  | CPU_MOTIVO_SEG_FAULT | CPU_MOTIVO_ERROR

text \<open>\<open>strtok\<close> with the delimiters \<open>" \t\n"\<close>: the next token and what follows it.\<close>

definition delimitador :: "char \<Rightarrow> bool" where
  "delimitador c \<longleftrightarrow> c = CHR 0x20 \<or> c = CHR 0x09 \<or> c = CHR 0x0A"

definition strtok :: "string \<Rightarrow> string option \<times> string" where
  "strtok s =
     (let s1 = dropWhile delimitador s
      in if s1 = [] then (None, [])
         else (Some (takeWhile (\<lambda>c. \<not> delimitador c) s1),
               drop 1 (dropWhile (\<lambda>c. \<not> delimitador c) s1)))"

definition decode :: "string \<Rightarrow> string option \<times> string option \<times> string option" where
  "decode instruccion =
     (case strtok instruccion of (operacion, s1) \<Rightarrow>
      (case strtok s1 of (param1, s2) \<Rightarrow>
       (case strtok s2 of (param2, s3) \<Rightarrow> (operacion, param1, param2))))"

text \<open>
  \<open>atoi\<close> as the GNU library computes it: the \<open>long\<close> that \<open>strtol\<close> returns, saturated at 64
  bits, converted to \<open>int\<close>.
\<close>

definition es_espacio :: "char \<Rightarrow> bool" where
  "es_espacio c \<longleftrightarrow> c = CHR 0x20 \<or> (0x09 \<le> (of_char c :: nat) \<and> (of_char c :: nat) \<le> 0x0D)"

definition es_digito :: "char \<Rightarrow> bool" where
  "es_digito c \<longleftrightarrow> 0x30 \<le> (of_char c :: nat) \<and> (of_char c :: nat) \<le> 0x39"

fun valor_digitos :: "int \<Rightarrow> string \<Rightarrow> int" where
  "valor_digitos acum [] = acum"
| "valor_digitos acum (c # s) =
     (if es_digito c then valor_digitos (acum * 10 + (of_char c - 48)) s else acum)"

definition atoi :: "string \<Rightarrow> int" where
  "atoi s =
     (let s1 = dropWhile es_espacio s;
          negativo = (s1 \<noteq> [] \<and> hd s1 = CHR ''-'');
          s2 = (if s1 \<noteq> [] \<and> (hd s1 = CHR ''-'' \<or> hd s1 = CHR ''+'') then tl s1 else s1);
          v = (if negativo then - valor_digitos 0 s2 else valor_digitos 0 s2)
      in int_de_u32 (u32_de_int (max (- (2 ^ 63)) (min (2 ^ 63 - 1) v))))"

section \<open>Fetch\<close>

definition recibir_instruccion_desde_memoria :: "cpu \<Rightarrow> byte list \<Rightarrow> string option" where
  "recibir_instruccion_desde_memoria c resp =
     (case recibir_int resp of None \<Rightarrow> None | Some (respuesta, r1) \<Rightarrow>
        if respuesta \<noteq> codigo OP_OK then None
        else (case recibir_int r1 of None \<Rightarrow> None | Some (tamanio, r2) \<Rightarrow>
          if tamanio \<le> 0 \<or> tamanio > 10000 then None
          else if \<not> cpu_malloc c (u32_de_int (tamanio + 1)) then None
          else map_option (\<lambda>(bs, r3). cadena bs) (recibir_exacto (nat tamanio) r2)))"

definition fetch :: "u32 \<Rightarrow> cpu \<Rightarrow> cpu \<times> string option" where
  "fetch pid c =
     (case pedir_km (bytes_int (codigo OP_FETCH) @ bytes_u32 pid @ bytes_u32 (PC (registros c))) c of
        (c1, resp) \<Rightarrow> (c1, recibir_instruccion_desde_memoria c1 resp))"

section \<open>The conversation with the scheduler\<close>

definition enviar_syscall_a_scheduler :: "u32 \<Rightarrow> op_code \<Rightarrow> cpu \<Rightarrow> cpu" where
  "enviar_syscall_a_scheduler pid tipo_syscall c =
     enviar_ks (bytes_int (codigo OP_PROCESO_SYSCALL) @ bytes_u32 pid @ bytes_int (codigo tipo_syscall)) c"

text \<open>
  The loop that waits for the answer: an interrupt that arrives first is remembered.  The
  result is the pending interrupt, the input left and the answer.
\<close>

function esperar_respuesta :: "int \<Rightarrow> byte list \<Rightarrow> int \<times> byte list \<times> int option" where
  "esperar_respuesta pendiente ent =
     (case recibir_int ent of
        None \<Rightarrow> (pendiente, [], None)
      | Some (cod, r) \<Rightarrow>
          if cod = codigo OP_INTERRUMPIR_PROCESO then
            (case recibir_int r of
               None \<Rightarrow> (pendiente, [], None)
             | Some (pid_interrumpido, r') \<Rightarrow> esperar_respuesta pid_interrumpido r')
          else (pendiente, r, Some cod))"
  by pat_completeness auto
termination
  by (relation "measure (\<lambda>(p, ent). length ent)") (auto dest!: recibir_int_length)

declare esperar_respuesta.simps [simp del]

text \<open>While the CPU waits, the other modules may change Kernel Memory.\<close>

definition pasa_el_tiempo :: "cpu \<Rightarrow> cpu" where
  "pasa_el_tiempo c =
     (case entorno c of
        [] \<Rightarrow> c | f # fs \<Rightarrow> c\<lparr>km_remoto := f (km_remoto c), entorno := fs\<rparr>)"

definition recibir_respuesta_scheduler :: "cpu \<Rightarrow> cpu \<times> int option" where
  "recibir_respuesta_scheduler c =
     (case esperar_respuesta (interrupcion_pendiente_pid c) (ks_entrada c) of
        (pendiente, r, respuesta) \<Rightarrow>
          (pasa_el_tiempo (c\<lparr>interrupcion_pendiente_pid := pendiente, ks_entrada := r\<rparr>), respuesta))"

section \<open>Memory instructions\<close>

definition incrementar_PC :: "cpu \<Rightarrow> cpu" where
  "incrementar_PC c = c\<lparr>registros := (registros c)\<lparr>PC := PC (registros c) + 1\<rparr>\<rparr>"

definition traducir :: "u32 \<Rightarrow> u32 \<Rightarrow> cpu \<Rightarrow> u32 option" where
  "traducir direccion_logica tamanio c =
     traducir_direccion (tam_max_segmento c) (tabla_segmentos c) direccion_logica tamanio"

definition ejecutar_mov_in :: "string option \<Rightarrow> cpu \<Rightarrow> cpu \<times> t_motivo_desalojo" where
  "ejecutar_mov_in registro_destino c =
     (case registro_destino of None \<Rightarrow> (c, CPU_MOTIVO_ERROR) | Some reg \<Rightarrow>
        let tamanio = tamanio_registro (Some reg)
        in if tamanio = 0 then (c, CPU_MOTIVO_ERROR)
           else (case traducir (SI (registros c)) tamanio c of
                   None \<Rightarrow> (c, CPU_MOTIVO_SEG_FAULT)
                 | Some direccion_fisica \<Rightarrow>
                     (case leer_memoria direccion_fisica tamanio c of
                        (c1, None) \<Rightarrow> (c1, CPU_MOTIVO_ERROR)
                      | (c1, Some bs) \<Rightarrow>
                          let valor = u32_de_bytes (bs @ replicate (4 - length bs) 0)
                          in (incrementar_PC (c1\<lparr>registros := setear_valor_registro reg valor (registros c1)\<rparr>),
                              CPU_MOTIVO_CONTINUAR))))"

definition ejecutar_mov_out :: "string option \<Rightarrow> cpu \<Rightarrow> cpu \<times> t_motivo_desalojo" where
  "ejecutar_mov_out registro_origen c =
     (case registro_origen of None \<Rightarrow> (c, CPU_MOTIVO_ERROR) | Some reg \<Rightarrow>
        let tamanio = tamanio_registro (Some reg)
        in if tamanio = 0 then (c, CPU_MOTIVO_ERROR)
           else (case traducir (DI (registros c)) tamanio c of
                   None \<Rightarrow> (c, CPU_MOTIVO_SEG_FAULT)
                 | Some direccion_fisica \<Rightarrow>
                     let valor = obtener_valor_registro reg (registros c)
                     in (case escribir_memoria direccion_fisica tamanio (bytes_u32 valor) c of
                           (c1, False) \<Rightarrow> (c1, CPU_MOTIVO_ERROR)
                         | (c1, True) \<Rightarrow> (incrementar_PC c1, CPU_MOTIVO_CONTINUAR))))"

definition ejecutar_copy_mem :: "string option \<Rightarrow> cpu \<Rightarrow> cpu \<times> t_motivo_desalojo" where
  "ejecutar_copy_mem registro_tamanio c =
     (case registro_tamanio of None \<Rightarrow> (c, CPU_MOTIVO_ERROR) | Some reg \<Rightarrow>
        if tamanio_registro (Some reg) = 0 then (c, CPU_MOTIVO_ERROR)
        else
          let tamanio = obtener_valor_registro reg (registros c)
          in if tamanio = 0 then (incrementar_PC c, CPU_MOTIVO_CONTINUAR)
             else (case traducir (SI (registros c)) tamanio c of
                     None \<Rightarrow> (c, CPU_MOTIVO_SEG_FAULT)
                   | Some direccion_fisica_origen \<Rightarrow>
                       (case traducir (DI (registros c)) tamanio c of
                          None \<Rightarrow> (c, CPU_MOTIVO_SEG_FAULT)
                        | Some direccion_fisica_destino \<Rightarrow>
                            if \<not> cpu_malloc c tamanio then (c, CPU_MOTIVO_ERROR)
                            else (case leer_memoria direccion_fisica_origen tamanio c of
                                    (c1, None) \<Rightarrow> (c1, CPU_MOTIVO_ERROR)
                                  | (c1, Some buffer) \<Rightarrow>
                                      (case escribir_memoria direccion_fisica_destino tamanio buffer c1 of
                                         (c2, False) \<Rightarrow> (c2, CPU_MOTIVO_ERROR)
                                       | (c2, True) \<Rightarrow> (incrementar_PC c2, CPU_MOTIVO_CONTINUAR))))))"

section \<open>System calls\<close>

definition ejecutar_syscall_sleep :: "u32 \<Rightarrow> string option \<Rightarrow> cpu \<Rightarrow> cpu \<times> t_motivo_desalojo" where
  "ejecutar_syscall_sleep pid tiempo_str c =
     (case tiempo_str of None \<Rightarrow> (c, CPU_MOTIVO_ERROR) | Some t \<Rightarrow>
        (case guardar_contexto pid (incrementar_PC c) of
           (c1, False) \<Rightarrow> (c1, CPU_MOTIVO_ERROR)
         | (c1, True) \<Rightarrow>
             (enviar_ks (bytes_int (atoi t)) (enviar_syscall_a_scheduler pid OP_IO_SLEEP c1),
              CPU_MOTIVO_SYSCALL_BLOQUEANTE)))"

text \<open>
  The system calls whose only good answer is \<open>OP_OK\<close>: they differ in the code, the parameters
  they send after it and what follows.
\<close>

definition syscall_con_respuesta :: "u32 \<Rightarrow> op_code \<Rightarrow> byte list \<Rightarrow> cpu \<Rightarrow> cpu \<times> t_motivo_desalojo" where
  "syscall_con_respuesta pid tipo parametros c =
     (case guardar_contexto pid (incrementar_PC c) of
        (c1, False) \<Rightarrow> (c1, CPU_MOTIVO_ERROR)
      | (c1, True) \<Rightarrow>
          (case recibir_respuesta_scheduler (enviar_ks parametros (enviar_syscall_a_scheduler pid tipo c1)) of
             (c2, None) \<Rightarrow> (c2, CPU_MOTIVO_ERROR)
           | (c2, Some respuesta) \<Rightarrow>
               (c2, if respuesta = codigo OP_OK then CPU_MOTIVO_CONTINUAR
                    else if respuesta = codigo OP_BLOQUEADO \<and> tipo \<in> {OP_MUTEX_LOCK, OP_MEM_ALLOC}
                    then CPU_MOTIVO_SYSCALL_BLOQUEANTE
                    else CPU_MOTIVO_ERROR)))"

definition ejecutar_syscall_init_proc ::
    "u32 \<Rightarrow> string option \<Rightarrow> string option \<Rightarrow> cpu \<Rightarrow> cpu \<times> t_motivo_desalojo" where
  "ejecutar_syscall_init_proc pid path prioridad_str c =
     (case (path, prioridad_str) of
        (Some p, Some prio) \<Rightarrow>
          syscall_con_respuesta pid OP_INIT_PROC (bytes_cadena p @ bytes_int (atoi prio)) c
      | _ \<Rightarrow> (c, CPU_MOTIVO_ERROR))"

definition ejecutar_syscall_mutex_create :: "u32 \<Rightarrow> string option \<Rightarrow> cpu \<Rightarrow> cpu \<times> t_motivo_desalojo" where
  "ejecutar_syscall_mutex_create pid nombre_mutex c =
     (case nombre_mutex of None \<Rightarrow> (c, CPU_MOTIVO_ERROR)
      | Some n \<Rightarrow> syscall_con_respuesta pid OP_MUTEX_CREATE (bytes_cadena n) c)"

definition ejecutar_syscall_mutex_lock :: "u32 \<Rightarrow> string option \<Rightarrow> cpu \<Rightarrow> cpu \<times> t_motivo_desalojo" where
  "ejecutar_syscall_mutex_lock pid nombre_mutex c =
     (case nombre_mutex of None \<Rightarrow> (c, CPU_MOTIVO_ERROR)
      | Some n \<Rightarrow> syscall_con_respuesta pid OP_MUTEX_LOCK (bytes_cadena n) c)"

definition ejecutar_syscall_mutex_unlock :: "u32 \<Rightarrow> string option \<Rightarrow> cpu \<Rightarrow> cpu \<times> t_motivo_desalojo" where
  "ejecutar_syscall_mutex_unlock pid nombre_mutex c =
     (case nombre_mutex of None \<Rightarrow> (c, CPU_MOTIVO_ERROR)
      | Some n \<Rightarrow> syscall_con_respuesta pid OP_MUTEX_UNLOCK (bytes_cadena n) c)"

text \<open>After a change of the segments the local table is refreshed.\<close>

definition refrescar_tabla :: "u32 \<Rightarrow> cpu \<times> t_motivo_desalojo \<Rightarrow> cpu \<times> t_motivo_desalojo" where
  "refrescar_tabla pid r =
     (case r of (c, motivo) \<Rightarrow>
        if motivo \<noteq> CPU_MOTIVO_CONTINUAR then (c, motivo)
        else (case obtener_contexto pid c of
                (c1, ok) \<Rightarrow> (c1, if ok then CPU_MOTIVO_CONTINUAR else CPU_MOTIVO_ERROR)))"

definition ejecutar_syscall_mem_alloc ::
    "u32 \<Rightarrow> string option \<Rightarrow> string option \<Rightarrow> cpu \<Rightarrow> cpu \<times> t_motivo_desalojo" where
  "ejecutar_syscall_mem_alloc pid id_segmento_str tamanio_str c =
     (case (id_segmento_str, tamanio_str) of
        (Some i, Some t) \<Rightarrow>
          refrescar_tabla pid
            (syscall_con_respuesta pid OP_MEM_ALLOC (bytes_int (atoi i) @ bytes_int (atoi t)) c)
      | _ \<Rightarrow> (c, CPU_MOTIVO_ERROR))"

definition ejecutar_syscall_mem_free :: "u32 \<Rightarrow> string option \<Rightarrow> cpu \<Rightarrow> cpu \<times> t_motivo_desalojo" where
  "ejecutar_syscall_mem_free pid id_segmento_str c =
     (case id_segmento_str of None \<Rightarrow> (c, CPU_MOTIVO_ERROR)
      | Some i \<Rightarrow>
          refrescar_tabla pid (syscall_con_respuesta pid OP_MEM_FREE (bytes_int (atoi i)) c))"

text \<open>
  \<open>STDIN\<close> and \<open>STDOUT\<close> send the size and the physical address in opposite orders.
\<close>

definition syscall_io ::
    "u32 \<Rightarrow> op_code \<Rightarrow> (u32 \<Rightarrow> u32 \<Rightarrow> byte list) \<Rightarrow> string option \<Rightarrow> string option \<Rightarrow> cpu \<Rightarrow>
     cpu \<times> t_motivo_desalojo" where
  "syscall_io pid tipo parametros registro_direccion registro_tamanio c =
     (case (registro_direccion, registro_tamanio) of
        (Some rd, Some rt) \<Rightarrow>
          if tamanio_registro (Some rd) = 0 \<or> tamanio_registro (Some rt) = 0 then (c, CPU_MOTIVO_ERROR)
          else
            let direccion_logica = obtener_valor_registro rd (registros c);
                tamanio = obtener_valor_registro rt (registros c)
            in if tamanio = 0 then (incrementar_PC c, CPU_MOTIVO_CONTINUAR)
               else (case traducir direccion_logica tamanio c of
                       None \<Rightarrow> (c, CPU_MOTIVO_SEG_FAULT)
                     | Some direccion_fisica \<Rightarrow>
                         (case guardar_contexto pid (incrementar_PC c) of
                            (c1, False) \<Rightarrow> (c1, CPU_MOTIVO_ERROR)
                          | (c1, True) \<Rightarrow>
                              (enviar_ks (parametros direccion_fisica tamanio)
                                 (enviar_syscall_a_scheduler pid tipo c1),
                               CPU_MOTIVO_SYSCALL_BLOQUEANTE)))
      | _ \<Rightarrow> (c, CPU_MOTIVO_ERROR))"

definition ejecutar_syscall_stdin ::
    "u32 \<Rightarrow> string option \<Rightarrow> string option \<Rightarrow> cpu \<Rightarrow> cpu \<times> t_motivo_desalojo" where
  "ejecutar_syscall_stdin pid = syscall_io pid OP_IO_STDIN (\<lambda>dir tam. bytes_u32 tam @ bytes_u32 dir)"

definition ejecutar_syscall_stdout ::
    "u32 \<Rightarrow> string option \<Rightarrow> string option \<Rightarrow> cpu \<Rightarrow> cpu \<times> t_motivo_desalojo" where
  "ejecutar_syscall_stdout pid = syscall_io pid OP_IO_STDOUT (\<lambda>dir tam. bytes_u32 dir @ bytes_u32 tam)"

section \<open>Execute\<close>

definition con_registros :: "(t_registros \<Rightarrow> t_registros) \<Rightarrow> cpu \<Rightarrow> cpu" where
  "con_registros f c = c\<lparr>registros := f (registros c)\<rparr>"

definition execute ::
    "u32 \<Rightarrow> string option \<Rightarrow> string option \<Rightarrow> string option \<Rightarrow> cpu \<Rightarrow> cpu \<times> t_motivo_desalojo" where
  "execute pid operacion p1 p2 c =
     (case operacion of
        None \<Rightarrow> (c, CPU_MOTIVO_ERROR)
      | Some op \<Rightarrow>
          if op = ''NOOP'' then (incrementar_PC (con_registros ejecutar_NOOP c), CPU_MOTIVO_CONTINUAR)
          else if op = ''SET'' then
            (case (p1, p2) of
               (Some r, Some v) \<Rightarrow>
                 let c1 = con_registros (ejecutar_SET r (u32_de_int (atoi v))) c
                 in (if r \<noteq> ''PC'' then incrementar_PC c1 else c1, CPU_MOTIVO_CONTINUAR)
             | _ \<Rightarrow> (c, CPU_MOTIVO_ERROR))
          else if op = ''SUM'' then
            (case (p1, p2) of
               (Some r, Some s) \<Rightarrow> (incrementar_PC (con_registros (ejecutar_SUM r s) c), CPU_MOTIVO_CONTINUAR)
             | _ \<Rightarrow> (c, CPU_MOTIVO_ERROR))
          else if op = ''SUB'' then
            (case (p1, p2) of
               (Some r, Some s) \<Rightarrow> (incrementar_PC (con_registros (ejecutar_SUB r s) c), CPU_MOTIVO_CONTINUAR)
             | _ \<Rightarrow> (c, CPU_MOTIVO_ERROR))
          else if op = ''JNZ'' then
            (case (p1, p2) of
               (Some r, Some v) \<Rightarrow>
                 (case ejecutar_JNZ r (u32_de_int (atoi v)) (registros c) of
                    (regs, salto) \<Rightarrow>
                      (if salto then con_registros (\<lambda>_. regs) c else incrementar_PC c, CPU_MOTIVO_CONTINUAR))
             | _ \<Rightarrow> (c, CPU_MOTIVO_ERROR))
          else if op = ''SLEEP'' then ejecutar_syscall_sleep pid p1 c
          else if op = ''INIT_PROC'' then ejecutar_syscall_init_proc pid p1 p2 c
          else if op = ''MUTEX_CREATE'' then ejecutar_syscall_mutex_create pid p1 c
          else if op = ''MUTEX_LOCK'' then ejecutar_syscall_mutex_lock pid p1 c
          else if op = ''MUTEX_UNLOCK'' then ejecutar_syscall_mutex_unlock pid p1 c
          else if op = ''MEM_ALLOC'' then ejecutar_syscall_mem_alloc pid p1 p2 c
          else if op = ''MEM_FREE'' then ejecutar_syscall_mem_free pid p1 c
          else if op = ''MOV_IN'' then ejecutar_mov_in p1 c
          else if op = ''MOV_OUT'' then ejecutar_mov_out p1 c
          else if op = ''COPY_MEM'' then ejecutar_copy_mem p1 c
          else if op = ''STDIN'' then ejecutar_syscall_stdin pid p1 p2 c
          else if op = ''STDOUT'' then ejecutar_syscall_stdout pid p1 p2 c
          else if op = ''EXIT'' then (c, CPU_MOTIVO_EXIT)
          else (c, CPU_MOTIVO_ERROR))"

section \<open>Interrupts\<close>

text \<open>\<open>socket_tiene_datos\<close>: the next answer of \<open>select\<close>.\<close>

definition socket_tiene_datos :: "cpu \<Rightarrow> cpu \<times> bool" where
  "socket_tiene_datos c =
     (case ks_sondeos c of [] \<Rightarrow> (c, False) | b # bs \<Rightarrow> (c\<lparr>ks_sondeos := bs\<rparr>, b))"

definition check_interrupt :: "u32 \<Rightarrow> cpu \<Rightarrow> cpu \<times> bool" where
  "check_interrupt pid c =
     (if interrupcion_pendiente_pid c \<noteq> - 1 then
        (c\<lparr>interrupcion_pendiente_pid := - 1\<rparr>, u32_de_int (interrupcion_pendiente_pid c) = pid)
      else
        (case socket_tiene_datos c of
           (c1, False) \<Rightarrow> (c1, False)
         | (c1, True) \<Rightarrow>
             (case recibir_ks c1 of
                (c2, None) \<Rightarrow> (c2, False)
              | (c2, Some cod) \<Rightarrow>
                  if cod \<noteq> codigo OP_INTERRUMPIR_PROCESO then (c2, False)
                  else (case recibir_ks c2 of
                          (c3, None) \<Rightarrow> (c3, False)
                        | (c3, Some pid_interrumpido) \<Rightarrow> (c3, u32_de_int pid_interrumpido = pid)))))"

section \<open>The cycle and the service loop\<close>

definition ejecutar_ciclo_instruccion :: "u32 \<Rightarrow> cpu \<Rightarrow> cpu \<times> t_motivo_desalojo" where
  "ejecutar_ciclo_instruccion pid c =
     (case fetch pid c of
        (c1, None) \<Rightarrow> (c1, CPU_MOTIVO_ERROR)
      | (c1, Some instruccion) \<Rightarrow>
          (case decode instruccion of (operacion, param1, param2) \<Rightarrow>
            (case execute pid operacion param1 param2 c1 of (c2, motivo) \<Rightarrow>
               if motivo \<noteq> CPU_MOTIVO_CONTINUAR then (c2, motivo)
               else (case check_interrupt pid c2 of
                       (c3, interrumpido) \<Rightarrow>
                         (c3, if interrumpido then CPU_MOTIVO_FIN_QUANTUM else CPU_MOTIVO_CONTINUAR)))))"

definition avisar_fin_a_scheduler :: "u32 \<Rightarrow> t_motivo_desalojo \<Rightarrow> cpu \<Rightarrow> cpu" where
  "avisar_fin_a_scheduler pid motivo c =
     (case motivo of
        CPU_MOTIVO_EXIT \<Rightarrow>
          enviar_ks (bytes_int (codigo OP_PROCESO_EXIT) @ bytes_u32 pid) (fst (guardar_contexto pid c))
      | CPU_MOTIVO_FIN_QUANTUM \<Rightarrow>
          enviar_ks (bytes_int (codigo OP_PROCESO_FIN_QUANTUM) @ bytes_u32 pid) (fst (guardar_contexto pid c))
      | CPU_MOTIVO_SEG_FAULT \<Rightarrow>
          enviar_ks (bytes_int (codigo OP_PROCESO_SEG_FAULT) @ bytes_u32 pid) (fst (guardar_contexto pid c))
      | CPU_MOTIVO_ERROR \<Rightarrow>
          enviar_ks (bytes_int (codigo OP_PROCESO_EXIT) @ bytes_u32 pid) (fst (guardar_contexto pid c))
      | CPU_MOTIVO_SYSCALL_BLOQUEANTE \<Rightarrow> c
      | CPU_MOTIVO_CONTINUAR \<Rightarrow> c)"

text \<open>A process may run forever: \<open>None\<close> is the run that never leaves the CPU.\<close>

partial_function (option) ejecutar_proceso :: "u32 \<Rightarrow> cpu \<Rightarrow> (cpu \<times> t_motivo_desalojo) option" where
  "ejecutar_proceso pid c =
     (case ejecutar_ciclo_instruccion pid c of (c1, motivo) \<Rightarrow>
        if motivo = CPU_MOTIVO_CONTINUAR then ejecutar_proceso pid c1 else Some (c1, motivo))"

datatype paso_principal = Termina cpu | Sigue cpu | NoVuelve

text \<open>One iteration of the loop of \<open>main\<close>.\<close>

definition atender_scheduler :: "cpu \<Rightarrow> paso_principal" where
  "atender_scheduler c =
     (case recibir_ks c of
        (c1, None) \<Rightarrow> Termina c1
      | (c1, Some cod) \<Rightarrow>
          if cod = codigo OP_INTERRUMPIR_PROCESO then
            (case recibir_ks c1 of (c2, None) \<Rightarrow> Termina c2 | (c2, Some pid_interrumpido) \<Rightarrow> Sigue c2)
          else if cod \<noteq> codigo OP_EJECUTAR_PROCESO then Sigue c1
          else (case recibir_ks c1 of
                  (c2, None) \<Rightarrow> Termina c2
                | (c2, Some p) \<Rightarrow>
                    let pid = u32_de_int p in
                    (case obtener_contexto pid c2 of
                       (c3, False) \<Rightarrow> Sigue (avisar_fin_a_scheduler pid CPU_MOTIVO_ERROR c3)
                     | (c3, True) \<Rightarrow>
                         (case ejecutar_proceso pid c3 of
                            None \<Rightarrow> NoVuelve
                          | Some (c4, motivo) \<Rightarrow> Sigue (avisar_fin_a_scheduler pid motivo c4)))))"

end
