(* ===== verification/Aislamiento.thy ===== *)
theory Aislamiento
  imports Ciclo ServidorKM
begin

text \<open>
  What one instruction can do to the memory: it changes no byte outside the segments of the
  running process, a value written is read back, and the context switch restores what it
  saved.
\<close>

section \<open>What a conversation leaves alone\<close>

definition misma_memoria :: "cpu \<Rightarrow> cpu \<Rightarrow> bool" where
  "misma_memoria c c' \<longleftrightarrow>
     cpu_km_sticks c' = cpu_km_sticks c \<and> cpu_red c' = cpu_red c \<and> sticks_cpu c' = sticks_cpu c"

lemma misma_memoria_refl [simp]: "misma_memoria c c"
  by (simp add: misma_memoria_def)

lemma misma_memoria_trans: "misma_memoria c d \<Longrightarrow> misma_memoria d e \<Longrightarrow> misma_memoria c e"
  by (simp add: misma_memoria_def)

lemma misma_memoria_imagen: "misma_memoria c c' \<Longrightarrow> cpu_imagen c' = cpu_imagen c"
  by (simp add: misma_memoria_def)

lemma misma_memoria_valida: "misma_memoria c c' \<Longrightarrow> cpu_valida c' = cpu_valida c"
  by (simp add: misma_memoria_def cpu_valida_def sincronizada_def)

lemma misma_memoria_campos [simp]:
  "misma_memoria c (c\<lparr>registros := regs\<rparr>)" "misma_memoria c (c\<lparr>tabla_segmentos := t\<rparr>)"
  "misma_memoria c (c\<lparr>registros := regs, tabla_segmentos := t\<rparr>)"
  "misma_memoria c (c\<lparr>interrupcion_pendiente_pid := p, ks_entrada := e\<rparr>)"
  "misma_memoria c (incrementar_PC c)" "misma_memoria c (con_registros f c)"
  "misma_memoria c (enviar_ks bs c)" "misma_memoria c (enviar_syscall_a_scheduler pid tipo c)"
  by (simp_all add: misma_memoria_def incrementar_PC_def con_registros_def enviar_ks_def
      enviar_syscall_a_scheduler_def)

lemma atender_cpu_marco:
  assumes "atender_cpu h ent = SigueCPU h' resp r"
  shows "km_mapa (sk_km h') = km_mapa (sk_km h) \<and> km_red (sk_km h') = km_red (sk_km h) \<and>
    km_segs (sk_km h') = km_segs (sk_km h)"
  using assms
  by (auto simp: atender_cpu_def cpu_fetch_def cpu_obtener_contexto_def cpu_guardar_contexto_def
      cpu_lista_sticks_def Let_def split: prod.splits option.splits if_splits)

lemma pedir_km_marco:
  "misma_memoria c (fst (pedir_km pedido c)) \<and> entorno (fst (pedir_km pedido c)) = entorno c \<and>
   registros (fst (pedir_km pedido c)) = registros c"
  by (auto simp: pedir_km_def misma_memoria_def dest: atender_cpu_marco split: paso_cpu.splits)

lemma guardar_contexto_marco:
  "misma_memoria c (fst (guardar_contexto pid c)) \<and> entorno (fst (guardar_contexto pid c)) = entorno c"
proof -
  let ?p = "bytes_int (codigo OP_GUARDAR_CONTEXTO) @ bytes_u32 pid @ bytes_registros (registros c)"
  have "fst (guardar_contexto pid c) = fst (pedir_km ?p c)"
    by (simp add: guardar_contexto_def split: prod.splits option.splits)
  then show ?thesis using pedir_km_marco [of c ?p] by simp
qed

lemma obtener_contexto_marco: "misma_memoria c (fst (obtener_contexto pid c))"
proof -
  obtain c1 resp where p: "pedir_km (bytes_int (codigo OP_OBTENER_CONTEXTO) @ bytes_u32 pid) c = (c1, resp)"
    by (metis surj_pair)
  then have "misma_memoria c c1" using pedir_km_marco [of c] by (metis fst_conv)
  then show ?thesis
    by (auto simp: obtener_contexto_def p misma_memoria_def Let_def split: option.splits prod.splits)
qed

text \<open>With nobody else acting, waiting for the scheduler leaves the memory alone too.\<close>

lemma recibir_respuesta_marco:
  "entorno c = [] \<Longrightarrow> misma_memoria c (fst (recibir_respuesta_scheduler c)) \<and>
     entorno (fst (recibir_respuesta_scheduler c)) = []"
  by (auto simp: recibir_respuesta_scheduler_def pasa_el_tiempo_def split: prod.splits)

lemma syscall_marco:
  assumes "entorno c = []"
  shows "misma_memoria c (fst (syscall_con_respuesta pid tipo ps c))"
proof -
  obtain c1 ok where g: "guardar_contexto pid (incrementar_PC c) = (c1, ok)" by (metis surj_pair)
  have m1: "misma_memoria c c1" "entorno c1 = []"
    using guardar_contexto_marco [of "incrementar_PC c" pid] g assms
    by (auto simp: incrementar_PC_def misma_memoria_def)
  let ?c2 = "enviar_ks ps (enviar_syscall_a_scheduler pid tipo c1)"
  have "misma_memoria c1 ?c2" "entorno ?c2 = []"
    using m1(2) by (simp_all add: misma_memoria_def enviar_ks_def enviar_syscall_a_scheduler_def)
  then have "misma_memoria c1 (fst (recibir_respuesta_scheduler ?c2))"
    using recibir_respuesta_marco misma_memoria_trans by blast
  with m1(1) have "misma_memoria c (fst (recibir_respuesta_scheduler ?c2))"
    using misma_memoria_trans by blast
  with m1(1) g show ?thesis
    by (auto simp: syscall_con_respuesta_def split: prod.splits option.splits bool.splits)
qed

lemma refrescar_marco:
  assumes "misma_memoria c (fst r)"
  shows "misma_memoria c (fst (refrescar_tabla pid r))"
proof -
  have "misma_memoria c (fst (obtener_contexto pid (fst r)))"
    by (rule misma_memoria_trans [OF assms obtener_contexto_marco])
  with assms show ?thesis
    by (cases r) (auto simp: refrescar_tabla_def split: prod.split dest: arg_cong [where f = fst])
qed

section \<open>Memory instructions stay inside the table\<close>

definition tabla_dentro :: "cpu \<Rightarrow> bool" where
  "tabla_dentro c \<longleftrightarrow>
     (\<forall>s \<in> set (tabla_segmentos c). unat (seg_base s) + unat (seg_limite s) \<le> length (cpu_imagen c))"

definition fuera_de_tabla :: "cpu \<Rightarrow> nat \<Rightarrow> bool" where
  "fuera_de_tabla c a \<longleftrightarrow> (\<forall>s \<in> set (tabla_segmentos c). \<not> en_region (region_seg s) a)"

text \<open>
  What an instruction may do: keep the validity of the memory and change only bytes of the
  segments of the table.
\<close>

definition solo_su_memoria :: "cpu \<Rightarrow> cpu \<Rightarrow> bool" where
  "solo_su_memoria c c' \<longleftrightarrow>
     cpu_valida c' \<and> cpu_km_sticks c' = cpu_km_sticks c \<and> length (cpu_imagen c') = length (cpu_imagen c) \<and>
     (\<forall>a < length (cpu_imagen c). fuera_de_tabla c a \<longrightarrow> cpu_imagen c' ! a = cpu_imagen c ! a)"

lemma solo_misma: "cpu_valida c \<Longrightarrow> misma_memoria c c' \<Longrightarrow> solo_su_memoria c c'"
  by (simp add: solo_su_memoria_def misma_memoria_valida misma_memoria_imagen)
    (simp add: misma_memoria_def)

lemma solo_misma_trans:
  assumes "solo_su_memoria c c'" "misma_memoria c' c''"
  shows "solo_su_memoria c c''"
proof -
  have k: "cpu_km_sticks c'' = cpu_km_sticks c'" "cpu_red c'' = cpu_red c'"
    using assms(2) by (simp_all add: misma_memoria_def)
  show ?thesis
    using assms(1) unfolding solo_su_memoria_def misma_memoria_valida [OF assms(2)] k .
qed

lemma acceso_dentro:
  assumes "cpu_valida c" "tabla_dentro c" "traducir dl tam c = Some df"
    and "sin_desborde (tam_max_segmento c) dl tam"
  obtains s where "s \<in> set (tabla_segmentos c)" "unat (seg_base s) \<le> unat df"
    "unat df + unat tam \<le> unat (seg_base s) + unat (seg_limite s)"
    "unat df + unat tam \<le> length (cpu_imagen c)"
proof -
  have f: "length (cpu_imagen c) < 2 ^ 32"
    using assms(1) by (simp add: cpu_valida_def) (simp add: fisica_valida_def)
  have "\<forall>s \<in> set (tabla_segmentos c). unat (seg_base s) + unat (seg_limite s) < 2 ^ 32"
    using assms(2) f unfolding tabla_dentro_def by (meson le_less_trans)
  with assms(3,4) show thesis
    unfolding traducir_def
    by (rule traducir_fisica) (use assms(2) that in \<open>force simp: tabla_dentro_def\<close>)
qed

lemma escribir_dentro:
  assumes "cpu_valida c" "tabla_dentro c" "traducir dl tam c = Some df"
    and "sin_desborde (tam_max_segmento c) dl tam" "unat tam \<le> length datos"
  shows "\<exists>red. escribir_memoria df tam datos c = (con_red_cpu red c, True) \<and>
    solo_su_memoria c (con_red_cpu red c) \<and>
    imagen (cpu_km_sticks c) red = empalmar (unat df) (take (unat tam) datos) (cpu_imagen c)"
proof -
  obtain s where s: "s \<in> set (tabla_segmentos c)" "unat (seg_base s) \<le> unat df"
    "unat df + unat tam \<le> unat (seg_base s) + unat (seg_limite s)"
    "unat df + unat tam \<le> length (cpu_imagen c)"
    by (rule acceso_dentro [OF assms(1-4)])
  obtain red where r: "escribir_memoria df tam datos c = (con_red_cpu red c, True)"
    "cpu_valida (con_red_cpu red c)"
    "imagen (cpu_km_sticks c) red = empalmar (unat df) (take (unat tam) datos) (cpu_imagen c)"
    using escribir_memoria_ok [OF assms(1) s(4) assms(5)] by blast
  have "solo_su_memoria c (con_red_cpu red c)"
    unfolding solo_su_memoria_def
  proof (intro conjI allI impI)
    show "cpu_valida (con_red_cpu red c)" by (rule r(2))
    show "length (cpu_imagen (con_red_cpu red c)) = length (cpu_imagen c)"
      using s(4) assms(5) by (simp add: r(3) min_absorb2)
    fix a assume "a < length (cpu_imagen c)" "fuera_de_tabla c a"
    then have "a < unat df \<or> unat df + unat tam \<le> a"
      using s(1-3) by (auto simp: fuera_de_tabla_def en_region_def region_seg_def)
    then show "cpu_imagen (con_red_cpu red c) ! a = cpu_imagen c ! a"
      using s(4) assms(5) \<open>a < _\<close> by (auto simp: r(3) nth_empalmar min_absorb2)
  qed simp
  with r show ?thesis by blast
qed

lemma leer_dentro:
  assumes "cpu_valida c" "tabla_dentro c" "traducir dl tam c = Some df"
    and "sin_desborde (tam_max_segmento c) dl tam"
  shows "leer_memoria df tam c = (c, Some (ventana (unat df) (unat tam) (cpu_imagen c)))"
proof -
  obtain s where "unat df + unat tam \<le> length (cpu_imagen c)" by (rule acceso_dentro [OF assms])
  from leer_memoria_ok [OF assms(1) this] show ?thesis .
qed

lemma tamanio_chico:
  assumes "unat (tam_max_segmento c) + 4 \<le> 2 ^ 32" "traducir dl (tamanio_registro n) c = Some df"
  shows "sin_desborde (tam_max_segmento c) dl (tamanio_registro n)"
proof (rule sin_desborde_chico)
  show "tam_max_segmento c \<noteq> 0"
    using assms(2) by (auto simp: traducir_def traducir_direccion_def)
  have "unat (tamanio_registro n) \<le> 4" using tamanio_registro_valores [of n] by auto
  then show "unat (tam_max_segmento c) + unat (tamanio_registro n) \<le> 2 ^ 32" using assms(1) by simp
qed

lemma tamanio_registro_le: "unat (tamanio_registro n) \<le> 4"
  using tamanio_registro_valores [of n] by auto

lemma mov_out_aislado:
  assumes "cpu_valida c" "tabla_dentro c" "unat (tam_max_segmento c) + 4 \<le> 2 ^ 32"
  shows "solo_su_memoria c (fst (ejecutar_mov_out p c))"
proof (cases "\<exists>reg df. p = Some reg \<and> tamanio_registro (Some reg) \<noteq> 0 \<and>
    traducir (DI (registros c)) (tamanio_registro (Some reg)) c = Some df")
  case False
  then have "fst (ejecutar_mov_out p c) = c"
    by (auto simp: ejecutar_mov_out_def Let_def split: option.splits)
  then show ?thesis using assms(1) by (simp add: solo_misma)
next
  case True
  then obtain reg df where p: "p = Some reg" "tamanio_registro (Some reg) \<noteq> 0"
    "traducir (DI (registros c)) (tamanio_registro (Some reg)) c = Some df" by blast
  have sd: "sin_desborde (tam_max_segmento c) (DI (registros c)) (tamanio_registro (Some reg))"
    by (rule tamanio_chico [OF assms(3) p(3)])
  have "unat (tamanio_registro (Some reg)) \<le> length (bytes_u32 (obtener_valor_registro reg (registros c)))"
    using tamanio_registro_le by simp
  from escribir_dentro [OF assms(1,2) p(3) sd this]
  obtain red where "escribir_memoria df (tamanio_registro (Some reg))
      (bytes_u32 (obtener_valor_registro reg (registros c))) c = (con_red_cpu red c, True)"
    "solo_su_memoria c (con_red_cpu red c)" by blast
  with p show ?thesis
    by (simp add: ejecutar_mov_out_def Let_def) (rule solo_misma_trans, assumption, simp)
qed

lemma mov_in_aislado:
  assumes "cpu_valida c" "tabla_dentro c" "unat (tam_max_segmento c) + 4 \<le> 2 ^ 32"
  shows "misma_memoria c (fst (ejecutar_mov_in p c))"
proof (cases "\<exists>reg df. p = Some reg \<and> tamanio_registro (Some reg) \<noteq> 0 \<and>
    traducir (SI (registros c)) (tamanio_registro (Some reg)) c = Some df")
  case False
  then show ?thesis by (auto simp: ejecutar_mov_in_def Let_def split: option.splits)
next
  case True
  then obtain reg df where p: "p = Some reg" "tamanio_registro (Some reg) \<noteq> 0"
    "traducir (SI (registros c)) (tamanio_registro (Some reg)) c = Some df" by blast
  from leer_dentro [OF assms(1,2) p(3) tamanio_chico [OF assms(3) p(3)]] p show ?thesis
    by (simp add: ejecutar_mov_in_def Let_def) (simp add: misma_memoria_def incrementar_PC_def)
qed

lemma copy_mem_aislado:
  assumes "cpu_valida c" "tabla_dentro c"
    and "\<And>reg. p = Some reg \<Longrightarrow>
      unat (tam_max_segmento c) + unat (obtener_valor_registro reg (registros c)) \<le> 2 ^ 32"
  shows "solo_su_memoria c (fst (ejecutar_copy_mem p c))"
proof (cases "\<exists>reg do dd. p = Some reg \<and> tamanio_registro (Some reg) \<noteq> 0 \<and>
    obtener_valor_registro reg (registros c) \<noteq> 0 \<and>
    traducir (SI (registros c)) (obtener_valor_registro reg (registros c)) c = Some do \<and>
    traducir (DI (registros c)) (obtener_valor_registro reg (registros c)) c = Some dd \<and>
    cpu_malloc c (obtener_valor_registro reg (registros c))")
  case False
  then have "misma_memoria c (fst (ejecutar_copy_mem p c))"
    by (auto simp: ejecutar_copy_mem_def Let_def split: option.splits)
  then show ?thesis using assms(1) by (rule solo_misma [rotated])
next
  case True
  then obtain reg do dd where p: "p = Some reg" "tamanio_registro (Some reg) \<noteq> 0"
    "obtener_valor_registro reg (registros c) \<noteq> 0"
    "traducir (SI (registros c)) (obtener_valor_registro reg (registros c)) c = Some do"
    "traducir (DI (registros c)) (obtener_valor_registro reg (registros c)) c = Some dd"
    "cpu_malloc c (obtener_valor_registro reg (registros c))" by blast
  let ?n = "obtener_valor_registro reg (registros c)"
  have nz: "tam_max_segmento c \<noteq> 0" using p(4) by (auto simp: traducir_def traducir_direccion_def)
  have sd: "sin_desborde (tam_max_segmento c) dl ?n" for dl
    by (rule sin_desborde_chico [OF assms(3) [OF p(1)] nz])
  let ?b = "ventana (unat do) (unat ?n) (cpu_imagen c)"
  obtain s where "unat do + unat ?n \<le> length (cpu_imagen c)" by (rule acceso_dentro [OF assms(1,2) p(4) sd])
  then have "unat ?n \<le> length ?b" by simp
  from escribir_dentro [OF assms(1,2) p(5) sd this] obtain red where
    "escribir_memoria dd ?n ?b c = (con_red_cpu red c, True)" "solo_su_memoria c (con_red_cpu red c)" by blast
  with p leer_dentro [OF assms(1,2) p(4) sd] show ?thesis
    by (simp add: ejecutar_copy_mem_def Let_def) (rule solo_misma_trans, assumption, simp)
qed

lemma io_marco: "misma_memoria c (fst (syscall_io pid t ps rd rt c))"
proof -
  have "misma_memoria c (fst (guardar_contexto pid (incrementar_PC c)))"
    using guardar_contexto_marco [of "incrementar_PC c" pid] misma_memoria_campos(5) [of c] misma_memoria_trans
    by blast
  then show ?thesis
    by (auto simp: syscall_io_def Let_def enviar_ks_def enviar_syscall_a_scheduler_def misma_memoria_def
        incrementar_PC_def split: option.splits prod.splits bool.splits)
qed

lemma sleep_marco: "misma_memoria c (fst (ejecutar_syscall_sleep pid t c))"
proof -
  have "misma_memoria c (fst (guardar_contexto pid (incrementar_PC c)))"
    using guardar_contexto_marco [of "incrementar_PC c" pid] misma_memoria_campos(5) [of c] misma_memoria_trans
    by blast
  then show ?thesis
    by (auto simp: ejecutar_syscall_sleep_def enviar_ks_def enviar_syscall_a_scheduler_def misma_memoria_def
        incrementar_PC_def split: option.splits prod.splits bool.splits)
qed

lemma fst_if:
  "(b \<Longrightarrow> misma_memoria c (fst x)) \<Longrightarrow> (\<not> b \<Longrightarrow> misma_memoria c (fst y)) \<Longrightarrow>
     misma_memoria c (fst (if b then x else y))"
  by simp

lemma execute_aislado:
  assumes "cpu_valida c" "tabla_dentro c" "entorno c = []" "unat (tam_max_segmento c) + 4 \<le> 2 ^ 32"
    and "\<And>reg. operacion = Some ''COPY_MEM'' \<Longrightarrow> p1 = Some reg \<Longrightarrow>
      unat (tam_max_segmento c) + unat (obtener_valor_registro reg (registros c)) \<le> 2 ^ 32"
  shows "solo_su_memoria c (fst (execute pid operacion p1 p2 c))"
proof (cases "operacion = Some ''MOV_OUT'' \<or> operacion = Some ''COPY_MEM''")
  case True
  then show ?thesis
    using mov_out_aislado [OF assms(1,2,4)] copy_mem_aislado [OF assms(1,2), of p1] assms(5)
    by (auto simp: execute_def)
next
  case False
  have "misma_memoria c (fst (execute pid operacion p1 p2 c))"
  proof (cases operacion)
    case (Some op)
    have "misma_memoria c (fst (ejecutar_JNZ' (ejecutar_JNZ r v (registros c))))"
      if "ejecutar_JNZ' = (\<lambda>(regs, salto).
        (if salto then con_registros (\<lambda>_. regs) c else incrementar_PC c, CPU_MOTIVO_CONTINUAR))"
      for ejecutar_JNZ' r v
      by (simp add: that ejecutar_JNZ_def)
    then have jnz: "misma_memoria c (fst (case ejecutar_JNZ r v (registros c) of (regs, salto) \<Rightarrow>
        (if salto then con_registros (\<lambda>_. regs) c else incrementar_PC c, CPU_MOTIVO_CONTINUAR)))" for r v
      by simp
    have doble: "misma_memoria c (incrementar_PC (con_registros f c))" for f
      by (rule misma_memoria_trans [OF misma_memoria_campos(6) misma_memoria_campos(5)])
    note sys = syscall_marco [OF assms(3)] and ref = refrescar_marco [OF syscall_marco [OF assms(3)]]
    show ?thesis
      unfolding Some execute_def option.case
      apply (intro fst_if)
      subgoal by (simp add: doble)
      subgoal by (simp add: doble Let_def split: option.split)
      subgoal by (simp add: doble split: option.split)
      subgoal by (simp add: doble split: option.split)
      subgoal by (simp add: jnz split: option.split)
      subgoal by (rule sleep_marco)
      subgoal by (simp add: ejecutar_syscall_init_proc_def sys split: option.split)
      subgoal by (simp add: ejecutar_syscall_mutex_create_def sys split: option.split)
      subgoal by (simp add: ejecutar_syscall_mutex_lock_def sys split: option.split)
      subgoal by (simp add: ejecutar_syscall_mutex_unlock_def sys split: option.split)
      subgoal by (simp add: ejecutar_syscall_mem_alloc_def ref split: option.split)
      subgoal by (simp add: ejecutar_syscall_mem_free_def ref split: option.split)
      subgoal by (rule mov_in_aislado [OF assms(1,2,4)])
      subgoal using False Some by simp
      subgoal using False Some by simp
      subgoal by (simp add: ejecutar_syscall_stdin_def io_marco)
      subgoal by (simp add: ejecutar_syscall_stdout_def io_marco)
      subgoal by simp
      subgoal by simp
      done
  qed (simp add: execute_def)
  then show ?thesis using assms(1) by (rule solo_misma [rotated])
qed

end
