(* ===== verification/PropiedadesCPU.thy ===== *)
theory PropiedadesCPU
  imports Aislamiento EstadosConcretos
begin

text \<open>
  The properties of a CPU: the context switch, the translation of addresses, the accesses to
  the sticks, the isolation of the instructions, and the instruction cycle.
\<close>

section \<open>A concrete CPU\<close>

text \<open>
  A Kernel Memory with one stick of 16 bytes and the process 1, which has two segments of 4
  bytes, and a CPU that runs it.  Segments are 8 bytes at most, so the logical addresses of
  the segment 1 start at 8.
\<close>

definition stick_cpu_ej :: t_memory_stick where
  "stick_cpu_ej = \<lparr>ms_fd = 7, ms_tamanio = 16, ms_base_global = 0, ms_ip = ''127.0.0.1'', ms_puerto = 9000\<rparr>"

definition contexto_ej :: t_contexto where
  "contexto_ej = \<lparr>ctx_pid = 1, ctx_registros = inicializar_registros, ctx_path = ''p'',
     ctx_instrucciones = [''SET AX 5'', ''MOV_OUT AX'', ''EXIT''], ctx_tabla = [0, 1]\<rparr>"

definition servidor_ej :: servidor_km where
  "servidor_ej = \<lparr>sk_km = km_vacio\<lparr>
       km_mapa := \<lparr>lista_sticks = [stick_cpu_ej], memoria_total = 16, lista_huecos = [\<lparr>h_base = 8, h_tamanio = 8\<rparr>]\<rparr>,
       km_red := (\<lambda>_. None)(7 := Some stick_ej), km_contextos := [contexto_ej],
       km_segs := (\<lambda>r. \<lparr>seg_id = int r, seg_base = 4 * of_nat r, seg_limite = 4\<rparr>), km_prox := 2\<rparr>,
     fd_ks_notificaciones = - 1, sk_avisos = []\<rparr>"

definition cpu_nueva :: cpu where
  "cpu_nueva = \<lparr>registros = inicializar_registros, tabla_segmentos = [], sticks_cpu = None,
     id_cpu_global = 1, interrupcion_pendiente_pid = - 1, tam_max_segmento = 8, cpu_malloc = (\<lambda>_. True),
     km_remoto = servidor_ej, km_conectado = True,
     ubicar = (\<lambda>ip p. if ip = ''127.0.0.1'' \<and> p = 9000 then Some 7 else None),
     ks_entrada = [], ks_salida = [], ks_sondeos = [], entorno = []\<rparr>"

definition cpu_ej :: cpu where
  "cpu_ej = cpu_nueva\<lparr>sticks_cpu := Some (estampar 0 [stick_cpu_ej]),
     tabla_segmentos := [\<lparr>seg_id = 0, seg_base = 0, seg_limite = 4\<rparr>, \<lparr>seg_id = 1, seg_base = 4, seg_limite = 4\<rparr>]\<rparr>"

definition servidor_lineal :: servidor_km where
  "servidor_lineal = servidor_ej\<lparr>sk_km := (sk_km servidor_ej)\<lparr>km_contextos :=
     [contexto_ej\<lparr>ctx_instrucciones := [''SET AX 5'', ''SUM BX AX'', ''EXIT'']\<rparr>]\<rparr>\<rparr>"

lemma servidor_ej_fisica:
  "cpu_km_sticks cpu_nueva = [stick_cpu_ej]" "fisica_valida [stick_cpu_ej] (cpu_red cpu_nueva)"
  by (simp_all add: cpu_nueva_def servidor_ej_def fisica_valida_def stick_conectado_def stick_ej_valido
      stick_cpu_ej_def) (simp add: stick_ej_def)

lemma cpu_ej_valida: "cpu_valida cpu_ej"
  using servidor_ej_fisica
  by (simp add: cpu_valida_def sincronizada_def cpu_ej_def fisica_valida_def)

lemma cpu_ej_datos:
  "entorno cpu_ej = []" "tam_max_segmento cpu_ej = 8" "tabla_dentro cpu_ej"
  by code_simp+

section \<open>Context switch and translation\<close>

text \<open>C24: a process saved by one CPU and loaded by another continues with the same registers and
  with the segments that Kernel Memory has for it.\<close>

theorem cambio_de_contexto:
  assumes "km_conectado c" "contexto_buscar (int_de_u32 pid) (km_contextos (sk_km (km_remoto c))) = Some ctx"
    and "\<forall>r \<in> set (ctx_tabla ctx). en_int (seg_id (km_segs (sk_km (km_remoto c)) r))"
    and "length (ctx_tabla ctx) < 2 ^ 31"
    and "guardar_contexto pid c = (c1, ok)"
    and "km_conectado d" "km_remoto d = km_remoto c1" "cpu_malloc d 12"
  shows "ok \<and> registros (fst (obtener_contexto pid d)) = registros c \<and>
    tabla_segmentos (fst (obtener_contexto pid d)) = map (km_segs (sk_km (km_remoto c))) (ctx_tabla ctx) \<and>
    snd (obtener_contexto pid d)"
proof -
  let ?h = "km_remoto c"
  let ?h1 = "con_km ((sk_km ?h)\<lparr>km_contextos :=
      contexto_guardar (int_de_u32 pid) (registros c) (km_contextos (sk_km ?h))\<rparr>) ?h"
  have g: "c1 = c\<lparr>km_remoto := ?h1\<rparr>" "ok" using guardar_contexto_ok [OF assms(1) refl, of pid] assms(5) by simp_all
  let ?ctx = "ctx\<lparr>ctx_registros := registros c\<rparr>"
  have "contexto_buscar (int_de_u32 pid) (km_contextos (sk_km ?h1)) = Some ?ctx"
    using assms(2) by (simp add: buscar_guardar)
  moreover have "km_remoto d = ?h1" using assms(7) g(1) by simp
  ultimately show ?thesis
    using obtener_contexto_ok [OF assms(6), of ?h1 pid ?ctx] assms(3,4,8) g(2) by (simp add: con_km_def)
qed

lemma cambio_de_contexto_ejemplo:
  "\<exists>c1. guardar_contexto 1 (cpu_ej\<lparr>registros := inicializar_registros\<lparr>AX := 7\<rparr>\<rparr>) = (c1, True) \<and>
     AX (registros (fst (obtener_contexto 1 (cpu_nueva\<lparr>km_remoto := km_remoto c1\<rparr>)))) = 7"
proof -
  let ?c = "cpu_ej\<lparr>registros := inicializar_registros\<lparr>AX := 7\<rparr>\<rparr>"
  obtain ctx where ctx: "contexto_buscar 1 (km_contextos (sk_km (km_remoto cpu_ej))) = Some ctx" "ctx_tabla ctx = [0, 1]"
  proof -
    have "map_option ctx_tabla (contexto_buscar 1 (km_contextos (sk_km (km_remoto cpu_ej)))) = Some [0, 1]" by code_simp
    then show thesis using that by auto
  qed
  obtain c1 ok where g: "guardar_contexto 1 ?c = (c1, ok)" by (metis surj_pair)
  have i: "int_de_u32 1 = 1" "km_conectado cpu_ej" "seg_id (km_segs (sk_km (km_remoto cpu_ej)) 0) = 0"
    "seg_id (km_segs (sk_km (km_remoto cpu_ej)) 1) = 1" "km_conectado cpu_nueva" "cpu_malloc cpu_nueva 12"
    by code_simp+
  have "ok \<and> registros (fst (obtener_contexto 1 (cpu_nueva\<lparr>km_remoto := km_remoto c1\<rparr>))) = registros ?c"
    using cambio_de_contexto [of ?c 1 ctx c1 ok "cpu_nueva\<lparr>km_remoto := km_remoto c1\<rparr>"] g ctx i
    by (simp add: en_int_def)
  with g show ?thesis by simp
qed

text \<open>C31: the translation of an access to a segment of the table.  When offset plus size fit 32
  bits the access is granted exactly when it lies inside the segment, at its base plus the
  offset.  When the sum wraps the check is made on the wrapped value, and an access that runs
  past the segment is granted.\<close>

theorem mmu_traduccion:
  assumes "tam_max \<noteq> 0" "buscar_segmento_por_id (int_de_u32 (dl div tam_max)) tabla = Some s"
  shows "(unat (dl mod tam_max) + unat tam < 2 ^ 32 \<longrightarrow>
      traducir_direccion tam_max tabla dl tam =
        (if unat (dl mod tam_max) + unat tam \<le> unat (seg_limite s)
         then Some (seg_base s + dl mod tam_max) else None)) \<and>
    (2 ^ 32 \<le> unat (dl mod tam_max) + unat tam \<longrightarrow>
      unat (dl mod tam_max) + unat tam - 2 ^ 32 \<le> unat (seg_limite s) \<longrightarrow>
      traducir_direccion tam_max tabla dl tam = Some (seg_base s + dl mod tam_max) \<and>
      unat (seg_limite s) < unat (dl mod tam_max) + unat tam)"
proof -
  let ?o = "dl mod tam_max"
  have t: "traducir_direccion tam_max tabla dl tam =
      (if ?o + tam > seg_limite s then None else Some (seg_base s + ?o))"
    using assms by (simp add: traducir_direccion_def)
  have "unat (?o + tam) = unat ?o + unat tam" if "unat ?o + unat tam < 2 ^ 32"
    using that by (rule unat_suma_u32)
  moreover have "unat (?o + tam) = unat ?o + unat tam - 2 ^ 32" if "2 ^ 32 \<le> unat ?o + unat tam"
    using that unat_u32_lt [of ?o] unat_u32_lt [of tam]
    by (simp add: unat_word_ariths(1) mod_if)
  ultimately show ?thesis
    using unat_u32_lt [of "seg_limite s"] by (auto simp: t word_less_nat_alt)
qed

lemma mmu_traduccion_ejemplo:
  "traducir_direccion 8 [\<lparr>seg_id = 1, seg_base = 100, seg_limite = 6\<rparr>] 10 4 = Some 102 \<and>
   traducir_direccion 8 [\<lparr>seg_id = 1, seg_base = 100, seg_limite = 6\<rparr>] 10 0xFFFFFFFE = Some 102"
  using mmu_traduccion [of 8 10 "[\<lparr>seg_id = 1, seg_base = 100, seg_limite = 6\<rparr>]" "\<lparr>seg_id = 1, seg_base = 100, seg_limite = 6\<rparr>" 4]
    mmu_traduccion [of 8 10 "[\<lparr>seg_id = 1, seg_base = 100, seg_limite = 6\<rparr>]" "\<lparr>seg_id = 1, seg_base = 100, seg_limite = 6\<rparr>" "0xFFFFFFFE"]
  by (simp add: int_de_u32_def)

section \<open>Memory\<close>

text \<open>C16: with an up-to-date list of sticks the accesses of a CPU inside the installed memory, which
  go to the sticks directly, give and store exactly what the same access by Kernel Memory would.\<close>

theorem cpu_igual_que_km:
  assumes "cpu_valida c" "unat d + unat n \<le> capacidad (cpu_km_sticks c)" "unat n \<le> length datos"
  shows "leer_memoria d n c = (c, snd (memoria_fisica_leer (cpu_km_sticks c) (cpu_red c) d n)) \<and>
    escribir_memoria d n datos c =
      (con_red_cpu (fst (memoria_fisica_escribir (cpu_km_sticks c) (cpu_red c) d n datos)) c,
       snd (memoria_fisica_escribir (cpu_km_sticks c) (cpu_red c) d n datos))"
proof -
  have s: "sincronizada c" and f: "fisica_valida (cpu_km_sticks c) (cpu_red c)"
    using assms(1) by (simp_all add: cpu_valida_def)
  obtain red where r: "memoria_fisica_escribir (cpu_km_sticks c) (cpu_red c) d n datos = (red, True)"
    using memoria_fisica_escribir_ok [OF f assms(2,3)] by auto
  then have b: "escribir_bucle (cpu_km_sticks c) (cpu_red c) d n 0 datos = (red, True)"
    by (simp add: memoria_fisica_escribir_def)
  have "escribir_memoria d n datos c = (con_red_cpu red c, True)"
  proof (cases "n = 0")
    case True
    with b have "red = cpu_red c" by (simp add: escribir_bucle.simps)
    with True show ?thesis by (simp add: escribir_memoria_def)
  next
    case False
    with escribir_bucle_igual [OF b s] asegurar_sincronizada [OF s] show ?thesis
      by (simp add: escribir_memoria_def)
  qed
  moreover have "leer_memoria d n c = (c, snd (memoria_fisica_leer (cpu_km_sticks c) (cpu_red c) d n))"
    using memoria_fisica_leer_ok [OF f assms(2)] leer_memoria_ok [OF assms(1), of d n] assms(2) f by simp
  ultimately show ?thesis using r by simp
qed

lemma cpu_igual_que_km_ejemplo:
  "snd (leer_memoria 3 2 cpu_ej) = snd (memoria_fisica_leer (cpu_km_sticks cpu_ej) (cpu_red cpu_ej) 3 2)"
proof -
  have "capacidad (cpu_km_sticks cpu_ej) = 16" by code_simp
  then show ?thesis using cpu_igual_que_km [OF cpu_ej_valida, of 3 2 "[0, 0]"] by simp
qed

text \<open>A refresh of the list from Kernel Memory connects to every announced stick and leaves
  the CPU addressing the whole memory.\<close>

lemma sticks_al_dia:
  assumes "km_conectado c" "\<forall>s \<in> set (cpu_km_sticks c). anunciado c s" "\<forall>n. cpu_malloc c n"
    and "en_int (id_cpu_global c)" "length (cpu_km_sticks c) < 2 ^ 31"
    and "cpu_km_sticks c \<noteq> []" "fisica_valida (cpu_km_sticks c) (cpu_red c)"
  shows "cpu_valida (fst (actualizar_memory_sticks c)) \<and> snd (actualizar_memory_sticks c)"
  by (rule actualizar_sincroniza [OF assms])

lemma sticks_al_dia_ejemplo: "cpu_valida (fst (actualizar_memory_sticks cpu_nueva))"
proof -
  have "anunciado cpu_nueva stick_cpu_ej"
    using servidor_ej_fisica
    by (simp add: anunciado_def fisica_valida_def) (simp add: cpu_nueva_def stick_cpu_ej_def en_int_def)
  then have "cpu_valida (fst (actualizar_memory_sticks cpu_nueva)) \<and> snd (actualizar_memory_sticks cpu_nueva)"
    using servidor_ej_fisica by (intro sticks_al_dia) (simp_all, simp_all add: cpu_nueva_def en_int_def)
  then show ?thesis ..
qed

text \<open>C8: no instruction of a process changes a byte of memory outside the segments of its table,
  nor the sticks, as long as the other modules do not act meanwhile and no size wraps around
  32 bits.\<close>

theorem instruccion_aislada:
  assumes "cpu_valida c" "tabla_dentro c" "entorno c = []" "unat (tam_max_segmento c) + 4 \<le> 2 ^ 32"
    and "\<And>reg. operacion = Some ''COPY_MEM'' \<Longrightarrow> p1 = Some reg \<Longrightarrow>
      unat (tam_max_segmento c) + unat (obtener_valor_registro reg (registros c)) \<le> 2 ^ 32"
    and "a < length (cpu_imagen c)" "\<forall>s \<in> set (tabla_segmentos c). \<not> en_region (region_seg s) a"
  shows "cpu_imagen (fst (execute pid operacion p1 p2 c)) ! a = cpu_imagen c ! a \<and>
    cpu_km_sticks (fst (execute pid operacion p1 p2 c)) = cpu_km_sticks c \<and>
    cpu_valida (fst (execute pid operacion p1 p2 c))"
proof -
  have "solo_su_memoria c (fst (execute pid operacion p1 p2 c))"
    by (rule execute_aislado [OF assms(1-4)]) (rule assms(5))
  then show ?thesis using assms(6,7) unfolding solo_su_memoria_def fuera_de_tabla_def by blast
qed

lemma instruccion_aislada_ejemplo:
  "cpu_imagen (fst (execute 1 (Some ''MOV_OUT'') (Some ''AX'') None cpu_ej)) ! 12 = 12"
proof -
  have d: "length (cpu_imagen cpu_ej) = 16" "cpu_imagen cpu_ej ! 12 = 12"
    "\<forall>s \<in> set (tabla_segmentos cpu_ej). \<not> en_region (region_seg s) 12"
    by code_simp+
  have "cpu_imagen (fst (execute 1 (Some ''MOV_OUT'') (Some ''AX'') None cpu_ej)) ! 12 = cpu_imagen cpu_ej ! 12"
    by (rule instruccion_aislada [THEN conjunct1, OF cpu_ej_valida cpu_ej_datos(3,1)])
      (use d in \<open>simp_all add: cpu_ej_datos(2)\<close>)
  then show ?thesis unfolding d(2) .
qed

section \<open>The instruction cycle\<close>

text \<open>C36: what \<open>MOV_OUT\<close> stores from a register \<open>MOV_IN\<close> brings back, from the same logical
  address, to a register of the same width other than \<open>PC\<close>, which \<open>MOV_IN\<close> increments after it
  sets it.  The CPU has the sticks and the segments that Kernel Memory has for the process, the
  largest segment is not within 4 bytes of \<open>2 ^ 32\<close>, and nobody else writes between the two
  instructions.\<close>

theorem mov_out_mov_in:
  assumes "cpu_valida c" "tabla_dentro c" "unat (tam_max_segmento c) + 4 \<le> 2 ^ 32"
    and "tamanio_registro (Some r) \<noteq> 0" "tamanio_registro (Some q) = tamanio_registro (Some r)" "q \<noteq> ''PC''"
    and "ejecutar_mov_out (Some r) c = (c1, CPU_MOTIVO_CONTINUAR)"
  shows "\<exists>c2. ejecutar_mov_in (Some q) (con_registros (\<lambda>regs. regs\<lparr>SI := DI (registros c)\<rparr>) c1) =
      (c2, CPU_MOTIVO_CONTINUAR) \<and>
    obtener_valor_registro q (registros c2) = obtener_valor_registro r (registros c)"
proof -
  let ?n = "tamanio_registro (Some r)" and ?v = "obtener_valor_registro r (registros c)"
  obtain df where df: "traducir (DI (registros c)) ?n c = Some df"
    using assms(4,7) by (auto simp: ejecutar_mov_out_def Let_def split: option.splits)
  have sd: "sin_desborde (tam_max_segmento c) (DI (registros c)) ?n" by (rule tamanio_chico [OF assms(3) df])
  have l: "unat ?n \<le> length (bytes_u32 ?v)" using tamanio_registro_le [of "Some r"] by simp
  obtain red where red: "escribir_memoria df ?n (bytes_u32 ?v) c = (con_red_cpu red c, True)"
    "solo_su_memoria c (con_red_cpu red c)"
    "imagen (cpu_km_sticks c) red = empalmar (unat df) (take (unat ?n) (bytes_u32 ?v)) (cpu_imagen c)"
    using escribir_dentro [OF assms(1,2) df sd l] by blast
  have c1: "c1 = incrementar_PC (con_red_cpu red c)"
    using assms(4,7) df red(1) by (simp add: ejecutar_mov_out_def Let_def)
  define d where "d = con_registros (\<lambda>regs. regs\<lparr>SI := DI (registros c)\<rparr>) c1"
  have m: "misma_memoria (con_red_cpu red c) d"
    unfolding d_def c1 by (rule misma_memoria_trans [OF misma_memoria_campos(5) misma_memoria_campos(6)])
  have v: "cpu_valida d"
    using red(2) misma_memoria_valida [OF m] by (simp add: solo_su_memoria_def)
  have im: "cpu_imagen d = empalmar (unat df) (take (unat ?n) (bytes_u32 ?v)) (cpu_imagen c)"
    using misma_memoria_imagen [OF m] red(3) by simp
  have dentro: "unat df + unat ?n \<le> length (cpu_imagen c)"
  proof -
    obtain s where "unat df + unat ?n \<le> length (cpu_imagen c)" by (rule acceso_dentro [OF assms(1,2) df sd])
    then show ?thesis .
  qed
  have lim: "length (take (unat ?n) (bytes_u32 ?v)) = unat ?n" using l by simp
  have "unat df + unat ?n \<le> length (cpu_imagen d)" using dentro lim by (simp add: im)
  from leer_memoria_ok [OF v this] have leo: "leer_memoria df ?n d = (d, Some (take (unat ?n) (bytes_u32 ?v)))"
    using dentro lim by (simp add: im)
  have t: "traducir (SI (registros d)) ?n d = Some df"
    using df by (simp add: d_def c1 con_registros_def incrementar_PC_def traducir_def con_red_cpu_def)
  let ?w = "u32_de_bytes (take (unat ?n) (bytes_u32 ?v) @ replicate (4 - unat ?n) 0)"
  have "ejecutar_mov_in (Some q) d =
      (incrementar_PC (d\<lparr>registros := setear_valor_registro q ?w (registros d)\<rparr>), CPU_MOTIVO_CONTINUAR)"
    using assms(4,5) t leo lim by (simp add: ejecutar_mov_in_def Let_def)
  moreover have "obtener_valor_registro q (registros (incrementar_PC (d\<lparr>registros := setear_valor_registro q ?w (registros d)\<rparr>))) =
      recortar ?n ?w"
    using assms(4,5,6) obtener_seteado [of q ?w "registros d"] obtener_incrementado [OF assms(6)]
    by (simp add: es_registro_def incrementar_PC_def)
  moreover have "recortar ?n ?w = ?v" by (rule recortar_bytes [OF assms(4)])
  ultimately show ?thesis unfolding d_def by simp
qed

lemma mov_out_mov_in_ejemplo:
  "\<exists>c1 c2. ejecutar_mov_out (Some ''AX'') (cpu_ej\<lparr>registros := inicializar_registros\<lparr>AX := 77, DI := 9\<rparr>\<rparr>) =
      (c1, CPU_MOTIVO_CONTINUAR) \<and>
    ejecutar_mov_in (Some ''BX'') (con_registros (\<lambda>regs. regs\<lparr>SI := 9\<rparr>) c1) = (c2, CPU_MOTIVO_CONTINUAR) \<and>
    obtener_valor_registro ''BX'' (registros c2) = 77"
proof -
  let ?c = "cpu_ej\<lparr>registros := inicializar_registros\<lparr>AX := 77, DI := 9\<rparr>\<rparr>"
  have v: "cpu_valida ?c" using cpu_ej_valida misma_memoria_valida [of cpu_ej ?c] by simp
  have t: "tabla_dentro ?c" using cpu_ej_datos(3) by (simp add: tabla_dentro_def)
  have "snd (ejecutar_mov_out (Some ''AX'') ?c) = CPU_MOTIVO_CONTINUAR" by code_simp
  then obtain c1 where c1: "ejecutar_mov_out (Some ''AX'') ?c = (c1, CPU_MOTIVO_CONTINUAR)" by (metis prod.collapse)
  from mov_out_mov_in [OF v t _ _ _ _ c1, of "''BX''"] c1 show ?thesis
    by (simp add: cpu_ej_datos(2) tamanio_registro_def obtener_valor_registro_def)
qed

lemma fetch_linea:
  assumes "km_conectado c" "contexto_buscar (int_de_u32 pid) (km_contextos (sk_km (km_remoto c))) = Some ctx"
    and "unat (PC (registros c)) < length (ctx_instrucciones ctx)" "unat (PC (registros c)) < 2 ^ 31"
    and "ctx_instrucciones ctx ! unat (PC (registros c)) = linea" "CHR 0x00 \<notin> set linea"
    and "linea \<noteq> []" "length linea \<le> 10000" "cpu_malloc c (u32_de_int (int (length linea) + 1))"
  shows "fetch pid c = (c, Some linea)"
proof -
  let ?pc = "PC (registros c)"
  have "int_de_u32 ?pc = int (unat ?pc)"
    using assms(4) by (rule int_de_u32_chico)
  then have pc: "\<not> int_de_u32 ?pc < 0" "\<not> int (length (ctx_instrucciones ctx)) \<le> int_de_u32 ?pc"
    "nat (int_de_u32 ?pc) = unat ?pc"
    using assms(3) by (simp_all only: of_nat_le_iff not_le of_nat_less_0_iff nat_int not_False_eq_True)
  have l: "en_int (int (length linea))" using assms(8) by (simp add: en_int_def)
  have "pedir_km (bytes_int (codigo OP_FETCH) @ bytes_u32 pid @ bytes_u32 ?pc) c =
      (c, bytes_int (codigo OP_OK) @ bytes_int (int (length linea)) @ bytes_texto linea)"
    using assms(1,2,5) pc
    by (auto simp: pedir_km_def atender_cpu_def recibir_codigo_def cpu_fetch_def Let_def)
  moreover have "recibir_exacto (length linea) (bytes_texto linea) = Some (bytes_texto linea, [])"
    by (simp add: recibir_exacto_def)
  ultimately show ?thesis
    using l assms(6-9) by (simp add: fetch_def recibir_instruccion_desde_memoria_def cadena_bytes)
qed

text \<open>A fetch brings, unchanged, the line of the script that the program counter of the
  process points at.\<close>

lemma fetch_trae_la_linea:
  assumes "km_conectado c" "contexto_buscar (int_de_u32 pid) (km_contextos (sk_km (km_remoto c))) = Some ctx"
    and "unat (PC (registros c)) < length (ctx_instrucciones ctx)" "unat (PC (registros c)) < 2 ^ 31"
    and "ctx_instrucciones ctx ! unat (PC (registros c)) = linea" "CHR 0x00 \<notin> set linea"
    and "linea \<noteq> []" "length linea \<le> 10000" "cpu_malloc c (u32_de_int (int (length linea) + 1))"
  shows "fetch pid c = (c, Some linea)"
  by (rule fetch_linea [OF assms])

lemma fetch_trae_la_linea_ejemplo: "fetch 1 cpu_ej = (cpu_ej, Some ''SET AX 5'')"
proof -
  have i: "map_option ctx_instrucciones (contexto_buscar (int_de_u32 1) (km_contextos (sk_km (km_remoto cpu_ej)))) =
      Some [''SET AX 5'', ''MOV_OUT AX'', ''EXIT'']" "PC (registros cpu_ej) = 0" "km_conectado cpu_ej"
    by code_simp+
  have m: "cpu_malloc cpu_ej (u32_de_int 9)" by code_simp
  obtain ctx where "contexto_buscar (int_de_u32 1) (km_contextos (sk_km (km_remoto cpu_ej))) = Some ctx"
    "ctx_instrucciones ctx = [''SET AX 5'', ''MOV_OUT AX'', ''EXIT'']" using i(1) by auto
  from fetch_trae_la_linea [OF i(3) this(1), of "''SET AX 5''"] this(2) i(2) m show ?thesis by simp
qed

text \<open>\<open>decode\<close> splits an instruction written with single blanks in its operation and its
  parameters; a parameter that is missing is null.\<close>

lemma decode_separa:
  assumes "op \<noteq> []" "a \<noteq> []" "b \<noteq> []"
    and "\<forall>x \<in> set op \<union> set a \<union> set b. \<not> delimitador x"
  shows "decode (op @ '' '' @ a @ '' '' @ b) = (Some op, Some a, Some b) \<and>
    decode (op @ '' '' @ a) = (Some op, Some a, None) \<and>
    decode op = (Some op, None, None)"
proof -
  have e: "delimitador CHR 0x20" by (simp add: delimitador_def)
  have s: "strtok (w @ CHR 0x20 # t) = (Some w, t)" "strtok w = (Some w, [])"
    if nw: "w \<noteq> []" and dw: "\<forall>x \<in> set w. \<not> delimitador x" for w t
  proof -
    obtain y ys where w: "w = y # ys" using nw by (cases w) auto
    have y: "\<not> delimitador y" "\<forall>x \<in> set ys. \<not> delimitador x" using dw w by auto
    have t1: "takeWhile (\<lambda>c. \<not> delimitador c) (ys @ CHR 0x20 # t) = ys"
      "dropWhile (\<lambda>c. \<not> delimitador c) (ys @ CHR 0x20 # t) = CHR 0x20 # t"
      using y(2) e by (simp_all add: takeWhile_append2 dropWhile_append2)
    have t2: "takeWhile (\<lambda>c. \<not> delimitador c) ys = ys" "dropWhile (\<lambda>c. \<not> delimitador c) ys = []"
      using y(2) by (simp_all add: takeWhile_eq_all_conv dropWhile_eq_Nil_conv)
    show "strtok (w @ CHR 0x20 # t) = (Some w, t)" using y(1) t1 by (simp add: strtok_def w)
    show "strtok w = (Some w, [])" using y(1) by (simp add: strtok_def w t2)
  qed
  have n: "strtok [] = (None, [])" by (simp add: strtok_def)
  show ?thesis
    using s [OF assms(1)] s [OF assms(2)] s [OF assms(3)] assms(4) n
    by (simp add: decode_def ball_Un)
qed

lemma decode_separa_ejemplo:
  "decode ''SET AX 5'' = (Some ''SET'', Some ''AX'', Some ''5'')"
  using decode_separa [of "''SET''" "''AX''" "''5''"] by (simp add: delimitador_def)

section \<open>Running a process\<close>

text \<open>The same run with a bound on the number of cycles.\<close>

fun ciclos :: "nat \<Rightarrow> u32 \<Rightarrow> cpu \<Rightarrow> (cpu \<times> t_motivo_desalojo) option" where
  "ciclos 0 pid c = None"
| "ciclos (Suc n) pid c =
     (case ejecutar_ciclo_instruccion pid c of (c1, motivo) \<Rightarrow>
        if motivo = CPU_MOTIVO_CONTINUAR then ciclos n pid c1 else Some (c1, motivo))"

lemma ciclos_ejecutar: "ciclos n pid c = Some r \<Longrightarrow> ejecutar_proceso pid c = Some r"
proof (induction n arbitrary: c)
  case (Suc n)
  obtain c1 motivo where "ejecutar_ciclo_instruccion pid c = (c1, motivo)" by (metis surj_pair)
  with Suc show ?case by (subst ejecutar_proceso.simps) (simp split: if_splits)
qed simp

lemma ejecutar_ciclos:
  assumes "ejecutar_proceso pid c = Some r"
  shows "\<exists>n. ciclos n pid c = Some r \<and> snd r \<noteq> CPU_MOTIVO_CONTINUAR"
proof (rule ejecutar_proceso.raw_induct [OF _ assms])
  fix ej pid c r
  assume IH: "\<And>pid c r. ej pid c = Some r \<Longrightarrow> \<exists>n. ciclos n pid c = Some r \<and> snd r \<noteq> CPU_MOTIVO_CONTINUAR"
    and r: "(case ejecutar_ciclo_instruccion pid c of (c1, motivo) \<Rightarrow>
      if motivo = CPU_MOTIVO_CONTINUAR then ej pid c1 else Some (c1, motivo)) = Some r"
  obtain c1 motivo where e: "ejecutar_ciclo_instruccion pid c = (c1, motivo)" by (metis surj_pair)
  show "\<exists>n. ciclos n pid c = Some r \<and> snd r \<noteq> CPU_MOTIVO_CONTINUAR"
  proof (cases "motivo = CPU_MOTIVO_CONTINUAR")
    case True
    then have "ej pid c1 = Some r" using r e by simp
    from IH [OF this] obtain n where "ciclos n pid c1 = Some r" "snd r \<noteq> CPU_MOTIVO_CONTINUAR" by blast
    then show ?thesis using e True by (intro exI [of _ "Suc n"]) simp
  next
    case False
    then show ?thesis using r e by (intro exI [of _ "Suc 0"]) auto
  qed
qed

text \<open>Running a process returns a result exactly when some number of instruction cycles gives
  it, and it never returns to the scheduler with the process still able to continue.\<close>

lemma ejecutar_proceso_vuelve:
  "ejecutar_proceso pid c = Some r \<longleftrightarrow>
     (\<exists>n. ciclos n pid c = Some r \<and> snd r \<noteq> CPU_MOTIVO_CONTINUAR)"
  using ciclos_ejecutar ejecutar_ciclos by blast

text \<open>An instruction that only works on registers other than the program counter.\<close>

definition lineal :: "string \<Rightarrow> bool" where
  "lineal l \<longleftrightarrow>
     CHR 0x00 \<notin> set l \<and> l \<noteq> [] \<and> length l \<le> 10000 \<and>
     (case decode l of
        (Some op, p1, p2) \<Rightarrow>
          op = ''NOOP'' \<or>
          (op \<in> {''SET'', ''SUM'', ''SUB''} \<and> p1 \<noteq> None \<and> p1 \<noteq> Some ''PC'' \<and> p2 \<noteq> None)
      | _ \<Rightarrow> False)"

lemma PC_operaciones:
  "PC (ejecutar_NOOP r) = PC r" "a \<noteq> ''PC'' \<Longrightarrow> PC (ejecutar_SET a v r) = PC r"
  "a \<noteq> ''PC'' \<Longrightarrow> PC (ejecutar_SUM a b r) = PC r" "a \<noteq> ''PC'' \<Longrightarrow> PC (ejecutar_SUB a b r) = PC r"
  by (simp_all add: ejecutar_NOOP_def ejecutar_SET_def ejecutar_SUM_def ejecutar_SUB_def Let_def PC_setear)

lemma execute_lineal:
  assumes "lineal l" "decode l = (op, p1, p2)"
  shows "\<exists>regs. execute pid op p1 p2 c = (c\<lparr>registros := regs\<rparr>, CPU_MOTIVO_CONTINUAR) \<and>
    PC regs = PC (registros c) + 1"
proof -
  note defs = execute_def incrementar_PC_def con_registros_def PC_operaciones Let_def
  obtain o' where o': "op = Some o'"
    "o' = ''NOOP'' \<or> (o' \<in> {''SET'', ''SUM'', ''SUB''} \<and> p1 \<noteq> None \<and> p1 \<noteq> Some ''PC'' \<and> p2 \<noteq> None)"
    using assms by (cases op) (auto simp: lineal_def)
  show ?thesis
  proof (cases "o' = ''NOOP''")
    case True
    then show ?thesis by (simp add: o'(1) defs) (rule exI, rule conjI, rule refl, simp add: PC_operaciones)
  next
    case False
    then obtain a b where ab: "p1 = Some a" "p2 = Some b" "a \<noteq> ''PC''" "o' = ''SET'' \<or> o' = ''SUM'' \<or> o' = ''SUB''"
      using o'(2) by auto
    from ab(4) show ?thesis
    proof (elim disjE)
      assume "o' = ''SET''"
      then show ?thesis
        by (intro exI [of _ "(ejecutar_SET a (u32_de_int (atoi b)) (registros c))\<lparr>PC := PC (registros c) + 1\<rparr>"])
          (simp add: o'(1) ab(1-3) defs)
    next
      assume "o' = ''SUM''"
      then show ?thesis
        by (intro exI [of _ "(ejecutar_SUM a b (registros c))\<lparr>PC := PC (registros c) + 1\<rparr>"])
          (simp add: o'(1) ab(1-3) defs)
    next
      assume "o' = ''SUB''"
      then show ?thesis
        by (intro exI [of _ "(ejecutar_SUB a b (registros c))\<lparr>PC := PC (registros c) + 1\<rparr>"])
          (simp add: o'(1) ab(1-3) defs)
    qed
  qed
qed

text \<open>What a run of such instructions needs of the CPU, and keeps.\<close>

definition listo :: "u32 \<Rightarrow> string list \<Rightarrow> cpu \<Rightarrow> bool" where
  "listo pid ls c \<longleftrightarrow>
     km_conectado c \<and> (\<forall>n. cpu_malloc c n) \<and> interrupcion_pendiente_pid c = - 1 \<and> ks_sondeos c = [] \<and>
     map_option ctx_instrucciones (contexto_buscar (int_de_u32 pid) (km_contextos (sk_km (km_remoto c)))) = Some ls"

lemma listo_registros [simp]: "listo pid ls (c\<lparr>registros := regs\<rparr>) = listo pid ls c"
  by (simp add: listo_def)

lemma fetch_listo:
  assumes "listo pid ls c" "PC (registros c) = of_nat i" "i < length ls" "length ls < 2 ^ 31"
    and "CHR 0x00 \<notin> set (ls ! i)" "ls ! i \<noteq> []" "length (ls ! i) \<le> 10000"
  shows "fetch pid c = (c, Some (ls ! i))"
proof -
  have u: "unat (of_nat i :: u32) = i" using assms(3,4) by (simp add: unat_of_nat)
  obtain ctx where ctx: "contexto_buscar (int_de_u32 pid) (km_contextos (sk_km (km_remoto c))) = Some ctx"
    "ctx_instrucciones ctx = ls" using assms(1) by (auto simp: listo_def)
  have "km_conectado c" "\<forall>n. cpu_malloc c n" using assms(1) by (simp_all add: listo_def)
  with fetch_linea [OF _ ctx(1), of "ls ! i"] assms(2-7) show ?thesis by (simp add: u ctx(2))
qed

lemma ciclos_lineal:
  assumes "\<forall>l \<in> set ls. lineal l" "length ls + 1 < 2 ^ 31"
    and "listo pid (ls @ [''EXIT'']) c" "PC (registros c) = of_nat i" "i \<le> length ls"
  shows "\<exists>regs. PC regs = of_nat (length ls) \<and> ciclos (length ls - i) pid c = None \<and>
    ciclos (Suc (length ls - i)) pid c = Some (c\<lparr>registros := regs\<rparr>, CPU_MOTIVO_EXIT)"
  using assms(3-5)
proof (induction "length ls - i" arbitrary: i c)
  case 0
  then have i: "i = length ls" by simp
  have "fetch pid c = (c, Some ''EXIT'')"
    using fetch_listo [OF 0(2,3)] assms(2) by (simp add: i)
  moreover have "decode ''EXIT'' = (Some ''EXIT'', None, None)" by code_simp
  ultimately have "ejecutar_ciclo_instruccion pid c = (c, CPU_MOTIVO_EXIT)"
    by (simp add: ejecutar_ciclo_instruccion_def execute_def)
  then show ?case
    using 0(3) by (intro exI [of _ "registros c"]) (simp add: i)
next
  case (Suc n)
  have i: "i < length ls" "length ls - i = Suc n" "length ls - Suc i = n" using Suc(2) by simp_all
  then have l: "lineal (ls ! i)" using assms(1) by simp
  obtain op p1 p2 where d: "decode (ls ! i) = (op, p1, p2)" by (metis surj_pair)
  obtain regs where e: "execute pid op p1 p2 c = (c\<lparr>registros := regs\<rparr>, CPU_MOTIVO_CONTINUAR)"
    "PC regs = PC (registros c) + 1" using execute_lineal [OF l d] by blast
  have "fetch pid c = (c, Some (ls ! i))"
    using fetch_listo [OF Suc(3,4)] i l assms(2) by (simp add: nth_append lineal_def)
  moreover have "check_interrupt pid (c\<lparr>registros := regs\<rparr>) = (c\<lparr>registros := regs\<rparr>, False)"
    using Suc(3) by (simp add: check_interrupt_def socket_tiene_datos_def listo_def)
  ultimately have ciclo: "ejecutar_ciclo_instruccion pid c = (c\<lparr>registros := regs\<rparr>, CPU_MOTIVO_CONTINUAR)"
    using d e by (simp add: ejecutar_ciclo_instruccion_def)
  have "\<exists>regs'. PC regs' = of_nat (length ls) \<and> ciclos n pid (c\<lparr>registros := regs\<rparr>) = None \<and>
      ciclos (Suc n) pid (c\<lparr>registros := regs\<rparr>) = Some (c\<lparr>registros := regs'\<rparr>, CPU_MOTIVO_EXIT)"
    using Suc(1) [of "Suc i" "c\<lparr>registros := regs\<rparr>"] Suc(3,4) i e(2) by (simp del: ciclos.simps)
  then show ?case unfolding i(2) by (subst (1 2) ciclos.simps(2)) (simp add: ciclo del: ciclos.simps)
qed

text \<open>C20: a script of straight-line instructions on registers (\<open>NOOP\<close>, \<open>SET\<close>, \<open>SUM\<close> and \<open>SUB\<close>, none of
  them on \<open>PC\<close>, and no \<open>JNZ\<close>) ended by \<open>EXIT\<close>, in a CPU that reaches Kernel Memory, is granted its
  \<open>malloc\<close> and has no interrupt pending or arriving, leaves the CPU with the reason \<open>CPU_MOTIVO_EXIT\<close> after exactly one cycle for each instruction
  that is left and one for \<open>EXIT\<close>, and changes nothing but the registers.\<close>

theorem programa_lineal_termina:
  assumes "listo pid (ls @ [''EXIT'']) c" "\<forall>l \<in> set ls. lineal l" "length ls + 1 < 2 ^ 31"
    and "PC (registros c) = of_nat i" "i \<le> length ls"
  shows "\<exists>regs. PC regs = of_nat (length ls) \<and>
    ejecutar_proceso pid c = Some (c\<lparr>registros := regs\<rparr>, CPU_MOTIVO_EXIT) \<and>
    ciclos (length ls - i) pid c = None \<and>
    ciclos (Suc (length ls - i)) pid c = Some (c\<lparr>registros := regs\<rparr>, CPU_MOTIVO_EXIT)"
proof -
  have "\<exists>regs. PC regs = of_nat (length ls) \<and> ciclos (length ls - i) pid c = None \<and>
      ciclos (Suc (length ls - i)) pid c = Some (c\<lparr>registros := regs\<rparr>, CPU_MOTIVO_EXIT)"
    using ciclos_lineal [OF assms(2,3,1,4,5)] .
  then show ?thesis using ciclos_ejecutar by blast
qed

lemma programa_lineal_termina_ejemplo:
  "let c = cpu_ej\<lparr>km_remoto := servidor_lineal\<rparr>
   in \<exists>regs. ejecutar_proceso 1 c = Some (c\<lparr>registros := regs\<rparr>, CPU_MOTIVO_EXIT) \<and> PC regs = of_nat 2 \<and>
     ciclos 2 1 c = None \<and> ciclos (Suc 2) 1 c \<noteq> None"
proof -
  let ?c = "cpu_ej\<lparr>km_remoto := servidor_lineal\<rparr>" and ?ls = "[''SET AX 5'', ''SUM BX AX'']"
  have l: "listo 1 (?ls @ [''EXIT'']) ?c"
    by (simp add: listo_def cpu_ej_def cpu_nueva_def servidor_lineal_def contexto_ej_def)
      (simp add: int_de_u32_def)
  have m: "\<forall>l \<in> set ?ls. lineal l" by code_simp
  have pc: "PC (registros ?c) = of_nat 0" by (simp add: cpu_ej_def cpu_nueva_def inicializar_registros_def)
  have n: "length ?ls - 0 = 2" "length ?ls = 2" by simp_all
  obtain regs where "PC regs = of_nat (length ?ls)" "ejecutar_proceso 1 ?c = Some (?c\<lparr>registros := regs\<rparr>, CPU_MOTIVO_EXIT)"
    "ciclos (length ?ls - 0) 1 ?c = None"
    "ciclos (Suc (length ?ls - 0)) 1 ?c = Some (?c\<lparr>registros := regs\<rparr>, CPU_MOTIVO_EXIT)"
    using programa_lineal_termina [OF l m _ pc] by fastforce
  then show ?thesis unfolding n Let_def by (intro exI [of _ regs]) (simp del: ciclos.simps)
qed

section \<open>Interrupts\<close>

text \<open>With an interrupt remembered for the process, an instruction on registers ends its turn.\<close>

lemma ciclo_interrumpido:
  assumes "fetch pid d = (d, Some l)" "lineal l" "interrupcion_pendiente_pid d = int_de_u32 pid" "pid \<noteq> - 1"
  shows "\<exists>regs. PC regs = PC (registros d) + 1 \<and> ejecutar_proceso pid d =
    Some (d\<lparr>registros := regs, interrupcion_pendiente_pid := - 1\<rparr>, CPU_MOTIVO_FIN_QUANTUM)"
proof -
  obtain op p1 p2 where de: "decode l = (op, p1, p2)" by (metis surj_pair)
  obtain regs where e: "execute pid op p1 p2 d = (d\<lparr>registros := regs\<rparr>, CPU_MOTIVO_CONTINUAR)"
    "PC regs = PC (registros d) + 1" using execute_lineal [OF assms(2) de] by blast
  have "int_de_u32 pid \<noteq> - 1"
    using assms(4) u32_de_int_de_u32 [of pid] by (auto simp: u32_de_int_def)
  then have "ejecutar_ciclo_instruccion pid d =
      (d\<lparr>registros := regs, interrupcion_pendiente_pid := - 1\<rparr>, CPU_MOTIVO_FIN_QUANTUM)"
    using assms(1,3) de e(1) by (simp add: ejecutar_ciclo_instruccion_def check_interrupt_def)
  then show ?thesis using e(2) by (intro exI [of _ regs]) (simp add: ejecutar_proceso.simps)
qed

text \<open>C40: an interrupt that arrives while the CPU waits for the answer of a system call is not lost.
  When the answer is \<open>OP_BLOQUEADO\<close> and the process leaves the CPU, nothing clears it: if the next
  process that the scheduler sends to this CPU is the same one, and its next instruction is one
  on registers (with Kernel Memory there to answer and \<open>malloc\<close> granted), then the turn of the loop of \<open>main\<close> that runs it executes that instruction alone,
  saves the context and notifies the end of a quantum that has just started.\<close>

theorem interrupcion_pendiente:
  assumes "ks_entrada c = bytes_int (codigo OP_INTERRUMPIR_PROCESO) @ bytes_u32 pid @ bytes_int (codigo OP_BLOQUEADO) @
      bytes_int (codigo OP_EJECUTAR_PROCESO) @ bytes_u32 pid @ resto"
    and "pid \<noteq> - 1" "recibir_respuesta_scheduler c = (c1, r)"
    and "km_conectado c1" "\<forall>n. cpu_malloc c1 n"
    and "contexto_buscar (int_de_u32 pid) (km_contextos (sk_km (km_remoto c1))) = Some ctx"
    and "\<forall>x \<in> set (ctx_tabla ctx). en_int (seg_id (km_segs (sk_km (km_remoto c1)) x))" "length (ctx_tabla ctx) < 2 ^ 31"
    and "unat (PC (ctx_registros ctx)) < length (ctx_instrucciones ctx)" "length (ctx_instrucciones ctx) < 2 ^ 31"
    and "lineal (ctx_instrucciones ctx ! unat (PC (ctx_registros ctx)))"
  shows "r = Some (codigo OP_BLOQUEADO) \<and>
    (\<exists>c2 regs. atender_scheduler (avisar_fin_a_scheduler pid CPU_MOTIVO_SYSCALL_BLOQUEANTE c1) = Sigue c2 \<and>
       ks_entrada c2 = resto \<and>
       ks_salida c2 = ks_salida c @ bytes_int (codigo OP_PROCESO_FIN_QUANTUM) @ bytes_u32 pid \<and>
       contexto_buscar (int_de_u32 pid) (km_contextos (sk_km (km_remoto c2))) = Some (ctx\<lparr>ctx_registros := regs\<rparr>) \<and>
       PC regs = PC (ctx_registros ctx) + 1)"
proof -
  let ?resto = "bytes_int (codigo OP_EJECUTAR_PROCESO) @ bytes_u32 pid @ resto" and ?h = "km_remoto c1"
  have "esperar_respuesta p (bytes_int (codigo OP_BLOQUEADO) @ ?resto) = (p, ?resto, Some (codigo OP_BLOQUEADO))" for p
    by (simp add: esperar_respuesta.simps [of p])
  then have e: "esperar_respuesta p (ks_entrada c) = (int_de_u32 pid, ?resto, Some (codigo OP_BLOQUEADO))" for p
    unfolding assms(1) by (simp add: esperar_respuesta.simps [of p])
  then have c1: "c1 = pasa_el_tiempo (c\<lparr>interrupcion_pendiente_pid := int_de_u32 pid, ks_entrada := ?resto\<rparr>)"
    "r = Some (codigo OP_BLOQUEADO)"
    using assms(3) by (simp_all add: recibir_respuesta_scheduler_def)
  have q: "interrupcion_pendiente_pid c1 = int_de_u32 pid" "ks_entrada c1 = ?resto" "ks_salida c1 = ks_salida c"
    by (simp_all add: c1 pasa_el_tiempo_def split: list.split)
  define d where "d = c1\<lparr>ks_entrada := resto, registros := ctx_registros ctx,
    tabla_segmentos := map (km_segs (sk_km ?h)) (ctx_tabla ctx)\<rparr>"
  have d: "obtener_contexto pid (c1\<lparr>ks_entrada := resto\<rparr>) = (d, True)"
    using obtener_contexto_ok [of "c1\<lparr>ks_entrada := resto\<rparr>" ?h pid ctx] assms(4-8) by (simp add: d_def)
  let ?l = "ctx_instrucciones ctx ! unat (PC (ctx_registros ctx))"
  have "fetch pid d = (d, Some ?l)"
    using fetch_linea [of d pid ctx ?l] assms(4-6,9-11) by (simp add: d_def lineal_def)
  from ciclo_interrumpido [OF this assms(11) _ assms(2)] obtain regs where
    p: "PC regs = PC (ctx_registros ctx) + 1" "ejecutar_proceso pid d =
      Some (d\<lparr>registros := regs, interrupcion_pendiente_pid := - 1\<rparr>, CPU_MOTIVO_FIN_QUANTUM)"
    using q(1) by (auto simp: d_def)
  let ?d = "d\<lparr>registros := regs, interrupcion_pendiente_pid := - 1\<rparr>"
  have "atender_scheduler c1 = Sigue (avisar_fin_a_scheduler pid CPU_MOTIVO_FIN_QUANTUM ?d)"
    using d p(2) by (simp add: atender_scheduler_def recibir_ks_def q(2))
  moreover have "fst (guardar_contexto pid ?d) = ?d\<lparr>km_remoto := con_km ((sk_km ?h)\<lparr>km_contextos :=
      contexto_guardar (int_de_u32 pid) regs (km_contextos (sk_km ?h))\<rparr>) ?h\<rparr>"
    using guardar_contexto_ok [of ?d ?h pid] assms(4) by (simp add: d_def)
  ultimately show ?thesis
    using c1(2) p(1) assms(6) q(3)
    by (simp add: avisar_fin_a_scheduler_def enviar_ks_def d_def con_km_def buscar_guardar) blast
qed

lemma interrupcion_pendiente_ejemplo:
  "let c = cpu_ej\<lparr>ks_entrada := bytes_int (codigo OP_INTERRUMPIR_PROCESO) @ bytes_u32 1 @ bytes_int (codigo OP_BLOQUEADO) @
       bytes_int (codigo OP_EJECUTAR_PROCESO) @ bytes_u32 1\<rparr>
   in \<exists>c2. atender_scheduler (fst (recibir_respuesta_scheduler c)) = Sigue c2 \<and>
     ks_salida c2 = bytes_int (codigo OP_PROCESO_FIN_QUANTUM) @ bytes_u32 1"
proof -
  let ?c = "cpu_ej\<lparr>ks_entrada := bytes_int (codigo OP_INTERRUMPIR_PROCESO) @ bytes_u32 1 @ bytes_int (codigo OP_BLOQUEADO) @
       bytes_int (codigo OP_EJECUTAR_PROCESO) @ bytes_u32 1\<rparr>"
  obtain c1 r where r: "recibir_respuesta_scheduler ?c = (c1, r)" by (metis surj_pair)
  have c1: "km_remoto c1 = servidor_ej" "km_conectado c1" "\<forall>n. cpu_malloc c1 n" "ks_salida ?c = []"
    using r by (auto simp: recibir_respuesta_scheduler_def pasa_el_tiempo_def cpu_ej_def cpu_nueva_def split: prod.splits)
  have i: "int_de_u32 1 = 1" "lineal ''SET AX 5''" by code_simp+
  have x: "contexto_buscar (int_de_u32 1) (km_contextos (sk_km (km_remoto c1))) = Some contexto_ej"
    by (simp add: c1(1) i(1) servidor_ej_def contexto_ej_def)
  have e: "ks_entrada ?c = bytes_int (codigo OP_INTERRUMPIR_PROCESO) @ bytes_u32 1 @ bytes_int (codigo OP_BLOQUEADO) @
       bytes_int (codigo OP_EJECUTAR_PROCESO) @ bytes_u32 1 @ []" by simp
  have k: "\<forall>x \<in> set (ctx_tabla contexto_ej). en_int (seg_id (km_segs (sk_km (km_remoto c1)) x))"
    "ctx_tabla contexto_ej = [0, 1]" "PC (ctx_registros contexto_ej) = 0"
    "ctx_instrucciones contexto_ej = [''SET AX 5'', ''MOV_OUT AX'', ''EXIT'']"
    by (simp_all add: c1(1) servidor_ej_def contexto_ej_def en_int_def inicializar_registros_def)
  from interrupcion_pendiente [OF e _ r c1(2,3) x k(1)] k(2-4) i(2) c1(4) show ?thesis
    by (auto simp: r avisar_fin_a_scheduler_def)
qed

end
