(* ===== verification/Planificador.thy ===== *)
theory Planificador
  imports Texto Orden
begin

text \<open>
  \<open>kernel_scheduler/src/main.c\<close>: the state of the Kernel Scheduler, its ready queues, the
  dispatch of a process to a CPU and the two timers.

  Processes, CPUs and timers are structures on the heap that the lists and the threads share
  by pointer, so they live in stores and the lists hold their addresses; addresses are not
  reused.  Each function is given by its critical sections of \<open>mutex_listas\<close>, together with
  the messages and the \<open>sem_post\<close> calls that follow each of them.
\<close>

section \<open>State\<close>

datatype t_estado = NEW | READY | EXEC | BLOCK | SUSP_READY | SUSP_BLOCK | EXIT_STATE

record t_cpu =
  cp_socket :: int
  cp_id :: int

record t_timer =
  tm_socket_cpu :: int
  tm_pid :: int

record t_proceso =
  pid :: int
  prioridad :: int
  prioridad_original :: int
  estado :: t_estado
  socket_cpu :: int
  pr_cpu :: "nat option"
  timer :: "nat option"
  io_tiempo :: int
  io_direccion_fisica :: int
  io_tamanio :: int
  tiempo_suspension :: int

record t_mutex =
  nombre :: string
  pid_dueno :: int
  cola_espera :: "nat list"

record ks =
  algoritmo_planificacion :: string
  algoritmos_por_cola :: "string list"
  desalojo_entre_colas :: bool
  proximo_pid :: int
  procs :: "nat \<Rightarrow> t_proceso"
  prox_proc :: nat
  cpus :: "nat \<Rightarrow> t_cpu"
  prox_cpu :: nat
  timers :: "nat \<Rightarrow> t_timer"
  prox_timer :: nat
  lista_new :: "nat list"
  lista_ready :: "nat list"
  colas_ready :: "nat list list"
  lista_ready_invalida :: "nat list"
  lista_exec :: "nat list"
  lista_block :: "nat list"
  lista_susp_ready :: "nat list"
  lista_susp_block :: "nat list"
  lista_cpus_libres :: "nat list"
  lista_mutex :: "t_mutex list"
  cola_espera_sleep :: "nat list"
  cola_espera_stdin :: "nat list"
  cola_espera_stdout :: "nat list"
  sem_cola_sleep :: nat
  sem_cola_stdin :: nat
  sem_cola_stdout :: nat
  sem_puede_planificar :: nat
  sem_hay_procesos_ready :: nat
  sem_hay_cpus_libres :: nat
  compactando :: bool
  proceso_esperando_memoria :: "nat option"
  cpu_esperando_memoria :: "nat option"
  bsod_activo :: bool
  cpus_pendientes_bsod :: int
  termino :: bool                      \<comment> \<open>the process called \<open>exit\<close>\<close>
  reloj :: int                         \<comment> \<open>what \<open>time(NULL)\<close> returns\<close>
  entrada :: "int \<Rightarrow> byte list"        \<comment> \<open>the bytes each socket will still deliver\<close>
  salida :: "int \<Rightarrow> byte list"         \<comment> \<open>the bytes written to each socket\<close>
  socket_memoria_global :: int
  socket_notificaciones_memoria :: int

definition es_CMN :: "ks \<Rightarrow> bool" where
  "es_CMN k \<longleftrightarrow> algoritmo_planificacion k = ''CMN''"

definition cantidad_colas :: "ks \<Rightarrow> nat" where
  "cantidad_colas k = length (algoritmos_por_cola k)"

definition inicializar_estructuras ::
    "string \<Rightarrow> string list \<Rightarrow> bool \<Rightarrow> int \<Rightarrow> int \<Rightarrow> (int \<Rightarrow> byte list) \<Rightarrow> ks" where
  "inicializar_estructuras alg algs desalojo s_mem s_not ent =
     \<lparr>algoritmo_planificacion = alg, algoritmos_por_cola = algs, desalojo_entre_colas = desalojo,
      proximo_pid = 0,
      procs = (\<lambda>_. \<lparr>pid = 0, prioridad = 0, prioridad_original = 0, estado = NEW, socket_cpu = - 1,
        pr_cpu = None, timer = None, io_tiempo = 0, io_direccion_fisica = 0, io_tamanio = 0,
        tiempo_suspension = 0\<rparr>), prox_proc = 0,
      cpus = (\<lambda>_. \<lparr>cp_socket = - 1, cp_id = 0\<rparr>), prox_cpu = 0,
      timers = (\<lambda>_. \<lparr>tm_socket_cpu = - 1, tm_pid = 0\<rparr>), prox_timer = 0,
      lista_new = [], lista_ready = [],
      colas_ready = (if alg = ''CMN'' then replicate (length algs) [] else []),
      lista_ready_invalida = [], lista_exec = [], lista_block = [], lista_susp_ready = [],
      lista_susp_block = [], lista_cpus_libres = [], lista_mutex = [],
      cola_espera_sleep = [], cola_espera_stdin = [], cola_espera_stdout = [],
      sem_cola_sleep = 0, sem_cola_stdin = 0, sem_cola_stdout = 0,
      sem_puede_planificar = 1, sem_hay_procesos_ready = 0, sem_hay_cpus_libres = 0,
      compactando = False, proceso_esperando_memoria = None, cpu_esperando_memoria = None,
      bsod_activo = False, cpus_pendientes_bsod = 0, termino = False, reloj = 0,
      entrada = ent, salida = (\<lambda>_. []), socket_memoria_global = s_mem,
      socket_notificaciones_memoria = s_not\<rparr>"

section \<open>Sockets and structures\<close>

definition enviar_bytes :: "int \<Rightarrow> byte list \<Rightarrow> ks \<Rightarrow> ks" where
  "enviar_bytes s bs k = k\<lparr>salida := (salida k)(s := salida k s @ bs)\<rparr>"

definition enviar_entero :: "int \<Rightarrow> int \<Rightarrow> ks \<Rightarrow> ks" where
  "enviar_entero s v k = enviar_bytes s (bytes_int v) k"

definition enviar_codigo :: "int \<Rightarrow> op_code \<Rightarrow> ks \<Rightarrow> ks" where
  "enviar_codigo s c k = enviar_entero s (codigo c) k"

definition recibir_entero :: "int \<Rightarrow> ks \<Rightarrow> ks \<times> int option" where
  "recibir_entero s k =
     (case recibir_int (entrada k s) of
        None \<Rightarrow> (k\<lparr>entrada := (entrada k)(s := [])\<rparr>, None)
      | Some (v, r) \<Rightarrow> (k\<lparr>entrada := (entrada k)(s := r)\<rparr>, Some v))"

text \<open>Most callers ignore the failure: their variable keeps the 0 it was given.\<close>

definition recibir_o_cero :: "int \<Rightarrow> ks \<Rightarrow> ks \<times> int" where
  "recibir_o_cero s k =
     (case recibir_entero s k of (k1, None) \<Rightarrow> (k1, 0) | (k1, Some v) \<Rightarrow> (k1, v))"

text \<open>
  \<open>recibir_string\<close>; \<open>None\<close> is a negative length, or contents cut by the end of the
  connection, whose missing bytes are whatever \<open>malloc\<close> left there.
\<close>

definition recibir_string :: "int \<Rightarrow> ks \<Rightarrow> (ks \<times> string) option" where
  "recibir_string s k =
     (case recibir_o_cero s k of (k1, n) \<Rightarrow>
        if n < 0 then None
        else (case recibir_exacto (nat n) (entrada k1 s) of
                None \<Rightarrow> None
              | Some (bs, r) \<Rightarrow> Some (k1\<lparr>entrada := (entrada k1)(s := r)\<rparr>, cadena bs)))"

definition modificar :: "nat \<Rightarrow> (t_proceso \<Rightarrow> t_proceso) \<Rightarrow> ks \<Rightarrow> ks" where
  "modificar p f k = k\<lparr>procs := (procs k)(p := f (procs k p))\<rparr>"

definition poner_estado :: "nat \<Rightarrow> t_estado \<Rightarrow> ks \<Rightarrow> ks" where
  "poner_estado p e = modificar p (\<lambda>r. r\<lparr>estado := e\<rparr>)"

definition cancelar_timer :: "nat \<Rightarrow> ks \<Rightarrow> ks" where
  "cancelar_timer p = modificar p (\<lambda>r. r\<lparr>timer := None\<rparr>)"

section \<open>The ready queues\<close>

fun peor_desde :: "(nat \<Rightarrow> t_proceso) \<Rightarrow> nat option \<Rightarrow> nat list \<Rightarrow> nat option" where
  "peor_desde ps peor [] = peor"
| "peor_desde ps peor (q # qs) =
     peor_desde ps
       (case peor of
          None \<Rightarrow> Some q
        | Some m \<Rightarrow> if prioridad (ps q) > prioridad (ps m) then Some q else Some m) qs"

definition interrumpir :: "int \<Rightarrow> int \<Rightarrow> ks \<Rightarrow> ks" where
  "interrumpir s v k = enviar_entero s v (enviar_codigo s OP_INTERRUMPIR_PROCESO k)"

text \<open>
  The preemption between queues: the running process of worst priority is interrupted when
  it is worse than the one that enters.
\<close>

definition desalojar_por_prioridad :: "nat \<Rightarrow> ks \<Rightarrow> ks" where
  "desalojar_por_prioridad p k =
     (case peor_desde (procs k) None (lista_exec k) of
        None \<Rightarrow> k
      | Some m \<Rightarrow>
          if prioridad (procs k m) > prioridad (procs k p)
          then interrumpir (socket_cpu (procs k m)) (pid (procs k m)) k else k)"

definition en_rango :: "nat \<Rightarrow> ks \<Rightarrow> bool" where
  "en_rango p k \<longleftrightarrow> 0 \<le> prioridad (procs k p) \<and> prioridad (procs k p) < int (cantidad_colas k)"

definition encolar_en_ready :: "nat \<Rightarrow> ks \<Rightarrow> ks \<times> bool" where
  "encolar_en_ready p k =
     (if es_CMN k then
        if \<not> en_rango p k then (k\<lparr>lista_ready_invalida := lista_ready_invalida k @ [p]\<rparr>, False)
        else
          let c = nat (prioridad (procs k p));
              k1 = k\<lparr>colas_ready := (colas_ready k)[c := colas_ready k ! c @ [p]]\<rparr>
          in (if desalojo_entre_colas k then desalojar_por_prioridad p k1 else k1, True)
      else (k\<lparr>lista_ready := lista_ready k @ [p]\<rparr>, True))"

definition encolar_al_frente_de_ready :: "nat \<Rightarrow> ks \<Rightarrow> ks \<times> bool" where
  "encolar_al_frente_de_ready p k =
     (if es_CMN k then
        if \<not> en_rango p k then (k\<lparr>lista_ready_invalida := lista_ready_invalida k @ [p]\<rparr>, False)
        else
          let c = nat (prioridad (procs k p))
          in (k\<lparr>colas_ready := (colas_ready k)[c := p # colas_ready k ! c]\<rparr>, True)
      else (k\<lparr>lista_ready := p # lista_ready k\<rparr>, True))"

definition post_ready :: "ks \<times> bool \<Rightarrow> ks" where
  "post_ready r =
     (case r of (k, planificable) \<Rightarrow>
        if planificable then k\<lparr>sem_hay_procesos_ready := Suc (sem_hay_procesos_ready k)\<rparr> else k)"

definition mover_proceso_a_ready :: "nat \<Rightarrow> ks \<Rightarrow> ks" where
  "mover_proceso_a_ready p k =
     post_ready (encolar_en_ready p (poner_estado p READY (k\<lparr>lista_new := remove1 p (lista_new k)\<rparr>)))"

definition mover_proceso_de_block_a_ready :: "nat \<Rightarrow> ks \<Rightarrow> ks" where
  "mover_proceso_de_block_a_ready p k =
     post_ready (encolar_en_ready p (poner_estado p READY (k\<lparr>lista_block := remove1 p (lista_block k)\<rparr>)))"

text \<open>The move to \<open>SUSP_READY\<close> that ends the wait of a suspended process.\<close>

definition mover_a_susp_ready :: "nat \<Rightarrow> ks \<Rightarrow> ks" where
  "mover_a_susp_ready p k =
     (modificar p (\<lambda>r. r\<lparr>estado := SUSP_READY, tiempo_suspension := reloj k\<rparr>) k)
       \<lparr>lista_susp_block := remove1 p (lista_susp_block k), lista_susp_ready := lista_susp_ready k @ [p]\<rparr>"

section \<open>Dispatch\<close>

text \<open>
  The next process and whether it needs a quantum timer.  The queues of \<open>CMN\<close> are searched
  in order.
\<close>

fun primera_cola :: "nat \<Rightarrow> nat list list \<Rightarrow> (nat \<times> nat) option" where
  "primera_cola i [] = None"
| "primera_cola i ([] # qs) = primera_cola (Suc i) qs"
| "primera_cola i ((p # ps) # qs) = Some (i, p)"

definition obtener_proximo_proceso_ready :: "ks \<Rightarrow> ks \<times> (nat \<times> bool) option" where
  "obtener_proximo_proceso_ready k =
     (if es_CMN k then
        (case primera_cola 0 (colas_ready k) of
           None \<Rightarrow> (k, None)
         | Some (i, p) \<Rightarrow>
             (k\<lparr>colas_ready := (colas_ready k)[i := tl (colas_ready k ! i)]\<rparr>,
              Some (p, algoritmos_por_cola k ! i = ''RR'')))
      else (case lista_ready k of
              [] \<Rightarrow> (k, None)
            | p # ps \<Rightarrow> (k\<lparr>lista_ready := ps\<rparr>, Some (p, algoritmo_planificacion k = ''RR''))))"

definition crear_timer :: "int \<Rightarrow> int \<Rightarrow> ks \<Rightarrow> ks \<times> nat" where
  "crear_timer s v k =
     (k\<lparr>timers := (timers k)(prox_timer k := \<lparr>tm_socket_cpu = s, tm_pid = v\<rparr>), prox_timer := Suc (prox_timer k)\<rparr>,
      prox_timer k)"

definition poner_timer :: "nat \<Rightarrow> int \<Rightarrow> ks \<Rightarrow> ks \<times> nat" where
  "poner_timer p s k =
     (case crear_timer s (pid (procs k p)) k of (k1, t) \<Rightarrow> (modificar p (\<lambda>r. r\<lparr>timer := Some t\<rparr>) k1, t))"

text \<open>
  \<open>planificador_corto_plazo\<close> after its three \<open>sem_wait\<close>: the critical section, and the
  messages that follow it.  The first one returns the process, its CPU and the quantum timer,
  if it needs one; without a process it has done its two \<open>sem_post\<close> already.  \<open>None\<close> is the
  access to a null CPU, when the list of free CPUs is empty.
\<close>

definition despachar :: "ks \<Rightarrow> (ks \<times> (nat \<times> nat \<times> nat option) option) option" where
  "despachar k =
     (case obtener_proximo_proceso_ready k of
        (k1, None) \<Rightarrow>
          Some (k1\<lparr>sem_hay_cpus_libres := Suc (sem_hay_cpus_libres k1),
                   sem_puede_planificar := Suc (sem_puede_planificar k1)\<rparr>, None)
      | (k1, Some (p, necesita_timer)) \<Rightarrow>
          (case lista_cpus_libres k1 of
             [] \<Rightarrow> None
           | c # cs \<Rightarrow>
               let s = cp_socket (cpus k1 c);
                   k2 = modificar p (\<lambda>r. r\<lparr>estado := EXEC, pr_cpu := Some c, socket_cpu := s\<rparr>)
                     (k1\<lparr>lista_cpus_libres := cs, lista_exec := lista_exec k1 @ [p]\<rparr>)
               in (if necesita_timer
                   then case poner_timer p s k2 of (k3, t) \<Rightarrow> Some (k3, Some (p, c, Some t))
                   else Some (k2, Some (p, c, None)))))"

definition despachar_enviar :: "nat \<Rightarrow> nat \<Rightarrow> ks \<Rightarrow> ks" where
  "despachar_enviar p c k =
     (let s = cp_socket (cpus k c);
          k1 = enviar_entero s (pid (procs k p)) (enviar_codigo s OP_EJECUTAR_PROCESO k)
      in k1\<lparr>sem_puede_planificar := Suc (sem_puede_planificar k1)\<rparr>)"

section \<open>Searches\<close>

fun buscar_pid :: "(nat \<Rightarrow> t_proceso) \<Rightarrow> int \<Rightarrow> nat list \<Rightarrow> nat option" where
  "buscar_pid ps v [] = None"
| "buscar_pid ps v (p # qs) = (if pid (ps p) = v then Some p else buscar_pid ps v qs)"

lemma buscar_pid_Some: "buscar_pid ps v qs = Some p \<Longrightarrow> p \<in> set qs \<and> pid (ps p) = v"
  by (induction qs) (auto split: if_splits)

lemma buscar_pid_None: "buscar_pid ps v qs = None \<longleftrightarrow> v \<notin> (\<lambda>p. pid (ps p)) ` set qs"
  by (induction qs) auto

definition buscar_proceso_en_exec :: "int \<Rightarrow> ks \<Rightarrow> nat option" where
  "buscar_proceso_en_exec v k = buscar_pid (procs k) v (lista_exec k)"

definition buscar_proceso_por_pid :: "int \<Rightarrow> ks \<Rightarrow> nat option" where
  "buscar_proceso_por_pid v k =
     buscar_pid (procs k) v
       (lista_exec k @ lista_block k @ lista_susp_ready k @ lista_susp_block k @
        (if es_CMN k then concat (colas_ready k) else lista_ready k))"

fun buscar_nombre :: "nat \<Rightarrow> string \<Rightarrow> t_mutex list \<Rightarrow> nat option" where
  "buscar_nombre i n [] = None"
| "buscar_nombre i n (m # ms) = (if nombre m = n then Some i else buscar_nombre (Suc i) n ms)"

lemma buscar_nombre_Some:
  "buscar_nombre i n ms = Some j \<Longrightarrow> i \<le> j \<and> j < i + length ms \<and> nombre (ms ! (j - i)) = n"
proof (induction ms arbitrary: i)
  case (Cons m ms)
  show ?case
  proof (cases "nombre m = n")
    case False
    with Cons.prems have "Suc i \<le> j \<and> j < Suc i + length ms \<and> nombre (ms ! (j - Suc i)) = n"
      by (intro Cons.IH) simp
    moreover from this have "j - i = Suc (j - Suc i)" by linarith
    ultimately show ?thesis by simp
  qed (use Cons.prems in auto)
qed simp

definition buscar_mutex :: "string \<Rightarrow> ks \<Rightarrow> nat option" where
  "buscar_mutex n k = buscar_nombre 0 n (lista_mutex k)"

section \<open>Timers\<close>

text \<open>
  \<open>hilo_quantum\<close> when its sleep ends: the critical section and whether the timer is still
  valid; then the CPU is interrupted.
\<close>

definition hilo_quantum :: "nat \<Rightarrow> ks \<Rightarrow> ks \<times> bool" where
  "hilo_quantum t k =
     (case buscar_proceso_por_pid (tm_pid (timers k t)) k of
        None \<Rightarrow> (k, False)
      | Some p \<Rightarrow>
          if timer (procs k p) = Some t then (cancelar_timer p k, True) else (k, False))"

definition avisar_quantum :: "nat \<Rightarrow> ks \<Rightarrow> ks" where
  "avisar_quantum t k = interrumpir (tm_socket_cpu (timers k t)) (tm_pid (timers k t)) k"

text \<open>
  \<open>hilo_suspension\<close> when its sleep ends: the critical section, with the process that has to be
  suspended, and the request to Kernel Memory that follows.
\<close>

definition hilo_suspension :: "nat \<Rightarrow> ks \<Rightarrow> ks \<times> nat option" where
  "hilo_suspension t k =
     (case buscar_proceso_por_pid (tm_pid (timers k t)) k of
        None \<Rightarrow> (k, None)
      | Some p \<Rightarrow>
          if timer (procs k p) = Some t then
            let k1 = cancelar_timer p k
            in if estado (procs k p) = BLOCK
               then ((poner_estado p SUSP_BLOCK k1)
                       \<lparr>lista_block := remove1 p (lista_block k1),
                        lista_susp_block := lista_susp_block k1 @ [p]\<rparr>, Some p)
               else (k1, None)
          else (k, None))"

definition pedir_memoria :: "byte list \<Rightarrow> ks \<Rightarrow> ks \<times> int" where
  "pedir_memoria pedido k =
     recibir_o_cero (socket_memoria_global k) (enviar_bytes (socket_memoria_global k) pedido k)"

definition hacer_handshake_con_memoria :: "int \<Rightarrow> op_code \<Rightarrow> ks \<Rightarrow> ks \<times> bool" where
  "hacer_handshake_con_memoria s c k =
     (case recibir_entero s (enviar_codigo s c k) of
        (k1, None) \<Rightarrow> (k1, False)
      | (k1, Some r) \<Rightarrow> (k1, r = codigo HANDSHAKE_OK))"

definition pedir_suspension :: "nat \<Rightarrow> ks \<Rightarrow> ks" where
  "pedir_suspension p k =
     fst (pedir_memoria (bytes_int (codigo OP_SUSPENDER_PROCESO) @ bytes_int (pid (procs k p))) k)"

end
