(* ===== verification/MutexKS.thy ===== *)
theory MutexKS
  imports Planificador
begin

text \<open>
  \<open>kernel_scheduler/src/main.c\<close>: the mutexes of the processes.  Their queues, the priority
  that the owner inherits from those that wait and gives back, and the hand-over of a mutex
  when its owner releases it or dies.
\<close>

section \<open>Priority inheritance\<close>

text \<open>\<open>-1\<close> is the C code's mark for an empty queue.\<close>

fun mejor_desde :: "(nat \<Rightarrow> t_proceso) \<Rightarrow> int \<Rightarrow> nat list \<Rightarrow> int" where
  "mejor_desde ps mejor [] = mejor"
| "mejor_desde ps mejor (q # qs) =
     mejor_desde ps
       (if mejor = - 1 \<or> prioridad (ps q) < mejor then prioridad (ps q) else mejor) qs"

definition mayor_prioridad_del_mutex :: "t_mutex \<Rightarrow> ks \<Rightarrow> int" where
  "mayor_prioridad_del_mutex m k = mejor_desde (procs k) (- 1) (cola_espera m)"

definition poner_prioridad :: "nat \<Rightarrow> int \<Rightarrow> ks \<Rightarrow> ks" where
  "poner_prioridad p v = modificar p (\<lambda>r. r\<lparr>prioridad := v\<rparr>)"

text \<open>
  The queue of a \<open>READY\<close> process is the one of its priority: the callers found it there.
\<close>

definition aplicar_herencia :: "nat \<Rightarrow> t_mutex \<Rightarrow> ks \<Rightarrow> ks" where
  "aplicar_herencia p m k =
     (let mejor = mayor_prioridad_del_mutex m k in
      if mejor = - 1 \<or> mejor \<ge> prioridad (procs k p) then k
      else if estado (procs k p) = READY then
        let c = nat (prioridad (procs k p));
            k1 = k\<lparr>colas_ready := (colas_ready k)[c := remove1 p (colas_ready k ! c)]\<rparr>
        in fst (encolar_en_ready p (poner_prioridad p mejor k1))
      else poner_prioridad p mejor k)"

fun mejor_heredada :: "ks \<Rightarrow> int \<Rightarrow> int \<Rightarrow> t_mutex list \<Rightarrow> int" where
  "mejor_heredada k v mejor [] = mejor"
| "mejor_heredada k v mejor (m # ms) =
     mejor_heredada k v
       (if pid_dueno m = v \<and> mayor_prioridad_del_mutex m k \<noteq> - 1 \<and> mayor_prioridad_del_mutex m k < mejor
        then mayor_prioridad_del_mutex m k else mejor) ms"

definition devolver_prioridad :: "nat \<Rightarrow> ks \<Rightarrow> ks" where
  "devolver_prioridad p k =
     (let mejor = mejor_heredada k (pid (procs k p)) (prioridad_original (procs k p)) (lista_mutex k) in
      if mejor = prioridad (procs k p) then k else poner_prioridad p mejor k)"

section \<open>The operations\<close>

definition poner_mutex :: "nat \<Rightarrow> t_mutex \<Rightarrow> ks \<Rightarrow> ks" where
  "poner_mutex i m k = k\<lparr>lista_mutex := (lista_mutex k)[i := m]\<rparr>"

text \<open>
  \<open>manejar_mutex_create\<close> looks the name up in one critical section and adds the mutex in
  another: the result of the first says whether the second one follows.
\<close>

definition mutex_create_buscar :: "int \<Rightarrow> string \<Rightarrow> ks \<Rightarrow> ks \<times> bool" where
  "mutex_create_buscar s n k =
     (case buscar_mutex n k of
        None \<Rightarrow> (k, True)
      | Some _ \<Rightarrow> (enviar_codigo s OP_OK k, False))"

definition mutex_create_agregar :: "int \<Rightarrow> string \<Rightarrow> ks \<Rightarrow> ks" where
  "mutex_create_agregar s n k =
     enviar_codigo s OP_OK
       (k\<lparr>lista_mutex := lista_mutex k @ [\<lparr>nombre = n, pid_dueno = - 1, cola_espera = []\<rparr>]\<rparr>)"

text \<open>
  \<open>manejar_mutex_lock\<close> up to the call of \<open>bloquear_proceso\<close>, which follows when the
  second result holds.
\<close>

definition manejar_mutex_lock :: "nat \<Rightarrow> int \<Rightarrow> string \<Rightarrow> ks \<Rightarrow> ks \<times> bool" where
  "manejar_mutex_lock p s n k =
     (case buscar_mutex n k of
        None \<Rightarrow> (enviar_codigo s OP_ERROR k, False)
      | Some i \<Rightarrow>
          let m = lista_mutex k ! i in
          if pid_dueno m = - 1
          then (enviar_codigo s OP_OK (poner_mutex i (m\<lparr>pid_dueno := pid (procs k p)\<rparr>) k), False)
          else
            let m1 = m\<lparr>cola_espera := cola_espera m @ [p]\<rparr>;
                k1 = poner_mutex i m1 k;
                k2 = (case buscar_proceso_por_pid (pid_dueno m1) k1 of
                        None \<Rightarrow> k1
                      | Some d \<Rightarrow> if es_CMN k1 then aplicar_herencia d m1 k1 else k1)
            in (enviar_codigo s OP_BLOQUEADO k2, True))"

text \<open>
  The critical section of \<open>manejar_mutex_unlock\<close>.  The second result is the process that
  takes the mutex, with the state it was seen in, and then it has still to be moved; without
  one the answer has been sent.
\<close>

definition manejar_mutex_unlock :: "nat \<Rightarrow> int \<Rightarrow> string \<Rightarrow> ks \<Rightarrow> ks \<times> (nat \<times> t_estado) option" where
  "manejar_mutex_unlock p s n k =
     (case buscar_mutex n k of
        None \<Rightarrow> (enviar_codigo s OP_ERROR k, None)
      | Some i \<Rightarrow>
          let m = lista_mutex k ! i in
          (case cola_espera m of
             [] \<Rightarrow>
               let k1 = poner_mutex i (m\<lparr>pid_dueno := - 1\<rparr>) k;
                   k2 = (if es_CMN k1 then devolver_prioridad p k1 else k1)
               in (enviar_codigo s OP_OK k2, None)
           | q # qs \<Rightarrow>
               let m1 = m\<lparr>pid_dueno := pid (procs k q), cola_espera := qs\<rparr>;
                   k1 = poner_mutex i m1 k;
                   k2 = (if es_CMN k1 then aplicar_herencia q m1 (devolver_prioridad p k1) else k1)
               in (cancelar_timer q k2, Some (q, estado (procs k2 q)))))"

text \<open>The move of the process whose wait has ended, by the state it was seen in.\<close>

definition despertar :: "nat \<Rightarrow> t_estado \<Rightarrow> ks \<Rightarrow> ks" where
  "despertar p e k =
     (if e = BLOCK then mover_proceso_de_block_a_ready p k
      else if e = SUSP_BLOCK then mover_a_susp_ready p k
      else k)"

definition mutex_unlock_mover :: "nat \<Rightarrow> t_estado \<Rightarrow> int \<Rightarrow> ks \<Rightarrow> ks" where
  "mutex_unlock_mover q e s k = enviar_codigo s OP_OK (despertar q e k)"

text \<open>One turn of the loop of \<open>liberar_mutex_del_proceso\<close>.\<close>

definition liberar_un_mutex :: "int \<Rightarrow> nat \<Rightarrow> ks \<Rightarrow> ks" where
  "liberar_un_mutex v i k =
     (let m = lista_mutex k ! i in
      if pid_dueno m \<noteq> v then k
      else (case cola_espera m of
              [] \<Rightarrow> poner_mutex i (m\<lparr>pid_dueno := - 1\<rparr>) k
            | q # qs \<Rightarrow>
                let m1 = m\<lparr>pid_dueno := pid (procs k q), cola_espera := qs\<rparr>;
                    k1 = poner_mutex i m1 k;
                    k2 = (if es_CMN k1 then aplicar_herencia q m1 k1 else k1);
                    k3 = cancelar_timer q k2
                in despertar q (estado (procs k3 q)) k3))"

definition liberar_mutex_del_proceso :: "int \<Rightarrow> ks \<Rightarrow> ks" where
  "liberar_mutex_del_proceso v k = fold (liberar_un_mutex v) [0..<length (lista_mutex k)] k"

section \<open>Blocking\<close>

text \<open>
  The first critical section of \<open>bloquear_proceso\<close>: the CPU the process leaves and the timer
  of its suspension.
\<close>

definition bloquear_proceso :: "nat \<Rightarrow> ks \<Rightarrow> ks \<times> nat option \<times> nat" where
  "bloquear_proceso p k =
     (let c = pr_cpu (procs k p);
          k1 = modificar p (\<lambda>r. r\<lparr>timer := None, estado := BLOCK, pr_cpu := None\<rparr>)
            (k\<lparr>lista_exec := remove1 p (lista_exec k), lista_block := lista_block k @ [p]\<rparr>)
      in (case poner_timer p (- 1) k1 of (k2, t) \<Rightarrow> (k2, c, t)))"

definition agregar_cpu_libre :: "nat \<Rightarrow> ks \<Rightarrow> ks" where
  "agregar_cpu_libre c k =
     k\<lparr>lista_cpus_libres := lista_cpus_libres k @ [c], sem_hay_cpus_libres := Suc (sem_hay_cpus_libres k)\<rparr>"

end
