(* ===== verification/SyscallsKS.thy ===== *)
theory SyscallsKS
  imports MutexKS
begin

text \<open>
  \<open>kernel_scheduler/src/main.c\<close>: what the Kernel Scheduler does with each message of a CPU,
  of an IO device and of Kernel Memory.  As in \<open>Planificador\<close>, a function is given by its
  critical sections; \<open>HilosKS\<close> puts them in order and lets the threads interleave.
\<close>

section \<open>Requests to Kernel Memory\<close>

definition pedir_proceso :: "op_code \<Rightarrow> int \<Rightarrow> ks \<Rightarrow> ks \<times> int" where
  "pedir_proceso c v = pedir_memoria (bytes_int (codigo c) @ bytes_int v)"

definition pedir_creacion :: "int \<Rightarrow> string \<Rightarrow> ks \<Rightarrow> ks \<times> int" where
  "pedir_creacion v path =
     pedir_memoria (bytes_int (codigo OP_CREAR_PROCESO) @ bytes_int v @ bytes_cadena path)"

definition pedir_segmento :: "int \<Rightarrow> int \<Rightarrow> int \<Rightarrow> ks \<Rightarrow> ks \<times> int" where
  "pedir_segmento v id_segmento tamanio =
     pedir_memoria (bytes_int (codigo OP_CREAR_SEGMENTO) @ bytes_int v @ bytes_int id_segmento @
       bytes_int tamanio)"

definition pedir_eliminacion :: "int \<Rightarrow> int \<Rightarrow> ks \<Rightarrow> ks \<times> int" where
  "pedir_eliminacion v id_segmento =
     pedir_memoria (bytes_int (codigo OP_ELIMINAR_SEGMENTO) @ bytes_int v @ bytes_int id_segmento)"

section \<open>New processes\<close>

definition crear_proceso :: "int \<Rightarrow> ks \<Rightarrow> ks \<times> nat" where
  "crear_proceso prio k =
     (let p = prox_proc k in
      (k\<lparr>procs := (procs k)(p := \<lparr>pid = proximo_pid k, prioridad = prio, prioridad_original = prio,
           estado = NEW, socket_cpu = - 1, pr_cpu = None, timer = None, io_tiempo = 0,
           io_direccion_fisica = 0, io_tamanio = 0, tiempo_suspension = 0\<rparr>),
         prox_proc := Suc p, proximo_pid := proximo_pid k + 1\<rparr>, p))"

definition agregar_new :: "nat \<Rightarrow> ks \<Rightarrow> ks" where
  "agregar_new p k = k\<lparr>lista_new := lista_new k @ [p]\<rparr>"

text \<open>The answer of Kernel Memory is not looked at: no other thread is running yet.\<close>

definition crear_proceso_inicial :: "string \<Rightarrow> ks \<Rightarrow> ks" where
  "crear_proceso_inicial path k =
     (case crear_proceso 0 k of (k1, p) \<Rightarrow>
        mover_proceso_a_ready p (agregar_new p (fst (pedir_creacion (pid (procs k1 p)) path k1))))"

text \<open>
  \<open>manejar_init_proc\<close>: the parameters and the new pid; then the request to Kernel Memory,
  whose refusal frees the process.
\<close>

definition init_proc_crear :: "int \<Rightarrow> ks \<Rightarrow> (ks \<times> nat \<times> string) option" where
  "init_proc_crear s k =
     (case recibir_string s k of
        None \<Rightarrow> None
      | Some (k1, path) \<Rightarrow>
          (case recibir_o_cero s k1 of (k2, prio) \<Rightarrow>
             (case crear_proceso prio k2 of (k3, p) \<Rightarrow> Some (k3, p, path))))"

definition init_proc_memoria :: "int \<Rightarrow> nat \<Rightarrow> string \<Rightarrow> ks \<Rightarrow> ks \<times> bool" where
  "init_proc_memoria s p path k =
     (case pedir_creacion (pid (procs k p)) path k of (k1, r) \<Rightarrow>
        if r \<noteq> codigo OP_OK then (enviar_codigo s OP_ERROR k1, False) else (k1, True))"

definition init_proc_ready :: "int \<Rightarrow> nat \<Rightarrow> ks \<Rightarrow> ks" where
  "init_proc_ready s p k = enviar_codigo s OP_OK (mover_proceso_a_ready p k)"

section \<open>The end of a process and of a quantum\<close>

text \<open>
  The critical section that \<open>manejar_proceso_exit\<close> and \<open>manejar_seg_fault\<close> share, with the
  process that ends and its CPU.
\<close>

definition salir_de_exec :: "int \<Rightarrow> ks \<Rightarrow> ks \<times> (nat \<times> nat option) option" where
  "salir_de_exec v k =
     (case buscar_proceso_en_exec v k of
        None \<Rightarrow> (k, None)
      | Some p \<Rightarrow>
          (modificar p (\<lambda>r. r\<lparr>timer := None, estado := EXIT_STATE\<rparr>)
             (k\<lparr>lista_exec := remove1 p (lista_exec k)\<rparr>), Some (p, pr_cpu (procs k p))))"

definition finalizar_en_memoria :: "int \<Rightarrow> ks \<Rightarrow> ks" where
  "finalizar_en_memoria v k = fst (pedir_proceso OP_FINALIZAR_PROCESO v k)"

text \<open>The first critical section of \<open>manejar_fin_quantum\<close>.\<close>

definition manejar_fin_quantum :: "int \<Rightarrow> ks \<Rightarrow> ks \<times> (nat option \<times> bool) option" where
  "manejar_fin_quantum v k =
     (case buscar_proceso_en_exec v k of
        None \<Rightarrow> (k, None)
      | Some p \<Rightarrow>
          let c = pr_cpu (procs k p);
              k1 = modificar p (\<lambda>r. r\<lparr>estado := READY, pr_cpu := None\<rparr>)
                (k\<lparr>lista_exec := remove1 p (lista_exec k)\<rparr>)
          in (case (if compactando k1 then encolar_al_frente_de_ready p k1 else encolar_en_ready p k1) of
                (k2, planificable) \<Rightarrow> (k2, Some (c, planificable))))"

definition fin_quantum_cpu :: "nat \<Rightarrow> bool \<Rightarrow> ks \<Rightarrow> ks" where
  "fin_quantum_cpu c planificable k = agregar_cpu_libre c (post_ready (k, planificable))"

section \<open>The disconnection of a CPU\<close>

text \<open>\<open>sem_trywait\<close> on the free CPUs: it does nothing when the count is 0.\<close>

definition con_cpu :: "ks \<Rightarrow> nat \<Rightarrow> nat \<Rightarrow> bool" where
  "con_cpu k c p \<longleftrightarrow> pr_cpu (procs k p) = Some c"

definition desconectar_cpu :: "nat \<Rightarrow> ks \<Rightarrow> ks" where
  "desconectar_cpu c k =
     (let k1 = (if c \<in> set (lista_cpus_libres k)
                then k\<lparr>lista_cpus_libres := remove1 c (lista_cpus_libres k),
                       sem_hay_cpus_libres := sem_hay_cpus_libres k - 1\<rparr>
                else k)
      in (case find (con_cpu k1 c) (lista_exec k1) of
            None \<Rightarrow> k1
          | Some p \<Rightarrow>
              post_ready (encolar_en_ready p
                (modificar p (\<lambda>r. r\<lparr>timer := None, estado := READY, pr_cpu := None\<rparr>)
                   (k1\<lparr>lista_exec := remove1 p (lista_exec k1)\<rparr>)))))"

section \<open>IO requests\<close>

definition encolar_pedido_io :: "op_code \<Rightarrow> nat \<Rightarrow> ks \<Rightarrow> ks" where
  "encolar_pedido_io tipo p k =
     (if tipo = OP_IO_SLEEP
      then k\<lparr>cola_espera_sleep := cola_espera_sleep k @ [p], sem_cola_sleep := Suc (sem_cola_sleep k)\<rparr>
      else if tipo = OP_IO_STDIN
      then k\<lparr>cola_espera_stdin := cola_espera_stdin k @ [p], sem_cola_stdin := Suc (sem_cola_stdin k)\<rparr>
      else k\<lparr>cola_espera_stdout := cola_espera_stdout k @ [p], sem_cola_stdout := Suc (sem_cola_stdout k)\<rparr>)"

definition cola_de_io :: "op_code \<Rightarrow> ks \<Rightarrow> nat list" where
  "cola_de_io tipo k =
     (if tipo = OP_IO_SLEEP then cola_espera_sleep k
      else if tipo = OP_IO_STDIN then cola_espera_stdin k
      else cola_espera_stdout k)"

definition semaforo_de_io :: "op_code \<Rightarrow> ks \<Rightarrow> nat" where
  "semaforo_de_io tipo k =
     (if tipo = OP_IO_SLEEP then sem_cola_sleep k
      else if tipo = OP_IO_STDIN then sem_cola_stdin k
      else sem_cola_stdout k)"

text \<open>The \<open>sem_wait\<close> of an IO thread that succeeds, and the \<open>list_remove\<close> after it.\<close>

definition esperar_pedido_io :: "op_code \<Rightarrow> ks \<Rightarrow> ks" where
  "esperar_pedido_io tipo k =
     (if tipo = OP_IO_SLEEP then k\<lparr>sem_cola_sleep := sem_cola_sleep k - 1\<rparr>
      else if tipo = OP_IO_STDIN then k\<lparr>sem_cola_stdin := sem_cola_stdin k - 1\<rparr>
      else k\<lparr>sem_cola_stdout := sem_cola_stdout k - 1\<rparr>)"

definition tomar_pedido_io :: "op_code \<Rightarrow> ks \<Rightarrow> ks \<times> nat option" where
  "tomar_pedido_io tipo k =
     (case cola_de_io tipo k of
        [] \<Rightarrow> (k, None)
      | p # ps \<Rightarrow>
          (if tipo = OP_IO_SLEEP then k\<lparr>cola_espera_sleep := ps\<rparr>
           else if tipo = OP_IO_STDIN then k\<lparr>cola_espera_stdin := ps\<rparr>
           else k\<lparr>cola_espera_stdout := ps\<rparr>, Some p))"

text \<open>\<open>manejar_io_sleep\<close>, \<open>manejar_io_stdin\<close> and \<open>manejar_io_stdout\<close>.\<close>

definition manejar_io_sleep :: "int \<Rightarrow> nat \<Rightarrow> ks \<Rightarrow> ks" where
  "manejar_io_sleep s p k =
     (case recibir_o_cero s k of (k1, tiempo) \<Rightarrow>
        encolar_pedido_io OP_IO_SLEEP p (modificar p (\<lambda>r. r\<lparr>io_tiempo := tiempo\<rparr>) k1))"

definition manejar_io_stdin :: "int \<Rightarrow> nat \<Rightarrow> ks \<Rightarrow> ks" where
  "manejar_io_stdin s p k =
     (case recibir_o_cero s k of (k1, tamanio) \<Rightarrow> case recibir_o_cero s k1 of (k2, dir) \<Rightarrow>
        encolar_pedido_io OP_IO_STDIN p
          (modificar p (\<lambda>r. r\<lparr>io_tamanio := tamanio, io_direccion_fisica := dir\<rparr>) k2))"

definition manejar_io_stdout :: "int \<Rightarrow> nat \<Rightarrow> ks \<Rightarrow> ks" where
  "manejar_io_stdout s p k =
     (case recibir_o_cero s k of (k1, dir) \<Rightarrow> case recibir_o_cero s k1 of (k2, tamanio) \<Rightarrow>
        encolar_pedido_io OP_IO_STDOUT p
          (modificar p (\<lambda>r. r\<lparr>io_direccion_fisica := dir, io_tamanio := tamanio\<rparr>) k2))"

definition manejar_io :: "op_code \<Rightarrow> int \<Rightarrow> nat \<Rightarrow> ks \<Rightarrow> ks" where
  "manejar_io tipo s p k =
     (if tipo = OP_IO_SLEEP then manejar_io_sleep s p k
      else if tipo = OP_IO_STDIN then manejar_io_stdin s p k
      else manejar_io_stdout s p k)"

section \<open>IO devices\<close>

text \<open>
  \<open>recv\<close> into a buffer of zeros: what is missing when the connection ends stays zero.
\<close>

definition leer_en_ceros :: "int \<Rightarrow> nat \<Rightarrow> ks \<Rightarrow> ks \<times> byte list" where
  "leer_en_ceros s n k =
     (k\<lparr>entrada := (entrada k)(s := drop n (entrada k s))\<rparr>,
      take n (entrada k s) @ replicate (n - length (entrada k s)) 0)"

definition ejecutar_io_sleep :: "int \<Rightarrow> nat \<Rightarrow> ks \<Rightarrow> ks \<times> bool" where
  "ejecutar_io_sleep s p k =
     (case recibir_o_cero s (enviar_entero s (io_tiempo (procs k p)) (enviar_entero s (pid (procs k p)) k)) of
        (k1, r) \<Rightarrow> (k1, r = codigo OP_OK))"

text \<open>In the two that follow \<open>None\<close> is a negative size, which the buffer cannot have.\<close>

definition ejecutar_io_stdin :: "int \<Rightarrow> nat \<Rightarrow> ks \<Rightarrow> (ks \<times> bool) option" where
  "ejecutar_io_stdin s p k =
     (let pr = procs k p; n = io_tamanio pr in
      if n < 0 then None
      else (case leer_en_ceros s (nat n) (enviar_entero s n (enviar_entero s (pid pr) k)) of
              (k1, datos) \<Rightarrow>
                (case pedir_memoria (bytes_int (codigo OP_ESCRIBIR_DATOS) @ bytes_int (pid pr) @
                        bytes_int (io_direccion_fisica pr) @ bytes_int n @ datos) k1 of
                   (k2, r) \<Rightarrow> Some (k2, r = codigo OP_OK))))"

definition ejecutar_io_stdout :: "int \<Rightarrow> nat \<Rightarrow> ks \<Rightarrow> (ks \<times> bool) option" where
  "ejecutar_io_stdout s p k =
     (let pr = procs k p; n = io_tamanio pr in
      if n < 0 then None
      else (case pedir_memoria (bytes_int (codigo OP_LEER_DATOS) @ bytes_int (pid pr) @
                    bytes_int (io_direccion_fisica pr) @ bytes_int n) k of
              (k1, r) \<Rightarrow>
                (case (if r = codigo OP_OK then leer_en_ceros (socket_memoria_global k1) (nat n) k1
                       else (k1, replicate (nat n) 0)) of
                   (k2, datos) \<Rightarrow>
                     (case recibir_o_cero s (enviar_bytes s datos
                             (enviar_entero s n (enviar_entero s (pid pr) k2))) of
                        (k3, r') \<Rightarrow> Some (k3, r' = codigo OP_OK)))))"

definition ejecutar_io :: "op_code \<Rightarrow> int \<Rightarrow> nat \<Rightarrow> ks \<Rightarrow> (ks \<times> bool) option" where
  "ejecutar_io tipo s p k =
     (if tipo = OP_IO_SLEEP then Some (ejecutar_io_sleep s p k)
      else if tipo = OP_IO_STDIN then ejecutar_io_stdin s p k
      else ejecutar_io_stdout s p k)"

text \<open>The first critical section of \<open>manejar_fin_io\<close>; \<open>despertar\<close> is the move that follows.\<close>

definition manejar_fin_io :: "nat \<Rightarrow> ks \<Rightarrow> ks \<times> t_estado" where
  "manejar_fin_io p k = (cancelar_timer p k, estado (procs k p))"

section \<open>Resuming suspended processes\<close>

definition comparar_prioridad_suspension :: "ks \<Rightarrow> nat \<Rightarrow> nat \<Rightarrow> bool" where
  "comparar_prioridad_suspension k a b =
     (if prioridad (procs k a) \<noteq> prioridad (procs k b)
      then prioridad (procs k a) < prioridad (procs k b)
      else tiempo_suspension (procs k a) < tiempo_suspension (procs k b))"

text \<open>\<open>list_sort\<close> belongs to the collections library: it is the parameter \<open>ls\<close>.\<close>

definition dessuspender_ordenar :: "list_sort \<Rightarrow> ks \<Rightarrow> ks" where
  "dessuspender_ordenar ls k =
     k\<lparr>lista_susp_ready := ls (comparar_prioridad_suspension k) (lista_susp_ready k)\<rparr>"

text \<open>
  The turn \<open>i\<close> of the loop: the process (\<open>None\<close>: the list became shorter than \<open>i\<close> after the
  test of the loop, and the null pointer is used) and the answer of Kernel Memory for it.
\<close>

definition dessuspender_pedir :: "nat \<Rightarrow> ks \<Rightarrow> (ks \<times> nat \<times> bool) option" where
  "dessuspender_pedir i k =
     (if i < length (lista_susp_ready k)
      then let p = lista_susp_ready k ! i in
           (case pedir_proceso OP_DESSUSPENDER_PROCESO (pid (procs k p)) k of
              (k1, r) \<Rightarrow> Some (k1, p, r = codigo OP_OK))
      else None)"

definition dessuspender_mover :: "nat \<Rightarrow> ks \<Rightarrow> ks" where
  "dessuspender_mover p k =
     post_ready (encolar_en_ready p
       (poner_estado p READY (k\<lparr>lista_susp_ready := remove1 p (lista_susp_ready k)\<rparr>)))"

section \<open>Compaction\<close>

text \<open>
  \<open>MEM_ALLOC\<close> when Kernel Memory answers \<open>OP_COMPACTAR\<close>: the planner is stopped by taking
  \<open>sem_puede_planificar\<close>; the process waits in \<open>BLOCK\<close>; every CPU is interrupted, and then
  Kernel Memory is told to go on.
\<close>

definition compactacion_anotar :: "nat \<Rightarrow> ks \<Rightarrow> ks" where
  "compactacion_anotar p k =
     k\<lparr>sem_puede_planificar := sem_puede_planificar k - 1, proceso_esperando_memoria := Some p,
       cpu_esperando_memoria := pr_cpu (procs k p)\<rparr>"

definition compactacion_bloquear :: "nat \<Rightarrow> ks \<Rightarrow> ks" where
  "compactacion_bloquear p k =
     modificar p (\<lambda>r. r\<lparr>estado := BLOCK, pr_cpu := None\<rparr>)
       (k\<lparr>lista_exec := remove1 p (lista_exec k), lista_block := lista_block k @ [p], compactando := True\<rparr>)"

text \<open>The interruptions go to the sockets read in the critical section: \<open>None\<close> is a null CPU.\<close>

fun avisos_de :: "ks \<Rightarrow> nat list \<Rightarrow> (int \<times> int) list option" where
  "avisos_de k [] = Some []"
| "avisos_de k (p # ps) =
     (case pr_cpu (procs k p) of
        None \<Rightarrow> None
      | Some c \<Rightarrow> map_option (\<lambda>r. (cp_socket (cpus k c), pid (procs k p)) # r) (avisos_de k ps))"

fun interrumpir_todos :: "(int \<times> int) list \<Rightarrow> ks \<Rightarrow> ks" where
  "interrumpir_todos [] k = k"
| "interrumpir_todos ((s, v) # r) k = interrumpir_todos r (interrumpir s v k)"

definition desalojar_todas_las_cpus :: "ks \<Rightarrow> ks option" where
  "desalojar_todas_las_cpus k = map_option (\<lambda>r. interrumpir_todos r k) (avisos_de k (lista_exec k))"

definition compactacion_confirmar :: "ks \<Rightarrow> ks" where
  "compactacion_confirmar k = enviar_codigo (socket_memoria_global k) OP_OK k"

text \<open>
  \<open>OP_FIN_COMPACTACION\<close>: the critical section, and what follows it (\<open>None\<close>: there is a
  process without its CPU).
\<close>

definition fin_compactacion :: "ks \<Rightarrow> ks" where
  "fin_compactacion k =
     (case proceso_esperando_memoria k of
        None \<Rightarrow> k\<lparr>compactando := False\<rparr>
      | Some p \<Rightarrow>
          modificar p (\<lambda>r. r\<lparr>estado := EXEC, pr_cpu := cpu_esperando_memoria k\<rparr>)
            (k\<lparr>lista_exec := lista_exec k @ [p], lista_block := remove1 p (lista_block k),
               compactando := False\<rparr>))"

definition fin_compactacion_avisar :: "ks \<Rightarrow> ks option" where
  "fin_compactacion_avisar k =
     (case proceso_esperando_memoria k of
        None \<Rightarrow> Some (k\<lparr>sem_puede_planificar := Suc (sem_puede_planificar k)\<rparr>)
      | Some p \<Rightarrow>
          (case cpu_esperando_memoria k of
             None \<Rightarrow> None
           | Some c \<Rightarrow>
               let s = cp_socket (cpus k c);
                   k1 = enviar_entero s (pid (procs k p)) (enviar_codigo s OP_EJECUTAR_PROCESO k)
               in Some (k1\<lparr>proceso_esperando_memoria := None, cpu_esperando_memoria := None,
                         sem_puede_planificar := Suc (sem_puede_planificar k1)\<rparr>)))"

section \<open>Corrupt memory\<close>

definition manejar_bsod :: "ks \<Rightarrow> ks option" where
  "manejar_bsod k =
     map_option
       (\<lambda>avisos.
          interrumpir_todos avisos
            (k\<lparr>bsod_activo := True, cpus_pendientes_bsod := int (length (lista_exec k)),
               lista_new := [], lista_ready := [], lista_block := [], lista_susp_ready := [],
               lista_susp_block := [], lista_ready_invalida := [],
               colas_ready := (if es_CMN k then map (\<lambda>_. []) (colas_ready k) else colas_ready k),
               lista_exec := [], termino := termino k \<or> lista_exec k = []\<rparr>))
       (avisos_de k (lista_exec k))"

definition verificar_fin_bsod :: "ks \<Rightarrow> ks" where
  "verificar_fin_bsod k =
     k\<lparr>cpus_pendientes_bsod := cpus_pendientes_bsod k - 1,
       termino := termino k \<or> cpus_pendientes_bsod k - 1 = 0\<rparr>"

section \<open>Memory system calls\<close>

datatype resp_memoria = Contestado | Debe_compactar

definition manejar_mem_alloc :: "nat \<Rightarrow> int \<Rightarrow> ks \<Rightarrow> ks \<times> resp_memoria" where
  "manejar_mem_alloc p s k =
     (case recibir_o_cero s k of (k1, id_segmento) \<Rightarrow> case recibir_o_cero s k1 of (k2, tamanio) \<Rightarrow>
      case pedir_segmento (pid (procs k2 p)) id_segmento tamanio k2 of (k3, r) \<Rightarrow>
        if r = codigo OP_OK then (enviar_codigo s OP_OK k3, Contestado)
        else if r = codigo OP_COMPACTAR then (enviar_codigo s OP_BLOQUEADO k3, Debe_compactar)
        else (enviar_codigo s OP_ERROR k3, Contestado))"

definition manejar_mem_free :: "nat \<Rightarrow> int \<Rightarrow> ks \<Rightarrow> ks" where
  "manejar_mem_free p s k =
     (case recibir_o_cero s k of (k1, id_segmento) \<Rightarrow>
      case pedir_eliminacion (pid (procs k1 p)) id_segmento k1 of (k2, r) \<Rightarrow>
        enviar_codigo s (if r = codigo OP_OK then OP_OK else OP_ERROR) k2)"

section \<open>Names\<close>

fun nombre_estado :: "t_estado \<Rightarrow> string" where
  "nombre_estado NEW = ''NEW''"
| "nombre_estado READY = ''READY''"
| "nombre_estado EXEC = ''EXEC''"
| "nombre_estado BLOCK = ''BLOCK''"
| "nombre_estado SUSP_READY = ''SUSP_READY''"
| "nombre_estado SUSP_BLOCK = ''SUSP_BLOCK''"
| "nombre_estado EXIT_STATE = ''EXIT''"

definition nombre_syscall :: "int \<Rightarrow> string" where
  "nombre_syscall tipo =
     (case op_de_codigo tipo of
        Some OP_IO_SLEEP \<Rightarrow> ''SLEEP''
      | Some OP_IO_STDIN \<Rightarrow> ''STDIN''
      | Some OP_IO_STDOUT \<Rightarrow> ''STDOUT''
      | Some OP_MUTEX_CREATE \<Rightarrow> ''MUTEX_CREATE''
      | Some OP_MUTEX_LOCK \<Rightarrow> ''MUTEX_LOCK''
      | Some OP_MUTEX_UNLOCK \<Rightarrow> ''MUTEX_UNLOCK''
      | Some OP_MEM_ALLOC \<Rightarrow> ''MEM_ALLOC''
      | Some OP_MEM_FREE \<Rightarrow> ''MEM_FREE''
      | Some OP_INIT_PROC \<Rightarrow> ''INIT_PROC''
      | _ \<Rightarrow> ''DESCONOCIDA'')"

end
