(* ===== verification/HilosKS.thy ===== *)
theory HilosKS
  imports SyscallsKS
begin

text \<open>
  The threads of the Kernel Scheduler.  A thread is the point where it will go on, with the
  local variables it still needs; one step of a thread runs to its next point: a critical
  section of \<open>mutex_listas\<close>, a conversation with Kernel Memory under
  \<open>mutex_pedidos_memoria\<close>, or a \<open>sem_wait\<close>.  The threads of the program are the list
  \<open>hilos\<close>, and any of them may take the next step.

  The order of the steps is the one the locks allow, with three simplifications.  A
  \<open>sem_post\<close> belongs to the step before it.  The messages that follow a critical section are
  sent in its step, except those of a dispatch and of the end of a quantum, which may be
  overtaken.  The release of \<open>mutex_listas\<close> inside \<open>encolar_en_ready\<close>, while it interrupts a
  CPU, lets no other thread in.
\<close>

section \<open>The points of each thread\<close>

datatype paso_plan =
    P_ready | P_cpu | P_turno
  | P_despachar
  | P_enviar nat nat "nat option"

datatype paso_cpu =
    C_escucha
  | C_verificar
  | C_exit
  | C_exit_memoria int "nat option"
  | C_exit_mutex int "nat option"
  | C_exit_cpu "nat option"
  | C_quantum
  | C_quantum_cpu "nat option" bool
  | C_syscall
  | C_atender nat int
  | C_bloquear nat
  | C_bloqueado "nat option" "(nat \<times> op_code) option"
  | C_pedir_io nat op_code
  | C_mutex_agregar string
  | C_mutex_mover nat t_estado
  | C_init_memoria nat string
  | C_init_new nat
  | C_init_ready nat
  | C_comp_esperar nat
  | C_comp_bloquear nat
  | C_comp_desalojar
  | C_comp_confirmar
  | C_desconectar

datatype paso_dess =
    D_ordenar
  | D_siguiente nat
  | D_pedir nat
  | D_mover nat nat

datatype paso_io =
    I_espera
  | I_tomar
  | I_ejecutar nat
  | I_fin nat
  | I_mover nat t_estado
  | I_dess paso_dess

datatype paso_mem =
    M_escucha
  | M_avisar
  | M_bsod
  | M_fin
  | M_dess paso_dess

datatype hilo =
    Planificador_corto paso_plan
  | Quantum nat
  | Avisar_quantum nat
  | Timer_suspension nat
  | Suspender nat
  | Conexion int
  | Conexion_cpu int
  | Cpu nat paso_cpu
  | Conexion_io int
  | Io op_code int paso_io
  | Memoria paso_mem

text \<open>
  What a step yields: the thread waits, or the new state and the threads that take its place
  (none when it ends), or something the C code does not define.
\<close>

datatype resultado =
    Espera
  | Sigue ks "hilo list"
  | Falla

section \<open>The planner and the timers\<close>

fun avanzar_plan :: "paso_plan \<Rightarrow> ks \<Rightarrow> resultado" where
  "avanzar_plan P_ready k =
     (if sem_hay_procesos_ready k = 0 then Espera
      else Sigue (k\<lparr>sem_hay_procesos_ready := sem_hay_procesos_ready k - 1\<rparr>) [Planificador_corto P_cpu])"
| "avanzar_plan P_cpu k =
     (if sem_hay_cpus_libres k = 0 then Espera
      else Sigue (k\<lparr>sem_hay_cpus_libres := sem_hay_cpus_libres k - 1\<rparr>) [Planificador_corto P_turno])"
| "avanzar_plan P_turno k =
     (if sem_puede_planificar k = 0 then Espera
      else Sigue (k\<lparr>sem_puede_planificar := sem_puede_planificar k - 1\<rparr>) [Planificador_corto P_despachar])"
| "avanzar_plan P_despachar k =
     (case despachar k of
        None \<Rightarrow> Falla
      | Some (k1, None) \<Rightarrow> Sigue k1 [Planificador_corto P_ready]
      | Some (k1, Some (p, c, t)) \<Rightarrow> Sigue k1 [Planificador_corto (P_enviar p c t)])"
| "avanzar_plan (P_enviar p c t) k =
     Sigue (despachar_enviar p c k)
       (Planificador_corto P_ready # (case t of None \<Rightarrow> [] | Some q \<Rightarrow> [Quantum q]))"

section \<open>A CPU thread\<close>

definition es_fin :: "int \<Rightarrow> bool" where
  "es_fin v \<longleftrightarrow> v = codigo OP_PROCESO_EXIT \<or> v = codigo OP_PROCESO_SEG_FAULT"

definition op_de_io :: "int \<Rightarrow> op_code option" where
  "op_de_io v =
     (if v = codigo OP_IO_SLEEP then Some OP_IO_SLEEP
      else if v = codigo OP_IO_STDIN then Some OP_IO_STDIN
      else if v = codigo OP_IO_STDOUT then Some OP_IO_STDOUT else None)"

text \<open>A null CPU is undefined when it would enter the list of free ones.\<close>

definition liberar_cpu :: "nat \<Rightarrow> nat option \<Rightarrow> (nat \<Rightarrow> ks) \<Rightarrow> paso_cpu \<Rightarrow> resultado" where
  "liberar_cpu c d f sig = (case d of None \<Rightarrow> Falla | Some e \<Rightarrow> Sigue (f e) [Cpu c sig])"

text \<open>The \<open>switch\<close> of \<open>manejar_syscall\<close>.\<close>

definition atender_syscall :: "nat \<Rightarrow> nat \<Rightarrow> int \<Rightarrow> ks \<Rightarrow> resultado" where
  "atender_syscall c p tipo k =
     (let s = cp_socket (cpus k c) in
      case op_de_io tipo of
        Some io \<Rightarrow>
          (case bloquear_proceso p k of
             (k1, d, t) \<Rightarrow> Sigue k1 [Cpu c (C_bloqueado d (Some (p, io))), Timer_suspension t])
      | None \<Rightarrow>
          if tipo = codigo OP_MUTEX_CREATE then
            (case recibir_string s k of
               None \<Rightarrow> Falla
             | Some (k1, n) \<Rightarrow>
                 (case mutex_create_buscar s n k1 of
                    (k2, seguir) \<Rightarrow> Sigue k2 [Cpu c (if seguir then C_mutex_agregar n else C_escucha)]))
          else if tipo = codigo OP_MUTEX_LOCK then
            (case recibir_string s k of
               None \<Rightarrow> Falla
             | Some (k1, n) \<Rightarrow>
                 (case manejar_mutex_lock p s n k1 of
                    (k2, espera) \<Rightarrow> Sigue k2 [Cpu c (if espera then C_bloquear p else C_escucha)]))
          else if tipo = codigo OP_MUTEX_UNLOCK then
            (case recibir_string s k of
               None \<Rightarrow> Falla
             | Some (k1, n) \<Rightarrow>
                 (case manejar_mutex_unlock p s n k1 of
                    (k2, None) \<Rightarrow> Sigue k2 [Cpu c C_escucha]
                  | (k2, Some (q, e)) \<Rightarrow> Sigue k2 [Cpu c (C_mutex_mover q e)]))
          else if tipo = codigo OP_INIT_PROC then
            (case init_proc_crear s k of
               None \<Rightarrow> Falla
             | Some (k1, q, path) \<Rightarrow> Sigue k1 [Cpu c (C_init_memoria q path)])
          else if tipo = codigo OP_MEM_ALLOC then
            (case manejar_mem_alloc p s k of
               (k1, Contestado) \<Rightarrow> Sigue k1 [Cpu c C_escucha]
             | (k1, Debe_compactar) \<Rightarrow> Sigue k1 [Cpu c (C_comp_esperar p)])
          else if tipo = codigo OP_MEM_FREE then Sigue (manejar_mem_free p s k) [Cpu c C_escucha]
          else Sigue (enviar_codigo s OP_ERROR k) [Cpu c C_escucha])"

fun avanzar_cpu :: "nat \<Rightarrow> paso_cpu \<Rightarrow> ks \<Rightarrow> resultado" where
  "avanzar_cpu c C_escucha k =
     (case recibir_entero (cp_socket (cpus k c)) k of
        (k1, None) \<Rightarrow> Sigue k1 [Cpu c C_desconectar]
      | (k1, Some v) \<Rightarrow>
          Sigue k1 [Cpu c
            (if v = codigo OP_PROCESO_SYSCALL then C_syscall
             else if es_fin v then (if bsod_activo k1 then C_verificar else C_exit)
             else if v = codigo OP_PROCESO_FIN_QUANTUM then (if bsod_activo k1 then C_verificar else C_quantum)
             else C_escucha)])"
| "avanzar_cpu c C_verificar k = Sigue (verificar_fin_bsod k) [Cpu c C_escucha]"
| "avanzar_cpu c C_exit k =
     (case recibir_o_cero (cp_socket (cpus k c)) k of (k1, v) \<Rightarrow>
        (case salir_de_exec v k1 of
           (k2, None) \<Rightarrow> Sigue k2 [Cpu c C_escucha]
         | (k2, Some (p, d)) \<Rightarrow> Sigue k2 [Cpu c (C_exit_memoria v d)]))"
| "avanzar_cpu c (C_exit_memoria v d) k = Sigue (finalizar_en_memoria v k) [Cpu c (C_exit_mutex v d)]"
| "avanzar_cpu c (C_exit_mutex v d) k = Sigue (liberar_mutex_del_proceso v k) [Cpu c (C_exit_cpu d)]"
| "avanzar_cpu c (C_exit_cpu d) k = liberar_cpu c d (\<lambda>e. agregar_cpu_libre e k) C_escucha"
| "avanzar_cpu c C_quantum k =
     (case recibir_o_cero (cp_socket (cpus k c)) k of (k1, v) \<Rightarrow>
        (case manejar_fin_quantum v k1 of
           (k2, None) \<Rightarrow> Sigue k2 [Cpu c C_escucha]
         | (k2, Some (d, planificable)) \<Rightarrow> Sigue k2 [Cpu c (C_quantum_cpu d planificable)]))"
| "avanzar_cpu c (C_quantum_cpu d planificable) k =
     liberar_cpu c d (\<lambda>e. fin_quantum_cpu e planificable k) C_escucha"
| "avanzar_cpu c C_syscall k =
     (case recibir_o_cero (cp_socket (cpus k c)) k of (k1, v) \<Rightarrow>
        (case recibir_o_cero (cp_socket (cpus k c)) k1 of (k2, tipo) \<Rightarrow>
           (case buscar_proceso_en_exec v k2 of
              None \<Rightarrow> Sigue k2 [Cpu c C_escucha]
            | Some p \<Rightarrow> Sigue k2 [Cpu c (C_atender p tipo)])))"
| "avanzar_cpu c (C_atender p tipo) k = atender_syscall c p tipo k"
| "avanzar_cpu c (C_bloquear p) k =
     (case bloquear_proceso p k of
        (k1, d, t) \<Rightarrow> Sigue k1 [Cpu c (C_bloqueado d None), Timer_suspension t])"
| "avanzar_cpu c (C_bloqueado d sig) k =
     liberar_cpu c d (\<lambda>e. agregar_cpu_libre e k)
       (case sig of None \<Rightarrow> C_escucha | Some (p, io) \<Rightarrow> C_pedir_io p io)"
| "avanzar_cpu c (C_pedir_io p io) k = Sigue (manejar_io io (cp_socket (cpus k c)) p k) [Cpu c C_escucha]"
| "avanzar_cpu c (C_mutex_agregar n) k = Sigue (mutex_create_agregar (cp_socket (cpus k c)) n k) [Cpu c C_escucha]"
| "avanzar_cpu c (C_mutex_mover q e) k = Sigue (mutex_unlock_mover q e (cp_socket (cpus k c)) k) [Cpu c C_escucha]"
| "avanzar_cpu c (C_init_memoria p path) k =
     (case init_proc_memoria (cp_socket (cpus k c)) p path k of
        (k1, ok) \<Rightarrow> Sigue k1 [Cpu c (if ok then C_init_new p else C_escucha)])"
| "avanzar_cpu c (C_init_new p) k = Sigue (agregar_new p k) [Cpu c (C_init_ready p)]"
| "avanzar_cpu c (C_init_ready p) k = Sigue (init_proc_ready (cp_socket (cpus k c)) p k) [Cpu c C_escucha]"
| "avanzar_cpu c (C_comp_esperar p) k =
     (if sem_puede_planificar k = 0 then Espera
      else Sigue (compactacion_anotar p k) [Cpu c (C_comp_bloquear p)])"
| "avanzar_cpu c (C_comp_bloquear p) k = Sigue (compactacion_bloquear p k) [Cpu c C_comp_desalojar]"
| "avanzar_cpu c C_comp_desalojar k =
     (case desalojar_todas_las_cpus k of None \<Rightarrow> Falla | Some k1 \<Rightarrow> Sigue k1 [Cpu c C_comp_confirmar])"
| "avanzar_cpu c C_comp_confirmar k = Sigue (compactacion_confirmar k) [Cpu c C_escucha]"
| "avanzar_cpu c C_desconectar k = Sigue (desconectar_cpu c k) []"

section \<open>IO threads and the notifications of Kernel Memory\<close>

text \<open>The loop of \<open>intentar_dessuspender_procesos\<close>; no next point is its end.\<close>

fun avanzar_dess :: "list_sort \<Rightarrow> paso_dess \<Rightarrow> ks \<Rightarrow> (ks \<times> paso_dess option) option" where
  "avanzar_dess ls D_ordenar k = Some (dessuspender_ordenar ls k, Some (D_siguiente 0))"
| "avanzar_dess ls (D_siguiente i) k =
     Some (k, if i < length (lista_susp_ready k) then Some (D_pedir i) else None)"
| "avanzar_dess ls (D_pedir i) k =
     (case dessuspender_pedir i k of
        None \<Rightarrow> None
      | Some (k1, p, ok) \<Rightarrow> Some (k1, Some (if ok then D_mover i p else D_siguiente (Suc i))))"
| "avanzar_dess ls (D_mover i p) k = Some (dessuspender_mover p k, Some (D_siguiente i))"

fun avanzar_io :: "list_sort \<Rightarrow> op_code \<Rightarrow> int \<Rightarrow> paso_io \<Rightarrow> ks \<Rightarrow> resultado" where
  "avanzar_io ls tipo s I_espera k =
     (if semaforo_de_io tipo k = 0 then Espera
      else Sigue (esperar_pedido_io tipo k) [Io tipo s I_tomar])"
| "avanzar_io ls tipo s I_tomar k =
     (case tomar_pedido_io tipo k of
        (k1, None) \<Rightarrow> Sigue k1 [Io tipo s I_espera]
      | (k1, Some p) \<Rightarrow> Sigue k1 [Io tipo s (I_ejecutar p)])"
| "avanzar_io ls tipo s (I_ejecutar p) k =
     (case ejecutar_io tipo s p k of
        None \<Rightarrow> Falla
      | Some (k1, ok) \<Rightarrow> Sigue k1 [Io tipo s (if ok then I_fin p else I_espera)])"
| "avanzar_io ls tipo s (I_fin p) k =
     (case manejar_fin_io p k of (k1, e) \<Rightarrow> Sigue k1 [Io tipo s (I_mover p e)])"
| "avanzar_io ls tipo s (I_mover p e) k =
     Sigue (despertar p e k) [Io tipo s (if e = SUSP_BLOCK then I_dess D_ordenar else I_espera)]"
| "avanzar_io ls tipo s (I_dess d) k =
     (case avanzar_dess ls d k of
        None \<Rightarrow> Falla
      | Some (k1, None) \<Rightarrow> Sigue k1 [Io tipo s I_espera]
      | Some (k1, Some d1) \<Rightarrow> Sigue k1 [Io tipo s (I_dess d1)])"

fun avanzar_mem :: "list_sort \<Rightarrow> paso_mem \<Rightarrow> ks \<Rightarrow> resultado" where
  "avanzar_mem ls M_escucha k =
     (case recibir_entero (socket_notificaciones_memoria k) k of
        (k1, None) \<Rightarrow> Sigue k1 []
      | (k1, Some v) \<Rightarrow>
          Sigue k1 [Memoria
            (if v = codigo OP_MEMORIA_DISPONIBLE then M_dess D_ordenar
             else if v = codigo OP_FIN_COMPACTACION then M_fin
             else if v = codigo OP_MEMORIA_CORRUPTA then M_bsod
             else M_escucha)])"
| "avanzar_mem ls M_fin k = Sigue (fin_compactacion k) [Memoria M_avisar]"
| "avanzar_mem ls M_avisar k =
     (case fin_compactacion_avisar k of None \<Rightarrow> Falla | Some k1 \<Rightarrow> Sigue k1 [Memoria M_escucha])"
| "avanzar_mem ls M_bsod k =
     (case manejar_bsod k of None \<Rightarrow> Falla | Some k1 \<Rightarrow> Sigue k1 [Memoria M_escucha])"
| "avanzar_mem ls (M_dess d) k =
     (case avanzar_dess ls d k of
        None \<Rightarrow> Falla
      | Some (k1, None) \<Rightarrow> Sigue k1 [Memoria M_escucha]
      | Some (k1, Some d1) \<Rightarrow> Sigue k1 [Memoria (M_dess d1)])"

section \<open>Connections and the step\<close>

text \<open>\<open>procesar_cliente\<close> and the first lines of \<open>atender_cpu\<close> and \<open>atender_io\<close>.\<close>

definition procesar_cliente :: "int \<Rightarrow> ks \<Rightarrow> resultado" where
  "procesar_cliente s k =
     (case recibir_entero s k of
        (k1, None) \<Rightarrow> Sigue k1 []
      | (k1, Some v) \<Rightarrow>
          if v = codigo HANDSHAKE_CPU then Sigue k1 [Conexion_cpu s]
          else if v = codigo HANDSHAKE_IO then Sigue k1 [Conexion_io s]
          else Sigue (enviar_codigo s HANDSHAKE_ERROR k1) [])"

definition conectar_cpu :: "int \<Rightarrow> ks \<Rightarrow> ks \<times> nat" where
  "conectar_cpu s k =
     (case recibir_o_cero s k of (k1, v) \<Rightarrow>
        let k2 = enviar_codigo s HANDSHAKE_OK k1; c = prox_cpu k2 in
        (agregar_cpu_libre c
           (k2\<lparr>cpus := (cpus k2)(c := \<lparr>cp_socket = s, cp_id = v\<rparr>), prox_cpu := Suc c\<rparr>), c))"

definition conectar_io :: "int \<Rightarrow> ks \<Rightarrow> ks \<times> op_code option" where
  "conectar_io s k =
     (case recibir_o_cero s k of (k1, v) \<Rightarrow> (enviar_codigo s HANDSHAKE_OK k1, op_de_io v))"

fun avanzar :: "list_sort \<Rightarrow> hilo \<Rightarrow> ks \<Rightarrow> resultado" where
  "avanzar ls (Planificador_corto d) k = avanzar_plan d k"
| "avanzar ls (Quantum t) k =
     (case hilo_quantum t k of (k1, vigente) \<Rightarrow> Sigue k1 (if vigente then [Avisar_quantum t] else []))"
| "avanzar ls (Avisar_quantum t) k = Sigue (avisar_quantum t k) []"
| "avanzar ls (Timer_suspension t) k =
     (case hilo_suspension t k of (k1, q) \<Rightarrow> Sigue k1 (case q of None \<Rightarrow> [] | Some p \<Rightarrow> [Suspender p]))"
| "avanzar ls (Suspender p) k = Sigue (pedir_suspension p k) []"
| "avanzar ls (Conexion s) k = procesar_cliente s k"
| "avanzar ls (Conexion_cpu s) k = (case conectar_cpu s k of (k1, c) \<Rightarrow> Sigue k1 [Cpu c C_escucha])"
| "avanzar ls (Cpu c d) k = avanzar_cpu c d k"
| "avanzar ls (Conexion_io s) k =
     (case conectar_io s k of (k1, t) \<Rightarrow> Sigue k1 (case t of None \<Rightarrow> [] | Some tipo \<Rightarrow> [Io tipo s I_espera]))"
| "avanzar ls (Io tipo s d) k = avanzar_io ls tipo s d k"
| "avanzar ls (Memoria d) k = avanzar_mem ls d k"

text \<open>
  A step of the program: a thread advances, a client connects (\<open>atender_conexiones_entrantes\<close>
  starts its thread), or time passes.  After \<open>exit\<close> there are none.
\<close>

type_synonym sistema = "ks \<times> hilo list"

inductive paso :: "list_sort \<Rightarrow> sistema \<Rightarrow> sistema \<Rightarrow> bool" for ls where
  hilo: "\<not> termino k \<Longrightarrow> avanzar ls h k = Sigue k' nuevos \<Longrightarrow>
     paso ls (k, hs @ h # hs') (k', hs @ nuevos @ hs')"
| conexion: "\<not> termino k \<Longrightarrow> paso ls (k, hs) (k, hs @ [Conexion s])"
| tiempo: "reloj k \<le> r \<Longrightarrow> paso ls (k, hs) (k\<lparr>reloj := r\<rparr>, hs)"

text \<open>A step of the program that leaves what is defined.\<close>

definition falla :: "list_sort \<Rightarrow> sistema \<Rightarrow> bool" where
  "falla ls x \<longleftrightarrow> (case x of (k, hs) \<Rightarrow> \<not> termino k \<and> list_ex (\<lambda>h. avanzar ls h k = Falla) hs)"

text \<open>
  \<open>main\<close> once it is configured and connected: the handshakes with Kernel Memory (\<open>None\<close>: it
  ends with a failure), the first process, and the threads.
\<close>

definition arrancar :: "ks \<Rightarrow> string \<Rightarrow> sistema" where
  "arrancar k path = (crear_proceso_inicial path k, [Planificador_corto P_ready, Memoria M_escucha])"

definition main_ks :: "ks \<Rightarrow> string \<Rightarrow> sistema option" where
  "main_ks k path =
     (case hacer_handshake_con_memoria (socket_memoria_global k) HANDSHAKE_KERNEL_SCHEDULER k of
        (_, False) \<Rightarrow> None
      | (k1, True) \<Rightarrow>
          (case hacer_handshake_con_memoria (socket_notificaciones_memoria k1)
                  HANDSHAKE_KS_NOTIFICACIONES k1 of
             (_, False) \<Rightarrow> None
           | (k2, True) \<Rightarrow> Some (arrancar k2 path)))"

end
