(* ===== verification/UbicacionKS.thy ===== *)
theory UbicacionKS
  imports HilosKS
begin

text \<open>
  Where the processes are: every list of the Kernel Scheduler holds exactly the processes in
  its state.  Each operation of \<open>kernel_scheduler/src/main.c\<close> takes processes out of a list
  and puts them into another; \<open>lugar X k\<close> says that all is in order except for the processes
  of \<open>X\<close>, which are in no list, so the lemmas on the operations compose.
\<close>

section \<open>Operations that only talk\<close>

definition callado :: "ks \<Rightarrow> ks \<Rightarrow> bool" where
  "callado k k' \<longleftrightarrow> (\<exists>a b. k' = k\<lparr>entrada := a, salida := b\<rparr>)"

named_theorems callado_intros "operations that only use the sockets"

lemma callado_refl [callado_intros]: "callado k k"
  unfolding callado_def by (rule exI [of _ "entrada k"], rule exI [of _ "salida k"]) simp

lemma callado_trans: "callado k k' \<Longrightarrow> callado k' k'' \<Longrightarrow> callado k k''"
  unfolding callado_def by (elim exE, simp, (rule exI)+, rule refl)

lemma callado_salida: "callado k (k\<lparr>salida := b\<rparr>)"
  unfolding callado_def by (rule exI [of _ "entrada k"]) auto

lemma callado_entrada: "callado k (k\<lparr>entrada := a\<rparr>)"
  unfolding callado_def by (rule exI [of _ a], rule exI [of _ "salida k"]) simp

lemma callado_enviar [callado_intros]:
  "callado k (enviar_bytes s bs k)" "callado k (enviar_entero s v k)" "callado k (enviar_codigo s c k)"
  by (simp_all add: enviar_codigo_def enviar_entero_def enviar_bytes_def callado_salida)

lemma callado_interrumpir [callado_intros]: "callado k (interrumpir s v k)"
  unfolding interrumpir_def by (blast intro: callado_trans callado_enviar)

lemma callado_interrumpir_todos [callado_intros]: "callado k (interrumpir_todos avs k)"
  by (induction avs k rule: interrumpir_todos.induct)
    (auto intro: callado_refl callado_trans callado_interrumpir)

lemma callado_desalojar [callado_intros]: "callado k (desalojar_por_prioridad p k)"
  by (auto simp: desalojar_por_prioridad_def intro: callado_intros split: option.split)

lemma callado_recibir:
  "recibir_entero s k = (k', r) \<Longrightarrow> callado k k'"
  by (auto simp: recibir_entero_def callado_entrada split: option.splits prod.splits)

lemma callado_recibir_o_cero:
  "recibir_o_cero s k = (k', v) \<Longrightarrow> callado k k'"
  by (auto simp: recibir_o_cero_def dest: callado_recibir split: prod.splits option.splits)

lemma callado_recibir_string:
  "recibir_string s k = Some (k', n) \<Longrightarrow> callado k k'"
  by (auto simp: recibir_string_def split: prod.splits option.splits if_splits
      intro: callado_trans callado_entrada dest!: callado_recibir_o_cero)

lemma callado_leer_en_ceros: "leer_en_ceros s n k = (k', bs) \<Longrightarrow> callado k k'"
  by (auto simp: leer_en_ceros_def callado_entrada)

lemma callado_pedir_memoria: "pedir_memoria m k = (k', r) \<Longrightarrow> callado k k'"
  unfolding pedir_memoria_def by (blast intro: callado_trans callado_enviar callado_recibir_o_cero)

lemmas callado_dest =
  callado_recibir callado_recibir_o_cero callado_recibir_string callado_leer_en_ceros
  callado_pedir_memoria

lemma callado_pedir [callado_intros]:
  "callado k (pedir_suspension p k)" "callado k (finalizar_en_memoria v k)"
  "callado k (fst (pedir_creacion v path k))"
  unfolding pedir_suspension_def finalizar_en_memoria_def pedir_proceso_def pedir_creacion_def
  by (metis callado_pedir_memoria prod.collapse)+

text \<open>What such an operation keeps.\<close>

lemma callado_campos:
  assumes "callado k k'"
  shows "procs k' = procs k" "prox_proc k' = prox_proc k" "cpus k' = cpus k" "prox_cpu k' = prox_cpu k"
    "timers k' = timers k" "prox_timer k' = prox_timer k" "lista_new k' = lista_new k"
    "lista_ready k' = lista_ready k" "colas_ready k' = colas_ready k"
    "lista_ready_invalida k' = lista_ready_invalida k" "lista_exec k' = lista_exec k"
    "lista_block k' = lista_block k" "lista_susp_ready k' = lista_susp_ready k"
    "lista_susp_block k' = lista_susp_block k" "lista_cpus_libres k' = lista_cpus_libres k"
    "lista_mutex k' = lista_mutex k" "cola_espera_sleep k' = cola_espera_sleep k"
    "cola_espera_stdin k' = cola_espera_stdin k" "cola_espera_stdout k' = cola_espera_stdout k"
    "sem_puede_planificar k' = sem_puede_planificar k"
    "sem_hay_procesos_ready k' = sem_hay_procesos_ready k"
    "sem_hay_cpus_libres k' = sem_hay_cpus_libres k"
    "compactando k' = compactando k" "proceso_esperando_memoria k' = proceso_esperando_memoria k"
    "cpu_esperando_memoria k' = cpu_esperando_memoria k" "es_CMN k' = es_CMN k"
    "cantidad_colas k' = cantidad_colas k" "proximo_pid k' = proximo_pid k"
    "desalojo_entre_colas k' = desalojo_entre_colas k" "bsod_activo k' = bsod_activo k"
    "termino k' = termino k" "reloj k' = reloj k" "algoritmos_por_cola k' = algoritmos_por_cola k"
    "algoritmo_planificacion k' = algoritmo_planificacion k"
    "socket_memoria_global k' = socket_memoria_global k"
  using assms by (auto simp: callado_def es_CMN_def cantidad_colas_def)

section \<open>Each list has the processes of its state\<close>

fun lista_de :: "t_estado \<Rightarrow> ks \<Rightarrow> nat list" where
  "lista_de NEW k = lista_new k"
| "lista_de READY k = lista_ready k @ concat (colas_ready k) @ lista_ready_invalida k"
| "lista_de EXEC k = lista_exec k"
| "lista_de BLOCK k = lista_block k"
| "lista_de SUSP_READY k = lista_susp_ready k"
| "lista_de SUSP_BLOCK k = lista_susp_block k"
| "lista_de EXIT_STATE k = []"

text \<open>The queues have the shape that \<open>inicializar_estructuras\<close> gave them, and each process its own.\<close>

definition colas_ok :: "ks \<Rightarrow> bool" where
  "colas_ok k \<longleftrightarrow>
     length (colas_ready k) = (if es_CMN k then cantidad_colas k else 0) \<and>
     (\<forall>i < length (colas_ready k). \<forall>p \<in> set (colas_ready k ! i). prioridad (procs k p) = int i)"

definition lugar :: "nat set \<Rightarrow> ks \<Rightarrow> bool" where
  "lugar X k \<longleftrightarrow>
     colas_ok k \<and> (\<forall>e. distinct (lista_de e k)) \<and>
     (\<forall>e. \<forall>p \<in> set (lista_de e k). p \<notin> X \<and> p < prox_proc k \<and> estado (procs k p) = e) \<and>
     (\<forall>p < prox_proc k. p \<notin> X \<longrightarrow> estado (procs k p) \<noteq> NEW \<longrightarrow> estado (procs k p) \<noteq> EXIT_STATE \<longrightarrow>
        p \<in> set (lista_de (estado (procs k p)) k))"

lemma lugar_callado: "callado k k' \<Longrightarrow> lugar X k' = lugar X k"
proof -
  assume c: "callado k k'"
  have "lista_de e k' = lista_de e k" for e by (cases e) (simp_all add: callado_campos [OF c])
  then show ?thesis by (simp add: lugar_def colas_ok_def callado_campos [OF c])
qed

lemma lugarD:
  assumes "lugar X k"
  shows "distinct (lista_de e k)" "p \<in> set (lista_de e k) \<Longrightarrow> p \<notin> X"
    "p \<in> set (lista_de e k) \<Longrightarrow> p < prox_proc k" "p \<in> set (lista_de e k) \<Longrightarrow> estado (procs k p) = e"
    "p < prox_proc k \<Longrightarrow> p \<notin> X \<Longrightarrow> estado (procs k p) = e \<Longrightarrow> e \<noteq> NEW \<Longrightarrow> e \<noteq> EXIT_STATE \<Longrightarrow>
      p \<in> set (lista_de e k)"
  using assms unfolding lugar_def by blast+

text \<open>Taking a process out of its list, and putting one in.\<close>

lemma lugar_sacar_gen:
  assumes l: "lugar X k" and p: "p \<in> set (lista_de E k)" and ok: "colas_ok k'"
    and m: "mset (lista_de E k') = mset (lista_de E k) - {#p#}"
    and o: "\<And>e. e \<noteq> E \<Longrightarrow> lista_de e k' = lista_de e k"
    and f: "procs k' = procs k" "prox_proc k' = prox_proc k"
  shows "lugar (insert p X) k'"
proof -
  have d: "distinct (lista_de E k)" using l by (rule lugarD)
  then have "mset (lista_de E k') = mset (remove1 p (lista_de E k))" by (simp add: m)
  then have dE: "distinct (lista_de E k')" and sE: "set (lista_de E k') = set (lista_de E k) - {p}"
    using d by (metis distinct_remove1 mset_eq_imp_distinct_iff, metis mset_eq_setD set_remove1_eq)
  have ep: "estado (procs k p) = E" by (rule lugarD(4) [OF l p])
  have s: "set (lista_de e k') = set (lista_de e k) - {p}" for e
  proof (cases "e = E")
    case False
    then have "p \<notin> set (lista_de e k)" using lugarD(4) [OF l, of p e] ep by blast
    with False show ?thesis by (simp add: o)
  qed (simp add: sE)
  have "distinct (lista_de e k')" for e using dE o [of e] lugarD(1) [OF l, of e] by (cases "e = E") auto
  moreover have "\<forall>e. \<forall>q \<in> set (lista_de e k) - {p}. q \<notin> insert p X \<and> q < prox_proc k \<and> estado (procs k q) = e"
    using lugarD(2-4) [OF l] by blast
  moreover have "\<forall>q < prox_proc k. q \<notin> insert p X \<longrightarrow> estado (procs k q) \<noteq> NEW \<longrightarrow> estado (procs k q) \<noteq> EXIT_STATE \<longrightarrow>
      q \<in> set (lista_de (estado (procs k q)) k) - {p}"
    using lugarD(5) [OF l] by blast
  ultimately show ?thesis using ok unfolding lugar_def s f by blast
qed

lemma lugar_poner_gen:
  assumes l: "lugar X k" and p: "p \<in> X" "p < prox_proc k" "estado (procs k p) = E" and ok: "colas_ok k'"
    and m: "mset (lista_de E k') = add_mset p (mset (lista_de E k))"
    and o: "\<And>e. e \<noteq> E \<Longrightarrow> lista_de e k' = lista_de e k"
    and f: "procs k' = procs k" "prox_proc k' = prox_proc k"
  shows "lugar (X - {p}) k'"
proof -
  have np: "p \<notin> set (lista_de e k)" for e using lugarD(2) [OF l, of p e] p(1) by blast
  have "mset (lista_de E k') = mset (p # lista_de E k)" by (simp add: m)
  then have dE: "distinct (lista_de E k')" and sE: "set (lista_de E k') = insert p (set (lista_de E k))"
    using np [of E] lugarD(1) [OF l, of E]
    by (metis distinct.simps(2) mset_eq_imp_distinct_iff, metis list.simps(15) mset_eq_setD)
  have s: "set (lista_de e k') = (if e = E then insert p (set (lista_de e k)) else set (lista_de e k))" for e
    by (simp add: sE o)
  have "distinct (lista_de e k')" for e using dE o [of e] lugarD(1) [OF l, of e] by (cases "e = E") auto
  moreover have "q \<notin> X - {p} \<and> q < prox_proc k \<and> estado (procs k q) = e"
    if "q \<in> (if e = E then insert p (set (lista_de e k)) else set (lista_de e k))" for e q
    using that lugarD(2-4) [OF l] p by (auto split: if_splits)
  moreover have "q \<in> (if e = E then insert p (set (lista_de e k)) else set (lista_de e k))"
    if "q < prox_proc k" "q \<notin> X - {p}" "estado (procs k q) = e" "e \<noteq> NEW" "e \<noteq> EXIT_STATE" for e q
    using that lugarD(5) [OF l] p by (cases "q = p") auto
  ultimately show ?thesis using ok unfolding lugar_def s f by blast
qed

lemma lugar_colas: "lugar X k \<Longrightarrow> colas_ok k"
  by (simp add: lugar_def)

named_theorems lugar_intros "taking processes out of the lists and putting them in"

lemma lugar_sacar [lugar_intros]:
  assumes l: "lugar X k"
  shows
    "p \<in> set (lista_new k) \<Longrightarrow> lugar (insert p X) (k\<lparr>lista_new := remove1 p (lista_new k)\<rparr>)"
    "p \<in> set (lista_exec k) \<Longrightarrow> lugar (insert p X) (k\<lparr>lista_exec := remove1 p (lista_exec k)\<rparr>)"
    "p \<in> set (lista_block k) \<Longrightarrow> lugar (insert p X) (k\<lparr>lista_block := remove1 p (lista_block k)\<rparr>)"
    "p \<in> set (lista_susp_ready k) \<Longrightarrow>
       lugar (insert p X) (k\<lparr>lista_susp_ready := remove1 p (lista_susp_ready k)\<rparr>)"
    "p \<in> set (lista_susp_block k) \<Longrightarrow>
       lugar (insert p X) (k\<lparr>lista_susp_block := remove1 p (lista_susp_block k)\<rparr>)"
proof -
  have ok: "colas_ok k" using l by (rule lugar_colas)
  note g = lugar_sacar_gen [OF l, where p = p]
  have o: "e \<noteq> NEW \<Longrightarrow> lista_de e (k\<lparr>lista_new := xs\<rparr>) = lista_de e k"
    "e \<noteq> EXEC \<Longrightarrow> lista_de e (k\<lparr>lista_exec := xs\<rparr>) = lista_de e k"
    "e \<noteq> BLOCK \<Longrightarrow> lista_de e (k\<lparr>lista_block := xs\<rparr>) = lista_de e k"
    "e \<noteq> SUSP_READY \<Longrightarrow> lista_de e (k\<lparr>lista_susp_ready := xs\<rparr>) = lista_de e k"
    "e \<noteq> SUSP_BLOCK \<Longrightarrow> lista_de e (k\<lparr>lista_susp_block := xs\<rparr>) = lista_de e k" for e xs
    by (cases e; simp)+
  have oks: "colas_ok (k\<lparr>lista_new := xs\<rparr>)" "colas_ok (k\<lparr>lista_exec := xs\<rparr>)" "colas_ok (k\<lparr>lista_block := xs\<rparr>)"
    "colas_ok (k\<lparr>lista_susp_ready := xs\<rparr>)" "colas_ok (k\<lparr>lista_susp_block := xs\<rparr>)" for xs
    using ok by (simp_all add: colas_ok_def es_CMN_def cantidad_colas_def)
  { assume "p \<in> set (lista_new k)"
    then show "lugar (insert p X) (k\<lparr>lista_new := remove1 p (lista_new k)\<rparr>)"
      by (intro g [where E = NEW] oks) (simp_all add: o) }
  { assume "p \<in> set (lista_exec k)"
    then show "lugar (insert p X) (k\<lparr>lista_exec := remove1 p (lista_exec k)\<rparr>)"
      by (intro g [where E = EXEC] oks) (simp_all add: o) }
  { assume "p \<in> set (lista_block k)"
    then show "lugar (insert p X) (k\<lparr>lista_block := remove1 p (lista_block k)\<rparr>)"
      by (intro g [where E = BLOCK] oks) (simp_all add: o) }
  { assume "p \<in> set (lista_susp_ready k)"
    then show "lugar (insert p X) (k\<lparr>lista_susp_ready := remove1 p (lista_susp_ready k)\<rparr>)"
      by (intro g [where E = SUSP_READY] oks) (simp_all add: o) }
  { assume "p \<in> set (lista_susp_block k)"
    then show "lugar (insert p X) (k\<lparr>lista_susp_block := remove1 p (lista_susp_block k)\<rparr>)"
      by (intro g [where E = SUSP_BLOCK] oks) (simp_all add: o) }
qed

lemma lugar_poner [lugar_intros]:
  assumes l: "lugar X k" and p: "p \<in> X" "p < prox_proc k"
  shows
    "estado (procs k p) = NEW \<Longrightarrow> lugar (X - {p}) (k\<lparr>lista_new := lista_new k @ [p]\<rparr>)"
    "estado (procs k p) = EXEC \<Longrightarrow> lugar (X - {p}) (k\<lparr>lista_exec := lista_exec k @ [p]\<rparr>)"
    "estado (procs k p) = BLOCK \<Longrightarrow> lugar (X - {p}) (k\<lparr>lista_block := lista_block k @ [p]\<rparr>)"
    "estado (procs k p) = SUSP_READY \<Longrightarrow> lugar (X - {p}) (k\<lparr>lista_susp_ready := lista_susp_ready k @ [p]\<rparr>)"
    "estado (procs k p) = SUSP_BLOCK \<Longrightarrow> lugar (X - {p}) (k\<lparr>lista_susp_block := lista_susp_block k @ [p]\<rparr>)"
proof -
  have ok: "colas_ok k" using l by (rule lugar_colas)
  note g = lugar_poner_gen [OF l p]
  have o: "e \<noteq> NEW \<Longrightarrow> lista_de e (k\<lparr>lista_new := xs\<rparr>) = lista_de e k"
    "e \<noteq> EXEC \<Longrightarrow> lista_de e (k\<lparr>lista_exec := xs\<rparr>) = lista_de e k"
    "e \<noteq> BLOCK \<Longrightarrow> lista_de e (k\<lparr>lista_block := xs\<rparr>) = lista_de e k"
    "e \<noteq> SUSP_READY \<Longrightarrow> lista_de e (k\<lparr>lista_susp_ready := xs\<rparr>) = lista_de e k"
    "e \<noteq> SUSP_BLOCK \<Longrightarrow> lista_de e (k\<lparr>lista_susp_block := xs\<rparr>) = lista_de e k" for e xs
    by (cases e; simp)+
  have oks: "colas_ok (k\<lparr>lista_new := xs\<rparr>)" "colas_ok (k\<lparr>lista_exec := xs\<rparr>)" "colas_ok (k\<lparr>lista_block := xs\<rparr>)"
    "colas_ok (k\<lparr>lista_susp_ready := xs\<rparr>)" "colas_ok (k\<lparr>lista_susp_block := xs\<rparr>)" for xs
    using ok by (simp_all add: colas_ok_def es_CMN_def cantidad_colas_def)
  { assume "estado (procs k p) = NEW"
    then show "lugar (X - {p}) (k\<lparr>lista_new := lista_new k @ [p]\<rparr>)"
      by (intro g [where E = NEW] oks) (simp_all add: o) }
  { assume "estado (procs k p) = EXEC"
    then show "lugar (X - {p}) (k\<lparr>lista_exec := lista_exec k @ [p]\<rparr>)"
      by (intro g [where E = EXEC] oks) (simp_all add: o) }
  { assume "estado (procs k p) = BLOCK"
    then show "lugar (X - {p}) (k\<lparr>lista_block := lista_block k @ [p]\<rparr>)"
      by (intro g [where E = BLOCK] oks) (simp_all add: o) }
  { assume "estado (procs k p) = SUSP_READY"
    then show "lugar (X - {p}) (k\<lparr>lista_susp_ready := lista_susp_ready k @ [p]\<rparr>)"
      by (intro g [where E = SUSP_READY] oks) (simp_all add: o) }
  { assume "estado (procs k p) = SUSP_BLOCK"
    then show "lugar (X - {p}) (k\<lparr>lista_susp_block := lista_susp_block k @ [p]\<rparr>)"
      by (intro g [where E = SUSP_BLOCK] oks) (simp_all add: o) }
qed

text \<open>The fields that have nothing to do with it.\<close>

lemma lugar_marco:
  assumes "\<And>e. lista_de e k' = lista_de e k" "procs k' = procs k" "prox_proc k' = prox_proc k"
    "colas_ready k' = colas_ready k" "es_CMN k' = es_CMN k" "cantidad_colas k' = cantidad_colas k"
  shows "lugar X k' = lugar X k"
  by (simp add: lugar_def colas_ok_def assms)

lemma lista_de_marco:
  "lista_new k' = lista_new k \<Longrightarrow> lista_ready k' = lista_ready k \<Longrightarrow> colas_ready k' = colas_ready k \<Longrightarrow>
   lista_ready_invalida k' = lista_ready_invalida k \<Longrightarrow> lista_exec k' = lista_exec k \<Longrightarrow>
   lista_block k' = lista_block k \<Longrightarrow> lista_susp_ready k' = lista_susp_ready k \<Longrightarrow>
   lista_susp_block k' = lista_susp_block k \<Longrightarrow> lista_de e k' = lista_de e k"
  by (cases e) simp_all

lemma lugar_otros [simp]:
  "lugar X (k\<lparr>lista_mutex := x0\<rparr>) = lugar X k"
  "lugar X (k\<lparr>sem_puede_planificar := x1\<rparr>) = lugar X k"
  "lugar X (k\<lparr>sem_hay_procesos_ready := x2\<rparr>) = lugar X k"
  "lugar X (k\<lparr>sem_hay_cpus_libres := x3\<rparr>) = lugar X k"
  "lugar X (k\<lparr>cola_espera_sleep := x4\<rparr>) = lugar X k"
  "lugar X (k\<lparr>cola_espera_stdin := x5\<rparr>) = lugar X k"
  "lugar X (k\<lparr>cola_espera_stdout := x6\<rparr>) = lugar X k"
  "lugar X (k\<lparr>sem_cola_sleep := x7\<rparr>) = lugar X k"
  "lugar X (k\<lparr>sem_cola_stdin := x8\<rparr>) = lugar X k"
  "lugar X (k\<lparr>sem_cola_stdout := x9\<rparr>) = lugar X k"
  "lugar X (k\<lparr>compactando := x10\<rparr>) = lugar X k"
  "lugar X (k\<lparr>proceso_esperando_memoria := x11\<rparr>) = lugar X k"
  "lugar X (k\<lparr>cpu_esperando_memoria := x12\<rparr>) = lugar X k"
  "lugar X (k\<lparr>lista_cpus_libres := x13\<rparr>) = lugar X k"
  "lugar X (k\<lparr>cpus := x14\<rparr>) = lugar X k"
  "lugar X (k\<lparr>prox_cpu := x15\<rparr>) = lugar X k"
  "lugar X (k\<lparr>timers := x16\<rparr>) = lugar X k"
  "lugar X (k\<lparr>prox_timer := x17\<rparr>) = lugar X k"
  "lugar X (k\<lparr>reloj := x18\<rparr>) = lugar X k"
  "lugar X (k\<lparr>proximo_pid := x19\<rparr>) = lugar X k"
  "lugar X (k\<lparr>entrada := x20\<rparr>) = lugar X k"
  "lugar X (k\<lparr>salida := x21\<rparr>) = lugar X k"
  "lugar X (k\<lparr>termino := x22\<rparr>) = lugar X k"
  "lugar X (k\<lparr>cpus_pendientes_bsod := x23\<rparr>) = lugar X k"
  by (rule lugar_marco; (rule lista_de_marco)?; simp add: es_CMN_def cantidad_colas_def)+

lemma lugar_post_ready [simp]: "lugar X (post_ready (k, b)) = lugar X k"
  by (simp add: post_ready_def)

section \<open>Changes of a process\<close>

lemma modificar_sel [simp]:
  "procs (modificar p f k) = (procs k)(p := f (procs k p))" "prox_proc (modificar p f k) = prox_proc k"
  "colas_ready (modificar p f k) = colas_ready k" "es_CMN (modificar p f k) = es_CMN k"
  "cantidad_colas (modificar p f k) = cantidad_colas k" "lista_de e (modificar p f k) = lista_de e k"
  by (simp_all add: modificar_def es_CMN_def cantidad_colas_def) (cases e; simp)

lemma en_cola_ready: "i < length (colas_ready k) \<Longrightarrow> p \<in> set (colas_ready k ! i) \<Longrightarrow> p \<in> set (lista_de READY k)"
  by (auto intro!: bexI [of _ "colas_ready k ! i"])

lemma lugar_modificar_fuera [lugar_intros]:
  assumes "lugar X k" "p \<in> X"
  shows "lugar X (modificar p f k)"
proof -
  have n: "p \<notin> set (lista_de e k)" for e using lugarD(2) [OF assms(1), of p e] assms(2) by blast
  have "colas_ok (modificar p f k)"
    using lugar_colas [OF assms(1)] n [of READY] en_cola_ready [of _ k p] by (auto simp: colas_ok_def)
  then show ?thesis using assms unfolding lugar_def by (auto simp: n)
qed

lemma lugar_modificar_igual [lugar_intros]:
  assumes "lugar X k" "estado (f (procs k p)) = estado (procs k p)" "prioridad (f (procs k p)) = prioridad (procs k p)"
  shows "lugar X (modificar p f k)"
proof -
  have e: "estado ((procs (modificar p f k)) q) = estado (procs k q)"
    "prioridad ((procs (modificar p f k)) q) = prioridad (procs k q)" for q
    using assms(2,3) by simp_all
  have "colas_ok (modificar p f k)" using lugar_colas [OF assms(1)] unfolding colas_ok_def e by simp
  then show ?thesis using assms(1) unfolding lugar_def e by simp
qed

lemma lugar_cancelar_timer [simp]: "lugar X k \<Longrightarrow> lugar X (cancelar_timer p k)"
  by (simp add: cancelar_timer_def lugar_modificar_igual)

lemma lugar_poner_prioridad [lugar_intros]:
  assumes "lugar X k" "estado (procs k p) \<noteq> READY"
  shows "lugar X (poner_prioridad p v k)"
proof -
  have e: "estado ((procs (poner_prioridad p v k)) q) = estado (procs k q)" for q
    by (simp add: poner_prioridad_def)
  have "p \<notin> set (lista_de READY k)" using lugarD(4) [OF assms(1), of p READY] assms(2) by blast
  then have "colas_ok (poner_prioridad p v k)"
    using lugar_colas [OF assms(1)] en_cola_ready [of _ k p] by (auto simp: colas_ok_def poner_prioridad_def)
  then show ?thesis using assms(1) unfolding lugar_def e by (simp add: poner_prioridad_def)
qed

section \<open>The ready queues\<close>

lemma mset_concat_update:
  assumes "i < length xss"
  shows "mset (concat (xss[i := ys])) = mset (concat xss) - mset (xss ! i) + mset ys"
proof -
  have "mset (concat xss) = mset (concat (take i xss)) + mset (xss ! i) + mset (concat (drop (Suc i) xss))"
    by (subst id_take_nth_drop [OF assms]) simp
  then show ?thesis using assms by (simp add: upd_conv_take_nth_drop)
qed

lemma mset_concat_agregar:
  assumes "i < length xss" "mset ys = add_mset p (mset (xss ! i))"
  shows "mset (concat (xss[i := ys])) = add_mset p (mset (concat xss))"
proof -
  have "mset (xss ! i) \<subseteq># mset (concat xss)" by (subst id_take_nth_drop [OF assms(1)]) simp
  then show ?thesis using assms by (simp add: mset_concat_update)
qed

lemma lugar_a_cola:
  assumes l: "lugar X k" and p: "p \<in> X" "p < prox_proc k" "estado (procs k p) = READY"
    and c: "es_CMN k" "en_rango p k" and m: "mset ys = add_mset p (mset (colas_ready k ! nat (prioridad (procs k p))))"
  shows "lugar (X - {p}) (k\<lparr>colas_ready := (colas_ready k)[nat (prioridad (procs k p)) := ys]\<rparr>)"
    (is "lugar _ ?k")
proof (rule lugar_poner_gen [OF l p])
  let ?c = "nat (prioridad (procs k p))"
  have i: "?c < length (colas_ready k)" using c lugar_colas [OF l] by (auto simp: en_rango_def colas_ok_def)
  have cok: "\<forall>j < length (colas_ready k). \<forall>q \<in> set (colas_ready k ! j). prioridad (procs k q) = int j"
    using lugar_colas [OF l] by (simp add: colas_ok_def)
  have s: "set ys = insert p (set (colas_ready k ! ?c))" using m by (metis set_mset_add_mset_insert set_mset_mset)
  have "prioridad (procs k q) = int j"
    if "j < length (colas_ready k)" "q \<in> set (((colas_ready k)[?c := ys]) ! j)" for j q
  proof (cases "j = ?c")
    case True
    then have "q = p \<or> q \<in> set (colas_ready k ! j)" using that(2) i s by simp
    moreover have "prioridad (procs k p) = int j" using True c(2) by (simp add: en_rango_def)
    ultimately show ?thesis using cok that(1) by blast
  next
    case False
    then show ?thesis using that cok by simp
  qed
  note pr = this
  have sel: "colas_ready ?k = (colas_ready k)[?c := ys]" "procs ?k = procs k" by simp_all
  have "length (colas_ready ?k) = (if es_CMN ?k then cantidad_colas ?k else 0)"
    using lugar_colas [OF l] by (simp add: colas_ok_def es_CMN_def cantidad_colas_def)
  moreover have "prioridad (procs ?k q) = int j"
    if "j < length (colas_ready ?k)" "q \<in> set (colas_ready ?k ! j)" for j q
    using that unfolding sel length_list_update by (rule pr)
  ultimately show "colas_ok ?k" unfolding colas_ok_def by blast
  show "mset (lista_de READY ?k) = add_mset p (mset (lista_de READY k))"
    using mset_concat_agregar [OF i m] by simp
  show "lista_de e ?k = lista_de e k" if "e \<noteq> READY" for e using that by (cases e) simp_all
qed simp_all

lemma lugar_a_invalida:
  assumes l: "lugar X k" and p: "p \<in> X" "p < prox_proc k" "estado (procs k p) = READY"
  shows "lugar (X - {p}) (k\<lparr>lista_ready_invalida := lista_ready_invalida k @ [p]\<rparr>)"
    (is "lugar _ ?k")
proof (rule lugar_poner_gen [OF l p])
  show "colas_ok ?k" using lugar_colas [OF l] by (simp add: colas_ok_def es_CMN_def cantidad_colas_def)
  show "lista_de e ?k = lista_de e k" if "e \<noteq> READY" for e using that by (cases e) simp_all
qed simp_all

lemma lugar_a_lista:
  assumes l: "lugar X k" and p: "p \<in> X" "p < prox_proc k" "estado (procs k p) = READY"
    and m: "mset ys = add_mset p (mset (lista_ready k))"
  shows "lugar (X - {p}) (k\<lparr>lista_ready := ys\<rparr>)" (is "lugar _ ?k")
proof (rule lugar_poner_gen [OF l p])
  show "colas_ok ?k" using lugar_colas [OF l] by (simp add: colas_ok_def es_CMN_def cantidad_colas_def)
  show "lista_de e ?k = lista_de e k" if "e \<noteq> READY" for e using that by (cases e) simp_all
qed (simp_all add: m)

lemma lugar_encolar:
  assumes "lugar X k" "p \<in> X" "p < prox_proc k" "estado (procs k p) = READY"
  shows "lugar (X - {p}) (fst (encolar_en_ready p k))" "lugar (X - {p}) (fst (encolar_al_frente_de_ready p k))"
  unfolding encolar_en_ready_def encolar_al_frente_de_ready_def Let_def
  by (simp_all add: lugar_callado [OF callado_desalojar] lugar_a_invalida [OF assms] lugar_a_cola [OF assms]
      lugar_a_lista [OF assms])

lemma lugar_post_encolar:
  assumes "lugar X k" "p \<in> X" "p < prox_proc k" "estado (procs k p) = READY"
  shows "lugar (X - {p}) (post_ready (encolar_en_ready p k))"
  using lugar_encolar(1) [OF assms] by (cases "encolar_en_ready p k") simp

section \<open>What the operations leave alone\<close>

lemmas enviar_sel [simp] =
  callado_campos [OF callado_enviar(1)] callado_campos [OF callado_enviar(2)]
  callado_campos [OF callado_enviar(3)] callado_campos [OF callado_interrumpir]
  callado_campos [OF callado_desalojar] callado_campos [OF callado_interrumpir_todos]

lemma modificar_campos [simp]:
  "prox_cpu (modificar p f k) = prox_cpu k" "cpus (modificar p f k) = cpus k"
  "timers (modificar p f k) = timers k" "prox_timer (modificar p f k) = prox_timer k"
  "lista_cpus_libres (modificar p f k) = lista_cpus_libres k" "lista_mutex (modificar p f k) = lista_mutex k"
  "cola_espera_sleep (modificar p f k) = cola_espera_sleep k" "cola_espera_stdin (modificar p f k) = cola_espera_stdin k"
  "cola_espera_stdout (modificar p f k) = cola_espera_stdout k" "sem_puede_planificar (modificar p f k) = sem_puede_planificar k"
  "compactando (modificar p f k) = compactando k" "proceso_esperando_memoria (modificar p f k) = proceso_esperando_memoria k"
  "cpu_esperando_memoria (modificar p f k) = cpu_esperando_memoria k" "termino (modificar p f k) = termino k"
  "bsod_activo (modificar p f k) = bsod_activo k" "algoritmo_planificacion (modificar p f k) = algoritmo_planificacion k"
  "algoritmos_por_cola (modificar p f k) = algoritmos_por_cola k"
  by (simp_all add: modificar_def)

lemma encolar_campos [simp]:
  "prox_proc (fst (encolar_en_ready p k)) = prox_proc k" "prox_cpu (fst (encolar_en_ready p k)) = prox_cpu k"
  "cpus (fst (encolar_en_ready p k)) = cpus k" "timers (fst (encolar_en_ready p k)) = timers k"
  "prox_timer (fst (encolar_en_ready p k)) = prox_timer k" "lista_cpus_libres (fst (encolar_en_ready p k)) = lista_cpus_libres k"
  "lista_mutex (fst (encolar_en_ready p k)) = lista_mutex k" "cola_espera_sleep (fst (encolar_en_ready p k)) = cola_espera_sleep k"
  "cola_espera_stdin (fst (encolar_en_ready p k)) = cola_espera_stdin k" "cola_espera_stdout (fst (encolar_en_ready p k)) = cola_espera_stdout k"
  "sem_puede_planificar (fst (encolar_en_ready p k)) = sem_puede_planificar k" "compactando (fst (encolar_en_ready p k)) = compactando k"
  "proceso_esperando_memoria (fst (encolar_en_ready p k)) = proceso_esperando_memoria k" "cpu_esperando_memoria (fst (encolar_en_ready p k)) = cpu_esperando_memoria k"
  "termino (fst (encolar_en_ready p k)) = termino k" "bsod_activo (fst (encolar_en_ready p k)) = bsod_activo k"
  "algoritmo_planificacion (fst (encolar_en_ready p k)) = algoritmo_planificacion k" "algoritmos_por_cola (fst (encolar_en_ready p k)) = algoritmos_por_cola k"
  "procs (fst (encolar_en_ready p k)) = procs k"
  by (simp_all add: encolar_en_ready_def Let_def)

lemma encolar_frente_campos [simp]:
  "prox_proc (fst (encolar_al_frente_de_ready p k)) = prox_proc k" "prox_cpu (fst (encolar_al_frente_de_ready p k)) = prox_cpu k"
  "cpus (fst (encolar_al_frente_de_ready p k)) = cpus k" "timers (fst (encolar_al_frente_de_ready p k)) = timers k"
  "prox_timer (fst (encolar_al_frente_de_ready p k)) = prox_timer k" "lista_cpus_libres (fst (encolar_al_frente_de_ready p k)) = lista_cpus_libres k"
  "lista_mutex (fst (encolar_al_frente_de_ready p k)) = lista_mutex k" "cola_espera_sleep (fst (encolar_al_frente_de_ready p k)) = cola_espera_sleep k"
  "cola_espera_stdin (fst (encolar_al_frente_de_ready p k)) = cola_espera_stdin k" "cola_espera_stdout (fst (encolar_al_frente_de_ready p k)) = cola_espera_stdout k"
  "sem_puede_planificar (fst (encolar_al_frente_de_ready p k)) = sem_puede_planificar k" "compactando (fst (encolar_al_frente_de_ready p k)) = compactando k"
  "proceso_esperando_memoria (fst (encolar_al_frente_de_ready p k)) = proceso_esperando_memoria k" "cpu_esperando_memoria (fst (encolar_al_frente_de_ready p k)) = cpu_esperando_memoria k"
  "termino (fst (encolar_al_frente_de_ready p k)) = termino k" "bsod_activo (fst (encolar_al_frente_de_ready p k)) = bsod_activo k"
  "algoritmo_planificacion (fst (encolar_al_frente_de_ready p k)) = algoritmo_planificacion k" "algoritmos_por_cola (fst (encolar_al_frente_de_ready p k)) = algoritmos_por_cola k"
  "procs (fst (encolar_al_frente_de_ready p k)) = procs k"
  by (simp_all add: encolar_al_frente_de_ready_def Let_def)

lemma post_ready_campos [simp]:
  "prox_proc (post_ready (k, b)) = prox_proc k" "prox_cpu (post_ready (k, b)) = prox_cpu k"
  "cpus (post_ready (k, b)) = cpus k" "timers (post_ready (k, b)) = timers k"
  "prox_timer (post_ready (k, b)) = prox_timer k" "lista_cpus_libres (post_ready (k, b)) = lista_cpus_libres k"
  "lista_mutex (post_ready (k, b)) = lista_mutex k" "cola_espera_sleep (post_ready (k, b)) = cola_espera_sleep k"
  "cola_espera_stdin (post_ready (k, b)) = cola_espera_stdin k" "cola_espera_stdout (post_ready (k, b)) = cola_espera_stdout k"
  "sem_puede_planificar (post_ready (k, b)) = sem_puede_planificar k" "compactando (post_ready (k, b)) = compactando k"
  "proceso_esperando_memoria (post_ready (k, b)) = proceso_esperando_memoria k" "cpu_esperando_memoria (post_ready (k, b)) = cpu_esperando_memoria k"
  "termino (post_ready (k, b)) = termino k" "bsod_activo (post_ready (k, b)) = bsod_activo k"
  "algoritmo_planificacion (post_ready (k, b)) = algoritmo_planificacion k" "algoritmos_por_cola (post_ready (k, b)) = algoritmos_por_cola k"
  "procs (post_ready (k, b)) = procs k"
  by (simp_all add: post_ready_def)

lemma post_encolar_campos [simp]:
  "prox_proc (post_ready (encolar_en_ready p k)) = prox_proc k"
  "prox_cpu (post_ready (encolar_en_ready p k)) = prox_cpu k"
  "cpus (post_ready (encolar_en_ready p k)) = cpus k"
  "timers (post_ready (encolar_en_ready p k)) = timers k"
  "prox_timer (post_ready (encolar_en_ready p k)) = prox_timer k"
  "lista_cpus_libres (post_ready (encolar_en_ready p k)) = lista_cpus_libres k"
  "lista_mutex (post_ready (encolar_en_ready p k)) = lista_mutex k"
  "cola_espera_sleep (post_ready (encolar_en_ready p k)) = cola_espera_sleep k"
  "cola_espera_stdin (post_ready (encolar_en_ready p k)) = cola_espera_stdin k"
  "cola_espera_stdout (post_ready (encolar_en_ready p k)) = cola_espera_stdout k"
  "sem_puede_planificar (post_ready (encolar_en_ready p k)) = sem_puede_planificar k"
  "compactando (post_ready (encolar_en_ready p k)) = compactando k"
  "proceso_esperando_memoria (post_ready (encolar_en_ready p k)) = proceso_esperando_memoria k"
  "cpu_esperando_memoria (post_ready (encolar_en_ready p k)) = cpu_esperando_memoria k"
  "termino (post_ready (encolar_en_ready p k)) = termino k"
  "bsod_activo (post_ready (encolar_en_ready p k)) = bsod_activo k"
  "algoritmo_planificacion (post_ready (encolar_en_ready p k)) = algoritmo_planificacion k"
  "algoritmos_por_cola (post_ready (encolar_en_ready p k)) = algoritmos_por_cola k"
  "procs (post_ready (encolar_en_ready p k)) = procs k"
  by (cases "encolar_en_ready p k", use encolar_campos [of p k] in simp)+

lemma cancelar_timer_campos [simp]:
  "prox_proc (cancelar_timer p k) = prox_proc k" "prox_cpu (cancelar_timer p k) = prox_cpu k"
  "cpus (cancelar_timer p k) = cpus k" "timers (cancelar_timer p k) = timers k"
  "prox_timer (cancelar_timer p k) = prox_timer k" "lista_cpus_libres (cancelar_timer p k) = lista_cpus_libres k"
  "lista_mutex (cancelar_timer p k) = lista_mutex k" "cola_espera_sleep (cancelar_timer p k) = cola_espera_sleep k"
  "cola_espera_stdin (cancelar_timer p k) = cola_espera_stdin k" "cola_espera_stdout (cancelar_timer p k) = cola_espera_stdout k"
  "sem_puede_planificar (cancelar_timer p k) = sem_puede_planificar k" "compactando (cancelar_timer p k) = compactando k"
  "proceso_esperando_memoria (cancelar_timer p k) = proceso_esperando_memoria k" "cpu_esperando_memoria (cancelar_timer p k) = cpu_esperando_memoria k"
  "termino (cancelar_timer p k) = termino k" "bsod_activo (cancelar_timer p k) = bsod_activo k"
  "algoritmo_planificacion (cancelar_timer p k) = algoritmo_planificacion k" "algoritmos_por_cola (cancelar_timer p k) = algoritmos_por_cola k"
  by (simp_all add: cancelar_timer_def)

lemma poner_prioridad_campos [simp]:
  "prox_proc (poner_prioridad p v k) = prox_proc k" "prox_cpu (poner_prioridad p v k) = prox_cpu k"
  "cpus (poner_prioridad p v k) = cpus k" "timers (poner_prioridad p v k) = timers k"
  "prox_timer (poner_prioridad p v k) = prox_timer k" "lista_cpus_libres (poner_prioridad p v k) = lista_cpus_libres k"
  "lista_mutex (poner_prioridad p v k) = lista_mutex k" "cola_espera_sleep (poner_prioridad p v k) = cola_espera_sleep k"
  "cola_espera_stdin (poner_prioridad p v k) = cola_espera_stdin k" "cola_espera_stdout (poner_prioridad p v k) = cola_espera_stdout k"
  "sem_puede_planificar (poner_prioridad p v k) = sem_puede_planificar k" "compactando (poner_prioridad p v k) = compactando k"
  "proceso_esperando_memoria (poner_prioridad p v k) = proceso_esperando_memoria k" "cpu_esperando_memoria (poner_prioridad p v k) = cpu_esperando_memoria k"
  "termino (poner_prioridad p v k) = termino k" "bsod_activo (poner_prioridad p v k) = bsod_activo k"
  "algoritmo_planificacion (poner_prioridad p v k) = algoritmo_planificacion k" "algoritmos_por_cola (poner_prioridad p v k) = algoritmos_por_cola k"
  by (simp_all add: poner_prioridad_def)

lemma poner_estado_campos [simp]:
  "prox_proc (poner_estado p e k) = prox_proc k" "prox_cpu (poner_estado p e k) = prox_cpu k"
  "cpus (poner_estado p e k) = cpus k" "timers (poner_estado p e k) = timers k"
  "prox_timer (poner_estado p e k) = prox_timer k" "lista_cpus_libres (poner_estado p e k) = lista_cpus_libres k"
  "lista_mutex (poner_estado p e k) = lista_mutex k" "cola_espera_sleep (poner_estado p e k) = cola_espera_sleep k"
  "cola_espera_stdin (poner_estado p e k) = cola_espera_stdin k" "cola_espera_stdout (poner_estado p e k) = cola_espera_stdout k"
  "sem_puede_planificar (poner_estado p e k) = sem_puede_planificar k" "compactando (poner_estado p e k) = compactando k"
  "proceso_esperando_memoria (poner_estado p e k) = proceso_esperando_memoria k" "cpu_esperando_memoria (poner_estado p e k) = cpu_esperando_memoria k"
  "termino (poner_estado p e k) = termino k" "bsod_activo (poner_estado p e k) = bsod_activo k"
  "algoritmo_planificacion (poner_estado p e k) = algoritmo_planificacion k" "algoritmos_por_cola (poner_estado p e k) = algoritmos_por_cola k"
  by (simp_all add: poner_estado_def)

lemma devolver_prioridad_campos [simp]:
  "prox_proc (devolver_prioridad p k) = prox_proc k" "prox_cpu (devolver_prioridad p k) = prox_cpu k"
  "cpus (devolver_prioridad p k) = cpus k" "timers (devolver_prioridad p k) = timers k"
  "prox_timer (devolver_prioridad p k) = prox_timer k" "lista_cpus_libres (devolver_prioridad p k) = lista_cpus_libres k"
  "lista_mutex (devolver_prioridad p k) = lista_mutex k" "cola_espera_sleep (devolver_prioridad p k) = cola_espera_sleep k"
  "cola_espera_stdin (devolver_prioridad p k) = cola_espera_stdin k" "cola_espera_stdout (devolver_prioridad p k) = cola_espera_stdout k"
  "sem_puede_planificar (devolver_prioridad p k) = sem_puede_planificar k" "compactando (devolver_prioridad p k) = compactando k"
  "proceso_esperando_memoria (devolver_prioridad p k) = proceso_esperando_memoria k" "cpu_esperando_memoria (devolver_prioridad p k) = cpu_esperando_memoria k"
  "termino (devolver_prioridad p k) = termino k" "bsod_activo (devolver_prioridad p k) = bsod_activo k"
  "algoritmo_planificacion (devolver_prioridad p k) = algoritmo_planificacion k" "algoritmos_por_cola (devolver_prioridad p k) = algoritmos_por_cola k"
  by (simp_all add: devolver_prioridad_def Let_def)

lemma aplicar_herencia_campos [simp]:
  "prox_proc (aplicar_herencia p m k) = prox_proc k" "prox_cpu (aplicar_herencia p m k) = prox_cpu k"
  "cpus (aplicar_herencia p m k) = cpus k" "timers (aplicar_herencia p m k) = timers k"
  "prox_timer (aplicar_herencia p m k) = prox_timer k" "lista_cpus_libres (aplicar_herencia p m k) = lista_cpus_libres k"
  "lista_mutex (aplicar_herencia p m k) = lista_mutex k" "cola_espera_sleep (aplicar_herencia p m k) = cola_espera_sleep k"
  "cola_espera_stdin (aplicar_herencia p m k) = cola_espera_stdin k" "cola_espera_stdout (aplicar_herencia p m k) = cola_espera_stdout k"
  "sem_puede_planificar (aplicar_herencia p m k) = sem_puede_planificar k" "compactando (aplicar_herencia p m k) = compactando k"
  "proceso_esperando_memoria (aplicar_herencia p m k) = proceso_esperando_memoria k" "cpu_esperando_memoria (aplicar_herencia p m k) = cpu_esperando_memoria k"
  "termino (aplicar_herencia p m k) = termino k" "bsod_activo (aplicar_herencia p m k) = bsod_activo k"
  "algoritmo_planificacion (aplicar_herencia p m k) = algoritmo_planificacion k" "algoritmos_por_cola (aplicar_herencia p m k) = algoritmos_por_cola k"
  by (simp_all add: aplicar_herencia_def Let_def)

lemma poner_mutex_campos [simp]:
  "prox_proc (poner_mutex i m k) = prox_proc k" "prox_cpu (poner_mutex i m k) = prox_cpu k"
  "cpus (poner_mutex i m k) = cpus k" "timers (poner_mutex i m k) = timers k"
  "prox_timer (poner_mutex i m k) = prox_timer k" "lista_cpus_libres (poner_mutex i m k) = lista_cpus_libres k"
  "cola_espera_sleep (poner_mutex i m k) = cola_espera_sleep k" "cola_espera_stdin (poner_mutex i m k) = cola_espera_stdin k"
  "cola_espera_stdout (poner_mutex i m k) = cola_espera_stdout k" "sem_puede_planificar (poner_mutex i m k) = sem_puede_planificar k"
  "compactando (poner_mutex i m k) = compactando k" "proceso_esperando_memoria (poner_mutex i m k) = proceso_esperando_memoria k"
  "cpu_esperando_memoria (poner_mutex i m k) = cpu_esperando_memoria k" "termino (poner_mutex i m k) = termino k"
  "bsod_activo (poner_mutex i m k) = bsod_activo k" "algoritmo_planificacion (poner_mutex i m k) = algoritmo_planificacion k"
  "algoritmos_por_cola (poner_mutex i m k) = algoritmos_por_cola k" "procs (poner_mutex i m k) = procs k"
  by (simp_all add: poner_mutex_def)

lemma lista_new_iguales [simp]:
  "lista_new (fst (encolar_en_ready p k)) = lista_new k"
  "lista_new (fst (encolar_al_frente_de_ready p k)) = lista_new k"
  "lista_new (post_ready (k, b)) = lista_new k" "lista_new (modificar p f k) = lista_new k"
  "lista_new (poner_prioridad p v k) = lista_new k" "lista_new (devolver_prioridad p k) = lista_new k"
  "lista_new (aplicar_herencia p m k) = lista_new k" "lista_new (cancelar_timer p k) = lista_new k"
  "lista_new (poner_mutex i m k) = lista_new k"
  by (simp_all add: encolar_en_ready_def encolar_al_frente_de_ready_def post_ready_def modificar_def
      poner_prioridad_def devolver_prioridad_def aplicar_herencia_def cancelar_timer_def poner_mutex_def Let_def)

lemma lista_new_post_encolar [simp]: "lista_new (post_ready (encolar_en_ready p k)) = lista_new k"
  using lista_new_iguales(1) [of p k] by (cases "encolar_en_ready p k") simp

lemma es_CMN_marco: "algoritmo_planificacion k' = algoritmo_planificacion k \<Longrightarrow> es_CMN k' = es_CMN k"
  by (simp add: es_CMN_def)

lemma lista_mutex_poner_mutex [simp]: "lista_mutex (poner_mutex i m k) = (lista_mutex k)[i := m]"
  by (simp add: poner_mutex_def)

lemma lugar_poner_mutex [simp]: "lugar X (poner_mutex i m k) = lugar X k"
  by (simp add: poner_mutex_def)

section \<open>Dispatch and inheritance\<close>

lemma colas_ok_cola:
  assumes "colas_ok k" "p \<in> set (concat (colas_ready k))"
  shows "nat (prioridad (procs k p)) < length (colas_ready k)"
    "p \<in> set (colas_ready k ! nat (prioridad (procs k p)))"
proof -
  obtain i where i: "i < length (colas_ready k)" "p \<in> set (colas_ready k ! i)"
    using assms(2) by (auto simp: in_set_conv_nth [of _ "colas_ready k"])
  then have "prioridad (procs k p) = int i" using assms(1) unfolding colas_ok_def by blast
  with i show "nat (prioridad (procs k p)) < length (colas_ready k)"
    "p \<in> set (colas_ready k ! nat (prioridad (procs k p)))" by simp_all
qed

lemma lugar_sacar_cola:
  assumes l: "lugar X k" and i: "i < length (colas_ready k)" and p: "p \<in> set (colas_ready k ! i)"
    and m: "mset ys = mset (colas_ready k ! i) - {#p#}"
  shows "lugar (insert p X) (k\<lparr>colas_ready := (colas_ready k)[i := ys]\<rparr>)" (is "lugar _ ?k")
proof (rule lugar_sacar_gen [OF l])
  show pr: "p \<in> set (lista_de READY k)" using i p by (rule en_cola_ready)
  have s: "mset (colas_ready k ! i) \<subseteq># mset (concat (colas_ready k))" by (subst id_take_nth_drop [OF i]) simp
  have sel_colas: "colas_ready ?k = (colas_ready k)[i := ys]" "lista_ready ?k = lista_ready k"
    "lista_ready_invalida ?k = lista_ready_invalida k" by simp_all
  from s have "mset (concat ((colas_ready k)[i := ys])) = mset (concat (colas_ready k)) - {#p#}"
    using p by (simp add: mset_concat_update [OF i] m multiset_eq_iff subseteq_mset_def)
  moreover have "p \<in># mset (concat (colas_ready k))" using p s by (metis mset_subset_eqD set_mset_mset)
  ultimately show "mset (lista_de READY ?k) = mset (lista_de READY k) - {#p#}"
    by (simp only: lista_de.simps mset_append sel_colas) simp
  have sel: "colas_ready ?k = (colas_ready k)[i := ys]" "procs ?k = procs k" by simp_all
  have "set ys \<subseteq> set (colas_ready k ! i)" using m by (metis in_diffD set_mset_mset subsetI)
  then have pr: "prioridad (procs k q) = int j"
    if "j < length (colas_ready k)" "q \<in> set ((colas_ready k)[i := ys] ! j)" for j q
    using that lugar_colas [OF l] by (cases "j = i") (auto simp: colas_ok_def)
  have "length (colas_ready ?k) = (if es_CMN ?k then cantidad_colas ?k else 0)"
    using lugar_colas [OF l] by (simp add: colas_ok_def es_CMN_def cantidad_colas_def)
  moreover have "prioridad (procs ?k q) = int j"
    if "j < length (colas_ready ?k)" "q \<in> set (colas_ready ?k ! j)" for j q
    using that unfolding sel length_list_update by (rule pr)
  ultimately show "colas_ok ?k" unfolding colas_ok_def by blast
  show "lista_de e ?k = lista_de e k" if "e \<noteq> READY" for e using that by (cases e) simp_all
qed simp_all

lemma primera_cola_Some:
  "primera_cola i qs = Some (j, p) \<Longrightarrow>
     i \<le> j \<and> j < i + length qs \<and> (\<exists>ps. qs ! (j - i) = p # ps) \<and> (\<forall>n < j - i. qs ! n = [])"
proof (induction i qs rule: primera_cola.induct)
  case (2 i qs)
  then have h: "Suc i \<le> j" "j < Suc i + length qs" "\<exists>ps. qs ! (j - Suc i) = p # ps" "\<forall>n < j - Suc i. qs ! n = []"
    by simp_all
  then have e: "j - i = Suc (j - Suc i)" by simp
  have "([] # qs) ! n = []" if "n < j - i" for n using that h(4) e by (cases n) auto
  with h e show ?case by simp
qed auto

lemma primera_cola_None: "primera_cola i qs = None \<longleftrightarrow> (\<forall>q \<in> set qs. q = [])"
  by (induction i qs rule: primera_cola.induct) auto

lemma lugar_obtener:
  assumes l: "lugar X k" and o: "obtener_proximo_proceso_ready k = (k', Some (p, b))"
  shows "lugar (insert p X) k'" "p < prox_proc k" "estado (procs k p) = READY" "p \<notin> X"
proof -
  have "lugar (insert p X) k' \<and> p \<in> set (lista_de READY k)"
  proof (cases "es_CMN k")
    case True
    then obtain j where j: "primera_cola 0 (colas_ready k) = Some (j, p)"
      and k': "k' = k\<lparr>colas_ready := (colas_ready k)[j := tl (colas_ready k ! j)]\<rparr>"
      using o by (auto simp: obtener_proximo_proceso_ready_def split: option.splits prod.splits)
    from primera_cola_Some [OF j] obtain ps where i: "j < length (colas_ready k)" "colas_ready k ! j = p # ps"
      by auto
    then show ?thesis unfolding k' by (intro conjI lugar_sacar_cola [OF l] en_cola_ready) auto
  next
    case False
    then obtain ps where ps: "lista_ready k = p # ps" "k' = k\<lparr>lista_ready := ps\<rparr>"
      using o by (auto simp: obtener_proximo_proceso_ready_def split: list.splits)
    have "lista_de e k' = lista_de e k" if "e \<noteq> READY" for e using that ps by (cases e) simp_all
    then have "lugar (insert p X) k'"
      using ps lugar_colas [OF l]
      by (intro lugar_sacar_gen [OF l, where E = READY])
        (simp_all add: colas_ok_def es_CMN_def cantidad_colas_def)
    with ps show ?thesis by simp
  qed
  then show "lugar (insert p X) k'" "p < prox_proc k" "estado (procs k p) = READY" "p \<notin> X"
    using lugarD [OF l] by blast+
qed

lemma obtener_campos:
  assumes "obtener_proximo_proceso_ready k = (k', r)"
  shows "procs k' = procs k" "prox_proc k' = prox_proc k" "prox_cpu k' = prox_cpu k" "cpus k' = cpus k"
    "timers k' = timers k" "prox_timer k' = prox_timer k" "lista_cpus_libres k' = lista_cpus_libres k"
    "lista_mutex k' = lista_mutex k" "cola_espera_sleep k' = cola_espera_sleep k"
    "cola_espera_stdin k' = cola_espera_stdin k" "cola_espera_stdout k' = cola_espera_stdout k"
    "sem_puede_planificar k' = sem_puede_planificar k" "compactando k' = compactando k"
    "proceso_esperando_memoria k' = proceso_esperando_memoria k"
    "cpu_esperando_memoria k' = cpu_esperando_memoria k" "lista_exec k' = lista_exec k"
  using assms
  by (auto simp: obtener_proximo_proceso_ready_def split: if_splits option.splits prod.splits list.splits)

text \<open>The part of a process that the threads rely on.\<close>

definition nucleo :: "t_proceso \<Rightarrow> t_estado \<times> nat option \<times> nat option" where
  "nucleo r = (estado r, pr_cpu r, timer r)"

lemma nucleo_iguales [simp]:
  "nucleo (procs (poner_prioridad p v k) q) = nucleo (procs k q)"
  "nucleo (procs (devolver_prioridad p k) q) = nucleo (procs k q)"
  "nucleo (procs (aplicar_herencia p m k) q) = nucleo (procs k q)"
  by (simp_all add: nucleo_def poner_prioridad_def devolver_prioridad_def aplicar_herencia_def Let_def)

lemma nucleo_estado: "nucleo r = nucleo s \<Longrightarrow> estado r = estado s"
  by (simp add: nucleo_def)

lemma lugar_devolver [lugar_intros]:
  "lugar X k \<Longrightarrow> estado (procs k p) \<noteq> READY \<Longrightarrow> lugar X (devolver_prioridad p k)"
  by (simp add: devolver_prioridad_def Let_def lugar_poner_prioridad)

lemma lugar_herencia [lugar_intros]:
  assumes l: "lugar X k" and r: "estado (procs k p) = READY \<Longrightarrow> p \<in> set (concat (colas_ready k))"
  shows "lugar X (aplicar_herencia p m k)"
proof -
  let ?v = "mayor_prioridad_del_mutex m k" and ?c = "nat (prioridad (procs k p))"
  let ?k1 = "k\<lparr>colas_ready := (colas_ready k)[?c := remove1 p (colas_ready k ! ?c)]\<rparr>"
  have "lugar X (fst (encolar_en_ready p (poner_prioridad p ?v ?k1)))" if e: "estado (procs k p) = READY"
  proof -
    have c: "?c < length (colas_ready k)" "p \<in> set (colas_ready k ! ?c)"
      using colas_ok_cola [OF lugar_colas [OF l] r [OF e]] by auto
    then have p: "p < prox_proc k" "p \<notin> X" using lugarD(2,3) [OF l] en_cola_ready by blast+
    have "lugar (insert p X) ?k1" using c by (intro lugar_sacar_cola [OF l]) simp_all
    then have "lugar (insert p X) (poner_prioridad p ?v ?k1)"
      unfolding poner_prioridad_def by (rule lugar_modificar_fuera) simp
    then have "lugar (insert p X - {p}) (fst (encolar_en_ready p (poner_prioridad p ?v ?k1)))"
      by (rule lugar_encolar) (use p e in \<open>simp_all add: poner_prioridad_def\<close>)
    then show ?thesis using p(2) by simp
  qed
  then show ?thesis using l by (simp add: aplicar_herencia_def Let_def lugar_poner_prioridad)
qed

section \<open>The operations\<close>

text \<open>A process that changes its list: out of the one of its state, changed, and into the new one.\<close>

lemma en_lista:
  "lugar X k \<Longrightarrow> p < prox_proc k \<Longrightarrow> p \<notin> X \<Longrightarrow> estado (procs k p) = EXEC \<Longrightarrow> p \<in> set (lista_exec k)"
  "lugar X k \<Longrightarrow> p < prox_proc k \<Longrightarrow> p \<notin> X \<Longrightarrow> estado (procs k p) = BLOCK \<Longrightarrow> p \<in> set (lista_block k)"
  "lugar X k \<Longrightarrow> p < prox_proc k \<Longrightarrow> p \<notin> X \<Longrightarrow> estado (procs k p) = SUSP_BLOCK \<Longrightarrow> p \<in> set (lista_susp_block k)"
  "lugar X k \<Longrightarrow> p < prox_proc k \<Longrightarrow> p \<notin> X \<Longrightarrow> estado (procs k p) = SUSP_READY \<Longrightarrow> p \<in> set (lista_susp_ready k)"
  using lugarD(5) [of X k p EXEC] lugarD(5) [of X k p BLOCK] lugarD(5) [of X k p SUSP_BLOCK]
    lugarD(5) [of X k p SUSP_READY] by simp_all

lemma modificar_conmuta:
  "(modificar p f k)\<lparr>lista_block := a\<rparr> = modificar p f (k\<lparr>lista_block := a\<rparr>)"
  "(modificar p f k)\<lparr>lista_susp_block := a\<rparr> = modificar p f (k\<lparr>lista_susp_block := a\<rparr>)"
  "(modificar p f k)\<lparr>lista_susp_ready := a\<rparr> = modificar p f (k\<lparr>lista_susp_ready := a\<rparr>)"
  "lista_block (modificar p f k) = lista_block k" "lista_susp_block (modificar p f k) = lista_susp_block k"
  "lista_susp_ready (modificar p f k) = lista_susp_ready k" "lista_exec (modificar p f k) = lista_exec k"
  "lista_new (modificar p f k) = lista_new k"
  by (simp_all add: modificar_def)

lemma lugar_mover_ready:
  assumes l: "lugar {} k"
  shows "p \<in> set (lista_new k) \<Longrightarrow> lugar {} (mover_proceso_a_ready p k)"
    and "p < prox_proc k \<Longrightarrow> estado (procs k p) = BLOCK \<Longrightarrow> lugar {} (mover_proceso_de_block_a_ready p k)"
proof -
  { assume p: "p \<in> set (lista_new k)"
    then have b: "p < prox_proc k" using lugarD(3) [OF l, of p NEW] by simp
    show "lugar {} (mover_proceso_a_ready p k)"
      using lugar_post_encolar [OF lugar_modificar_fuera [OF lugar_sacar(1) [OF l p]]] b
      by (simp add: mover_proceso_a_ready_def poner_estado_def) }
  { assume b: "p < prox_proc k" and e: "estado (procs k p) = BLOCK"
    then have p: "p \<in> set (lista_block k)" using en_lista(2) [OF l] by simp
    show "lugar {} (mover_proceso_de_block_a_ready p k)"
      using lugar_post_encolar [OF lugar_modificar_fuera [OF lugar_sacar(3) [OF l p]]] b
      by (simp add: mover_proceso_de_block_a_ready_def poner_estado_def) }
qed

lemma lugar_mover_susp:
  assumes l: "lugar {} k" and b: "p < prox_proc k" and e: "estado (procs k p) = SUSP_BLOCK"
  shows "lugar {} (mover_a_susp_ready p k)"
proof -
  have p: "p \<in> set (lista_susp_block k)" using en_lista(3) [OF l b] e by simp
  have c: "mover_a_susp_ready p k =
      (modificar p (\<lambda>r. r\<lparr>estado := SUSP_READY, tiempo_suspension := reloj k\<rparr>)
         (k\<lparr>lista_susp_block := remove1 p (lista_susp_block k)\<rparr>))\<lparr>lista_susp_ready := lista_susp_ready k @ [p]\<rparr>"
    by (simp add: mover_a_susp_ready_def modificar_def)
  note m = lugar_modificar_fuera [OF lugar_sacar(5) [OF l p], of p]
  show ?thesis
    using lugar_poner(4) [OF m [of "\<lambda>r. r\<lparr>estado := SUSP_READY, tiempo_suspension := reloj k\<rparr>"], of p] b
    by (simp add: c modificar_conmuta)
qed

lemma lugar_despertar:
  "lugar {} k \<Longrightarrow> p < prox_proc k \<Longrightarrow> estado (procs k p) = e \<Longrightarrow> lugar {} (despertar p e k)"
  by (simp add: despertar_def lugar_mover_ready lugar_mover_susp)

lemma lugar_dessuspender_mover:
  assumes l: "lugar {} k" and b: "p < prox_proc k" and e: "estado (procs k p) = SUSP_READY"
  shows "lugar {} (dessuspender_mover p k)"
  using lugar_post_encolar [OF lugar_modificar_fuera [OF lugar_sacar(4) [OF l en_lista(4) [OF l b _ e]]], of p] b
  by (simp add: dessuspender_mover_def poner_estado_def)

lemma lugar_olvidar:
  assumes "lugar {p} k" "estado (procs k p) = NEW \<or> estado (procs k p) = EXIT_STATE"
  shows "lugar {} k"
  using assms unfolding lugar_def by (metis insertCI singletonD empty_iff)

lemma lugar_salir:
  assumes l: "lugar {} k" and s: "salir_de_exec v k = (k', Some (p, d))"
  shows "lugar {} k'"
proof -
  have p: "p \<in> set (lista_exec k)"
    using s by (auto simp: salir_de_exec_def buscar_proceso_en_exec_def split: option.splits dest: buscar_pid_Some)
  let ?f = "\<lambda>r. r\<lparr>timer := None, estado := EXIT_STATE\<rparr>"
  have "lugar {p} (modificar p ?f (k\<lparr>lista_exec := remove1 p (lista_exec k)\<rparr>))" (is "lugar _ ?k")
    by (rule lugar_modificar_fuera [OF lugar_sacar(2) [OF l p]]) simp
  then have "lugar {} ?k" by (rule lugar_olvidar) simp
  with s p show ?thesis by (auto simp: salir_de_exec_def split: option.splits)
qed

lemma lugar_poner_timer [lugar_intros]: "lugar X k \<Longrightarrow> lugar X (fst (poner_timer p s k))"
  by (simp add: poner_timer_def crear_timer_def lugar_modificar_igual)

lemma lugar_a_block:
  assumes l: "lugar {} k" and p: "p \<in> set (lista_exec k)"
    and f: "\<And>r. estado (f r) = BLOCK"
  shows "lugar {} (modificar p f (k\<lparr>lista_exec := remove1 p (lista_exec k), lista_block := lista_block k @ [p]\<rparr>))"
proof -
  have b: "p < prox_proc k" using lugarD(3) [OF l, of p EXEC] p by simp
  have "lugar {p} (modificar p f (k\<lparr>lista_exec := remove1 p (lista_exec k)\<rparr>))" (is "lugar _ ?k")
    by (rule lugar_modificar_fuera [OF lugar_sacar(2) [OF l p]]) simp
  from lugar_poner(3) [OF this, of p] b f
  have "lugar {} (?k\<lparr>lista_block := lista_block ?k @ [p]\<rparr>)" by simp
  then show ?thesis by (simp add: modificar_conmuta)
qed

lemma lugar_bloquear:
  assumes "lugar {} k" "p \<in> set (lista_exec k)" "bloquear_proceso p k = (k', d, t)"
  shows "lugar {} k'"
proof -
  let ?k = "modificar p (\<lambda>r. r\<lparr>timer := None, estado := BLOCK, pr_cpu := None\<rparr>)
      (k\<lparr>lista_exec := remove1 p (lista_exec k), lista_block := lista_block k @ [p]\<rparr>)"
  have "lugar {} ?k" by (rule lugar_a_block [OF assms(1,2)]) simp
  moreover have "k' = fst (poner_timer p (- 1) ?k)"
    using assms(3) by (auto simp: bloquear_proceso_def Let_def split: prod.splits)
  ultimately show ?thesis by (simp add: lugar_poner_timer)
qed

lemma lugar_compactacion_bloquear:
  assumes "lugar {} k" "p \<in> set (lista_exec k)"
  shows "lugar {} (compactacion_bloquear p k)"
proof -
  let ?k = "modificar p (\<lambda>r. r\<lparr>estado := BLOCK, pr_cpu := None\<rparr>)
      (k\<lparr>lista_exec := remove1 p (lista_exec k), lista_block := lista_block k @ [p]\<rparr>)"
  have "lugar {} ?k" by (rule lugar_a_block [OF assms]) simp
  then have "lugar {} (?k\<lparr>compactando := True\<rparr>)" by simp
  moreover have "compactacion_bloquear p k = ?k\<lparr>compactando := True\<rparr>"
    by (simp add: compactacion_bloquear_def modificar_def)
  ultimately show ?thesis by simp
qed

lemma lugar_fin_compactacion:
  assumes l: "lugar {} k" and m: "proceso_esperando_memoria k = Some p" and b: "p < prox_proc k"
    and e: "estado (procs k p) = BLOCK"
  shows "lugar {} (fin_compactacion k)"
proof -
  let ?f = "\<lambda>r. r\<lparr>estado := EXEC, pr_cpu := cpu_esperando_memoria k\<rparr>"
  have p: "p \<in> set (lista_block k)" using en_lista(2) [OF l b] e by simp
  have "lugar {p} (modificar p ?f (k\<lparr>lista_block := remove1 p (lista_block k)\<rparr>))" (is "lugar _ ?k")
    by (rule lugar_modificar_fuera [OF lugar_sacar(3) [OF l p]]) simp
  from lugar_poner(2) [OF this, of p] b
  have "lugar {} (?k\<lparr>lista_exec := lista_exec ?k @ [p], compactando := False\<rparr>)" by simp
  moreover have "fin_compactacion k = ?k\<lparr>lista_exec := lista_exec ?k @ [p], compactando := False\<rparr>"
    by (simp add: fin_compactacion_def m modificar_def)
  ultimately show ?thesis by simp
qed

lemma lugar_exec_a_ready:
  assumes l: "lugar {} k" and p: "p \<in> set (lista_exec k)" and f: "\<And>r. estado (f r) = READY"
  shows "lugar {} (fst (encolar_en_ready p (modificar p f (k\<lparr>lista_exec := remove1 p (lista_exec k)\<rparr>))))"
    "lugar {} (fst (encolar_al_frente_de_ready p (modificar p f (k\<lparr>lista_exec := remove1 p (lista_exec k)\<rparr>))))"
proof -
  have b: "p < prox_proc k" using lugarD(3) [OF l, of p EXEC] p by simp
  have "lugar {p} (modificar p f (k\<lparr>lista_exec := remove1 p (lista_exec k)\<rparr>))" (is "lugar _ ?k")
    by (rule lugar_modificar_fuera [OF lugar_sacar(2) [OF l p]]) simp
  from lugar_encolar [OF this, of p] b f
  show "lugar {} (fst (encolar_en_ready p ?k))" "lugar {} (fst (encolar_al_frente_de_ready p ?k))" by simp_all
qed

lemma lugar_fin_quantum:
  assumes l: "lugar {} k" and s: "manejar_fin_quantum v k = (k', Some r)"
  shows "lugar {} k'"
proof -
  obtain p where p: "p \<in> set (lista_exec k)" and
    k': "k' = fst (encolar_en_ready p (modificar p (\<lambda>r. r\<lparr>estado := READY, pr_cpu := None\<rparr>)
           (k\<lparr>lista_exec := remove1 p (lista_exec k)\<rparr>))) \<or>
         k' = fst (encolar_al_frente_de_ready p (modificar p (\<lambda>r. r\<lparr>estado := READY, pr_cpu := None\<rparr>)
           (k\<lparr>lista_exec := remove1 p (lista_exec k)\<rparr>)))"
    using s by (auto simp: manejar_fin_quantum_def buscar_proceso_en_exec_def Let_def
        split: option.splits prod.splits if_splits dest!: buscar_pid_Some)
  then show ?thesis using lugar_exec_a_ready [OF l p, of "\<lambda>r. r\<lparr>estado := READY, pr_cpu := None\<rparr>"] by auto
qed

lemma lugar_desconectar:
  assumes l: "lugar {} k"
  shows "lugar {} (desconectar_cpu c k)"
proof -
  define k1 where "k1 = (if c \<in> set (lista_cpus_libres k)
    then k\<lparr>lista_cpus_libres := remove1 c (lista_cpus_libres k), sem_hay_cpus_libres := sem_hay_cpus_libres k - 1\<rparr>
    else k)"
  have l1: "lugar {} k1" using l by (simp add: k1_def)
  show ?thesis
  proof (cases "find (con_cpu k1 c) (lista_exec k1)")
    case None
    then show ?thesis using l1 by (simp add: desconectar_cpu_def k1_def)
  next
    case (Some p)
    then have p: "p \<in> set (lista_exec k1)" by (auto simp: find_Some_iff)
    let ?f = "\<lambda>r. r\<lparr>timer := None, estado := READY, pr_cpu := None\<rparr>"
    let ?k = "modificar p ?f (k1\<lparr>lista_exec := remove1 p (lista_exec k1)\<rparr>)"
    have "lugar {} (fst (encolar_en_ready p ?k))" by (rule lugar_exec_a_ready [OF l1 p]) simp
    then have "lugar {} (post_ready (encolar_en_ready p ?k))" by (cases "encolar_en_ready p ?k") simp
    moreover have "desconectar_cpu c k = post_ready (encolar_en_ready p ?k)"
      using Some by (simp add: desconectar_cpu_def k1_def [symmetric])
    ultimately show ?thesis by simp
  qed
qed

lemma lugar_despachar:
  assumes l: "lugar {} k" and d: "despachar k = Some (k', r)"
  shows "lugar {} k'"
proof (cases "snd (obtener_proximo_proceso_ready k)")
  case None
  then obtain k1 where o: "obtener_proximo_proceso_ready k = (k1, None)" by (metis prod.collapse)
  then have "k1 = k" by (auto simp: obtener_proximo_proceso_ready_def split: if_splits option.splits prod.splits list.splits)
  with o d l show ?thesis by (auto simp: despachar_def)
next
  case (Some x)
  then obtain k1 p b where o: "obtener_proximo_proceso_ready k = (k1, Some (p, b))"
    by (metis prod.collapse)
  with d obtain c cs where c: "lista_cpus_libres k1 = c # cs" by (auto simp: despachar_def split: list.splits)
  note lp = lugar_obtener [OF l o] obtener_campos [OF o]
  let ?f = "\<lambda>r. r\<lparr>estado := EXEC, pr_cpu := Some c, socket_cpu := cp_socket (cpus k1 c)\<rparr>"
  let ?k = "modificar p ?f (k1\<lparr>lista_cpus_libres := cs, lista_exec := lista_exec k1 @ [p]\<rparr>)"
  have "lugar {p} (modificar p ?f (k1\<lparr>lista_cpus_libres := cs\<rparr>))" (is "lugar _ ?k2")
    using lp(1) by (intro lugar_modificar_fuera) simp_all
  from lugar_poner(2) [OF this, of p] lp(2,6)
  have "lugar {} (?k2\<lparr>lista_exec := lista_exec ?k2 @ [p]\<rparr>)" by simp
  moreover have "?k2\<lparr>lista_exec := lista_exec ?k2 @ [p]\<rparr> = ?k" by (simp add: modificar_def)
  ultimately have k: "lugar {} ?k" by simp
  have "k' = ?k \<or> k' = fst (poner_timer p (cp_socket (cpus k1 c)) ?k)"
    using d o c by (auto simp: despachar_def Let_def split: if_splits prod.splits)
  then show ?thesis using k lugar_poner_timer by auto
qed

lemma lugar_quantum: "lugar {} k \<Longrightarrow> hilo_quantum t k = (k', b) \<Longrightarrow> lugar {} k'"
  by (auto simp: hilo_quantum_def split: option.splits if_splits)

lemma lugar_suspension:
  assumes l: "lugar {} k" and h: "hilo_suspension t k = (k', r)"
  shows "lugar {} k'"
proof (cases r)
  case None
  then show ?thesis using h l by (auto simp: hilo_suspension_def Let_def split: option.splits if_splits)
next
  case (Some p)
  let ?k1 = "cancelar_timer p k"
  have e: "estado (procs k p) = BLOCK" and bp: "buscar_proceso_por_pid (tm_pid (timers k t)) k = Some p"
    and k': "k' = (poner_estado p SUSP_BLOCK ?k1)\<lparr>lista_block := remove1 p (lista_block ?k1),
        lista_susp_block := lista_susp_block ?k1 @ [p]\<rparr>"
    using h Some by (auto simp: hilo_suspension_def Let_def split: option.splits if_splits)
  have "p \<in> set (lista_de EXEC k) \<or> p \<in> set (lista_de BLOCK k) \<or> p \<in> set (lista_de SUSP_READY k) \<or>
      p \<in> set (lista_de SUSP_BLOCK k) \<or> p \<in> set (lista_de READY k)"
    using bp by (auto simp: buscar_proceso_por_pid_def dest!: buscar_pid_Some split: if_splits)
  then have b: "p < prox_proc k" using lugarD(3) [OF l] by blast
  have l1: "lugar {} ?k1" using l by simp
  have p: "p \<in> set (lista_block ?k1)"
    using en_lista(2) [OF l b] e by (simp add: cancelar_timer_def modificar_conmuta)
  have "lugar {p} (poner_estado p SUSP_BLOCK (?k1\<lparr>lista_block := remove1 p (lista_block ?k1)\<rparr>))" (is "lugar _ ?k2")
    unfolding poner_estado_def by (rule lugar_modificar_fuera [OF lugar_sacar(3) [OF l1 p]]) simp
  from lugar_poner(5) [OF this, of p] b
  have "lugar {} (?k2\<lparr>lista_susp_block := lista_susp_block ?k2 @ [p]\<rparr>)" by (simp add: poner_estado_def)
  then show ?thesis by (simp add: k' poner_estado_def modificar_conmuta)
qed

text \<open>A \<open>READY\<close> process that a search by pid finds is in the queue of its priority.\<close>

lemma buscar_en_cola:
  assumes l: "lugar {} k" and b: "buscar_proceso_por_pid v k = Some p"
  shows "p < prox_proc k" "es_CMN k \<Longrightarrow> estado (procs k p) = READY \<Longrightarrow> p \<in> set (concat (colas_ready k))"
proof -
  have m: "p \<in> set (lista_de EXEC k) \<or> p \<in> set (lista_de BLOCK k) \<or> p \<in> set (lista_de SUSP_READY k) \<or>
      p \<in> set (lista_de SUSP_BLOCK k) \<or> p \<in> set (if es_CMN k then concat (colas_ready k) else lista_ready k)"
    using b by (auto simp: buscar_proceso_por_pid_def dest!: buscar_pid_Some split: if_splits)
  moreover have "set (if es_CMN k then concat (colas_ready k) else lista_ready k) \<subseteq> set (lista_de READY k)"
    by auto
  ultimately show "p < prox_proc k" using lugarD(3) [OF l] by blast
  show "p \<in> set (concat (colas_ready k))" if "es_CMN k" "estado (procs k p) = READY"
    using m that lugarD(4) [OF l, of p] by fastforce
qed

lemma lugar_mutex_lock:
  assumes l: "lugar {} k" and h: "manejar_mutex_lock p s n k = (k', b)"
  shows "lugar {} k'"
proof (cases "buscar_mutex n k")
  case None
  then show ?thesis using h l by (auto simp: manejar_mutex_lock_def lugar_callado [OF callado_enviar(3)])
next
  case (Some i)
  show ?thesis
  proof (cases "pid_dueno (lista_mutex k ! i) = - 1")
    case True
    then show ?thesis using h l Some
      by (auto simp: manejar_mutex_lock_def Let_def lugar_callado [OF callado_enviar(3)])
  next
    case False
    let ?m = "(lista_mutex k ! i)\<lparr>cola_espera := cola_espera (lista_mutex k ! i) @ [p]\<rparr>"
    let ?k1 = "poner_mutex i ?m k"
    have l1: "lugar {} ?k1" using l by simp
    have "lugar {} (case buscar_proceso_por_pid (pid_dueno ?m) ?k1 of None \<Rightarrow> ?k1
        | Some d \<Rightarrow> if es_CMN ?k1 then aplicar_herencia d ?m ?k1 else ?k1)" (is "lugar {} ?k2")
    proof (cases "buscar_proceso_por_pid (pid_dueno ?m) ?k1")
      case (Some d)
      then show ?thesis using l1 buscar_en_cola(2) [OF l1 Some] lugar_herencia [OF l1] by (simp del: set_concat)
    qed (simp add: l)
    moreover have "k' = enviar_codigo s OP_BLOQUEADO ?k2"
      using h Some False by (simp add: manejar_mutex_lock_def Let_def)
    ultimately show ?thesis by (simp add: lugar_callado [OF callado_enviar(3)])
  qed
qed

text \<open>Who waits for a mutex.\<close>

definition en_mutex :: "ks \<Rightarrow> nat list" where
  "en_mutex k = concat (map cola_espera (lista_mutex k))"

lemma lugar_mutex_unlock:
  assumes l: "lugar {} k" and h: "manejar_mutex_unlock p s n k = (k', r)"
    and p: "estado (procs k p) \<noteq> READY" and q: "\<forall>q \<in> set (en_mutex k). estado (procs k q) \<noteq> READY"
  shows "lugar {} k'"
proof -
  have m: "q \<in> set (en_mutex k)" if "buscar_mutex n k = Some i" "cola_espera (lista_mutex k ! i) = q # qs" for i q qs
  proof -
    have "i < length (lista_mutex k)"
      using that(1) buscar_nombre_Some [of 0 n "lista_mutex k" i] by (simp add: buscar_mutex_def)
    with that(2) show ?thesis by (auto simp: en_mutex_def intro!: bexI [of _ "lista_mutex k ! i"])
  qed
  have d: "lugar {} (if es_CMN k1 then aplicar_herencia q m (devolver_prioridad p k1) else k1)"
    if "lugar {} k1" "procs k1 = procs k" "estado (procs k q) \<noteq> READY" for k1 q m
  proof -
    have "estado (procs (devolver_prioridad p k1) q) \<noteq> READY"
      using that(2,3) nucleo_estado [OF nucleo_iguales(2)] by metis
    moreover have "lugar {} (devolver_prioridad p k1)" using that(1,2) p by (simp add: lugar_devolver)
    ultimately have "lugar {} (aplicar_herencia q m (devolver_prioridad p k1))"
      by (intro lugar_herencia) simp_all
    then show ?thesis using that(1) by simp
  qed
  show ?thesis
  proof (cases "buscar_mutex n k")
    case None
    then show ?thesis using h l by (auto simp: manejar_mutex_unlock_def lugar_callado [OF callado_enviar(3)])
  next
    case (Some i)
    show ?thesis
    proof (cases "cola_espera (lista_mutex k ! i)")
      case Nil
      then show ?thesis using h l Some p
        by (auto simp: manejar_mutex_unlock_def Let_def lugar_callado [OF callado_enviar(3)] lugar_devolver split: if_splits)
    next
      case (Cons q qs)
      note cq = m [OF Some Cons]
      let ?m = "(lista_mutex k ! i)\<lparr>pid_dueno := pid (procs k q), cola_espera := qs\<rparr>"
      have "lugar {} (if es_CMN (poner_mutex i ?m k)
          then aplicar_herencia q ?m (devolver_prioridad p (poner_mutex i ?m k)) else poner_mutex i ?m k)"
        by (rule d) (use l q cq in simp_all)
      then show ?thesis using h Some Cons by (auto simp: manejar_mutex_unlock_def Let_def)
    qed
  qed
qed

end
