(* ===== verification/InvarianteKS.thy ===== *)
theory InvarianteKS
  imports UbicacionKS
begin

text \<open>
  The invariant of all the threads of the Kernel Scheduler.  What a thread relies on, at each
  point, is a multiset of resources: the process its CPU runs, a process it has to wake, a CPU
  that is in nobody's list, the turn of the planner.  The invariant \<open>inv\<close> relates the state
  with the resources of all the threads, so a step is proved by what it does to the resources
  of its own thread, whatever the others hold.
\<close>

section \<open>Resources\<close>

datatype ref = Libre | Ref nat | Bloq nat | Comp nat

datatype recurso =
    R_hilo nat ref               \<comment> \<open>the thread of a CPU, with the running process it attends\<close>
  | R_nuevo bool nat             \<comment> \<open>a process being created, and whether it is in \<open>lista_new\<close>\<close>
  | R_dess "nat option"          \<comment> \<open>the loop that resumes processes\<close>
  | R_mem bool                   \<comment> \<open>the thread of the notifications, with the end of a compaction\<close>
  | R_turno                      \<comment> \<open>\<open>sem_puede_planificar\<close>, taken\<close>
  | R_espera nat                 \<comment> \<open>a blocked process that this thread will wake\<close>
  | R_firme nat t_estado         \<comment> \<open>the same, with the state it was seen in\<close>
  | R_susp nat                   \<comment> \<open>the timer of a suspension\<close>
  | R_cpu "nat option"           \<comment> \<open>a CPU on its way to the list of free ones\<close>

fun recursos_dess :: "paso_dess \<Rightarrow> recurso multiset" where
  "recursos_dess (D_mover i p) = {#R_dess (Some p)#}"
| "recursos_dess _ = {#R_dess None#}"

fun recursos_cpu :: "nat \<Rightarrow> paso_cpu \<Rightarrow> recurso multiset" where
  "recursos_cpu c (C_atender p t) = {#R_hilo c (Ref p)#}"
| "recursos_cpu c (C_comp_esperar p) = {#R_hilo c (Ref p)#}"
| "recursos_cpu c (C_bloquear p) = {#R_hilo c (Bloq p)#}"
| "recursos_cpu c (C_comp_bloquear p) = {#R_hilo c (Comp p)#}"
| "recursos_cpu c (C_exit_memoria v d) = {#R_hilo c Libre, R_cpu d#}"
| "recursos_cpu c (C_exit_mutex v d) = {#R_hilo c Libre, R_cpu d#}"
| "recursos_cpu c (C_exit_cpu d) = {#R_hilo c Libre, R_cpu d#}"
| "recursos_cpu c (C_quantum_cpu d b) = {#R_hilo c Libre, R_cpu d#}"
| "recursos_cpu c (C_bloqueado d None) = {#R_hilo c Libre, R_cpu d#}"
| "recursos_cpu c (C_bloqueado d (Some (p, io))) = {#R_hilo c Libre, R_cpu d, R_espera p#}"
| "recursos_cpu c (C_pedir_io p io) = {#R_hilo c Libre, R_espera p#}"
| "recursos_cpu c (C_mutex_mover q e) =
     (if e = BLOCK \<or> e = SUSP_BLOCK then {#R_hilo c Libre, R_firme q e#} else {#R_hilo c Libre#})"
| "recursos_cpu c (C_init_memoria p path) = {#R_hilo c Libre, R_nuevo False p#}"
| "recursos_cpu c (C_init_new p) = {#R_hilo c Libre, R_nuevo False p#}"
| "recursos_cpu c (C_init_ready p) = {#R_hilo c Libre, R_nuevo True p#}"
| "recursos_cpu c _ = {#R_hilo c Libre#}"

fun recursos_io :: "paso_io \<Rightarrow> recurso multiset" where
  "recursos_io (I_ejecutar p) = {#R_espera p#}"
| "recursos_io (I_fin p) = {#R_espera p#}"
| "recursos_io (I_mover p e) = {#R_firme p e#}"
| "recursos_io (I_dess d) = recursos_dess d"
| "recursos_io _ = {#}"

fun recursos :: "hilo \<Rightarrow> recurso multiset" where
  "recursos (Planificador_corto P_despachar) = {#R_turno#}"
| "recursos (Planificador_corto (P_enviar p c t)) = {#R_turno#}"
| "recursos (Cpu c d) = recursos_cpu c d"
| "recursos (Io tipo s d) = recursos_io d"
| "recursos (Memoria M_avisar) = {#R_mem False, R_turno#}"
| "recursos (Memoria M_fin) = {#R_mem True#}"
| "recursos (Memoria (M_dess d)) = add_mset (R_mem False) (recursos_dess d)"
| "recursos (Memoria _) = {#R_mem False#}"
| "recursos (Timer_suspension t) = {#R_susp t#}"
| "recursos _ = {#}"

definition todos :: "hilo list \<Rightarrow> recurso multiset" where
  "todos hs = \<Sum>\<^sub># (mset (map recursos hs))"

lemma todos_simps [simp]:
  "todos [] = {#}" "todos (h # hs) = recursos h + todos hs" "todos (hs @ hs') = todos hs + todos hs'"
  by (simp_all add: todos_def)

text \<open>Of some resources there is one for each key.\<close>

fun clave :: "recurso \<Rightarrow> (nat \<times> nat) multiset" where
  "clave (R_hilo c x) = {#(0, c)#}"
| "clave (R_nuevo b p) = {#(1, p)#}"
| "clave (R_dess x) = {#(2, 0)#}"
| "clave (R_mem b) = {#(3, 0)#}"
| "clave _ = {#}"

definition claves :: "recurso multiset \<Rightarrow> (nat \<times> nat) multiset" where
  "claves M = \<Sum>\<^sub># (image_mset clave M)"

fun espera_de :: "recurso \<Rightarrow> nat multiset" where
  "espera_de (R_espera p) = {#p#}"
| "espera_de (R_firme p e) = {#p#}"
| "espera_de _ = {#}"

fun cpu_de :: "recurso \<Rightarrow> nat option multiset" where
  "cpu_de (R_cpu d) = {#d#}"
| "cpu_de _ = {#}"

fun turno_de :: "recurso \<Rightarrow> nat" where
  "turno_de R_turno = 1"
| "turno_de (R_hilo c (Comp p)) = 1"
| "turno_de _ = 0"

definition turnos :: "recurso multiset \<Rightarrow> nat" where
  "turnos M = (\<Sum>r \<in># M. turno_de r)"

text \<open>Everybody who waits for something, with the process that waits for a compaction.\<close>

definition en_io :: "ks \<Rightarrow> nat list" where
  "en_io k = cola_espera_sleep k @ cola_espera_stdin k @ cola_espera_stdout k"

definition en_compactacion :: "ks \<Rightarrow> nat multiset" where
  "en_compactacion k =
     (if compactando k then (case proceso_esperando_memoria k of None \<Rightarrow> {#} | Some p \<Rightarrow> {#p#}) else {#})"

definition esperas :: "ks \<Rightarrow> recurso multiset \<Rightarrow> nat multiset" where
  "esperas k M = mset (en_io k) + mset (en_mutex k) + en_compactacion k + \<Sum>\<^sub># (image_mset espera_de M)"

text \<open>The CPUs that run nothing.\<close>

definition sin_correr :: "ks \<Rightarrow> recurso multiset \<Rightarrow> nat option multiset" where
  "sin_correr k M =
     image_mset Some (mset (lista_cpus_libres k)) + \<Sum>\<^sub># (image_mset cpu_de M) +
     (if compactando k then {#cpu_esperando_memoria k#} else {#})"

lemma resumen_simps [simp]:
  "claves {#} = {#}" "claves (add_mset r M) = clave r + claves M" "claves (M + N) = claves M + claves N"
  "turnos {#} = 0" "turnos (add_mset r M) = turno_de r + turnos M" "turnos (M + N) = turnos M + turnos N"
  by (simp_all add: claves_def turnos_def)

section \<open>The invariant\<close>

definition corre :: "ks \<Rightarrow> nat \<Rightarrow> nat \<Rightarrow> bool" where
  "corre k c p \<longleftrightarrow> p < prox_proc k \<and> estado (procs k p) = EXEC \<and> pr_cpu (procs k p) = Some c"

definition bloqueado :: "ks \<Rightarrow> nat \<Rightarrow> bool" where
  "bloqueado k p \<longleftrightarrow> p < prox_proc k \<and> (estado (procs k p) = BLOCK \<or> estado (procs k p) = SUSP_BLOCK)"

fun recurso_ok :: "ks \<Rightarrow> recurso \<Rightarrow> bool" where
  "recurso_ok k (R_hilo c x) \<longleftrightarrow>
     c < prox_cpu k \<and>
     (case x of Libre \<Rightarrow> True | Ref p \<Rightarrow> corre k c p | Bloq p \<Rightarrow> corre k c p
      | Comp p \<Rightarrow> corre k c p \<and> proceso_esperando_memoria k = Some p \<and> cpu_esperando_memoria k = Some c)"
| "recurso_ok k (R_nuevo b p) \<longleftrightarrow>
     p < prox_proc k \<and> estado (procs k p) = NEW \<and> (b \<longleftrightarrow> p \<in> set (lista_new k))"
| "recurso_ok k (R_dess x) \<longleftrightarrow>
     (case x of None \<Rightarrow> True | Some p \<Rightarrow> p < prox_proc k \<and> estado (procs k p) = SUSP_READY)"
| "recurso_ok k (R_mem b) \<longleftrightarrow> (b \<longrightarrow> compactando k)"
| "recurso_ok k R_turno \<longleftrightarrow> True"
| "recurso_ok k (R_espera p) \<longleftrightarrow> bloqueado k p"
| "recurso_ok k (R_firme p e) \<longleftrightarrow> bloqueado k p \<and> estado (procs k p) = e \<and> timer (procs k p) = None"
| "recurso_ok k (R_susp t) \<longleftrightarrow> t < prox_timer k"
| "recurso_ok k (R_cpu d) \<longleftrightarrow> True"

definition inv_esperas :: "ks \<Rightarrow> recurso multiset \<Rightarrow> bool" where
  "inv_esperas k M \<longleftrightarrow>
     (\<forall>p. count (esperas k M) p \<le> 1) \<and> (\<forall>p \<in> set (en_io k). bloqueado k p) \<and>
     (\<forall>p \<in> set (en_mutex k). bloqueado k p \<or> (\<exists>c. corre k c p \<and> R_hilo c (Bloq p) \<in># M))"

definition inv_comp :: "ks \<Rightarrow> recurso multiset \<Rightarrow> bool" where
  "inv_comp k M \<longleftrightarrow>
     sem_puede_planificar k + turnos M + (if compactando k then 1 else 0) \<le> 1 \<and>
     (compactando k \<longrightarrow>
        (\<exists>p. proceso_esperando_memoria k = Some p \<and> p < prox_proc k \<and> estado (procs k p) = BLOCK))"

definition inv_timers :: "ks \<Rightarrow> recurso multiset \<Rightarrow> bool" where
  "inv_timers k M \<longleftrightarrow>
     (\<forall>p < prox_proc k. \<forall>t. timer (procs k p) = Some t \<longrightarrow>
        t < prox_timer k \<and>
        (R_susp t \<in># M \<longrightarrow>
           estado (procs k p) = BLOCK \<and> \<not> (compactando k \<and> proceso_esperando_memoria k = Some p)))"

definition inv_cpus :: "ks \<Rightarrow> recurso multiset \<Rightarrow> bool" where
  "inv_cpus k M \<longleftrightarrow>
     (\<forall>x. count (sin_correr k M) x \<le> 1) \<and>
     (\<forall>x \<in># sin_correr k M. \<exists>c < prox_cpu k. x = Some c) \<and>
     (\<forall>p < prox_proc k. estado (procs k p) = EXEC \<longrightarrow>
        (\<exists>c < prox_cpu k. pr_cpu (procs k p) = Some c \<and> Some c \<notin># sin_correr k M)) \<and>
     (\<forall>c p q. corre k c p \<longrightarrow> corre k c q \<longrightarrow> p = q)"

definition inv :: "ks \<Rightarrow> recurso multiset \<Rightarrow> bool" where
  "inv k M \<longleftrightarrow>
     lugar {} k \<and> (\<forall>x. count (claves M) x \<le> 1) \<and> (\<forall>r \<in># M. recurso_ok k r) \<and>
     inv_esperas k M \<and> inv_comp k M \<and> inv_timers k M \<and> inv_cpus k M"

lemma invD:
  assumes "inv k M"
  shows "lugar {} k" "\<And>x. count (claves M) x \<le> 1" "\<And>r. r \<in># M \<Longrightarrow> recurso_ok k r" "inv_esperas k M"
    "inv_comp k M" "inv_timers k M" "inv_cpus k M"
  using assms unfolding inv_def by blast+

section \<open>Frames\<close>

text \<open>The processes a resource speaks of.\<close>

fun menciona :: "recurso \<Rightarrow> nat set" where
  "menciona (R_hilo c (Ref p)) = {p}"
| "menciona (R_hilo c (Bloq p)) = {p}"
| "menciona (R_hilo c (Comp p)) = {p}"
| "menciona (R_nuevo b p) = {p}"
| "menciona (R_dess (Some p)) = {p}"
| "menciona (R_espera p) = {p}"
| "menciona (R_firme p e) = {p}"
| "menciona _ = {}"

lemma bloqueado_cong:
  "nucleo (procs k' p) = nucleo (procs k p) \<Longrightarrow> prox_proc k' = prox_proc k \<Longrightarrow> bloqueado k' p = bloqueado k p"
  by (simp add: bloqueado_def nucleo_def)

lemma corre_cong:
  "nucleo (procs k' p) = nucleo (procs k p) \<Longrightarrow> prox_proc k' = prox_proc k \<Longrightarrow> corre k' c p = corre k c p"
  by (simp add: corre_def nucleo_def)

lemma recurso_ok_marco:
  assumes "recurso_ok k r" "\<And>p. p \<in> menciona r \<Longrightarrow> nucleo (procs k' p) = nucleo (procs k p)"
    "prox_proc k' = prox_proc k" "prox_cpu k \<le> prox_cpu k'" "prox_timer k \<le> prox_timer k'"
    "\<And>b p. r = R_nuevo b p \<Longrightarrow> (p \<in> set (lista_new k') \<longleftrightarrow> p \<in> set (lista_new k))"
    "r = R_mem True \<Longrightarrow> compactando k \<Longrightarrow> compactando k'"
    "\<And>c p. r = R_hilo c (Comp p) \<Longrightarrow> proceso_esperando_memoria k' = proceso_esperando_memoria k \<and>
       cpu_esperando_memoria k' = cpu_esperando_memoria k"
  shows "recurso_ok k' r"
  using assms
  by (cases r) (auto simp: corre_def bloqueado_def nucleo_def split: ref.splits option.splits)

text \<open>What two resources of the same key, or of the same process, cannot be.\<close>

lemma claves_unica:
  assumes "\<forall>x. count (claves (M + A)) x \<le> 1" "x \<in># claves A" "x \<in># claves M"
  shows False
  using assms(1) [rule_format, of x] assms(2,3) by (simp flip: count_greater_zero_iff)

lemma claves_en: "r \<in># M \<Longrightarrow> x \<in># clave r \<Longrightarrow> x \<in># claves M"
  by (auto simp: claves_def)

lemma esperas_en: "r \<in># M \<Longrightarrow> p \<in># espera_de r \<Longrightarrow> p \<in># esperas k M"
  by (auto simp: esperas_def)

lemma esperas_simps [simp]:
  "esperas k (add_mset r M) = espera_de r + esperas k M"
  by (simp add: esperas_def)

lemma sin_correr_simps [simp]:
  "sin_correr k (add_mset r M) = cpu_de r + sin_correr k M"
  by (simp add: sin_correr_def)

text \<open>The process that the CPU of this thread runs is nobody else's.\<close>

lemma no_mencionado_exec:
  assumes i: "inv k (add_mset (R_hilo c x) M)" and p: "corre k c p" and r: "r \<in># M"
  shows "p \<notin> menciona r"
proof
  assume m: "p \<in> menciona r"
  have ok: "recurso_ok k r" using invD(3) [OF i] r by simp
  have e: "estado (procs k p) = EXEC" "pr_cpu (procs k p) = Some c" using p by (simp_all add: corre_def)
  have "\<nexists>y. r = R_hilo c y"
    using claves_unica [of M "{#R_hilo c x#}" "(0, c)"] invD(2) [OF i] claves_en [OF r, of "(0, c)"] by auto
  with m ok e show False
    by (cases r) (auto simp: corre_def bloqueado_def split: ref.splits option.splits)
qed

section \<open>A process that leaves its CPU\<close>

text \<open>What the operations on a running process do to the rest of the state.\<close>

lemma no_espera_exec:
  assumes i: "inv k (add_mset (R_hilo c x) M)" and p: "corre k c p" and x: "x \<noteq> Bloq p"
  shows "p \<notin># esperas k (add_mset (R_hilo c x) M)"
proof
  have e: "estado (procs k p) = EXEC" "pr_cpu (procs k p) = Some c" using p by (simp_all add: corre_def)
  then have b: "\<not> bloqueado k p" by (simp add: bloqueado_def)
  note ie = invD(4) [OF i, unfolded inv_esperas_def]
  assume "p \<in># esperas k (add_mset (R_hilo c x) M)"
  then consider "p \<in> set (en_io k)" | "p \<in> set (en_mutex k)" | "p \<in># en_compactacion k"
    | r where "r \<in># M" "p \<in># espera_de r"
    by (auto simp: esperas_def)
  then show False
  proof cases
    case 1
    with ie b show False by blast
  next
    case 2
    with ie b obtain c' where c: "corre k c' p" "R_hilo c' (Bloq p) \<in># add_mset (R_hilo c x) M" by blast
    then have "c' = c" using e by (simp add: corre_def)
    with c(2) x have "R_hilo c (Bloq p) \<in># M" by auto
    from no_mencionado_exec [OF i p this] show False by simp
  next
    case 3
    then show False using invD(5) [OF i] e
      by (auto simp: inv_comp_def en_compactacion_def split: if_splits option.splits)
  next
    case 4
    with no_mencionado_exec [OF i p 4(1)] show False by (cases r) auto
  qed
qed

text \<open>
  \<open>solo p k k'\<close>: only the process \<open>p\<close> is another one; \<open>mismas k k'\<close>: the queues of those
  who wait, the compaction and the CPUs are the same.
\<close>

definition solo :: "nat \<Rightarrow> ks \<Rightarrow> ks \<Rightarrow> bool" where
  "solo p k k' \<longleftrightarrow>
     prox_proc k' = prox_proc k \<and> prox_cpu k' = prox_cpu k \<and> prox_timer k \<le> prox_timer k' \<and>
     (\<forall>q. q \<noteq> p \<longrightarrow> (q \<in> set (lista_new k') \<longleftrightarrow> q \<in> set (lista_new k)) \<and>
       nucleo (procs k' q) = nucleo (procs k q))"

definition mismas :: "ks \<Rightarrow> ks \<Rightarrow> bool" where
  "mismas k k' \<longleftrightarrow>
     en_io k' = en_io k \<and> en_mutex k' = en_mutex k \<and> compactando k' = compactando k \<and>
     proceso_esperando_memoria k' = proceso_esperando_memoria k \<and>
     cpu_esperando_memoria k' = cpu_esperando_memoria k \<and> lista_cpus_libres k' = lista_cpus_libres k \<and>
     sem_puede_planificar k' = sem_puede_planificar k"

lemma solo_nucleo:
  assumes "solo p k k'" "q \<noteq> p"
  shows "estado (procs k' q) = estado (procs k q)" "pr_cpu (procs k' q) = pr_cpu (procs k q)"
    "timer (procs k' q) = timer (procs k q)" "bloqueado k' q = bloqueado k q" "corre k' c q = corre k c q"
  using assms by (auto simp: solo_def nucleo_def bloqueado_def corre_def)

lemma mismas_esperas: "mismas k k' \<Longrightarrow> esperas k' M = esperas k M"
  by (simp add: mismas_def esperas_def en_compactacion_def)

lemma mismas_sin_correr: "mismas k k' \<Longrightarrow> sin_correr k' M = sin_correr k M"
  by (simp add: mismas_def sin_correr_def)

lemma recursos_solo:
  assumes "inv k (A + M)" "solo p k k'" "r \<in># M" "p \<notin> menciona r"
    "compactando k \<Longrightarrow> compactando k' \<or> r \<noteq> R_mem True"
    "(proceso_esperando_memoria k' = proceso_esperando_memoria k \<and>
      cpu_esperando_memoria k' = cpu_esperando_memoria k) \<or> (\<forall>c q. r \<noteq> R_hilo c (Comp q))"
  shows "recurso_ok k' r"
proof (rule recurso_ok_marco)
  show "recurso_ok k r" using invD(3) [OF assms(1)] assms(3) by simp
  show "nucleo (procs k' q) = nucleo (procs k q)" if "q \<in> menciona r" for q
    using assms(2,4) that unfolding solo_def by metis
  show "q \<in> set (lista_new k') \<longleftrightarrow> q \<in> set (lista_new k)" if "r = R_nuevo b q" for b q
    using assms(2,4) that unfolding solo_def by auto
qed (use assms(2,5,6) in \<open>auto simp: solo_def\<close>)

lemma esperas_solo:
  assumes "inv_esperas k M0" "solo p k k'"
    "\<And>q. count (esperas k' M) q \<le> 1"
    "set (en_io k') \<subseteq> set (en_io k) \<union> {p}" "set (en_mutex k') \<subseteq> set (en_mutex k) \<union> {p}"
    "p \<in> set (en_io k') \<Longrightarrow> bloqueado k' p"
    "p \<in> set (en_mutex k') \<Longrightarrow> bloqueado k' p \<or> (\<exists>c. corre k' c p \<and> R_hilo c (Bloq p) \<in># M)"
    "\<And>c q. q \<noteq> p \<Longrightarrow> R_hilo c (Bloq q) \<in># M0 \<Longrightarrow> R_hilo c (Bloq q) \<in># M"
  shows "inv_esperas k' M"
proof -
  have "bloqueado k' q" if "q \<in> set (en_io k')" for q
    using that assms(1,4,6) solo_nucleo(4) [OF assms(2)] by (cases "q = p") (auto simp: inv_esperas_def)
  moreover have "bloqueado k' q \<or> (\<exists>c. corre k' c q \<and> R_hilo c (Bloq q) \<in># M)" if "q \<in> set (en_mutex k')" for q
  proof (cases "q = p")
    case False
    then have "q \<in> set (en_mutex k)" using that assms(5) by blast
    then show ?thesis
      using assms(1,8) solo_nucleo(4,5) [OF assms(2) False] False unfolding inv_esperas_def by blast
  qed (use that assms(7) in blast)
  ultimately show ?thesis using assms(3) by (simp add: inv_esperas_def)
qed

lemma timers_solo:
  assumes "inv_timers k M0" "solo p k k'"
    "\<And>t. p < prox_proc k \<Longrightarrow> timer (procs k' p) = Some t \<Longrightarrow> t < prox_timer k' \<and> (R_susp t \<in># M \<longrightarrow>
       estado (procs k' p) = BLOCK \<and> \<not> (compactando k' \<and> proceso_esperando_memoria k' = Some p))"
    "\<And>t. R_susp t \<in># M \<Longrightarrow> t < prox_timer k \<Longrightarrow> R_susp t \<in># M0"
    "\<And>q. q \<noteq> p \<Longrightarrow> compactando k' \<Longrightarrow> proceso_esperando_memoria k' = Some q \<Longrightarrow>
       compactando k \<and> proceso_esperando_memoria k = Some q"
  shows "inv_timers k' M"
proof -
  have pp: "prox_proc k' = prox_proc k" "prox_timer k \<le> prox_timer k'" using assms(2) by (auto simp: solo_def)
  have "t < prox_timer k' \<and> (R_susp t \<in># M \<longrightarrow>
       estado (procs k' q) = BLOCK \<and> \<not> (compactando k' \<and> proceso_esperando_memoria k' = Some q))"
    if "q < prox_proc k'" "timer (procs k' q) = Some t" for q t
  proof (cases "q = p")
    case False
    note n = solo_nucleo [OF assms(2) False]
    have "t < prox_timer k \<and> (R_susp t \<in># M0 \<longrightarrow>
       estado (procs k q) = BLOCK \<and> \<not> (compactando k \<and> proceso_esperando_memoria k = Some q))"
      using assms(1) that n pp unfolding inv_timers_def by simp
    then show ?thesis using n pp assms(4) [of t] assms(5) [OF False] by auto
  qed (use that assms(3) pp in simp)
  then show ?thesis by (simp add: inv_timers_def)
qed

lemma cpus_sale:
  assumes "inv_cpus k M0" "solo p k k'" "corre k c p" "estado (procs k' p) \<noteq> EXEC"
    "sin_correr k' M \<subseteq># add_mset (Some c) (sin_correr k M0)"
  shows "inv_cpus k' M"
proof -
  note i = assms(1) [unfolded inv_cpus_def]
  have pp: "prox_proc k' = prox_proc k" "prox_cpu k' = prox_cpu k" using assms(2) by (auto simp: solo_def)
  have c: "c < prox_cpu k" "count (sin_correr k M0) (Some c) = 0"
    using i assms(3) by (auto simp: corre_def not_in_iff)
  have le: "count (sin_correr k' M) x \<le> count (add_mset (Some c) (sin_correr k M0)) x" for x
    by (rule mset_subset_eq_count [OF assms(5)])
  have "count (sin_correr k' M) x \<le> 1" for x
    using le [of x] i c(2) by (cases "x = Some c") (auto intro: order_trans)
  moreover have "\<exists>c < prox_cpu k'. x = Some c" if "x \<in># sin_correr k' M" for x
    using mset_subset_eqD [OF assms(5) that] i c(1) pp by auto
  moreover have "\<exists>c < prox_cpu k'. pr_cpu (procs k' q) = Some c \<and> Some c \<notin># sin_correr k' M"
    if q: "q < prox_proc k'" "estado (procs k' q) = EXEC" for q
  proof -
    have "q \<noteq> p" using q(2) assms(4) by blast
    note n = solo_nucleo [OF assms(2) this]
    obtain d where d: "d < prox_cpu k" "pr_cpu (procs k q) = Some d" "Some d \<notin># sin_correr k M0"
      using i q n pp by auto
    have "corre k d q" using d(2) q n pp by (simp add: corre_def)
    with \<open>q \<noteq> p\<close> assms(3) have "d \<noteq> c" using i by blast
    then have "Some d \<notin># sin_correr k' M" using mset_subset_eqD [OF assms(5), of "Some d"] d(3) by auto
    with d n pp show ?thesis by auto
  qed
  moreover have "q = q'" if "corre k' d q" "corre k' d q'" for d q q'
  proof -
    have "q \<noteq> p" "q' \<noteq> p" using that assms(4) by (auto simp: corre_def)
    with that show ?thesis using i solo_nucleo(5) [OF assms(2)] by blast
  qed
  ultimately show ?thesis unfolding inv_cpus_def by blast
qed

lemma cpus_igual:
  assumes "inv_cpus k M0" "solo p k k'" "estado (procs k p) \<noteq> EXEC \<and> estado (procs k' p) \<noteq> EXEC \<or>
      estado (procs k' p) = estado (procs k p) \<and> pr_cpu (procs k' p) = pr_cpu (procs k p)"
    "sin_correr k' M \<subseteq># sin_correr k M0"
  shows "inv_cpus k' M"
proof -
  note i = assms(1) [unfolded inv_cpus_def]
  have pp: "prox_proc k' = prox_proc k" "prox_cpu k' = prox_cpu k" using assms(2) by (auto simp: solo_def)
  have n: "estado (procs k' q) = EXEC \<longleftrightarrow> estado (procs k q) = EXEC"
    "estado (procs k q) = EXEC \<Longrightarrow> pr_cpu (procs k' q) = pr_cpu (procs k q)" for q
    using solo_nucleo(1,2) [OF assms(2), of q] assms(3) by (cases "q = p"; auto)+
  have co: "corre k' c q = corre k c q" for c q using n [of q] pp by (auto simp: corre_def)
  have "count (sin_correr k' M) x \<le> 1" for x
    using assms(4) i by (meson mset_subset_eq_count order_trans)
  moreover have "\<exists>c < prox_cpu k'. x = Some c" if "x \<in># sin_correr k' M" for x
    using mset_subset_eqD [OF assms(4) that] i pp by auto
  moreover have "\<exists>c < prox_cpu k'. pr_cpu (procs k' q) = Some c \<and> Some c \<notin># sin_correr k' M"
    if q: "q < prox_proc k'" "estado (procs k' q) = EXEC" for q
    using i q n [of q] pp mset_subset_eqD [OF assms(4)] by (metis (no_types))
  ultimately show ?thesis using i co unfolding inv_cpus_def by blast
qed

lemma cpus_entra:
  assumes "inv_cpus k M0" "solo p k k'" "estado (procs k p) \<noteq> EXEC" "pr_cpu (procs k' p) = Some c"
    "sin_correr k M0 = add_mset (Some c) (sin_correr k' M)"
  shows "inv_cpus k' M"
proof -
  note i = assms(1) [unfolded inv_cpus_def assms(5)]
  have pp: "prox_proc k' = prox_proc k" "prox_cpu k' = prox_cpu k" using assms(2) by (auto simp: solo_def)
  have le: "count (add_mset (Some c) (sin_correr k' M)) x \<le> 1" for x using i by blast
  have c: "c < prox_cpu k" using i by auto
  have c0: "Some c \<notin># sin_correr k' M" using le [of "Some c"] by (simp add: not_in_iff)
  have "count (sin_correr k' M) x \<le> 1" for x using le [of x] by (cases "x = Some c") auto
  moreover have "\<exists>c < prox_cpu k'. x = Some c" if "x \<in># sin_correr k' M" for x using that i pp by auto
  moreover have "\<exists>c < prox_cpu k'. pr_cpu (procs k' q) = Some c \<and> Some c \<notin># sin_correr k' M"
    if q: "q < prox_proc k'" "estado (procs k' q) = EXEC" for q
  proof (cases "q = p")
    case True
    then show ?thesis using c c0 pp assms(4) by auto
  next
    case False
    with q i pp solo_nucleo [OF assms(2) False] show ?thesis by auto
  qed
  moreover have "q = q'" if h: "corre k' d q" "corre k' d q'" for d q q'
  proof -
    have n: "corre k d r" "d \<noteq> c" if "r \<noteq> p" "corre k' d r" for r
    proof -
      show "corre k d r" using that solo_nucleo(5) [OF assms(2)] by blast
      then show "d \<noteq> c" using i by (auto simp: corre_def)
    qed
    have "d = c" if "corre k' d p" using that assms(4) by (simp add: corre_def)
    then show ?thesis using n [of q] n [of q'] h i by (cases "q = p"; cases "q' = p") auto
  qed
  ultimately show ?thesis unfolding inv_cpus_def by blast
qed

lemma bloquear_efecto:
  assumes "bloquear_proceso p k = (k', d, t)"
  shows "d = pr_cpu (procs k p)" "t = prox_timer k" "prox_timer k' = Suc t" "solo p k k'" "mismas k k'"
    "estado (procs k' p) = BLOCK" "timer (procs k' p) = Some t"
  using assms
  by (auto simp: bloquear_proceso_def Let_def poner_timer_def crear_timer_def modificar_def en_io_def en_mutex_def
      solo_def mismas_def)

text \<open>
  The common part of the operations in which a process leaves its CPU: all but the order of
  the lists, and what the thread gets.
\<close>

lemma inv_sale:
  assumes i: "inv k (add_mset (R_hilo c x) M)" and p: "corre k c p" and l: "lugar {} k'"
    and s: "solo p k k'" and m: "mismas k k'" and e: "estado (procs k' p) \<noteq> EXEC"
    and t: "\<And>t. timer (procs k' p) = Some t \<Longrightarrow> t < prox_timer k' \<and>
      (R_susp t \<in># N + M \<longrightarrow> estado (procs k' p) = BLOCK)"
    and N: "claves N \<subseteq># claves {#R_hilo c x#}" "\<And>r. r \<in># N \<Longrightarrow> recurso_ok k' r"
      "\<Sum>\<^sub># (image_mset espera_de N) = {#} \<or> \<Sum>\<^sub># (image_mset espera_de N) = {#p#} \<and> x \<noteq> Bloq p"
      "\<And>t. R_susp t \<in># N \<Longrightarrow> t = prox_timer k"
      "\<Sum>\<^sub># (image_mset cpu_de N) \<subseteq># {#Some c#}" "turnos N = 0"
    and x: "x = Bloq p \<Longrightarrow> bloqueado k' p" "\<And>q. x = Bloq q \<Longrightarrow> q = p"
  shows "inv k' (N + M)"
proof -
  have ce: "estado (procs k p) = EXEC" "pr_cpu (procs k p) = Some c" "p < prox_proc k"
    using p by (simp_all add: corre_def)
  have nm: "p \<notin> menciona r" if "r \<in># M" for r by (rule no_mencionado_exec [OF i p that])
  have "count (claves (N + M)) y \<le> 1" for y
    using invD(2) [OF i, of y] mset_subset_eq_count [OF N(1), of y]
    by (cases "y = (0, c)") auto
  moreover have "recurso_ok k' r" if "r \<in># N + M" for r
    using that N(2) recursos_solo [of k "{#R_hilo c x#}" M p k' r] i s m nm by (auto simp: mismas_def)
  moreover have "inv_esperas k' (N + M)"
  proof (rule esperas_solo [OF invD(4) [OF i] s])
    show "count (esperas k' (N + M)) q \<le> 1" for q
    proof -
      define S where "S = \<Sum>\<^sub># (image_mset espera_de N)"
      have "esperas k' (N + M) = S + esperas k (add_mset (R_hilo c x) M)"
        unfolding mismas_esperas [OF m] S_def by (simp add: esperas_def)
      moreover have "S = {#} \<or> S = {#p#} \<and> x \<noteq> Bloq p" using N(3) by (simp only: S_def)
      ultimately show ?thesis
        using invD(4) [OF i] no_espera_exec [OF i p] by (auto simp: inv_esperas_def not_in_iff)
    qed
    show "bloqueado k' p" if "p \<in> set (en_io k')"
      using that m invD(4) [OF i] ce by (auto simp: inv_esperas_def mismas_def bloqueado_def)
    show "bloqueado k' p \<or> (\<exists>c. corre k' c p \<and> R_hilo c (Bloq p) \<in># N + M)" if "p \<in> set (en_mutex k')"
    proof (cases "x = Bloq p")
      case False
      with no_espera_exec [OF i p] that m show ?thesis by (auto simp: esperas_def mismas_def)
    qed (use x(1) in simp)
    show "R_hilo d (Bloq q) \<in># N + M" if "q \<noteq> p" "R_hilo d (Bloq q) \<in># add_mset (R_hilo c x) M" for d q
      using that x(2) [of q] by auto
  qed (use m in \<open>auto simp: mismas_def\<close>)
  moreover have "inv_comp k' (N + M)"
  proof -
    have "turnos M \<le> turnos (add_mset (R_hilo c x) M)" by simp
    moreover have "\<exists>q. proceso_esperando_memoria k' = Some q \<and> q < prox_proc k' \<and> estado (procs k' q) = BLOCK"
      if cm: "compactando k'"
    proof -
      obtain q where q: "proceso_esperando_memoria k = Some q" "q < prox_proc k" "estado (procs k q) = BLOCK"
        using invD(5) [OF i] m cm by (auto simp: inv_comp_def mismas_def)
      then have "q \<noteq> p" using ce by auto
      then show ?thesis using q solo_nucleo(1) [OF s] s m by (auto simp: mismas_def solo_def)
    qed
    ultimately show ?thesis using invD(5) [OF i] N(6) m by (simp add: inv_comp_def mismas_def)
  qed
  moreover have "inv_timers k' (N + M)"
  proof (rule timers_solo [OF invD(6) [OF i] s])
    fix t assume h: "p < prox_proc k" "timer (procs k' p) = Some t"
    have "\<not> (compactando k' \<and> proceso_esperando_memoria k' = Some p)"
      using invD(5) [OF i] m ce by (auto simp: inv_comp_def mismas_def)
    then show "t < prox_timer k' \<and> (R_susp t \<in># N + M \<longrightarrow> estado (procs k' p) = BLOCK \<and>
        \<not> (compactando k' \<and> proceso_esperando_memoria k' = Some p))" using t [OF h(2)] by blast
  qed (use N(4) m in \<open>auto simp: mismas_def\<close>)
  moreover have "inv_cpus k' (N + M)"
  proof (rule cpus_sale [OF invD(7) [OF i] s p e])
    have "sin_correr k' (N + M) = \<Sum>\<^sub># (image_mset cpu_de N) + sin_correr k (add_mset (R_hilo c x) M)"
      by (simp add: mismas_sin_correr [OF m]) (simp add: sin_correr_def)
    then show "sin_correr k' (N + M) \<subseteq># add_mset (Some c) (sin_correr k (add_mset (R_hilo c x) M))"
      using N(5) by (metis add_mset_add_single mset_subset_eq_mono_add_right_cancel union_commute)
  qed
  ultimately show ?thesis using l by (simp add: inv_def)
qed

lemma inv_bloquear:
  assumes i: "inv k (add_mset (R_hilo c x) M)" and x: "x = Ref p \<or> x = Bloq p"
    and b: "bloquear_proceso p k = (k', d, t)" and N: "N = {#} \<or> N = {#R_espera p#} \<and> x = Ref p"
  shows "inv k' (N + {#R_hilo c Libre, R_cpu d, R_susp t#} + M)"
proof -
  note ef = bloquear_efecto [OF b]
  have p: "corre k c p" using invD(3) [OF i, of "R_hilo c x"] x by auto
  have c: "c < prox_cpu k" using invD(3) [OF i, of "R_hilo c x"] by simp
  have "lugar {} k'" using lugar_bloquear [OF invD(1) [OF i] _ b] en_lista(1) [OF invD(1) [OF i]] p
    by (auto simp: corre_def)
  then show ?thesis
    by (intro inv_sale [OF i p _ ef(4,5)]) (use ef N x p c in \<open>auto simp: solo_def corre_def bloqueado_def\<close>)
qed

lemma salir_efecto:
  assumes "salir_de_exec v k = (k', Some (p, d))"
  shows "buscar_proceso_en_exec v k = Some p" "d = pr_cpu (procs k p)" "prox_timer k' = prox_timer k"
    "solo p k k'" "mismas k k'" "estado (procs k' p) = EXIT_STATE" "timer (procs k' p) = None"
  using assms
  by (auto simp: salir_de_exec_def modificar_def en_io_def en_mutex_def solo_def mismas_def split: option.splits)

lemma buscar_exec_corre:
  assumes "lugar {} k" "buscar_proceso_en_exec v k = Some p"
  shows "p < prox_proc k" "estado (procs k p) = EXEC" "p \<in> set (lista_exec k)"
  using assms(2) lugarD(3,4) [OF assms(1), of p EXEC]
  by (auto simp: buscar_proceso_en_exec_def dest!: buscar_pid_Some)

lemma inv_salir:
  assumes i: "inv k (add_mset (R_hilo c Libre) M)" and s: "salir_de_exec v k = (k', Some (p, d))"
    and c: "pr_cpu (procs k p) = Some c"
  shows "inv k' ({#R_hilo c Libre, R_cpu d#} + M)"
proof -
  note ef = salir_efecto [OF s]
  have p: "corre k c p" using buscar_exec_corre [OF invD(1) [OF i] ef(1)] c by (simp add: corre_def)
  show ?thesis
    by (rule inv_sale [OF i p lugar_salir [OF invD(1) [OF i] s] ef(4,5)])
      (use ef c invD(3) [OF i, of "R_hilo c Libre"] in \<open>auto simp: solo_def\<close>)
qed

lemma fin_quantum_efecto:
  assumes "manejar_fin_quantum v k = (k', Some (d, b))"
  shows "\<exists>p. buscar_proceso_en_exec v k = Some p \<and> d = pr_cpu (procs k p) \<and> solo p k k' \<and> mismas k k' \<and>
    estado (procs k' p) = READY \<and> timer (procs k' p) = timer (procs k p) \<and> prox_timer k' = prox_timer k"
  using assms
  by (auto simp: manejar_fin_quantum_def Let_def modificar_def en_io_def en_mutex_def solo_def mismas_def
      encolar_en_ready_def encolar_al_frente_de_ready_def split: option.splits prod.splits if_splits)

lemma timer_exec:
  "inv k M \<Longrightarrow> p < prox_proc k \<Longrightarrow> timer (procs k p) = Some t \<Longrightarrow>
     t < prox_timer k \<and> (estado (procs k p) \<noteq> BLOCK \<longrightarrow> R_susp t \<notin># M)"
  using invD(6) [of k M] by (auto simp: inv_timers_def)

lemma inv_fin_quantum:
  assumes i: "inv k (add_mset (R_hilo c Libre) M)" and s: "manejar_fin_quantum v k = (k', Some (d, b))"
    and c: "\<And>p. buscar_proceso_en_exec v k = Some p \<Longrightarrow> pr_cpu (procs k p) = Some c"
  shows "inv k' ({#R_hilo c Libre, R_cpu d#} + M)"
proof -
  obtain p where ef: "buscar_proceso_en_exec v k = Some p" "d = pr_cpu (procs k p)" "solo p k k'" "mismas k k'"
    "estado (procs k' p) = READY" "timer (procs k' p) = timer (procs k p)" "prox_timer k' = prox_timer k"
    using fin_quantum_efecto [OF s] by blast
  have p: "corre k c p" using buscar_exec_corre [OF invD(1) [OF i] ef(1)] c [OF ef(1)] by (simp add: corre_def)
  show ?thesis
    by (rule inv_sale [OF i p lugar_fin_quantum [OF invD(1) [OF i] s] ef(3,4)])
      (use ef c p timer_exec [OF i, of p] invD(3) [OF i, of "R_hilo c Libre"]
        in \<open>auto simp: solo_def corre_def\<close>)
qed

section \<open>Steps that change no process\<close>

definition mismos_procs :: "ks \<Rightarrow> ks \<Rightarrow> bool" where
  "mismos_procs k k' \<longleftrightarrow>
     prox_proc k' = prox_proc k \<and> prox_cpu k' = prox_cpu k \<and> prox_timer k' = prox_timer k \<and>
     lista_new k' = lista_new k \<and> (\<forall>q. nucleo (procs k' q) = nucleo (procs k q)) \<and>
     compactando k' = compactando k \<and> proceso_esperando_memoria k' = proceso_esperando_memoria k \<and>
     cpu_esperando_memoria k' = cpu_esperando_memoria k"

lemma mismos_procsD:
  assumes "mismos_procs k k'"
  shows "estado (procs k' q) = estado (procs k q)" "pr_cpu (procs k' q) = pr_cpu (procs k q)"
    "timer (procs k' q) = timer (procs k q)" "bloqueado k' q = bloqueado k q" "corre k' c q = corre k c q"
    "recurso_ok k' r = recurso_ok k r"
proof -
  show "estado (procs k' q) = estado (procs k q)" "pr_cpu (procs k' q) = pr_cpu (procs k q)"
    "timer (procs k' q) = timer (procs k q)" and b: "bloqueado k' q = bloqueado k q"
    and c: "corre k' c q = corre k c q" for q c
    using assms by (auto simp: mismos_procs_def nucleo_def bloqueado_def corre_def)
  show "recurso_ok k' r = recurso_ok k r"
    using assms b c by (cases r) (auto simp: mismos_procs_def nucleo_def split: ref.split option.split)
qed

lemma inv_igual_gen:
  assumes i: "inv k (A + M)" and l: "lugar {} k'" and m: "mismos_procs k k'"
    and q: "\<And>p. p \<in> set (en_io k') \<Longrightarrow> bloqueado k p"
      "\<And>p. p \<in> set (en_mutex k') \<Longrightarrow> bloqueado k p \<or> (\<exists>c. corre k c p \<and> R_hilo c (Bloq p) \<in># B + M)"
    and c: "claves B \<subseteq># claves A" "\<And>r. r \<in># B \<Longrightarrow> recurso_ok k r"
    and e: "\<And>p. count (esperas k' (B + M)) p \<le> 1" "sin_correr k' (B + M) \<subseteq># sin_correr k (A + M)"
    and t: "sem_puede_planificar k' + turnos B \<le> sem_puede_planificar k + turnos A"
    and s: "\<And>t. R_susp t \<in># B \<Longrightarrow> R_susp t \<in># A"
  shows "inv k' (B + M)"
proof -
  note mD = mismos_procsD [OF m]
  have pp: "prox_proc k' = prox_proc k" "prox_cpu k' = prox_cpu k" "prox_timer k' = prox_timer k"
    "compactando k' = compactando k" "proceso_esperando_memoria k' = proceso_esperando_memoria k"
    using m by (simp_all add: mismos_procs_def)
  have "count (claves (B + M)) y \<le> 1" for y
    using invD(2) [OF i, of y] mset_subset_eq_count [OF c(1), of y] by simp
  moreover have "recurso_ok k' r" if "r \<in># B + M" for r
    using that c(2) invD(3) [OF i] by (auto simp: mD)
  moreover have "inv_esperas k' (B + M)" using q e(1) unfolding inv_esperas_def mD by blast
  moreover have "inv_comp k' (B + M)" using invD(5) [OF i] t by (auto simp: inv_comp_def pp mD)
  moreover have "inv_timers k' (B + M)" using invD(6) [OF i] s(1) by (fastforce simp: inv_timers_def pp mD)
  moreover have "inv_cpus k' (B + M)"
    by (rule cpus_igual [OF invD(7) [OF i], of 0])
      (use m e(2) in \<open>simp_all add: mismos_procs_def solo_def nucleo_def\<close>)
  ultimately show ?thesis using l by (simp add: inv_def)
qed

lemma inv_igual:
  assumes i: "inv k (A + M)" and l: "lugar {} k'" and m: "mismos_procs k k'"
    and q: "set (en_io k') \<union> set (en_mutex k') \<subseteq> set (en_io k) \<union> set (en_mutex k) \<union> {p. R_espera p \<in># A}"
      "\<And>p. p \<in> set (en_io k') \<Longrightarrow> p \<in> set (en_mutex k) \<Longrightarrow> bloqueado k p"
    and c: "claves B \<subseteq># claves A" "\<And>r. r \<in># B \<Longrightarrow> recurso_ok k r"
    and e: "esperas k' (B + M) \<subseteq># esperas k (A + M)" "sin_correr k' (B + M) \<subseteq># sin_correr k (A + M)"
    and t: "sem_puede_planificar k' + turnos B \<le> sem_puede_planificar k + turnos A"
    and s: "\<And>t. R_susp t \<in># B \<Longrightarrow> R_susp t \<in># A" "\<And>c p. R_hilo c (Bloq p) \<in># A \<Longrightarrow> R_hilo c (Bloq p) \<in># B"
  shows "inv k' (B + M)"
proof (rule inv_igual_gen [OF i l m _ _ c _ e(2) t s(1)])
  note ie = invD(4) [OF i, unfolded inv_esperas_def]
  have re: "bloqueado k p" if "R_espera p \<in># A" for p using invD(3) [OF i, of "R_espera p"] that by simp
  show "count (esperas k' (B + M)) p \<le> 1" for p
    using mset_subset_eq_count [OF e(1), of p] ie by (metis le_trans)
  show "bloqueado k p" if "p \<in> set (en_io k')" for p using that q ie re by blast
  show "bloqueado k p \<or> (\<exists>c. corre k c p \<and> R_hilo c (Bloq p) \<in># B + M)" if "p \<in> set (en_mutex k')" for p
  proof -
    have "p \<in> set (en_io k) \<or> p \<in> set (en_mutex k) \<or> R_espera p \<in># A" using that q by blast
    then have "bloqueado k p \<or> (\<exists>c. corre k c p \<and> R_hilo c (Bloq p) \<in># A + M)" using ie re by blast
    then show ?thesis using s(2) by auto
  qed
qed

lemma inv_callado:
  assumes i: "inv k M" and c: "callado k k'"
  shows "inv k' M"
proof -
  have m: "mismos_procs k k'" by (simp add: mismos_procs_def callado_campos [OF c])
  have e: "en_io k' = en_io k" "en_mutex k' = en_mutex k" "esperas k' M = esperas k M" "sin_correr k' M = sin_correr k M"
    by (simp_all add: en_io_def en_mutex_def esperas_def sin_correr_def en_compactacion_def callado_campos [OF c])
  have "inv k' ({#} + M)"
    by (rule inv_igual [of k "{#}" M, OF _ _ m])
      (use i invD(1) [OF i] lugar_callado [OF c] invD(4) [OF i] e in
        \<open>auto simp: callado_campos [OF c] inv_esperas_def\<close>)
  then show ?thesis by simp
qed

text \<open>The thread drops what it held, or keeps a weaker claim.\<close>

lemma inv_baja:
  assumes i: "inv k (A + M)" and c: "claves B \<subseteq># claves A" "\<And>r. r \<in># B \<Longrightarrow> recurso_ok k r"
    and e: "\<Sum>\<^sub># (image_mset espera_de B) \<subseteq># \<Sum>\<^sub># (image_mset espera_de A)"
      "\<Sum>\<^sub># (image_mset cpu_de B) \<subseteq># \<Sum>\<^sub># (image_mset cpu_de A)" "turnos B \<le> turnos A"
    and s: "\<And>t. R_susp t \<in># B \<Longrightarrow> R_susp t \<in># A" "\<And>c p. R_hilo c (Bloq p) \<in># A \<Longrightarrow> R_hilo c (Bloq p) \<in># B"
  shows "inv k (B + M)"
  by (rule inv_igual [OF i invD(1) [OF i] _ _ _ c _ _ _ s])
    (use e invD(4) [OF i] in \<open>auto simp: mismos_procs_def esperas_def sin_correr_def inv_esperas_def\<close>)

lemma inv_hilo_libre:
  "inv k (add_mset (R_hilo c (Ref p)) M) \<Longrightarrow> inv k (add_mset (R_hilo c Libre) M)"
  using inv_baja [of k "{#R_hilo c (Ref p)#}" M "{#R_hilo c Libre#}"] invD(3) [of k _ "R_hilo c (Ref p)"] by auto

section \<open>Steps that change a process outside the CPUs\<close>

lemma inv_cambia:
  assumes i: "inv k (A + M)" and l: "lugar {} k'" and s: "solo p k k'"
    and nm: "\<And>r. r \<in># M \<Longrightarrow> p \<in> menciona r \<Longrightarrow> recurso_ok k' r"
    and q: "set (en_io k') \<subseteq> set (en_io k)" "set (en_mutex k') \<subseteq> set (en_mutex k)"
      "p \<in> set (en_io k') \<Longrightarrow> bloqueado k' p"
      "p \<in> set (en_mutex k') \<Longrightarrow> bloqueado k' p \<or> (\<exists>c. corre k' c p \<and> R_hilo c (Bloq p) \<in># B + M)"
    and cm: "compactando k' = compactando k" "proceso_esperando_memoria k' = proceso_esperando_memoria k"
      "cpu_esperando_memoria k' = cpu_esperando_memoria k"
      "compactando k \<Longrightarrow> proceso_esperando_memoria k = Some p \<Longrightarrow> estado (procs k' p) = BLOCK"
    and c: "claves B \<subseteq># claves A" "\<And>r. r \<in># B \<Longrightarrow> recurso_ok k' r"
    and e: "esperas k' (B + M) \<subseteq># esperas k (A + M)" "sin_correr k' (B + M) \<subseteq># sin_correr k (A + M)"
    and t: "sem_puede_planificar k' + turnos B \<le> sem_puede_planificar k + turnos A"
      "\<And>t. p < prox_proc k \<Longrightarrow> timer (procs k' p) = Some t \<Longrightarrow> timer (procs k p) = Some t \<and> estado (procs k' p) = estado (procs k p) \<or>
        t < prox_timer k' \<and> R_susp t \<notin># B + M"
    and u: "\<And>t. R_susp t \<in># B \<Longrightarrow> R_susp t \<in># A" "\<And>c q. q \<noteq> p \<Longrightarrow> R_hilo c (Bloq q) \<in># A \<Longrightarrow> R_hilo c (Bloq q) \<in># B"
    and x: "estado (procs k p) \<noteq> EXEC \<and> estado (procs k' p) \<noteq> EXEC \<or>
      estado (procs k' p) = estado (procs k p) \<and> pr_cpu (procs k' p) = pr_cpu (procs k p)"
  shows "inv k' (B + M)"
proof -
  have "count (claves (B + M)) y \<le> 1" for y
    using invD(2) [OF i, of y] mset_subset_eq_count [OF c(1), of y] by simp
  moreover have "recurso_ok k' r" if "r \<in># B + M" for r
  proof (cases "r \<in># B")
    case False
    then have r: "r \<in># M" using that by simp
    show ?thesis
    proof (cases "p \<in> menciona r")
      case False
      then show ?thesis using recursos_solo [OF i s r] cm by simp
    qed (rule nm [OF r])
  qed (rule c)
  moreover have "inv_esperas k' (B + M)"
  proof (rule esperas_solo [OF invD(4) [OF i] s _ _ _ q(3,4)])
    show "count (esperas k' (B + M)) r \<le> 1" for r
      using mset_subset_eq_count [OF e(1), of r] invD(4) [OF i] by (metis inv_esperas_def le_trans)
  qed (use q(1,2) u(2) in auto)
  moreover have "inv_comp k' (B + M)"
  proof -
    have "\<exists>q. proceso_esperando_memoria k' = Some q \<and> q < prox_proc k' \<and> estado (procs k' q) = BLOCK"
      if cc: "compactando k'"
    proof -
      obtain q where q: "proceso_esperando_memoria k = Some q" "q < prox_proc k" "estado (procs k q) = BLOCK"
        using invD(5) [OF i] cm(1) cc by (auto simp: inv_comp_def)
      then show ?thesis
        using cm cc s solo_nucleo(1) [OF s, of q] by (cases "q = p") (auto simp: solo_def)
    qed
    then show ?thesis using invD(5) [OF i] t(1) cm(1) by (auto simp: inv_comp_def)
  qed
  moreover have "inv_timers k' (B + M)"
  proof (rule timers_solo [OF invD(6) [OF i] s])
    fix t' assume h: "p < prox_proc k" "timer (procs k' p) = Some t'"
    show "t' < prox_timer k' \<and> (R_susp t' \<in># B + M \<longrightarrow> estado (procs k' p) = BLOCK \<and>
        \<not> (compactando k' \<and> proceso_esperando_memoria k' = Some p))"
      using t(2) [OF h] invD(6) [OF i] h(1) u(1) [of t'] s cm(1,2)
      by (auto simp: inv_timers_def solo_def)
  qed (use u(1) cm in auto)
  moreover have "inv_cpus k' (B + M)"
    by (rule cpus_igual [OF invD(7) [OF i] s x e(2)])
  ultimately show ?thesis using l by (simp add: inv_def)
qed

lemma solo_modificar:
  "solo p k (modificar p f k)" "mismas k (modificar p f k)"
  by (simp_all add: solo_def mismas_def en_io_def en_mutex_def modificar_def)

lemma mismasD:
  assumes "mismas k k'"
  shows "en_io k' = en_io k" "en_mutex k' = en_mutex k" "compactando k' = compactando k"
    "proceso_esperando_memoria k' = proceso_esperando_memoria k"
    "cpu_esperando_memoria k' = cpu_esperando_memoria k" "sem_puede_planificar k' = sem_puede_planificar k"
    "esperas k' M = esperas k M" "sin_correr k' M = sin_correr k M"
  using assms mismas_esperas [OF assms] mismas_sin_correr [OF assms] by (simp_all add: mismas_def)

lemma recurso_ok_cancelar: "recurso_ok k r \<Longrightarrow> recurso_ok (cancelar_timer p k) r"
  by (cases r) (auto simp: cancelar_timer_def corre_def bloqueado_def modificar_def split: ref.splits option.splits)

lemma inv_cancelar:
  assumes i: "inv k M"
  shows "inv (cancelar_timer p k) M"
proof -
  let ?k = "cancelar_timer p k"
  have s: "solo p k ?k" "mismas k ?k" unfolding cancelar_timer_def by (rule solo_modificar)+
  note m = mismasD [OF s(2)]
  have e: "estado (procs ?k q) = estado (procs k q)" "pr_cpu (procs ?k q) = pr_cpu (procs k q)"
    "timer (procs ?k p) = None" for q by (simp_all add: cancelar_timer_def)
  have b: "bloqueado ?k q = bloqueado k q" "corre ?k c q = corre k c q" for c q
    by (simp_all add: bloqueado_def corre_def e cancelar_timer_def)
  have "inv ?k ({#} + M)"
  proof (rule inv_cambia [of k "{#}" M, OF _ _ s(1)])
    show "recurso_ok ?k r" if "r \<in># M" for r by (rule recurso_ok_cancelar [OF invD(3) [OF i that]])
    show "p \<in> set (en_io ?k) \<Longrightarrow> bloqueado ?k p"
      using invD(4) [OF i] unfolding m b inv_esperas_def by blast
    show "p \<in> set (en_mutex ?k) \<Longrightarrow> bloqueado ?k p \<or> (\<exists>c. corre ?k c p \<and> R_hilo c (Bloq p) \<in># {#} + M)"
      using invD(4) [OF i] unfolding m b inv_esperas_def add_0 by blast
    show "compactando k \<Longrightarrow> proceso_esperando_memoria k = Some p \<Longrightarrow> estado (procs ?k p) = BLOCK"
      using invD(5) [OF i] unfolding e inv_comp_def by auto
  qed (use i invD(1) [OF i] in \<open>simp_all add: m e\<close>)
  then show ?thesis by simp
qed

lemma inv_fin_io:
  assumes i: "inv k (add_mset (R_espera p) M)" and f: "manejar_fin_io p k = (k', e)"
  shows "inv k' (add_mset (R_firme p e) M)"
proof -
  have k': "k' = cancelar_timer p k" "e = estado (procs k p)" using f by (simp_all add: manejar_fin_io_def)
  have "bloqueado k p" using invD(3) [OF i, of "R_espera p"] by simp
  then have "recurso_ok k' (R_firme p e)" by (simp add: k' bloqueado_def) (simp add: cancelar_timer_def)
  then show ?thesis
    using inv_baja [of k' "{#R_espera p#}" M "{#R_firme p e#}"] inv_cancelar [OF i, of p] by (simp add: k')
qed

lemma inv_quantum:
  "inv k M \<Longrightarrow> hilo_quantum t k = (k', b) \<Longrightarrow> inv k' M"
  by (auto simp: hilo_quantum_def inv_cancelar split: option.splits if_splits)

lemma no_mencionado_susp:
  assumes i: "inv k (add_mset (R_susp t) M)" and t: "timer (procs k p) = Some t" and p: "p < prox_proc k"
  shows "r \<in># M \<Longrightarrow> p \<in> menciona r \<Longrightarrow> r = R_espera p"
    "\<not> (compactando k \<and> proceso_esperando_memoria k = Some p)"
proof -
  have e: "estado (procs k p) = BLOCK" and c: "\<not> (compactando k \<and> proceso_esperando_memoria k = Some p)"
    using invD(6) [OF i] t p by (auto simp: inv_timers_def)
  show "\<not> (compactando k \<and> proceso_esperando_memoria k = Some p)" by (rule c)
  assume r: "r \<in># M" "p \<in> menciona r"
  have "recurso_ok k r" using invD(3) [OF i] r(1) by simp
  with r(2) e t show "r = R_espera p"
    by (cases r) (auto simp: corre_def split: ref.splits option.splits)
qed

lemma suspension_efecto:
  assumes "hilo_suspension t k = (k', Some p)"
  shows "timer (procs k p) = Some t" "estado (procs k p) = BLOCK" "buscar_proceso_por_pid (tm_pid (timers k t)) k = Some p"
    "solo p k k'" "mismas k k'" "estado (procs k' p) = SUSP_BLOCK" "timer (procs k' p) = None"
  using assms
  by (auto simp: hilo_suspension_def Let_def cancelar_timer_def poner_estado_def modificar_def en_io_def en_mutex_def
      solo_def mismas_def split: option.splits if_splits)

lemma inv_suspension:
  assumes i: "inv k (add_mset (R_susp t) M)" and h: "hilo_suspension t k = (k', r)"
  shows "inv k' M"
proof (cases r)
  case None
  have "k' = k \<or> (\<exists>p. k' = cancelar_timer p k)"
    using h None by (auto simp: hilo_suspension_def Let_def split: option.splits if_splits)
  then have "inv k' (add_mset (R_susp t) M)" using i inv_cancelar by auto
  then show ?thesis using inv_baja [of k' "{#R_susp t#}" M "{#}"] by simp
next
  case (Some p)
  note ef = suspension_efecto [OF h [unfolded Some]]
  note m = mismasD [OF ef(5)]
  have p: "p < prox_proc k" by (rule buscar_en_cola(1) [OF invD(1) [OF i] ef(3)])
  have b: "bloqueado k' p" using ef p by (simp add: bloqueado_def solo_def)
  have nm: "recurso_ok k' r" if "r \<in># M" "p \<in> menciona r" for r
    using no_mencionado_susp(1) [OF i ef(1) p that] b by simp
  have "inv k' ({#} + M)"
    by (rule inv_cambia [of k "{#R_susp t#}" M, OF _ lugar_suspension [OF invD(1) [OF i] h] ef(4)])
      (use i ef p b nm no_mencionado_susp(2) [OF i ef(1) p] in \<open>auto simp: m\<close>)
  then show ?thesis by simp
qed

lemma no_mencionado_espera:
  assumes i: "inv k (add_mset r0 M)" and p: "bloqueado k p" "p \<in># espera_de r0"
  shows "r \<in># M \<Longrightarrow> p \<notin> menciona r" "p \<notin> set (en_io k)" "p \<notin> set (en_mutex k)"
    "\<not> (compactando k \<and> proceso_esperando_memoria k = Some p)"
proof -
  have "count (espera_de r0) p + count (esperas k M) p \<le> 1" using invD(4) [OF i] by (simp add: inv_esperas_def)
  moreover have "0 < count (espera_de r0) p" using p(2) by (simp only: count_greater_zero_iff)
  ultimately have "count (esperas k M) p = 0" by linarith
  then have n: "p \<notin># esperas k M" by (simp add: not_in_iff)
  then show "p \<notin> set (en_io k)" "p \<notin> set (en_mutex k)"
    "\<not> (compactando k \<and> proceso_esperando_memoria k = Some p)"
    by (auto simp: esperas_def en_compactacion_def)
  assume r: "r \<in># M"
  then have "recurso_ok k r" "p \<notin># espera_de r" using invD(3) [OF i] esperas_en [OF r] n by auto
  then show "p \<notin> menciona r" using p(1)
    by (cases r) (auto simp: corre_def bloqueado_def split: ref.splits option.splits)
qed

lemma despertar_efecto:
  assumes "estado (procs k p) = e" "e = BLOCK \<or> e = SUSP_BLOCK" "k' = despertar p e k"
  shows "solo p k k'" "mismas k k'" "estado (procs k' p) = (if e = BLOCK then READY else SUSP_READY)"
    "timer (procs k' p) = timer (procs k p)"
  using assms
  by (auto simp: despertar_def mover_proceso_de_block_a_ready_def mover_a_susp_ready_def poner_estado_def
      modificar_def en_io_def en_mutex_def solo_def mismas_def)

lemma inv_despertar:
  assumes i: "inv k (add_mset (R_firme p e) M)"
  shows "inv (despertar p e k) M"
proof -
  have ok: "bloqueado k p" "estado (procs k p) = e" "timer (procs k p) = None"
    using invD(3) [OF i, of "R_firme p e"] by simp_all
  then have e: "e = BLOCK \<or> e = SUSP_BLOCK" "p < prox_proc k" by (auto simp: bloqueado_def)
  note ef = despertar_efecto [OF ok(2) e(1) refl]
  note m = mismasD [OF ef(2)]
  have n: "p \<in># espera_de (R_firme p e)" by simp
  note nm = no_mencionado_espera [OF i ok(1) n]
  have "inv (despertar p e k) ({#} + M)"
    by (rule inv_cambia [of k "{#R_firme p e#}" M, OF _ lugar_despertar [OF invD(1) [OF i] e(2) ok(2)] ef(1)])
      (use i ef ok nm e in \<open>auto simp: m\<close>)
  then show ?thesis by simp
qed

lemma dessuspender_efecto:
  "k' = dessuspender_mover p k \<Longrightarrow> solo p k k' \<and> mismas k k' \<and> estado (procs k' p) = READY \<and>
    timer (procs k' p) = timer (procs k p) \<and> prox_timer k' = prox_timer k"
  by (auto simp: dessuspender_mover_def poner_estado_def modificar_def en_io_def en_mutex_def solo_def mismas_def)

lemma inv_dessuspender:
  assumes i: "inv k (add_mset (R_dess (Some p)) M)"
  shows "inv (dessuspender_mover p k) (add_mset (R_dess None) M)"
proof -
  have ok: "p < prox_proc k" "estado (procs k p) = SUSP_READY" using invD(3) [OF i, of "R_dess (Some p)"] by simp_all
  define k' where "k' = dessuspender_mover p k"
  have ef: "solo p k k'" "mismas k k'" "estado (procs k' p) = READY" "timer (procs k' p) = timer (procs k p)"
    "prox_timer k' = prox_timer k" using dessuspender_efecto [OF k'_def] by blast+
  note m = mismasD [OF ef(2)]
  have nm: "p \<notin> menciona r" if r: "r \<in># M" for r
  proof -
    have "\<nexists>x. r = R_dess x"
      using claves_unica [of M "{#R_dess (Some p)#}" "(2, 0)"] invD(2) [OF i] claves_en [OF r, of "(2, 0)"] by auto
    then show ?thesis using invD(3) [OF i, of r] r ok
      by (cases r) (auto simp: corre_def bloqueado_def split: ref.splits)
  qed
  have ni: "p \<notin> set (en_io k)" "p \<notin> set (en_mutex k)"
    using invD(4) [OF i] ok by (auto simp: inv_esperas_def bloqueado_def corre_def)
  have l: "lugar {} k'" unfolding k'_def by (rule lugar_dessuspender_mover [OF invD(1) [OF i] ok])
  have nc: "\<not> (compactando k \<and> proceso_esperando_memoria k = Some p)"
    using invD(5) [OF i] ok by (auto simp: inv_comp_def)
  have "inv k' ({#R_dess None#} + M)"
    by (rule inv_cambia [of k "{#R_dess (Some p)#}" M, OF _ l ef(1)])
      (use i ef ok nm ni nc timer_exec [OF i ok(1)] in \<open>auto simp: m\<close>)
  then show ?thesis by (simp add: k'_def)
qed

section \<open>New processes and CPUs\<close>

lemma no_mencionado_nuevo:
  assumes i: "inv k (add_mset (R_nuevo b p) M)"
  shows "r \<in># M \<Longrightarrow> p \<notin> menciona r" "p \<notin> set (en_io k)" "p \<notin> set (en_mutex k)"
    "\<not> (compactando k \<and> proceso_esperando_memoria k = Some p)"
proof -
  have ok: "p < prox_proc k" "estado (procs k p) = NEW" using invD(3) [OF i, of "R_nuevo b p"] by simp_all
  show "p \<notin> set (en_io k)" "p \<notin> set (en_mutex k)" "\<not> (compactando k \<and> proceso_esperando_memoria k = Some p)"
    using invD(4,5) [OF i] ok by (auto simp: inv_esperas_def bloqueado_def corre_def inv_comp_def)
  assume r: "r \<in># M"
  have "\<nexists>b'. r = R_nuevo b' p"
    using claves_unica [of M "{#R_nuevo b p#}" "(1, p)"] invD(2) [OF i] claves_en [OF r, of "(1, p)"] by auto
  then show "p \<notin> menciona r" using invD(3) [OF i, of r] r ok
    by (cases r) (auto simp: corre_def bloqueado_def split: ref.splits option.splits)
qed

lemma inv_agregar_new:
  assumes i: "inv k (add_mset (R_nuevo False p) M)"
  shows "inv (agregar_new p k) (add_mset (R_nuevo True p) M)"
proof -
  let ?k = "agregar_new p k"
  have ok: "p < prox_proc k" "estado (procs k p) = NEW" "p \<notin> set (lista_new k)"
    using invD(3) [OF i, of "R_nuevo False p"] by simp_all
  have s: "solo p k ?k" "mismas k ?k" "procs ?k = procs k" "prox_timer ?k = prox_timer k"
    by (simp_all add: agregar_new_def solo_def mismas_def en_io_def en_mutex_def)
  note m = mismasD [OF s(2)]
  have "lugar {p} k" using invD(1) [OF i] ok unfolding lugar_def
    by (metis empty_iff insert_iff lista_de.simps(1))
  from lugar_poner(1) [OF this, of p] ok have l: "lugar {} ?k" by (simp add: agregar_new_def)
  have "recurso_ok ?k (R_nuevo True p)" using ok by (simp add: agregar_new_def)
  then have "inv ?k ({#R_nuevo True p#} + M)"
    by (intro inv_cambia [of k "{#R_nuevo False p#}" M, OF _ l s(1)])
      (use i ok s no_mencionado_nuevo [OF i] timer_exec [OF i ok(1)] in \<open>auto simp: m\<close>)
  then show ?thesis by simp
qed

lemma mover_ready_efecto:
  "k' = mover_proceso_a_ready p k \<Longrightarrow> solo p k k' \<and> mismas k k' \<and> estado (procs k' p) = READY \<and>
    timer (procs k' p) = timer (procs k p) \<and> prox_timer k' = prox_timer k"
  by (auto simp: mover_proceso_a_ready_def poner_estado_def modificar_def en_io_def en_mutex_def solo_def mismas_def)

lemma inv_mover_ready:
  assumes i: "inv k (add_mset (R_nuevo True p) M)"
  shows "inv (mover_proceso_a_ready p k) M"
proof -
  have ok: "p < prox_proc k" "estado (procs k p) = NEW" "p \<in> set (lista_new k)"
    using invD(3) [OF i, of "R_nuevo True p"] by simp_all
  define k' where "k' = mover_proceso_a_ready p k"
  have ef: "solo p k k'" "mismas k k'" "estado (procs k' p) = READY" "timer (procs k' p) = timer (procs k p)"
    "prox_timer k' = prox_timer k" using mover_ready_efecto [OF k'_def] by blast+
  note m = mismasD [OF ef(2)]
  have l: "lugar {} k'" unfolding k'_def by (rule lugar_mover_ready(1) [OF invD(1) [OF i] ok(3)])
  have "inv k' ({#} + M)"
    by (rule inv_cambia [of k "{#R_nuevo True p#}" M, OF _ l ef(1)])
      (use i ef ok no_mencionado_nuevo [OF i] timer_exec [OF i ok(1)] in \<open>auto simp: m\<close>)
  then show ?thesis by (simp add: k'_def)
qed

end
