(* ===== verification/InvarianteOps.thy ===== *)
theory InvarianteOps
  imports InvarianteKS
begin

text \<open>
  The operations that move CPUs, create processes or take part in a compaction, and those on
  mutexes, keep the invariant of the threads.
\<close>

section \<open>Semaphores\<close>

lemma inv_quieto:
  assumes i: "inv k (A + M)" and l: "lugar {} k' = lugar {} k" and m: "mismos_procs k k'"
    and f: "en_io k' = en_io k" "en_mutex k' = en_mutex k" "lista_cpus_libres k' = lista_cpus_libres k"
    and c: "claves B \<subseteq># claves A" "\<And>r. r \<in># B \<Longrightarrow> recurso_ok k r"
    and e: "\<Sum>\<^sub># (image_mset espera_de B) \<subseteq># \<Sum>\<^sub># (image_mset espera_de A)"
      "\<Sum>\<^sub># (image_mset cpu_de B) \<subseteq># \<Sum>\<^sub># (image_mset cpu_de A)"
    and t: "sem_puede_planificar k' + turnos B \<le> sem_puede_planificar k + turnos A"
    and s: "\<And>t. R_susp t \<in># B \<Longrightarrow> R_susp t \<in># A" "\<And>c p. R_hilo c (Bloq p) \<in># A \<Longrightarrow> R_hilo c (Bloq p) \<in># B"
  shows "inv k' (B + M)"
proof (rule inv_igual [OF i _ m _ _ c _ _ t s])
  have "en_compactacion k' = en_compactacion k" "compactando k' = compactando k"
    "cpu_esperando_memoria k' = cpu_esperando_memoria k"
    using m by (simp_all add: mismos_procs_def en_compactacion_def)
  then have "esperas k' (B + M) = (mset (en_io k) + mset (en_mutex k) + en_compactacion k + \<Sum>\<^sub># (image_mset espera_de M)) +
      \<Sum>\<^sub># (image_mset espera_de B)"
    "sin_correr k' (B + M) = (image_mset Some (mset (lista_cpus_libres k)) + \<Sum>\<^sub># (image_mset cpu_de M) +
     (if compactando k then {#cpu_esperando_memoria k#} else {#})) + \<Sum>\<^sub># (image_mset cpu_de B)"
    by (simp_all add: esperas_def sin_correr_def f)
  moreover have "esperas k (A + M) = (mset (en_io k) + mset (en_mutex k) + en_compactacion k + \<Sum>\<^sub># (image_mset espera_de M)) +
      \<Sum>\<^sub># (image_mset espera_de A)"
    "sin_correr k (A + M) = (image_mset Some (mset (lista_cpus_libres k)) + \<Sum>\<^sub># (image_mset cpu_de M) +
     (if compactando k then {#cpu_esperando_memoria k#} else {#})) + \<Sum>\<^sub># (image_mset cpu_de A)"
    by (simp_all add: esperas_def sin_correr_def)
  ultimately show "esperas k' (B + M) \<subseteq># esperas k (A + M)" "sin_correr k' (B + M) \<subseteq># sin_correr k (A + M)"
    using e by simp_all
  show "bloqueado k p" if "p \<in> set (en_io k')" for p
    using that invD(4) [OF i] unfolding f inv_esperas_def by blast
qed (use l f invD(1) [OF i] in auto)

lemma inv_sems:
  assumes i: "inv k (A + M)" and t: "v + turnos B \<le> sem_puede_planificar k + turnos A"
    and c: "claves B = {#}" "\<And>r. r \<in># B \<Longrightarrow> r = R_turno" "\<And>r. r \<in># A \<Longrightarrow> r = R_turno"
  shows "inv (k\<lparr>sem_puede_planificar := v, sem_hay_cpus_libres := w, sem_hay_procesos_ready := z\<rparr>) (B + M)"
    (is "inv ?k _")
proof (rule inv_quieto [OF i])
  have r: "espera_de r = {#} \<and> cpu_de r = {#}" if "r \<in># B" for r using c(2) [OF that] by simp
  have "image_mset espera_de B = {#} + image_mset (\<lambda>_. {#}) B" "image_mset cpu_de B = {#} + image_mset (\<lambda>_. {#}) B"
    using r by (auto intro!: image_mset_cong)
  then show "\<Sum>\<^sub># (image_mset espera_de B) \<subseteq># \<Sum>\<^sub># (image_mset espera_de A)"
    "\<Sum>\<^sub># (image_mset cpu_de B) \<subseteq># \<Sum>\<^sub># (image_mset cpu_de A)" by simp_all
  show "recurso_ok k r" if "r \<in># B" for r using c(2) [OF that] by simp
  show "R_susp t \<in># A" if "R_susp t \<in># B" for t using c(2) [OF that] by simp
  show "R_hilo c (Bloq p) \<in># B" if "R_hilo c (Bloq p) \<in># A" for c p using c(3) [OF that] by simp
qed (use t c(1) in \<open>simp_all add: mismos_procs_def en_io_def en_mutex_def\<close>)

section \<open>A process gets a CPU\<close>

lemma inv_entra:
  assumes i: "inv k (A + M)" and l: "lugar {} k'" and s: "solo p k k'"
    and nm: "\<And>r. r \<in># M \<Longrightarrow> p \<notin> menciona r"
    and q: "en_io k' = en_io k" "en_mutex k' = en_mutex k" "p \<notin> set (en_io k)" "p \<notin> set (en_mutex k)"
    and cm: "compactando k' \<Longrightarrow> compactando k" "proceso_esperando_memoria k' = proceso_esperando_memoria k"
      "cpu_esperando_memoria k' = cpu_esperando_memoria k"
      "compactando k' \<Longrightarrow> proceso_esperando_memoria k \<noteq> Some p" "compactando k' \<or> R_mem True \<notin># M"
    and c: "claves B \<subseteq># claves A" "\<And>r. r \<in># B \<Longrightarrow> recurso_ok k' r"
    and e: "esperas k' (B + M) \<subseteq># esperas k (A + M)"
      "sin_correr k (A + M) = add_mset (Some d) (sin_correr k' (B + M))"
    and t: "sem_puede_planificar k' + turnos B + (if compactando k' then 1 else 0) \<le>
        sem_puede_planificar k + turnos A + (if compactando k then 1 else 0)"
      "\<And>t. p < prox_proc k \<Longrightarrow> timer (procs k' p) = Some t \<Longrightarrow> t < prox_timer k' \<and> R_susp t \<notin># B + M"
    and u: "\<And>t. R_susp t \<in># B \<Longrightarrow> R_susp t \<in># A" "\<And>c q. R_hilo c (Bloq q) \<in># A \<Longrightarrow> R_hilo c (Bloq q) \<in># B"
    and x: "estado (procs k p) \<noteq> EXEC" "pr_cpu (procs k' p) = Some d"
  shows "inv k' (B + M)"
proof -
  have "count (claves (B + M)) y \<le> 1" for y
    using invD(2) [OF i, of y] mset_subset_eq_count [OF c(1), of y] by simp
  moreover have "recurso_ok k' r" if "r \<in># B + M" for r
    using that c(2) nm [of r] recursos_solo [OF i s, of r] cm by auto
  moreover have "inv_esperas k' (B + M)"
  proof (rule esperas_solo [OF invD(4) [OF i] s])
    show "count (esperas k' (B + M)) r \<le> 1" for r
      using mset_subset_eq_count [OF e(1), of r] invD(4) [OF i] by (metis inv_esperas_def le_trans)
  qed (use q u(2) in auto)
  moreover have "inv_comp k' (B + M)"
  proof -
    have "\<exists>q. proceso_esperando_memoria k' = Some q \<and> q < prox_proc k' \<and> estado (procs k' q) = BLOCK"
      if cc: "compactando k'"
    proof -
      obtain q where q: "proceso_esperando_memoria k = Some q" "q < prox_proc k" "estado (procs k q) = BLOCK"
        using invD(5) [OF i] cm(1) cc by (auto simp: inv_comp_def)
      then show ?thesis
        using cm cc s solo_nucleo(1) [OF s, of q] by (cases "q = p") (auto simp: solo_def)
    qed
    then show ?thesis using invD(5) [OF i] t(1) by (auto simp: inv_comp_def)
  qed
  moreover have "inv_timers k' (B + M)"
    by (rule timers_solo [OF invD(6) [OF i] s]) (use t(2) u(1) cm in auto)
  moreover have "inv_cpus k' (B + M)" by (rule cpus_entra [OF invD(7) [OF i] s x e(2)])
  ultimately show ?thesis using l by (simp add: inv_def)
qed

lemma despachar_efecto:
  assumes "despachar k = Some (k', Some (p, c, t))"
  shows "\<exists>k1 b cs. obtener_proximo_proceso_ready k = (k1, Some (p, b)) \<and> lista_cpus_libres k = c # cs \<and>
      lista_cpus_libres k' = cs \<and> solo p k k' \<and> en_io k' = en_io k \<and> en_mutex k' = en_mutex k \<and>
      compactando k' = compactando k \<and> proceso_esperando_memoria k' = proceso_esperando_memoria k \<and>
      cpu_esperando_memoria k' = cpu_esperando_memoria k \<and> sem_puede_planificar k' = sem_puede_planificar k \<and>
      estado (procs k' p) = EXEC \<and> pr_cpu (procs k' p) = Some c \<and>
      (timer (procs k' p) = timer (procs k p) \<or>
       timer (procs k' p) = Some (prox_timer k) \<and> prox_timer k' = Suc (prox_timer k))"
proof -
  obtain k1 b where o: "obtener_proximo_proceso_ready k = (k1, Some (p, b))"
    using assms by (auto simp: despachar_def Let_def split: prod.splits option.splits list.splits if_splits)
  have n: "lista_new k1 = lista_new k"
    using o by (auto simp: obtener_proximo_proceso_ready_def split: if_splits option.splits prod.splits list.splits)
  show ?thesis
    using assms o obtener_campos [OF o] n
    by (auto simp: despachar_def Let_def poner_timer_def crear_timer_def modificar_def solo_def en_io_def en_mutex_def
        nucleo_def split: list.splits if_splits)
qed

lemma sin_esperas_ready:
  assumes i: "inv k M" and p: "p < prox_proc k" "estado (procs k p) = READY"
  shows "r \<in># M \<Longrightarrow> p \<notin> menciona r" "p \<notin> set (en_io k)" "p \<notin> set (en_mutex k)"
    "\<not> (compactando k \<and> proceso_esperando_memoria k = Some p)"
proof -
  show "p \<notin> set (en_io k)" "p \<notin> set (en_mutex k)" "\<not> (compactando k \<and> proceso_esperando_memoria k = Some p)"
    using invD(4,5) [OF i] p by (auto simp: inv_esperas_def bloqueado_def corre_def inv_comp_def)
  show "p \<notin> menciona r" if "r \<in># M"
    using invD(3) [OF i that] p by (cases r) (auto simp: corre_def bloqueado_def split: ref.splits option.splits)
qed

lemma inv_despachar:
  assumes i: "inv k M" and d: "despachar k = Some (k', Some (p, c, t))"
  shows "inv k' M"
proof -
  obtain k1 b cs where o: "obtener_proximo_proceso_ready k = (k1, Some (p, b))" and cs: "lista_cpus_libres k = c # cs"
      "lista_cpus_libres k' = cs" and s: "solo p k k'" and ef: "en_io k' = en_io k" "en_mutex k' = en_mutex k"
      "compactando k' = compactando k" "proceso_esperando_memoria k' = proceso_esperando_memoria k"
      "cpu_esperando_memoria k' = cpu_esperando_memoria k" "sem_puede_planificar k' = sem_puede_planificar k"
      "estado (procs k' p) = EXEC" "pr_cpu (procs k' p) = Some c"
    and t: "timer (procs k' p) = timer (procs k p) \<or>
       timer (procs k' p) = Some (prox_timer k) \<and> prox_timer k' = Suc (prox_timer k)"
    using despachar_efecto [OF d] by blast
  note p = lugar_obtener [OF invD(1) [OF i] o]
  note sr = sin_esperas_ready [OF i p(2,3)]
  have pt: "prox_timer k \<le> prox_timer k'" using s by (simp add: solo_def)
  have st: "t' < prox_timer k' \<and> R_susp t' \<notin># M" if "timer (procs k' p) = Some t'" for t'
    using t that timer_exec [OF i p(2), of t'] p(3) pt invD(3) [OF i, of "R_susp t'"] by auto
  have rm: "R_mem True \<notin># M \<or> compactando k" using invD(3) [OF i, of "R_mem True"] by auto
  have "inv k' ({#} + M)"
    by (rule inv_entra [of k "{#}" M, OF _ lugar_despachar [OF invD(1) [OF i] d] s])
      (use i cs ef sr rm st p(3) in \<open>auto simp: esperas_def en_compactacion_def sin_correr_def\<close>)
  then show ?thesis by simp
qed

lemma inv_despachar_nada:
  assumes i: "inv k (add_mset R_turno M)" and d: "despachar k = Some (k', None)"
  shows "inv k' M"
proof -
  obtain k1 where o: "obtener_proximo_proceso_ready k = (k1, None)"
    and k': "k' = k1\<lparr>sem_hay_cpus_libres := Suc (sem_hay_cpus_libres k1), sem_puede_planificar := Suc (sem_puede_planificar k1)\<rparr>"
    using d by (auto simp: despachar_def Let_def split: prod.splits option.splits list.splits if_splits)
  have "k1 = k" using o by (auto simp: obtener_proximo_proceso_ready_def split: if_splits option.splits prod.splits list.splits)
  then have "k' = k\<lparr>sem_puede_planificar := Suc (sem_puede_planificar k),
      sem_hay_cpus_libres := Suc (sem_hay_cpus_libres k), sem_hay_procesos_ready := sem_hay_procesos_ready k\<rparr>"
    by (simp add: k')
  moreover have "inv (k\<lparr>sem_puede_planificar := Suc (sem_puede_planificar k),
      sem_hay_cpus_libres := Suc (sem_hay_cpus_libres k), sem_hay_procesos_ready := sem_hay_procesos_ready k\<rparr>) ({#} + M)"
    by (rule inv_sems [of k "{#R_turno#}"]) (use i in auto)
  ultimately show ?thesis by simp
qed

section \<open>Compaction\<close>

text \<open>Who has the turn of the planner is alone: no other thread has it, and no compaction waits.\<close>

lemma turno_solo:
  assumes "inv k (add_mset r M)" "turno_de r = 1"
  shows "sem_puede_planificar k = 0" "turnos M = 0" "\<not> compactando k" "R_hilo c (Comp p) \<notin># M" "R_mem True \<notin># M"
proof -
  have t: "sem_puede_planificar k + (turno_de r + turnos M) + (if compactando k then 1 else 0) \<le> 1"
    using invD(5) [OF assms(1)] by (simp add: inv_comp_def)
  then show "sem_puede_planificar k = 0" "turnos M = 0" "\<not> compactando k"
    using assms(2) by (auto split: if_splits)
  then show "R_hilo c (Comp p) \<notin># M" by (auto simp: turnos_def)
  show "R_mem True \<notin># M" using invD(3) [OF assms(1), of "R_mem True"] \<open>\<not> compactando k\<close> by auto
qed

lemma turno_libre:
  assumes "inv k M" "0 < sem_puede_planificar k"
  shows "sem_puede_planificar k = 1" "turnos M = 0" "\<not> compactando k" "R_hilo c (Comp p) \<notin># M" "R_mem True \<notin># M"
proof -
  have t: "sem_puede_planificar k + turnos M + (if compactando k then 1 else 0) \<le> 1"
    using invD(5) [OF assms(1)] by (simp add: inv_comp_def)
  then show "sem_puede_planificar k = 1" "turnos M = 0" "\<not> compactando k"
    using assms(2) by (auto split: if_splits)
  then show "R_hilo c (Comp p) \<notin># M" by (auto simp: turnos_def)
  show "R_mem True \<notin># M" using invD(3) [OF assms(1), of "R_mem True"] \<open>\<not> compactando k\<close> by auto
qed

lemma esperando_otro:
  assumes i: "inv k M" and n: "\<not> compactando k" "\<And>c p. R_hilo c (Comp p) \<notin># M"
  shows "inv (k\<lparr>proceso_esperando_memoria := x, cpu_esperando_memoria := y\<rparr>) M" (is "inv ?k M")
proof -
  have b: "bloqueado ?k p = bloqueado k p" "corre ?k c p = corre k c p" for c p
    by (simp_all add: bloqueado_def corre_def)
  have "recurso_ok ?k r" if "r \<in># M" for r
    using invD(3) [OF i that] that n by (cases r) (auto simp: b split: ref.splits option.splits)
  moreover have "inv_esperas ?k M"
    using invD(4) [OF i] n(1)
    by (simp add: inv_esperas_def b en_io_def en_mutex_def esperas_def en_compactacion_def)
  moreover have "inv_cpus ?k M" using invD(7) [OF i] n(1) by (simp add: inv_cpus_def b sin_correr_def)
  ultimately show ?thesis
    using invD(1,2,5,6) [OF i] n(1) by (simp add: inv_def inv_comp_def inv_timers_def)
qed

lemma inv_anotar:
  assumes i: "inv k (add_mset (R_hilo c (Ref p)) M)" and s: "0 < sem_puede_planificar k"
  shows "inv (compactacion_anotar p k) (add_mset (R_hilo c (Comp p)) M)"
proof -
  note tl = turno_libre [OF i s]
  let ?k1 = "k\<lparr>proceso_esperando_memoria := Some p, cpu_esperando_memoria := pr_cpu (procs k p)\<rparr>"
  let ?k2 = "?k1\<lparr>sem_puede_planificar := sem_puede_planificar k - 1, sem_hay_cpus_libres := sem_hay_cpus_libres k,
    sem_hay_procesos_ready := sem_hay_procesos_ready k\<rparr>"
  have ok: "c < prox_cpu k" "corre k c p" using invD(3) [OF i, of "R_hilo c (Ref p)"] by simp_all
  have "inv ?k1 (add_mset (R_hilo c (Ref p)) M)" by (rule esperando_otro [OF i tl(3,4)])
  then have "inv ?k1 ({#} + add_mset (R_hilo c (Ref p)) M)" by simp
  then have "inv ?k2 ({#R_turno#} + add_mset (R_hilo c (Ref p)) M)"
    by (rule inv_sems) (use tl s in auto)
  moreover have "?k2 = compactacion_anotar p k" by (simp add: compactacion_anotar_def)
  ultimately have "inv (compactacion_anotar p k) ({#R_turno, R_hilo c (Ref p)#} + M)" by (simp add: add_mset_commute)
  then have "inv (compactacion_anotar p k) ({#R_hilo c (Comp p)#} + M)"
    by (rule inv_baja) (use ok in \<open>auto simp: compactacion_anotar_def corre_def\<close>)
  then show ?thesis by simp
qed

lemma comp_bloquear_efecto:
  assumes "k' = compactacion_bloquear p k"
  shows "solo p k k'" "en_io k' = en_io k" "en_mutex k' = en_mutex k" "compactando k'"
    "proceso_esperando_memoria k' = proceso_esperando_memoria k" "prox_timer k' = prox_timer k"
    "cpu_esperando_memoria k' = cpu_esperando_memoria k" "lista_cpus_libres k' = lista_cpus_libres k"
    "sem_puede_planificar k' = sem_puede_planificar k" "estado (procs k' p) = BLOCK" "timer (procs k' p) = timer (procs k p)"
  using assms
  by (simp_all add: compactacion_bloquear_def modificar_def solo_def en_io_def en_mutex_def)

lemma inv_comp_bloquear:
  assumes i: "inv k (add_mset (R_hilo c (Comp p)) M)"
  shows "inv (compactacion_bloquear p k) (add_mset (R_hilo c Libre) M)"
proof -
  define k' where "k' = compactacion_bloquear p k"
  note ef = comp_bloquear_efecto [OF k'_def]
  have ok: "c < prox_cpu k" "corre k c p" "proceso_esperando_memoria k = Some p" "cpu_esperando_memoria k = Some c"
    using invD(3) [OF i, of "R_hilo c (Comp p)"] by simp_all
  note p = ok(2) [unfolded corre_def]
  note ts = turno_solo [OF i turno_de.simps(2)]
  have nm: "p \<notin> menciona r" if "r \<in># M" for r by (rule no_mencionado_exec [OF i ok(2) that])
  have ne: "p \<notin># esperas k (add_mset (R_hilo c (Comp p)) M)" by (rule no_espera_exec [OF i ok(2)]) simp
  have "lugar {} k'" unfolding k'_def
    by (rule lugar_compactacion_bloquear [OF invD(1) [OF i]]) (use en_lista(1) [OF invD(1) [OF i]] p in auto)
  moreover have "count (claves (add_mset (R_hilo c Libre) M)) y \<le> 1" for y using invD(2) [OF i, of y] by simp
  moreover have "recurso_ok k' r" if "r \<in># add_mset (R_hilo c Libre) M" for r
    using that recursos_solo [of k "{#R_hilo c (Comp p)#}" M p k' r] i ef nm ok(1) by (auto simp: solo_def)
  moreover have "inv_esperas k' (add_mset (R_hilo c Libre) M)"
  proof (rule esperas_solo [OF invD(4) [OF i] ef(1)])
    have "esperas k' (add_mset (R_hilo c Libre) M) = add_mset p (esperas k (add_mset (R_hilo c (Comp p)) M))"
      using ts(3) ok(3) by (simp add: esperas_def en_compactacion_def ef)
    then show "count (esperas k' (add_mset (R_hilo c Libre) M)) q \<le> 1" for q
      using invD(4) [OF i] ne by (auto simp: inv_esperas_def not_in_iff)
    show "bloqueado k' p" if "p \<in> set (en_io k')" using ne that by (simp add: esperas_def ef)
    show "bloqueado k' p \<or> (\<exists>c'. corre k' c' p \<and> R_hilo c' (Bloq p) \<in># add_mset (R_hilo c Libre) M)"
      if "p \<in> set (en_mutex k')" using ne that by (simp add: esperas_def ef)
  qed (use ef in auto)
  moreover have "inv_comp k' (add_mset (R_hilo c Libre) M)"
    using ts ef ok(3) p by (auto simp: inv_comp_def solo_def)
  moreover have "inv_timers k' (add_mset (R_hilo c Libre) M)"
    by (rule timers_solo [OF invD(6) [OF i] ef(1)]) (use ef timer_exec [OF i, of p] p ok(3) in auto)
  moreover have "inv_cpus k' (add_mset (R_hilo c Libre) M)"
    by (rule cpus_sale [OF invD(7) [OF i] ef(1) ok(2)]) (use ef ts(3) ok(4) in \<open>simp_all add: sin_correr_def\<close>)
  ultimately show ?thesis by (simp add: inv_def k'_def)
qed

lemma fin_compactacion_efecto:
  assumes "proceso_esperando_memoria k = Some p" "k' = fin_compactacion k"
  shows "solo p k k'" "en_io k' = en_io k" "en_mutex k' = en_mutex k" "\<not> compactando k'"
    "proceso_esperando_memoria k' = proceso_esperando_memoria k" "prox_timer k' = prox_timer k"
    "cpu_esperando_memoria k' = cpu_esperando_memoria k" "lista_cpus_libres k' = lista_cpus_libres k"
    "sem_puede_planificar k' = sem_puede_planificar k" "pr_cpu (procs k' p) = cpu_esperando_memoria k"
    "timer (procs k' p) = timer (procs k p)" "estado (procs k' p) = EXEC"
  using assms
  by (simp_all add: fin_compactacion_def modificar_def solo_def en_io_def en_mutex_def)

lemma inv_fin_compactacion:
  assumes i: "inv k (add_mset (R_mem True) M)"
  shows "inv (fin_compactacion k) ({#R_mem False, R_turno#} + M)"
proof -
  have cm: "compactando k" using invD(3) [OF i, of "R_mem True"] by simp
  obtain p where p: "proceso_esperando_memoria k = Some p" "p < prox_proc k" "estado (procs k p) = BLOCK"
    using invD(5) [OF i] cm by (auto simp: inv_comp_def)
  have "cpu_esperando_memoria k \<in># sin_correr k (add_mset (R_mem True) M)" using cm by (simp add: sin_correr_def)
  then obtain c where c: "cpu_esperando_memoria k = Some c" using invD(7) [OF i] by (auto simp: inv_cpus_def)
  define k' where "k' = fin_compactacion k"
  note ef = fin_compactacion_efecto [OF p(1) k'_def]
  have l: "lugar {} k'" unfolding k'_def by (rule lugar_fin_compactacion [OF invD(1) [OF i] p])
  have "count (esperas k (add_mset (R_mem True) M)) p \<le> 1" using invD(4) [OF i] unfolding inv_esperas_def by blast
  then have "count (mset (en_io k)) p + count (mset (en_mutex k)) p + count (\<Sum>\<^sub># (image_mset espera_de M)) p = 0"
    using cm p(1) by (simp add: esperas_def en_compactacion_def)
  then have n: "p \<notin># mset (en_io k)" "p \<notin># mset (en_mutex k)" "p \<notin># \<Sum>\<^sub># (image_mset espera_de M)"
    by (simp_all only: not_in_iff add_is_0)
  have n: "p \<notin> set (en_io k)" "p \<notin> set (en_mutex k)" "\<And>r. r \<in># M \<Longrightarrow> p \<notin># espera_de r"
    using n by auto
  have nm: "p \<notin> menciona r" if r: "r \<in># M" for r
    using invD(3) [OF i, of r] n(3) [OF r] r p(2,3)
    by (cases r) (auto simp: corre_def split: ref.splits option.splits)
  have "(3, 0) \<notin># claves M"
    using claves_unica [of M "{#R_mem True#}" "(3, 0)"] invD(2) [OF i] by auto
  then have nM: "R_mem True \<notin># M" using claves_en [of "R_mem True" M "(3, 0)"] by auto
  have tm: "t < prox_timer k \<and> R_susp t \<notin># M" if "timer (procs k p) = Some t" for t
    using invD(6) [OF i] that p cm by (auto simp: inv_timers_def)
  have "inv k' ({#R_mem False, R_turno#} + M)"
    by (rule inv_entra [of k "{#R_mem True#}" M, OF _ l ef(1) nm])
      (use i ef n(1,2) nM tm cm p c in \<open>auto simp: esperas_def en_compactacion_def sin_correr_def\<close>)
  then show ?thesis by (simp add: k'_def)
qed

lemma inv_fin_avisar:
  assumes i: "inv k (add_mset R_turno M)" and a: "fin_compactacion_avisar k = Some k'"
  shows "inv k' M"
proof -
  note ts = turno_solo [OF i turno_de.simps(1)]
  have s: "inv (k1\<lparr>sem_puede_planificar := Suc (sem_puede_planificar k1)\<rparr>) M" if "inv k1 (add_mset R_turno M)" for k1
  proof -
    have "inv k1 ({#R_turno#} + M)" using that by simp
    then have "inv (k1\<lparr>sem_puede_planificar := Suc (sem_puede_planificar k1), sem_hay_cpus_libres := sem_hay_cpus_libres k1,
      sem_hay_procesos_ready := sem_hay_procesos_ready k1\<rparr>) ({#} + M)"
      by (rule inv_sems) auto
    then show ?thesis by simp
  qed
  show ?thesis
  proof (cases "proceso_esperando_memoria k")
    case None
    then show ?thesis using a s [OF i] by (auto simp: fin_compactacion_avisar_def)
  next
    case (Some p)
    then obtain c where c: "cpu_esperando_memoria k = Some c"
      using a by (auto simp: fin_compactacion_avisar_def split: option.splits)
    let ?s = "cp_socket (cpus k c)"
    let ?k1 = "enviar_entero ?s (pid (procs k p)) (enviar_codigo ?s OP_EJECUTAR_PROCESO k)"
    have "inv ?k1 (add_mset R_turno M)"
      by (rule inv_callado [OF i]) (blast intro: callado_trans callado_enviar)
    then have "inv (?k1\<lparr>proceso_esperando_memoria := None, cpu_esperando_memoria := None\<rparr>) (add_mset R_turno M)"
      by (rule esperando_otro) (use ts(3,4) in auto)
    from s [OF this] show ?thesis using a Some c by (auto simp: fin_compactacion_avisar_def Let_def)
  qed
qed

section \<open>CPUs and processes that appear or go away\<close>

lemma inv_agregar_cpu_libre:
  assumes i: "inv k (add_mset (R_cpu (Some c)) M)"
  shows "inv (agregar_cpu_libre c k) M"
proof -
  have "inv (agregar_cpu_libre c k) ({#} + M)"
  proof (rule inv_igual [of k "{#R_cpu (Some c)#}" M])
    show "lugar {} (agregar_cpu_libre c k)" using invD(1) [OF i] by (simp add: agregar_cpu_libre_def)
    show "bloqueado k p" if "p \<in> set (en_io (agregar_cpu_libre c k))" for p
      using that invD(4) [OF i] by (simp add: agregar_cpu_libre_def en_io_def inv_esperas_def)
  qed (use i in \<open>simp_all add: agregar_cpu_libre_def mismos_procs_def en_io_def en_mutex_def esperas_def
      sin_correr_def en_compactacion_def\<close>)
  then show ?thesis by simp
qed

lemma inv_libres_menos:
  assumes i: "inv k M" and s: "mset cs \<subseteq># mset (lista_cpus_libres k)"
  shows "inv (k\<lparr>lista_cpus_libres := cs, sem_hay_cpus_libres := v\<rparr>) M" (is "inv ?k M")
proof -
  have "inv ?k ({#} + M)"
  proof (rule inv_igual [of k "{#}" M])
    show "lugar {} ?k" using invD(1) [OF i] by simp
    show "bloqueado k p" if "p \<in> set (en_io ?k)" for p
      using that invD(4) [OF i] by (simp add: en_io_def inv_esperas_def)
    show "sin_correr ?k ({#} + M) \<subseteq># sin_correr k ({#} + M)"
      using image_mset_subseteq_mono [OF s, of Some] by (simp add: sin_correr_def)
  qed (use i in \<open>simp_all add: mismos_procs_def en_io_def en_mutex_def esperas_def en_compactacion_def\<close>)
  then show ?thesis by simp
qed

lemma exec_a_ready_efecto:
  assumes "k' = post_ready (encolar_en_ready p (modificar p (\<lambda>r. r\<lparr>timer := None, estado := READY, pr_cpu := None\<rparr>)
    (k\<lparr>lista_exec := xs\<rparr>)))"
  shows "solo p k k'" "mismas k k'" "estado (procs k' p) = READY" "timer (procs k' p) = None"
  using assms by (simp_all add: modificar_def en_io_def en_mutex_def solo_def mismas_def)

lemma inv_desconectar:
  assumes i: "inv k (add_mset (R_hilo c Libre) M)"
  shows "inv (desconectar_cpu c k) M"
proof -
  define k1 where "k1 = (if c \<in> set (lista_cpus_libres k)
    then k\<lparr>lista_cpus_libres := remove1 c (lista_cpus_libres k), sem_hay_cpus_libres := sem_hay_cpus_libres k - 1\<rparr>
    else k)"
  have i1: "inv k1 (add_mset (R_hilo c Libre) M)" using i by (simp add: k1_def inv_libres_menos)
  have l: "lugar {} (desconectar_cpu c k)" by (rule lugar_desconectar [OF invD(1) [OF i]])
  have "inv (desconectar_cpu c k) ({#} + M)"
  proof (cases "find (con_cpu k1 c) (lista_exec k1)")
    case None
    then have "desconectar_cpu c k = k1" by (simp add: desconectar_cpu_def k1_def)
    then show ?thesis using inv_baja [of k1 "{#R_hilo c Libre#}" M "{#}"] i1 by simp
  next
    case (Some p)
    then have p: "p \<in> set (lista_exec k1)" "pr_cpu (procs k1 p) = Some c"
      by (auto simp: find_Some_iff con_cpu_def)
    then have "corre k1 c p" using lugarD(3,4) [OF invD(1) [OF i1], of p EXEC] by (simp add: corre_def)
    have "desconectar_cpu c k =
      post_ready (encolar_en_ready p (modificar p (\<lambda>r. r\<lparr>timer := None, estado := READY, pr_cpu := None\<rparr>)
        (k1\<lparr>lista_exec := remove1 p (lista_exec k1)\<rparr>)))"
      using Some by (simp add: desconectar_cpu_def k1_def [symmetric])
    note ef = exec_a_ready_efecto [OF this]
    show ?thesis
      by (rule inv_sale [OF i1 \<open>corre k1 c p\<close> l ef(1,2)]) (use ef in auto)
  qed
  then show ?thesis by simp
qed

lemma inv_crear_proceso:
  assumes i: "inv k M" and c: "crear_proceso prio k = (k', p)"
  shows "inv k' (add_mset (R_nuevo False p) M)"
proof -
  have k': "p = prox_proc k" "prox_proc k' = Suc p" "prox_cpu k' = prox_cpu k" "prox_timer k' = prox_timer k"
    "lista_new k' = lista_new k" "en_io k' = en_io k" "en_mutex k' = en_mutex k" "compactando k' = compactando k"
    "proceso_esperando_memoria k' = proceso_esperando_memoria k" "cpu_esperando_memoria k' = cpu_esperando_memoria k"
    "lista_cpus_libres k' = lista_cpus_libres k" "sem_puede_planificar k' = sem_puede_planificar k"
    "estado (procs k' p) = NEW" "timer (procs k' p) = None" "colas_ready k' = colas_ready k"
    "es_CMN k' = es_CMN k" "cantidad_colas k' = cantidad_colas k" "\<And>e. lista_de e k' = lista_de e k"
    and o: "\<And>q. q \<noteq> p \<Longrightarrow> procs k' q = procs k q"
    using c by (auto simp: crear_proceso_def Let_def en_io_def en_mutex_def es_CMN_def cantidad_colas_def
        intro!: lista_de_marco)
  have b: "bloqueado k' q" if "bloqueado k q" for q using that o [of q] k' by (auto simp: bloqueado_def)
  have co: "corre k' d q = corre k d q" for d q using o [of q] k' by (cases "q = p") (auto simp: corre_def)
  note l = invD(1) [OF i]
  have q: "q < p \<and> procs k' q = procs k q" if "q \<in> set (lista_de e k)" for e q
    using lugarD(3) [OF l that] o [of q] k'(1) by auto
  have ce: "q \<in> set (concat (colas_ready k)) \<Longrightarrow> procs k' q = procs k q" for q using q [of q READY] by simp
  have cok: "colas_ok k'"
    using lugar_colas [OF l] ce unfolding colas_ok_def k' by (metis nth_mem set_concat UN_I)
  have l': "lugar {} k'"
    unfolding lugar_def
  proof (intro conjI allI ballI impI)
    fix e q assume h: "q \<in> set (lista_de e k')"
    then show "q \<notin> {}" "q < prox_proc k'" "estado (procs k' q) = e"
      using q [of q e] lugarD(4) [OF l, of q e] k' by auto
  next
    fix q assume h: "q < prox_proc k'" "q \<notin> {}" "estado (procs k' q) \<noteq> NEW" "estado (procs k' q) \<noteq> EXIT_STATE"
    then have "q \<noteq> p" using k' by auto
    then show "q \<in> set (lista_de (estado (procs k' q)) k')" using h lugarD(5) [OF l] o k' by auto
  qed (use cok lugarD(1) [OF l] k' in simp_all)
  have rm: "recurso_ok k' r" if "r \<in># M" for r
    using invD(3) [OF i that] o k' b co by (cases r) (auto simp: bloqueado_def split: ref.splits option.splits)
  have np: "p \<notin> set (lista_new k)" using lugarD(3) [OF l, of p NEW] k'(1) by auto
  have "(1, p) \<notin># claves M"
  proof
    assume "(1, p) \<in># claves M"
    then obtain r where r: "r \<in># M" "(1, p) \<in># clave r" by (auto simp: claves_def)
    then show False using invD(3) [OF i r(1)] k'(1) by (cases r) auto
  qed
  then have "count (claves (add_mset (R_nuevo False p) M)) y \<le> 1" for y
    using invD(2) [OF i, of y] by (cases "y = (1, p)") (auto simp: not_in_iff)
  moreover have "inv_esperas k' (add_mset (R_nuevo False p) M)"
  proof -
    have "esperas k' (add_mset (R_nuevo False p) M) = esperas k M"
      by (simp add: esperas_def en_compactacion_def k')
    then show ?thesis using invD(4) [OF i] b unfolding inv_esperas_def k' co by auto
  qed
  moreover have "inv_comp k' (add_mset (R_nuevo False p) M)"
    using invD(5) [OF i] o k' by (auto simp: inv_comp_def)
  moreover have "inv_timers k' (add_mset (R_nuevo False p) M)"
    using invD(6) [OF i] o k' by (auto simp: inv_timers_def less_Suc_eq)
  moreover have "inv_cpus k' (add_mset (R_nuevo False p) M)"
  proof -
    have "sin_correr k' (add_mset (R_nuevo False p) M) = sin_correr k M" by (simp add: sin_correr_def k')
    then show ?thesis using invD(7) [OF i] o k' unfolding inv_cpus_def co by (auto simp: less_Suc_eq)
  qed
  ultimately show ?thesis using l' rm k' np by (auto simp: inv_def)
qed

lemma inv_conectar_cpu:
  assumes i: "inv k M" and c: "conectar_cpu s k = (k', c)"
  shows "inv k' (add_mset (R_hilo c Libre) M)"
proof -
  obtain k1 v where r: "recibir_o_cero s k = (k1, v)" by (cases "recibir_o_cero s k")
  define k2 where "k2 = enviar_codigo s HANDSHAKE_OK k1"
  have i2: "inv k2 M" unfolding k2_def
    by (rule inv_callado [OF inv_callado [OF i callado_recibir_o_cero [OF r]] callado_enviar(3)])
  define k3 where "k3 = k2\<lparr>cpus := (cpus k2)(c := \<lparr>cp_socket = s, cp_id = v\<rparr>), prox_cpu := Suc c\<rparr>"
  have k': "k' = agregar_cpu_libre c k3" "c = prox_cpu k2"
    using c by (auto simp: conectar_cpu_def r Let_def k2_def k3_def)
  have b: "bloqueado k3 q = bloqueado k2 q" "corre k3 d q = corre k2 d q" for d q
    by (simp_all add: bloqueado_def corre_def k3_def)
  have pc: "prox_cpu k2 \<le> prox_cpu k3" "c < prox_cpu k3" using k'(2) by (simp_all add: k3_def)
  have f3: "prox_proc k3 = prox_proc k2" "procs k3 = procs k2" "lista_new k3 = lista_new k2"
    "compactando k3 = compactando k2" "proceso_esperando_memoria k3 = proceso_esperando_memoria k2"
    "cpu_esperando_memoria k3 = cpu_esperando_memoria k2" "prox_timer k3 = prox_timer k2"
    by (simp_all add: k3_def)
  have "(0, c) \<notin># claves M"
  proof
    assume "(0, c) \<in># claves M"
    then obtain r where r: "r \<in># M" "(0, c) \<in># clave r" by (auto simp: claves_def)
    then show False using invD(3) [OF i2 r(1)] k'(2) by (cases r) auto
  qed
  then have "count (claves (add_mset (R_cpu (Some c)) (add_mset (R_hilo c Libre) M))) y \<le> 1" for y
    using invD(2) [OF i2, of y] by (cases "y = (0, c)") (auto simp: not_in_iff)
  moreover have "recurso_ok k3 r" if "r \<in># M" for r
    using invD(3) [OF i2 that] pc(1)
    by (cases r) (auto simp: b f3 split: ref.splits option.splits)
  moreover have "inv_esperas k3 (add_mset (R_cpu (Some c)) (add_mset (R_hilo c Libre) M))"
  proof -
    have "esperas k3 M = esperas k2 M" "en_io k3 = en_io k2" "en_mutex k3 = en_mutex k2"
      by (simp_all add: esperas_def en_compactacion_def en_io_def en_mutex_def k3_def)
    then show ?thesis using invD(4) [OF i2] unfolding inv_esperas_def b by auto
  qed
  moreover have "inv_comp k3 (add_mset (R_cpu (Some c)) (add_mset (R_hilo c Libre) M))"
    "inv_timers k3 (add_mset (R_cpu (Some c)) (add_mset (R_hilo c Libre) M))"
    using invD(5,6) [OF i2] by (simp_all add: inv_comp_def inv_timers_def k3_def)
  moreover have "inv_cpus k3 (add_mset (R_cpu (Some c)) (add_mset (R_hilo c Libre) M))"
  proof -
    have e: "sin_correr k3 (add_mset (R_cpu (Some c)) (add_mset (R_hilo c Libre) M)) = add_mset (Some c) (sin_correr k2 M)"
      "prox_proc k3 = prox_proc k2" "procs k3 = procs k2" by (simp_all add: sin_correr_def k3_def)
    have ic: "\<forall>x. count (sin_correr k2 M) x \<le> 1" "\<forall>x \<in># sin_correr k2 M. \<exists>d < prox_cpu k2. x = Some d"
      "\<forall>p < prox_proc k2. estado (procs k2 p) = EXEC \<longrightarrow>
        (\<exists>d < prox_cpu k2. pr_cpu (procs k2 p) = Some d \<and> Some d \<notin># sin_correr k2 M)"
      "\<forall>d p q. corre k2 d p \<longrightarrow> corre k2 d q \<longrightarrow> p = q"
      using invD(7) [OF i2] unfolding inv_cpus_def by blast+
    have "Some c \<notin># sin_correr k2 M" using ic(2) k'(2) by blast
    then have "count (add_mset (Some c) (sin_correr k2 M)) x \<le> 1" for x
      using ic(1) by (cases "x = Some c") (auto simp: not_in_iff)
    moreover have "\<exists>d < prox_cpu k3. x = Some d" if "x \<in># add_mset (Some c) (sin_correr k2 M)" for x
      using that ic(2) pc by (auto intro: less_le_trans)
    moreover have "\<exists>d < prox_cpu k3. pr_cpu (procs k2 p) = Some d \<and> Some d \<notin># add_mset (Some c) (sin_correr k2 M)"
      if "p < prox_proc k2" "estado (procs k2 p) = EXEC" for p
      using ic(3) that pc k'(2) by (metis insert_iff less_irrefl less_le_trans option.inject set_mset_add_mset_insert)
    ultimately show ?thesis using ic(4) unfolding inv_cpus_def e b by blast
  qed
  ultimately have "inv k3 (add_mset (R_cpu (Some c)) (add_mset (R_hilo c Libre) M))"
    using invD(1) [OF i2] pc(2) by (auto simp: inv_def k3_def)
  then show ?thesis unfolding k'(1) by (rule inv_agregar_cpu_libre)
qed

section \<open>IO queues\<close>

text \<open>
  An operation that changes nothing but the sockets, the queues of IO and the data that a
  process carries for its device.
\<close>

lemma inv_modificar_io:
  assumes i: "inv k M" and f: "nucleo (f (procs k p)) = nucleo (procs k p)" "prioridad (f (procs k p)) = prioridad (procs k p)"
  shows "inv (modificar p f k) M"
proof -
  have "inv (modificar p f k) ({#} + M)"
  proof (rule inv_quieto [of k "{#}" M])
    show "mismos_procs k (modificar p f k)" using f(1) by (simp add: mismos_procs_def)
    show "lugar {} (modificar p f k) = lugar {} k"
      using invD(1) [OF i] lugar_modificar_igual [OF invD(1) [OF i], of f p] f(2) nucleo_estado [OF f(1)] by simp
  qed (use i in \<open>simp_all add: en_io_def en_mutex_def\<close>)
  then show ?thesis by simp
qed

lemma encolar_io_efecto:
  assumes "k' = encolar_pedido_io tipo p k"
  shows "mset (en_io k') = add_mset p (mset (en_io k))" "en_mutex k' = en_mutex k" "mismos_procs k k'"
    "lista_cpus_libres k' = lista_cpus_libres k" "sem_puede_planificar k' = sem_puede_planificar k"
    "lugar {} k' = lugar {} k"
  using assms by (auto simp: encolar_pedido_io_def en_io_def en_mutex_def mismos_procs_def)

lemma inv_encolar_io:
  assumes i: "inv k (add_mset (R_espera p) M)"
  shows "inv (encolar_pedido_io tipo p k) M"
proof -
  define k' where "k' = encolar_pedido_io tipo p k"
  note ef = encolar_io_efecto [OF k'_def]
  have s: "set (en_io k') = insert p (set (en_io k))" using ef(1) by (metis set_mset_add_mset_insert set_mset_mset)
  have b: "bloqueado k p" using invD(3) [OF i, of "R_espera p"] by simp
  have "inv k' ({#} + M)"
  proof (rule inv_igual [of k "{#R_espera p#}" M])
    show "bloqueado k q" if "q \<in> set (en_io k')" for q
      using that b invD(4) [OF i] s by (auto simp: inv_esperas_def)
    have "en_compactacion k' = en_compactacion k" using ef(3) by (simp add: mismos_procs_def en_compactacion_def)
    then show "esperas k' ({#} + M) \<subseteq># esperas k ({#R_espera p#} + M)"
      by (simp add: esperas_def ef(1,2))
    show "sin_correr k' ({#} + M) \<subseteq># sin_correr k ({#R_espera p#} + M)"
      using ef(3,4) by (simp add: sin_correr_def mismos_procs_def)
  qed (use i ef(2-) s invD(1) [OF i] in simp_all)
  then show ?thesis by (simp add: k'_def)
qed

lemma tomar_io_efecto:
  assumes "tomar_pedido_io tipo k = (k', Some p)"
  shows "mset (en_io k) = add_mset p (mset (en_io k'))" "en_mutex k' = en_mutex k" "mismos_procs k k'"
    "lista_cpus_libres k' = lista_cpus_libres k" "sem_puede_planificar k' = sem_puede_planificar k"
    "lugar {} k' = lugar {} k"
  using assms
  by (auto simp: tomar_pedido_io_def cola_de_io_def en_io_def en_mutex_def mismos_procs_def split: list.splits if_splits)

lemma inv_tomar_io:
  assumes i: "inv k M" and t: "tomar_pedido_io tipo k = (k', Some p)"
  shows "inv k' (add_mset (R_espera p) M)"
proof -
  note ef = tomar_io_efecto [OF t]
  have s: "set (en_io k) = insert p (set (en_io k'))" using ef(1) by (metis set_mset_add_mset_insert set_mset_mset)
  have b: "bloqueado k q" if "q \<in> set (en_io k)" for q using that invD(4) [OF i] by (auto simp: inv_esperas_def)
  have "inv k' ({#R_espera p#} + M)"
  proof (rule inv_igual [of k "{#}" M])
    show "bloqueado k q" if "q \<in> set (en_io k')" for q using that b s by blast
    show "recurso_ok k r" if "r \<in># {#R_espera p#}" for r using that b s by simp
    have "en_compactacion k' = en_compactacion k" using ef(3) by (simp add: mismos_procs_def en_compactacion_def)
    then show "esperas k' ({#R_espera p#} + M) \<subseteq># esperas k ({#} + M)"
      by (simp add: esperas_def ef(1,2))
    show "sin_correr k' ({#R_espera p#} + M) \<subseteq># sin_correr k ({#} + M)"
      using ef(3,4) by (simp add: sin_correr_def mismos_procs_def)
  qed (use i ef(2-) s invD(1) [OF i] in auto)
  then show ?thesis by simp
qed

lemma inv_manejar_io:
  assumes i: "inv k (add_mset (R_espera p) M)"
  shows "inv (manejar_io tipo s p k) M"
proof -
  have st: "inv (encolar_pedido_io t p (modificar p f k1)) M"
    if "callado k k1" "\<And>r. nucleo (f r) = nucleo r \<and> prioridad (f r) = prioridad r" for t f k1
    using inv_encolar_io [OF inv_modificar_io [OF inv_callado [OF i that(1)]]] that(2) by blast
  show ?thesis
    by (auto simp: manejar_io_def manejar_io_sleep_def manejar_io_stdin_def manejar_io_stdout_def nucleo_def
        split: prod.split intro!: st intro: callado_trans dest!: callado_recibir_o_cero)
qed

section \<open>Mutexes\<close>

lemma mset_en_mutex:
  assumes "i < length (lista_mutex k)"
  shows "mset (en_mutex (poner_mutex i m k)) =
    mset (en_mutex k) - mset (cola_espera (lista_mutex k ! i)) + mset (cola_espera m)"
    "mset (cola_espera (lista_mutex k ! i)) \<subseteq># mset (en_mutex k)"
proof -
  show "mset (en_mutex (poner_mutex i m k)) =
      mset (en_mutex k) - mset (cola_espera (lista_mutex k ! i)) + mset (cola_espera m)"
    using mset_concat_update [of i "map cola_espera (lista_mutex k)" "cola_espera m"] assms
    by (simp add: en_mutex_def map_update)
  show "mset (cola_espera (lista_mutex k ! i)) \<subseteq># mset (en_mutex k)"
    unfolding en_mutex_def by (subst id_take_nth_drop [OF assms]) simp
qed

lemma mismos_poner_mutex: "mismos_procs k (poner_mutex i m k)"
  by (simp add: mismos_procs_def)

lemma inv_mutex_dueno:
  assumes i: "inv k M" and l: "j < length (lista_mutex k)" and c: "cola_espera m = cola_espera (lista_mutex k ! j)"
  shows "inv (poner_mutex j m k) M"
proof -
  let ?k = "poner_mutex j m k"
  have em: "mset (en_mutex ?k) = mset (en_mutex k)" using mset_en_mutex(1) [OF l, of m] mset_en_mutex(2) [OF l] c by simp
  then have s: "set (en_mutex ?k) = set (en_mutex k)" by (rule mset_eq_setD)
  have io: "en_io ?k = en_io k" by (simp add: en_io_def)
  have "inv ?k ({#} + M)"
  proof (rule inv_igual [of k "{#}" M])
    show "bloqueado k p" if "p \<in> set (en_io ?k)" for p
      using that invD(4) [OF i] unfolding inv_esperas_def io by blast
    have "en_compactacion ?k = en_compactacion k" by (simp add: en_compactacion_def)
    then show "esperas ?k ({#} + M) \<subseteq># esperas k ({#} + M)" by (simp add: esperas_def em io)
  qed (use i s io invD(1) [OF i] mismos_poner_mutex in \<open>simp_all add: sin_correr_def\<close>)
  then show ?thesis by simp
qed

lemma inv_nuevo_mutex:
  assumes i: "inv k M" and c: "cola_espera m = []"
  shows "inv (k\<lparr>lista_mutex := lista_mutex k @ [m]\<rparr>) M" (is "inv ?k M")
proof -
  have f: "en_mutex ?k = en_mutex k" "en_io ?k = en_io k" by (simp_all add: en_mutex_def en_io_def c)
  have "inv ?k ({#} + M)"
    by (rule inv_quieto [of k "{#}" M]) (use i f in \<open>simp_all add: mismos_procs_def\<close>)
  then show ?thesis by simp
qed

lemma inv_nucleos:
  assumes i: "inv k M" and l: "lugar {} k'" and m: "mismos_procs k k'"
    and f: "en_io k' = en_io k" "en_mutex k' = en_mutex k" "lista_cpus_libres k' = lista_cpus_libres k"
      "sem_puede_planificar k' = sem_puede_planificar k"
  shows "inv k' M"
proof -
  have "inv k' ({#} + M)"
    by (rule inv_quieto [of k "{#}" M]) (use i l m f invD(1) [OF i] in simp_all)
  then show ?thesis by simp
qed

lemma inv_herencia:
  assumes i: "inv k M" and r: "estado (procs k p) = READY \<Longrightarrow> p \<in> set (concat (colas_ready k))"
  shows "inv (aplicar_herencia p m k) M"
  by (rule inv_nucleos [OF i lugar_herencia [OF invD(1) [OF i] r]])
    (simp_all add: mismos_procs_def en_io_def en_mutex_def)

lemma inv_devolver:
  assumes i: "inv k M" and r: "estado (procs k p) \<noteq> READY"
  shows "inv (devolver_prioridad p k) M"
  by (rule inv_nucleos [OF i lugar_devolver [OF invD(1) [OF i] r]])
    (simp_all add: mismos_procs_def en_io_def en_mutex_def)

end
