(* ===== verification/EjecucionKS.thy ===== *)
theory EjecucionKS
  imports HilosKS
begin

text \<open>
  What the peers of the Kernel Scheduler keep of their protocol, executions that follow a
  schedule, and concrete ones: the states in which the properties are applied.
\<close>

section \<open>The protocol of the peers\<close>

fun dessuspende :: "hilo \<Rightarrow> bool" where
  "dessuspende (Io tipo s (I_dess d)) \<longleftrightarrow> True"
| "dessuspende (Memoria (M_dess d)) \<longleftrightarrow> True"
| "dessuspende _ \<longleftrightarrow> False"

text \<open>A CPU speaks only of the process it runs.\<close>

definition habla_de_lo_suyo :: "nat \<Rightarrow> ks \<Rightarrow> bool" where
  "habla_de_lo_suyo c k \<longleftrightarrow>
     (case buscar_proceso_en_exec (snd (recibir_o_cero (cp_socket (cpus k c)) k)) k of
        None \<Rightarrow> True
      | Some p \<Rightarrow> pr_cpu (procs k p) = Some c)"

text \<open>
  The steps in which the peers keep the protocol: a CPU speaks of the process it runs, Kernel
  Memory announces the end of a compaction only when there is one, and no memory is corrupt;
  and those in which at most one thread resumes suspended processes.
\<close>

fun leal :: "hilo \<Rightarrow> hilo list \<Rightarrow> ks \<Rightarrow> bool" where
  "leal (Cpu c C_exit) hs k \<longleftrightarrow> habla_de_lo_suyo c k"
| "leal (Cpu c C_quantum) hs k \<longleftrightarrow> habla_de_lo_suyo c k"
| "leal (Cpu c C_syscall) hs k \<longleftrightarrow> habla_de_lo_suyo c k"
| "leal (Io tipo s (I_mover p e)) hs k \<longleftrightarrow> e = SUSP_BLOCK \<longrightarrow> \<not> list_ex dessuspende hs"
| "leal (Memoria M_bsod) hs k \<longleftrightarrow> False"
| "leal (Memoria M_escucha) hs k \<longleftrightarrow>
     (case snd (recibir_entero (socket_notificaciones_memoria k) k) of
        None \<Rightarrow> True
      | Some v \<Rightarrow>
          v \<noteq> codigo OP_MEMORIA_CORRUPTA \<and> (v = codigo OP_FIN_COMPACTACION \<longrightarrow> compactando k) \<and>
          (v = codigo OP_MEMORIA_DISPONIBLE \<longrightarrow> \<not> list_ex dessuspende hs))"
| "leal _ hs k \<longleftrightarrow> True"

inductive paso_leal :: "list_sort \<Rightarrow> sistema \<Rightarrow> sistema \<Rightarrow> bool" for ls where
  hilo: "\<not> termino k \<Longrightarrow> avanzar ls h k = Sigue k' nuevos \<Longrightarrow> leal h (hs @ hs') k \<Longrightarrow>
     paso_leal ls (k, hs @ h # hs') (k', hs @ nuevos @ hs')"
| conexion: "\<not> termino k \<Longrightarrow> paso_leal ls (k, hs) (k, hs @ [Conexion s])"
| tiempo: "reloj k \<le> r \<Longrightarrow> paso_leal ls (k, hs) (k\<lparr>reloj := r\<rparr>, hs)"

section \<open>Schedules\<close>

datatype evento =
    Avanza nat          \<comment> \<open>the thread in this position takes a step\<close>
  | Llega int           \<comment> \<open>a client connects\<close>
  | Pasa int            \<comment> \<open>time passes until then\<close>

definition quitar :: "nat \<Rightarrow> hilo list \<Rightarrow> hilo list" where
  "quitar i hs = take i hs @ drop (Suc i) hs"

text \<open>\<open>g\<close> says which steps are allowed; \<open>None\<close> is an event that cannot happen.\<close>

fun correr :: "list_sort \<Rightarrow> (hilo \<Rightarrow> hilo list \<Rightarrow> ks \<Rightarrow> bool) \<Rightarrow> evento list \<Rightarrow> sistema \<Rightarrow> sistema option" where
  "correr ls g [] x = Some x"
| "correr ls g (Avanza i # es) (k, hs) =
     (if termino k \<or> length hs \<le> i \<or> \<not> g (hs ! i) (quitar i hs) k then None
      else case avanzar ls (hs ! i) k of
             Sigue k' nuevos \<Rightarrow> correr ls g es (k', take i hs @ nuevos @ drop (Suc i) hs)
           | _ \<Rightarrow> None)"
| "correr ls g (Llega s # es) (k, hs) = (if termino k then None else correr ls g es (k, hs @ [Conexion s]))"
| "correr ls g (Pasa r # es) (k, hs) = (if reloj k \<le> r then correr ls g es (k\<lparr>reloj := r\<rparr>, hs) else None)"

definition todo_vale :: "hilo \<Rightarrow> hilo list \<Rightarrow> ks \<Rightarrow> bool" where
  "todo_vale h hs k = True"

lemma correr_rel:
  assumes "correr ls g es x = Some y"
    and h: "\<And>h hs hs' k k' ns. \<not> termino k \<Longrightarrow> avanzar ls h k = Sigue k' ns \<Longrightarrow> g h (hs @ hs') k \<Longrightarrow>
      R (k, hs @ h # hs') (k', hs @ ns @ hs')"
    and c: "\<And>hs k s. \<not> termino k \<Longrightarrow> R (k, hs) (k, hs @ [Conexion s])"
    and t: "\<And>hs k r. reloj k \<le> r \<Longrightarrow> R (k, hs) (k\<lparr>reloj := r\<rparr>, hs)"
  shows "R\<^sup>*\<^sup>* x y"
  using assms(1)
proof (induction es arbitrary: x)
  case (Cons e es)
  obtain k hs where x: "x = (k, hs)" by (cases x)
  have "\<exists>z. R x z \<and> correr ls g es z = Some y"
  proof (cases e)
    case (Avanza i)
    with Cons.prems x obtain k' ns where a: "\<not> termino k" "i < length hs" "g (hs ! i) (quitar i hs) k"
      "avanzar ls (hs ! i) k = Sigue k' ns" "correr ls g es (k', take i hs @ ns @ drop (Suc i) hs) = Some y"
      by (auto split: if_splits resultado.splits)
    have "R (k, take i hs @ hs ! i # drop (Suc i) hs) (k', take i hs @ ns @ drop (Suc i) hs)"
      using a by (intro h) (simp_all add: quitar_def)
    then show ?thesis using a(2,5) by (auto simp: x id_take_nth_drop [symmetric])
  qed (use Cons.prems x c t in \<open>fastforce split: if_splits\<close>)+
  then show ?case by (blast intro: converse_rtranclp_into_rtranclp Cons.IH)
qed simp

lemma correr_pasos: "correr ls g es x = Some y \<Longrightarrow> (paso ls)\<^sup>*\<^sup>* x y"
  by (erule correr_rel) (rule paso.intros; assumption)+

lemma correr_leales: "correr ls leal es x = Some y \<Longrightarrow> (paso_leal ls)\<^sup>*\<^sup>* x y"
  by (erule correr_rel) (rule paso_leal.intros; assumption)+

lemma paso_leal_paso: "paso_leal ls x y \<Longrightarrow> paso ls x y"
  by (induction rule: paso_leal.induct) (blast intro: paso.intros)+

section \<open>A run of two processes\<close>

text \<open>
  Two queues, with the preemption between them.  The first process, of priority 0, creates a
  mutex and a second process of priority 1, which takes the mutex, and the first one waits for
  it.  In the other run the first process asks for a segment that needs a compaction.
\<close>

definition bytes_cod :: "op_code \<Rightarrow> byte list" where
  "bytes_cod c = bytes_int (codigo c)"

definition llamada :: "int \<Rightarrow> op_code \<Rightarrow> byte list" where
  "llamada v c = bytes_cod OP_PROCESO_SYSCALL @ bytes_int v @ bytes_cod c"

definition entradas :: "(int \<times> byte list) list \<Rightarrow> int \<Rightarrow> byte list" where
  "entradas xs s = (case map_of xs s of None \<Rightarrow> [] | Some v \<Rightarrow> v)"

text \<open>The scheduler once started, with what Kernel Memory answers and notifies and what the clients say.\<close>

definition dos_colas :: "byte list \<Rightarrow> byte list \<Rightarrow> (int \<times> byte list) list \<Rightarrow> sistema option" where
  "dos_colas respuestas avisos clientes =
     main_ks (inicializar_estructuras ''CMN'' [''RR'', ''FIFO''] True 1 2
        (entradas ([(1, bytes_cod HANDSHAKE_OK @ respuestas), (2, bytes_cod HANDSHAKE_OK @ avisos)] @ clientes)))
       ''a''"

definition inicio_dos :: "sistema option" where
  "inicio_dos =
     dos_colas (bytes_cod OP_OK @ bytes_cod OP_OK) []
       [(5, bytes_cod HANDSHAKE_CPU @ bytes_int 7 @ llamada 0 OP_MUTEX_CREATE @ bytes_cadena ''m'' @
            llamada 0 OP_INIT_PROC @ bytes_cadena ''b'' @ bytes_int 1 @
            llamada 0 OP_MUTEX_LOCK @ bytes_cadena ''m''),
        (6, bytes_cod HANDSHAKE_CPU @ bytes_int 8 @ llamada 1 OP_MUTEX_LOCK @ bytes_cadena ''m'')]"

text \<open>The second process is ready, and there is no CPU for it.\<close>

definition orden_listo :: "evento list" where
  "orden_listo =
     [Llega 5, Avanza 2, Avanza 2,
      Avanza 0, Avanza 0, Avanza 0, Avanza 0, Avanza 0,
      Avanza 3, Avanza 3, Avanza 3, Avanza 3,
      Avanza 3, Avanza 3, Avanza 3, Avanza 3, Avanza 3, Avanza 3]"

text \<open>The first process waits for the mutex; the second one has it and inherits its priority.\<close>

definition orden_espera :: "evento list" where
  "orden_espera =
     orden_listo @
     [Llega 6, Avanza 4, Avanza 4,
      Avanza 0, Avanza 0, Avanza 0, Avanza 0, Avanza 0,
      Avanza 4, Avanza 4, Avanza 4,
      Avanza 3, Avanza 3, Avanza 3, Avanza 3, Avanza 3]"

definition inicio_compactacion :: "sistema option" where
  "inicio_compactacion =
     dos_colas (bytes_cod OP_OK @ bytes_cod OP_OK @ bytes_cod OP_COMPACTAR) []
       [(5, bytes_cod HANDSHAKE_CPU @ bytes_int 7 @
            llamada 0 OP_INIT_PROC @ bytes_cadena ''b'' @ bytes_int 1 @
            llamada 0 OP_MEM_ALLOC @ bytes_int 3 @ bytes_int 64),
        (6, bytes_cod HANDSHAKE_CPU @ bytes_int 8)]"

text \<open>The planner is stopped, and the thread of the first CPU is about to interrupt the other one.\<close>

definition orden_compactacion :: "evento list" where
  "orden_compactacion =
     [Llega 5, Avanza 2, Avanza 2,
      Avanza 0, Avanza 0, Avanza 0, Avanza 0, Avanza 0,
      Avanza 3, Avanza 3, Avanza 3, Avanza 3, Avanza 3, Avanza 3,
      Llega 6, Avanza 4, Avanza 4,
      Avanza 0, Avanza 0, Avanza 0, Avanza 0, Avanza 0,
      Avanza 3, Avanza 3, Avanza 3, Avanza 3, Avanza 3]"

text \<open>A CPU that disconnects when the planner already counts on it.\<close>

definition inicio_uno :: "sistema option" where
  "inicio_uno = dos_colas (bytes_cod OP_OK) [] [(5, bytes_cod HANDSHAKE_CPU @ bytes_int 7)]"

definition orden_desconexion :: "evento list" where
  "orden_desconexion = [Llega 5, Avanza 2, Avanza 2, Avanza 0, Avanza 0, Avanza 0, Avanza 2, Avanza 2]"

definition estado_desconexion :: sistema where
  "estado_desconexion = the (Option.bind inicio_uno (correr ordenar_insercion leal orden_desconexion))"

definition estado_listo :: sistema where
  "estado_listo = the (Option.bind inicio_dos (correr ordenar_insercion leal orden_listo))"

definition estado_espera :: sistema where
  "estado_espera = the (Option.bind inicio_dos (correr ordenar_insercion leal orden_espera))"

definition estado_compactacion :: sistema where
  "estado_compactacion = the (Option.bind inicio_compactacion (correr ordenar_insercion leal orden_compactacion))"

section \<open>The states the program reaches when its peers keep the protocol\<close>

text \<open>
  The states reached from the start with the steps of \<open>leal\<close>.  The program can reach others: the
  thread of the notifications and that of a device may both resume processes, and
  \<open>CarrerasKS.proceso_doble\<close> is such an execution.
\<close>

definition alcanzable_ks :: "list_sort \<Rightarrow> sistema \<Rightarrow> bool" where
  "alcanzable_ks ls y \<longleftrightarrow>
     (\<exists>alg algs desalojo s_mem s_not ent path x.
        main_ks (inicializar_estructuras alg algs desalojo s_mem s_not ent) path = Some x \<and> (paso_leal ls)\<^sup>*\<^sup>* x y)"

lemma alcanzable_dos:
  assumes "Option.bind (dos_colas r a c) (correr ls leal es) = Some y"
  shows "alcanzable_ks ls y"
proof -
  obtain x where "dos_colas r a c = Some x" "correr ls leal es x = Some y"
    using assms by (cases "dos_colas r a c") auto
  then show ?thesis unfolding alcanzable_ks_def dos_colas_def by (blast intro: correr_leales)
qed

text \<open>What there is to see of a state.\<close>

record vista =
  v_cmn :: bool
  v_exec :: "nat list"
  v_ready :: "nat list list"
  v_block :: "nat list"
  v_libres :: "nat list"
  v_mutex :: "(string \<times> int \<times> nat list) list"
  v_procs :: "(t_estado \<times> nat option \<times> int) list"
  v_planificar :: "bool \<times> nat \<times> nat"
  v_hilos :: "hilo list"

definition ver :: "sistema \<Rightarrow> vista" where
  "ver x =
     (case x of (k, hs) \<Rightarrow>
        \<lparr>v_cmn = es_CMN k, v_exec = lista_exec k, v_ready = colas_ready k, v_block = lista_block k, v_libres = lista_cpus_libres k,
         v_mutex = map (\<lambda>m. (nombre m, pid_dueno m, cola_espera m)) (lista_mutex k),
         v_procs = map (\<lambda>p. (estado (procs k p), pr_cpu (procs k p), prioridad (procs k p))) [0..<prox_proc k],
         v_planificar = (compactando k, sem_puede_planificar k, sem_hay_procesos_ready k), v_hilos = hs\<rparr>)"

lemma ver_listo:
  "map_option ver (Option.bind inicio_dos (correr ordenar_insercion leal orden_listo)) =
     Some \<lparr>v_cmn = True, v_exec = [0], v_ready = [[], [1]], v_block = [], v_libres = [], v_mutex = [(''m'', - 1, [])],
       v_procs = [(EXEC, Some 0, 0), (READY, None, 1)], v_planificar = (False, 1, 1),
       v_hilos = [Planificador_corto P_ready, Quantum 0, Memoria M_escucha, Cpu 0 C_escucha]\<rparr>"
  by code_simp

lemma ver_espera:
  "map_option ver (Option.bind inicio_dos (correr ordenar_insercion leal orden_espera)) =
     Some \<lparr>v_cmn = True, v_exec = [1], v_ready = [[], []], v_block = [0], v_libres = [0], v_mutex = [(''m'', 1, [0])],
       v_procs = [(BLOCK, None, 0), (EXEC, Some 1, 0)], v_planificar = (False, 1, 0),
       v_hilos = [Planificador_corto P_ready, Quantum 0, Memoria M_escucha, Cpu 0 C_escucha,
         Timer_suspension 1, Cpu 1 C_escucha]\<rparr>"
  by code_simp

lemma ver_compactacion:
  "map_option ver (Option.bind inicio_compactacion (correr ordenar_insercion leal orden_compactacion)) =
     Some \<lparr>v_cmn = True, v_exec = [1], v_ready = [[], []], v_block = [0], v_libres = [], v_mutex = [],
       v_procs = [(BLOCK, None, 0), (EXEC, Some 1, 1)], v_planificar = (True, 0, 0),
       v_hilos = [Planificador_corto P_ready, Quantum 0, Memoria M_escucha, Cpu 0 C_comp_desalojar,
         Cpu 1 C_escucha]\<rparr>"
  by code_simp

lemma ver_desconexion:
  "map_option ver (Option.bind inicio_uno (correr ordenar_insercion leal orden_desconexion)) =
     Some \<lparr>v_cmn = True, v_exec = [], v_ready = [[0], []], v_block = [], v_libres = [], v_mutex = [],
       v_procs = [(READY, None, 0)], v_planificar = (False, 0, 0),
       v_hilos = [Planificador_corto P_despachar, Memoria M_escucha]\<rparr>"
  by code_simp

lemma estados_alcanzables:
  "alcanzable_ks ordenar_insercion estado_listo" "alcanzable_ks ordenar_insercion estado_espera"
  "alcanzable_ks ordenar_insercion estado_compactacion" "alcanzable_ks ordenar_insercion estado_desconexion"
  using ver_desconexion ver_listo ver_espera ver_compactacion
  by (auto intro!: alcanzable_dos simp: estado_desconexion_def inicio_uno_def estado_listo_def estado_espera_def estado_compactacion_def inicio_dos_def inicio_compactacion_def)

end
