(* ===== verification/InvariantePasos.thy ===== *)
theory InvariantePasos
  imports InvarianteOps EjecucionKS
begin

text \<open>
  The hand-over of the mutexes keeps the invariant of the threads, and with it so does every
  step of every thread, when the CPUs and Kernel Memory keep the protocol.
\<close>

section \<open>Waiting for a mutex\<close>

lemma buscar_mutex_rango: "buscar_mutex n k = Some i \<Longrightarrow> i < length (lista_mutex k)"
  using buscar_nombre_Some [of 0 n "lista_mutex k" i] by (simp add: buscar_mutex_def)

lemma inv_esperar_mutex:
  assumes i: "inv k (add_mset (R_hilo c (Ref p)) M)" and l: "j < length (lista_mutex k)"
    and m: "cola_espera m = cola_espera (lista_mutex k ! j) @ [p]"
  shows "inv (poner_mutex j m k) (add_mset (R_hilo c (Bloq p)) M)"
proof -
  let ?k = "poner_mutex j m k"
  have ok: "c < prox_cpu k" "corre k c p" using invD(3) [OF i, of "R_hilo c (Ref p)"] by simp_all
  have em: "mset (en_mutex ?k) = add_mset p (mset (en_mutex k))"
    using mset_en_mutex(1) [OF l, of m] mset_en_mutex(2) [OF l] m by simp
  then have s: "set (en_mutex ?k) = insert p (set (en_mutex k))" by (metis set_mset_add_mset_insert set_mset_mset)
  have f: "en_io ?k = en_io k" "en_compactacion ?k = en_compactacion k"
    by (simp_all add: en_io_def en_compactacion_def)
  note ie = invD(4) [OF i, unfolded inv_esperas_def]
  have ne: "p \<notin># esperas k (add_mset (R_hilo c (Ref p)) M)" by (rule no_espera_exec [OF i ok(2)]) simp
  have "inv ?k ({#R_hilo c (Bloq p)#} + M)"
  proof (rule inv_igual_gen [of k "{#R_hilo c (Ref p)#}" M])
    show "bloqueado k q" if "q \<in> set (en_io ?k)" for q using that ie f by auto
    show "bloqueado k q \<or> (\<exists>d. corre k d q \<and> R_hilo d (Bloq q) \<in># {#R_hilo c (Bloq p)#} + M)"
      if "q \<in> set (en_mutex ?k)" for q using that ie ok(2) s by auto
    have "esperas ?k ({#R_hilo c (Bloq p)#} + M) = add_mset p (esperas k (add_mset (R_hilo c (Ref p)) M))"
      by (simp add: esperas_def f em)
    then show "count (esperas ?k ({#R_hilo c (Bloq p)#} + M)) q \<le> 1" for q
      using ie ne by (auto simp: not_in_iff)
    show "sin_correr ?k ({#R_hilo c (Bloq p)#} + M) \<subseteq># sin_correr k ({#R_hilo c (Ref p)#} + M)"
      by (simp add: sin_correr_def)
  qed (use i ok invD(1) [OF i] mismos_poner_mutex in auto)
  then show ?thesis by simp
qed

lemma inv_mutex_lock:
  assumes i: "inv k (add_mset (R_hilo c (Ref p)) M)" and h: "manejar_mutex_lock p s n k = (k', b)"
  shows "inv k' (add_mset (R_hilo c (if b then Bloq p else Ref p)) M)"
proof (cases "buscar_mutex n k")
  case None
  then show ?thesis using h inv_callado [OF i callado_enviar(3)] by (auto simp: manejar_mutex_lock_def)
next
  case (Some j)
  note l = buscar_mutex_rango [OF Some]
  show ?thesis
  proof (cases "pid_dueno (lista_mutex k ! j) = - 1")
    case True
    let ?m = "(lista_mutex k ! j)\<lparr>pid_dueno := pid (procs k p)\<rparr>"
    have "inv (poner_mutex j ?m k) (add_mset (R_hilo c (Ref p)) M)" by (rule inv_mutex_dueno [OF i l]) simp
    from inv_callado [OF this callado_enviar(3)] show ?thesis
      using h Some True by (auto simp: manejar_mutex_lock_def Let_def)
  next
    case False
    let ?m = "(lista_mutex k ! j)\<lparr>cola_espera := cola_espera (lista_mutex k ! j) @ [p]\<rparr>"
    let ?k1 = "poner_mutex j ?m k"
    have i1: "inv ?k1 (add_mset (R_hilo c (Bloq p)) M)" by (rule inv_esperar_mutex [OF i l]) simp
    have "inv (case buscar_proceso_por_pid (pid_dueno ?m) ?k1 of None \<Rightarrow> ?k1
        | Some d \<Rightarrow> if es_CMN ?k1 then aplicar_herencia d ?m ?k1 else ?k1) (add_mset (R_hilo c (Bloq p)) M)"
      (is "inv ?k2 _")
    proof (cases "buscar_proceso_por_pid (pid_dueno ?m) ?k1")
      case (Some d)
      then show ?thesis
        using i1 buscar_en_cola(2) [OF invD(1) [OF i1] Some] inv_herencia [OF i1] by (simp del: set_concat)
    qed (simp add: i1)
    moreover have "k' = enviar_codigo s OP_BLOQUEADO ?k2" "b"
      using h Some False by (simp_all add: manejar_mutex_lock_def Let_def)
    ultimately show ?thesis by (simp add: inv_callado callado_enviar)
  qed
qed

section \<open>The next owner\<close>

lemma inv_sacar_mutex:
  assumes i: "inv k M" and l: "j < length (lista_mutex k)" and c: "cola_espera (lista_mutex k ! j) = q # qs"
    and m: "cola_espera m = qs"
  shows "inv (poner_mutex j m k) ((if bloqueado k q then {#R_espera q#} else {#}) + M)"
    "bloqueado k q \<or> estado (procs k q) = EXEC"
proof -
  let ?k = "poner_mutex j m k" and ?B = "if bloqueado k q then {#R_espera q#} else {#}"
  note ie = invD(4) [OF i, unfolded inv_esperas_def]
  have sub: "add_mset q (mset qs) \<subseteq># mset (en_mutex k)" using mset_en_mutex(2) [OF l] c by simp
  then obtain R where R: "mset (en_mutex k) = add_mset q (mset qs) + R" by (metis subset_mset.le_iff_add)
  then have em: "mset (en_mutex k) = add_mset q (mset (en_mutex ?k))"
    using mset_en_mutex(1) [OF l, of m] c m by simp
  then have s: "set (en_mutex k) = insert q (set (en_mutex ?k))" by (metis set_mset_add_mset_insert set_mset_mset)
  have f: "en_io ?k = en_io k" "en_compactacion ?k = en_compactacion k"
    by (simp_all add: en_io_def en_compactacion_def)
  show "bloqueado k q \<or> estado (procs k q) = EXEC" using ie s by (auto simp: corre_def)
  show "inv ?k (?B + M)"
  proof (rule inv_igual [of k "{#}" M])
    show "bloqueado k p" if "p \<in> set (en_io ?k)" for p using that ie f by auto
    show "esperas ?k (?B + M) \<subseteq># esperas k ({#} + M)" by (simp add: esperas_def f em)
    show "sin_correr ?k (?B + M) \<subseteq># sin_correr k ({#} + M)" by (simp add: sin_correr_def)
  qed (use i s f invD(1) [OF i] mismos_poner_mutex in \<open>auto split: if_splits\<close>)
qed

text \<open>The mutex goes to the process in front, and its timer is stopped.\<close>

lemma inv_ceder:
  assumes i: "inv k1 ((if bloqueado k1 q then {#R_espera q#} else {#}) + M)" and e: "e = estado (procs k1 q)"
    and x: "bloqueado k1 q \<or> e = EXEC"
  shows "inv (cancelar_timer q k1) ((if e = BLOCK \<or> e = SUSP_BLOCK then {#R_firme q e#} else {#}) + M)"
proof (cases "bloqueado k1 q")
  case True
  then have "e = BLOCK \<or> e = SUSP_BLOCK" using e by (auto simp: bloqueado_def)
  moreover have "inv (cancelar_timer q k1) (add_mset (R_firme q e) M)"
    by (rule inv_fin_io [of k1]) (use i True e in \<open>simp_all add: manejar_fin_io_def\<close>)
  ultimately show ?thesis by auto
next
  case False
  then show ?thesis using inv_cancelar i x by auto
qed

lemma inv_mutex_unlock:
  assumes i: "inv k M" and p: "estado (procs k p) = EXEC" and h: "manejar_mutex_unlock p s n k = (k', r)"
  shows "inv k' ((case r of None \<Rightarrow> {#}
    | Some (q, e) \<Rightarrow> if e = BLOCK \<or> e = SUSP_BLOCK then {#R_firme q e#} else {#}) + M)"
proof (cases "buscar_mutex n k")
  case None
  then show ?thesis using h inv_callado [OF i callado_enviar(3)] by (auto simp: manejar_mutex_unlock_def)
next
  case (Some j)
  note l = buscar_mutex_rango [OF Some]
  show ?thesis
  proof (cases "cola_espera (lista_mutex k ! j)")
    case Nil
    let ?k1 = "poner_mutex j ((lista_mutex k ! j)\<lparr>pid_dueno := - 1\<rparr>) k"
    have i1: "inv ?k1 M" by (rule inv_mutex_dueno [OF i l]) simp
    have "inv (if es_CMN ?k1 then devolver_prioridad p ?k1 else ?k1) M" using i1 inv_devolver [OF i1, of p] p by simp
    then show ?thesis using h Some Nil inv_callado callado_enviar(3)
      by (auto simp: manejar_mutex_unlock_def Let_def)
  next
    case (Cons q qs)
    let ?m = "(lista_mutex k ! j)\<lparr>pid_dueno := pid (procs k q), cola_espera := qs\<rparr>"
    let ?k1 = "poner_mutex j ?m k"
    let ?k2 = "if es_CMN ?k1 then aplicar_herencia q ?m (devolver_prioridad p ?k1) else ?k1"
    let ?B = "if bloqueado k q then {#R_espera q#} else {#}"
    have i1: "inv ?k1 (?B + M)" by (rule inv_sacar_mutex(1) [OF i l Cons]) simp
    have x: "bloqueado k q \<or> estado (procs k q) = EXEC" by (rule inv_sacar_mutex(2) [OF i l Cons, of ?m]) simp
    have nr: "estado (procs k q) \<noteq> READY" using x by (auto simp: bloqueado_def)
    have "inv (devolver_prioridad p ?k1) (?B + M)" using inv_devolver [OF i1, of p] p by simp
    then have i2: "inv ?k2 (?B + M)"
      using i1 inv_herencia [of "devolver_prioridad p ?k1" "?B + M" q ?m] nr
        nucleo_estado [OF nucleo_iguales(2) [of p ?k1 q]] by simp
    have n2: "nucleo (procs ?k2 q) = nucleo (procs k q)" by simp
    then have e2: "estado (procs ?k2 q) = estado (procs k q)" by (rule nucleo_estado)
    have b2: "bloqueado ?k2 q = bloqueado k q" by (rule bloqueado_cong [OF n2]) simp
    have "inv (cancelar_timer q ?k2)
        ((if estado (procs k q) = BLOCK \<or> estado (procs k q) = SUSP_BLOCK then {#R_firme q (estado (procs k q))#} else {#}) + M)"
      by (rule inv_ceder) (use i2 b2 e2 x in simp_all)
    then show ?thesis using h Some Cons e2 by (auto simp: manejar_mutex_unlock_def Let_def)
  qed
qed

lemma inv_despertar_si:
  assumes "inv k ((if e = BLOCK \<or> e = SUSP_BLOCK then {#R_firme q e#} else {#}) + M)"
  shows "inv (despertar q e k) M"
  using assms inv_despertar [of k q e M] by (auto simp: despertar_def split: if_splits)

lemma inv_liberar_un_mutex:
  assumes i: "inv k M" and l: "j < length (lista_mutex k)"
  shows "inv (liberar_un_mutex v j k) M"
proof (cases "pid_dueno (lista_mutex k ! j) = v")
  case False
  then show ?thesis using i by (simp add: liberar_un_mutex_def)
next
  case v: True
  show ?thesis
  proof (cases "cola_espera (lista_mutex k ! j)")
    case Nil
    have "inv (poner_mutex j ((lista_mutex k ! j)\<lparr>pid_dueno := - 1\<rparr>) k) M" by (rule inv_mutex_dueno [OF i l]) simp
    then show ?thesis using v Nil by (simp add: liberar_un_mutex_def)
  next
    case (Cons q qs)
    let ?m = "(lista_mutex k ! j)\<lparr>pid_dueno := pid (procs k q), cola_espera := qs\<rparr>"
    let ?k1 = "poner_mutex j ?m k"
    let ?k2 = "if es_CMN ?k1 then aplicar_herencia q ?m ?k1 else ?k1"
    let ?B = "if bloqueado k q then {#R_espera q#} else {#}"
    have i1: "inv ?k1 (?B + M)" by (rule inv_sacar_mutex(1) [OF i l Cons]) simp
    have x: "bloqueado k q \<or> estado (procs k q) = EXEC" by (rule inv_sacar_mutex(2) [OF i l Cons, of ?m]) simp
    have nr: "estado (procs ?k1 q) \<noteq> READY" using x by (auto simp: bloqueado_def)
    have i2: "inv ?k2 (?B + M)" using i1 inv_herencia [OF i1, of q ?m] nr by simp
    have n2: "nucleo (procs ?k2 q) = nucleo (procs k q)" by simp
    then have e2: "estado (procs ?k2 q) = estado (procs k q)" by (rule nucleo_estado)
    have b2: "bloqueado ?k2 q = bloqueado k q" by (rule bloqueado_cong [OF n2]) simp
    have "inv (cancelar_timer q ?k2)
        ((if estado (procs k q) = BLOCK \<or> estado (procs k q) = SUSP_BLOCK then {#R_firme q (estado (procs k q))#} else {#}) + M)"
      by (rule inv_ceder) (use i2 b2 e2 x in simp_all)
    then have "inv (despertar q (estado (procs k q)) (cancelar_timer q ?k2)) M" by (rule inv_despertar_si)
    moreover have "estado (procs (cancelar_timer q ?k2) q) = estado (procs k q)" using e2 by (simp add: cancelar_timer_def)
    ultimately show ?thesis using v Cons by (simp add: liberar_un_mutex_def Let_def)
  qed
qed

lemma lista_mutex_despertar [simp]: "lista_mutex (despertar q e k) = lista_mutex k"
  by (simp add: despertar_def mover_proceso_de_block_a_ready_def mover_a_susp_ready_def poner_estado_def)

lemma largo_liberar [simp]: "length (lista_mutex (liberar_un_mutex v j k)) = length (lista_mutex k)"
  by (simp add: liberar_un_mutex_def Let_def split: list.split)

lemma inv_liberar_mutex:
  assumes "inv k M"
  shows "inv (liberar_mutex_del_proceso v k) M"
proof -
  have "inv (fold (liberar_un_mutex v) js k) M \<and> length (lista_mutex (fold (liberar_un_mutex v) js k)) = length (lista_mutex k)"
    if "inv k M" "set js \<subseteq> {..<length (lista_mutex k)}" for js k
    using that by (induction js arbitrary: k) (simp_all add: inv_liberar_un_mutex)
  from this [of k "[0..<length (lista_mutex k)]"] assms show ?thesis
    by (simp add: liberar_mutex_del_proceso_def atLeast0LessThan)
qed

section \<open>The steps of the loop that resumes processes\<close>

lemma orden_debil_susp: "orden_debil (comparar_prioridad_suspension k)"
  by (auto simp: orden_debil_def comparar_prioridad_suspension_def split: if_splits)

lemma inv_ordenar:
  assumes i: "inv k M" and ls: "list_sort_ok ls"
  shows "inv (dessuspender_ordenar ls k) M"
proof -
  let ?k = "dessuspender_ordenar ls k"
  have m: "mset (lista_susp_ready ?k) = mset (lista_susp_ready k)"
    using ls orden_debil_susp by (simp add: dessuspender_ordenar_def list_sort_ok_def)
  have e: "mset (lista_de e ?k) = mset (lista_de e k)" for e
    using m by (cases e) (simp_all add: dessuspender_ordenar_def)
  have se: "set (lista_de e ?k) = set (lista_de e k)" "distinct (lista_de e ?k) = distinct (lista_de e k)" for e
    using e mset_eq_setD mset_eq_imp_distinct_iff by blast+
  have f: "procs ?k = procs k" "prox_proc ?k = prox_proc k" "colas_ok ?k = colas_ok k"
    by (simp_all add: dessuspender_ordenar_def colas_ok_def es_CMN_def cantidad_colas_def)
  have l: "lugar {} ?k" using invD(1) [OF i] by (simp add: lugar_def se f)
  show ?thesis
    by (rule inv_nucleos [OF i l])
      (simp_all add: dessuspender_ordenar_def mismos_procs_def en_io_def en_mutex_def)
qed

lemma inv_avanzar_dess:
  assumes i: "inv k (recursos_dess d + M)" and a: "avanzar_dess ls d k = Some (k', r)" and ls: "list_sort_ok ls"
  shows "inv k' ((case r of None \<Rightarrow> {#} | Some d' \<Rightarrow> recursos_dess d') + M)"
proof (cases d)
  case D_ordenar
  then show ?thesis using inv_ordenar [OF _ ls] i a by auto
next
  case (D_siguiente n)
  then show ?thesis using i a inv_baja [of k "{#R_dess None#}" M "{#}"] by (auto split: if_splits)
next
  case (D_pedir n)
  then obtain p ok where p: "dessuspender_pedir n k = Some (k', p, ok)"
    and r: "r = Some (if ok then D_mover n p else D_siguiente (Suc n))"
    using a by (auto split: option.splits prod.splits)
  have c: "callado k k'" and m: "p \<in> set (lista_de SUSP_READY k)"
    using p callado_pedir_memoria
    by (auto simp: dessuspender_pedir_def pedir_proceso_def Let_def split: if_splits prod.splits)
  have i': "inv k' ({#R_dess None#} + M)" using inv_callado [OF _ c, of "{#R_dess None#} + M"] i D_pedir by simp
  have "recurso_ok k' (R_dess (Some p))"
    using lugarD(3,4) [OF invD(1) [OF i] m] by (simp add: callado_campos [OF c])
  then have "inv k' ({#R_dess (Some p)#} + M)" by (intro inv_baja [OF i']) auto
  then show ?thesis using i' r by simp
next
  case (D_mover n p)
  then show ?thesis using i a inv_dessuspender by auto
qed

section \<open>At most one thread resumes processes\<close>

lemma sin_dess_cpu: "(2, 0) \<notin># claves (recursos_cpu c d)"
  by (induction c d rule: recursos_cpu.induct) auto

lemma sin_dess_recursos: "\<not> dessuspende h \<Longrightarrow> (2, 0) \<notin># claves (recursos h)"
proof (induction h rule: recursos.induct)
  case (4 tipo s d)
  then show ?case by (cases d) auto
qed (simp_all add: sin_dess_cpu)

lemma sin_dess: "\<not> list_ex dessuspende hs \<Longrightarrow> (2, 0) \<notin># claves (todos hs)"
  by (induction hs) (simp_all add: sin_dess_recursos)

lemma inv_dess_nueva:
  assumes i: "inv k M" and n: "(2, 0) \<notin># claves M"
  shows "inv k (add_mset (R_dess None) M)"
proof -
  have "count (claves (add_mset (R_dess None) M)) y \<le> 1" for y
    using invD(2) [OF i, of y] n by (cases "y = (2, 0)") (auto simp: not_in_iff)
  then show ?thesis using invD [OF i]
    by (auto simp: inv_def inv_esperas_def inv_comp_def inv_timers_def inv_cpus_def)
qed

section \<open>The semaphores\<close>

lemma inv_tomar_turno:
  "inv k M \<Longrightarrow> 0 < sem_puede_planificar k \<Longrightarrow>
   inv (k\<lparr>sem_puede_planificar := sem_puede_planificar k - 1\<rparr>) (add_mset R_turno M)"
  using inv_sems [of k "{#}" M "sem_puede_planificar k - 1" "{#R_turno#}" "sem_hay_procesos_ready k" "sem_hay_cpus_libres k"]
  by simp

lemma inv_dar_turno:
  "inv k (add_mset R_turno M) \<Longrightarrow> inv (k\<lparr>sem_puede_planificar := Suc (sem_puede_planificar k)\<rparr>) M"
  using inv_sems [of k "{#R_turno#}" M "Suc (sem_puede_planificar k)" "{#}" "sem_hay_procesos_ready k" "sem_hay_cpus_libres k"]
  by simp

lemma inv_contadores:
  assumes "inv k M"
  shows "inv (k\<lparr>sem_hay_cpus_libres := w\<rparr>) M" "inv (k\<lparr>sem_hay_procesos_ready := z\<rparr>) M"
  using inv_sems [of k "{#}" M "sem_puede_planificar k" "{#}" "sem_hay_procesos_ready k" w]
    inv_sems [of k "{#}" M "sem_puede_planificar k" "{#}" z "sem_hay_cpus_libres k"] assms
  by simp_all

lemma inv_fin_quantum_cpu:
  "inv k (add_mset (R_cpu (Some c)) M) \<Longrightarrow> inv (fin_quantum_cpu c b k) M"
  by (simp add: fin_quantum_cpu_def post_ready_def inv_agregar_cpu_libre inv_contadores)

section \<open>The steps of the planner\<close>

lemma inv_avanzar_plan:
  assumes i: "inv k (recursos (Planificador_corto d) + M)" and a: "avanzar_plan d k = Sigue k' ns"
  shows "inv k' (todos ns + M)"
proof (cases d)
  case P_despachar
  show ?thesis
  proof (cases "despachar k")
    case (Some r)
    then obtain k1 x where r: "despachar k = Some (k1, x)" by (cases r) auto
    show ?thesis
    proof (cases x)
      case None
      then show ?thesis using i a r P_despachar inv_despachar_nada by auto
    next
      case (Some y)
      then show ?thesis using i a r P_despachar inv_despachar by (cases y) auto
    qed
  qed (use a P_despachar in simp)
next
  case (P_enviar p c t)
  let ?s = "cp_socket (cpus k c)"
  let ?k = "enviar_entero ?s (pid (procs k p)) (enviar_codigo ?s OP_EJECUTAR_PROCESO k)"
  have c: "callado k ?k" by (blast intro: callado_trans callado_enviar)
  have "inv ?k (add_mset R_turno M)" using inv_callado [OF _ c, of "add_mset R_turno M"] i P_enviar by simp
  then have "inv (despachar_enviar p c k) M" unfolding despachar_enviar_def Let_def by (rule inv_dar_turno)
  then show ?thesis using a P_enviar by (auto split: option.splits)
qed (use i a inv_tomar_turno [of k M] in \<open>auto simp: inv_contadores split: if_splits\<close>)

section \<open>The steps of a CPU thread\<close>

lemma inv_init_ready:
  "inv k (add_mset (R_nuevo True p) M) \<Longrightarrow> inv (init_proc_ready s p k) M"
  unfolding init_proc_ready_def
  by (rule inv_callado [OF inv_mover_ready callado_enviar(3)])

lemma inv_liberar_cpu:
  assumes i: "inv k (add_mset (R_cpu d) M)" and a: "liberar_cpu c d f sig = Sigue k' ns"
    and f: "\<And>e. d = Some e \<Longrightarrow> inv (f e) N" and n: "todos [Cpu c sig] + M = N"
  shows "inv k' (todos ns + M)"
  using a f n by (auto simp: liberar_cpu_def split: option.splits)

lemma inv_pedir_creacion:
  assumes "inv k M" "init_proc_memoria s p path k = (k', ok)"
  shows "inv k' M"
proof -
  have "callado k k'"
    using assms(2)
    by (auto simp: init_proc_memoria_def pedir_creacion_def split: prod.splits if_splits
        intro: callado_trans callado_enviar dest!: callado_pedir_memoria)
  then show ?thesis by (rule inv_callado [OF assms(1)])
qed

lemma inv_atender_io:
  assumes i: "inv k (add_mset (R_hilo c (Ref p)) M)" and b: "bloquear_proceso p k = (k', d, t)"
  shows "inv k' (todos [Cpu c (C_bloqueado d (Some (p, io))), Timer_suspension t] + M)"
  using inv_bloquear [OF i _ b, of "{#R_espera p#}"] by (simp add: add_mset_commute)

lemma callado_tres:
  "callado k k1 \<Longrightarrow> callado k1 k2 \<Longrightarrow> callado k2 k3 \<Longrightarrow> callado k (enviar_codigo s v k3)"
  by (blast intro: callado_trans callado_enviar)

lemma callado_mem:
  "callado k (fst (manejar_mem_alloc p s k))" "callado k (manejar_mem_free p s k)"
  "callado k (fst (mutex_create_buscar s n k))"
  by (auto simp: manejar_mem_alloc_def manejar_mem_free_def pedir_segmento_def pedir_eliminacion_def
        mutex_create_buscar_def Let_def
      split: prod.splits if_splits option.splits
      intro: callado_refl callado_enviar callado_tres callado_tres [OF callado_refl]
      dest!: callado_pedir_memoria callado_recibir_o_cero)

lemma inv_atender_mutex_unlock:
  assumes i: "inv k (add_mset (R_hilo c (Ref p)) M)" and u: "manejar_mutex_unlock p s n k = (k', r)"
  shows "inv k' (todos [Cpu c (case r of None \<Rightarrow> C_escucha | Some (q, e) \<Rightarrow> C_mutex_mover q e)] + M)"
proof -
  have "estado (procs k p) = EXEC" using invD(3) [OF i, of "R_hilo c (Ref p)"] by (simp add: corre_def)
  from inv_mutex_unlock [OF inv_hilo_libre [OF i] _ u] this show ?thesis
    by (auto split: option.splits)
qed

lemma inv_atender_init:
  assumes i: "inv k (add_mset (R_hilo c (Ref p)) M)" and u: "init_proc_crear s k = Some (k', q, path)"
  shows "inv k' (todos [Cpu c (C_init_memoria q path)] + M)"
proof -
  obtain k1 k2 prio where r: "recibir_string s k = Some (k1, path)" "recibir_o_cero s k1 = (k2, prio)"
    "crear_proceso prio k2 = (k', q)"
    using u by (auto simp: init_proc_crear_def split: option.splits prod.splits)
  have "callado k k2" using r(1,2) by (blast intro: callado_trans callado_dest)
  from inv_crear_proceso [OF inv_callado [OF inv_hilo_libre [OF i] this] r(3)] show ?thesis
    by (simp add: add_mset_commute)
qed

lemma inv_atender_syscall:
  assumes i: "inv k (add_mset (R_hilo c (Ref p)) M)" and a: "atender_syscall c p tipo k = Sigue k' ns"
  shows "inv k' (todos ns + M)"
proof (cases "op_de_io tipo")
  case (Some io)
  then show ?thesis using a inv_atender_io [OF i] by (auto simp: atender_syscall_def split: prod.splits)
next
  case None
  let ?s = "cp_socket (cpus k c)"
  have l: "inv k1 (todos [Cpu c C_escucha] + M)" if "callado k k1" for k1
    using inv_callado [OF inv_hilo_libre [OF i] that] by simp
  have st: "inv k1 (add_mset (R_hilo c (Ref p)) M)" "callado k k1" if "recibir_string ?s k = Some (k1, n)" for k1 n
    using inv_callado [OF i] callado_recibir_string [OF that] by blast+
  define Q where "Q x \<longleftrightarrow> (\<forall>k' ns. x = Sigue k' ns \<longrightarrow> inv k' (todos ns + M))" for x
  have Q [simp]: "Q Falla" "Q (Sigue k1 ns) \<longleftrightarrow> inv k1 (todos ns + M)" for k1 ns by (simp_all add: Q_def)
  have create: "inv k2 (todos [Cpu c (if b then C_mutex_agregar n else C_escucha)] + M)"
    if "recibir_string ?s k = Some (k1, n)" "mutex_create_buscar ?s n k1 = (k2, b)" for k1 k2 n b
    using l [of k2] callado_trans [OF st(2) [OF that(1)]] callado_mem(3) [where s = "?s" and n = n and k = k1] that(2)
    by simp
  have lock: "inv k2 (todos [Cpu c (if b then C_bloquear p else C_escucha)] + M)"
    if "recibir_string ?s k = Some (k1, n)" "manejar_mutex_lock p ?s n k1 = (k2, b)" for k1 k2 n b
    using inv_mutex_lock [OF st(1) [OF that(1)] that(2)] inv_hilo_libre by (cases b) auto
  have unlock: "inv k2 (todos [Cpu c (case r of None \<Rightarrow> C_escucha | Some (q, e) \<Rightarrow> C_mutex_mover q e)] + M)"
    if "recibir_string ?s k = Some (k1, n)" "manejar_mutex_unlock p ?s n k1 = (k2, r)" for k1 k2 n r
    by (rule inv_atender_mutex_unlock [OF st(1) [OF that(1)] that(2)])
  have alloc: "inv k1 (todos [Cpu c (case r of Contestado \<Rightarrow> C_escucha | Debe_compactar \<Rightarrow> C_comp_esperar p)] + M)"
    if "manejar_mem_alloc p ?s k = (k1, r)" for k1 r
    using l [of k1] inv_callado [OF i, of k1] callado_mem(1) [of k p ?s] that by (cases r) auto
  have "Q (case recibir_string ?s k of None \<Rightarrow> Falla | Some (k1, n) \<Rightarrow>
      (case mutex_create_buscar ?s n k1 of (k2, seguir) \<Rightarrow> Sigue k2 [Cpu c (if seguir then C_mutex_agregar n else C_escucha)]))"
    using create by (auto simp del: todos_simps split: option.split prod.split)
  moreover have "Q (case recibir_string ?s k of None \<Rightarrow> Falla | Some (k1, n) \<Rightarrow>
      (case manejar_mutex_lock p ?s n k1 of (k2, espera) \<Rightarrow> Sigue k2 [Cpu c (if espera then C_bloquear p else C_escucha)]))"
    using lock by (auto simp del: todos_simps split: option.split prod.split)
  moreover have "Q (case recibir_string ?s k of None \<Rightarrow> Falla | Some (k1, n) \<Rightarrow>
      (case manejar_mutex_unlock p ?s n k1 of (k2, None) \<Rightarrow> Sigue k2 [Cpu c C_escucha]
        | (k2, Some (q, e)) \<Rightarrow> Sigue k2 [Cpu c (C_mutex_mover q e)]))"
    using unlock by (fastforce split: option.split prod.split)
  moreover have "Q (case init_proc_crear ?s k of None \<Rightarrow> Falla
      | Some (k1, q, path) \<Rightarrow> Sigue k1 [Cpu c (C_init_memoria q path)])"
    using inv_atender_init [OF i] by (auto split: option.split prod.split)
  moreover have "Q (case manejar_mem_alloc p ?s k of (k1, Contestado) \<Rightarrow> Sigue k1 [Cpu c C_escucha]
      | (k1, Debe_compactar) \<Rightarrow> Sigue k1 [Cpu c (C_comp_esperar p)])"
    using alloc by (fastforce split: resp_memoria.split prod.split)
  moreover have "Q (Sigue (manejar_mem_free p ?s k) [Cpu c C_escucha])"
    "Q (Sigue (enviar_codigo ?s OP_ERROR k) [Cpu c C_escucha])"
    using l [OF callado_mem(2)] l [OF callado_enviar(3)] by simp_all
  ultimately have "Q (atender_syscall c p tipo k)"
    unfolding atender_syscall_def Let_def None option.case by (simp only: split: if_split) simp
  with a show ?thesis by (simp add: Q_def)
qed

lemma habla_de_lo_suyoD:
  "habla_de_lo_suyo c k \<Longrightarrow> recibir_o_cero (cp_socket (cpus k c)) k = (k1, v) \<Longrightarrow>
   buscar_proceso_en_exec v k1 = Some p \<Longrightarrow> pr_cpu (procs k1 p) = Some c"
  by (frule callado_recibir_o_cero)
    (auto simp: habla_de_lo_suyo_def callado_campos buscar_proceso_en_exec_def)

lemma inv_exit:
  assumes i: "inv k (add_mset (R_hilo c Libre) M)" and l: "habla_de_lo_suyo c k"
    and a: "avanzar_cpu c C_exit k = Sigue k' ns"
  shows "inv k' (todos ns + M)"
proof -
  obtain k1 v where r: "recibir_o_cero (cp_socket (cpus k c)) k = (k1, v)" by fastforce
  note i1 = inv_callado [OF i callado_recibir_o_cero [OF r]]
  show ?thesis
  proof (cases "buscar_proceso_en_exec v k1")
    case None
    then show ?thesis using a r i1 by (auto simp: salir_de_exec_def)
  next
    case (Some p)
    obtain k2 d where s: "salir_de_exec v k1 = (k2, Some (p, d))" using Some by (simp add: salir_de_exec_def)
    from inv_salir [OF i1 s habla_de_lo_suyoD [OF l r Some]] show ?thesis using a r s by auto
  qed
qed

lemma inv_avanzar_quantum:
  assumes i: "inv k (add_mset (R_hilo c Libre) M)" and l: "habla_de_lo_suyo c k"
    and a: "avanzar_cpu c C_quantum k = Sigue k' ns"
  shows "inv k' (todos ns + M)"
proof -
  obtain k1 v where r: "recibir_o_cero (cp_socket (cpus k c)) k = (k1, v)" by fastforce
  note i1 = inv_callado [OF i callado_recibir_o_cero [OF r]]
  show ?thesis
  proof (cases "manejar_fin_quantum v k1")
    case (Pair k2 x)
    show ?thesis
    proof (cases x)
      case None
      then have "k2 = k1" using Pair by (auto simp: manejar_fin_quantum_def Let_def split: option.splits prod.splits)
      then show ?thesis using a r i1 Pair None by auto
    next
      case (Some y)
      obtain d b where y: "y = (d, b)" by fastforce
      from inv_fin_quantum [OF i1 Pair [unfolded Some y] habla_de_lo_suyoD [OF l r]] show ?thesis
        using a r Pair Some y by auto
    qed
  qed
qed

lemma inv_empezar_syscall:
  assumes i: "inv k (add_mset (R_hilo c Libre) M)" and l: "habla_de_lo_suyo c k"
    and a: "avanzar_cpu c C_syscall k = Sigue k' ns"
  shows "inv k' (todos ns + M)"
proof -
  obtain k1 v where r: "recibir_o_cero (cp_socket (cpus k c)) k = (k1, v)" by fastforce
  obtain k2 t where r2: "recibir_o_cero (cp_socket (cpus k c)) k1 = (k2, t)" by fastforce
  note c1 = callado_recibir_o_cero [OF r2]
  note i2 = inv_callado [OF inv_callado [OF i callado_recibir_o_cero [OF r]] c1]
  show ?thesis
  proof (cases "buscar_proceso_en_exec v k2")
    case None
    then show ?thesis using a r r2 i2 by auto
  next
    case (Some p)
    then have e: "buscar_proceso_en_exec v k1 = Some p" by (simp add: buscar_proceso_en_exec_def callado_campos [OF c1])
    have m: "p \<in> set (lista_de EXEC k2)" using Some buscar_pid_Some by (fastforce simp: buscar_proceso_en_exec_def)
    have "corre k2 c p"
      using lugarD(3,4) [OF invD(1) [OF i2] m] habla_de_lo_suyoD [OF l r e] by (simp add: corre_def callado_campos [OF c1])
    then have "inv k2 (add_mset (R_hilo c (Ref p)) M)"
      using inv_baja [of k2 "{#R_hilo c Libre#}" M "{#R_hilo c (Ref p)#}"] i2 invD(3) [OF i2, of "R_hilo c Libre"]
      by simp
    then show ?thesis using a r r2 Some by auto
  qed
qed

lemma callado_desalojar_todas: "desalojar_todas_las_cpus k = Some k' \<Longrightarrow> callado k k'"
  by (auto simp: desalojar_todas_las_cpus_def callado_interrumpir_todos)

lemma inv_verificar: "inv k M \<Longrightarrow> inv (verificar_fin_bsod k) M"
  by (rule inv_nucleos)
    (auto dest: invD(1) simp: verificar_fin_bsod_def mismos_procs_def en_io_def en_mutex_def)

text \<open>The steps after a critical section that only lead to the list of free CPUs.\<close>

lemma inv_cpu_liberada:
  assumes i: "inv k (add_mset (R_cpu d) (N + M))" and a: "liberar_cpu c d f sig = Sigue k' ns"
    and f: "\<And>e N. inv k (add_mset (R_cpu (Some e)) N) \<Longrightarrow> inv (f e) N" and s: "recursos_cpu c sig = N"
  shows "inv k' (todos ns + M)"
  using assms by (auto simp: liberar_cpu_def split: option.splits)

lemma inv_avanzar_cpu:
  assumes i: "inv k (recursos_cpu c d + M)" and l: "leal (Cpu c d) hs k" and a: "avanzar_cpu c d k = Sigue k' ns"
  shows "inv k' (todos ns + M)"
proof (cases d)
  case C_escucha
  then show ?thesis using i a inv_callado [OF _ callado_recibir]
    by (auto split: prod.splits option.splits if_splits)
next
  case (C_exit_memoria v e)
  then show ?thesis using i a inv_callado [OF _ callado_pedir(2)] by auto
next
  case (C_exit_cpu e)
  then show ?thesis using inv_cpu_liberada [of k e "{#R_hilo c Libre#}" M] i a inv_agregar_cpu_libre
    by (simp add: add_mset_commute)
next
  case (C_quantum_cpu e b)
  then show ?thesis using inv_cpu_liberada [of k e "{#R_hilo c Libre#}" M] i a inv_fin_quantum_cpu
    by (simp add: add_mset_commute)
next
  case (C_bloqueado e s)
  let ?N = "recursos_cpu c (case s of None \<Rightarrow> C_escucha | Some (p, io) \<Rightarrow> C_pedir_io p io)"
  have "inv k (add_mset (R_cpu e) (?N + M))" using i C_bloqueado by (auto simp: add_mset_commute split: option.splits)
  then show ?thesis using inv_cpu_liberada [of k e ?N M] a inv_agregar_cpu_libre C_bloqueado by simp
next
  case (C_bloquear p)
  then show ?thesis using a inv_bloquear [of k c "Bloq p" M p _ _ _ "{#}"] i
    by (auto simp: add_mset_commute split: prod.splits)
next
  case (C_pedir_io p io)
  then show ?thesis using i a inv_manejar_io [of k p "add_mset (R_hilo c Libre) M"]
    by (auto simp: add_mset_commute)
next
  case (C_mutex_agregar n)
  then show ?thesis using i a inv_callado [OF inv_nuevo_mutex callado_enviar(3)]
    by (auto simp: mutex_create_agregar_def)
next
  case (C_mutex_mover q e)
  have "inv k ((if e = BLOCK \<or> e = SUSP_BLOCK then {#R_firme q e#} else {#}) + add_mset (R_hilo c Libre) M)"
    using i C_mutex_mover by (auto simp: add_mset_commute)
  from inv_callado [OF inv_despertar_si [OF this] callado_enviar(3)] show ?thesis
    using a C_mutex_mover by (auto simp: mutex_unlock_mover_def)
next
  case (C_init_memoria p path)
  then obtain k1 ok where r: "init_proc_memoria (cp_socket (cpus k c)) p path k = (k1, ok)" by fastforce
  note j = inv_pedir_creacion [OF _ r]
  show ?thesis using inv_pedir_creacion [OF i r] inv_baja [of k1 "{#R_nuevo False p#}" "add_mset (R_hilo c Libre) M" "{#}"]
      C_init_memoria a r by (cases ok) (auto simp: add_mset_commute)
next
  case (C_init_new p)
  then show ?thesis using i a inv_agregar_new [of k p "add_mset (R_hilo c Libre) M"] by (auto simp: add_mset_commute)
next
  case (C_init_ready p)
  then show ?thesis using i a inv_init_ready [of k p "add_mset (R_hilo c Libre) M"] by (auto simp: add_mset_commute)
next
  case C_comp_desalojar
  then show ?thesis using i a inv_callado [OF _ callado_desalojar_todas] by (auto split: option.splits)
next
  case C_comp_confirmar
  then show ?thesis using i a inv_callado [OF _ callado_enviar(3)] by (auto simp: compactacion_confirmar_def)
next
  case (C_comp_bloquear p)
  then show ?thesis using i a inv_comp_bloquear by auto
next
  case (C_comp_esperar p)
  then show ?thesis using i a inv_anotar by (auto split: if_splits)
next
  case C_exit
  then show ?thesis using inv_exit [of k c M] i l a by auto
next
  case C_quantum
  then show ?thesis using inv_avanzar_quantum [of k c M] i l a by auto
next
  case C_syscall
  then show ?thesis using inv_empezar_syscall [of k c M] i l a by auto
next
  case (C_atender p t)
  then show ?thesis using inv_atender_syscall i a by auto
next
  case C_desconectar
  then show ?thesis using i a inv_desconectar by auto
next
  case C_verificar
  then show ?thesis using i a inv_verificar by auto
next
  case (C_exit_mutex v e)
  then show ?thesis using i a inv_liberar_mutex by auto
qed

section \<open>The steps of the other threads\<close>

lemma callado_tras_enviar:
  "callado (enviar_bytes s bs k) k' \<Longrightarrow> callado k k'" "callado (enviar_entero s v k) k' \<Longrightarrow> callado k k'"
  "callado (enviar_codigo s c k) k' \<Longrightarrow> callado k k'"
  by (blast intro: callado_trans callado_enviar)+

lemma callado_ejecutar_io: "ejecutar_io tipo s p k = Some (k', ok) \<Longrightarrow> callado k k'"
  by (auto simp: ejecutar_io_def ejecutar_io_sleep_def ejecutar_io_stdin_def ejecutar_io_stdout_def Let_def
      split: if_splits prod.splits dest!: callado_dest callado_tras_enviar intro: callado_trans)

lemma inv_esperar_io:
  assumes "inv k M"
  shows "inv (esperar_pedido_io tipo k) M"
  by (rule inv_nucleos [OF assms])
    (use invD(1) [OF assms] in \<open>simp_all add: esperar_pedido_io_def mismos_procs_def en_io_def en_mutex_def\<close>)

lemma tomar_io_nada: "tomar_pedido_io tipo k = (k', None) \<Longrightarrow> k' = k"
  by (auto simp: tomar_pedido_io_def split: list.splits)

lemma inv_avanzar_io:
  assumes i: "inv k (recursos_io d + M)" and ls: "list_sort_ok ls"
    and l: "\<And>p. d = I_mover p SUSP_BLOCK \<Longrightarrow> (2, 0) \<notin># claves M"
    and a: "avanzar_io ls tipo s d k = Sigue k' ns"
  shows "inv k' (todos ns + M)"
proof (cases d)
  case I_tomar
  then show ?thesis using i a inv_tomar_io [of k M] tomar_io_nada [of tipo k k']
    by (auto split: prod.splits option.splits)
next
  case (I_ejecutar p)
  then obtain k1 ok where r: "ejecutar_io tipo s p k = Some (k1, ok)" using a by (auto split: option.splits)
  have j: "inv k1 (add_mset (R_espera p) M)" using inv_callado [OF _ callado_ejecutar_io [OF r]] i I_ejecutar by simp
  then show ?thesis using inv_baja [of k1 "{#R_espera p#}" M "{#}"] a r I_ejecutar by (cases ok) auto
next
  case (I_fin p)
  then show ?thesis using i a inv_fin_io by (auto split: prod.splits)
next
  case (I_mover p e)
  then have "inv k' M" using i a inv_despertar by auto
  then show ?thesis using inv_dess_nueva [of k' M] l a I_mover by (cases "e = SUSP_BLOCK") auto
next
  case (I_dess d')
  then show ?thesis using i a inv_avanzar_dess [OF _ _ ls, of k d' M] by (auto split: option.splits)
qed (use i a inv_esperar_io in \<open>auto split: if_splits\<close>)

lemma inv_avanzar_mem:
  assumes i: "inv k (recursos (Memoria d) + M)" and ls: "list_sort_ok ls" and l: "leal (Memoria d) hs k"
    and n: "\<not> list_ex dessuspende hs \<Longrightarrow> (2, 0) \<notin># claves M"
    and a: "avanzar_mem ls d k = Sigue k' ns"
  shows "inv k' (todos ns + M)"
proof (cases d)
  case M_escucha
  obtain k1 x where r: "recibir_entero (socket_notificaciones_memoria k) k = (k1, x)" by fastforce
  note c = callado_recibir [OF r]
  have i1: "inv k1 (add_mset (R_mem False) M)" using inv_callado [OF _ c] i M_escucha by simp
  show ?thesis
  proof (cases x)
    case None
    then show ?thesis using inv_baja [of k1 "{#R_mem False#}" M "{#}"] i1 a r M_escucha by auto
  next
    case (Some v)
    have "inv k1 (add_mset (R_mem True) M)" if "v = codigo OP_FIN_COMPACTACION"
      using inv_baja [of k1 "{#R_mem False#}" M "{#R_mem True#}"] i1 l that r Some M_escucha
      by (simp add: callado_campos [OF c])
    moreover have "inv k1 (add_mset (R_dess None) (add_mset (R_mem False) M))" if "v = codigo OP_MEMORIA_DISPONIBLE"
      using inv_dess_nueva [OF i1] n l that r Some M_escucha by simp
    ultimately show ?thesis using i1 l a r Some M_escucha
      by (auto simp: add_mset_commute)
  qed
next
  case M_avisar
  then show ?thesis using i a inv_fin_avisar [of k "add_mset (R_mem False) M"]
    by (auto simp: add_mset_commute split: option.splits)
next
  case M_bsod
  then show ?thesis using l by simp
next
  case M_fin
  then show ?thesis using i a inv_fin_compactacion by auto
next
  case (M_dess d')
  then show ?thesis using i a inv_avanzar_dess [OF _ _ ls, of k d' "add_mset (R_mem False) M"]
    by (auto simp: add_mset_commute split: option.splits)
qed

lemma inv_procesar_cliente:
  assumes i: "inv k M" and a: "procesar_cliente s k = Sigue k' ns"
  shows "inv k' (todos ns + M)"
proof -
  obtain k1 x where r: "recibir_entero s k = (k1, x)" by fastforce
  have "todos ns = {#} \<and> callado k1 k'"
    using a r by (auto simp: procesar_cliente_def callado_refl callado_enviar split: option.splits if_splits)
  then show ?thesis using inv_callado [OF inv_callado [OF i callado_recibir [OF r]]] by simp
qed

section \<open>The invariant of the program\<close>

lemma todos_quitar: "todos (hs @ h # hs') = recursos h + todos (hs @ hs')"
  by simp

lemma inv_avanzar:
  assumes i: "inv k (todos (hs @ h # hs'))" and ls: "list_sort_ok ls" and l: "leal h (hs @ hs') k"
    and a: "avanzar ls h k = Sigue k' ns"
  shows "inv k' (todos (hs @ ns @ hs'))"
proof -
  let ?M = "todos (hs @ hs')"
  have i: "inv k (recursos h + ?M)" using i by (simp add: ac_simps)
  have n: "\<not> list_ex dessuspende (hs @ hs') \<Longrightarrow> (2, 0) \<notin># claves ?M" by (rule sin_dess)
  have "inv k' (todos ns + ?M)"
  proof (cases h)
    case (Planificador_corto d)
    then show ?thesis using inv_avanzar_plan i a by simp
  next
    case (Cpu c d)
    then show ?thesis using inv_avanzar_cpu i l a by auto
  next
    case (Io tipo s d)
    have "(2, 0) \<notin># claves ?M" if "d = I_mover p SUSP_BLOCK" for p using n l that Io by simp
    from inv_avanzar_io [OF i [unfolded Io recursos.simps] ls this a [unfolded Io avanzar.simps]]
    show ?thesis .
  next
    case (Memoria d)
    from inv_avanzar_mem [OF i [unfolded this] ls l [unfolded this] n a [unfolded this avanzar.simps]]
    show ?thesis .
  next
    case (Quantum t)
    then show ?thesis using i a inv_quantum by (auto split: prod.splits)
  next
    case (Timer_suspension t)
    then show ?thesis using i a inv_suspension by (auto split: prod.splits option.splits)
  next
    case (Conexion_cpu s)
    then show ?thesis using i a inv_conectar_cpu by (auto split: prod.splits)
  next
    case (Conexion_io s)
    then show ?thesis using i a by (auto simp: conectar_io_def dest!: callado_recibir_o_cero
        intro!: inv_callado [OF inv_callado callado_enviar(3)] split: prod.splits option.splits)
  next
    case (Conexion s)
    then show ?thesis using i a inv_procesar_cliente by auto
  next
    case (Avisar_quantum t)
    then show ?thesis using i a inv_callado [OF _ callado_interrumpir] by (auto simp: avisar_quantum_def)
  next
    case (Suspender p)
    then show ?thesis using i a inv_callado [OF _ callado_pedir(1)] by auto
  qed
  then show ?thesis by (simp add: ac_simps)
qed

text \<open>Time, and the start.\<close>

lemma inv_reloj: "inv k M \<Longrightarrow> inv (k\<lparr>reloj := r\<rparr>) M"
  by (rule inv_nucleos) (auto dest: invD(1) simp: mismos_procs_def en_io_def en_mutex_def)

lemma inv_paso_leal:
  assumes p: "paso_leal ls (k, hs) (k', hs')" and ls: "list_sort_ok ls" and i: "inv k (todos hs)"
  shows "inv k' (todos hs')"
  using p
proof cases
  case (hilo h nuevos hs1 hs2)
  then show ?thesis using inv_avanzar [OF _ ls] i by simp
next
  case (tiempo r)
  then show ?thesis using i inv_reloj by simp
qed (use i in simp_all)

lemma inv_alcanzable:
  assumes "(paso_leal ls)\<^sup>*\<^sup>* (k, hs) (k', hs')" and ls: "list_sort_ok ls" and i: "inv k (todos hs)"
  shows "inv k' (todos hs')"
  using assms(1)
proof (induction rule: rtranclp_induct2)
  case (step k1 hs1 k2 hs2)
  then show ?case using inv_paso_leal [OF _ ls] by blast
qed (rule i)

lemma inv_inicial: "inv (inicializar_estructuras alg algs b s1 s2 ent) {#}"
proof -
  have "lista_de e (inicializar_estructuras alg algs b s1 s2 ent) = []" for e
    by (cases e) (simp_all add: inicializar_estructuras_def)
  then show ?thesis
    by (auto simp: inv_def lugar_def inv_esperas_def inv_comp_def inv_timers_def
      inv_cpus_def esperas_def sin_correr_def en_io_def en_mutex_def en_compactacion_def corre_def colas_ok_def
      es_CMN_def cantidad_colas_def claves_def turnos_def; simp add: inicializar_estructuras_def)
qed

lemma inv_arrancar:
  assumes "inv k {#}"
  shows "inv (fst (arrancar k path)) (todos (snd (arrancar k path)))"
proof -
  obtain k1 p where c: "crear_proceso 0 k = (k1, p)" by fastforce
  have "inv k1 {#R_nuevo False p#}" using inv_crear_proceso [OF assms c] by simp
  from inv_callado [OF this callado_pedir(3)]
  have "inv (agregar_new p (fst (pedir_creacion (pid (procs k1 p)) path k1))) {#R_nuevo True p#}"
    by (rule inv_agregar_new)
  then have i: "inv (crear_proceso_inicial path k) {#}"
    using inv_mover_ready c by (simp add: crear_proceso_inicial_def)
  have "inv (crear_proceso_inicial path k) ({#R_mem False#} + {#})" if "inv (crear_proceso_inicial path k) {#}"
    using that by (auto simp: inv_def inv_esperas_def inv_comp_def inv_timers_def inv_cpus_def
      esperas_def sin_correr_def)
  with i show ?thesis by (simp add: arrancar_def)
qed

lemma callado_handshake: "hacer_handshake_con_memoria s c k = (k', ok) \<Longrightarrow> callado k k'"
  by (auto simp: hacer_handshake_con_memoria_def dest!: callado_recibir callado_tras_enviar
      split: prod.splits option.splits)

lemma main_ks_callado:
  assumes "main_ks k path = Some x"
  obtains k1 where "callado k k1" "x = arrancar k1 path"
  using assms callado_trans callado_handshake unfolding main_ks_def
  by (auto split: prod.splits bool.splits) (metis callado_trans callado_handshake)

lemma inv_alcanzable_ks:
  assumes ls: "list_sort_ok ls" and a: "alcanzable_ks ls (k, hs)"
  shows "inv k (todos hs)"
proof -
  obtain alg algs desalojo s_mem s_not ent path x where
    m: "main_ks (inicializar_estructuras alg algs desalojo s_mem s_not ent) path = Some x"
    and p: "(paso_leal ls)\<^sup>*\<^sup>* x (k, hs)"
    using a unfolding alcanzable_ks_def by blast
  let ?k = "inicializar_estructuras alg algs desalojo s_mem s_not ent"
  obtain k1 where c: "callado ?k k1" and x: "x = arrancar k1 path"
    by (rule main_ks_callado [OF m])
  have "inv (fst x) (todos (snd x))"
    unfolding x by (rule inv_arrancar [OF inv_callado [OF inv_inicial c]])
  then show ?thesis using inv_alcanzable [of ls "fst x" "snd x"] p ls by simp
qed

end
