(* ===== verification/FichasKS.thy ===== *)
theory FichasKS
  imports InvariantePasos
begin

text \<open>
  Three more facts of the reachable states of the Kernel Scheduler: the pid of a process is its
  address, whoever waits for the end of a compaction has a CPU to come back to, and for each
  process in a ready queue there is a token, in \<open>sem_hay_procesos_ready\<close> or in the hands of a
  thread, so the planner forgets nobody.
\<close>

section \<open>What an operation keeps and what it owes\<close>

definition fija :: "ks \<Rightarrow> ks \<Rightarrow> bool" where
  "fija k k' \<longleftrightarrow>
     prox_proc k' = prox_proc k \<and> proximo_pid k' = proximo_pid k \<and>
     (\<forall>p. pid (procs k' p) = pid (procs k p)) \<and>
     proceso_esperando_memoria k' = proceso_esperando_memoria k \<and>
     cpu_esperando_memoria k' = cpu_esperando_memoria k"

definition listos :: "ks \<Rightarrow> nat" where
  "listos k = (if es_CMN k then length (concat (colas_ready k)) else length (lista_ready k))"

definition deuda :: "ks \<Rightarrow> int" where
  "deuda k = int (listos k) - int (sem_hay_procesos_ready k)"

definition con_forma :: "ks \<Rightarrow> bool" where
  "con_forma k \<longleftrightarrow> (es_CMN k \<longrightarrow> length (colas_ready k) = cantidad_colas k)"

lemma inv_con_forma: "inv k M \<Longrightarrow> con_forma k"
  by (drule invD(1)) (simp add: lugar_def colas_ok_def con_forma_def)

lemma fija_refl [simp]: "fija k k"
  by (simp add: fija_def)

lemma fija_trans: "fija k k' \<Longrightarrow> fija k' k'' \<Longrightarrow> fija k k''"
  by (simp add: fija_def)

text \<open>\<open>paga n k k'\<close>: the operation keeps the shape and puts at most \<open>n\<close> processes without their token.\<close>

definition paga :: "int \<Rightarrow> ks \<Rightarrow> ks \<Rightarrow> bool" where
  "paga n k k' \<longleftrightarrow> fija k k' \<and> (con_forma k \<longrightarrow> con_forma k' \<and> deuda k' \<le> deuda k + n)"

lemma paga_refl [simp]: "paga 0 k k"
  by (simp add: paga_def)

lemma paga_trans: "paga m k k' \<Longrightarrow> paga n k' k'' \<Longrightarrow> paga (m + n) k k''"
  by (auto simp: paga_def intro: fija_trans)

lemma paga_trans0: "paga n k k' \<Longrightarrow> paga 0 k' k'' \<Longrightarrow> paga n k k''" "paga 0 k k' \<Longrightarrow> paga n k' k'' \<Longrightarrow> paga n k k''"
  using paga_trans by fastforce+

lemma paga_callado: "callado k k' \<Longrightarrow> paga 0 k k'"
  by (simp add: paga_def fija_def con_forma_def deuda_def listos_def callado_campos)

text \<open>The fields an operation may change freely.\<close>

lemmas paga_defs = paga_def fija_def con_forma_def deuda_def listos_def es_CMN_def cantidad_colas_def modificar_def

lemma paga_modificar: "(\<And>r. pid (f r) = pid r) \<Longrightarrow> paga 0 k (modificar p f k)"
  by (simp add: paga_defs)

lemma length_concat_update:
  "i < length xs \<Longrightarrow> length (concat (xs[i := ys])) + length (xs ! i) = length (concat xs) + length ys"
  by (induction xs arbitrary: i) (auto split: nat.splits)

lemma paga_encolar:
  assumes "encolar_en_ready p k = (k', b)"
  shows "paga (if b then 1 else 0) k k'"
proof -
  have d: "paga 0 k1 (desalojar_por_prioridad p k1)" for k1
    by (rule paga_callado [OF callado_desalojar])
  let ?c = "nat (prioridad (procs k p))"
  let ?k = "k\<lparr>colas_ready := (colas_ready k)[?c := colas_ready k ! ?c @ [p]]\<rparr>"
  have "paga 1 k ?k" if "en_rango p k" "es_CMN k"
  proof -
    have "length (concat (colas_ready ?k)) = Suc (length (concat (colas_ready k)))" if "con_forma k"
    proof -
      have "?c < length (colas_ready k)" using \<open>en_rango p k\<close> that \<open>es_CMN k\<close>
        by (simp add: en_rango_def con_forma_def nat_less_iff)
      from length_concat_update [OF this, of "colas_ready k ! ?c @ [p]"] show ?thesis by (simp del: length_concat)
    qed
    then show ?thesis using \<open>es_CMN k\<close> by (auto simp: paga_defs simp del: length_concat)
  qed
  then show ?thesis
    using assms d [of ?k] paga_trans0(1) [of 1 k ?k]
    by (auto simp: encolar_en_ready_def Let_def split: if_splits) (auto simp: paga_defs)
qed

lemma paga_al_frente:
  assumes "encolar_al_frente_de_ready p k = (k', b)"
  shows "paga (if b then 1 else 0) k k'"
proof -
  let ?c = "nat (prioridad (procs k p))"
  let ?k = "k\<lparr>colas_ready := (colas_ready k)[?c := p # colas_ready k ! ?c]\<rparr>"
  have "paga 1 k ?k" if "en_rango p k" "es_CMN k"
  proof -
    have "length (concat (colas_ready ?k)) = Suc (length (concat (colas_ready k)))" if "con_forma k"
    proof -
      have "?c < length (colas_ready k)" using \<open>en_rango p k\<close> that \<open>es_CMN k\<close>
        by (simp add: en_rango_def con_forma_def nat_less_iff)
      from length_concat_update [OF this, of "p # colas_ready k ! ?c"] show ?thesis by (simp del: length_concat)
    qed
    then show ?thesis using \<open>es_CMN k\<close> by (auto simp: paga_defs simp del: length_concat)
  qed
  then show ?thesis
    using assms by (auto simp: encolar_al_frente_de_ready_def Let_def split: if_splits) (auto simp: paga_defs)
qed

lemma paga_post: "paga (if b then - 1 else 0) k (post_ready (k, b))"
  by (simp add: paga_defs post_ready_def)

text \<open>A process that enters with its token.\<close>

lemma paga_encolar_post: "paga 0 k (post_ready (encolar_en_ready p k))"
proof -
  obtain k1 b where e: "encolar_en_ready p k = (k1, b)" by fastforce
  from paga_trans [OF paga_encolar [OF e] paga_post [of b k1]] show ?thesis by (cases b) (simp_all add: e)
qed

lemma paga_mover:
  "paga 0 k (mover_proceso_a_ready p k)" "paga 0 k (mover_proceso_de_block_a_ready p k)"
  "paga 0 k (dessuspender_mover p k)"
proof -
  have "paga 0 k (poner_estado p READY (k\<lparr>lista_new := xs\<rparr>))" "paga 0 k (poner_estado p READY (k\<lparr>lista_block := xs\<rparr>))"
    "paga 0 k (poner_estado p READY (k\<lparr>lista_susp_ready := xs\<rparr>))" for xs
    by (simp_all add: paga_defs poner_estado_def)
  then show "paga 0 k (mover_proceso_a_ready p k)" "paga 0 k (mover_proceso_de_block_a_ready p k)"
    "paga 0 k (dessuspender_mover p k)"
    unfolding mover_proceso_a_ready_def mover_proceso_de_block_a_ready_def dessuspender_mover_def
    by (blast intro: paga_trans0 paga_encolar_post)+
qed

lemma paga_despertar: "paga 0 k (despertar p e k)"
  by (simp add: despertar_def paga_mover) (simp add: paga_defs mover_a_susp_ready_def)

lemma paga_fin_quantum:
  assumes "manejar_fin_quantum v k = (k', r)"
  shows "paga (case r of Some (d, True) \<Rightarrow> 1 | _ \<Rightarrow> 0) k k'"
proof (cases "buscar_proceso_en_exec v k")
  case (Some p)
  let ?k = "modificar p (\<lambda>r. r\<lparr>estado := READY, pr_cpu := None\<rparr>) (k\<lparr>lista_exec := remove1 p (lista_exec k)\<rparr>)"
  have "paga 0 k ?k" by (simp add: paga_defs)
  then show ?thesis
    using assms Some paga_encolar [of p ?k] paga_al_frente [of p ?k]
    by (auto simp: manejar_fin_quantum_def Let_def split: prod.splits if_splits intro: paga_trans0)
qed (use assms in \<open>simp add: manejar_fin_quantum_def\<close>)

lemma paga_fin_quantum_cpu: "paga (if b then - 1 else 0) k (fin_quantum_cpu c b k)"
  by (simp add: paga_defs fin_quantum_cpu_def agregar_cpu_libre_def post_ready_def)

lemma paga_desconectar: "paga 0 k (desconectar_cpu c k)"
proof -
  define k1 where "k1 = (if c \<in> set (lista_cpus_libres k)
    then k\<lparr>lista_cpus_libres := remove1 c (lista_cpus_libres k), sem_hay_cpus_libres := sem_hay_cpus_libres k - 1\<rparr>
    else k)"
  have "paga 0 k k1" by (auto simp: k1_def paga_defs)
  moreover have "paga 0 k1 (modificar p (\<lambda>r. r\<lparr>timer := None, estado := READY, pr_cpu := None\<rparr>) (k1\<lparr>lista_exec := ys\<rparr>))"
    for p ys by (simp add: paga_defs)
  ultimately show ?thesis unfolding desconectar_cpu_def k1_def [symmetric] Let_def
    by (auto split: option.split intro!: paga_trans0 [OF _ paga_encolar_post] intro: paga_trans0)
qed

text \<open>The process whose inherited priority moves it to another queue was in its queue.\<close>

lemma paga_herencia_en:
  assumes "es_CMN k \<Longrightarrow> estado (procs k p) = READY \<Longrightarrow>
      nat (prioridad (procs k p)) < length (colas_ready k) \<and> p \<in> set (colas_ready k ! nat (prioridad (procs k p)))"
    and c: "es_CMN k"
  shows "paga 0 k (aplicar_herencia p m k)"
proof -
  let ?c = "nat (prioridad (procs k p))" and ?v = "mayor_prioridad_del_mutex m k"
  let ?k = "poner_prioridad p ?v (k\<lparr>colas_ready := (colas_ready k)[?c := remove1 p (colas_ready k ! ?c)]\<rparr>)"
  have "paga 0 k (fst (encolar_en_ready p ?k))" if "estado (procs k p) = READY"
  proof -
    have l: "?c < length (colas_ready k)" "p \<in> set (colas_ready k ! ?c)" using assms(1) [OF c that] by auto
    from l(2) have "length (remove1 p (colas_ready k ! ?c)) + 1 = length (colas_ready k ! ?c)"
      by (simp add: length_remove1) (metis Suc_pred length_pos_if_in_set)
    with length_concat_update [OF l(1), of "remove1 p (colas_ready k ! ?c)"]
    have "length (concat ((colas_ready k)[?c := remove1 p (colas_ready k ! ?c)])) + 1 = length (concat (colas_ready k))"
      by (simp del: length_concat)
    then have a: "paga (- 1) k ?k" using c
      by (auto simp: paga_defs poner_prioridad_def simp del: length_concat)
    obtain k1 b where e: "encolar_en_ready p ?k = (k1, b)" by fastforce
    from paga_trans [OF a paga_encolar [OF e]] show ?thesis
      by (cases b) (auto simp: e paga_def)
  qed
  then show ?thesis by (auto simp: aplicar_herencia_def Let_def) (auto simp: paga_defs poner_prioridad_def)
qed

lemma paga_devolver: "paga 0 k (devolver_prioridad p k)"
  by (simp add: paga_defs devolver_prioridad_def poner_prioridad_def Let_def)

lemma paga_poner_mutex: "paga 0 k (poner_mutex j m k)"
  by (simp add: paga_defs poner_mutex_def)

lemma paga_herencia:
  assumes l: "lugar {} k" and r: "estado (procs k p) = READY \<Longrightarrow> p \<in> set (concat (colas_ready k))" and c: "es_CMN k"
  shows "paga 0 k (aplicar_herencia p m k)"
proof (rule paga_herencia_en [OF _ c])
  assume "estado (procs k p) = READY"
  from r [OF this] obtain i where i: "i < length (colas_ready k)" "p \<in> set (colas_ready k ! i)"
    by (metis in_set_conv_nth nth_mem UN_E set_concat)
  moreover from this have "prioridad (procs k p) = int i" using l by (simp add: lugar_def colas_ok_def)
  ultimately show "nat (prioridad (procs k p)) < length (colas_ready k) \<and> p \<in> set (colas_ready k ! nat (prioridad (procs k p)))"
    by simp
qed

lemma paga_cancelar: "paga 0 k (cancelar_timer q k)"
  by (simp add: cancelar_timer_def paga_modificar)

lemma paga_enviar: "paga 0 k (enviar_codigo s c k)"
  by (rule paga_callado [OF callado_enviar(3)])

lemma paga_mutex_lock:
  assumes i: "inv k M" and h: "manejar_mutex_lock p s n k = (k', b)"
  shows "paga 0 k k'"
proof (cases "buscar_mutex n k")
  case None
  then show ?thesis using h paga_enviar by (auto simp: manejar_mutex_lock_def)
next
  case (Some j)
  let ?m = "lista_mutex k ! j"
  let ?m1 = "?m\<lparr>cola_espera := cola_espera ?m @ [p]\<rparr>"
  let ?k1 = "poner_mutex j ?m1 k"
  have l: "lugar {} ?k1" using invD(1) [OF i] by (simp add: poner_mutex_def)
  have "paga 0 ?k1 (aplicar_herencia d ?m1 ?k1)" if "buscar_proceso_por_pid (pid_dueno ?m) ?k1 = Some d" "es_CMN ?k1" for d
    using paga_herencia [OF l _ that(2)] buscar_en_cola(2) [OF l that(1,2)] by blast
  then have "paga 0 ?k1 (case buscar_proceso_por_pid (pid_dueno ?m1) ?k1 of None \<Rightarrow> ?k1
      | Some d \<Rightarrow> if es_CMN ?k1 then aplicar_herencia d ?m1 ?k1 else ?k1)"
    by (auto split: option.split)
  from paga_trans0(1) [OF paga_trans0(1) [OF paga_poner_mutex [of k j ?m1] this] paga_enviar] show ?thesis
    using h Some paga_trans0(1) [OF paga_poner_mutex paga_enviar] by (auto simp: manejar_mutex_lock_def Let_def split: if_splits)
qed

lemma sin_ready_en_cola:
  assumes i: "inv k M" and l: "j < length (lista_mutex k)" and q: "q \<in> set (cola_espera (lista_mutex k ! j))"
  shows "estado (procs k q) \<noteq> READY"
proof -
  have "q \<in> set (en_mutex k)" using l q by (auto simp: en_mutex_def)
  then show ?thesis using invD(4) [OF i] by (auto simp: inv_esperas_def bloqueado_def corre_def)
qed

lemma paga_mutex_unlock:
  assumes i: "inv k M" and h: "manejar_mutex_unlock p s n k = (k', r)" and e: "estado (procs k p) = EXEC"
  shows "paga 0 k k'"
proof (cases "buscar_mutex n k")
  case None
  then show ?thesis using h paga_enviar by (auto simp: manejar_mutex_unlock_def)
next
  case (Some j)
  note lj = buscar_mutex_rango [OF Some]
  let ?m = "lista_mutex k ! j"
  show ?thesis
  proof (cases "cola_espera ?m")
    case Nil
    let ?k1 = "poner_mutex j (?m\<lparr>pid_dueno := - 1\<rparr>) k"
    have "paga 0 ?k1 (if es_CMN ?k1 then devolver_prioridad p ?k1 else ?k1)" by (simp add: paga_devolver)
    from paga_trans0(1) [OF paga_trans0(1) [OF paga_poner_mutex this] paga_enviar] show ?thesis
      using h Some Nil by (auto simp: manejar_mutex_unlock_def Let_def)
  next
    case (Cons q qs)
    let ?m1 = "?m\<lparr>pid_dueno := pid (procs k q), cola_espera := qs\<rparr>"
    let ?k1 = "poner_mutex j ?m1 k"
    let ?d = "devolver_prioridad p ?k1"
    have n: "estado (procs ?d q) \<noteq> READY"
      using sin_ready_en_cola [OF i lj, of q] Cons nucleo_estado [OF nucleo_iguales(2) [of p ?k1 q]] by simp
    have "lugar {} ?d" using lugar_devolver [of "{}" ?k1 p] invD(1) [OF i] e by (simp add: poner_mutex_def)
    then have "paga 0 ?d (aplicar_herencia q ?m1 ?d)" if "es_CMN ?k1"
      by (rule paga_herencia) (use n that in \<open>simp_all add: devolver_prioridad_def poner_prioridad_def Let_def\<close>)
    then have "paga 0 ?k1 (if es_CMN ?k1 then aplicar_herencia q ?m1 ?d else ?k1)"
      by (cases "es_CMN ?k1") (simp_all add: paga_trans0(1) [OF paga_devolver])
    from paga_trans0(1) [OF paga_trans0(1) [OF paga_poner_mutex this] paga_cancelar] show ?thesis
      using h Some Cons by (auto simp: manejar_mutex_unlock_def Let_def)
  qed
qed

lemma paga_liberar_un_mutex:
  assumes i: "inv k M" and l: "j < length (lista_mutex k)"
  shows "paga 0 k (liberar_un_mutex v j k)"
proof (cases "pid_dueno (lista_mutex k ! j) = v")
  case False
  then show ?thesis by (simp add: liberar_un_mutex_def)
next
  case v: True
  show ?thesis
  proof (cases "cola_espera (lista_mutex k ! j)")
    case Nil
    then show ?thesis using v paga_poner_mutex by (simp add: liberar_un_mutex_def)
  next
    case (Cons q qs)
    let ?m = "(lista_mutex k ! j)\<lparr>pid_dueno := pid (procs k q), cola_espera := qs\<rparr>"
    let ?k1 = "poner_mutex j ?m k"
    have n: "estado (procs ?k1 q) \<noteq> READY" using sin_ready_en_cola [OF i l, of q] Cons by simp
    have "lugar {} ?k1" using invD(1) [OF i] by (simp add: poner_mutex_def)
    then have "paga 0 ?k1 (if es_CMN ?k1 then aplicar_herencia q ?m ?k1 else ?k1)"
      using paga_herencia [of ?k1 q ?m] n by simp
    from paga_trans0(1) [OF paga_trans0(1) [OF paga_trans0(1) [OF paga_poner_mutex this] paga_cancelar] paga_despertar]
    show ?thesis using v Cons by (simp add: liberar_un_mutex_def Let_def)
  qed
qed

lemma paga_liberar_mutex:
  assumes "inv k M"
  shows "paga 0 k (liberar_mutex_del_proceso v k)"
proof -
  have "paga 0 k (fold (liberar_un_mutex v) js k)" if "inv k M" "set js \<subseteq> {..<length (lista_mutex k)}" for js k
    using that
  proof (induction js arbitrary: k)
    case (Cons a js)
    then have "paga 0 k (liberar_un_mutex v a k)" "inv (liberar_un_mutex v a k) M"
      by (simp_all add: paga_liberar_un_mutex inv_liberar_un_mutex)
    with Cons show ?case by (auto intro: paga_trans0(1))
  qed simp
  from this [OF assms, of "[0..<length (lista_mutex k)]"] show ?thesis
    by (simp add: liberar_mutex_del_proceso_def atLeast0LessThan)
qed

lemma paga_varias:
  "paga 0 k (fst (bloquear_proceso p k))" "paga 0 k (agregar_cpu_libre c k)" "paga 0 k (agregar_new p k)"
  "paga 0 k (fst (salir_de_exec v k))" "paga 0 k (verificar_fin_bsod k)"
  "paga 0 k (fst (hilo_quantum t k))" "paga 0 k (fst (hilo_suspension t k))"
  "paga 0 k (esperar_pedido_io tipo k)" "paga 0 k (fst (tomar_pedido_io tipo k))"
  "paga 0 k (encolar_pedido_io tipo p k)" "paga 0 k (fst (manejar_fin_io p k))"
  "paga 0 k (dessuspender_ordenar ls k)" "paga 0 k (compactacion_bloquear p k)"
  "paga 0 k (k\<lparr>reloj := r\<rparr>)" "paga 0 k (k\<lparr>lista_mutex := ms\<rparr>)"
  "paga 0 k (k\<lparr>sem_puede_planificar := w\<rparr>)" "paga 0 k (k\<lparr>sem_hay_cpus_libres := w\<rparr>)"
  by (simp_all add: paga_defs bloquear_proceso_def poner_timer_def crear_timer_def Let_def agregar_cpu_libre_def
      agregar_new_def salir_de_exec_def verificar_fin_bsod_def hilo_quantum_def cancelar_timer_def
      hilo_suspension_def poner_estado_def esperar_pedido_io_def tomar_pedido_io_def encolar_pedido_io_def
      manejar_fin_io_def dessuspender_ordenar_def compactacion_bloquear_def split: option.split list.split)

lemma paga_init_ready: "paga 0 k (init_proc_ready s p k)"
  unfolding init_proc_ready_def by (rule paga_trans0(1) [OF paga_mover(1) paga_enviar])

lemma paga_manejar_io: "paga 0 k (manejar_io tipo s p k)"
  unfolding manejar_io_def manejar_io_sleep_def manejar_io_stdin_def manejar_io_stdout_def
  by (auto dest!: callado_recibir_o_cero paga_callado split: prod.split
      intro!: paga_trans0 [OF _ paga_varias(10)] paga_trans0(1) [OF _ paga_modificar] intro: paga_trans0)

lemma primera_cola_lleno: "primera_cola i qs = None \<Longrightarrow> concat qs = []"
  by (simp add: primera_cola_None)

lemma paga_despachar:
  assumes "despachar k = Some (k', r)"
  shows "paga (case r of None \<Rightarrow> 0 | Some x \<Rightarrow> - 1) k k'" "r = None \<Longrightarrow> deuda k' \<le> 0"
proof -
  obtain k1 x where o: "obtener_proximo_proceso_ready k = (k1, x)" by fastforce
  have "fija k k1 \<and> (con_forma k \<longrightarrow> con_forma k1)" "sem_hay_procesos_ready k1 = sem_hay_procesos_ready k"
    "es_CMN k1 = es_CMN k"
    using o by (auto simp: obtener_proximo_proceso_ready_def fija_def con_forma_def es_CMN_def cantidad_colas_def
        split: option.splits list.splits if_splits)
  moreover have "listos k = 0" if "x = None"
    using o that primera_cola_lleno
    by (auto simp: obtener_proximo_proceso_ready_def listos_def simp del: length_concat split: option.splits list.splits if_splits)
  moreover have "Suc (listos k1) = listos k" if "x = Some y" for y
  proof (cases "es_CMN k")
    case True
    with o that obtain i p where c: "primera_cola 0 (colas_ready k) = Some (i, p)"
      and k1: "k1 = k\<lparr>colas_ready := (colas_ready k)[i := tl (colas_ready k ! i)]\<rparr>"
      by (auto simp: obtener_proximo_proceso_ready_def split: option.splits)
    from primera_cola_Some [OF c] obtain ps where "i < length (colas_ready k)" "colas_ready k ! i = p # ps" by auto
    with length_concat_update [of i "colas_ready k" ps] True show ?thesis
      by (simp add: listos_def k1 es_CMN_def del: length_concat)
  next
    case False
    with o that show ?thesis
      by (auto simp: obtener_proximo_proceso_ready_def listos_def es_CMN_def split: list.splits)
  qed
  ultimately have e: "fija k k1" "con_forma k \<Longrightarrow> con_forma k1" "x = None \<Longrightarrow> k1 = k \<and> deuda k \<le> 0"
    "x \<noteq> None \<Longrightarrow> deuda k1 = deuda k - 1"
    using o by (auto simp: deuda_def obtener_proximo_proceso_ready_def split: option.splits list.splits if_splits)
  show "r = None \<Longrightarrow> deuda k' \<le> 0"
    using assms e o by (auto simp: despachar_def poner_timer_def crear_timer_def Let_def deuda_def listos_def es_CMN_def
        split: option.splits list.splits if_splits prod.splits)
  have "paga (if x = None then 0 else - 1) k k1" using e by (auto simp: paga_def)
  moreover have "paga 0 k1 k' \<and> (x = None \<longleftrightarrow> r = None)"
    using assms o by (auto simp: despachar_def poner_timer_def crear_timer_def Let_def paga_defs
        split: option.splits list.splits if_splits prod.splits)
  ultimately show "paga (case r of None \<Rightarrow> 0 | Some x \<Rightarrow> - 1) k k'"
    using paga_trans0(1) by (auto split: option.split)
qed

section \<open>The state of the program and its tokens\<close>

definition pids_ok :: "ks \<Rightarrow> bool" where
  "pids_ok k \<longleftrightarrow> proximo_pid k = int (prox_proc k) \<and> (\<forall>p < prox_proc k. pid (procs k p) = int p)"

definition espera_ok :: "ks \<Rightarrow> bool" where
  "espera_ok k \<longleftrightarrow> (proceso_esperando_memoria k \<noteq> None \<longrightarrow> cpu_esperando_memoria k \<noteq> None)"

definition bueno :: "ks \<Rightarrow> int \<Rightarrow> bool" where
  "bueno k n \<longleftrightarrow> con_forma k \<and> deuda k \<le> n \<and> pids_ok k \<and> espera_ok k"

definition cumple :: "int \<Rightarrow> ks \<Rightarrow> ks \<Rightarrow> bool" where
  "cumple m k k' \<longleftrightarrow> (\<forall>n. bueno k n \<longrightarrow> bueno k' (n + m))"

lemma cumple_paga: "paga m k k' \<Longrightarrow> cumple m k k'"
  by (auto simp: cumple_def bueno_def paga_def fija_def pids_ok_def espera_ok_def)

lemma cumple_trans0: "cumple n k k' \<Longrightarrow> cumple 0 k' k'' \<Longrightarrow> cumple n k k''" "cumple 0 k k' \<Longrightarrow> cumple n k' k'' \<Longrightarrow> cumple n k k''"
  by (auto simp: cumple_def)

lemma cumple_callado: "callado k k' \<Longrightarrow> cumple 0 k k'"
  by (rule cumple_paga [OF paga_callado])

lemma cumple_crear: "crear_proceso prio k = (k', p) \<Longrightarrow> cumple 0 k k'"
  by (auto simp: crear_proceso_def Let_def cumple_def bueno_def pids_ok_def espera_ok_def deuda_def listos_def
      con_forma_def es_CMN_def cantidad_colas_def less_Suc_eq)

lemma cumple_anotar: "pr_cpu (procs k p) = Some c \<Longrightarrow> cumple 0 k (compactacion_anotar p k)"
  by (auto simp: compactacion_anotar_def cumple_def bueno_def pids_ok_def espera_ok_def deuda_def listos_def
      con_forma_def es_CMN_def cantidad_colas_def)

lemma cumple_fin_avisar: "fin_compactacion_avisar k = Some k' \<Longrightarrow> cumple 0 k k'"
  by (auto simp: fin_compactacion_avisar_def cumple_def bueno_def pids_ok_def espera_ok_def deuda_def listos_def
      con_forma_def es_CMN_def cantidad_colas_def enviar_codigo_def enviar_entero_def enviar_bytes_def Let_def
      split: option.splits)

lemma cumple_fin_compactacion: "cumple 0 k (fin_compactacion k)"
  by (rule cumple_paga) (simp add: paga_defs fin_compactacion_def split: option.split)

fun ficha :: "hilo \<Rightarrow> nat" where
  "ficha (Planificador_corto P_cpu) = 1"
| "ficha (Planificador_corto P_turno) = 1"
| "ficha (Planificador_corto P_despachar) = 1"
| "ficha (Cpu c (C_quantum_cpu d planificable)) = (if planificable then 1 else 0)"
| "ficha _ = 0"

definition fichas :: "hilo list \<Rightarrow> nat" where
  "fichas hs = sum_list (map ficha hs)"

lemma fichas_simps [simp]:
  "fichas [] = 0" "fichas (h # hs) = ficha h + fichas hs" "fichas (hs @ hs') = fichas hs + fichas hs'"
  by (simp_all add: fichas_def)

text \<open>What each step does: the tokens of its thread pay for the processes it makes ready.\<close>

definition avanza_bien :: "ks \<Rightarrow> hilo \<Rightarrow> ks \<Rightarrow> hilo list \<Rightarrow> bool" where
  "avanza_bien k h k' ns \<longleftrightarrow> (\<forall>N::nat. bueno k (int (ficha h + N)) \<longrightarrow> bueno k' (int (fichas ns + N)))"

lemma avanza_bienI:
  "cumple m k k' \<Longrightarrow> int (ficha h) + m \<le> int (fichas ns) \<Longrightarrow> avanza_bien k h k' ns"
  unfolding avanza_bien_def cumple_def by (fastforce simp: bueno_def)

lemma bien_plan:
  assumes a: "avanzar_plan d k = Sigue k' ns"
  shows "avanza_bien k (Planificador_corto d) k' ns"
proof (cases d)
  case P_despachar
  then obtain r where d: "despachar k = Some (k', r)" and ns: "ns = [Planificador_corto (case r of None \<Rightarrow> P_ready | Some (p, c, t) \<Rightarrow> P_enviar p c t)]"
    using a by (auto split: option.splits prod.splits)
  show ?thesis
  proof (cases r)
    case None
    from cumple_paga [OF paga_despachar(1) [OF d]] paga_despachar(2) [OF d None] show ?thesis
      by (auto simp: avanza_bien_def cumple_def bueno_def P_despachar ns None)
  next
    case (Some x)
    from cumple_paga [OF paga_despachar(1) [OF d]] show ?thesis
      by (intro avanza_bienI) (auto simp: P_despachar ns Some split: prod.splits)
  qed
next
  case P_ready
  then have "paga 1 k k'" "ns = [Planificador_corto P_cpu]" using a by (auto simp: paga_defs split: if_splits)
  with P_ready show ?thesis by (intro avanza_bienI [OF cumple_paga]) auto
next
  case (P_enviar p c t)
  have "paga 0 k (despachar_enviar p c k)"
    by (simp add: paga_defs despachar_enviar_def enviar_codigo_def enviar_entero_def enviar_bytes_def Let_def)
  with P_enviar a show ?thesis by (intro avanza_bienI [OF cumple_paga]) (auto split: option.splits)
next
  case P_cpu
  with a show ?thesis by (intro avanza_bienI [OF cumple_paga]) (auto split: if_splits intro: paga_varias)
next
  case P_turno
  with a show ?thesis by (intro avanza_bienI [OF cumple_paga]) (auto split: if_splits intro: paga_varias)
qed

lemma bien_libre: "cumple 0 k k' \<Longrightarrow> ficha h = 0 \<Longrightarrow> avanza_bien k h k' ns"
  using avanza_bienI [of 0 k k' h ns] of_nat_0_le_iff by simp

lemma cumple_recibe:
  "recibir_string s k = Some (k1, n) \<Longrightarrow> cumple 0 k1 k' \<Longrightarrow> cumple 0 k k'"
  by (blast intro: cumple_trans0 cumple_callado callado_recibir_string)

lemma bien_syscall:
  assumes i: "inv k (add_mset (R_hilo c (Ref p)) M)" and a: "atender_syscall c p tipo k = Sigue k' ns"
  shows "cumple 0 k k'"
proof -
  let ?s = "cp_socket (cpus k c)"
  define Q where "Q x \<longleftrightarrow> (\<forall>k' ns. x = Sigue k' ns \<longrightarrow> cumple 0 k k')" for x
  have Q [simp]: "Q Falla" "Q (Sigue k1 ns) \<longleftrightarrow> cumple 0 k k1" for k1 ns by (simp_all add: Q_def)
  have st: "inv k1 (add_mset (R_hilo c (Ref p)) M)" "cumple 0 k k1" "estado (procs k1 p) = EXEC"
    if "recibir_string ?s k = Some (k1, n)" for k1 n
    using inv_callado [OF i] callado_recibir_string [OF that] cumple_callado
      invD(3) [OF inv_callado [OF i callado_recibir_string [OF that]], of "R_hilo c (Ref p)"]
    by (auto simp: corre_def)
  have "cumple 0 k (fst (bloquear_proceso p k))" by (rule cumple_paga [OF paga_varias(1)])
  then have io: "Q (case bloquear_proceso p k of
      (k1, d, t) \<Rightarrow> Sigue k1 [Cpu c (C_bloqueado d (Some (p, io))), Timer_suspension t])" for io
    by (auto split: prod.split)
  have "cumple 0 k (fst (mutex_create_buscar ?s n k1))" if "recibir_string ?s k = Some (k1, n)" for k1 n
    by (rule cumple_trans0(1) [OF st(2) [OF that] cumple_callado [OF callado_mem(3)]])
  then have "Q (case recibir_string ?s k of None \<Rightarrow> Falla | Some (k1, n) \<Rightarrow>
      (case mutex_create_buscar ?s n k1 of (k2, seguir) \<Rightarrow> Sigue k2 [Cpu c (if seguir then C_mutex_agregar n else C_escucha)]))"
    by (force split: option.split prod.split)
  moreover have "cumple 0 k k2" if "recibir_string ?s k = Some (k1, n)" "manejar_mutex_lock p ?s n k1 = (k2, b)" for k1 k2 n b
    by (rule cumple_trans0(1) [OF st(2) [OF that(1)] cumple_paga [OF paga_mutex_lock [OF st(1) [OF that(1)] that(2)]]])
  then have "Q (case recibir_string ?s k of None \<Rightarrow> Falla | Some (k1, n) \<Rightarrow>
      (case manejar_mutex_lock p ?s n k1 of (k2, espera) \<Rightarrow> Sigue k2 [Cpu c (if espera then C_bloquear p else C_escucha)]))"
    by (force split: option.split prod.split)
  moreover have "cumple 0 k k2" if "recibir_string ?s k = Some (k1, n)" "manejar_mutex_unlock p ?s n k1 = (k2, r)" for k1 k2 n r
    by (rule cumple_trans0(1) [OF st(2) [OF that(1)]
          cumple_paga [OF paga_mutex_unlock [OF st(1) [OF that(1)] that(2) st(3) [OF that(1)]]]])
  then have "Q (case recibir_string ?s k of None \<Rightarrow> Falla | Some (k1, n) \<Rightarrow>
      (case manejar_mutex_unlock p ?s n k1 of (k2, None) \<Rightarrow> Sigue k2 [Cpu c C_escucha]
        | (k2, Some (q, e)) \<Rightarrow> Sigue k2 [Cpu c (C_mutex_mover q e)]))"
    by (force split: option.split prod.split)
  moreover have "Q (case init_proc_crear ?s k of None \<Rightarrow> Falla
      | Some (k1, q, path) \<Rightarrow> Sigue k1 [Cpu c (C_init_memoria q path)])"
    by (auto simp: init_proc_crear_def dest!: callado_recibir_string callado_recibir_o_cero cumple_callado cumple_crear
        intro: cumple_trans0 split: option.splits prod.splits)
  moreover have "Q (case manejar_mem_alloc p ?s k of (k1, Contestado) \<Rightarrow> Sigue k1 [Cpu c C_escucha]
      | (k1, Debe_compactar) \<Rightarrow> Sigue k1 [Cpu c (C_comp_esperar p)])"
    using cumple_callado [OF callado_mem(1), of k p ?s] by (auto split: resp_memoria.split prod.split)
  moreover have "Q (Sigue (manejar_mem_free p ?s k) [Cpu c C_escucha])"
    "Q (Sigue (enviar_codigo ?s OP_ERROR k) [Cpu c C_escucha])"
    using cumple_callado [OF callado_mem(2)] cumple_callado [OF callado_enviar(3)] by simp_all
  ultimately have "Q (atender_syscall c p tipo k)"
    unfolding atender_syscall_def Let_def using io
    by (cases "op_de_io tipo") (simp_all only: option.case split: if_split, simp_all)
  with a show ?thesis by (simp add: Q_def)
qed

lemma bien_quantum:
  assumes a: "avanzar_cpu c C_quantum k = Sigue k' ns"
  shows "avanza_bien k (Cpu c C_quantum) k' ns"
proof -
  obtain k1 v where r: "recibir_o_cero (cp_socket (cpus k c)) k = (k1, v)" by fastforce
  obtain k2 x where m: "manejar_fin_quantum v k1 = (k2, x)" by fastforce
  have "cumple (case x of Some (d, True) \<Rightarrow> 1 | _ \<Rightarrow> 0) k k2"
    by (rule cumple_trans0(2) [OF cumple_callado [OF callado_recibir_o_cero [OF r]] cumple_paga [OF paga_fin_quantum [OF m]]])
  moreover have "k' = k2" using a r m by (auto split: option.splits prod.splits)
  ultimately show ?thesis using a r m
    by (intro avanza_bienI) (auto split: option.splits prod.splits bool.splits)
qed

lemma bien_liberar:
  assumes "liberar_cpu c d f sig = Sigue k' ns" "\<And>e. cumple (- int n) k (f e)" "ficha h = n" "ficha (Cpu c sig) = 0"
  shows "avanza_bien k h k' ns"
  using assms by (intro avanza_bienI [of "- int n"]) (auto simp: liberar_cpu_def split: option.splits)

lemma cumple_lee:
  "recibir_o_cero s k = (k1, v) \<Longrightarrow> cumple 0 k1 k' \<Longrightarrow> cumple 0 k k'"
  by (blast intro: cumple_trans0 cumple_callado callado_recibir_o_cero)

lemma bien_cpu:
  assumes i: "inv k (recursos_cpu c d + M)" and a: "avanzar_cpu c d k = Sigue k' ns"
  shows "avanza_bien k (Cpu c d) k' ns"
proof -
  have q: "\<forall>e b. d \<noteq> C_quantum_cpu e b \<Longrightarrow> ficha (Cpu c d) = 0" by (cases d) auto
  note L = bien_libre [OF _ q] and P = cumple_paga and V = cumple_callado
  show ?thesis
  proof (cases d)
    case C_escucha
    with a show ?thesis
      by (intro L) (auto dest!: callado_recibir intro: V split: prod.splits option.splits)
  next
    case C_verificar
    with a show ?thesis by (intro L) (auto intro: P paga_varias)
  next
    case C_exit
    then obtain k1 v where r: "recibir_o_cero (cp_socket (cpus k c)) k = (k1, v)" by fastforce
    have "cumple 0 k (fst (salir_de_exec v k1))" by (rule cumple_lee [OF r P [OF paga_varias(4)]])
    then show ?thesis using a C_exit r by (intro L) (auto split: prod.splits option.splits)
  next
    case (C_exit_memoria v e)
    with a show ?thesis by (intro L) (auto intro: V callado_pedir)
  next
    case (C_exit_mutex v e)
    with a i show ?thesis by (intro L) (auto intro: P paga_liberar_mutex)
  next
    case (C_exit_cpu e)
    with a show ?thesis by (auto intro!: bien_liberar [where n = 0] P paga_varias)
  next
    case C_quantum
    with a show ?thesis using bien_quantum by auto
  next
    case (C_quantum_cpu e b)
    have "cumple (- int (if b then 1 else 0)) k (fin_quantum_cpu x b k)" for x
      using P [OF paga_fin_quantum_cpu [of b k x]] by (cases b) simp_all
    then show ?thesis using a C_quantum_cpu by (auto intro!: bien_liberar)
  next
    case C_syscall
    obtain k1 v where r: "recibir_o_cero (cp_socket (cpus k c)) k = (k1, v)" by fastforce
    obtain k2 t where r2: "recibir_o_cero (cp_socket (cpus k c)) k1 = (k2, t)" by fastforce
    have "cumple 0 k k2" by (rule cumple_lee [OF r V [OF callado_recibir_o_cero [OF r2]]])
    with a C_syscall r r2 show ?thesis by (intro L) (auto split: option.splits)
  next
    case (C_atender p t)
    with a i show ?thesis by (intro L) (auto intro: bien_syscall)
  next
    case (C_bloquear p)
    with a P [OF paga_varias(1), of k p] show ?thesis by (intro L) (auto split: prod.splits)
  next
    case (C_bloqueado e s)
    with a show ?thesis by (auto intro!: bien_liberar [where n = 0] P paga_varias split: option.splits)
  next
    case (C_pedir_io p io)
    with a show ?thesis by (intro L) (auto intro: P paga_manejar_io)
  next
    case (C_mutex_agregar n)
    with a show ?thesis
      by (intro L) (auto simp: mutex_create_agregar_def intro!: P paga_trans0(1) [OF paga_varias(15) paga_enviar])
  next
    case (C_mutex_mover q' e)
    with a show ?thesis
      by (intro L) (auto simp: mutex_unlock_mover_def intro!: P paga_trans0(1) [OF paga_despertar paga_enviar])
  next
    case (C_init_memoria p path)
    obtain k1 ok where r: "init_proc_memoria (cp_socket (cpus k c)) p path k = (k1, ok)" by fastforce
    have "callado k k1"
      using r by (auto simp: init_proc_memoria_def pedir_creacion_def split: prod.splits if_splits
          intro: callado_trans callado_enviar dest!: callado_pedir_memoria)
    with a C_init_memoria r show ?thesis by (intro L) (auto intro: V)
  next
    case (C_init_new p)
    with a show ?thesis by (intro L) (auto intro: P paga_varias)
  next
    case (C_init_ready p)
    with a show ?thesis by (intro L) (auto intro: P paga_init_ready)
  next
    case (C_comp_esperar p)
    then have "pr_cpu (procs k p) = Some c" using invD(3) [OF i, of "R_hilo c (Ref p)"] by (simp add: corre_def)
    with a C_comp_esperar show ?thesis by (intro L) (auto intro: cumple_anotar split: if_splits)
  next
    case (C_comp_bloquear p)
    with a show ?thesis by (intro L) (auto intro: P paga_varias)
  next
    case C_comp_desalojar
    with a show ?thesis by (intro L) (auto intro: V callado_desalojar_todas split: option.splits)
  next
    case C_comp_confirmar
    with a show ?thesis by (intro L) (auto simp: compactacion_confirmar_def intro: V callado_enviar)
  next
    case C_desconectar
    with a show ?thesis by (intro L) (auto intro: P paga_desconectar)
  qed
qed

lemma bien_dess:
  assumes "avanzar_dess ls d k = Some (k', r)"
  shows "cumple 0 k k'"
proof (cases d)
  case (D_pedir i)
  then obtain p ok where "dessuspender_pedir i k = Some (k', p, ok)"
    using assms by (auto split: option.splits prod.splits)
  then have "callado k k'"
    by (auto simp: dessuspender_pedir_def pedir_proceso_def Let_def split: if_splits prod.splits
        dest!: callado_pedir_memoria)
  then show ?thesis by (rule cumple_callado)
qed (use assms in \<open>auto intro: cumple_paga paga_mover paga_varias\<close>)

lemma bien_io:
  assumes a: "avanzar_io ls tipo s d k = Sigue k' ns"
  shows "cumple 0 k k'"
proof (cases d)
  case I_tomar
  with a cumple_paga [OF paga_varias(9), of k tipo] show ?thesis by (auto split: prod.splits option.splits)
next
  case (I_fin p)
  with a cumple_paga [OF paga_varias(11), of k p] show ?thesis by (auto split: prod.splits)
next
  case (I_ejecutar p)
  with a show ?thesis by (auto intro: cumple_callado callado_ejecutar_io split: option.splits prod.splits)
next
  case (I_dess d')
  with a show ?thesis by (auto dest: bien_dess split: option.splits)
qed (use a in \<open>auto intro: cumple_paga paga_despertar paga_varias split: if_splits\<close>)

lemma bien_mem:
  assumes a: "avanzar_mem ls d k = Sigue k' ns" and l: "leal (Memoria d) hs k"
  shows "cumple 0 k k'"
proof (cases d)
  case M_escucha
  with a show ?thesis by (auto dest!: callado_recibir intro: cumple_callado split: prod.splits option.splits)
next
  case M_avisar
  with a show ?thesis by (auto intro: cumple_fin_avisar split: option.splits)
next
  case M_bsod
  with l show ?thesis by simp
next
  case M_fin
  with a show ?thesis by (auto intro: cumple_fin_compactacion)
next
  case (M_dess d')
  with a show ?thesis by (auto dest: bien_dess split: option.splits)
qed

lemma bien_conectar: "conectar_cpu s k = (k', c) \<Longrightarrow> cumple 0 k k'"
  by (auto simp: conectar_cpu_def Let_def agregar_cpu_libre_def dest!: callado_recibir_o_cero cumple_callado
      split: prod.splits) (auto simp: cumple_def bueno_def pids_ok_def espera_ok_def deuda_def listos_def
      con_forma_def es_CMN_def cantidad_colas_def enviar_codigo_def enviar_entero_def enviar_bytes_def)

lemma bien_cliente: "procesar_cliente s k = Sigue k' ns \<Longrightarrow> cumple 0 k k'"
  by (auto simp: procesar_cliente_def dest!: callado_recibir cumple_callado
      split: prod.splits option.splits if_splits intro: cumple_trans0(1) cumple_callado callado_enviar)

lemma bien_avanzar:
  assumes i: "inv k (recursos h + M)" and l: "leal h hs k" and a: "avanzar ls h k = Sigue k' ns"
  shows "avanza_bien k h k' ns"
proof (cases h)
  case (Planificador_corto d)
  with a show ?thesis using bien_plan by simp
next
  case (Cpu c d)
  with i a show ?thesis using bien_cpu by simp
next
  case (Io tipo s d)
  with a show ?thesis by (auto intro: bien_libre bien_io)
next
  case (Memoria d)
  with a l show ?thesis by (auto intro: bien_libre bien_mem)
next
  case (Quantum t)
  with a cumple_paga [OF paga_varias(6), of k t] show ?thesis by (auto intro: bien_libre split: prod.splits)
next
  case (Timer_suspension t)
  with a cumple_paga [OF paga_varias(7), of k t] show ?thesis by (auto intro: bien_libre split: prod.splits)
next
  case (Conexion_cpu s)
  with a show ?thesis by (auto intro: bien_libre bien_conectar split: prod.splits)
next
  case (Conexion_io s)
  with a show ?thesis
    by (intro bien_libre) (auto simp: conectar_io_def dest!: callado_recibir_o_cero
        intro: cumple_callado callado_trans callado_enviar split: prod.splits option.splits)
next
  case (Conexion s)
  with a show ?thesis by (auto intro: bien_libre bien_cliente)
next
  case (Avisar_quantum t)
  with a show ?thesis by (intro bien_libre) (auto simp: avisar_quantum_def intro: cumple_callado callado_interrumpir)
next
  case (Suspender p)
  with a show ?thesis by (intro bien_libre) (auto intro: cumple_callado callado_pedir)
qed

lemma bueno_inicial: "bueno (inicializar_estructuras alg algs desalojo s1 s2 ent) 0"
  by (auto simp: bueno_def pids_ok_def espera_ok_def deuda_def listos_def con_forma_def es_CMN_def cantidad_colas_def
      inicializar_estructuras_def)

lemma cumple_arrancar: "cumple 0 k (fst (arrancar k path))"
proof -
  obtain k1 p where c: "crear_proceso 0 k = (k1, p)" by fastforce
  have "cumple 0 k1 (mover_proceso_a_ready p (agregar_new p (fst (pedir_creacion (pid (procs k1 p)) path k1))))"
    by (rule cumple_trans0(1) [OF cumple_trans0(1) [OF cumple_callado [OF callado_pedir(3)] cumple_paga [OF paga_varias(3)]]
          cumple_paga [OF paga_mover(1)]])
  then show ?thesis using cumple_trans0(2) [OF cumple_crear [OF c]] c
    by (simp add: arrancar_def crear_proceso_inicial_def)
qed

lemma bueno_paso:
  assumes p: "paso_leal ls (k, hs) (k', hs')" and i: "inv k (todos hs)" and b: "bueno k (int (fichas hs))"
  shows "bueno k' (int (fichas hs'))"
  using p
proof cases
  case (hilo h ns hs1 hs2)
  have "inv k (recursos h + todos (hs1 @ hs2))" using i hilo by (simp add: ac_simps)
  from bien_avanzar [OF this, of "hs1 @ hs2" ls k' ns] hilo b show ?thesis
    by (auto simp: avanza_bien_def ac_simps dest!: spec [of _ "fichas hs1 + fichas hs2"])
next
  case (tiempo r)
  with b cumple_paga [OF paga_varias(14), of k r] show ?thesis by (auto simp: cumple_def)
qed (use b in simp)

lemma bueno_alcanzable_ks:
  assumes ls: "list_sort_ok ls" and a: "alcanzable_ks ls (k, hs)"
  shows "bueno k (int (fichas hs))"
proof -
  obtain alg algs desalojo s_mem s_not ent path x where
    m: "main_ks (inicializar_estructuras alg algs desalojo s_mem s_not ent) path = Some x"
    and p: "(paso_leal ls)\<^sup>*\<^sup>* x (k, hs)"
    using a unfolding alcanzable_ks_def by blast
  obtain k1 where c: "callado (inicializar_estructuras alg algs desalojo s_mem s_not ent) k1" and x: "x = arrancar k1 path"
    by (rule main_ks_callado [OF m])
  have "cumple 0 (inicializar_estructuras alg algs desalojo s_mem s_not ent) (fst (arrancar k1 path))"
    by (rule cumple_trans0(2) [OF cumple_callado [OF c] cumple_arrancar])
  then have b: "bueno (fst x) (int (fichas (snd x)))"
    using bueno_inicial by (auto simp: cumple_def x arrancar_def)
  have i: "inv (fst x) (todos (snd x))"
    unfolding x by (rule inv_arrancar [OF inv_callado [OF inv_inicial c]])
  obtain k0 hs0 where y: "x = (k0, hs0)" by (cases x)
  from p have "bueno k (int (fichas hs)) \<and> inv k (todos hs)" unfolding y
    using b i y
  proof (induction rule: rtranclp_induct2)
    case (step k1 hs1 k2 hs2)
    then show ?case using bueno_paso inv_paso_leal [OF _ ls] by fastforce
  qed simp
  then show ?thesis ..
qed

end
