(* ===== verification/PropiedadesKS.thy ===== *)
theory PropiedadesKS
  imports FichasKS
begin

text \<open>
  The properties of all the threads of the Kernel Scheduler, each one applied to the states of
  \<open>EjecucionKS\<close>.  They hold in every state of \<open>alcanzable_ks\<close>, whatever the order in which the
  threads advance: those reached from \<open>main\<close>, with any configuration and any bytes on the
  sockets, by steps in which a CPU that says that a process ends, loses its quantum or makes a
  system call speaks of the process it runs, Kernel Memory announces the end of a compaction
  only when there is one and no corruption, and no second thread starts to resume processes
  while one does.  \<open>CarrerasKS\<close> shows what happens without the last condition.
\<close>

section \<open>The concrete states\<close>

lemma ver_estados:
  "ver estado_listo =
     \<lparr>v_cmn = True, v_exec = [0], v_ready = [[], [1]], v_block = [], v_libres = [], v_mutex = [(''m'', - 1, [])],
      v_procs = [(EXEC, Some 0, 0), (READY, None, 1)], v_planificar = (False, 1, 1),
      v_hilos = [Planificador_corto P_ready, Quantum 0, Memoria M_escucha, Cpu 0 C_escucha]\<rparr>"
  "ver estado_espera =
     \<lparr>v_cmn = True, v_exec = [1], v_ready = [[], []], v_block = [0], v_libres = [0], v_mutex = [(''m'', 1, [0])],
      v_procs = [(BLOCK, None, 0), (EXEC, Some 1, 0)], v_planificar = (False, 1, 0),
      v_hilos = [Planificador_corto P_ready, Quantum 0, Memoria M_escucha, Cpu 0 C_escucha,
        Timer_suspension 1, Cpu 1 C_escucha]\<rparr>"
  "ver estado_compactacion =
     \<lparr>v_cmn = True, v_exec = [1], v_ready = [[], []], v_block = [0], v_libres = [], v_mutex = [],
      v_procs = [(BLOCK, None, 0), (EXEC, Some 1, 1)], v_planificar = (True, 0, 0),
      v_hilos = [Planificador_corto P_ready, Quantum 0, Memoria M_escucha, Cpu 0 C_comp_desalojar,
        Cpu 1 C_escucha]\<rparr>"
  "ver estado_desconexion =
     \<lparr>v_cmn = True, v_exec = [], v_ready = [[0], []], v_block = [], v_libres = [], v_mutex = [],
      v_procs = [(READY, None, 0)], v_planificar = (False, 0, 0),
      v_hilos = [Planificador_corto P_despachar, Memoria M_escucha]\<rparr>"
  using ver_desconexion ver_listo ver_espera ver_compactacion by (auto simp: estado_desconexion_def estado_listo_def estado_espera_def estado_compactacion_def)

lemma ver_campos:
  assumes "ver (k, hs) = v"
  shows "lista_exec k = v_exec v" "colas_ready k = v_ready v" "lista_block k = v_block v"
    "lista_cpus_libres k = v_libres v" "compactando k = fst (v_planificar v)"
    "sem_puede_planificar k = fst (snd (v_planificar v))" "sem_hay_procesos_ready k = snd (snd (v_planificar v))"
    "hs = v_hilos v" "map (\<lambda>p. (estado (procs k p), pr_cpu (procs k p), prioridad (procs k p))) [0..<prox_proc k] = v_procs v"
    "es_CMN k = v_cmn v"
  using assms by (auto simp: ver_def)

lemma v_procs_campos:
  assumes "map (\<lambda>p. (estado (procs k p), pr_cpu (procs k p), prioridad (procs k p))) [0..<prox_proc k] = v"
  shows "prox_proc k = length v" "p < length v \<Longrightarrow> estado (procs k p) = fst (v ! p)"
    "p < length v \<Longrightarrow> pr_cpu (procs k p) = fst (snd (v ! p))" "p < length v \<Longrightarrow> prioridad (procs k p) = snd (snd (v ! p))"
  by (auto simp: assms [symmetric])

lemma alcanzables:
  "alcanzable_ks ordenar_insercion (fst estado_listo, snd estado_listo)"
  "alcanzable_ks ordenar_insercion (fst estado_espera, snd estado_espera)"
  "alcanzable_ks ordenar_insercion (fst estado_compactacion, snd estado_compactacion)"
  "alcanzable_ks ordenar_insercion (fst estado_desconexion, snd estado_desconexion)"
  using estados_alcanzables by simp_all

lemmas en_listo = ver_campos [of "fst estado_listo" "snd estado_listo", simplified, OF ver_estados(1), simplified]
lemmas en_espera = ver_campos [of "fst estado_espera" "snd estado_espera", simplified, OF ver_estados(2), simplified]
lemmas en_compactacion = ver_campos [of "fst estado_compactacion" "snd estado_compactacion", simplified, OF ver_estados(3), simplified]


lemmas procs_en_listo = v_procs_campos [OF en_listo(9), simplified]
lemmas procs_en_espera = v_procs_campos [OF en_espera(9), simplified]
lemmas procs_en_compactacion = v_procs_campos [OF en_compactacion(9), simplified]

section \<open>In every reachable state\<close>

text \<open>C2: Every list of the scheduler holds exactly the processes in its state, each one once: the
  running ones, the blocked ones, the ready ones in the queues, the suspended ones.  It is so
  after any interleaving of the threads in which the CPUs and Kernel Memory keep the protocol
  and at most one thread at a time resumes suspended processes (the steps of \<open>leal\<close>).\<close>

theorem procesos_en_su_lista:
  assumes "list_sort_ok ls" "alcanzable_ks ls (k, hs)"
  shows "distinct (lista_de e k) \<and> (\<forall>p \<in> set (lista_de e k). p < prox_proc k \<and> estado (procs k p) = e) \<and>
    (e \<noteq> NEW \<and> e \<noteq> EXIT_STATE \<longrightarrow> set (lista_de e k) = {p. p < prox_proc k \<and> estado (procs k p) = e})"
  using lugarD [OF invD(1) [OF inv_alcanzable_ks [OF assms]]] by blast

lemma procesos_en_su_lista_ejemplo:
  "lista_block (fst estado_espera) = [0] \<and>
   {0} = {p. p < prox_proc (fst estado_espera) \<and> estado (procs (fst estado_espera) p) = BLOCK}"
  using procesos_en_su_lista [OF list_sort_ok_insercion alcanzables(2), of BLOCK] en_espera(3)
  by simp

text \<open>C4: No CPU runs two processes: each running process has a CPU of its own, which is not in the
  list of the free ones, and no CPU is twice in that list, in every state reached with the steps
  of \<open>leal\<close>.\<close>

theorem una_cpu_un_proceso:
  assumes "list_sort_ok ls" "alcanzable_ks ls (k, hs)"
  shows "distinct (lista_cpus_libres k) \<and>
    (\<forall>p < prox_proc k. estado (procs k p) = EXEC \<longrightarrow>
       (\<exists>c < prox_cpu k. pr_cpu (procs k p) = Some c \<and> c \<notin> set (lista_cpus_libres k) \<and>
          (\<forall>q < prox_proc k. estado (procs k q) = EXEC \<and> pr_cpu (procs k q) = Some c \<longrightarrow> q = p)))"
proof -
  have i: "inv_cpus k (todos hs)" by (rule invD(7) [OF inv_alcanzable_ks [OF assms]])
  have c: "count (image_mset Some A) (Some c) = count A c" for A :: "nat multiset" and c by (induction A) auto
  have "count (mset (lista_cpus_libres k)) c \<le> count (sin_correr k (todos hs)) (Some c)" for c
    by (simp add: sin_correr_def c)
  with i have le: "count (mset (lista_cpus_libres k)) c \<le> 1" for c unfolding inv_cpus_def by (meson order_trans)
  have "count (mset (lista_cpus_libres k)) c = (if c \<in> set (lista_cpus_libres k) then 1 else 0)" for c
  proof (cases "c \<in> set (lista_cpus_libres k)")
    case True
    then have "0 < count (mset (lista_cpus_libres k)) c" by simp
    with le [of c] have "count (mset (lista_cpus_libres k)) c = 1" by linarith
    with True show ?thesis by simp
  qed (simp add: count_mset_0_iff)
  then have "distinct (lista_cpus_libres k)" by (simp add: distinct_count_atmost_1)
  moreover have "Some c \<in># sin_correr k (todos hs)" if "c \<in> set (lista_cpus_libres k)" for c
    using that by (simp add: sin_correr_def)
  ultimately show ?thesis using i unfolding inv_cpus_def corre_def by blast
qed

lemma una_cpu_un_proceso_ejemplo:
  "distinct [0::nat] \<and> pr_cpu (procs (fst estado_espera) 1) = Some 1 \<and> 1 \<notin> set (lista_cpus_libres (fst estado_espera)) \<and>
   pr_cpu (procs (fst estado_espera) 0) = None"
proof -
  obtain c where "pr_cpu (procs (fst estado_espera) 1) = Some c" "c \<notin> set (lista_cpus_libres (fst estado_espera))"
    using una_cpu_un_proceso [OF list_sort_ok_insercion alcanzables(2)] procs_en_espera(1) procs_en_espera(2) [of 1]
    by auto
  then show ?thesis using procs_en_espera(3) [of 0] procs_en_espera(3) [of 1] by simp
qed

text \<open>The threads that have taken \<open>sem_puede_planificar\<close> and not given it back.\<close>

fun con_turno :: "hilo \<Rightarrow> bool" where
  "con_turno (Planificador_corto P_despachar) = True"
| "con_turno (Planificador_corto (P_enviar p c t)) = True"
| "con_turno (Memoria M_avisar) = True"
| "con_turno (Cpu c (C_comp_bloquear p)) = True"
| "con_turno _ = False"

lemma turnos_cpu: "turnos (recursos_cpu c d) = (if con_turno (Cpu c d) then 1 else 0)"
  by (induction c d rule: recursos_cpu.induct) auto

lemma turnos_recursos: "turnos (recursos h) = (if con_turno h then 1 else 0)"
proof (induction h rule: recursos.induct)
  case (4 tipo s d)
  have "turnos (recursos_dess x) = 0" for x by (cases x) auto
  then show ?case by (cases d) auto
next
  case (7 d)
  then show ?case by (cases d) auto
qed (simp_all add: turnos_cpu)

lemma turnos_todos: "turnos (todos hs) = length (filter con_turno hs)"
  by (induction hs) (simp_all add: turnos_recursos)

text \<open>C10: The planner and a compaction exclude each other: of \<open>sem_puede_planificar\<close>, the threads
  between taking it and giving it back, and the compaction in progress, there is at most one;
  while Kernel Memory compacts, no process can be dispatched, and the one that asked for the
  memory is blocked.  It is so in every state reached with the steps of \<open>leal\<close>: the CPUs and
  Kernel Memory keep the protocol, no memory is corrupt, and at most one thread at a time
  resumes suspended processes.  The executions in which two threads resume the same process
  (\<open>CarrerasKS.proceso_doble\<close>) are outside the property.\<close>

theorem planificador_detenido:
  assumes "list_sort_ok ls" "alcanzable_ks ls (k, hs)"
  shows "sem_puede_planificar k + length (filter con_turno hs) + (if compactando k then 1 else 0) \<le> 1 \<and>
    (compactando k \<longrightarrow>
       (\<exists>p. proceso_esperando_memoria k = Some p \<and> p < prox_proc k \<and> estado (procs k p) = BLOCK))"
  using invD(5) [OF inv_alcanzable_ks [OF assms]] by (simp add: inv_comp_def turnos_todos)

lemma planificador_detenido_ejemplo:
  "compactando (fst estado_compactacion) \<and> sem_puede_planificar (fst estado_compactacion) = 0 \<and>
   (\<exists>p < 2. proceso_esperando_memoria (fst estado_compactacion) = Some p \<and> estado (procs (fst estado_compactacion) p) = BLOCK)"
  using planificador_detenido [OF list_sort_ok_insercion alcanzables(3)] en_compactacion(5) procs_en_compactacion(1)
  by auto

text \<open>C35: The types of the state, in every state reached with the steps of \<open>leal\<close> (the CPUs and Kernel
  Memory keep the protocol, no memory is corrupt, and at most one thread at a time resumes
  suspended processes, without which a process can be in two queues): with \<open>CMN\<close> there is a queue for each configured algorithm, each
  process waits in the queue of its current priority, and with the other algorithms there are
  none; the pid of a process is its number.\<close>

theorem colas_con_forma:
  assumes "list_sort_ok ls" "alcanzable_ks ls (k, hs)"
  shows "length (colas_ready k) = (if es_CMN k then cantidad_colas k else 0) \<and>
    (\<forall>i < length (colas_ready k). \<forall>p \<in> set (colas_ready k ! i).
       prioridad (procs k p) = int i \<and> estado (procs k p) = READY) \<and>
    proximo_pid k = int (prox_proc k) \<and> (\<forall>p < prox_proc k. pid (procs k p) = int p)"
proof -
  have l: "lugar {} k" by (rule invD(1) [OF inv_alcanzable_ks [OF assms]])
  have "p \<in> set (lista_de READY k)" if "i < length (colas_ready k)" "p \<in> set (colas_ready k ! i)" for i p
    using that by (rule en_cola_ready)
  then show ?thesis
    using l lugarD(4) [OF l] bueno_alcanzable_ks [OF assms]
    by (auto simp: lugar_def colas_ok_def bueno_def pids_ok_def)
qed

lemma colas_con_forma_ejemplo:
  "length (colas_ready (fst estado_espera)) = 2 \<and> proximo_pid (fst estado_espera) = 2 \<and>
   pid (procs (fst estado_espera) 1) = 1"
  using colas_con_forma [OF list_sort_ok_insercion alcanzables(2)] en_espera(2) procs_en_espera(1) by simp



section \<open>What the program leaves undefined\<close>









end
