(* ===== verification/CerrojoKS.thy ===== *)
theory CerrojoKS
  imports InvariantePasos
begin

text \<open>
  What a mutex promises, as the locale \<open>cerrojo\<close>: a line of processes whose head is the owner.
  Asking for it joins the end of the line and releasing it takes the head out, whatever else
  the operations do to the state, and the operations on other mutexes leave the line alone.  The
  mutexes of the Kernel Scheduler are an instance.
\<close>

section \<open>The contract\<close>

text \<open>The line of a mutex, and what an operation does to it.\<close>

fun fila :: "'v option \<Rightarrow> 'v list \<Rightarrow> 'v list" where
  "fila None qs = []"
| "fila (Some d) qs = d # qs"

datatype 'v uso = Pide 'v | Suelta | Ajeno

text \<open>The abstract mutex: a queue.\<close>

fun en_cola :: "'v uso \<Rightarrow> 'v list \<Rightarrow> 'v list" where
  "en_cola (Pide v) vs = vs @ [v]"
| "en_cola Suelta vs = tl vs"
| "en_cola Ajeno vs = vs"

locale cerrojo =
  fixes valido :: "'s \<Rightarrow> bool" and hace :: "'o \<Rightarrow> 's \<Rightarrow> 's" and uso :: "'o \<Rightarrow> 'v uso"
    and dueno :: "'s \<Rightarrow> 'v option" and espera :: "'s \<Rightarrow> 'v list"
  assumes hace_valido: "valido s \<Longrightarrow> valido (hace x s)"
    and sin_dueno: "valido s \<Longrightarrow> dueno s = None \<Longrightarrow> espera s = []"
    and pide_libre: "valido s \<Longrightarrow> uso x = Pide v \<Longrightarrow> dueno s = None \<Longrightarrow>
      dueno (hace x s) = Some v \<and> espera (hace x s) = []"
    and pide_ocupado: "valido s \<Longrightarrow> uso x = Pide v \<Longrightarrow> dueno s = Some d \<Longrightarrow>
      dueno (hace x s) = Some d \<and> espera (hace x s) = espera s @ [v]"
    and suelta_libre: "valido s \<Longrightarrow> uso x = Suelta \<Longrightarrow> espera s = [] \<Longrightarrow> dueno (hace x s) = None"
    and suelta_cede: "valido s \<Longrightarrow> uso x = Suelta \<Longrightarrow> espera s = q # qs \<Longrightarrow>
      dueno (hace x s) = Some q \<and> espera (hace x s) = qs"
    and ajeno: "valido s \<Longrightarrow> uso x = Ajeno \<Longrightarrow> dueno (hace x s) = dueno s \<and> espera (hace x s) = espera s"
begin

lemma fila_hace:
  assumes "valido s"
  shows "fila (dueno (hace x s)) (espera (hace x s)) = en_cola (uso x) (fila (dueno s) (espera s))"
proof (cases "uso x")
  case (Pide v)
  then show ?thesis
    using assms sin_dueno [OF assms] by (cases "dueno s") (simp_all add: pide_libre pide_ocupado)
next
  case Suelta
  then show ?thesis
    using assms by (cases "espera s"; cases "dueno s") (auto simp: suelta_libre suelta_cede dest: sin_dueno)
next
  case Ajeno
  then show ?thesis using assms by (simp add: ajeno)
qed

lemma refina_cola:
  "valido s \<Longrightarrow>
   fila (dueno (fold hace xs s)) (espera (fold hace xs s)) =
     fold (\<lambda>x. en_cola (uso x)) xs (fila (dueno s) (espera s))"
  by (induction xs arbitrary: s) (simp_all add: hace_valido fila_hace)

end

section \<open>The mutexes of the Kernel Scheduler\<close>

definition dueno_ks :: "string \<Rightarrow> ks \<Rightarrow> int option" where
  "dueno_ks n k =
     (case buscar_mutex n k of
        None \<Rightarrow> None
      | Some i \<Rightarrow> if pid_dueno (lista_mutex k ! i) = - 1 then None else Some (pid_dueno (lista_mutex k ! i)))"

definition espera_ks :: "string \<Rightarrow> ks \<Rightarrow> int list" where
  "espera_ks n k =
     (case buscar_mutex n k of
        None \<Rightarrow> []
      | Some i \<Rightarrow> map (\<lambda>p. pid (procs k p)) (cola_espera (lista_mutex k ! i)))"

definition mutex_valido :: "string \<Rightarrow> (nat \<Rightarrow> int) \<Rightarrow> ks \<Rightarrow> bool" where
  "mutex_valido n v k \<longleftrightarrow>
     (\<exists>i. buscar_mutex n k = Some i \<and>
        (pid_dueno (lista_mutex k ! i) = - 1 \<longrightarrow> cola_espera (lista_mutex k ! i) = [])) \<and>
     (\<forall>p. pid (procs k p) = v p \<and> 0 \<le> v p)"

lemma buscar_nombre_update:
  "buscar_nombre i n ms = Some j \<Longrightarrow> nombre m = n \<Longrightarrow> buscar_nombre i n (ms[j - i := m]) = Some j"
proof (induction ms arbitrary: i)
  case (Cons m0 ms)
  show ?case
  proof (cases "nombre m0 = n")
    case False
    with Cons.prems have b: "buscar_nombre (Suc i) n ms = Some j" by simp
    from buscar_nombre_Some [OF this] have "j - i = Suc (j - Suc i)" by linarith
    then show ?thesis using Cons.IH [OF b Cons.prems(2)] False by simp
  qed (use Cons.prems in auto)
qed simp

lemma buscar_mutex_poner:
  "buscar_mutex n k = Some i \<Longrightarrow> nombre m = n \<Longrightarrow> buscar_mutex n (poner_mutex i m k) = Some i"
  using buscar_nombre_update [of 0 n "lista_mutex k" i m] by (simp add: buscar_mutex_def poner_mutex_def)

lemma buscar_mutex_nombre: "buscar_mutex n k = Some i \<Longrightarrow> nombre (lista_mutex k ! i) = n"
  using buscar_nombre_Some [of 0 n "lista_mutex k" i] by (simp add: buscar_mutex_def)

text \<open>What the operations around the queue leave as it was.\<close>

definition mismo_mutex :: "ks \<Rightarrow> ks \<Rightarrow> bool" where
  "mismo_mutex k k' \<longleftrightarrow> lista_mutex k' = lista_mutex k \<and> (\<forall>p. pid (procs k' p) = pid (procs k p))"

lemma mismo_mutex_trans: "mismo_mutex k k' \<Longrightarrow> mismo_mutex k' k'' \<Longrightarrow> mismo_mutex k k''"
  by (simp add: mismo_mutex_def)

lemma mismo_mutex_ops:
  "mismo_mutex k k" "mismo_mutex k (enviar_codigo s c k)" "mismo_mutex k (cancelar_timer q k)"
  "mismo_mutex k (devolver_prioridad p k)" "mismo_mutex k (aplicar_herencia p m k)"
proof -
  have e: "mismo_mutex k (fst (encolar_en_ready p k))" for p k
    using callado_campos(1,16) [OF callado_desalojar]
    by (simp add: mismo_mutex_def encolar_en_ready_def Let_def)
  have "mismo_mutex k (poner_prioridad p v (k\<lparr>colas_ready := xs\<rparr>))" for v xs
    by (simp add: mismo_mutex_def poner_prioridad_def modificar_def)
  then show "mismo_mutex k (aplicar_herencia p m k)"
    by (auto simp: aplicar_herencia_def Let_def intro: mismo_mutex_trans e)
      (simp_all add: mismo_mutex_def poner_prioridad_def modificar_def)
qed (simp_all add: mismo_mutex_def callado_campos(1,16) [OF callado_enviar(3)] cancelar_timer_def modificar_def
    devolver_prioridad_def poner_prioridad_def Let_def)

lemma mutex_valido_mismo: "mismo_mutex k k' \<Longrightarrow> mutex_valido n v k' = mutex_valido n v k"
  by (simp add: mutex_valido_def mismo_mutex_def buscar_mutex_def)

lemma vista_mismo: "mismo_mutex k k' \<Longrightarrow> dueno_ks n k' = dueno_ks n k \<and> espera_ks n k' = espera_ks n k"
  by (simp add: dueno_ks_def espera_ks_def mismo_mutex_def buscar_mutex_def split: option.split)

text \<open>What the two operations do to the mutex they find.\<close>

lemma efecto_lock:
  assumes b: "buscar_mutex n k = Some i"
  shows "\<exists>m. mismo_mutex (poner_mutex i m k) (fst (manejar_mutex_lock p s n k)) \<and>
    m = (if pid_dueno (lista_mutex k ! i) = - 1 then (lista_mutex k ! i)\<lparr>pid_dueno := pid (procs k p)\<rparr>
         else (lista_mutex k ! i)\<lparr>cola_espera := cola_espera (lista_mutex k ! i) @ [p]\<rparr>)"
  using b by (auto simp: manejar_mutex_lock_def Let_def split: option.split
      intro: mismo_mutex_ops mismo_mutex_trans)

lemma mismo_mutex_ceder: "mismo_mutex k (cancelar_timer q (aplicar_herencia r m (devolver_prioridad p k)))"
  by (rule mismo_mutex_trans [OF mismo_mutex_trans [OF mismo_mutex_ops(4) mismo_mutex_ops(5)] mismo_mutex_ops(3)])

lemma efecto_unlock:
  assumes b: "buscar_mutex n k = Some i"
  shows "\<exists>m. mismo_mutex (poner_mutex i m k) (fst (manejar_mutex_unlock p s n k)) \<and>
    m = (case cola_espera (lista_mutex k ! i) of
           [] \<Rightarrow> (lista_mutex k ! i)\<lparr>pid_dueno := - 1\<rparr>
         | q # qs \<Rightarrow> (lista_mutex k ! i)\<lparr>pid_dueno := pid (procs k q), cola_espera := qs\<rparr>)"
  using b mismo_mutex_ceder
  by (auto simp: manejar_mutex_unlock_def Let_def split: list.split intro: mismo_mutex_ops mismo_mutex_trans)

lemma vista_poner:
  assumes b: "buscar_mutex n k = Some i" and m: "nombre m = n"
  shows "dueno_ks n (poner_mutex i m k) = (if pid_dueno m = - 1 then None else Some (pid_dueno m))"
    "espera_ks n (poner_mutex i m k) = map (\<lambda>p. pid (procs k p)) (cola_espera m)"
    "mutex_valido n v (poner_mutex i m k) \<longleftrightarrow>
       (pid_dueno m = - 1 \<longrightarrow> cola_espera m = []) \<and> (\<forall>p. pid (procs k p) = v p \<and> 0 \<le> v p)"
  using buscar_mutex_poner [OF b m] buscar_mutex_rango [OF b]
  by (simp_all add: dueno_ks_def espera_ks_def mutex_valido_def poner_mutex_def)

lemma vista_actual:
  assumes b: "buscar_mutex n k = Some i"
  shows "dueno_ks n k = (if pid_dueno (lista_mutex k ! i) = - 1 then None else Some (pid_dueno (lista_mutex k ! i)))"
    "espera_ks n k = map (\<lambda>p. pid (procs k p)) (cola_espera (lista_mutex k ! i))"
    "mutex_valido n v k \<longleftrightarrow> (pid_dueno (lista_mutex k ! i) = - 1 \<longrightarrow> cola_espera (lista_mutex k ! i) = []) \<and>
       (\<forall>p. pid (procs k p) = v p \<and> 0 \<le> v p)"
  using b by (simp_all add: dueno_ks_def espera_ks_def mutex_valido_def)

lemma tras_lock:
  assumes v: "mutex_valido n v k" and k': "k' = fst (manejar_mutex_lock p s n k)"
  shows "mutex_valido n v k'"
    "dueno_ks n k = None \<Longrightarrow> dueno_ks n k' = Some (v p) \<and> espera_ks n k' = []"
    "dueno_ks n k = Some d \<Longrightarrow> dueno_ks n k' = Some d \<and> espera_ks n k' = espera_ks n k @ [v p]"
proof -
  obtain i where b: "buscar_mutex n k = Some i" using v by (auto simp: mutex_valido_def)
  let ?m = "lista_mutex k ! i"
  let ?m' = "if pid_dueno ?m = - 1 then ?m\<lparr>pid_dueno := pid (procs k p)\<rparr> else ?m\<lparr>cola_espera := cola_espera ?m @ [p]\<rparr>"
  have e: "mismo_mutex (poner_mutex i ?m' k) k'" using efecto_lock [OF b, of p s] k' by simp
  have n: "nombre ?m' = n" using buscar_mutex_nombre [OF b] by simp
  note V = v [unfolded vista_actual [OF b]] and P = vista_poner [OF b n]
  show "mutex_valido n v k'"
    using V unfolding mutex_valido_mismo [OF e] P by (auto split: if_splits)
  show "dueno_ks n k' = Some (v p) \<and> espera_ks n k' = []" if "dueno_ks n k = None"
  proof -
    have "pid_dueno ?m = - 1" using that by (simp add: vista_actual [OF b] split: if_splits)
    moreover from this have "cola_espera ?m = []" "pid (procs k p) = v p" "0 \<le> v p" using V by blast+
    ultimately show ?thesis using vista_mismo [OF e, of n] P by simp
  qed
  show "dueno_ks n k' = Some d \<and> espera_ks n k' = espera_ks n k @ [v p]" if "dueno_ks n k = Some d"
  proof -
    have "pid_dueno ?m = d" "d \<noteq> - 1" using that by (auto simp: vista_actual [OF b] split: if_splits)
    then show ?thesis using vista_mismo [OF e, of n] P V by (simp add: vista_actual [OF b])
  qed
qed

lemma tras_unlock:
  assumes v: "mutex_valido n v k" and k': "k' = fst (manejar_mutex_unlock p s n k)"
  shows "mutex_valido n v k'" "espera_ks n k = [] \<Longrightarrow> dueno_ks n k' = None"
    "espera_ks n k = q # qs \<Longrightarrow> dueno_ks n k' = Some q \<and> espera_ks n k' = qs"
proof -
  obtain i where b: "buscar_mutex n k = Some i" using v by (auto simp: mutex_valido_def)
  let ?m = "lista_mutex k ! i"
  let ?m' = "case cola_espera ?m of [] \<Rightarrow> ?m\<lparr>pid_dueno := - 1\<rparr> | q # qs \<Rightarrow> ?m\<lparr>pid_dueno := pid (procs k q), cola_espera := qs\<rparr>"
  have e: "mismo_mutex (poner_mutex i ?m' k) k'" using efecto_unlock [OF b, of p s] k' by simp
  have n: "nombre ?m' = n" using buscar_mutex_nombre [OF b] by (simp split: list.split)
  note V = v [unfolded vista_actual [OF b]] and P = vista_poner [OF b n]
  have pos: "v x \<noteq> - 1" for x
  proof -
    have "0 \<le> v x" using V by blast
    then show ?thesis by linarith
  qed
  show "mutex_valido n v k'" "espera_ks n k = [] \<Longrightarrow> dueno_ks n k' = None"
    "espera_ks n k = q # qs \<Longrightarrow> dueno_ks n k' = Some q \<and> espera_ks n k' = qs"
    using V pos vista_mismo [OF e, of n] unfolding mutex_valido_mismo [OF e] P vista_actual [OF b]
    by (auto split: list.splits)
qed

text \<open>The operations on a mutex of another name.\<close>

lemma buscar_nombre_otro:
  "j < length ms \<Longrightarrow> nombre (ms ! j) \<noteq> n \<Longrightarrow> nombre m \<noteq> n \<Longrightarrow> buscar_nombre i n (ms[j := m]) = buscar_nombre i n ms"
proof (induction ms arbitrary: i j)
  case (Cons m0 ms)
  then show ?case by (cases j) simp_all
qed simp

lemma vista_poner_otro:
  assumes "buscar_mutex n' k = Some j" "nombre m = n'" "n' \<noteq> n"
  shows "dueno_ks n (poner_mutex j m k) = dueno_ks n k" "espera_ks n (poner_mutex j m k) = espera_ks n k"
    "mutex_valido n v (poner_mutex j m k) = mutex_valido n v k"
proof -
  have j: "j < length (lista_mutex k)" "nombre (lista_mutex k ! j) \<noteq> n"
    using buscar_mutex_rango [OF assms(1)] buscar_mutex_nombre [OF assms(1)] assms(3) by auto
  have b: "buscar_mutex n (poner_mutex j m k) = buscar_mutex n k"
    using buscar_nombre_otro [of j "lista_mutex k" n m 0] j assms(2,3) by (simp add: buscar_mutex_def poner_mutex_def)
  have i: "(lista_mutex k)[j := m] ! i = lista_mutex k ! i" if "buscar_mutex n k = Some i" for i
    using buscar_mutex_nombre [OF that] j(2) by (intro nth_list_update_neq) auto
  have l: "lista_mutex (poner_mutex j m k) = (lista_mutex k)[j := m]" "procs (poner_mutex j m k) = procs k"
    by (simp_all add: poner_mutex_def)
  show "dueno_ks n (poner_mutex j m k) = dueno_ks n k" "espera_ks n (poner_mutex j m k) = espera_ks n k"
    "mutex_valido n v (poner_mutex j m k) = mutex_valido n v k"
    by (cases "buscar_mutex n k"; simp add: dueno_ks_def espera_ks_def mutex_valido_def b l i)+
qed

lemma tras_otro:
  assumes "n' \<noteq> n" "k' = fst (manejar_mutex_lock p s n' k) \<or> k' = fst (manejar_mutex_unlock p s n' k)"
  shows "dueno_ks n k' = dueno_ks n k \<and> espera_ks n k' = espera_ks n k \<and> mutex_valido n v k' = mutex_valido n v k"
proof (cases "buscar_mutex n' k")
  case None
  then have "mismo_mutex k k'"
    using assms(2) mismo_mutex_ops(2) by (auto simp: manejar_mutex_lock_def manejar_mutex_unlock_def)
  then show ?thesis by (simp add: vista_mismo mutex_valido_mismo)
next
  case (Some j)
  have "\<exists>m. nombre m = n' \<and> mismo_mutex (poner_mutex j m k) k'"
    using assms(2)
  proof
    assume k: "k' = fst (manejar_mutex_lock p s n' k)"
    obtain m where m: "mismo_mutex (poner_mutex j m k) k'" "m = (if pid_dueno (lista_mutex k ! j) = - 1
        then (lista_mutex k ! j)\<lparr>pid_dueno := pid (procs k p)\<rparr>
        else (lista_mutex k ! j)\<lparr>cola_espera := cola_espera (lista_mutex k ! j) @ [p]\<rparr>)"
      using efecto_lock [OF Some, of p s] k by blast
    have "nombre m = n'" by (simp add: m(2) buscar_mutex_nombre [OF Some])
    with m(1) show ?thesis by blast
  next
    assume k: "k' = fst (manejar_mutex_unlock p s n' k)"
    obtain m where m: "mismo_mutex (poner_mutex j m k) k'" "m = (case cola_espera (lista_mutex k ! j) of
        [] \<Rightarrow> (lista_mutex k ! j)\<lparr>pid_dueno := - 1\<rparr>
      | q # qs \<Rightarrow> (lista_mutex k ! j)\<lparr>pid_dueno := pid (procs k q), cola_espera := qs\<rparr>)"
      using efecto_unlock [OF Some, of p s] k by blast
    have "nombre m = n'" by (simp add: m(2) buscar_mutex_nombre [OF Some] split: list.split)
    with m(1) show ?thesis by blast
  qed
  then obtain m where m: "nombre m = n'" "mismo_mutex (poner_mutex j m k) k'" by blast
  show ?thesis
    using vista_mismo [OF m(2), of n] mutex_valido_mismo [OF m(2), of n v] vista_poner_otro [OF Some m(1) assms(1)]
    by simp
qed

text \<open>
  What the threads of the CPUs do around the mutexes, each operation with the process and the
  socket it is for: the two system calls, and the critical sections that follow them, the
  blocking of a process that has to wait and the move of the one that takes the mutex.
\<close>

datatype uso_ks = Lock nat int string | Unlock nat int string | Bloquea nat | Mueve nat t_estado int

fun usar_ks :: "uso_ks \<Rightarrow> ks \<Rightarrow> ks" where
  "usar_ks (Lock p s n) k = fst (manejar_mutex_lock p s n k)"
| "usar_ks (Unlock p s n) k = fst (manejar_mutex_unlock p s n k)"
| "usar_ks (Bloquea p) k = fst (bloquear_proceso p k)"
| "usar_ks (Mueve q e s) k = mutex_unlock_mover q e s k"

fun uso_de :: "string \<Rightarrow> (nat \<Rightarrow> int) \<Rightarrow> uso_ks \<Rightarrow> int uso" where
  "uso_de n v (Lock p s n') = (if n' = n then Pide (v p) else Ajeno)"
| "uso_de n v (Unlock p s n') = (if n' = n then Suelta else Ajeno)"
| "uso_de n v _ = Ajeno"

lemma mismo_mutex_mover:
  "mismo_mutex k (fst (bloquear_proceso p k))" "mismo_mutex k (mutex_unlock_mover q e s k)"
proof -
  show "mismo_mutex k (fst (bloquear_proceso p k))"
    by (simp add: mismo_mutex_def bloquear_proceso_def poner_timer_def crear_timer_def modificar_def Let_def)
  have "mismo_mutex k (despertar q e k)"
    using callado_campos(1,16) [OF callado_desalojar]
    by (simp add: mismo_mutex_def despertar_def mover_proceso_de_block_a_ready_def mover_a_susp_ready_def poner_estado_def
        post_ready_def encolar_en_ready_def modificar_def Let_def split: prod.split)
  then show "mismo_mutex k (mutex_unlock_mover q e s k)"
    unfolding mutex_unlock_mover_def by (rule mismo_mutex_trans [OF _ mismo_mutex_ops(2)])
qed

interpretation mutex_ks: cerrojo "mutex_valido n v" usar_ks "uso_de n v" "dueno_ks n" "espera_ks n" for n v
proof unfold_locales
  fix k x
  assume va: "mutex_valido n v k"
  show "espera_ks n k = []" if "dueno_ks n k = None"
    using va that by (auto simp: mutex_valido_def dueno_ks_def espera_ks_def split: if_splits)
  show "mutex_valido n v (usar_ks x k)"
    using va tras_lock(1) [OF va refl] tras_unlock(1) [OF va refl] tras_otro [of _ n _ _ _ k v]
      mutex_valido_mismo [OF mismo_mutex_mover(1)] mutex_valido_mismo [OF mismo_mutex_mover(2)]
    by (cases x) (simp_all, metis+)
  show "dueno_ks n (usar_ks x k) = dueno_ks n k \<and> espera_ks n (usar_ks x k) = espera_ks n k"
    if "uso_de n v x = Ajeno"
    using that tras_otro [of _ n _ _ _ k v] vista_mismo [OF mismo_mutex_mover(1)] vista_mismo [OF mismo_mutex_mover(2)]
    by (cases x) (auto split: if_splits)
  fix u
  assume p: "uso_de n v x = Pide u"
  then obtain p s where x: "x = Lock p s n" "u = v p" by (cases x) (auto split: if_splits)
  show "dueno_ks n (usar_ks x k) = Some u \<and> espera_ks n (usar_ks x k) = []" if "dueno_ks n k = None"
    using tras_lock(2) [OF va refl that] by (simp add: x)
  show "dueno_ks n (usar_ks x k) = Some d \<and> espera_ks n (usar_ks x k) = espera_ks n k @ [u]" if "dueno_ks n k = Some d" for d
    using tras_lock(3) [OF va refl that] by (simp add: x)
next
  fix k x
  assume va: "mutex_valido n v k" and "uso_de n v x = Suelta"
  then obtain p s where x: "x = Unlock p s n" by (cases x) (auto split: if_splits)
  show "dueno_ks n (usar_ks x k) = None" if "espera_ks n k = []"
    using tras_unlock(2) [OF va refl that] by (simp add: x)
  show "dueno_ks n (usar_ks x k) = Some q \<and> espera_ks n (usar_ks x k) = qs" if "espera_ks n k = q # qs" for q qs
    using tras_unlock(3) [OF va refl that] by (simp add: x)
qed

end
