(* ===== verification/PropiedadesColas.thy ===== *)
theory PropiedadesColas
  imports FichasKS CerrojoKS
begin

text \<open>
  The properties of the operations of the Kernel Scheduler: the choice of the process that
  runs, the preemption between queues, the inheritance of priorities and the mutexes.  A mutex
  is an instance of the locale \<open>cerrojo\<close>, which shows that it is a queue with its owner in front.
\<close>

section \<open>A concrete state\<close>

definition proceso_ejemplo :: "int \<Rightarrow> int \<Rightarrow> t_estado \<Rightarrow> int \<Rightarrow> nat option \<Rightarrow> t_proceso" where
  "proceso_ejemplo v prio e s c =
     \<lparr>pid = v, prioridad = prio, prioridad_original = prio, estado = e, socket_cpu = s, pr_cpu = c, timer = None,
      io_tiempo = 0, io_direccion_fisica = 0, io_tamanio = 0, tiempo_suspension = 0\<rparr>"

text \<open>
  Two processes run, with priorities 1 and 2; one of priority 1 is ready; two more, of
  priorities 2 and 0, wait for the mutex of the first one.
\<close>

definition ks_ejemplo :: ks where
  "ks_ejemplo =
     (inicializar_estructuras ''CMN'' [''FIFO'', ''RR'', ''FIFO''] True 1 2 (\<lambda>_. []))
       \<lparr>procs := (\<lambda>p. [proceso_ejemplo 0 1 EXEC 5 (Some 0), proceso_ejemplo 1 2 EXEC 6 (Some 1),
           proceso_ejemplo 2 1 READY (- 1) None, proceso_ejemplo 3 2 BLOCK (- 1) None,
           proceso_ejemplo 4 0 BLOCK (- 1) None] ! (if p < 5 then p else 4)),
         prox_proc := 5, proximo_pid := 5, prox_cpu := 3,
         cpus := (\<lambda>c. \<lparr>cp_socket = 5 + int c, cp_id = int c\<rparr>),
         colas_ready := [[], [2], []], lista_exec := [0, 1], lista_block := [3, 4], lista_cpus_libres := [2],
         sem_hay_procesos_ready := 1, sem_hay_cpus_libres := 1,
         lista_mutex := [\<lparr>nombre = ''m'', pid_dueno = 0, cola_espera = [3, 4]\<rparr>, \<lparr>nombre = ''n'', pid_dueno = - 1, cola_espera = []\<rparr>]\<rparr>"

lemma ks_ejemplo_campos [simp]:
  "es_CMN ks_ejemplo" "colas_ready ks_ejemplo = [[], [2], []]" "lista_exec ks_ejemplo = [0, 1]"
  "lista_cpus_libres ks_ejemplo = [2]" "desalojo_entre_colas ks_ejemplo" "cantidad_colas ks_ejemplo = 3"
  "algoritmos_por_cola ks_ejemplo = [''FIFO'', ''RR'', ''FIFO'']"
  "lista_mutex ks_ejemplo = [\<lparr>nombre = ''m'', pid_dueno = 0, cola_espera = [3, 4]\<rparr>, \<lparr>nombre = ''n'', pid_dueno = - 1, cola_espera = []\<rparr>]"
  "procs ks_ejemplo 0 = proceso_ejemplo 0 1 EXEC 5 (Some 0)" "procs ks_ejemplo (Suc 0) = proceso_ejemplo 1 2 EXEC 6 (Some 1)"
  "procs ks_ejemplo 2 = proceso_ejemplo 2 1 READY (- 1) None" "procs ks_ejemplo 3 = proceso_ejemplo 3 2 BLOCK (- 1) None"
  "procs ks_ejemplo 4 = proceso_ejemplo 4 0 BLOCK (- 1) None" "salida ks_ejemplo = (\<lambda>_. [])"
  by (simp_all add: ks_ejemplo_def inicializar_estructuras_def es_CMN_def cantidad_colas_def)

lemma proceso_ejemplo_campos [simp]:
  "pid (proceso_ejemplo v prio e s c) = v" "prioridad (proceso_ejemplo v prio e s c) = prio"
  "prioridad_original (proceso_ejemplo v prio e s c) = prio" "estado (proceso_ejemplo v prio e s c) = e"
  "socket_cpu (proceso_ejemplo v prio e s c) = s" "pr_cpu (proceso_ejemplo v prio e s c) = c"
  by (simp_all add: proceso_ejemplo_def)

lemma colas_ok_ejemplo: "colas_ok ks_ejemplo"
proof -
  have "prioridad (procs ks_ejemplo p) = int i" if "i < 3" "p \<in> set ([[], [2], []] ! i)" for i p
  proof -
    from that(1) consider "i = 0" | "i = 1" | "i = 2" by linarith
    then show ?thesis using that(2) by cases auto
  qed
  then show ?thesis by (simp add: colas_ok_def)
qed

section \<open>The process that runs next\<close>

text \<open>C25: With several queues the planner dispatches a process of the best priority among the ready
  ones, the first to enter its queue, to the free CPU that has waited longest, and it arms a
  quantum timer exactly when the algorithm of that queue is \<open>RR\<close>.\<close>

theorem despacha_al_mejor:
  assumes "colas_ok k" "es_CMN k" "despachar k = Some (k', Some (p, c, t))"
  shows "(\<forall>q \<in> set (concat (colas_ready k)). prioridad (procs k p) \<le> prioridad (procs k q)) \<and>
    colas_ready k ! nat (prioridad (procs k p)) = p # colas_ready k' ! nat (prioridad (procs k p)) \<and>
    lista_cpus_libres k = c # lista_cpus_libres k' \<and> lista_exec k' = lista_exec k @ [p] \<and>
    estado (procs k' p) = EXEC \<and> pr_cpu (procs k' p) = Some c \<and>
    (t \<noteq> None \<longleftrightarrow> algoritmos_por_cola k ! nat (prioridad (procs k p)) = ''RR'') \<and>
    (\<forall>x. t = Some x \<longrightarrow> timer (procs k' p) = Some x \<and>
       timers k' x = \<lparr>tm_socket_cpu = cp_socket (cpus k c), tm_pid = pid (procs k p)\<rparr>)"
proof -
  obtain i where c: "primera_cola 0 (colas_ready k) = Some (i, p)"
    using assms(2,3) by (auto simp: despachar_def obtener_proximo_proceso_ready_def poner_timer_def crear_timer_def Let_def
        split: option.splits prod.splits list.splits if_splits)
  from primera_cola_Some [OF c] obtain ps where
    i: "i < length (colas_ready k)" "colas_ready k ! i = p # ps" "\<forall>n < i. colas_ready k ! n = []" by auto
  have o: "\<forall>i < length (colas_ready k). \<forall>p \<in> set (colas_ready k ! i). prioridad (procs k p) = int i"
    using assms(1) by (simp add: colas_ok_def)
  then have pi: "prioridad (procs k p) = int i" using i by simp
  have "int i \<le> prioridad (procs k q)" if "q \<in> set (concat (colas_ready k))" for q
  proof -
    from that obtain j where j: "j < length (colas_ready k)" "q \<in> set (colas_ready k ! j)"
      by (metis in_set_conv_nth UN_E set_concat)
    then have "i \<le> j" using i(3) by (metis empty_iff list.set(1) not_le)
    then show ?thesis using o j by simp
  qed
  moreover have "lista_cpus_libres k = c # lista_cpus_libres k' \<and> lista_exec k' = lista_exec k @ [p] \<and>
    estado (procs k' p) = EXEC \<and> pr_cpu (procs k' p) = Some c \<and> colas_ready k' = (colas_ready k)[i := ps] \<and>
    (t \<noteq> None \<longleftrightarrow> algoritmos_por_cola k ! i = ''RR'') \<and>
    (\<forall>x. t = Some x \<longrightarrow> timer (procs k' p) = Some x \<and>
       timers k' x = \<lparr>tm_socket_cpu = cp_socket (cpus k c), tm_pid = pid (procs k p)\<rparr>)"
    using assms(2,3) c i(2)
    by (auto simp: despachar_def obtener_proximo_proceso_ready_def poner_timer_def crear_timer_def modificar_def Let_def
        split: list.splits if_splits)
  ultimately show ?thesis using pi i(1,2) by auto
qed

lemma despacha_al_mejor_ejemplo:
  "\<exists>k' p c t. despachar ks_ejemplo = Some (k', Some (p, c, t)) \<and>
     (\<forall>q \<in> {2}. prioridad (procs ks_ejemplo p) \<le> prioridad (procs ks_ejemplo q)) \<and> lista_exec k' = [0, 1, p] \<and> t \<noteq> None"
proof -
  have "\<exists>k'. despachar ks_ejemplo = Some (k', Some (2, 2, Some (prox_timer ks_ejemplo)))"
    by (simp add: despachar_def obtener_proximo_proceso_ready_def poner_timer_def crear_timer_def modificar_def Let_def)
  then obtain k' where d: "despachar ks_ejemplo = Some (k', Some (2, 2, Some (prox_timer ks_ejemplo)))" ..
  with despacha_al_mejor [OF colas_ok_ejemplo _ d] show ?thesis by simp
qed

section \<open>Preemption between queues\<close>

lemma peor_desde_todos:
  "peor_desde ps x qs = (case x of None \<Rightarrow> if qs = [] then None else peor_desde ps (Some (hd qs)) (tl qs)
     | Some m \<Rightarrow> peor_desde ps (Some m) qs)"
  by (cases x; cases qs) simp_all

lemma peor_desde_Some:
  "\<exists>m. peor_desde ps (Some x) qs = Some m \<and> m \<in> set (x # qs) \<and> (\<forall>q \<in> set (x # qs). prioridad (ps q) \<le> prioridad (ps m))"
proof (induction qs arbitrary: x)
  case (Cons q qs)
  show ?case
    using Cons.IH [of q] Cons.IH [of x] by (cases "prioridad (ps q) > prioridad (ps x)") (force)+
qed simp

lemma peor_desde_None:
  assumes "qs \<noteq> []"
  shows "\<exists>m. peor_desde ps None qs = Some m \<and> m \<in> set qs \<and> (\<forall>q \<in> set qs. prioridad (ps q) \<le> prioridad (ps m))"
  using peor_desde_Some [of ps "hd qs" "tl qs"] assms by (subst peor_desde_todos) simp

lemma salida_interrumpir:
  "salida (interrumpir s v k) = (salida k)(s := salida k s @ bytes_int (codigo OP_INTERRUMPIR_PROCESO) @ bytes_int v)"
  by (simp add: interrumpir_def enviar_codigo_def enviar_entero_def enviar_bytes_def)

text \<open>C26: With \<open>CMN\<close> and the preemption between queues configured, a process whose priority has a
  queue and that becomes ready preempts exactly when some running process has a strictly worse
  priority, and then it is the worst of them that is interrupted; nobody else is told.\<close>

theorem desaloja_al_peor:
  assumes "es_CMN k" "desalojo_entre_colas k" "en_rango p k" "encolar_en_ready p k = (k', ok)"
  shows "ok \<and> colas_ready k' = (colas_ready k)
      [nat (prioridad (procs k p)) := colas_ready k ! nat (prioridad (procs k p)) @ [p]] \<and>
    (if \<exists>q \<in> set (lista_exec k). prioridad (procs k p) < prioridad (procs k q)
     then \<exists>m \<in> set (lista_exec k). (\<forall>q \<in> set (lista_exec k). prioridad (procs k q) \<le> prioridad (procs k m)) \<and>
       salida k' = (salida k)(socket_cpu (procs k m) := salida k (socket_cpu (procs k m)) @
         bytes_int (codigo OP_INTERRUMPIR_PROCESO) @ bytes_int (pid (procs k m)))
     else salida k' = salida k)"
proof -
  let ?c = "nat (prioridad (procs k p))"
  let ?k = "k\<lparr>colas_ready := (colas_ready k)[?c := colas_ready k ! ?c @ [p]]\<rparr>"
  have k': "k' = desalojar_por_prioridad p ?k" "ok" using assms by (simp_all add: encolar_en_ready_def Let_def)
  have "colas_ready k' = colas_ready ?k"
    unfolding k' by (rule callado_campos(9) [OF callado_desalojar])
  moreover have "if \<exists>q \<in> set (lista_exec k). prioridad (procs k p) < prioridad (procs k q)
     then \<exists>m \<in> set (lista_exec k). (\<forall>q \<in> set (lista_exec k). prioridad (procs k q) \<le> prioridad (procs k m)) \<and>
       salida k' = (salida k)(socket_cpu (procs k m) := salida k (socket_cpu (procs k m)) @
         bytes_int (codigo OP_INTERRUMPIR_PROCESO) @ bytes_int (pid (procs k m)))
     else salida k' = salida k"
  proof (cases "lista_exec k = []")
    case False
    from peor_desde_None [OF this, of "procs k"] obtain m where
      m: "peor_desde (procs k) None (lista_exec k) = Some m" "m \<in> set (lista_exec k)"
        "\<forall>q \<in> set (lista_exec k). prioridad (procs k q) \<le> prioridad (procs k m)" by blast
    then have "(\<exists>q \<in> set (lista_exec k). prioridad (procs k p) < prioridad (procs k q)) \<longleftrightarrow>
        prioridad (procs k p) < prioridad (procs k m)" by force
    with m show ?thesis
      by (auto simp: k' desalojar_por_prioridad_def salida_interrumpir)
  qed (simp add: k' desalojar_por_prioridad_def)
  ultimately show ?thesis using k'(2) by simp
qed

lemma desaloja_al_peor_ejemplo:
  "\<exists>k'. encolar_en_ready 2 ks_ejemplo = (k', True) \<and>
     salida k' = (\<lambda>_. [])(6 := bytes_int (codigo OP_INTERRUMPIR_PROCESO) @ bytes_int 1)"
proof -
  have e: "en_rango 2 ks_ejemplo" by (simp add: en_rango_def)
  obtain k' ok where c: "encolar_en_ready 2 ks_ejemplo = (k', ok)" by fastforce
  from desaloja_al_peor [OF _ _ e c] show ?thesis using c by auto
qed

section \<open>The inheritance of priorities\<close>

lemma Min_insert_Un:
  fixes x :: int
  assumes "finite A" "A \<noteq> {}" "finite R"
  shows "Min (insert x (A \<union> R)) = Min (insert (min x (Min A)) R)"
  using assms by (cases "R = {}") (simp_all add: Min_Un min.assoc)

lemma mejor_desde_Min:
  "\<forall>q \<in> set qs. 0 \<le> prioridad (ps q) \<Longrightarrow> 0 \<le> m \<Longrightarrow>
   mejor_desde ps m qs = Min (insert m ((\<lambda>q. prioridad (ps q)) ` set qs))"
proof (induction qs arbitrary: m)
  case (Cons q qs)
  have "(if m = - 1 \<or> prioridad (ps q) < m then prioridad (ps q) else m) = min m (prioridad (ps q))"
    using Cons.prems by (auto simp: min_def)
  moreover have "Min (insert m (insert (prioridad (ps q)) A)) = Min (insert (min m (prioridad (ps q))) A)"
    if "finite A" for A using Min_insert_Un [of "{prioridad (ps q)}" A m] that by simp
  ultimately show ?case using Cons.IH [of "min m (prioridad (ps q))"] Cons.prems by simp
qed simp

text \<open>The reference: the best priority among those that wait, if there are any.\<close>

lemma mayor_prioridad_Min:
  assumes "\<forall>q \<in> set (cola_espera m). 0 \<le> prioridad (procs k q)"
  shows "mayor_prioridad_del_mutex m k =
    (if cola_espera m = [] then - 1 else Min ((\<lambda>q. prioridad (procs k q)) ` set (cola_espera m)))"
proof (cases "cola_espera m")
  case (Cons q qs)
  then show ?thesis using assms mejor_desde_Min [of qs "procs k" "prioridad (procs k q)"]
    by (simp add: mayor_prioridad_del_mutex_def)
qed (simp add: mayor_prioridad_del_mutex_def)

lemma lista_mutex_herencia [simp]: "lista_mutex (aplicar_herencia p m k) = lista_mutex k"
  by (simp add: aplicar_herencia_def poner_prioridad_def Let_def)

lemma procs_encolar [simp]: "procs (fst (encolar_en_ready p k)) = procs k"
  by (simp add: encolar_en_ready_def Let_def callado_campos(1) [OF callado_desalojar])

lemma prioridad_herencia:
  "prioridad (procs (aplicar_herencia p m k) q) =
     (if q = p \<and> mayor_prioridad_del_mutex m k \<noteq> - 1 then min (prioridad (procs k p)) (mayor_prioridad_del_mutex m k)
      else prioridad (procs k q))"
  by (auto simp: aplicar_herencia_def Let_def poner_prioridad_def modificar_def)

lemma procs_enviar_codigo [simp]: "procs (enviar_codigo s c k) = procs k" "lista_mutex (enviar_codigo s c k) = lista_mutex k"
  by (simp_all add: callado_campos(1,16) [OF callado_enviar(3)])

text \<open>C18: With \<open>CMN\<close>, and priorities that are not negative, a process that asks for a mutex taken
  by a live process joins the end of its queue, and then the owner runs with the best of its priority and those of
  all the processes that wait for that mutex; the priority of nobody else changes.\<close>

theorem lock_hereda:
  assumes "es_CMN k" "buscar_mutex n k = Some i" "pid_dueno (lista_mutex k ! i) \<noteq> - 1"
    "buscar_proceso_por_pid (pid_dueno (lista_mutex k ! i)) k = Some d"
    "\<forall>q \<in> set (p # cola_espera (lista_mutex k ! i)). 0 \<le> prioridad (procs k q)"
    "manejar_mutex_lock p s n k = (k', espera)"
  shows "espera \<and> cola_espera (lista_mutex k' ! i) = cola_espera (lista_mutex k ! i) @ [p] \<and>
    pid_dueno (lista_mutex k' ! i) = pid_dueno (lista_mutex k ! i) \<and>
    prioridad (procs k' d) =
      Min ((\<lambda>q. prioridad (procs k q)) ` set (d # p # cola_espera (lista_mutex k ! i))) \<and>
    (\<forall>q. q \<noteq> d \<longrightarrow> prioridad (procs k' q) = prioridad (procs k q))"
proof -
  let ?m = "(lista_mutex k ! i)\<lparr>cola_espera := cola_espera (lista_mutex k ! i) @ [p]\<rparr>"
  let ?k = "poner_mutex i ?m k"
  have l: "i < length (lista_mutex k)" using buscar_mutex_rango [OF assms(2)] .
  have k': "k' = enviar_codigo s OP_BLOQUEADO (aplicar_herencia d ?m ?k)" and e: espera
    using assms by (auto simp: manejar_mutex_lock_def Let_def buscar_proceso_por_pid_def es_CMN_def poner_mutex_def)
  let ?A = "(\<lambda>q. prioridad (procs k q)) ` set (p # cola_espera (lista_mutex k ! i))"
  have v: "mayor_prioridad_del_mutex ?m ?k = Min ?A"
    using mayor_prioridad_Min [of ?m ?k] assms(5) by (simp add: poner_mutex_def)
  have "0 \<le> Min ?A" using assms(5) by (subst Min_ge_iff) auto
  then have "Min ?A \<noteq> - 1" by linarith
  then have "prioridad (procs k' q) = (if q = d then min (prioridad (procs k d)) (Min ?A) else prioridad (procs k q))" for q
    unfolding k' procs_enviar_codigo prioridad_herencia v by (simp add: poner_mutex_def)
  then show ?thesis using e l by (simp add: k' poner_mutex_def Min_insert [symmetric] del: Min_insert)
qed

lemma lock_hereda_ejemplo:
  "\<exists>k'. manejar_mutex_lock 1 6 ''m'' ks_ejemplo = (k', True) \<and> prioridad (procs ks_ejemplo 0) = 1 \<and>
     prioridad (procs k' 0) = Min {1, 2, 0} \<and> cola_espera (lista_mutex k' ! 0) = [3, 4, 1]"
proof -
  have b: "buscar_mutex ''m'' ks_ejemplo = Some 0" by (simp add: buscar_mutex_def)
  have d: "buscar_proceso_por_pid (pid_dueno (lista_mutex ks_ejemplo ! 0)) ks_ejemplo = Some 0"
    by (simp add: buscar_proceso_por_pid_def)
  obtain k' e where h: "manejar_mutex_lock 1 6 ''m'' ks_ejemplo = (k', e)" by fastforce
  from lock_hereda [OF _ b _ d _ h] show ?thesis using h by (simp add: insert_commute)
qed

text \<open>The reference of what is given back: the best of the original priority and those of all the
  processes that wait for a mutex of this one.\<close>

lemma mejor_heredada_Min:
  assumes "\<forall>m \<in> set ms. \<forall>q \<in> set (cola_espera m). 0 \<le> prioridad (procs k q)"
  shows "mejor_heredada k v x ms =
    Min (insert x {prioridad (procs k q) | m q. m \<in> set ms \<and> pid_dueno m = v \<and> q \<in> set (cola_espera m)})"
  using assms
proof (induction ms arbitrary: x)
  case (Cons m ms)
  let ?A = "\<lambda>m. (\<lambda>q. prioridad (procs k q)) ` set (cola_espera m)"
  let ?R = "{prioridad (procs k q) | m q. m \<in> set ms \<and> pid_dueno m = v \<and> q \<in> set (cola_espera m)}"
  have fin: "finite ?R"
    by (rule finite_subset [of _ "\<Union> (?A ` set ms)"]) auto
  have r: "{prioridad (procs k q) | m' q. m' \<in> set (m # ms) \<and> pid_dueno m' = v \<and> q \<in> set (cola_espera m')} =
      (if pid_dueno m = v then ?A m \<union> ?R else ?R)" by auto
  have mm: "mayor_prioridad_del_mutex m k = (if cola_espera m = [] then - 1 else Min (?A m))"
    by (rule mayor_prioridad_Min) (use Cons.prems in simp)
  have ge: "0 \<le> Min (?A m)" if "cola_espera m \<noteq> []" using Cons.prems that by (subst Min_ge_iff) auto
  have "Min (insert x (?A m \<union> ?R)) = Min (insert (min x (Min (?A m))) ?R)" if "cola_espera m \<noteq> []"
    by (rule Min_insert_Un) (use fin that in simp_all)
  moreover have x: "(if pid_dueno m = v \<and> mayor_prioridad_del_mutex m k \<noteq> - 1 \<and> mayor_prioridad_del_mutex m k < x
       then mayor_prioridad_del_mutex m k else x) =
      (if pid_dueno m = v \<and> cola_espera m \<noteq> [] then min x (Min (?A m)) else x)"
  proof -
    define y where "y = Min (?A m)"
    show ?thesis unfolding mm y_def [symmetric] using ge [folded y_def] by (auto simp: min_def)
  qed
  moreover have "mejor_heredada k v y ms = Min (insert y ?R)" for y
    using Cons.IH Cons.prems by simp
  ultimately show ?case unfolding mejor_heredada.simps r x by simp
qed simp

lemma prioridad_devolver:
  "prioridad (procs (devolver_prioridad p k) q) =
     (if q = p then mejor_heredada k (pid (procs k p)) (prioridad_original (procs k p)) (lista_mutex k)
      else prioridad (procs k q))"
  by (simp add: devolver_prioridad_def poner_prioridad_def modificar_def Let_def)

lemma procs_cancelar [simp]: "prioridad (procs (cancelar_timer q k) p) = prioridad (procs k p)"
  "lista_mutex (cancelar_timer q k) = lista_mutex k"
  by (simp_all add: cancelar_timer_def modificar_def)

text \<open>The new owner inherits from those that still wait; nobody else but \<open>p\<close> changes.\<close>

lemma prioridad_ceder:
  assumes "p \<notin> set (d # cola_espera m)" "\<forall>q \<in> set (cola_espera m). 0 \<le> prioridad (procs k q)" "q \<noteq> p"
  shows "prioridad (procs (aplicar_herencia d m (devolver_prioridad p k)) q) =
    (if q = d then Min ((\<lambda>q. prioridad (procs k q)) ` set (d # cola_espera m)) else prioridad (procs k q))"
proof (cases "q = d")
  case True
  let ?A = "(\<lambda>q. prioridad (procs k q)) ` set (cola_espera m)"
  have pr: "prioridad (procs (devolver_prioridad p k) x) = prioridad (procs k x)" if "x \<in> set (d # cola_espera m)" for x
    using that assms(1) by (auto simp: prioridad_devolver)
  have im: "(\<lambda>x. prioridad (procs (devolver_prioridad p k) x)) ` set (cola_espera m) = ?A"
    using pr by (intro image_cong) simp_all
  have v: "mayor_prioridad_del_mutex m (devolver_prioridad p k) = (if cola_espera m = [] then - 1 else Min ?A)"
    using mayor_prioridad_Min [of m "devolver_prioridad p k"] assms(2) pr by (simp add: im)
  have "0 \<le> Min ?A" if "cola_espera m \<noteq> []" using assms(2) that by (subst Min_ge_iff) auto
  then have "Min ?A \<noteq> - 1" if "cola_espera m \<noteq> []" using that by fastforce
  then show ?thesis using True pr by (auto simp: prioridad_herencia v)
qed (use assms(3) in \<open>simp add: prioridad_herencia prioridad_devolver\<close>)

text \<open>C32: With \<open>CMN\<close>, and priorities that are not negative, a process that releases a mutex, and does
  not wait for it, keeps the best of its original priority and those of all the processes that wait for the mutexes it
  still owns.  The process that takes the mutex runs with the best of its own and those of the
  processes left in the queue, and the priority of nobody else changes.\<close>

theorem devuelve_la_prioridad:
  assumes "es_CMN k" "buscar_mutex n k = Some i" "p \<notin> set (cola_espera (lista_mutex k ! i))"
    "\<forall>m \<in> set (lista_mutex k). \<forall>q \<in> set (cola_espera m). 0 \<le> prioridad (procs k q)"
    "manejar_mutex_unlock p s n k = (k', r)"
  shows "prioridad (procs k' p) = Min (insert (prioridad_original (procs k p))
      {prioridad (procs k q) | m q. m \<in> set (lista_mutex k') \<and> pid_dueno m = pid (procs k p) \<and> q \<in> set (cola_espera m)}) \<and>
    (\<forall>q. q \<noteq> p \<longrightarrow> prioridad (procs k' q) =
       (case cola_espera (lista_mutex k ! i) of
          [] \<Rightarrow> prioridad (procs k q)
        | d # qs \<Rightarrow> if q = d then Min ((\<lambda>q. prioridad (procs k q)) ` set (d # qs)) else prioridad (procs k q)))"
proof -
  let ?m = "lista_mutex k ! i"
  define m where "m = (case cola_espera ?m of [] \<Rightarrow> ?m\<lparr>pid_dueno := - 1\<rparr>
      | d # qs \<Rightarrow> ?m\<lparr>pid_dueno := pid (procs k d), cola_espera := qs\<rparr>)"
  let ?k = "poner_mutex i m k"
  have i: "?m \<in> set (lista_mutex k)" using buscar_mutex_rango [OF assms(2)] by simp
  have cola: "cola_espera m = tl (cola_espera ?m)" by (simp add: m_def split: list.split)
  have sub: "q \<in> set (cola_espera ?m)" if "q \<in> set (tl (cola_espera ?m))" for q
    using that by (cases "cola_espera ?m") auto
  have ms: "\<forall>m' \<in> set (lista_mutex ?k). \<forall>q \<in> set (cola_espera m'). 0 \<le> prioridad (procs ?k q)"
    using assms(4) i sub by (auto simp: poner_mutex_def cola dest!: set_update_subset_insert [THEN subsetD])
  have dev: "prioridad (procs (devolver_prioridad p ?k) p) = Min (insert (prioridad_original (procs k p))
      {prioridad (procs k q) | m q. m \<in> set (lista_mutex ?k) \<and> pid_dueno m = pid (procs k p) \<and> q \<in> set (cola_espera m)})"
    using mejor_heredada_Min [OF ms] by (simp add: prioridad_devolver poner_mutex_def)
  show ?thesis
  proof (cases "cola_espera ?m")
    case Nil
    have k': "k' = enviar_codigo s OP_OK (devolver_prioridad p ?k)"
      using assms(1,2,5) Nil by (auto simp: manejar_mutex_unlock_def Let_def m_def es_CMN_def poner_mutex_def)
    have "lista_mutex k' = lista_mutex ?k"
      by (simp add: k' devolver_prioridad_def poner_prioridad_def modificar_def Let_def)
    with dev Nil show ?thesis by (simp add: k' prioridad_devolver)
  next
    case (Cons d qs)
    have k': "k' = cancelar_timer d (aplicar_herencia d m (devolver_prioridad p ?k))"
      using assms(1,2,5) Cons by (auto simp: manejar_mutex_unlock_def Let_def m_def es_CMN_def poner_mutex_def)
    have l: "lista_mutex k' = lista_mutex ?k"
      by (simp add: k' devolver_prioridad_def poner_prioridad_def modificar_def Let_def)
    have qs: "cola_espera m = qs" "p \<notin> set (d # cola_espera m)" "p \<noteq> d" using Cons cola assms(3) by auto
    have "prioridad (procs k' p) = prioridad (procs (devolver_prioridad p ?k) p)"
      using qs(3) by (simp add: k' prioridad_herencia)
    moreover have "\<forall>q \<in> set (cola_espera m). 0 \<le> prioridad (procs ?k q)"
      using assms(4) i Cons by (auto simp: qs(1) poner_mutex_def)
    from prioridad_ceder [OF qs(2) this]
    have "prioridad (procs k' q) = (if q = d then Min ((\<lambda>q. prioridad (procs k q)) ` set (d # qs)) else prioridad (procs k q))"
      if "q \<noteq> p" for q
      using that by (simp add: k' qs(1) poner_mutex_def)
    ultimately show ?thesis using dev Cons by (simp add: l)
  qed
qed

text \<open>The process 0, of priority 1, runs with the priority 0 it has inherited.\<close>

definition ks_hereda :: ks where
  "ks_hereda = ks_ejemplo\<lparr>procs := (procs ks_ejemplo)(0 := (procs ks_ejemplo 0)\<lparr>prioridad := 0\<rparr>)\<rparr>"

lemma prioridades_heredadas:
  "{prioridad (procs k q) | m q. m \<in> A \<and> pid_dueno m = v \<and> q \<in> set (cola_espera m)} =
   (\<Union>m \<in> A. if pid_dueno m = v then (\<lambda>q. prioridad (procs k q)) ` set (cola_espera m) else {})"
  by (auto split: if_splits)

lemma devuelve_la_prioridad_ejemplo:
  "\<exists>k' r. manejar_mutex_unlock 0 5 ''m'' ks_hereda = (k', r) \<and> prioridad (procs ks_hereda 0) = 0 \<and>
     prioridad (procs k' 0) = 1 \<and> prioridad (procs k' 3) = 0 \<and> prioridad (procs k' 1) = 2"
proof -
  obtain k' r where h: "manejar_mutex_unlock 0 5 ''m'' ks_hereda = (k', r)" by fastforce
  have b: "buscar_mutex ''m'' ks_hereda = Some 0" "es_CMN ks_hereda"
    by (simp_all add: buscar_mutex_def ks_hereda_def es_CMN_def) (simp add: ks_ejemplo_def inicializar_estructuras_def)
  have l: "lista_mutex k' = [\<lparr>nombre = ''m'', pid_dueno = 3, cola_espera = [4]\<rparr>, \<lparr>nombre = ''n'', pid_dueno = - 1, cola_espera = []\<rparr>]"
    using efecto_unlock [OF b(1), of 0 5] h by (simp add: mismo_mutex_def) (simp add: ks_hereda_def)
  from devuelve_la_prioridad [OF b(2,1) _ _ h, unfolded l prioridades_heredadas] h show ?thesis
    by (simp add: ks_hereda_def)
qed

section \<open>The mutexes\<close>

text \<open>C9: A mutex of the scheduler refines a queue whose head is the owner: after any interleaving of
  locks and unlocks, each by its own process on its own socket and on this mutex or on another
  one, and of the critical sections that follow them (a process blocks, the new owner is moved),
  the owner and those that wait are what joining at the end and leaving at the front give, so
  the mutex is granted in the order of the requests and nobody overtakes.  The mutex exists, the
  pids are not negative (\<open>-1\<close> marks a free mutex), and a free mutex starts with nobody waiting.\<close>

theorem mutex_es_cola:
  assumes "mutex_valido n v k" "k' = fold usar_ks us k"
  shows "fila (dueno_ks n k') (espera_ks n k') =
    fold (\<lambda>u. en_cola (uso_de n v u)) us (fila (dueno_ks n k) (espera_ks n k))"
  unfolding assms(2) by (rule mutex_ks.refina_cola [OF assms(1)])

lemma pids_ejemplo: "0 \<le> pid (procs ks_ejemplo p)"
proof (cases "p < 5")
  case True
  then consider "p = 0" | "p = 1" | "p = 2" | "p = 3" | "p = 4" by linarith
  then show ?thesis by cases simp_all
next
  case False
  then have "procs ks_ejemplo p = procs ks_ejemplo 4" by (simp add: ks_ejemplo_def)
  then show ?thesis by simp
qed

lemma mutex_valido_ejemplo: "mutex_valido ''n'' (\<lambda>p. pid (procs ks_ejemplo p)) ks_ejemplo"
  using pids_ejemplo by (simp add: mutex_valido_def buscar_mutex_def)

text \<open>The process 0 takes the mutex, the process 1 waits for it, and each one releases it in its turn.\<close>

lemma mutex_es_cola_ejemplo:
  "let us = [Lock 0 5 ''n'', Lock 1 6 ''n'', Bloquea 1, Unlock 0 5 ''n'', Mueve 1 BLOCK 5];
       k1 = fold usar_ks us ks_ejemplo;
       k2 = fold usar_ks (us @ [Lock 2 7 ''m'', Unlock 1 6 ''n'']) ks_ejemplo
   in fila (dueno_ks ''n'' ks_ejemplo) (espera_ks ''n'' ks_ejemplo) = [] \<and>
     fila (dueno_ks ''n'' k1) (espera_ks ''n'' k1) = [1] \<and> fila (dueno_ks ''n'' k2) (espera_ks ''n'' k2) = []"
proof -
  have "fila (dueno_ks ''n'' ks_ejemplo) (espera_ks ''n'' ks_ejemplo) = []"
    by (simp add: dueno_ks_def espera_ks_def buscar_mutex_def)
  with mutex_es_cola [OF mutex_valido_ejemplo refl] show ?thesis
    by (simp only: Let_def) simp
qed

text \<open>The loop that releases the mutexes of a dead process, up to the turn \<open>j\<close>.\<close>

definition cedido :: "int \<Rightarrow> ks \<Rightarrow> t_mutex \<Rightarrow> t_mutex" where
  "cedido v k m =
     (if pid_dueno m \<noteq> v then m
      else case cola_espera m of
             [] \<Rightarrow> m\<lparr>pid_dueno := - 1\<rparr>
           | q # qs \<Rightarrow> m\<lparr>pid_dueno := pid (procs k q), cola_espera := qs\<rparr>)"

lemma pid_despertar: "pid (procs (despertar q e k) p) = pid (procs k p)"
  using paga_despertar [of k q e] by (simp add: paga_def fija_def)

lemma procs_post_ready [simp]: "procs (post_ready r) = procs (fst r)"
  by (simp add: post_ready_def split: prod.split)

lemma estado_despertar:
  "estado (procs (despertar q e k) p) = (if p = q \<and> e = BLOCK then READY else if p = q \<and> e = SUSP_BLOCK then SUSP_READY
     else estado (procs k p))"
  by (simp add: despertar_def mover_proceso_de_block_a_ready_def mover_a_susp_ready_def poner_estado_def)

lemma procs_cancelar_timer [simp]:
  "pid (procs (cancelar_timer q k) p) = pid (procs k p)"
  "estado (procs (cancelar_timer q k) p) = estado (procs k p)"
  by (simp_all add: cancelar_timer_def modificar_def)

lemma herencia_campos [simp]:
  "pid (procs (aplicar_herencia q m k) p) = pid (procs k p)"
  "estado (procs (aplicar_herencia q m k) p) = estado (procs k p)"
  using mismo_mutex_ops(5) [of k q m] nucleo_estado [OF nucleo_iguales(3) [of q m k p]] by (simp_all add: mismo_mutex_def)

lemma procs_poner_mutex [simp]: "procs (poner_mutex i m k) = procs k" "lista_mutex (poner_mutex i m k) = (lista_mutex k)[i := m]"
  by (simp_all add: poner_mutex_def)

lemma liberar_un_mutex_efecto:
  assumes "j < length (lista_mutex k)"
  shows "lista_mutex (liberar_un_mutex v j k) = (lista_mutex k)[j := cedido v k (lista_mutex k ! j)]"
    "pid (procs (liberar_un_mutex v j k) p) = pid (procs k p)"
    "estado (procs (liberar_un_mutex v j k) p) = estado (procs k p) \<or> estado (procs (liberar_un_mutex v j k) p) \<in> {READY, SUSP_READY}"
    "pid_dueno (lista_mutex k ! j) = v \<Longrightarrow> cola_espera (lista_mutex k ! j) = q # qs \<Longrightarrow>
       estado (procs (liberar_un_mutex v j k) q) \<notin> {BLOCK, SUSP_BLOCK}"
  using assms
  by (auto simp: liberar_un_mutex_def cedido_def Let_def pid_despertar estado_despertar split: list.split)

lemma liberar_mutex_efecto:
  assumes "n \<le> length (lista_mutex k)"
  shows "let k' = fold (liberar_un_mutex v) [0..<n] k in
    lista_mutex k' = map (cedido v k) (take n (lista_mutex k)) @ drop n (lista_mutex k) \<and>
    (\<forall>p. pid (procs k' p) = pid (procs k p)) \<and>
    (\<forall>j < n. \<forall>q qs. pid_dueno (lista_mutex k ! j) = v \<and> cola_espera (lista_mutex k ! j) = q # qs \<longrightarrow>
       estado (procs k' q) \<notin> {BLOCK, SUSP_BLOCK})"
  using assms
proof (induction n)
  case (Suc n)
  let ?k = "fold (liberar_un_mutex v) [0..<n] k"
  have IH: "lista_mutex ?k = map (cedido v k) (take n (lista_mutex k)) @ drop n (lista_mutex k)"
    "\<And>p. pid (procs ?k p) = pid (procs k p)"
    "\<And>j q qs. j < n \<Longrightarrow> pid_dueno (lista_mutex k ! j) = v \<Longrightarrow> cola_espera (lista_mutex k ! j) = q # qs \<Longrightarrow>
       estado (procs ?k q) \<notin> {BLOCK, SUSP_BLOCK}"
    using Suc by (simp_all add: Let_def)
  have n: "n < length (lista_mutex ?k)" "lista_mutex ?k ! n = lista_mutex k ! n"
    using Suc.prems by (simp_all add: IH(1) nth_append)
  note E = liberar_un_mutex_efecto [OF n(1), unfolded n(2)]
  have c: "cedido v ?k m = cedido v k m" for m by (simp add: cedido_def IH(2) split: list.split)
  have "lista_mutex (liberar_un_mutex v n ?k) = map (cedido v k) (take (Suc n) (lista_mutex k)) @ drop (Suc n) (lista_mutex k)"
    using Suc.prems by (simp add: E(1) IH(1) c list_update_append take_Suc_conv_app_nth Cons_nth_drop_Suc [symmetric])
  moreover have "estado (procs (liberar_un_mutex v n ?k) q) \<notin> {BLOCK, SUSP_BLOCK}"
    if "j < Suc n" "pid_dueno (lista_mutex k ! j) = v" "cola_espera (lista_mutex k ! j) = q # qs" for j q qs
    using that E(3) [of v q] E(4) [of v q qs] IH(3) [of j q qs] by (cases "j = n") auto
  ultimately show ?case using E(2) IH(2) unfolding Let_def by (intro conjI allI impI) auto
qed simp

text \<open>C27: When a process dies its mutexes pass on: each mutex it owned goes to the first of those
  that wait for it, which is no longer blocked, or stays free if there is none; the other mutexes
  are as they were, so the dead process owns nothing.\<close>

theorem muerto_sin_mutex:
  assumes "k' = liberar_mutex_del_proceso v k" "v \<noteq> - 1"
    "\<forall>m \<in> set (lista_mutex k). \<forall>q \<in> set (cola_espera m). pid (procs k q) \<noteq> v"
  shows "lista_mutex k' = map (cedido v k) (lista_mutex k) \<and> (\<forall>m \<in> set (lista_mutex k'). pid_dueno m \<noteq> v) \<and>
    (\<forall>m \<in> set (lista_mutex k). \<forall>q qs. pid_dueno m = v \<and> cola_espera m = q # qs \<longrightarrow>
       estado (procs k' q) \<notin> {BLOCK, SUSP_BLOCK})"
proof -
  have e: "lista_mutex k' = map (cedido v k) (lista_mutex k)"
    "\<And>j q qs. j < length (lista_mutex k) \<Longrightarrow> pid_dueno (lista_mutex k ! j) = v \<Longrightarrow>
       cola_espera (lista_mutex k ! j) = q # qs \<Longrightarrow> estado (procs k' q) \<notin> {BLOCK, SUSP_BLOCK}"
    using liberar_mutex_efecto [OF le_refl, of v k] assms(1) by (simp_all add: liberar_mutex_del_proceso_def Let_def)
  have "pid_dueno (cedido v k m) \<noteq> v" if "m \<in> set (lista_mutex k)" for m
    using that assms(2,3) by (auto simp: cedido_def split: list.split)
  moreover have "estado (procs k' q) \<notin> {BLOCK, SUSP_BLOCK}"
    if "m \<in> set (lista_mutex k)" "pid_dueno m = v" "cola_espera m = q # qs" for m q qs
    using that e(2) by (metis in_set_conv_nth)
  ultimately show ?thesis using e(1) by auto
qed

lemma muerto_sin_mutex_ejemplo:
  "let k' = liberar_mutex_del_proceso 0 ks_ejemplo
   in map pid_dueno (lista_mutex k') = [3, - 1] \<and> map cola_espera (lista_mutex k') = [[4], []] \<and>
     estado (procs ks_ejemplo 3) = BLOCK \<and> estado (procs k' 3) \<noteq> BLOCK"
  using muerto_sin_mutex [OF refl, of 0 ks_ejemplo] by (simp add: Let_def cedido_def)

section \<open>The loop that resumes processes\<close>








end
