(* ===== verification/IoModulo.thy ===== *)
theory IoModulo
  imports Contexto Texto
begin

text \<open>
  \<open>io/src/main.c\<close>: an IO device.  After its handshake it serves the requests of the Kernel
  Scheduler in a loop that depends on its type.  Its outside world is what it sleeps, what is
  typed on its keyboard and what it writes in its log.
\<close>

record t_io =
  io_entrada :: "byte list"       \<comment> \<open>what the Kernel Scheduler will still deliver\<close>
  io_salida :: "byte list"        \<comment> \<open>what was sent to it\<close>
  io_teclado :: string            \<comment> \<open>\<open>stdin\<close>\<close>
  io_pantalla :: "(int \<times> string) list"  \<comment> \<open>the texts logged for a process\<close>
  io_dormido :: "u32 list"        \<comment> \<open>the microseconds of each \<open>usleep\<close>\<close>

definition obtener_tipo_codigo :: "string \<Rightarrow> int" where
  "obtener_tipo_codigo tipo =
     (if tipo = ''SLEEP'' then codigo OP_IO_SLEEP
      else if tipo = ''STDIN'' then codigo OP_IO_STDIN
      else if tipo = ''STDOUT'' then codigo OP_IO_STDOUT
      else - 1)"

definition enviar :: "byte list \<Rightarrow> t_io \<Rightarrow> t_io" where
  "enviar bs d = d\<lparr>io_salida := io_salida d @ bs\<rparr>"

definition recibir_entero :: "t_io \<Rightarrow> t_io \<times> int option" where
  "recibir_entero d =
     (case recibir_int (io_entrada d) of
        None \<Rightarrow> (d\<lparr>io_entrada := []\<rparr>, None)
      | Some (v, r) \<Rightarrow> (d\<lparr>io_entrada := r\<rparr>, Some v))"

definition hacer_handshake :: "int \<Rightarrow> t_io \<Rightarrow> t_io \<times> bool" where
  "hacer_handshake tipo d =
     (case recibir_entero (enviar (bytes_int tipo) (enviar (bytes_int (codigo HANDSHAKE_IO)) d)) of
        (d1, None) \<Rightarrow> (d1, False)
      | (d1, Some r) \<Rightarrow> (d1, r = codigo HANDSHAKE_OK))"

text \<open>
  What one turn of a loop ends in.  \<open>Io_indefinido\<close> is a negative size, for which the buffer
  does not exist.
\<close>

datatype vuelta =
    Io_sigue t_io
  | Io_fin t_io
  | Io_indefinido

definition pedido :: "t_io \<Rightarrow> t_io \<times> (int \<times> int) option" where
  "pedido d =
     (case recibir_entero d of
        (d1, None) \<Rightarrow> (d1, None)
      | (d1, Some v) \<Rightarrow>
          (case recibir_entero d1 of
             (d2, None) \<Rightarrow> (d2, None)
           | (d2, Some n) \<Rightarrow> (d2, Some (v, n))))"

text \<open>\<open>(useconds_t) tiempo * 1000\<close> is an unsigned product of 32 bits.\<close>

definition microsegundos :: "int \<Rightarrow> u32" where
  "microsegundos tiempo = u32_de_int tiempo * 1000"

definition vuelta_sleep :: "t_io \<Rightarrow> vuelta" where
  "vuelta_sleep d =
     (case pedido d of
        (d1, None) \<Rightarrow> Io_fin d1
      | (d1, Some (v, tiempo)) \<Rightarrow>
          Io_sigue (enviar (bytes_int (codigo OP_OK))
            (d1\<lparr>io_dormido := io_dormido d1 @ [microsegundos tiempo]\<rparr>)))"

text \<open>
  The buffer of \<open>n + 1\<close> zeros after \<open>fgets\<close> and the removal of the newline, at the end of
  what \<open>strlen\<close> counts.
\<close>

definition texto_leido :: "string \<Rightarrow> string" where
  "texto_leido l = takeWhile (\<lambda>c. c \<noteq> CHR 0x00) l"

definition sin_salto :: "string \<Rightarrow> string" where
  "sin_salto l =
     (let m = length (texto_leido l) in
      if 0 < m \<and> l ! (m - 1) = CHR 0x0A then l[m - 1 := CHR 0x00] else l)"

definition buffer_stdin :: "nat \<Rightarrow> string \<Rightarrow> byte list" where
  "buffer_stdin n l = bytes_texto (take n (sin_salto l @ replicate n (CHR 0x00)))"

definition vuelta_stdin :: "t_io \<Rightarrow> vuelta" where
  "vuelta_stdin d =
     (case pedido d of
        (d1, None) \<Rightarrow> Io_fin d1
      | (d1, Some (v, n)) \<Rightarrow>
          if n < 0 then Io_indefinido
          else (case leer_linea (nat n) (io_teclado d1) of
                  (l, resto) \<Rightarrow> Io_sigue (enviar (buffer_stdin (nat n) l) (d1\<lparr>io_teclado := resto\<rparr>))))"

definition vuelta_stdout :: "t_io \<Rightarrow> vuelta" where
  "vuelta_stdout d =
     (case pedido d of
        (d1, None) \<Rightarrow> Io_fin d1
      | (d1, Some (v, n)) \<Rightarrow>
          if n < 0 then Io_indefinido
          else
            let m = nat n;
                datos = take m (io_entrada d1)
            in Io_sigue (enviar (bytes_int (codigo OP_OK))
                 (d1\<lparr>io_entrada := drop m (io_entrada d1),
                      io_pantalla := io_pantalla d1 @ [(v, cadena datos)]\<rparr>)))"

definition una_vuelta :: "int \<Rightarrow> t_io \<Rightarrow> vuelta" where
  "una_vuelta tipo d =
     (if tipo = codigo OP_IO_SLEEP then vuelta_sleep d
      else if tipo = codigo OP_IO_STDIN then vuelta_stdin d
      else vuelta_stdout d)"

section \<open>The loop ends with the connection\<close>

lemma recibir_entero_consume:
  "recibir_entero d = (d1, Some v) \<Longrightarrow> length (io_entrada d1) < length (io_entrada d)"
  by (auto simp: recibir_entero_def recibir_int_def recibir_u32_def recibir_exacto_def
      split: option.splits if_splits)

lemma pedido_consume:
  "pedido d = (d1, Some x) \<Longrightarrow> length (io_entrada d1) < length (io_entrada d)"
  by (auto simp: pedido_def split: prod.splits option.splits dest!: recibir_entero_consume)

lemma una_vuelta_consume:
  "una_vuelta tipo d = Io_sigue d' \<Longrightarrow> length (io_entrada d') < length (io_entrada d)"
  by (auto simp: una_vuelta_def vuelta_sleep_def vuelta_stdin_def vuelta_stdout_def enviar_def Let_def
      split: if_splits prod.splits option.splits dest!: pedido_consume)

text \<open>\<open>bucle_sleep\<close>, \<open>bucle_stdin\<close> and \<open>bucle_stdout\<close>; \<open>None\<close> is the undefined case.\<close>

function bucle :: "int \<Rightarrow> t_io \<Rightarrow> t_io option" where
  "bucle tipo d =
     (case una_vuelta tipo d of
        Io_sigue d' \<Rightarrow> bucle tipo d'
      | Io_fin d' \<Rightarrow> Some d'
      | Io_indefinido \<Rightarrow> None)"
  by pat_completeness auto
termination
  by (relation "measure (\<lambda>(tipo, d). length (io_entrada d))") (simp_all add: una_vuelta_consume)

declare bucle.simps [simp del]

definition io_main :: "string \<Rightarrow> t_io \<Rightarrow> t_io option" where
  "io_main tipo d =
     (if tipo \<noteq> ''STDIN'' \<and> tipo \<noteq> ''STDOUT'' \<and> tipo \<noteq> ''SLEEP'' then Some d
      else (case hacer_handshake (obtener_tipo_codigo tipo) d of
              (d1, False) \<Rightarrow> Some d1
            | (d1, True) \<Rightarrow> bucle (obtener_tipo_codigo tipo) d1))"

end
