(* ===== verification/PropiedadesIO.thy ===== *)
theory PropiedadesIO
  imports PropiedadesDispositivos SyscallsKS IoModulo
begin

text \<open>
  Input and output across the modules: the Kernel Scheduler, the device (\<open>io\<close>) and Kernel
  Memory, each one reading what the others write.  What is typed on a \<open>STDIN\<close> device ends in
  the memory of the process, and what is in the memory ends on the screen of a \<open>STDOUT\<close> one.
\<close>

section \<open>The buffer of a device\<close>

lemma bytes_texto_ceros [simp]: "bytes_texto (replicate n (CHR 0x00)) = replicate n 0"
  by (simp add: bytes_texto_def)

lemma bytes_texto_append [simp]: "bytes_texto (s @ t) = bytes_texto s @ bytes_texto t"
  by (simp add: bytes_texto_def)

lemma sin_salto_linea:
  assumes "linea_normal l"
  shows "sin_salto (l @ [CHR 0x0A]) = l @ [CHR 0x00]"
proof -
  have "texto_leido (l @ [CHR 0x0A]) = l @ [CHR 0x0A]"
    using assms by (auto simp: texto_leido_def linea_normal_def takeWhile_append2)
  then show ?thesis by (simp add: sin_salto_def)
qed

lemma buffer_linea:
  assumes "linea_normal l" "length l < n"
  shows "buffer_stdin n (l @ [CHR 0x0A]) = bytes_texto l @ replicate (n - length l) 0"
proof -
  have "take (n - length l) (CHR 0x00 # replicate n (CHR 0x00)) = replicate (n - length l) (CHR 0x00)"
    using assms(2) by (simp flip: replicate_Suc)
  then show ?thesis using assms by (simp add: buffer_stdin_def sin_salto_linea)
qed

lemma cadena_rellena:
  assumes "linea_normal l"
  shows "cadena (bytes_texto l @ replicate m 0) = l"
proof -
  have "texto (bytes_texto l @ replicate m 0) = l @ replicate m (CHR 0x00)"
    using texto_bytes [of "l @ replicate m (CHR 0x00)"] by simp
  then show ?thesis using assms
    by (cases m) (auto simp: cadena_def linea_normal_def takeWhile_append2)
qed

section \<open>What the scheduler says and hears\<close>

lemma recibir_o_cero_entrada:
  assumes "entrada k s = bytes_int v @ r" "en_int v"
  shows "recibir_o_cero s k = (k\<lparr>entrada := (entrada k)(s := r)\<rparr>, v)"
  using assms by (simp add: recibir_o_cero_def Planificador.recibir_entero_def recibir_int_append)

lemma enviar_bytes_campos [simp]:
  "salida (enviar_bytes s bs k) = (salida k)(s := salida k s @ bs)" "entrada (enviar_bytes s bs k) = entrada k"
  "procs (enviar_bytes s bs k) = procs k" "socket_memoria_global (enviar_bytes s bs k) = socket_memoria_global k"
  by (simp_all add: enviar_bytes_def)

lemma recibir_o_cero_campos:
  assumes "recibir_o_cero s k = (k', v)"
  shows "salida k' = salida k" "procs k' = procs k" "socket_memoria_global k' = socket_memoria_global k"
  using assms by (auto simp: recibir_o_cero_def Planificador.recibir_entero_def split: prod.splits option.splits)

lemma stdin_envia:
  assumes "ejecutar_io_stdin s p k = Some (k', ok)" "s \<noteq> socket_memoria_global k"
  shows "salida k' s = salida k s @ bytes_int (pid (procs k p)) @ bytes_int (io_tamanio (procs k p))"
    "0 \<le> io_tamanio (procs k p)"
  using assms
  by (auto simp: ejecutar_io_stdin_def Let_def leer_en_ceros_def pedir_memoria_def enviar_entero_def
      dest!: recibir_o_cero_campos(1) split: if_splits prod.splits)

lemma stdin_dialoga:
  assumes p: "io_tamanio (procs k p) = int n" and s: "s \<noteq> socket_memoria_global k"
    and e: "entrada k s = datos @ rs" "length datos = n" "entrada k (socket_memoria_global k) = bytes_int c @ rm" "en_int c"
  shows "\<exists>k'. ejecutar_io_stdin s p k = Some (k', c = codigo OP_OK) \<and>
    entrada k' s = rs \<and> entrada k' (socket_memoria_global k) = rm \<and>
    salida k' (socket_memoria_global k) = salida k (socket_memoria_global k) @ bytes_int (codigo OP_ESCRIBIR_DATOS) @
      bytes_int (pid (procs k p)) @ bytes_int (io_direccion_fisica (procs k p)) @ bytes_int (int n) @ datos"
  using assms
  by (simp add: ejecutar_io_stdin_def Let_def leer_en_ceros_def pedir_memoria_def enviar_entero_def
      recibir_o_cero_entrada)

text \<open>The turn of the device.\<close>

lemma pedido_completo:
  assumes "io_entrada d = bytes_int v @ bytes_int n @ r" "en_int v" "en_int n"
  shows "pedido d = (d\<lparr>io_entrada := r\<rparr>, Some (v, n))"
  using assms by (simp add: pedido_def IoModulo.recibir_entero_def recibir_int_append)

lemma vuelta_stdin_linea:
  assumes "io_entrada d = bytes_int v @ bytes_int (int n)" "en_int v" "en_int (int n)"
    and "io_teclado d = l @ CHR 0x0A # resto" "linea_normal l" "length l < n"
  shows "vuelta_stdin d = Io_sigue (d\<lparr>io_entrada := [], io_teclado := resto,
    io_salida := io_salida d @ bytes_texto l @ replicate (n - length l) 0\<rparr>)"
  using pedido_completo [of d v "int n" "[]"] assms leer_linea_normal [OF assms(5,6)]
  by (simp add: vuelta_stdin_def enviar_def buffer_linea)

lemma vuelta_stdout_texto:
  assumes "io_entrada d = bytes_int v @ bytes_int (int (length datos)) @ datos @ r" "en_int v" "en_int (int (length datos))"
  shows "vuelta_stdout d = Io_sigue (d\<lparr>io_entrada := r, io_pantalla := io_pantalla d @ [(v, cadena datos)],
    io_salida := io_salida d @ bytes_int (codigo OP_OK)\<rparr>)"
  using pedido_completo [of d v "int (length datos)" "datos @ r"] assms
  by (simp add: vuelta_stdout_def enviar_def Let_def)

text \<open>Kernel Memory: a write, and a read that follows it.\<close>

lemma km_escribe:
  assumes "km_inv (sk_km h)" "unat (u32_de_int dir) + length datos \<le> unat (memoria_total (km_mapa (sk_km h)))"
    and "en_int v" "en_int (int (length datos))"
  shows "\<exists>h'. atender_ks archivos bp ls AtendiendoKS h
      (bytes_int (codigo OP_ESCRIBIR_DATOS) @ bytes_int v @ bytes_int dir @ bytes_int (int (length datos)) @ datos) =
      SigueKS h' AtendiendoKS (bytes_int (codigo OP_OK)) [] \<and>
    leer_km (u32_de_int dir) (u32_de_int (int (length datos))) (sk_km h') = (sk_km h', Some datos)"
proof -
  let ?k = "sk_km h" and ?n = "u32_de_int (int (length datos))" and ?d = "u32_de_int dir"
  have f: "fisica_valida (km_sticks ?k) (km_red ?k)" and cap: "capacidad (km_sticks ?k) = unat (memoria_total (km_mapa ?k))"
    and m: "\<forall>n. km_malloc ?k n"
    using assms(1) by (simp_all add: km_inv_def km_valido_def)
  have n: "unat ?n = length datos" using assms(4) by (simp add: en_int_def u32_de_int_def unat_of_nat)
  obtain red where w: "escribir_km ?d ?n datos ?k = (con_red red ?k, True)" "fisica_valida (km_sticks ?k) red"
    "imagen (km_sticks ?k) red = empalmar (unat ?d) datos (imagen (km_sticks ?k) (km_red ?k))"
    by (rule escribir_km_ok [OF f, of ?n datos ?d]) (use assms(2) in \<open>auto simp: n cap\<close>)
  have "leer_km ?d ?n (con_red red ?k) = (con_red red ?k, Some datos)"
    using km.leer_ok [OF w(2), of ?d ?n] assms(2) f
    by (simp add: leer_km_def n cap w(3) con_red_def)
  then show ?thesis
    using assms(3,4) w(1) m
    by (intro exI [of _ "con_km (con_red red ?k) h"])
      (simp add: atender_ks_def recibir_codigo_def ks_escribir_datos_def responder_def con_km_def con_red_def
        bytes_int_def [of dir])
qed

lemma km_lee:
  assumes "leer_km (u32_de_int dir) (u32_de_int (int n)) (sk_km h) = (sk_km h, Some datos)"
    and "en_int v" "en_int (int n)" "km_malloc (sk_km h) (u32_de_int (int n))"
  shows "atender_ks archivos bp ls AtendiendoKS h
      (bytes_int (codigo OP_LEER_DATOS) @ bytes_int v @ bytes_int dir @ bytes_int (int n)) =
    SigueKS h AtendiendoKS (bytes_int (codigo OP_OK) @ datos) []"
  using assms by (simp add: atender_ks_def recibir_codigo_def ks_leer_datos_def con_km_def bytes_int_def [of dir])

section \<open>From the keyboard to the memory and from the memory to the screen\<close>

text \<open>C14: What is typed ends in the memory of the process.  The scheduler asks the device for the
  input of a process, the device reads a line that fits, the scheduler takes it to Kernel Memory
  and Kernel Memory writes it: the three conversations end with nothing left to read, the
  scheduler takes the operation for done, and the line, without its newline and filled up with
  zeros, is at the physical address of the request.\<close>

theorem teclado_a_memoria:
  assumes run: "ejecutar_io_stdin s p k = Some (k', ok)" "s \<noteq> socket_memoria_global k"
    and p: "io_tamanio (procs k p) = int n" "en_int (pid (procs k p))" "en_int (int n)"
    and km: "km_inv (sk_km h)"
      "unat (u32_de_int (io_direccion_fisica (procs k p))) + n \<le> unat (memoria_total (km_mapa (sk_km h)))"
    and dispositivo: "salida k' s = salida k s @ io_entrada d" "vuelta_stdin d = Io_sigue d'"
      "entrada k s = drop (length (io_salida d)) (io_salida d') @ rs"
    and memoria: "salida k' (socket_memoria_global k) = salida k (socket_memoria_global k) @ mensaje"
      "atender_ks archivos bp ls AtendiendoKS h mensaje = SigueKS h' ctl resp resto_km"
      "entrada k (socket_memoria_global k) = resp @ rm"
    and linea: "io_teclado d = l @ CHR 0x0A # resto" "linea_normal l" "length l < n"
  shows "ok \<and> io_entrada d' = [] \<and> io_teclado d' = resto \<and> resto_km = [] \<and> entrada k' s = rs \<and>
    entrada k' (socket_memoria_global k) = rm \<and>
    leer_km (u32_de_int (io_direccion_fisica (procs k p))) (u32_de_int (int n)) (sk_km h') =
      (sk_km h', Some (bytes_texto l @ replicate (n - length l) 0))"
proof -
  let ?datos = "bytes_texto l @ replicate (n - length l) 0"
  have len: "length ?datos = n" using linea(3) by simp
  have ent: "io_entrada d = bytes_int (pid (procs k p)) @ bytes_int (int n)"
    using stdin_envia(1) [OF run] dispositivo(1) p(1) by simp
  from vuelta_stdin_linea [OF ent p(2,3) linea] dispositivo(2)
  have d': "d' = d\<lparr>io_entrada := [], io_teclado := resto, io_salida := io_salida d @ ?datos\<rparr>" by simp
  have es: "entrada k s = ?datos @ rs" using dispositivo(3) by (simp add: d')
  have "\<exists>r. salida k' (socket_memoria_global k) = salida k (socket_memoria_global k) @ r \<and>
      r = bytes_int (codigo OP_ESCRIBIR_DATOS) @ bytes_int (pid (procs k p)) @
        bytes_int (io_direccion_fisica (procs k p)) @ bytes_int (int n) @ ?datos"
    using run es len p(1)
    by (auto simp: ejecutar_io_stdin_def Let_def leer_en_ceros_def pedir_memoria_def enviar_entero_def
        dest!: recibir_o_cero_campos(1) split: if_splits prod.splits)
  then have ped: "mensaje = bytes_int (codigo OP_ESCRIBIR_DATOS) @ bytes_int (pid (procs k p)) @
        bytes_int (io_direccion_fisica (procs k p)) @ bytes_int (int (length ?datos)) @ ?datos"
    using memoria(1) len by simp
  obtain h1 where h1: "atender_ks archivos bp ls AtendiendoKS h mensaje = SigueKS h1 AtendiendoKS (bytes_int (codigo OP_OK)) []"
    "leer_km (u32_de_int (io_direccion_fisica (procs k p))) (u32_de_int (int n)) (sk_km h1) = (sk_km h1, Some ?datos)"
    using km_escribe [OF km(1), of "io_direccion_fisica (procs k p)" ?datos "pid (procs k p)" archivos bp ls] km(2) p len ped
    by auto
  then have r: "h' = h1" "resp = bytes_int (codigo OP_OK)" "resto_km = []" using memoria(2) by simp_all
  have "en_int (codigo OP_OK)" by (rule en_int_codigo)
  from stdin_dialoga [OF p(1) run(2) es len memoria(3) [unfolded r] this] run(1)
  have "ok" "entrada k' s = rs" "entrada k' (socket_memoria_global k) = rm" by auto
  with h1(2) r d' show ?thesis by simp
qed

lemma stdout_dialoga:
  assumes p: "io_tamanio (procs k p) = int n" and s: "s \<noteq> socket_memoria_global k"
    and e: "entrada k (socket_memoria_global k) = bytes_int (codigo OP_OK) @ datos @ rm" "length datos = n"
      "entrada k s = bytes_int c @ rs" "en_int c"
  shows "\<exists>k'. ejecutar_io_stdout s p k = Some (k', c = codigo OP_OK) \<and>
    entrada k' s = rs \<and> entrada k' (socket_memoria_global k) = rm"
proof -
  have o: "en_int (codigo OP_OK)" by (rule en_int_codigo)
  show ?thesis using assms o
    by (simp add: ejecutar_io_stdout_def Let_def leer_en_ceros_def pedir_memoria_def enviar_entero_def
        recibir_o_cero_entrada)
qed

text \<open>A process that asks for four bytes of input at the address 2, on the Kernel Memory \<open>h_dos\<close>.\<close>

definition ks_io :: "(int \<Rightarrow> byte list) \<Rightarrow> ks" where
  "ks_io ent =
     (inicializar_estructuras ''FIFO'' [] False 1 2 ent)
       \<lparr>procs := (\<lambda>_. \<lparr>pid = 1, prioridad = 0, prioridad_original = 0, estado = BLOCK, socket_cpu = - 1, pr_cpu = None,
           timer = None, io_tiempo = 0, io_direccion_fisica = 2, io_tamanio = 4, tiempo_suspension = 0\<rparr>)\<rparr>"

lemma ks_io_campos [simp]:
  "pid (procs (ks_io ent) p) = 1" "io_tamanio (procs (ks_io ent) p) = 4" "io_direccion_fisica (procs (ks_io ent) p) = 2"
  "entrada (ks_io ent) = ent" "socket_memoria_global (ks_io ent) = 1" "salida (ks_io ent) = (\<lambda>_. [])"
  by (simp_all add: ks_io_def inicializar_estructuras_def)

definition teclado_ej :: t_io where
  "teclado_ej = \<lparr>io_entrada = bytes_int 1 @ bytes_int 4, io_salida = [], io_teclado = ''SI\<newline>NO'', io_pantalla = [], io_dormido = []\<rparr>"

lemma h_dos_inv: "km_inv (sk_km h_dos)" "unat (memoria_total (km_mapa (sk_km h_dos))) = 16"
proof -
  show "km_inv (sk_km h_dos)" using alcanzable_inv [OF h_dos_alcanzable list_sort_ok_insercion] by simp
  show "unat (memoria_total (km_mapa (sk_km h_dos))) = 16" by code_simp
qed

lemma linea_si: "linea_normal ''SI''"
  by (simp add: linea_normal_def)

definition mensaje_escribir :: "byte list" where
  "mensaje_escribir = bytes_int (codigo OP_ESCRIBIR_DATOS) @ bytes_int 1 @ bytes_int 2 @ bytes_int 4 @ bytes_texto ''SI'' @ [0, 0]"

definition ent_stdin :: "int \<Rightarrow> byte list" where
  "ent_stdin s = (if s = 7 then bytes_texto ''SI'' @ [0, 0] else if s = 1 then bytes_int (codigo OP_OK) else [])"

lemma teclado_a_memoria_ejemplo:
  "\<exists>k' h'. ejecutar_io_stdin 7 0 (ks_io ent_stdin) = Some (k', True) \<and>
     atender_ks archivos_ej None ordenar_insercion AtendiendoKS h_dos mensaje_escribir =
       SigueKS h' AtendiendoKS (bytes_int (codigo OP_OK)) [] \<and>
     leer_km 2 4 (sk_km h') = (sk_km h', Some (bytes_texto ''SI'' @ [0, 0]))"
proof -
  have e4: "en_int 4" "en_int 1" by (simp_all add: en_int_def)
  obtain k' where k': "ejecutar_io_stdin 7 0 (ks_io ent_stdin) = Some (k', True)"
    "salida k' 1 = mensaje_escribir"
    using stdin_dialoga [of "ks_io ent_stdin" 0 4 7 "bytes_texto ''SI'' @ [0, 0]" "[]" "codigo OP_OK" "[]"]
    by (auto simp: ent_stdin_def mensaje_escribir_def)
  have u: "u32_de_int 2 = 2" "u32_de_int 4 = 4" by (simp_all add: u32_de_int_def)
  obtain h' where h': "atender_ks archivos_ej None ordenar_insercion AtendiendoKS h_dos mensaje_escribir =
      SigueKS h' AtendiendoKS (bytes_int (codigo OP_OK)) []"
    using km_escribe [OF h_dos_inv(1), of 2 "bytes_texto ''SI'' @ [0, 0]" 1 archivos_ej None ordenar_insercion] e4 u h_dos_inv(2)
    by (auto simp: mensaje_escribir_def)
  obtain d' where d': "vuelta_stdin teclado_ej = Io_sigue d'" "io_salida d' = bytes_texto ''SI'' @ [0, 0]"
    using vuelta_stdin_linea [of teclado_ej 1 4 "''SI''" "''NO''"] e4 linea_si
    by (simp add: teclado_ej_def numeral_2_eq_2)
  have s: "salida k' 7 = io_entrada teclado_ej" using stdin_envia(1) [OF k'(1)] by (simp add: teclado_ej_def)
  have "leer_km 2 4 (sk_km h') = (sk_km h', Some (bytes_texto ''SI'' @ replicate (4 - length ''SI'') 0))"
    using teclado_a_memoria [OF k'(1), of 4 h_dos teclado_ej d' "[]" mensaje_escribir archivos_ej None ordenar_insercion h'
        AtendiendoKS "bytes_int (codigo OP_OK)" "[]" "[]" "''SI''" "''NO''"] e4 h_dos_inv d' h' k'(2) s linea_si u
    by (simp add: ent_stdin_def teclado_ej_def)
  then show ?thesis using k'(1) h' by (auto simp: numeral_2_eq_2)
qed

lemma recibir_o_cero_dialogo:
  assumes "recibir_o_cero s k = (k', v)"
  shows "salida k' = salida k \<and> procs k' = procs k \<and> socket_memoria_global k' = socket_memoria_global k"
  using recibir_o_cero_campos [OF assms] by simp

lemma stdout_envia:
  assumes "ejecutar_io_stdout s p k = Some (k', ok)" "s \<noteq> socket_memoria_global k"
  shows "salida k' (socket_memoria_global k) = salida k (socket_memoria_global k) @ bytes_int (codigo OP_LEER_DATOS) @
    bytes_int (pid (procs k p)) @ bytes_int (io_direccion_fisica (procs k p)) @ bytes_int (io_tamanio (procs k p))"
  using assms
  by (auto simp: ejecutar_io_stdout_def Let_def leer_en_ceros_def pedir_memoria_def enviar_entero_def
      dest!: recibir_o_cero_dialogo split: if_splits prod.splits)

lemma stdout_envia_datos:
  assumes "ejecutar_io_stdout s p k = Some (k', ok)" "s \<noteq> socket_memoria_global k"
    "io_tamanio (procs k p) = int n" "length datos = n"
    "entrada k (socket_memoria_global k) = bytes_int (codigo OP_OK) @ datos @ rm"
  shows "salida k' s = salida k s @ bytes_int (pid (procs k p)) @ bytes_int (int n) @ datos"
proof -
  have o: "en_int (codigo OP_OK)" by (rule en_int_codigo)
  show ?thesis using assms o
    by (auto simp: ejecutar_io_stdout_def Let_def leer_en_ceros_def pedir_memoria_def enviar_entero_def
        recibir_o_cero_entrada dest!: recibir_o_cero_campos(1) split: if_splits prod.splits)
qed

text \<open>C15: What is in the memory of a process ends on the screen.  The scheduler reads the bytes of
  the request from Kernel Memory and sends them to the device, which logs the text with the pid
  of its process: the line that a \<open>STDIN\<close> device left there, without the zeros after it; the
  three conversations end with nothing left to read.\<close>

theorem memoria_a_pantalla:
  assumes run: "ejecutar_io_stdout s p k = Some (k', ok)" "s \<noteq> socket_memoria_global k"
    and p: "io_tamanio (procs k p) = int n" "en_int (pid (procs k p))" "en_int (int n)"
    and km: "km_inv (sk_km h)"
      "leer_km (u32_de_int (io_direccion_fisica (procs k p))) (u32_de_int (int n)) (sk_km h) =
         (sk_km h, Some (bytes_texto l @ replicate (n - length l) 0))" "linea_normal l" "length l \<le> n"
    and memoria: "salida k' (socket_memoria_global k) = salida k (socket_memoria_global k) @ mensaje"
      "atender_ks archivos bp ls AtendiendoKS h mensaje = SigueKS h' ctl resp resto_km"
      "entrada k (socket_memoria_global k) = resp @ rm"
    and dispositivo: "salida k' s = salida k s @ io_entrada d" "vuelta_stdout d = Io_sigue d'"
      "entrada k s = drop (length (io_salida d)) (io_salida d') @ rs"
  shows "ok \<and> io_pantalla d' = io_pantalla d @ [(pid (procs k p), l)] \<and> io_entrada d' = [] \<and> resto_km = [] \<and>
    h' = h \<and> entrada k' s = rs \<and> entrada k' (socket_memoria_global k) = rm"
proof -
  let ?datos = "bytes_texto l @ replicate (n - length l) 0"
  have len: "length ?datos = n" using km(4) by simp
  have o: "en_int (codigo OP_OK)" by (rule en_int_codigo)
  have m: "km_malloc (sk_km h) x" for x using km(1) by (simp add: km_inv_def km_valido_def)
  have "mensaje = bytes_int (codigo OP_LEER_DATOS) @ bytes_int (pid (procs k p)) @
      bytes_int (io_direccion_fisica (procs k p)) @ bytes_int (int n)"
    using stdout_envia [OF run] memoria(1) p(1) by simp
  with km_lee [OF km(2) p(2,3) m, of archivos bp ls] memoria(2)
  have r: "h' = h" "resp = bytes_int (codigo OP_OK) @ ?datos" "resto_km = []" by simp_all
  have em: "entrada k (socket_memoria_global k) = bytes_int (codigo OP_OK) @ ?datos @ rm" using memoria(3) r by simp
  have ent: "io_entrada d = bytes_int (pid (procs k p)) @ bytes_int (int (length ?datos)) @ ?datos @ []"
    using stdout_envia_datos [OF run p(1) len em] dispositivo(1) len by simp
  from vuelta_stdout_texto [OF ent p(2)] p(3) len dispositivo(2)
  have d': "d' = d\<lparr>io_entrada := [], io_pantalla := io_pantalla d @ [(pid (procs k p), cadena ?datos)],
      io_salida := io_salida d @ bytes_int (codigo OP_OK)\<rparr>" by simp
  have es: "entrada k s = bytes_int (codigo OP_OK) @ rs" using dispositivo(3) by (simp add: d')
  from stdout_dialoga [OF p(1) run(2) em len es o] run(1)
  have "ok" "entrada k' s = rs" "entrada k' (socket_memoria_global k) = rm" by auto
  then show ?thesis using r d' cadena_rellena [OF km(3)] by simp
qed

definition mensaje_leer :: "byte list" where
  "mensaje_leer = bytes_int (codigo OP_LEER_DATOS) @ bytes_int 1 @ bytes_int 2 @ bytes_int 4"

definition ent_stdout :: "int \<Rightarrow> byte list" where
  "ent_stdout s =
     (if s = 8 then bytes_int (codigo OP_OK)
      else if s = 1 then bytes_int (codigo OP_OK) @ bytes_texto ''SI'' @ [0, 0] else [])"

definition pantalla_ej :: t_io where
  "pantalla_ej = \<lparr>io_entrada = bytes_int 1 @ bytes_int 4 @ bytes_texto ''SI'' @ [0, 0], io_salida = [], io_teclado = [],
     io_pantalla = [], io_dormido = []\<rparr>"

text \<open>After the writing of the other example, the line is on the screen.\<close>

lemma memoria_a_pantalla_ejemplo:
  "\<exists>h k' d'. atender_ks archivos_ej None ordenar_insercion AtendiendoKS h_dos mensaje_escribir =
       SigueKS h AtendiendoKS (bytes_int (codigo OP_OK)) [] \<and>
     atender_ks archivos_ej None ordenar_insercion AtendiendoKS h mensaje_leer =
       SigueKS h AtendiendoKS (bytes_int (codigo OP_OK) @ bytes_texto ''SI'' @ [0, 0]) [] \<and>
     ejecutar_io_stdout 8 0 (ks_io ent_stdout) = Some (k', True) \<and>
     vuelta_stdout pantalla_ej = Io_sigue d' \<and> io_pantalla d' = [(1, ''SI'')]"
proof -
  have e4: "en_int 4" "en_int 1" by (simp_all add: en_int_def)
  have u: "u32_de_int 2 = 2" "u32_de_int 4 = 4" by (simp_all add: u32_de_int_def)
  obtain h where h: "atender_ks archivos_ej None ordenar_insercion AtendiendoKS h_dos mensaje_escribir =
      SigueKS h AtendiendoKS (bytes_int (codigo OP_OK)) []"
    "leer_km 2 4 (sk_km h) = (sk_km h, Some (bytes_texto ''SI'' @ [0, 0]))"
    using km_escribe [OF h_dos_inv(1), of 2 "bytes_texto ''SI'' @ [0, 0]" 1 archivos_ej None ordenar_insercion] e4 u h_dos_inv(2)
    by (auto simp: mensaje_escribir_def)
  have i: "km_inv (sk_km h)" by (rule atender_ks_inv [OF h_dos_inv(1) list_sort_ok_insercion h(1)])
  have m: "km_malloc (sk_km h) x" for x using i by (simp add: km_inv_def km_valido_def)
  have lee: "atender_ks archivos_ej None ordenar_insercion AtendiendoKS h mensaje_leer =
      SigueKS h AtendiendoKS (bytes_int (codigo OP_OK) @ bytes_texto ''SI'' @ [0, 0]) []"
    using km_lee [of 2 4 h "bytes_texto ''SI'' @ [0, 0]" 1 archivos_ej None ordenar_insercion] h(2) e4 u m
    by (simp add: mensaje_leer_def)
  obtain k' where k': "ejecutar_io_stdout 8 0 (ks_io ent_stdout) = Some (k', True)"
    using stdout_dialoga [of "ks_io ent_stdout" 0 4 8 "bytes_texto ''SI'' @ [0, 0]" "[]" "codigo OP_OK" "[]"]
    by (auto simp: ent_stdout_def)
  have s: "salida k' 1 = mensaje_leer" using stdout_envia [OF k'] by (simp add: mensaje_leer_def)
  have s8: "salida k' 8 = io_entrada pantalla_ej"
    using stdout_envia_datos [OF k', of 4 "bytes_texto ''SI'' @ [0, 0]" "[]"] by (simp add: ent_stdout_def pantalla_ej_def)
  obtain d' where d': "vuelta_stdout pantalla_ej = Io_sigue d'" "io_salida d' = bytes_int (codigo OP_OK)"
    using vuelta_stdout_texto [of pantalla_ej 1 "bytes_texto ''SI'' @ [0, 0]" "[]"] e4 by (simp add: pantalla_ej_def)
  have "io_pantalla d' = io_pantalla pantalla_ej @ [(pid (procs (ks_io ent_stdout) 0), ''SI'')]"
    using memoria_a_pantalla [OF k', of 4 h "''SI''" mensaje_leer archivos_ej None ordenar_insercion h AtendiendoKS
        "bytes_int (codigo OP_OK) @ bytes_texto ''SI'' @ [0, 0]" "[]" "[]" pantalla_ej d' "[]"]
      e4 i h(2) lee s s8 d' linea_si u
    by (simp add: ent_stdout_def pantalla_ej_def numeral_2_eq_2)
  then show ?thesis using h(1) lee k' d'(1) by (auto simp: pantalla_ej_def)
qed

section \<open>Where the device reads or sleeps something else\<close>

text \<open>
  A line of exactly the size of the request: \<open>fgets\<close> leaves its newline, so the next request
  reads an empty line.
\<close>

lemma salto_pendiente:
  assumes "linea_normal l" "length l = n" "0 < n" "0 < m"
  shows "leer_linea n (l @ CHR 0x0A # resto) = (l, CHR 0x0A # resto)"
    "buffer_stdin m (fst (leer_linea m (CHR 0x0A # resto))) = replicate m 0"
proof -
  show "leer_linea n (l @ CHR 0x0A # resto) = (l, CHR 0x0A # resto)"
    by (rule leer_linea_llena [OF assms(1,2)])
  obtain m' where "m = Suc m'" using assms(4) by (cases m) auto
  then show "buffer_stdin m (fst (leer_linea m (CHR 0x0A # resto))) = replicate m 0"
    using buffer_linea [of "[]" m] assms(4) by (simp add: linea_normal_def bytes_texto_def)
qed

text \<open>A sleep of more than 4294967 milliseconds wraps.\<close>

lemma sueno_desborda: "microsegundos 4294968 = 704"
  by code_simp

section \<open>A request that takes the place of a confirmation\<close>

text \<open>
  While Kernel Memory waits for the confirmation of a compaction, the scheduler may send another
  request on the same connection: its code is taken for the answer, the compaction is given up
  without a notice, and its parameters are read as the next request.
\<close>

lemma confirmacion_robada:
  "atender_ks archivos bp ls (EsperandoDesalojo v id_seg tam) h (bytes_int (codigo OP_SUSPENDER_PROCESO) @ bytes_int w) =
     SigueKS h AtendiendoKS [] (bytes_int w)"
  by (simp add: atender_ks_def ks_confirmacion_def recibir_codigo_def)

end
