(* ===== verification/CarrerasKS.thy ===== *)
theory CarrerasKS
  imports InvariantePasos
begin

text \<open>
  Interleavings in which the Kernel Scheduler loses a process or runs it twice.  They are
  executions of the model, event by event.
\<close>

lemma ver_llega:
  assumes "map_option ver x = Some v"
  obtains k hs where "x = Some (k, hs)" "ver (k, hs) = v"
  using assms by (cases x) auto

section \<open>A process that is never woken\<close>

text \<open>
  \<open>manejar_mutex_lock\<close> puts the process in the queue of the mutex and releases
  \<open>mutex_listas\<close> before \<open>bloquear_proceso\<close>.  If the owner releases the mutex in between, the
  process gets it while it is still running, is not moved, and blocks afterwards.
\<close>

definition inicio_perdido :: "sistema option" where
  "inicio_perdido =
     dos_colas (bytes_cod OP_OK @ bytes_cod OP_OK) []
       [(5, bytes_cod HANDSHAKE_CPU @ bytes_int 7 @ llamada 0 OP_MUTEX_CREATE @ bytes_cadena ''m'' @
            llamada 0 OP_INIT_PROC @ bytes_cadena ''b'' @ bytes_int 1 @
            llamada 0 OP_MUTEX_LOCK @ bytes_cadena ''m''),
        (6, bytes_cod HANDSHAKE_CPU @ bytes_int 8 @ llamada 1 OP_MUTEX_LOCK @ bytes_cadena ''m'' @
            llamada 1 OP_MUTEX_UNLOCK @ bytes_cadena ''m'')]"

definition orden_perdido :: "evento list" where
  "orden_perdido =
     orden_listo @
     [Llega 6, Avanza 4, Avanza 4,
      Avanza 0, Avanza 0, Avanza 0, Avanza 0, Avanza 0,
      Avanza 4, Avanza 4, Avanza 4,
      Avanza 3, Avanza 3, Avanza 3,
      Avanza 4, Avanza 4, Avanza 4, Avanza 4,
      Avanza 3, Avanza 3]"

lemma ver_perdido:
  "map_option ver (Option.bind inicio_perdido (correr ordenar_insercion leal orden_perdido)) =
     Some \<lparr>v_cmn = True, v_exec = [1], v_ready = [[], []], v_block = [0], v_libres = [0], v_mutex = [(''m'', 0, [])],
       v_procs = [(BLOCK, None, 0), (EXEC, Some 1, 1)], v_planificar = (False, 1, 0),
       v_hilos = [Planificador_corto P_ready, Quantum 0, Memoria M_escucha, Cpu 0 C_escucha, Timer_suspension 1, Cpu 1 C_escucha]\<rparr>"
  by code_simp

text \<open>
  The peers keep the protocol all the way.  At the end the process 0 is blocked and owns the
  mutex, nobody waits for anything, and no thread has a process to wake.
\<close>

lemma despertar_perdido:
  "\<exists>k hs. alcanzable_ks ordenar_insercion (k, hs) \<and> lista_block k = [0] \<and>
     map pid_dueno (lista_mutex k) = [0] \<and> en_mutex k = [] \<and>
     (\<forall>h \<in> set hs. \<forall>r \<in># recursos h. espera_de r = {#})"
proof -
  obtain k hs where r: "Option.bind inicio_perdido (correr ordenar_insercion leal orden_perdido) = Some (k, hs)"
    and v: "ver (k, hs) = \<lparr>v_cmn = True, v_exec = [1], v_ready = [[], []], v_block = [0], v_libres = [0], v_mutex = [(''m'', 0, [])],
       v_procs = [(BLOCK, None, 0), (EXEC, Some 1, 1)], v_planificar = (False, 1, 0),
       v_hilos = [Planificador_corto P_ready, Quantum 0, Memoria M_escucha, Cpu 0 C_escucha, Timer_suspension 1, Cpu 1 C_escucha]\<rparr>"
    by (rule ver_llega [OF ver_perdido])
  have "alcanzable_ks ordenar_insercion (k, hs)"
    using r unfolding inicio_perdido_def by (rule alcanzable_dos)
  moreover have "lista_block k = [0]" "hs = [Planificador_corto P_ready, Quantum 0, Memoria M_escucha, Cpu 0 C_escucha,
      Timer_suspension 1, Cpu 1 C_escucha]"
    "map (\<lambda>m. (nombre m, pid_dueno m, cola_espera m)) (lista_mutex k) = [(''m'', 0, [])]"
    using v by (simp_all add: ver_def)
  moreover from this(3) have "map pid_dueno (lista_mutex k) = [0]" "en_mutex k = []"
    by (auto simp: en_mutex_def)
  ultimately show ?thesis by (intro exI [of _ k] exI [of _ hs]) auto
qed

section \<open>A process that is made ready twice\<close>

text \<open>
  Two threads run \<open>intentar_dessuspender_procesos\<close>: the one of the notifications and the one of
  a device.  Both find the same process, and Kernel Memory takes it twice, because a process
  that is not in the swap needs nothing.
\<close>

definition inicio_doble :: "sistema option" where
  "inicio_doble =
     dos_colas (concat (replicate 4 (bytes_cod OP_OK))) (bytes_cod OP_MEMORIA_DISPONIBLE)
       [(5, bytes_cod HANDSHAKE_CPU @ bytes_int 7 @ llamada 0 OP_IO_SLEEP @ bytes_int 10),
        (6, bytes_cod HANDSHAKE_CPU @ bytes_int 8),
        (7, bytes_cod HANDSHAKE_IO @ bytes_cod OP_IO_SLEEP @ bytes_cod OP_OK)]"

definition orden_doble :: "evento list" where
  "orden_doble =
     [Llega 5, Avanza 2, Avanza 2,
      Avanza 0, Avanza 0, Avanza 0, Avanza 0, Avanza 0,
      Avanza 3, Avanza 3, Avanza 3, Avanza 3, Avanza 3,
      Avanza 4, Avanza 4,
      Llega 7, Avanza 4, Avanza 4, Avanza 4, Avanza 4, Avanza 4, Avanza 4, Avanza 4,
      Avanza 4, Avanza 4, Avanza 4,
      Avanza 2, Avanza 2, Avanza 2, Avanza 2,
      Avanza 4, Avanza 2,
      Llega 6, Avanza 5, Avanza 5,
      Avanza 0, Avanza 0, Avanza 0, Avanza 0, Avanza 0,
      Avanza 0, Avanza 0, Avanza 0, Avanza 0, Avanza 0]"

lemma ver_doble:
  "map_option ver (Option.bind inicio_doble (correr ordenar_insercion todo_vale orden_doble)) =
     Some \<lparr>v_cmn = True, v_exec = [0, 0], v_ready = [[], []], v_block = [], v_libres = [], v_mutex = [],
       v_procs = [(EXEC, Some 1, 0)], v_planificar = (False, 1, 0),
       v_hilos = [Planificador_corto P_ready, Quantum 3, Quantum 2, Quantum 0, Memoria (M_dess (D_siguiente 0)),
         Cpu 0 C_escucha, Io OP_IO_SLEEP 7 (I_dess (D_siguiente 0)), Cpu 1 C_escucha]\<rparr>"
  by code_simp

text \<open>The process is twice in the list of the running ones, and both CPUs were told to run it.\<close>

lemma proceso_doble:
  "\<exists>x k hs. inicio_doble = Some x \<and> (paso ordenar_insercion)\<^sup>*\<^sup>* x (k, hs) \<and>
     lista_exec k = [0, 0] \<and> lista_cpus_libres k = [] \<and> prox_proc k = 1"
proof -
  obtain k hs where r: "Option.bind inicio_doble (correr ordenar_insercion todo_vale orden_doble) = Some (k, hs)"
    and v: "ver (k, hs) = \<lparr>v_cmn = True, v_exec = [0, 0], v_ready = [[], []], v_block = [], v_libres = [], v_mutex = [],
       v_procs = [(EXEC, Some 1, 0)], v_planificar = (False, 1, 0),
       v_hilos = [Planificador_corto P_ready, Quantum 3, Quantum 2, Quantum 0, Memoria (M_dess (D_siguiente 0)),
         Cpu 0 C_escucha, Io OP_IO_SLEEP 7 (I_dess (D_siguiente 0)), Cpu 1 C_escucha]\<rparr>"
    by (rule ver_llega [OF ver_doble])
  from r obtain x where x: "inicio_doble = Some x" "correr ordenar_insercion todo_vale orden_doble x = Some (k, hs)"
    by (metis bind_eq_Some_conv)
  have "length (v_procs (ver (k, hs))) = 1" "lista_exec k = [0, 0]" "lista_cpus_libres k = []"
    using v by (simp_all add: ver_def)
  then have "lista_exec k = [0, 0] \<and> lista_cpus_libres k = [] \<and> prox_proc k = 1" by (simp add: ver_def)
  with correr_pasos [OF x(2)] x(1) show ?thesis by blast
qed

end
