(* ===== verification/Sistema.thy ===== *)
theory Sistema
  imports Texto "HOL-Library.State_Monad"
begin

text \<open>
  The operating system as the modules see it: each call with the answer it got, the bytes that
  are still to arrive and those accepted on each descriptor.  What a call answers may depend on
  all the calls before it, so a theorem on every \<open>so\<close> is a theorem on every behaviour of the
  system.  The modules are programs of the state monad over it.
\<close>

section \<open>Calls and their answers\<close>

datatype llamada =
    Getaddrinfo | Freeaddrinfo
  | Socket | Setsockopt int | Nodelay int | Bind int | Listen int | Accept int | Connect int | Close int
  | Send int "byte list" | Recv int nat
  | Malloc nat
  | LogCreate string | LogDestroy | ConfigCreate string | ConfigDestroy
  | Fopen string | Ftruncate int | Fclose
  | PthreadCreate int

type_synonym traza = "(llamada \<times> int) list"

record so =
  so_traza :: traza                            \<comment> \<open>the calls made, the last one first\<close>
  so_resultado :: "traza \<Rightarrow> llamada \<Rightarrow> int"    \<comment> \<open>what the system will answer\<close>
  so_entrada :: "int \<Rightarrow> byte list"             \<comment> \<open>what each peer delivers before it closes\<close>
  so_salida :: "int \<Rightarrow> byte list"              \<comment> \<open>what was accepted for each peer\<close>

definition llamar :: "llamada \<Rightarrow> (so, int) state" where
  "llamar c = State (\<lambda>s.
     let r = so_resultado s (so_traza s) c in (r, s\<lparr>so_traza := (c, r) # so_traza s\<rparr>))"

text \<open>
  \<open>send\<close> accepts a prefix of the bytes and answers its length, or fails with \<open>-1\<close>.
\<close>

definition send :: "int \<Rightarrow> byte list \<Rightarrow> (so, int) state" where
  "send fd bs = State (\<lambda>s.
     let r = max (- 1) (min (int (length bs)) (so_resultado s (so_traza s) (Send fd bs))) in
     (r, s\<lparr>so_traza := (Send fd bs, r) # so_traza s,
           so_salida := (so_salida s)(fd := so_salida s fd @ take (nat r) bs)\<rparr>))"

text \<open>
  \<open>recv\<close> waits for the peer.  It delivers between one byte and \<open>n\<close>, as the system likes, or
  all of the \<open>n\<close> bytes with \<open>MSG_WAITALL\<close>; fewer when the connection ends first, zero at its
  end, and \<open>-1\<close> when it fails.
\<close>

definition recv :: "bool \<Rightarrow> int \<Rightarrow> nat \<Rightarrow> (so, int \<times> byte list) state" where
  "recv waitall fd n = State (\<lambda>s.
     let k = so_resultado s (so_traza s) (Recv fd n);
         bs = (if k < 0 then [] else take (if waitall then n else min n (max 1 (nat k))) (so_entrada s fd));
         r = (if k < 0 then - 1 else int (length bs)) in
     ((r, bs), s\<lparr>so_traza := (Recv fd n, r) # so_traza s,
                 so_entrada := (so_entrada s)(fd := drop (length bs) (so_entrada s fd))\<rparr>))"

lemma run_llamar:
  "run_state (llamar c) s = (r, s') \<longleftrightarrow>
     r = so_resultado s (so_traza s) c \<and> s' = s\<lparr>so_traza := (c, r) # so_traza s\<rparr>"
  by (auto simp: llamar_def Let_def)

lemma run_send:
  assumes "run_state (send fd bs) s = (r, s')"
  shows "so_salida s' = (so_salida s)(fd := so_salida s fd @ take (nat r) bs)" "so_entrada s' = so_entrada s"
    "so_resultado s' = so_resultado s" "so_traza s' = (Send fd bs, r) # so_traza s"
    "r \<le> int (length bs)" "0 < so_resultado s (so_traza s) (Send fd bs) \<Longrightarrow> bs \<noteq> [] \<Longrightarrow> 0 < r"
  using assms by (auto simp: send_def Let_def max_def min_def)

lemma run_recv:
  assumes "run_state (recv waitall fd n) s = ((r, bs), s')"
  shows "bs = take (length bs) (so_entrada s fd)"
    "so_entrada s' = (so_entrada s)(fd := drop (length bs) (so_entrada s fd))"
    "so_salida s' = so_salida s" "so_resultado s' = so_resultado s"
    "so_traza s' = (Recv fd n, r) # so_traza s" "length bs \<le> n" "r = - 1 \<and> bs = [] \<or> r = int (length bs)"
    "0 \<le> so_resultado s (so_traza s) (Recv fd n) \<Longrightarrow> r = int (length bs)"
    "0 \<le> r \<Longrightarrow> 0 < n \<Longrightarrow> so_entrada s fd \<noteq> [] \<Longrightarrow> 0 < r"
    "0 \<le> so_resultado s (so_traza s) (Recv fd n) \<Longrightarrow> waitall \<Longrightarrow> bs = take n (so_entrada s fd)"
  using assms by (auto simp: recv_def Let_def min_def max_def split: if_splits)

section \<open>What a module holds\<close>

text \<open>
  The resources of the system a module has acquired and not returned.  \<open>ordenada\<close> says that
  nothing was returned that it did not hold: no descriptor is closed twice.
\<close>

datatype recurso = RSocket int | RInfo | RLog | RConfig | RArchivo

fun adquiere :: "llamada \<Rightarrow> int \<Rightarrow> recurso option" where
  "adquiere Getaddrinfo r = (if r = 0 then Some RInfo else None)"
| "adquiere Socket r = (if r = - 1 then None else Some (RSocket r))"
| "adquiere (Accept fd) r = (if r = - 1 then None else Some (RSocket r))"
| "adquiere (LogCreate n) r = (if r = 0 then None else Some RLog)"
| "adquiere (ConfigCreate n) r = (if r = 0 then None else Some RConfig)"
| "adquiere (Fopen n) r = (if r = 0 then None else Some RArchivo)"
| "adquiere _ _ = None"

fun libera :: "llamada \<Rightarrow> recurso option" where
  "libera Freeaddrinfo = Some RInfo"
| "libera (Close fd) = Some (RSocket fd)"
| "libera LogDestroy = Some RLog"
| "libera ConfigDestroy = Some RConfig"
| "libera Fclose = Some RArchivo"
| "libera _ = None"

primrec vivos :: "traza \<Rightarrow> recurso multiset" where
  "vivos [] = {#}"
| "vivos (e # t) =
     (case adquiere (fst e) (snd e) of Some x \<Rightarrow> add_mset x (vivos t)
      | None \<Rightarrow> (case libera (fst e) of Some x \<Rightarrow> vivos t - {#x#} | None \<Rightarrow> vivos t))"

primrec ordenada :: "traza \<Rightarrow> bool" where
  "ordenada [] = True"
| "ordenada (e # t) \<longleftrightarrow>
     ordenada t \<and> (case libera (fst e) of Some x \<Rightarrow> x \<in># vivos t | None \<Rightarrow> True)"

definition tiene :: "recurso multiset \<Rightarrow> so \<Rightarrow> bool" where
  "tiene M s \<longleftrightarrow> ordenada (so_traza s) \<and> vivos (so_traza s) = M"

end
