(* ===== verification/Transporte.thy ===== *)
theory Transporte
  imports Sistema
begin

text \<open>
  How the CPU moves bytes: the loops \<open>recibir_exactamente\<close> and \<open>enviar_exactamente\<close> of
  \<open>main.c\<close>, \<open>memoria.c\<close>, \<open>contexto.c\<close> and \<open>ciclo_instruccion.c\<close> (the same loop over \<open>size_t\<close>,
  \<open>uint32_t\<close> and \<open>int\<close> counters), and its integers and strings on top of them.  However the
  system splits the stream, the loops deliver what \<open>recibir_exacto\<close> delivers: this is why the
  rest of the development takes whole messages from a list of bytes.
\<close>

section \<open>The loops\<close>

text \<open>A \<open>ssize_t\<close> stored in an \<open>int\<close>.\<close>

definition a_int :: "int \<Rightarrow> int" where
  "a_int r = int_de_u32 (u32_de_int r)"

lemma a_int_positivo: "0 < a_int r \<Longrightarrow> 0 \<le> r \<Longrightarrow> r < 2 ^ 32 \<Longrightarrow> a_int r = r"
proof -
  assume a: "0 < a_int r" "0 \<le> r" "r < 2 ^ 32"
  have "r < 2 ^ 31"
  proof (rule ccontr)
    assume "\<not> r < 2 ^ 31"
    then have "en_int (r - 2 ^ 32)" using a by (simp add: en_int_def)
    moreover have "u32_de_int (r - 2 ^ 32) = u32_de_int r"
      by (simp add: u32_de_int_def)
    ultimately have "a_int r = r - 2 ^ 32"
      unfolding a_int_def by (metis int_de_u32_de_int)
    with a show False by simp
  qed
  then have "en_int r" using a by (simp add: en_int_def)
  then show ?thesis by (simp add: a_int_def)
qed

lemma a_int_chico: "en_int r \<Longrightarrow> a_int r = r"
  by (simp add: a_int_def)

text \<open>What one call adds keeps the counter within the size.\<close>

lemma recv_cabe:
  assumes "((r, bs), s') = run_state (recv w fd n) s"
  shows "nat r \<le> n" "0 < a_int r \<Longrightarrow> n < 2 ^ 32 \<Longrightarrow> a_int r = r \<and> 0 < r"
proof -
  have r: "r = - 1 \<or> r = int (length bs)" "length bs \<le> n"
    using run_recv(6,7) [OF assms [symmetric]] by auto
  then show "nat r \<le> n" by auto
  assume a: "0 < a_int r" "n < 2 ^ 32"
  have "r \<noteq> - 1" using a by (auto simp: a_int_def en_int_def)
  then show "a_int r = r \<and> 0 < r" using a r a_int_positivo [of r] by auto
qed

lemma send_cabe:
  assumes "(r, s') = run_state (send fd bs) s"
  shows "nat r \<le> length bs" "0 < a_int r \<Longrightarrow> length bs < 2 ^ 32 \<Longrightarrow> a_int r = r \<and> 0 < r"
proof -
  have r: "- 1 \<le> r" "r \<le> int (length bs)"
    using assms by (auto simp: send_def Let_def)
  then show "nat r \<le> length bs" by auto
  assume a: "0 < a_int r" "length bs < 2 ^ 32"
  have "r \<noteq> - 1" using a by (auto simp: a_int_def en_int_def)
  then show "a_int r = r \<and> 0 < r" using a r a_int_positivo [of r] by auto
qed

lemma avanza_palabra:
  fixes tam tot :: "'w::len word"
  assumes "tot < tam" "0 < r" "nat r \<le> unat (tam - tot)"
  shows "unat (tot + word_of_int r) = unat tot + nat r" "unat tot + nat r \<le> unat tam"
    "unat (tam - (tot + word_of_int r)) < unat (tam - tot)"
proof -
  have ltw: "unat tam < 2 ^ LENGTH('w)" by (rule unsigned_less)
  have d: "unat (tam - tot) = unat tam - unat tot"
    using assms(1) by (simp add: unat_sub less_imp_le)
  have l: "unat tot + nat r \<le> unat tam"
    using assms(3) d assms(1) by (simp add: word_less_nat_alt)
  have r: "unat (word_of_int r :: 'w word) = nat r"
  proof -
    have "nat r < 2 ^ LENGTH('w)" using l ltw by linarith
    then have "unat (of_nat (nat r) :: 'w word) = nat r" by (simp add: unat_of_nat)
    moreover have "(of_nat (nat r) :: 'w word) = word_of_int r" using assms(2) by simp
    ultimately show ?thesis by simp
  qed
  have "unat tot + nat r < 2 ^ LENGTH('w)" using l ltw by linarith
  then show s: "unat (tot + word_of_int r) = unat tot + nat r"
    by (simp add: unat_add_lem [THEN iffD1] r)
  show "unat tot + nat r \<le> unat tam" by (rule l)
  show "unat (tam - (tot + word_of_int r)) < unat (tam - tot)"
    using assms(2) l by (subst unat_sub) (simp_all add: s d word_le_nat_alt)
qed

function recibir_desde_socket ::
    "int \<Rightarrow> 64 word \<Rightarrow> 64 word \<Rightarrow> byte list \<Rightarrow> so \<Rightarrow> (bool \<times> byte list) \<times> so" where
  "recibir_desde_socket fd tamanio totales buf s =
     (if totales < tamanio then
        (case run_state (recv False fd (unat (tamanio - totales))) s of ((r, bs), s1) \<Rightarrow>
           if r \<le> 0 then ((False, buf), s1)
           else recibir_desde_socket fd tamanio (totales + word_of_int r) (buf @ bs) s1)
      else ((True, buf), s))"
  by pat_completeness auto
termination
  by (relation "measure (\<lambda>(fd, tam, tot, buf, s). unat (tam - tot))")
    (auto simp: not_le dest: recv_cabe intro: avanza_palabra)

function recibir_desde_u32 ::
    "int \<Rightarrow> u32 \<Rightarrow> u32 \<Rightarrow> byte list \<Rightarrow> so \<Rightarrow> (bool \<times> byte list) \<times> so" where
  "recibir_desde_u32 fd tamanio totales buf s =
     (if totales < tamanio then
        (case run_state (recv False fd (unat (tamanio - totales))) s of ((r, bs), s1) \<Rightarrow>
           let recibidos = a_int r in
           if recibidos \<le> 0 then ((False, buf), s1)
           else recibir_desde_u32 fd tamanio (totales + u32_de_int recibidos) (buf @ bs) s1)
      else ((True, buf), s))"
  by pat_completeness auto
termination
proof (relation "measure (\<lambda>(fd, tam, tot, buf, s). unat (tam - tot))", goal_cases)
  case (2 fd tam tot buf s x s1 r bs recibidos)
  then have c: "((r, bs), s1) = run_state (recv False fd (unat (tam - tot))) s" by simp
  have "a_int r = r \<and> 0 < r" using recv_cabe(2) [OF c] 2 unat_u32_lt [of "tam - tot"] by simp
  then show ?case
    using recv_cabe(1) [OF c] 2 by (auto simp: u32_de_int_def intro!: avanza_palabra)
qed simp

function recibir_desde_int ::
    "int \<Rightarrow> int \<Rightarrow> int \<Rightarrow> byte list \<Rightarrow> so \<Rightarrow> (bool \<times> byte list) \<times> so" where
  "recibir_desde_int fd tamanio totales buf s =
     (if totales < tamanio then
        (case run_state (recv False fd (nat (tamanio - totales))) s of ((r, bs), s1) \<Rightarrow>
           let recibidos = a_int r in
           if recibidos \<le> 0 then ((False, buf), s1)
           else recibir_desde_int fd tamanio (totales + recibidos) (buf @ bs) s1)
      else ((True, buf), s))"
  by pat_completeness auto
termination by (relation "measure (\<lambda>(fd, tam, tot, buf, s). nat (tam - tot))") auto

text \<open>\<open>main.c\<close>, \<open>memoria.c\<close> and \<open>ciclo_instruccion.c\<close>, \<open>contexto.c\<close>.\<close>

definition recibir_exactamente_socket :: "int \<Rightarrow> 64 word \<Rightarrow> (so, bool \<times> byte list) state" where
  "recibir_exactamente_socket fd tamanio = State (recibir_desde_socket fd tamanio 0 [])"

definition recibir_exactamente :: "int \<Rightarrow> u32 \<Rightarrow> (so, bool \<times> byte list) state" where
  "recibir_exactamente fd tamanio = State (recibir_desde_u32 fd tamanio 0 [])"

definition recibir_exactamente_cpu :: "int \<Rightarrow> u32 \<Rightarrow> (so, bool \<times> byte list) state" where
  "recibir_exactamente_cpu fd tamanio = State (recibir_desde_u32 fd tamanio 0 [])"

definition recibir_exactamente_int :: "int \<Rightarrow> int \<Rightarrow> (so, bool \<times> byte list) state" where
  "recibir_exactamente_int fd tamanio = State (recibir_desde_int fd tamanio 0 [])"

function enviar_desde_socket :: "int \<Rightarrow> byte list \<Rightarrow> 64 word \<Rightarrow> 64 word \<Rightarrow> so \<Rightarrow> bool \<times> so" where
  "enviar_desde_socket fd buffer tamanio totales s =
     (if totales < tamanio then
        (case run_state (send fd (take (unat (tamanio - totales)) (drop (unat totales) buffer))) s of (r, s1) \<Rightarrow>
           if r \<le> 0 then (False, s1)
           else enviar_desde_socket fd buffer tamanio (totales + word_of_int r) s1)
      else (True, s))"
  by pat_completeness auto
termination
proof (relation "measure (\<lambda>(fd, buf, tam, tot, s). unat (tam - tot))", goal_cases)
  case (2 fd buffer tam tot s r s1)
  then show ?case
    using send_cabe(1) [OF 2(2)] by (auto simp: not_le intro!: avanza_palabra)
qed simp

function enviar_desde_u32 :: "int \<Rightarrow> byte list \<Rightarrow> u32 \<Rightarrow> u32 \<Rightarrow> so \<Rightarrow> bool \<times> so" where
  "enviar_desde_u32 fd buffer tamanio totales s =
     (if totales < tamanio then
        (case run_state (send fd (take (unat (tamanio - totales)) (drop (unat totales) buffer))) s of (r, s1) \<Rightarrow>
           let enviados = a_int r in
           if enviados \<le> 0 then (False, s1)
           else enviar_desde_u32 fd buffer tamanio (totales + u32_de_int enviados) s1)
      else (True, s))"
  by pat_completeness auto
termination
proof (relation "measure (\<lambda>(fd, buf, tam, tot, s). unat (tam - tot))", goal_cases)
  case (2 fd buffer tam tot s r s1 enviados)
  have l: "length (take (unat (tam - tot)) (drop (unat tot) buffer)) < 2 ^ 32"
    using unat_u32_lt [of "tam - tot"] by (simp add: min_def)
  have "a_int r = r \<and> 0 < r" using send_cabe(2) [OF 2(2) _ l] 2 by simp
  then show ?case
    using send_cabe(1) [OF 2(2)] 2 by (auto simp: u32_de_int_def intro!: avanza_palabra)
qed simp

function enviar_desde_int :: "int \<Rightarrow> byte list \<Rightarrow> int \<Rightarrow> int \<Rightarrow> so \<Rightarrow> bool \<times> so" where
  "enviar_desde_int fd buffer tamanio totales s =
     (if totales < tamanio then
        (case run_state (send fd (take (nat (tamanio - totales)) (drop (nat totales) buffer))) s of (r, s1) \<Rightarrow>
           let enviados = a_int r in
           if enviados \<le> 0 then (False, s1)
           else enviar_desde_int fd buffer tamanio (totales + enviados) s1)
      else (True, s))"
  by pat_completeness auto
termination by (relation "measure (\<lambda>(fd, buf, tam, tot, s). nat (tam - tot))") auto

definition enviar_exactamente_socket :: "int \<Rightarrow> byte list \<Rightarrow> 64 word \<Rightarrow> (so, bool) state" where
  "enviar_exactamente_socket fd buffer tamanio = State (enviar_desde_socket fd buffer tamanio 0)"

definition enviar_exactamente :: "int \<Rightarrow> byte list \<Rightarrow> u32 \<Rightarrow> (so, bool) state" where
  "enviar_exactamente fd buffer tamanio = State (enviar_desde_u32 fd buffer tamanio 0)"

definition enviar_exactamente_int :: "int \<Rightarrow> byte list \<Rightarrow> int \<Rightarrow> (so, bool) state" where
  "enviar_exactamente_int fd buffer tamanio = State (enviar_desde_int fd buffer tamanio 0)"

declare recibir_desde_socket.simps [simp del] recibir_desde_u32.simps [simp del]
  recibir_desde_int.simps [simp del] enviar_desde_socket.simps [simp del]
  enviar_desde_u32.simps [simp del] enviar_desde_int.simps [simp del]

section \<open>Integers and strings of the CPU\<close>

text \<open>
  An \<open>int\<close> is received only when its four bytes came.  \<open>recibir_string\<close> is null when the length
  is out of range, there is no memory or the contents do not come; what follows a NUL in them
  is not part of the string.
\<close>

definition cpu_enviar_entero :: "int \<Rightarrow> int \<Rightarrow> (so, bool) state" where
  "cpu_enviar_entero fd valor = enviar_exactamente_socket fd (bytes_int valor) 4"

definition cpu_recibir_entero :: "int \<Rightarrow> (so, int option) state" where
  "cpu_recibir_entero fd = do {
     (ok, bs) \<leftarrow> recibir_exactamente_socket fd 4;
     State_Monad.return (if ok then Some (int_de_u32 (u32_de_bytes bs)) else None)
   }"

definition cpu_enviar_string :: "int \<Rightarrow> string \<Rightarrow> (so, bool) state" where
  "cpu_enviar_string fd cad = do {
     let tamanio = a_int (int (length cad));
     ok \<leftarrow> cpu_enviar_entero fd tamanio;
     if \<not> ok then State_Monad.return False
     else enviar_exactamente_socket fd (bytes_texto cad) (word_of_int tamanio)
   }"

definition cpu_recibir_string :: "int \<Rightarrow> (so, string option) state" where
  "cpu_recibir_string fd = do {
     n \<leftarrow> cpu_recibir_entero fd;
     case n of
       None \<Rightarrow> State_Monad.return None
     | Some tamanio \<Rightarrow>
         if tamanio < 0 \<or> tamanio > 10000 then State_Monad.return None
         else do {
           p \<leftarrow> llamar (Malloc (nat tamanio + 1));
           if p = 0 then State_Monad.return None
           else do {
             (ok, bs) \<leftarrow> recibir_exactamente_socket fd (word_of_int tamanio);
             State_Monad.return (if ok then Some (cadena bs) else None)
           }
         }
   }"

section \<open>One loop\<close>

text \<open>The three counters run the same loop, over the number of bytes that are missing.\<close>

function recibir_todo :: "int \<Rightarrow> nat \<Rightarrow> byte list \<Rightarrow> so \<Rightarrow> (bool \<times> byte list) \<times> so" where
  "recibir_todo fd n buf s =
     (if n = 0 then ((True, buf), s)
      else (case run_state (recv False fd n) s of ((r, bs), s1) \<Rightarrow>
              if r \<le> 0 then ((False, buf), s1) else recibir_todo fd (n - nat r) (buf @ bs) s1))"
  by pat_completeness auto
termination by (relation "measure (\<lambda>(fd, n, buf, s). n)") auto

function enviar_todo :: "int \<Rightarrow> byte list \<Rightarrow> so \<Rightarrow> bool \<times> so" where
  "enviar_todo fd bs s =
     (if bs = [] then (True, s)
      else (case run_state (send fd bs) s of (r, s1) \<Rightarrow>
              if r \<le> 0 then (False, s1) else enviar_todo fd (drop (nat r) bs) s1))"
  by pat_completeness auto
termination by (relation "measure (\<lambda>(fd, bs, s). length bs)") auto

declare recibir_todo.simps [simp del] enviar_todo.simps [simp del]

text \<open>
  What the loop needs of its counter: the number of bytes done, the number missing, and that
  adding the result of a call moves as many bytes from one to the other.
\<close>

locale contador =
  fixes valido :: "'c \<Rightarrow> bool" and hecho :: "'c \<Rightarrow> nat" and falta :: "'c \<Rightarrow> nat" and suma :: "int \<Rightarrow> 'c \<Rightarrow> 'c"
  assumes avanza: "valido c \<Longrightarrow> 0 < r \<Longrightarrow> nat r \<le> falta c \<Longrightarrow>
      valido (suma r c) \<and> hecho (suma r c) = hecho c + nat r \<and> falta (suma r c) = falta c - nat r"
begin

lemma recibe:
  assumes bucle: "\<And>c buf s. valido c \<Longrightarrow> bucle c buf s =
      (if falta c = 0 then ((True, buf), s)
       else (case run_state (recv False fd (falta c)) s of ((r, bs), s1) \<Rightarrow>
               if r \<le> 0 then ((False, buf), s1) else bucle (suma r c) (buf @ bs) s1))"
    and "valido c"
  shows "bucle c buf s = recibir_todo fd (falta c) buf s"
  using assms(2)
proof (induction "falta c" arbitrary: c buf s rule: less_induct)
  case less
  show ?case
  proof (cases "falta c = 0")
    case False
    obtain r bs s1 where e: "run_state (recv False fd (falta c)) s = ((r, bs), s1)" by (metis surj_pair)
    have "bucle (suma r c) (buf @ bs) s1 = recibir_todo fd (falta c - nat r) (buf @ bs) s1" if "0 < r"
    proof -
      note a = avanza [OF less(2) that recv_cabe(1) [OF e [symmetric]]]
      then have "falta (suma r c) < falta c" using False that by simp
      then show ?thesis using less(1) [of "suma r c"] a by simp
    qed
    then show ?thesis using False by (simp add: bucle [OF less(2)] recibir_todo.simps [of _ _ _ s] e)
  qed (simp add: bucle [OF less(2)] recibir_todo.simps [of _ _ _ s])
qed

lemma envia:
  assumes bucle: "\<And>c s. valido c \<Longrightarrow> bucle c s =
      (if falta c = 0 then (True, s)
       else (case run_state (send fd (take (falta c) (drop (hecho c) buf))) s of (r, s1) \<Rightarrow>
               if r \<le> 0 then (False, s1) else bucle (suma r c) s1))"
    and "valido c" "hecho c + falta c \<le> length buf"
  shows "bucle c s = enviar_todo fd (take (falta c) (drop (hecho c) buf)) s"
  using assms(2,3)
proof (induction "falta c" arbitrary: c s rule: less_induct)
  case less
  let ?bs = "take (falta c) (drop (hecho c) buf)"
  show ?case
  proof (cases "falta c = 0")
    case False
    obtain r s1 where e: "run_state (send fd ?bs) s = (r, s1)" by (metis surj_pair)
    have l: "length ?bs = falta c" using less(3) by simp
    then have n: "?bs \<noteq> []" using False by (metis list.size(3))
    have "bucle (suma r c) s1 = enviar_todo fd (drop (nat r) ?bs) s1" if "0 < r"
    proof -
      have r: "nat r \<le> falta c" using send_cabe(1) [OF e [symmetric]] l by simp
      note a = avanza [OF less(2) that r]
      then have "falta (suma r c) < falta c" using False that by simp
      then show ?thesis using less(1) [of "suma r c"] less(3) a r by (simp add: drop_take add.commute)
    qed
    then show ?thesis using False n by (simp add: bucle [OF less(2)] enviar_todo.simps [of _ ?bs s] e)
  qed (simp add: bucle [OF less(2)] enviar_todo.simps [of _ _ s])
qed

end

lemma palabra_avanza:
  fixes tam tot :: "'w::len word"
  assumes "tot \<le> tam" "0 < r" "nat r \<le> unat (tam - tot)"
  shows "tot + word_of_int r \<le> tam \<and> unat (tot + word_of_int r) = unat tot + nat r \<and>
    unat (tam - (tot + word_of_int r)) = unat (tam - tot) - nat r"
proof -
  have l: "tot < tam" using assms by (cases "tot = tam") auto
  note a = avanza_palabra [OF l assms(2,3)]
  have le: "tot + word_of_int r \<le> tam" using a(1,2) by (simp add: word_le_nat_alt)
  then show ?thesis using assms(1) a(1) by (simp add: unat_sub)
qed

abbreviation falta_palabra :: "'w::len word \<times> 'w word \<Rightarrow> nat" where
  "falta_palabra c \<equiv> unat (fst c - snd c)"

abbreviation suma_palabra :: "int \<Rightarrow> 'w::len word \<times> 'w word \<Rightarrow> 'w word \<times> 'w word" where
  "suma_palabra r c \<equiv> (fst c, snd c + word_of_int r)"

interpretation cont_size: contador
  "\<lambda>c :: 64 word \<times> 64 word. snd c \<le> fst c" "\<lambda>c. unat (snd c)" falta_palabra suma_palabra
  by unfold_locales (simp add: palabra_avanza)

interpretation cont_u32: contador
  "\<lambda>c :: u32 \<times> u32. snd c \<le> fst c \<and> unat (fst c) < 2 ^ 31" "\<lambda>c. unat (snd c)" falta_palabra suma_palabra
proof (unfold_locales, goal_cases)
  case (1 c r)
  then show ?case using palabra_avanza [of "snd c" "fst c" r] by (simp only: fst_conv snd_conv simp_thms)
qed

interpretation cont_int: contador
  "\<lambda>c. 0 \<le> snd c \<and> snd c \<le> fst c \<and> en_int (fst c)" "\<lambda>c. nat (snd c)" "\<lambda>c. nat (fst c - snd c)"
  "\<lambda>r c. (fst c, snd c + r)"
  by unfold_locales (auto simp: nat_diff_distrib [symmetric] diff_diff_eq nat_add_distrib)

text \<open>A size that fits in \<open>int\<close> is not changed by the conversion of the results.\<close>

lemma recv_en_int:
  assumes "run_state (recv w fd n) s = ((r, bs), s1)" "n < 2 ^ 31"
  shows "a_int r = r"
  using run_recv(6,7) [OF assms(1)] assms(2) by (intro a_int_chico) (auto simp: en_int_def)

lemma send_en_int:
  assumes "run_state (send fd bs) s = (r, s1)" "length bs < 2 ^ 31"
  shows "a_int r = r"
  using assms by (intro a_int_chico) (auto simp: send_def Let_def en_int_def)

lemma resta_chica:
  "tot \<le> tam \<Longrightarrow> unat tam < 2 ^ 31 \<Longrightarrow> unat (tam - tot :: u32) < 2 ^ 31"
  "0 \<le> i \<Longrightarrow> i \<le> j \<Longrightarrow> en_int j \<Longrightarrow> nat (j - i) < 2 ^ 31"
  by (simp_all add: unat_sub en_int_def nat_less_iff)

lemma recibir_socket_todo:
  "recibir_desde_socket fd tam 0 buf s = recibir_todo fd (unat tam) buf s"
proof -
  let ?c = "(tam, 0 :: 64 word)"
  have "recibir_desde_socket fd (fst ?c) (snd ?c) buf s = recibir_todo fd (falta_palabra ?c) buf s"
  proof (rule cont_size.recibe [where bucle = "\<lambda>c. recibir_desde_socket fd (fst c) (snd c)" and c = "?c"], goal_cases)
    case (1 c buf s)
    then show ?case
      by (subst recibir_desde_socket.simps) (auto simp: unat_eq_zero less_le split: prod.split)
  qed simp
  then show ?thesis by simp
qed

lemma recibir_u32_todo:
  assumes "unat tam < 2 ^ 31"
  shows "recibir_desde_u32 fd tam 0 buf s = recibir_todo fd (unat tam) buf s"
proof -
  let ?c = "(tam, 0 :: u32)"
  have "recibir_desde_u32 fd (fst ?c) (snd ?c) buf s = recibir_todo fd (falta_palabra ?c) buf s"
  proof (rule cont_u32.recibe [where bucle = "\<lambda>c. recibir_desde_u32 fd (fst c) (snd c)" and c = "?c"], goal_cases)
    case (1 c buf s)
    note ai = recv_en_int [OF _ resta_chica(1) [OF conjunct1 [OF 1] conjunct2 [OF 1]]]
    show ?case
      using 1 by (subst recibir_desde_u32.simps)
        (auto simp: unat_eq_zero less_le Let_def u32_de_int_def ai split: prod.split)
  qed (use assms in simp)
  then show ?thesis by simp
qed

lemma recibir_int_todo:
  assumes "0 \<le> tam" "en_int tam"
  shows "recibir_desde_int fd tam 0 buf s = recibir_todo fd (nat tam) buf s"
proof -
  let ?c = "(tam, 0 :: int)"
  have "recibir_desde_int fd (fst ?c) (snd ?c) buf s =
      recibir_todo fd (nat (fst ?c - snd ?c)) buf s"
  proof (rule cont_int.recibe [where bucle = "\<lambda>c. recibir_desde_int fd (fst c) (snd c)" and c = "?c"], goal_cases)
    case (1 c buf s)
    then have "nat (fst c - snd c) < 2 ^ 31" by (intro resta_chica(2)) auto
    note ai = recv_en_int [OF _ this]
    show ?case
      using 1 by (subst recibir_desde_int.simps) (auto simp: Let_def ai split: prod.split)
  qed (use assms in simp)
  then show ?thesis by simp
qed

lemma enviar_socket_todo:
  assumes "length buf = unat tam"
  shows "enviar_desde_socket fd buf tam 0 s = enviar_todo fd buf s"
proof -
  let ?c = "(tam, 0 :: 64 word)"
  have "enviar_desde_socket fd buf (fst ?c) (snd ?c) s =
      enviar_todo fd (take (falta_palabra ?c) (drop (unat (snd ?c)) buf)) s"
  proof (rule cont_size.envia [where bucle = "\<lambda>c. enviar_desde_socket fd buf (fst c) (snd c)" and c = "?c"], goal_cases)
    case (1 c s)
    then show ?case
      by (subst enviar_desde_socket.simps) (auto simp: unat_eq_zero less_le split: prod.split)
  qed (use assms in simp_all)
  then show ?thesis using assms by simp
qed

lemma enviar_u32_todo:
  assumes "length buf = unat tam" "unat tam < 2 ^ 31"
  shows "enviar_desde_u32 fd buf tam 0 s = enviar_todo fd buf s"
proof -
  let ?c = "(tam, 0 :: u32)"
  have "enviar_desde_u32 fd buf (fst ?c) (snd ?c) s =
      enviar_todo fd (take (falta_palabra ?c) (drop (unat (snd ?c)) buf)) s"
  proof (rule cont_u32.envia [where bucle = "\<lambda>c. enviar_desde_u32 fd buf (fst c) (snd c)" and c = "?c"], goal_cases)
    case (1 c s)
    then have "length (take (falta_palabra c) (drop (unat (snd c)) buf)) < 2 ^ 31"
      using resta_chica(1) [of "snd c" "fst c"] by simp
    note ai = send_en_int [OF _ this]
    show ?case
      using 1 by (subst enviar_desde_u32.simps)
        (auto simp: unat_eq_zero less_le Let_def u32_de_int_def ai split: prod.split)
  qed (use assms in simp_all)
  then show ?thesis using assms by simp
qed

lemma enviar_int_todo:
  assumes "length buf = nat tam" "0 \<le> tam" "en_int tam"
  shows "enviar_desde_int fd buf tam 0 s = enviar_todo fd buf s"
proof -
  let ?c = "(tam, 0 :: int)"
  have "enviar_desde_int fd buf (fst ?c) (snd ?c) s =
      enviar_todo fd (take (nat (fst ?c - snd ?c)) (drop (nat (snd ?c)) buf)) s"
  proof (rule cont_int.envia [where bucle = "\<lambda>c. enviar_desde_int fd buf (fst c) (snd c)" and c = "?c"], goal_cases)
    case (1 c s)
    then have "length (take (nat (fst c - snd c)) (drop (nat (snd c)) buf)) < 2 ^ 31"
      using resta_chica(2) [of "snd c" "fst c"] by simp
    note ai = send_en_int [OF _ this]
    show ?case
      using 1 by (subst enviar_desde_int.simps) (auto simp: Let_def ai split: prod.split)
  qed (use assms in simp_all)
  then show ?thesis using assms by simp
qed

section \<open>What the loops deliver\<close>

lemma recibir_todo_entrega:
  "recibir_todo fd n buf s = ((ok, bs), s') \<Longrightarrow>
     \<exists>m. m \<le> n \<and> bs = buf @ take m (so_entrada s fd) \<and> m \<le> length (so_entrada s fd) \<and>
       so_entrada s' = (so_entrada s)(fd := drop m (so_entrada s fd)) \<and>
       so_salida s' = so_salida s \<and> so_resultado s' = so_resultado s \<and> (ok \<longleftrightarrow> m = n)"
proof (induction fd n buf s rule: recibir_todo.induct)
  case (1 fd n buf s)
  show ?case
  proof (cases "n = 0")
    case True
    then show ?thesis using 1(2) by (auto simp: recibir_todo.simps [of _ _ _ s])
  next
    case False
    obtain r ds s1 where e: "run_state (recv False fd n) s = ((r, ds), s1)" by (metis surj_pair)
    note v = run_recv [OF e]
    show ?thesis
    proof (cases "r \<le> 0")
      case True
      then have "ds = []" using v(7) by auto
      then show ?thesis
        using 1(2) v True False by (auto simp: recibir_todo.simps [of _ _ _ s] e intro!: exI [of _ 0])
    next
      case pos: False
      then have r: "r = int (length ds)" using v(7) by auto
      have "recibir_todo fd (n - nat r) (buf @ ds) s1 = ((ok, bs), s')"
        using 1(2) False pos by (simp add: recibir_todo.simps [of _ _ _ s] e)
      from 1(1) [OF False e [symmetric] refl pos this] obtain m where
        m: "m \<le> n - nat r" "bs = (buf @ ds) @ take m (so_entrada s1 fd)" "m \<le> length (so_entrada s1 fd)"
          "so_entrada s' = (so_entrada s1)(fd := drop m (so_entrada s1 fd))" "so_salida s' = so_salida s1"
          "so_resultado s' = so_resultado s1" "ok \<longleftrightarrow> m = n - nat r" by blast
      have "take (length ds + m) (so_entrada s fd) = ds @ take m (drop (length ds) (so_entrada s fd))"
        using v(1) by (simp add: take_add)
      moreover have "length ds \<le> length (so_entrada s fd)" using v(1) by (metis length_take min.cobounded1)
      ultimately show ?thesis
        using m v(2-4,6) r pos by (intro exI [of _ "length ds + m"]) (auto simp: add.commute)
    qed
  qed
qed

definition sin_fallas_recv :: "so \<Rightarrow> bool" where
  "sin_fallas_recv s \<longleftrightarrow> (\<forall>t fd n. 0 \<le> so_resultado s t (Recv fd n))"

definition sin_fallas_send :: "so \<Rightarrow> bool" where
  "sin_fallas_send s \<longleftrightarrow> (\<forall>t fd bs. 0 < so_resultado s t (Send fd bs))"

lemma recibir_todo_exacto:
  "sin_fallas_recv s \<Longrightarrow> recibir_todo fd n buf s = ((ok, bs), s') \<Longrightarrow> ok \<longleftrightarrow> n \<le> length (so_entrada s fd)"
proof (induction fd n buf s rule: recibir_todo.induct)
  case (1 fd n buf s)
  show ?case
  proof (cases "n = 0")
    case True
    then show ?thesis using 1(3) by (simp add: recibir_todo.simps [of _ _ _ s])
  next
    case False
    obtain r ds s1 where e: "run_state (recv False fd n) s = ((r, ds), s1)" by (metis surj_pair)
    note v = run_recv [OF e]
    have r: "r = int (length ds)" using v(8) 1(2) by (simp add: sin_fallas_recv_def)
    show ?thesis
    proof (cases "r \<le> 0")
      case True
      then have "so_entrada s fd = []" using v(9) False r by (cases "so_entrada s fd") auto
      then show ?thesis using 1(3) True False by (simp add: recibir_todo.simps [of _ _ _ s] e)
    next
      case pos: False
      have s1: "sin_fallas_recv s1" using 1(2) v(4) by (simp add: sin_fallas_recv_def)
      have "recibir_todo fd (n - nat r) (buf @ ds) s1 = ((ok, bs), s')"
        using 1(3) False pos by (simp add: recibir_todo.simps [of _ _ _ s] e)
      from 1(1) [OF False e [symmetric] refl pos s1 this]
      have "ok \<longleftrightarrow> n - length ds \<le> length (so_entrada s fd) - length ds" using v(2) r by simp
      moreover have "length ds \<le> length (so_entrada s fd)" using v(1) by (metis length_take min.cobounded1)
      ultimately show ?thesis using v(6) by linarith
    qed
  qed
qed

lemma enviar_todo_entrega:
  "enviar_todo fd bs s = (ok, s') \<Longrightarrow>
     \<exists>m. m \<le> length bs \<and> so_salida s' = (so_salida s)(fd := so_salida s fd @ take m bs) \<and>
       so_entrada s' = so_entrada s \<and> so_resultado s' = so_resultado s \<and> (ok \<longleftrightarrow> m = length bs)"
proof (induction fd bs s rule: enviar_todo.induct)
  case (1 fd bs s)
  show ?case
  proof (cases "bs = []")
    case True
    then show ?thesis using 1(2) by (auto simp: enviar_todo.simps [of _ _ s])
  next
    case False
    obtain r s1 where e: "run_state (send fd bs) s = (r, s1)" by (metis surj_pair)
    note v = run_send [OF e]
    show ?thesis
    proof (cases "r \<le> 0")
      case True
      then show ?thesis
        using 1(2) v False by (auto simp: enviar_todo.simps [of _ _ s] e intro!: exI [of _ 0])
    next
      case pos: False
      have "enviar_todo fd (drop (nat r) bs) s1 = (ok, s')"
        using 1(2) False pos by (simp add: enviar_todo.simps [of _ _ s] e)
      from 1(1) [OF False e [symmetric] pos this] obtain m where
        m: "m \<le> length bs - nat r" "so_salida s' = (so_salida s1)(fd := so_salida s1 fd @ take m (drop (nat r) bs))"
          "so_entrada s' = so_entrada s1" "so_resultado s' = so_resultado s1" "ok \<longleftrightarrow> m = length bs - nat r"
        unfolding length_drop by blast
      then show ?thesis
        using v(1-3,5) pos by (intro exI [of _ "nat r + m"]) (auto simp: take_add)
    qed
  qed
qed

lemma enviar_todo_ok:
  "sin_fallas_send s \<Longrightarrow> fst (enviar_todo fd bs s)"
proof (induction fd bs s rule: enviar_todo.induct)
  case (1 fd bs s)
  obtain r s1 where e: "run_state (send fd bs) s = (r, s1)" by (metis surj_pair)
  note v = run_send [OF e]
  have "sin_fallas_send s1" using 1(2) v(3) by (simp add: sin_fallas_send_def)
  moreover have "\<not> r \<le> 0" if "bs \<noteq> []" using 1(2) v(6) that by (simp add: sin_fallas_send_def not_le)
  ultimately show ?case
    using 1(1) [OF _ e [symmetric]] by (cases "bs = []") (simp_all add: enviar_todo.simps [of _ _ s] e)
qed

text \<open>The result of a loop, read as that of \<open>recibir_exacto\<close>: the bytes and what is left.\<close>

definition leido :: "int \<Rightarrow> (bool \<times> byte list) \<times> so \<Rightarrow> (byte list \<times> byte list) option" where
  "leido fd x = (if fst (fst x) then Some (snd (fst x), so_entrada (snd x) fd) else None)"

lemma leido_recibir_todo:
  assumes "sin_fallas_recv s"
  shows "leido fd (recibir_todo fd n [] s) = recibir_exacto n (so_entrada s fd)"
proof -
  obtain ok bs s' where e: "recibir_todo fd n [] s = ((ok, bs), s')" by (metis surj_pair)
  from recibir_todo_entrega [OF this] recibir_todo_exacto [OF assms this]
  show ?thesis by (auto simp: leido_def recibir_exacto_def e)
qed

lemma leido_socket:
  assumes "sin_fallas_recv s"
  shows "leido fd (run_state (recibir_exactamente_socket fd tam) s) = recibir_exacto (unat tam) (so_entrada s fd)"
  by (simp add: recibir_exactamente_socket_def recibir_socket_todo leido_recibir_todo [OF assms])

lemma run_recibir_socket:
  assumes "sin_fallas_recv s" "so_entrada s fd = bs @ resto" "length bs = unat tam"
  obtains s' where "run_state (recibir_exactamente_socket fd tam) s = ((True, bs), s')"
    "so_entrada s' = (so_entrada s)(fd := resto)" "sin_fallas_recv s'" "so_resultado s' = so_resultado s"
proof -
  obtain ok ds s' where e: "recibir_todo fd (unat tam) [] s = ((ok, ds), s')" by (metis surj_pair)
  have ok: "ok" using recibir_todo_exacto [OF assms(1) e] assms(2,3) by simp
  from recibir_todo_entrega [OF e] ok assms(2,3)
  have "ds = bs" "so_entrada s' = (so_entrada s)(fd := resto)" "so_resultado s' = so_resultado s" by auto
  then show ?thesis
    using e ok assms(1) that by (simp add: recibir_exactamente_socket_def recibir_socket_todo sin_fallas_recv_def)
qed

lemma run_recibir_u32:
  assumes "sin_fallas_recv s" "so_entrada s fd = bs @ resto" "length bs = unat tam" "unat tam < 2 ^ 31"
  obtains s' where "run_state (recibir_exactamente fd tam) s = ((True, bs), s')"
    "so_entrada s' = (so_entrada s)(fd := resto)" "so_resultado s' = so_resultado s"
proof -
  obtain ok ds s' where e: "recibir_todo fd (unat tam) [] s = ((ok, ds), s')" by (metis surj_pair)
  have ok: "ok" using recibir_todo_exacto [OF assms(1) e] assms(2,3) by simp
  from recibir_todo_entrega [OF e] ok assms(2,3)
  have "ds = bs" "so_entrada s' = (so_entrada s)(fd := resto)" "so_resultado s' = so_resultado s" by auto
  then show ?thesis
    using e ok that by (simp add: recibir_exactamente_def recibir_u32_todo [OF assms(4)])
qed

lemma run_enviar_socket:
  assumes "sin_fallas_send s" "length bs = unat tam"
  obtains s' where "run_state (enviar_exactamente_socket fd bs tam) s = (True, s')"
    "so_salida s' = (so_salida s)(fd := so_salida s fd @ bs)" "so_entrada s' = so_entrada s"
    "sin_fallas_send s'" "so_resultado s' = so_resultado s"
proof -
  obtain ok s' where e: "enviar_todo fd bs s = (ok, s')" by (metis surj_pair)
  have "ok" using enviar_todo_ok [OF assms(1), of fd bs] e by simp
  with enviar_todo_entrega [OF e] e show ?thesis
    using assms that by (auto simp: enviar_exactamente_socket_def enviar_socket_todo sin_fallas_send_def)
qed

lemma run_cpu_enviar_entero:
  assumes "sin_fallas_send s"
  obtains s' where "run_state (cpu_enviar_entero fd v) s = (True, s')"
    "so_salida s' = (so_salida s)(fd := so_salida s fd @ bytes_int v)" "so_entrada s' = so_entrada s"
    "sin_fallas_send s'" "so_resultado s' = so_resultado s"
  using run_enviar_socket [OF assms, of "bytes_int v" 4] by (auto simp: cpu_enviar_entero_def)

lemma run_cpu_recibir_entero:
  assumes "sin_fallas_recv s" "so_entrada s fd = bytes_int v @ resto" "en_int v"
  obtains s' where "run_state (cpu_recibir_entero fd) s = (Some v, s')"
    "so_entrada s' = (so_entrada s)(fd := resto)" "sin_fallas_recv s'" "so_resultado s' = so_resultado s"
proof -
  obtain s' where "run_state (recibir_exactamente_socket fd 4) s = ((True, bytes_int v), s')"
    "so_entrada s' = (so_entrada s)(fd := resto)" "sin_fallas_recv s'" "so_resultado s' = so_resultado s"
    using run_recibir_socket [OF assms(1,2), of 4] by auto
  then show ?thesis using that assms(3) by (simp add: cpu_recibir_entero_def bytes_int_def)
qed

lemma run_cpu_enviar_string:
  assumes "sin_fallas_send s" "length cad < 2 ^ 31"
  obtains s' where "run_state (cpu_enviar_string fd cad) s = (True, s')"
    "so_salida s' = (so_salida s)(fd := so_salida s fd @ bytes_cadena cad)" "sin_fallas_send s'"
proof -
  have i: "a_int (int (length cad)) = int (length cad)" using assms(2) by (intro a_int_chico) (simp add: en_int_def)
  obtain s1 where s1: "run_state (cpu_enviar_entero fd (int (length cad))) s = (True, s1)"
    "so_salida s1 = (so_salida s)(fd := so_salida s fd @ bytes_int (int (length cad)))" "sin_fallas_send s1"
    using run_cpu_enviar_entero [OF assms(1)] by metis
  have "length (bytes_texto cad) = unat (word_of_int (int (length cad)) :: 64 word)"
    using assms(2) by (simp add: unat_of_nat)
  from run_enviar_socket [OF s1(3) this, of fd] obtain s' where
    "run_state (enviar_exactamente_socket fd (bytes_texto cad) (word_of_int (int (length cad)))) s1 = (True, s')"
    "so_salida s' = (so_salida s1)(fd := so_salida s1 fd @ bytes_texto cad)" "sin_fallas_send s'"
    by metis
  then show ?thesis using that s1 by (simp add: cpu_enviar_string_def i bytes_cadena_def Let_def)
qed

lemma run_cpu_recibir_string:
  assumes "sin_fallas_recv s" "so_entrada s fd = bytes_cadena cad @ resto"
    and "length cad \<le> 10000" "CHR 0x00 \<notin> set cad" "\<forall>t n. so_resultado s t (Malloc n) \<noteq> 0"
  obtains s' where "run_state (cpu_recibir_string fd) s = (Some cad, s')"
    "so_entrada s' = (so_entrada s)(fd := resto)"
proof -
  have i: "en_int (int (length cad))" using assms(3) by (simp add: en_int_def)
  obtain s1 where s1: "run_state (cpu_recibir_entero fd) s = (Some (int (length cad)), s1)"
    "so_entrada s1 = (so_entrada s)(fd := bytes_texto cad @ resto)" "sin_fallas_recv s1" "so_resultado s1 = so_resultado s"
    using run_cpu_recibir_entero [OF assms(1) _ i, of fd "bytes_texto cad @ resto"] assms(2)
    by (auto simp: bytes_cadena_def)
  define s2 where "s2 = s1\<lparr>so_traza := (Malloc (length cad + 1), so_resultado s (so_traza s1) (Malloc (length cad + 1))) # so_traza s1\<rparr>"
  have l: "length (bytes_texto cad) = unat (word_of_int (int (length cad)) :: 64 word)"
    using assms(3) by (simp add: unat_of_nat)
  have s2: "sin_fallas_recv s2" "so_entrada s2 fd = bytes_texto cad @ resto" "so_entrada s2 = so_entrada s1"
    using s1 by (simp_all add: s2_def sin_fallas_recv_def)
  from run_recibir_socket [OF s2(1,2) l] obtain s' where
    "run_state (recibir_exactamente_socket fd (word_of_int (int (length cad)))) s2 = ((True, bytes_texto cad), s')"
    "so_entrada s' = (so_entrada s2)(fd := resto)" by metis
  then show ?thesis
    using that s1 s2 assms(3-5)
    by (simp add: cpu_recibir_string_def llamar_def Let_def s2_def cadena_bytes nat_add_distrib)
qed

end
