(* ===== verification/Conexiones.thy ===== *)
theory Conexiones
  imports Transporte
begin

text \<open>
  How the modules open their connections: the connectors of the CPU, the swap, the devices and
  the scheduler, the listening sockets of Kernel Memory and the scheduler, and the connection of
  a stick with its handshake.  The locale \<open>conector\<close> is what all of them owe their callers: a
  failed attempt leaves the module holding what it held before, and a good one adds the socket
  it returns.
\<close>

section \<open>Clients\<close>

text \<open>\<open>conectar\<close> of \<open>cpu/src/main.c\<close>, with a numeric address.\<close>

definition cpu_conectar :: "(so, int) state" where
  "cpu_conectar = do {
     socket_fd \<leftarrow> llamar Socket;
     if socket_fd = - 1 then State_Monad.return (- 1)
     else do {
       resultado \<leftarrow> llamar (Connect socket_fd);
       if resultado = - 1 then do {
         llamar (Close socket_fd);
         State_Monad.return (- 1)
       } else do {
         llamar (Nodelay socket_fd);
         State_Monad.return socket_fd
       }
     }
   }"

text \<open>The same function in \<open>swap/src/main.c\<close> and \<open>io/src/main.c\<close>.\<close>

definition conectar_a_kernel_memory :: "(so, int) state" where
  "conectar_a_kernel_memory = do {
     resultado \<leftarrow> llamar Getaddrinfo;
     if resultado \<noteq> 0 then State_Monad.return (- 1)
     else do {
       socket_fd \<leftarrow> llamar Socket;
       if socket_fd = - 1 then do {
         llamar Freeaddrinfo;
         State_Monad.return (- 1)
       } else do {
         resultado' \<leftarrow> llamar (Connect socket_fd);
         if resultado' = - 1 then do {
           llamar (Close socket_fd);
           llamar Freeaddrinfo;
           State_Monad.return (- 1)
         } else do {
           llamar Freeaddrinfo;
           State_Monad.return socket_fd
         }
       }
     }
   }"

definition conectar_a_kernel_scheduler :: "(so, int) state" where
  "conectar_a_kernel_scheduler = do {
     resultado \<leftarrow> llamar Getaddrinfo;
     if resultado \<noteq> 0 then State_Monad.return (- 1)
     else do {
       socket_fd \<leftarrow> llamar Socket;
       if socket_fd = - 1 then do {
         llamar Freeaddrinfo;
         State_Monad.return (- 1)
       } else do {
         resultado' \<leftarrow> llamar (Connect socket_fd);
         if resultado' = - 1 then do {
           llamar (Close socket_fd);
           llamar Freeaddrinfo;
           State_Monad.return (- 1)
         } else do {
           llamar Freeaddrinfo;
           State_Monad.return socket_fd
         }
       }
     }
   }"

definition crear_conexion :: "(so, int) state" where
  "crear_conexion = do {
     resultado \<leftarrow> llamar Getaddrinfo;
     if resultado \<noteq> 0 then State_Monad.return (- 1)
     else do {
       socket_cliente \<leftarrow> llamar Socket;
       if socket_cliente = - 1 then do {
         llamar Freeaddrinfo;
         State_Monad.return (- 1)
       } else do {
         r \<leftarrow> llamar (Connect socket_cliente);
         if r = - 1 then do {
           llamar (Close socket_cliente);
           llamar Freeaddrinfo;
           State_Monad.return (- 1)
         } else do {
           llamar Freeaddrinfo;
           State_Monad.return socket_cliente
         }
       }
     }
   }"

text \<open>
  \<open>conectar_a\<close> of a stick: it also introduces itself, with its size and the port where the
  CPUs will find it.  The results of these \<open>send\<close> and \<open>recv\<close> are not looked at;
  the answer is 0 until all its bytes come.
\<close>

definition conectar_a :: "u32 \<Rightarrow> int \<Rightarrow> (so, int) state" where
  "conectar_a tamanio puerto_escucha = do {
     err \<leftarrow> llamar Getaddrinfo;
     if err \<noteq> 0 then State_Monad.return (- 1)
     else do {
       fd_conexion \<leftarrow> llamar Socket;
       if fd_conexion = - 1 then do {
         llamar Freeaddrinfo;
         State_Monad.return (- 1)
       } else do {
         err' \<leftarrow> llamar (Connect fd_conexion);
         if err' = - 1 then do {
           llamar (Close fd_conexion);
           llamar Freeaddrinfo;
           State_Monad.return (- 1)
         } else do {
           llamar (Nodelay fd_conexion);
           llamar Freeaddrinfo;
           send fd_conexion (bytes_int (codigo HANDSHAKE_MEMORY_STICK));
           (r, bs) \<leftarrow> recv True fd_conexion 4;
           let resultado = int_de_u32 (u32_de_bytes (bs @ drop (length bs) (bytes_int 0)));
           if resultado = codigo HANDSHAKE_OK then do {
             send fd_conexion (bytes_u32 tamanio);
             send fd_conexion (bytes_int puerto_escucha);
             State_Monad.return fd_conexion
           } else do {
             llamar (Close fd_conexion);
             State_Monad.return (- 1)
           }
         }
       }
     }
   }"

section \<open>Servers\<close>

text \<open>\<open>iniciar_servidor\<close> of Kernel Memory.\<close>

definition km_iniciar_servidor :: "(so, int) state" where
  "km_iniciar_servidor = do {
     resultado \<leftarrow> llamar Getaddrinfo;
     if resultado \<noteq> 0 then State_Monad.return (- 1)
     else do {
       socket_servidor \<leftarrow> llamar Socket;
       if socket_servidor = - 1 then do {
         llamar Freeaddrinfo;
         State_Monad.return (- 1)
       } else do {
         opcion \<leftarrow> llamar (Setsockopt socket_servidor);
         if opcion = - 1 then do {
           llamar (Close socket_servidor);
           llamar Freeaddrinfo;
           State_Monad.return (- 1)
         } else do {
           asociado \<leftarrow> llamar (Bind socket_servidor);
           if asociado = - 1 then do {
             llamar (Close socket_servidor);
             llamar Freeaddrinfo;
             State_Monad.return (- 1)
           } else do {
             escucha \<leftarrow> llamar (Listen socket_servidor);
             if escucha = - 1 then do {
               llamar (Close socket_servidor);
               llamar Freeaddrinfo;
               State_Monad.return (- 1)
             } else do {
               llamar Freeaddrinfo;
               State_Monad.return socket_servidor
             }
           }
         }
       }
     }
   }"

text \<open>That of the scheduler does not look at the result of \<open>setsockopt\<close>.\<close>

definition ks_iniciar_servidor :: "(so, int) state" where
  "ks_iniciar_servidor = do {
     resultado \<leftarrow> llamar Getaddrinfo;
     if resultado \<noteq> 0 then State_Monad.return (- 1)
     else do {
       socket_servidor \<leftarrow> llamar Socket;
       if socket_servidor = - 1 then do {
         llamar Freeaddrinfo;
         State_Monad.return (- 1)
       } else do {
         llamar (Setsockopt socket_servidor);
         asociado \<leftarrow> llamar (Bind socket_servidor);
         if asociado = - 1 then do {
           llamar (Close socket_servidor);
           llamar Freeaddrinfo;
           State_Monad.return (- 1)
         } else do {
           escucha \<leftarrow> llamar (Listen socket_servidor);
           if escucha = - 1 then do {
             llamar (Close socket_servidor);
             llamar Freeaddrinfo;
             State_Monad.return (- 1)
           } else do {
             llamar Freeaddrinfo;
             State_Monad.return socket_servidor
           }
         }
       }
     }
   }"

text \<open>
  That of a stick looks at none: \<open>None\<close> is the use of the address list that \<open>getaddrinfo\<close> did
  not fill.
\<close>

definition stick_iniciar_servidor :: "(so, int option) state" where
  "stick_iniciar_servidor = do {
     err \<leftarrow> llamar Getaddrinfo;
     if err \<noteq> 0 then State_Monad.return None
     else do {
       fd_escucha \<leftarrow> llamar Socket;
       llamar (Setsockopt fd_escucha);
       llamar (Bind fd_escucha);
       llamar (Listen fd_escucha);
       llamar Freeaddrinfo;
       State_Monad.return (Some fd_escucha)
     }
   }"

definition esperar_cliente :: "int \<Rightarrow> (so, int) state" where
  "esperar_cliente socket_servidor = llamar (Accept socket_servidor)"

definition km_esperar_cliente :: "int \<Rightarrow> (so, int) state" where
  "km_esperar_cliente socket_servidor = do {
     socket_cliente \<leftarrow> llamar (Accept socket_servidor);
     if socket_cliente = - 1 then State_Monad.return (- 1) else State_Monad.return socket_cliente
   }"

section \<open>What they owe\<close>

text \<open>A run from a state that holds \<open>M\<close> to one that holds something \<open>Q\<close> allows for its result.\<close>

definition lleva :: "recurso multiset \<Rightarrow> (so, 'a) state \<Rightarrow> ('a \<Rightarrow> recurso multiset \<Rightarrow> bool) \<Rightarrow> bool" where
  "lleva M m Q \<longleftrightarrow>
     (\<forall>s r s'. tiene M s \<longrightarrow> run_state m s = (r, s') \<longrightarrow> (\<exists>N. tiene N s' \<and> Q r N))"

named_theorems lleva_intro "one call and what the module holds after it"

lemma lleva_return [lleva_intro]: "Q x M \<Longrightarrow> lleva M (State_Monad.return x) Q"
  by (auto simp: lleva_def)

lemma lleva_if [lleva_intro]:
  "(b \<Longrightarrow> lleva M m Q) \<Longrightarrow> (\<not> b \<Longrightarrow> lleva M n Q) \<Longrightarrow> lleva M (if b then m else n) Q"
  by simp

lemma lleva_par [lleva_intro]: "lleva M (f a b) Q \<Longrightarrow> lleva M (case (a, b) of (x, y) \<Rightarrow> f x y) Q"
  by simp

lemma lleva_option [lleva_intro]:
  "(x = None \<Longrightarrow> lleva M m Q) \<Longrightarrow> (\<And>y. x = Some y \<Longrightarrow> lleva M (f y) Q) \<Longrightarrow>
     lleva M (case x of None \<Rightarrow> m | Some y \<Rightarrow> f y) Q"
  by (cases x) auto

lemma lleva_bind: "lleva M m R \<Longrightarrow> (\<And>x N. R x N \<Longrightarrow> lleva N (f x) Q) \<Longrightarrow> lleva M (m \<bind> f) Q"
  by (fastforce simp: lleva_def split: prod.splits)

lemma lleva_igual: "lleva M m (\<lambda>r N. N = R r) \<Longrightarrow> (\<And>x. lleva (R x) (f x) Q) \<Longrightarrow> lleva M (m \<bind> f) Q"
  by (rule lleva_bind [where R = "\<lambda>r N. N = R r"]) auto

lemma lleva_adquiere:
  "libera c = None \<Longrightarrow>
     lleva M (llamar c) (\<lambda>r N. N = (case adquiere c r of Some x \<Rightarrow> add_mset x M | None \<Rightarrow> M))"
  by (auto simp: lleva_def tiene_def run_llamar split: option.splits)

lemma lleva_libera:
  "libera c = Some x \<Longrightarrow> (\<And>r. adquiere c r = None) \<Longrightarrow> x \<in># M \<Longrightarrow>
     lleva M (llamar c) (\<lambda>_ N. N = M - {#x#})"
  by (auto simp: lleva_def tiene_def run_llamar)

lemma lleva_neutra:
  "libera c = None \<Longrightarrow> (\<And>r. adquiere c r = None) \<Longrightarrow> (\<And>r. lleva M (f r) Q) \<Longrightarrow> lleva M (llamar c \<bind> f) Q"
  using lleva_igual [OF lleva_adquiere, of c M f Q] by simp

lemma lleva_nuevo:
  assumes "libera c = None" "\<And>r. adquiere c r = (if r = nulo then None else Some (x r))"
    and "lleva M (f nulo) Q" "\<And>r. r \<noteq> nulo \<Longrightarrow> lleva (add_mset (x r) M) (f r) Q"
  shows "lleva M (llamar c \<bind> f) Q"
proof (rule lleva_igual [OF lleva_adquiere [OF assms(1)]])
  show "lleva (case adquiere c r of Some y \<Rightarrow> add_mset y M | None \<Rightarrow> M) (f r) Q" for r
    using assms(2-4) by (cases "r = nulo") simp_all
qed

lemmas lleva_neutras [lleva_intro] =
  lleva_neutra [where c = "Connect _", simplified] lleva_neutra [where c = "Setsockopt _", simplified]
  lleva_neutra [where c = "Bind _", simplified] lleva_neutra [where c = "Listen _", simplified]
  lleva_neutra [where c = "Nodelay _", simplified] lleva_neutra [where c = "Malloc _", simplified]
  lleva_neutra [where c = "Ftruncate _", simplified] lleva_neutra [where c = "PthreadCreate _", simplified]

lemmas lleva_nuevos [lleva_intro] =
  lleva_nuevo [where c = Socket and nulo = "- 1" and x = RSocket, simplified]
  lleva_nuevo [where c = "Accept _" and nulo = "- 1" and x = RSocket, simplified]
  lleva_nuevo [where c = "LogCreate _" and nulo = 0 and x = "\<lambda>_. RLog", simplified]
  lleva_nuevo [where c = "ConfigCreate _" and nulo = 0 and x = "\<lambda>_. RConfig", simplified]
  lleva_nuevo [where c = "Fopen _" and nulo = 0 and x = "\<lambda>_. RArchivo", simplified]

lemma lleva_getaddrinfo [lleva_intro]:
  assumes "\<And>r. r \<noteq> 0 \<Longrightarrow> lleva M (f r) Q" "lleva (add_mset RInfo M) (f 0) Q"
  shows "lleva M (llamar Getaddrinfo \<bind> f) Q"
proof (rule lleva_igual [OF lleva_adquiere])
  show "lleva (case adquiere Getaddrinfo r of Some y \<Rightarrow> add_mset y M | None \<Rightarrow> M) (f r) Q" for r
    using assms by (cases "r = 0") simp_all
qed simp

lemma lleva_suelta:
  assumes "libera c = Some x" "\<And>r. adquiere c r = None" "x \<in># M" "\<And>r. lleva (M - {#x#}) (f r) Q"
  shows "lleva M (llamar c \<bind> f) Q"
  using assms by (intro lleva_igual [OF lleva_libera]) auto

lemmas lleva_sueltas [lleva_intro] =
  lleva_suelta [where c = "Close _", simplified] lleva_suelta [where c = Freeaddrinfo, simplified]
  lleva_suelta [where c = LogDestroy, simplified] lleva_suelta [where c = ConfigDestroy, simplified]
  lleva_suelta [where c = Fclose, simplified]

lemma lleva_quieta: "(\<And>M. lleva M m (\<lambda>_ N. N = M)) \<Longrightarrow> (\<And>r. lleva M (f r) Q) \<Longrightarrow> lleva M (m \<bind> f) Q"
  by (rule lleva_igual [where R = "\<lambda>_. M"])

lemma lleva_asocia [lleva_intro]:
  "lleva M (m \<bind> (\<lambda>x. f x \<bind> g)) Q \<Longrightarrow> lleva M ((m \<bind> f) \<bind> g) Q"
  by simp

lemma lleva_sigue [lleva_intro]: "lleva M (f x) Q \<Longrightarrow> lleva M (State_Monad.return x \<bind> f) Q"
  by simp

lemma lleva_if_sigue [lleva_intro]:
  "(b \<Longrightarrow> lleva M (m \<bind> f) Q) \<Longrightarrow> (\<not> b \<Longrightarrow> lleva M (n \<bind> f) Q) \<Longrightarrow> lleva M ((if b then m else n) \<bind> f) Q"
  by simp

lemma lleva_par_sigue [lleva_intro]:
  "lleva M (f a b \<bind> g) Q \<Longrightarrow> lleva M ((case (a, b) of (x, y) \<Rightarrow> f x y) \<bind> g) Q"
  by simp

lemma lleva_send [lleva_intro]: "(\<And>r. lleva M (f r) Q) \<Longrightarrow> lleva M (send fd bs \<bind> f) Q"
proof (rule lleva_igual [where R = "\<lambda>_. M"])
  show "lleva M (send fd bs) (\<lambda>_ N. N = M)"
    unfolding lleva_def by (simp add: send_def Let_def tiene_def)
qed

lemma lleva_recv [lleva_intro]: "(\<And>r bs. lleva M (f (r, bs)) Q) \<Longrightarrow> lleva M (recv w fd n \<bind> f) Q"
proof (rule lleva_igual [where R = "\<lambda>_. M"])
  show "lleva M (recv w fd n) (\<lambda>_ N. N = M)"
    unfolding lleva_def by (simp add: recv_def Let_def tiene_def)
qed auto

text \<open>The contract, and what it gives to the caller.\<close>

definition con_socket :: "recurso multiset \<Rightarrow> int \<Rightarrow> recurso multiset \<Rightarrow> bool" where
  "con_socket M r N \<longleftrightarrow> N = (if r = - 1 then M else add_mset (RSocket r) M)"

locale conector =
  fixes abrir :: "(so, int) state"
  assumes abre: "lleva M abrir (con_socket M)"
begin

lemma y_despues:
  assumes "lleva M (f (- 1)) Q" "\<And>r. r \<noteq> - 1 \<Longrightarrow> lleva (add_mset (RSocket r) M) (f r) Q"
  shows "lleva M (abrir \<bind> f) Q"
proof (rule lleva_bind [OF abre])
  show "lleva N (f r) Q" if "con_socket M r N" for r N
    using assms that by (cases "r = - 1") (simp_all add: con_socket_def)
qed

end

interpretation cpu: conector cpu_conectar
  by unfold_locales (unfold cpu_conectar_def, intro lleva_intro, auto simp: con_socket_def)

interpretation swap: conector conectar_a_kernel_memory
  by unfold_locales (unfold conectar_a_kernel_memory_def, intro lleva_intro, auto simp: con_socket_def)

interpretation io: conector conectar_a_kernel_scheduler
  by unfold_locales (unfold conectar_a_kernel_scheduler_def, intro lleva_intro, auto simp: con_socket_def)

interpretation ks: conector crear_conexion
  by unfold_locales (unfold crear_conexion_def, intro lleva_intro, auto simp: con_socket_def)

interpretation stick: conector "conectar_a tamanio puerto"
  by unfold_locales (unfold conectar_a_def Let_def, intro lleva_intro, auto simp: con_socket_def)

interpretation km_servidor: conector km_iniciar_servidor
  by unfold_locales (unfold km_iniciar_servidor_def, intro lleva_intro, auto simp: con_socket_def)

interpretation ks_servidor: conector ks_iniciar_servidor
  by unfold_locales (unfold ks_iniciar_servidor_def, intro lleva_intro, auto simp: con_socket_def)

interpretation ks_acepta: conector "esperar_cliente servidor"
proof
  show "lleva M (esperar_cliente servidor) (con_socket M)" for M
    using lleva_adquiere [of "Accept servidor" M] by (auto simp: esperar_cliente_def lleva_def con_socket_def)
qed

interpretation km_acepta: conector "km_esperar_cliente servidor"
  by unfold_locales (unfold km_esperar_cliente_def, intro lleva_intro, auto simp: con_socket_def)

end
