(* ===== verification/Arranque.thy ===== *)
theory Arranque
  imports Conexiones SwapModulo IoModulo CpuMemoria Ciclo ServidorKM
begin

text \<open>
  The \<open>main\<close> functions of the swap, the devices, the sticks, Kernel Memory and the CPU, from
  their arguments to the state in which their loops start.  The configuration files are read by
  a library: what they hold is a parameter.  A path that ends the process gives its exit code.
  The buffer of one block of the swap is granted: the C code does not check it.
\<close>

section \<open>Configuration and results\<close>

record config =
  cf_tiene :: "string \<Rightarrow> bool"
  cf_texto :: "string \<Rightarrow> string"
  cf_entero :: "string \<Rightarrow> int"
  cf_arreglo :: "string \<Rightarrow> string list"

datatype 'a arranque = Sale int | Listo 'a | Indefinido

text \<open>
  \<open>liberar_recursos\<close> of the swap, the devices and the scheduler: the socket if there is one, and
  the globals that are not null.
\<close>

definition liberar_recursos :: "bool \<Rightarrow> bool \<Rightarrow> int \<Rightarrow> (so, unit) state" where
  "liberar_recursos hay_config hay_logger fd = do {
     (if fd \<noteq> - 1 then do { llamar (Close fd); State_Monad.return () } else State_Monad.return ());
     (if hay_config then do { llamar ConfigDestroy; State_Monad.return () } else State_Monad.return ());
     if hay_logger then do { llamar LogDestroy; State_Monad.return () } else State_Monad.return ()
   }"

text \<open>An \<open>int\<close> in one \<open>send\<close>, and one with \<open>MSG_WAITALL\<close>.\<close>

definition so_enviar_entero :: "int \<Rightarrow> int \<Rightarrow> (so, bool) state" where
  "so_enviar_entero fd v = do {
     n \<leftarrow> send fd (bytes_int v);
     State_Monad.return (n = 4)
   }"

definition so_recibir_entero :: "int \<Rightarrow> (so, int option) state" where
  "so_recibir_entero fd = do {
     (n, bs) \<leftarrow> recv True fd 4;
     State_Monad.return (if n = 4 then Some (int_de_u32 (u32_de_bytes bs)) else None)
   }"

section \<open>The swap\<close>

definition swap_hacer_handshake :: "int \<Rightarrow> (so, bool) state" where
  "swap_hacer_handshake socket_km = do {
     ok \<leftarrow> so_enviar_entero socket_km (codigo HANDSHAKE_SWAP);
     if \<not> ok then State_Monad.return False
     else do {
       respuesta \<leftarrow> so_recibir_entero socket_km;
       State_Monad.return (respuesta = Some (codigo HANDSHAKE_OK))
     }
   }"

definition servir_swap :: "int \<Rightarrow> t_swap \<Rightarrow> (so, t_swap) state" where
  "servir_swap fd sw = State (\<lambda>s.
     case swap_bucle sw (so_entrada s fd) of (sw', resp) \<Rightarrow>
       (sw', s\<lparr>so_entrada := (so_entrada s)(fd := []), so_salida := (so_salida s)(fd := so_salida s fd @ resp)\<rparr>))"

definition swap_main :: "config \<Rightarrow> string list \<Rightarrow> (so, int) state" where
  "swap_main conf argv =
     (if length argv \<noteq> 2 then State_Monad.return 1
      else do {
        logger \<leftarrow> llamar (LogCreate ''swap.log'');
        if logger = 0 then State_Monad.return 1
        else do {
          config \<leftarrow> llamar (ConfigCreate (argv ! 1));
          if config = 0 then do { liberar_recursos False True (- 1); State_Monad.return 1 }
          else if \<not> cf_tiene conf ''IP_KERNEL_MEMORY'' \<or> \<not> cf_tiene conf ''PUERTO_KERNEL_MEMORY'' \<or>
            \<not> cf_tiene conf ''SWAP_FILE_PATH'' \<or> \<not> cf_tiene conf ''SWAP_FILE_SIZE'' \<or>
            \<not> cf_tiene conf ''BLOCK_SIZE''
          then do { liberar_recursos True True (- 1); State_Monad.return 1 }
          else do {
            socket_km \<leftarrow> conectar_a_kernel_memory;
            if socket_km = - 1 then do { liberar_recursos True True (- 1); State_Monad.return 1 }
            else do {
              saludo \<leftarrow> swap_hacer_handshake socket_km;
              if \<not> saludo then do { liberar_recursos True True socket_km; State_Monad.return 1 }
              else
                (case swap_iniciar (cf_entero conf ''BLOCK_SIZE'') (cf_entero conf ''SWAP_FILE_SIZE'') of
                   None \<Rightarrow> do { liberar_recursos True True socket_km; State_Monad.return 1 }
                 | Some sw \<Rightarrow> do {
                     archivo \<leftarrow> llamar (Fopen (cf_texto conf ''SWAP_FILE_PATH''));
                     if archivo = 0 then do { liberar_recursos True True socket_km; State_Monad.return 1 }
                     else do {
                       dimension \<leftarrow> llamar (Ftruncate (sw_swap_size sw));
                       if dimension \<noteq> 0 then do {
                         llamar Fclose;
                         liberar_recursos True True socket_km;
                         State_Monad.return 1
                       } else do {
                         send socket_km (bytes_int (sw_block_size sw));
                         send socket_km (bytes_int (sw_swap_size sw));
                         servir_swap socket_km sw;
                         llamar Fclose;
                         liberar_recursos True True socket_km;
                         State_Monad.return 0
                       }
                     }
                   })
            }
          }
        }
      })"

section \<open>The devices\<close>

text \<open>The new logger of \<open>cargar_configuracion\<close> is not checked, but may be null.\<close>

definition io_cargar_configuracion :: "config \<Rightarrow> string \<Rightarrow> string \<Rightarrow> (so, bool \<times> bool \<times> bool) state" where
  "io_cargar_configuracion conf path tipo = do {
     config \<leftarrow> llamar (ConfigCreate path);
     if config = 0 then State_Monad.return (False, False, True)
     else if \<not> cf_tiene conf ''IP_KERNEL_SCHEDULER'' \<or> \<not> cf_tiene conf ''PUERTO_KERNEL_SCHEDULER'' \<or>
       \<not> cf_tiene conf ''LOG_LEVEL''
     then State_Monad.return (False, True, True)
     else do {
       llamar LogDestroy;
       logger \<leftarrow> llamar (LogCreate (''io_'' @ tipo @ ''.log''));
       State_Monad.return (True, True, logger \<noteq> 0)
     }
   }"

definition io_hacer_handshake :: "int \<Rightarrow> int \<Rightarrow> (so, bool) state" where
  "io_hacer_handshake socket_ks tipo_codigo = do {
     ok \<leftarrow> so_enviar_entero socket_ks (codigo HANDSHAKE_IO);
     if \<not> ok then State_Monad.return False
     else do {
       ok' \<leftarrow> so_enviar_entero socket_ks tipo_codigo;
       if \<not> ok' then State_Monad.return False
       else do {
         respuesta \<leftarrow> so_recibir_entero socket_ks;
         State_Monad.return (respuesta = Some (codigo HANDSHAKE_OK))
       }
     }
   }"

text \<open>The loop of the device, on what its keyboard, its screen and its clock are.\<close>

definition servir_io :: "int \<Rightarrow> int \<Rightarrow> t_io \<Rightarrow> (so, t_io option) state" where
  "servir_io fd tipo d = State (\<lambda>s.
     case bucle tipo (d\<lparr>io_entrada := so_entrada s fd, io_salida := so_salida s fd\<rparr>) of
       None \<Rightarrow> (None, s)
     | Some d' \<Rightarrow> (Some d', s\<lparr>so_entrada := (so_entrada s)(fd := io_entrada d'),
                                so_salida := (so_salida s)(fd := io_salida d')\<rparr>))"

definition io_principal :: "config \<Rightarrow> string list \<Rightarrow> t_io \<Rightarrow> (so, t_io arranque) state" where
  "io_principal conf argv d =
     (if length argv \<noteq> 3 then State_Monad.return (Sale 1)
      else if argv ! 2 \<noteq> ''STDIN'' \<and> argv ! 2 \<noteq> ''STDOUT'' \<and> argv ! 2 \<noteq> ''SLEEP''
      then State_Monad.return (Sale 1)
      else do {
        logger \<leftarrow> llamar (LogCreate (''io_'' @ argv ! 2 @ ''.log''));
        if logger = 0 then State_Monad.return (Sale 1)
        else do {
          (ok, hay_config, hay_logger) \<leftarrow> io_cargar_configuracion conf (argv ! 1) (argv ! 2);
          if \<not> ok then do { liberar_recursos hay_config hay_logger (- 1); State_Monad.return (Sale 1) }
          else if \<not> hay_logger then State_Monad.return Indefinido
          else do {
            socket_ks \<leftarrow> conectar_a_kernel_scheduler;
            if socket_ks = - 1 then do {
              liberar_recursos hay_config hay_logger (- 1);
              State_Monad.return (Sale 1)
            } else do {
              saludo \<leftarrow> io_hacer_handshake socket_ks (obtener_tipo_codigo (argv ! 2));
              if \<not> saludo then do {
                liberar_recursos hay_config hay_logger socket_ks;
                State_Monad.return (Sale 1)
              } else do {
                fin \<leftarrow> servir_io socket_ks (obtener_tipo_codigo (argv ! 2)) d;
                (case fin of
                   None \<Rightarrow> State_Monad.return Indefinido
                 | Some d' \<Rightarrow> do {
                     liberar_recursos hay_config hay_logger socket_ks;
                     State_Monad.return (Sale 0)
                   })
              }
            }
          }
        }
      })"

section \<open>The sticks\<close>

text \<open>
  A stick ends up with its buffer, whose first contents are those \<open>malloc\<close> left, the connection
  with Kernel Memory and the socket where it waits for the CPUs.
\<close>

definition stick_main :: "config \<Rightarrow> (u32 \<Rightarrow> byte list) \<Rightarrow> (u32 \<Rightarrow> bool) \<Rightarrow> string list \<Rightarrow>
    (so, (t_stick \<times> int \<times> int) arranque) state" where
  "stick_main conf basura malloc argv =
     (if length argv \<noteq> 3 then State_Monad.return (Sale 1)
      else do {
        let tamanio_memoria = u32_de_int (atoi (argv ! 2));
        config \<leftarrow> llamar (ConfigCreate (argv ! 1));
        if config = 0 then State_Monad.return (Sale 1)
        else do {
          logger \<leftarrow> llamar (LogCreate (take 63 (''memory_stick_'' @ cf_texto conf ''PUERTO'' @ ''.log'')));
          if logger = 0 then State_Monad.return (Sale 1)
          else do {
            memoria \<leftarrow> llamar (Malloc (unat tamanio_memoria));
            if memoria = 0 then State_Monad.return (Sale 1)
            else do {
              fd_kernel_memory \<leftarrow> conectar_a tamanio_memoria (atoi (cf_texto conf ''PUERTO''));
              if fd_kernel_memory = - 1 then State_Monad.return (Sale 1)
              else do {
                llamar (PthreadCreate fd_kernel_memory);
                fd_escucha \<leftarrow> stick_iniciar_servidor;
                (case fd_escucha of
                   None \<Rightarrow> State_Monad.return Indefinido
                 | Some fd \<Rightarrow>
                     if fd = - 1 then State_Monad.return (Sale 1)
                     else State_Monad.return (Listo
                       (\<lparr>st_memoria = take (unat tamanio_memoria) (basura tamanio_memoria @ replicate (unat tamanio_memoria) 0),
                         st_tamanio = tamanio_memoria, st_malloc = malloc\<rparr>, fd_kernel_memory, fd)))
              }
            }
          }
        }
      })"

section \<open>Kernel Memory\<close>

definition km_main :: "config \<Rightarrow> (u32 \<Rightarrow> bool) \<Rightarrow> string list \<Rightarrow>
    (so, (servidor_km \<times> string option \<times> int) arranque) state" where
  "km_main conf malloc argv =
     (if length argv < 2 then State_Monad.return (Sale 1)
      else do {
        config \<leftarrow> llamar (ConfigCreate (argv ! 1));
        if config = 0 then State_Monad.return (Sale 1)
        else do {
          let basepath = (if cf_tiene conf ''SCRIPTS_BASEPATH'' then Some (cf_texto conf ''SCRIPTS_BASEPATH'') else None);
          logger \<leftarrow> llamar (LogCreate ''kernel_memory.log'');
          if logger = 0 then do {
            llamar ConfigDestroy;
            State_Monad.return (Sale 1)
          } else do {
            server_fd \<leftarrow> km_iniciar_servidor;
            if server_fd = - 1 then do {
              llamar LogDestroy;
              llamar ConfigDestroy;
              State_Monad.return (Sale 1)
            } else State_Monad.return (Listo
              (\<lparr>sk_km = km_inicial (cf_entero conf ''SEGMENT_MAX_SIZE'')
                   (cf_texto conf ''ALLOCATION_STRATEGY'' = ''BEST'') malloc,
                fd_ks_notificaciones = - 1, sk_avisos = []\<rparr>, basepath, server_fd))
          }
        }
      })"

section \<open>The CPU\<close>

definition hacer_handshake_con_scheduler :: "int \<Rightarrow> string \<Rightarrow> (so, bool) state" where
  "hacer_handshake_con_scheduler socket_ks identificador = do {
     cpu_enviar_entero socket_ks (codigo HANDSHAKE_CPU);
     let id_cpu = atoi identificador;
     cpu_enviar_entero socket_ks id_cpu;
     respuesta \<leftarrow> cpu_recibir_entero socket_ks;
     (case respuesta of
        None \<Rightarrow> State_Monad.return False
      | Some r \<Rightarrow> State_Monad.return (r = codigo HANDSHAKE_OK))
   }"

definition cpu_handshake_con_memoria :: "int \<Rightarrow> string \<Rightarrow> (so, bool) state" where
  "cpu_handshake_con_memoria socket_km identificador = do {
     cpu_enviar_entero socket_km (codigo HANDSHAKE_CPU);
     let id_cpu = atoi identificador;
     cpu_enviar_entero socket_km id_cpu;
     respuesta \<leftarrow> cpu_recibir_entero socket_km;
     (case respuesta of
        None \<Rightarrow> State_Monad.return False
      | Some r \<Rightarrow> State_Monad.return (r = codigo HANDSHAKE_OK))
   }"

text \<open>\<open>c\<close> is the CPU before it starts, with the peers its sockets lead to.\<close>

definition cpu_main :: "config \<Rightarrow> cpu \<Rightarrow> string list \<Rightarrow> (so, (cpu \<times> int \<times> int) arranque) state" where
  "cpu_main conf c argv =
     (if length argv \<noteq> 3 then State_Monad.return (Sale 1)
      else do {
        config \<leftarrow> llamar (ConfigCreate (argv ! 1));
        if config = 0 then State_Monad.return (Sale 1)
        else do {
          let c1 = c\<lparr>tam_max_segmento := u32_de_int (cf_entero conf ''SEGMENT_MAX_SIZE'')\<rparr>;
          logger \<leftarrow> llamar (LogCreate (take 99 (''logs/'' @ argv ! 2 @ ''.log'')));
          if logger = 0 then do {
            llamar ConfigDestroy;
            State_Monad.return (Sale 1)
          } else do {
            socket_ks \<leftarrow> cpu_conectar;
            if socket_ks = - 1 then do {
              llamar LogDestroy;
              llamar ConfigDestroy;
              State_Monad.return (Sale 1)
            } else do {
              saludo \<leftarrow> hacer_handshake_con_scheduler socket_ks (argv ! 2);
              if \<not> saludo then do {
                llamar LogDestroy;
                llamar ConfigDestroy;
                State_Monad.return (Sale 1)
              } else do {
                socket_km \<leftarrow> cpu_conectar;
                if socket_km = - 1 then do {
                  llamar LogDestroy;
                  llamar ConfigDestroy;
                  State_Monad.return (Sale 1)
                } else do {
                  saludo' \<leftarrow> cpu_handshake_con_memoria socket_km (argv ! 2);
                  if \<not> saludo' then do {
                    llamar LogDestroy;
                    llamar ConfigDestroy;
                    State_Monad.return (Sale 1)
                  } else
                    State_Monad.return (Listo
                      (fst (actualizar_memory_sticks (memoria_inicializar (atoi (argv ! 2)) c1)), socket_ks, socket_km))
                }
              }
            }
          }
        }
      })"

end
