(* ===== verification/ArranqueKS.thy ===== *)
theory ArranqueKS
  imports Arranque EjecucionKS UbicacionKS
begin

text \<open>
  \<open>main\<close> of the Kernel Scheduler, from its arguments to the state in which its threads start.
\<close>

definition ks_hacer_handshake_con_memoria :: "int \<Rightarrow> int \<Rightarrow> (so, bool) state" where
  "ks_hacer_handshake_con_memoria socket_memoria codigo_handshake = do {
     ok \<leftarrow> so_enviar_entero socket_memoria codigo_handshake;
     if \<not> ok then State_Monad.return False
     else do {
       respuesta \<leftarrow> so_recibir_entero socket_memoria;
       State_Monad.return (respuesta = Some (codigo HANDSHAKE_OK))
     }
   }"

definition ks_cargar_configuracion :: "config \<Rightarrow> string \<Rightarrow> (so, bool) state" where
  "ks_cargar_configuracion conf path_config = do {
     config \<leftarrow> llamar (ConfigCreate path_config);
     State_Monad.return (config \<noteq> 0 \<and>
       cf_tiene conf ''LOG_LEVEL'' \<and> cf_tiene conf ''IP_MEMORY'' \<and> cf_tiene conf ''PUERTO_MEMORY'' \<and>
       cf_tiene conf ''PUERTO_ESCUCHA'' \<and> cf_tiene conf ''PLANIFICATION_ALGORITHM'' \<and>
       cf_tiene conf ''RR_QUANTUM'' \<and> cf_tiene conf ''QUEUES_ALGORITHMS'' \<and>
       cf_tiene conf ''QUEUE_PREEMPTION'' \<and> cf_tiene conf ''SUSPENSION_TIMEOUT'')
   }"

definition ks_iniciar_logger :: "(so, bool) state" where
  "ks_iniciar_logger = do {
     logger \<leftarrow> llamar (LogCreate ''kernel_scheduler.log'');
     State_Monad.return (logger \<noteq> 0)
   }"

text \<open>
  Without a good configuration \<open>main\<close> logs an error before there is a logger: that is
  \<open>Indefinido\<close>.  The streams of the new scheduler are those of its sockets.
\<close>

definition ks_main :: "config \<Rightarrow> string list \<Rightarrow> (so, (sistema \<times> int) arranque) state" where
  "ks_main conf argv =
     (if length argv < 3 then State_Monad.return (Sale 1)
      else do {
        configurado \<leftarrow> ks_cargar_configuracion conf (argv ! 1);
        if \<not> configurado then State_Monad.return Indefinido
        else do {
          logger \<leftarrow> ks_iniciar_logger;
          if \<not> logger then State_Monad.return (Sale 1)
          else do {
            s_mem \<leftarrow> crear_conexion;
            if s_mem = - 1 then State_Monad.return (Sale 1)
            else do {
              saludo \<leftarrow> ks_hacer_handshake_con_memoria s_mem (codigo HANDSHAKE_KERNEL_SCHEDULER);
              if \<not> saludo then State_Monad.return (Sale 1)
              else do {
                s_not \<leftarrow> crear_conexion;
                if s_not = - 1 then State_Monad.return (Sale 1)
                else do {
                  saludo' \<leftarrow> ks_hacer_handshake_con_memoria s_not (codigo HANDSHAKE_KS_NOTIFICACIONES);
                  if \<not> saludo' then State_Monad.return (Sale 1)
                  else do {
                    s \<leftarrow> State_Monad.get;
                    let k = (inicializar_estructuras (cf_texto conf ''PLANIFICATION_ALGORITHM'')
                               (cf_arreglo conf ''QUEUES_ALGORITHMS'') (cf_texto conf ''QUEUE_PREEMPTION'' = ''TRUE'')
                               s_mem s_not (so_entrada s))\<lparr>salida := so_salida s\<rparr>;
                    llamar (PthreadCreate 0);
                    llamar (PthreadCreate 1);
                    socket_servidor \<leftarrow> ks_iniciar_servidor;
                    if socket_servidor = - 1 then State_Monad.return (Sale 1)
                    else State_Monad.return (Listo (arrancar k (argv ! 2), socket_servidor))
                  }
                }
              }
            }
          }
        }
      })"

text \<open>Opening connections does not touch the streams.\<close>

definition callada :: "(so, 'a) state \<Rightarrow> bool" where
  "callada m \<longleftrightarrow> (\<forall>s r s'. run_state m s = (r, s') \<longrightarrow> so_entrada s' = so_entrada s \<and> so_salida s' = so_salida s)"

lemma callada_intros:
  "callada (State_Monad.return x)" "callada (llamar c)"
  "callada m \<Longrightarrow> (\<And>x. callada (f x)) \<Longrightarrow> callada (m \<bind> f)"
  "callada m' \<Longrightarrow> callada n' \<Longrightarrow> callada (if b then m' else n')"
  by (auto simp: callada_def llamar_def Let_def split: prod.splits)

lemma callada_aperturas: "callada crear_conexion" "callada ks_iniciar_servidor"
  "callada (ks_cargar_configuracion conf path)" "callada ks_iniciar_logger"
  unfolding crear_conexion_def ks_iniciar_servidor_def ks_cargar_configuracion_def ks_iniciar_logger_def
  by (intro callada_intros)+

lemma calladaD: "callada m \<Longrightarrow> run_state m s = (r, s') \<Longrightarrow> so_entrada s' = so_entrada s \<and> so_salida s' = so_salida s"
  by (simp add: callada_def)

text \<open>A handshake that succeeds is the one of the model of the scheduler, on the same streams.\<close>

lemma saludo_ks:
  assumes "run_state (ks_hacer_handshake_con_memoria fd (codigo c)) s = (True, s')"
    and "entrada k = so_entrada s" "salida k = so_salida s"
  shows "Planificador.hacer_handshake_con_memoria fd c k = (k\<lparr>entrada := so_entrada s', salida := so_salida s'\<rparr>, True)"
proof -
  obtain n s1 where e1: "run_state (send fd (bytes_int (codigo c))) s = (n, s1)" by (metis surj_pair)
  obtain m bs s2 where e2: "run_state (recv True fd 4) s1 = ((m, bs), s2)" by (metis surj_pair)
  have r: "n = 4" "m = 4" "int_de_u32 (u32_de_bytes bs) = codigo HANDSHAKE_OK" "s' = s2"
    using assms(1) e1 e2
    by (auto simp: ks_hacer_handshake_con_memoria_def so_enviar_entero_def so_recibir_entero_def split: if_splits)
  note v1 = run_send [OF e1] and v2 = run_recv [OF e2]
  have l: "length bs = 4" "bs = take 4 (so_entrada s fd)" "4 \<le> length (so_entrada s fd)"
    using r(2) v1(2) v2(1,7) by auto
  have sal: "so_salida s' = (so_salida s)(fd := so_salida s fd @ bytes_int (codigo c))"
    using r(1,4) v1(1) v2(3) by simp
  have ent: "so_entrada s' = (so_entrada s)(fd := drop 4 (so_entrada s fd))"
    using r(4) v1(2) v2(2) l(1) by simp
  have "recibir_int (so_entrada s fd) = Some (codigo HANDSHAKE_OK, drop 4 (so_entrada s fd))"
    using l(2,3) r(3) by (simp add: recibir_int_def recibir_u32_def recibir_exacto_def)
  then show ?thesis
    using assms(2,3)
    by (simp add: Planificador.hacer_handshake_con_memoria_def Planificador.recibir_entero_def
        enviar_codigo_def enviar_entero_def enviar_bytes_def sal ent)
qed

lemma ks_main_listo:
  assumes "run_state (ks_main conf argv) s = (Listo (g, servidor), s')" "so_salida s = (\<lambda>_. [])"
  obtains alg algs desalojo s_mem s_not where
    "main_ks (inicializar_estructuras alg algs desalojo s_mem s_not (so_entrada s)) (argv ! 2) = Some g"
proof -
  obtain s1 s2 s3 s4 s5 s6 s_mem s_not where
    e: "run_state (ks_cargar_configuracion conf (argv ! 1)) s = (True, s1)" "run_state ks_iniciar_logger s1 = (True, s2)"
      "run_state crear_conexion s2 = (s_mem, s3)"
      "run_state (ks_hacer_handshake_con_memoria s_mem (codigo HANDSHAKE_KERNEL_SCHEDULER)) s3 = (True, s4)"
      "run_state crear_conexion s4 = (s_not, s5)"
      "run_state (ks_hacer_handshake_con_memoria s_not (codigo HANDSHAKE_KS_NOTIFICACIONES)) s5 = (True, s6)"
    and g: "g = arrancar ((inicializar_estructuras (cf_texto conf ''PLANIFICATION_ALGORITHM'')
                  (cf_arreglo conf ''QUEUES_ALGORITHMS'') (cf_texto conf ''QUEUE_PREEMPTION'' = ''TRUE'')
                  s_mem s_not (so_entrada s6))\<lparr>salida := so_salida s6\<rparr>) (argv ! 2)"
    using assms(1) by (auto simp: ks_main_def Let_def split: prod.splits if_splits)
  have q: "so_entrada s3 = so_entrada s" "so_salida s3 = so_salida s" "so_entrada s5 = so_entrada s4" "so_salida s5 = so_salida s4"
    using calladaD [OF callada_aperturas(3) e(1)] calladaD [OF callada_aperturas(4) e(2)]
      calladaD [OF callada_aperturas(1) e(3)] calladaD [OF callada_aperturas(1) e(5)] by auto
  let ?k = "inicializar_estructuras (cf_texto conf ''PLANIFICATION_ALGORITHM'')
      (cf_arreglo conf ''QUEUES_ALGORITHMS'') (cf_texto conf ''QUEUE_PREEMPTION'' = ''TRUE'') s_mem s_not (so_entrada s)"
  have "Planificador.hacer_handshake_con_memoria s_mem HANDSHAKE_KERNEL_SCHEDULER ?k =
      (?k\<lparr>entrada := so_entrada s4, salida := so_salida s4\<rparr>, True)"
    by (rule saludo_ks [OF e(4)]) (simp_all add: inicializar_estructuras_def q assms(2))
  moreover have "Planificador.hacer_handshake_con_memoria s_not HANDSHAKE_KS_NOTIFICACIONES
        (?k\<lparr>entrada := so_entrada s4, salida := so_salida s4\<rparr>) =
      (?k\<lparr>entrada := so_entrada s6, salida := so_salida s6\<rparr>, True)"
    using saludo_ks [OF e(6), of "?k\<lparr>entrada := so_entrada s4, salida := so_salida s4\<rparr>"] q by simp
  ultimately have "main_ks ?k (argv ! 2) = Some g"
    by (simp add: main_ks_def g inicializar_estructuras_def)
  then show ?thesis by (rule that)
qed

section \<open>From the start to the first process that runs\<close>

lemma ks_main_arrancar:
  assumes "run_state (ks_main conf argv) s = (Listo (g, servidor), s')"
  obtains s_mem s_not ent sal where
    "g = arrancar ((inicializar_estructuras (cf_texto conf ''PLANIFICATION_ALGORITHM'')
       (cf_arreglo conf ''QUEUES_ALGORITHMS'') (cf_texto conf ''QUEUE_PREEMPTION'' = ''TRUE'') s_mem s_not ent)
         \<lparr>salida := sal\<rparr>) (argv ! 2)"
  using assms by (auto simp: ks_main_def Let_def split: prod.splits if_splits)

text \<open>The state in which the threads start, whatever Kernel Memory answers to the creation.\<close>

lemma arrancar_estado:
  assumes "alg = ''CMN'' \<longrightarrow> algs \<noteq> []"
  shows "\<exists>a b p0. arrancar ((inicializar_estructuras alg algs desalojo s_mem s_not ent)\<lparr>salida := sal\<rparr>) path =
    ((inicializar_estructuras alg algs desalojo s_mem s_not a)\<lparr>salida := b, prox_proc := 1, proximo_pid := 1,
       procs := (procs (inicializar_estructuras alg algs desalojo s_mem s_not a))(0 := p0), sem_hay_procesos_ready := 1,
       colas_ready := (if alg = ''CMN'' then [0] # replicate (length algs - 1) [] else []),
       lista_ready := (if alg = ''CMN'' then [] else [0])\<rparr>, [Planificador_corto P_ready, Memoria M_escucha]) \<and>
    pid p0 = 0 \<and> estado p0 = READY"
proof -
  let ?k0 = "(inicializar_estructuras alg algs desalojo s_mem s_not ent)\<lparr>salida := sal\<rparr>"
  define k1 where "k1 = fst (crear_proceso 0 ?k0)"
  have p: "pid (procs k1 0) = 0" by (simp add: k1_def crear_proceso_def inicializar_estructuras_def)
  obtain k2 r where k2: "pedir_creacion 0 path k1 = (k2, r)" by (metis surj_pair)
  then have "callado k1 k2" unfolding pedir_creacion_def by (rule callado_pedir_memoria)
  then obtain a b where ab: "k2 = k1\<lparr>entrada := a, salida := b\<rparr>" by (auto simp: callado_def)
  have a: "arrancar ?k0 path = (mover_proceso_a_ready 0 (agregar_new 0 k2), [Planificador_corto P_ready, Memoria M_escucha])"
    using k2 p by (simp add: arrancar_def crear_proceso_inicial_def k1_def) (simp add: crear_proceso_def inicializar_estructuras_def)
  obtain x xs where algs: "alg = ''CMN'' \<Longrightarrow> algs = x # xs" using assms by (cases algs) auto
  let ?p0 = "\<lparr>pid = 0, prioridad = 0, prioridad_original = 0, estado = READY, socket_cpu = - 1, pr_cpu = None,
      timer = None, io_tiempo = 0, io_direccion_fisica = 0, io_tamanio = 0, tiempo_suspension = 0\<rparr>"
  show ?thesis
    by (rule exI [of _ a], rule exI [of _ b], rule exI [of _ ?p0], unfold a ab k1_def, cases "alg = ''CMN''")
      (simp_all add: algs agregar_new_def crear_proceso_def inicializar_estructuras_def mover_proceso_a_ready_def
        poner_estado_def modificar_def encolar_en_ready_def es_CMN_def en_rango_def cantidad_colas_def
        desalojar_por_prioridad_def post_ready_def Let_def)
qed

text \<open>A CPU connects and introduces itself, and then the planner takes five steps.\<close>

definition primera_cpu :: "int \<Rightarrow> evento list" where
  "primera_cpu s = [Llega s, Avanza 2, Avanza 2, Avanza 0, Avanza 0, Avanza 0, Avanza 0, Avanza 0]"

lemma despacho_inicial:
  assumes "arrancar ((inicializar_estructuras alg algs desalojo s_mem s_not ent)\<lparr>salida := sal\<rparr>) path = (k, hs)"
    and "alg = ''CMN'' \<longrightarrow> algs \<noteq> []" "entrada k sc = bytes_int (codigo HANDSHAKE_CPU) @ bytes_int i @ resto" "en_int i"
  shows "\<exists>k'. correr ls leal (primera_cpu sc) (k, hs) =
      Some (k', Planificador_corto P_ready # (if (if alg = ''CMN'' then hd algs else alg) = ''RR'' then [Quantum 0] else []) @
         [Memoria M_escucha, Cpu 0 C_escucha]) \<and>
    salida k' sc = salida k sc @ bytes_int (codigo HANDSHAKE_OK) @ bytes_int (codigo OP_EJECUTAR_PROCESO) @ bytes_int 0 \<and>
    lista_exec k' = [0] \<and> estado (procs k' 0) = EXEC \<and> pr_cpu (procs k' 0) = Some 0 \<and> lista_cpus_libres k' = [] \<and>
    cpus k' 0 = \<lparr>cp_socket = sc, cp_id = i\<rparr> \<and> sem_puede_planificar k' = 1"
proof -
  obtain a b p0 where k: "k = (inicializar_estructuras alg algs desalojo s_mem s_not a)\<lparr>salida := b, prox_proc := 1, proximo_pid := 1,
       procs := (procs (inicializar_estructuras alg algs desalojo s_mem s_not a))(0 := p0), sem_hay_procesos_ready := 1,
       colas_ready := (if alg = ''CMN'' then [0] # replicate (length algs - 1) [] else []),
       lista_ready := (if alg = ''CMN'' then [] else [0])\<rparr>" "hs = [Planificador_corto P_ready, Memoria M_escucha]"
    "pid p0 = 0" "estado p0 = READY"
    using arrancar_estado [OF assms(2), of sal desalojo s_mem s_not ent path] assms(1) by auto
  obtain x xs where algs: "alg = ''CMN'' \<Longrightarrow> algs = x # xs" using assms(2) by (cases algs) auto
  have e: "a sc = bytes_int (codigo HANDSHAKE_CPU) @ bytes_int i @ resto" using assms(3) by (simp add: k inicializar_estructuras_def)
  note d = procesar_cliente_def conectar_cpu_def recibir_o_cero_def Planificador.recibir_entero_def agregar_cpu_libre_def
    enviar_codigo_def enviar_entero_def enviar_bytes_def despachar_def obtener_proximo_proceso_ready_def es_CMN_def
    poner_timer_def crear_timer_def modificar_def despachar_enviar_def quitar_def Let_def inicializar_estructuras_def
  note d = d primera_cpu_def
  show ?thesis
  proof (cases "alg = ''CMN''")
    case True
    show ?thesis
      by (cases "x = ''RR''") (simp_all add: k(1,2) k(3) e algs [OF True] d assms(4) True)
  next
    case False
    show ?thesis
      by (cases "alg = ''RR''") (simp_all add: k(1,2) k(3) e d assms(4) False)
  qed
qed
lemma entrada_inicial:
  assumes "s \<noteq> socket_memoria_global k"
  shows "entrada (crear_proceso_inicial path k) s = entrada k s"
proof -
  have e: "entrada (mover_proceso_a_ready p k) = entrada k" for p k
  proof -
    have "entrada (desalojar_por_prioridad p k) = entrada k" for p k
      by (simp add: desalojar_por_prioridad_def interrumpir_def enviar_codigo_def enviar_entero_def enviar_bytes_def
          split: option.split)
    then show ?thesis
      by (simp add: mover_proceso_a_ready_def post_ready_def encolar_en_ready_def poner_estado_def modificar_def Let_def
          split: prod.split)
  qed
  show ?thesis
    using assms
    by (simp add: crear_proceso_inicial_def e agregar_new_def crear_proceso_def pedir_creacion_def pedir_memoria_def
        recibir_o_cero_def Planificador.recibir_entero_def enviar_bytes_def Let_def split: option.split prod.split)
qed

end
