(* ===== verification/SticksCPU.thy ===== *)
theory SticksCPU
  imports Arranque
begin

text \<open>
  The list of sticks of a CPU (\<open>cpu/src/memoria.c\<close>) with its sockets: what a refresh opens, what it
  closes when it fails half way, and what replacing the list closes.  \<open>CpuMemoria\<close> holds the same
  refresh over the model of Kernel Memory and the sticks; here the peers are any bytes.
\<close>

section \<open>Operations\<close>

definition destruir_stick :: "t_stick_cpu \<Rightarrow> (so, unit) state" where
  "destruir_stick stick =
     (if sc_socket stick \<noteq> - 1 then do { llamar (Close (sc_socket stick)); State_Monad.return () }
      else State_Monad.return ())"

fun destruir_sticks :: "t_stick_cpu list \<Rightarrow> (so, unit) state" where
  "destruir_sticks [] = State_Monad.return ()"
| "destruir_sticks (s # ss) = do { destruir_stick s; destruir_sticks ss }"

definition reemplazar_lista_sticks ::
    "t_stick_cpu list option \<Rightarrow> t_stick_cpu list \<Rightarrow> (so, t_stick_cpu list option) state" where
  "reemplazar_lista_sticks actual nueva = do {
     (case actual of None \<Rightarrow> State_Monad.return () | Some ss \<Rightarrow> destruir_sticks ss);
     State_Monad.return (Some nueva)
   }"

definition memoria_liberar :: "t_stick_cpu list option \<Rightarrow> (so, t_stick_cpu list option) state" where
  "memoria_liberar actual =
     (case actual of
        None \<Rightarrow> State_Monad.return None
      | Some ss \<Rightarrow> do { destruir_sticks ss; State_Monad.return None })"

definition saludar_stick :: "int \<Rightarrow> t_stick_cpu \<Rightarrow> (so, bool) state" where
  "saludar_stick id_cpu stick = do {
     cpu_enviar_entero (sc_socket stick) (codigo HANDSHAKE_CPU);
     cpu_enviar_entero (sc_socket stick) id_cpu;
     respuesta \<leftarrow> cpu_recibir_entero (sc_socket stick);
     (case respuesta of
        None \<Rightarrow> State_Monad.return False
      | Some r \<Rightarrow> State_Monad.return (r = codigo HANDSHAKE_OK))
   }"

text \<open>The failure of one announced stick closes the sticks that were already in the new list.\<close>

definition abandonar :: "t_stick_cpu list \<Rightarrow> (so, t_stick_cpu list option) state" where
  "abandonar nueva = do { destruir_sticks nueva; State_Monad.return None }"

fun anunciados ::
    "int \<Rightarrow> int \<Rightarrow> nat \<Rightarrow> u32 \<Rightarrow> t_stick_cpu list \<Rightarrow> (so, t_stick_cpu list option) state" where
  "anunciados km id_cpu 0 base_actual nueva = State_Monad.return (Some nueva)"
| "anunciados km id_cpu (Suc n) base_actual nueva = do {
     largo \<leftarrow> cpu_recibir_entero km;
     (case largo of None \<Rightarrow> abandonar nueva
      | Some len_ip \<Rightarrow>
          if len_ip \<le> 0 \<or> len_ip > 255 then abandonar nueva
          else do {
            m \<leftarrow> llamar (Malloc (nat len_ip + 1));
            if m = 0 then abandonar nueva
            else do {
              (ok, ip) \<leftarrow> recibir_exactamente km (u32_de_int len_ip);
              if \<not> ok then abandonar nueva
              else do {
                pto \<leftarrow> cpu_recibir_entero km;
                (case pto of None \<Rightarrow> abandonar nueva
                 | Some puerto \<Rightarrow> do {
                     (ok', tam) \<leftarrow> recibir_exactamente km 4;
                     if \<not> ok' then abandonar nueva
                     else do {
                       m' \<leftarrow> llamar (Malloc 40);
                       if m' = 0 then abandonar nueva
                       else do {
                         fd \<leftarrow> cpu_conectar;
                         let tamanio = u32_de_bytes tam;
                         let stick = \<lparr>sc_socket = fd, sc_ip = cadena ip, sc_puerto = puerto,
                                      sc_base_global = base_actual, sc_tamanio = tamanio\<rparr>;
                         if fd = - 1 then do {
                           destruir_stick stick;
                           anunciados km id_cpu n (base_actual + tamanio) nueva
                         } else do {
                           saludo \<leftarrow> saludar_stick id_cpu stick;
                           if \<not> saludo then do {
                             destruir_stick stick;
                             anunciados km id_cpu n (base_actual + tamanio) nueva
                           } else anunciados km id_cpu n (base_actual + tamanio) (nueva @ [stick])
                         }
                       }
                     }
                   })
              }
            }
          })
   }"

definition refrescar_sticks ::
    "int \<Rightarrow> int \<Rightarrow> t_stick_cpu list option \<Rightarrow> (so, bool \<times> t_stick_cpu list option) state" where
  "refrescar_sticks km id_cpu actual = do {
     cpu_enviar_entero km (codigo OP_LISTA_STICKS);
     respuesta \<leftarrow> cpu_recibir_entero km;
     (case respuesta of
        None \<Rightarrow> State_Monad.return (False, actual)
      | Some cantidad \<Rightarrow>
          if cantidad < 0 then State_Monad.return (False, actual)
          else do {
            nueva \<leftarrow> anunciados km id_cpu (nat cantidad) 0 [];
            (case nueva of
               None \<Rightarrow> State_Monad.return (False, actual)
             | Some ss \<Rightarrow> do {
                 lista \<leftarrow> reemplazar_lista_sticks actual ss;
                 State_Monad.return (True, lista)
               })
          })
   }"

section \<open>What the CPU holds\<close>

definition sockets :: "t_stick_cpu list \<Rightarrow> recurso multiset" where
  "sockets ss = mset (map (\<lambda>s. RSocket (sc_socket s)) (filter (\<lambda>s. sc_socket s \<noteq> - 1) ss))"

definition sockets_de :: "t_stick_cpu list option \<Rightarrow> recurso multiset" where
  "sockets_de l = (case l of None \<Rightarrow> {#} | Some ss \<Rightarrow> sockets ss)"

lemma sockets_simps [simp]:
  "sockets [] = {#}" "sockets (ss @ ts) = sockets ss + sockets ts"
  "sockets (s # ss) = (if sc_socket s = - 1 then sockets ss else add_mset (RSocket (sc_socket s)) (sockets ss))"
  "sockets_de None = {#}" "sockets_de (Some ss) = sockets ss"
  by (simp_all add: sockets_def sockets_de_def)

lemma tiene_recibir: "tiene M s \<Longrightarrow> tiene M (snd (recibir_desde_u32 fd tam tot buf s))"
proof (induction fd tam tot buf s rule: recibir_desde_u32.induct)
  case (1 fd tam tot buf s)
  obtain r bs s1 where e: "run_state (recv False fd (unat (tam - tot))) s = ((r, bs), s1)" by (metis surj_pair)
  have "tiene M s1" using 1(2) run_recv(5) [OF e] by (simp add: tiene_def)
  then show ?case
    using 1(1) [OF _ e [symmetric] refl refl] 1(2)
    by (subst recibir_desde_u32.simps) (simp add: e Let_def)
qed

lemma tiene_recibir_socket: "tiene M s \<Longrightarrow> tiene M (snd (recibir_desde_socket fd tam tot buf s))"
proof (induction fd tam tot buf s rule: recibir_desde_socket.induct)
  case (1 fd tam tot buf s)
  obtain r bs s1 where e: "run_state (recv False fd (unat (tam - tot))) s = ((r, bs), s1)" by (metis surj_pair)
  have "tiene M s1" using 1(2) run_recv(5) [OF e] by (simp add: tiene_def)
  then show ?case
    using 1(1) [OF _ e [symmetric] refl] 1(2)
    by (subst recibir_desde_socket.simps) (simp add: e)
qed

lemma tiene_enviar_socket: "tiene M s \<Longrightarrow> tiene M (snd (enviar_desde_socket fd buf tam tot s))"
proof (induction fd buf tam tot s rule: enviar_desde_socket.induct)
  case (1 fd buf tam tot s)
  obtain r s1 where e: "run_state (send fd (take (unat (tam - tot)) (drop (unat tot) buf))) s = (r, s1)"
    by (metis surj_pair)
  have "tiene M s1" using 1(2) run_send(4) [OF e] by (simp add: tiene_def)
  then show ?case
    using 1(1) [OF _ e [symmetric]] 1(2) by (subst enviar_desde_socket.simps) (simp add: e)
qed

lemma lleva_transporte:
  "lleva M (recibir_exactamente fd tam) (\<lambda>_ N. N = M)" "lleva M (cpu_recibir_entero fd) (\<lambda>_ N. N = M)"
  "lleva M (cpu_enviar_entero fd v) (\<lambda>_ N. N = M)"
  using tiene_recibir [of M _ fd] tiene_recibir_socket [of M _ fd] tiene_enviar_socket [of M _ fd]
  by (auto simp: lleva_def recibir_exactamente_def cpu_recibir_entero_def recibir_exactamente_socket_def
      cpu_enviar_entero_def enviar_exactamente_socket_def split: prod.splits) (metis snd_conv)+

lemma lleva_recibir_par [lleva_intro]:
  "(\<And>ok bs. lleva M (f (ok, bs)) Q) \<Longrightarrow> lleva M (recibir_exactamente fd tam \<bind> f) Q"
  by (rule lleva_quieta [OF lleva_transporte(1)]) auto

lemmas transporte_lleva [lleva_intro] = lleva_transporte(2,3) [THEN lleva_quieta]

lemma lleva_saludar: "lleva M (saludar_stick i s) (\<lambda>_ N. N = M)"
  unfolding saludar_stick_def by (intro lleva_intro) auto

lemma lleva_destruir: "lleva (M + sockets ss) (destruir_sticks ss) (\<lambda>_ N. N = M)"
proof (induction ss arbitrary: M)
  case (Cons s ss)
  have "lleva (M + sockets (s # ss)) (destruir_stick s) (\<lambda>_ N. N = M + sockets ss)"
    unfolding destruir_stick_def by (intro lleva_intro) auto
  then show ?case using Cons by (auto intro!: lleva_igual)
qed (auto intro: lleva_intro)

lemma lleva_destruir_uno [lleva_intro]:
  "(sc_socket s = - 1 \<Longrightarrow> lleva M (f ()) Q) \<Longrightarrow> (sc_socket s \<noteq> - 1 \<Longrightarrow> RSocket (sc_socket s) \<in># M) \<Longrightarrow>
     (sc_socket s \<noteq> - 1 \<Longrightarrow> lleva (M - {#RSocket (sc_socket s)#}) (f ()) Q) \<Longrightarrow> lleva M (destruir_stick s \<bind> f) Q"
  unfolding destruir_stick_def by (intro lleva_intro) auto

abbreviation con_lista :: "recurso multiset \<Rightarrow> t_stick_cpu list option \<Rightarrow> recurso multiset \<Rightarrow> bool" where
  "con_lista M l N \<equiv> N = M + sockets_de l"

lemma lleva_abandonar: "lleva (M + sockets nueva) (abandonar nueva) (con_lista M)"
  unfolding abandonar_def by (rule lleva_igual [OF lleva_destruir]) (auto intro: lleva_intro)

lemma lleva_anunciados: "lleva (M + sockets nueva) (anunciados km i n base nueva) (con_lista M)"
proof (induction n arbitrary: base nueva)
  case (Suc n)
  let ?s = "\<lambda>fd ip p t. \<lparr>sc_socket = fd, sc_ip = ip, sc_puerto = p, sc_base_global = base, sc_tamanio = t\<rparr>"
  have mas: "lleva (add_mset (RSocket fd) (M + sockets nueva)) (anunciados km i n b (nueva @ [?s fd ip p t])) (con_lista M)"
    if "fd \<noteq> - 1" for fd ip p t b
    using Suc [of "nueva @ [?s fd ip p t]" b] that by simp
  show ?case
    unfolding anunciados.simps Let_def
    by (intro lleva_intro lleva_abandonar cpu.y_despues Suc lleva_quieta [OF lleva_saludar])
      (auto intro: Suc mas)
qed (auto intro: lleva_intro)

lemma lleva_reemplazar: "lleva (M + sockets_de actual) (reemplazar_lista_sticks actual nueva) (\<lambda>r N. N = M \<and> r = Some nueva)"
  unfolding reemplazar_lista_sticks_def
  by (cases actual) (auto intro!: lleva_intro lleva_igual [OF lleva_destruir])

lemma lleva_liberar_sticks: "lleva (M + sockets_de actual) (memoria_liberar actual) (con_lista M)"
  unfolding memoria_liberar_def
  by (cases actual) (auto intro!: lleva_intro lleva_igual [OF lleva_destruir])

lemma lleva_refrescar:
  "lleva (M + sockets_de actual) (refrescar_sticks km i actual)
     (\<lambda>r N. con_lista M (snd r) N \<and> (\<not> fst r \<longrightarrow> snd r = actual))"
proof -
  have nueva: "lleva (M + sockets_de actual) (anunciados km i n 0 []) (con_lista (M + sockets_de actual))" for n
    using lleva_anunciados [of "M + sockets_de actual" "[]"] by simp
  have fin: "lleva (M + sockets_de actual + sockets ss)
      (reemplazar_lista_sticks actual ss \<bind> (\<lambda>l. State_Monad.return (True, l)))
      (\<lambda>r N. con_lista M (snd r) N \<and> (\<not> fst r \<longrightarrow> snd r = actual))" for ss
  proof (rule lleva_bind)
    show "lleva (M + sockets_de actual + sockets ss) (reemplazar_lista_sticks actual ss) (\<lambda>r N. N = M + sockets ss \<and> r = Some ss)"
      using lleva_reemplazar [of "M + sockets ss"] by (simp add: ac_simps)
  qed (auto intro: lleva_intro)
  show ?thesis
    unfolding refrescar_sticks_def
    by (intro lleva_intro lleva_bind [OF nueva]) (auto intro: fin)
qed

end
