(* ===== verification/PropiedadesArranque.thy ===== *)
theory PropiedadesArranque
  imports ArranqueKS SticksCPU EstadosConcretos
begin

text \<open>
  Properties of the transport and of the start-up of the modules.
\<close>

section \<open>Resources\<close>

lemma lleva_servir_swap [lleva_intro]:
  assumes "\<And>r. lleva M (f r) Q"
  shows "lleva M (servir_swap fd sw \<bind> f) Q"
proof (rule lleva_igual [where R = "\<lambda>_. M"])
  show "lleva M (servir_swap fd sw) (\<lambda>_ N. N = M)"
    by (auto simp: lleva_def servir_swap_def tiene_def split: prod.splits)
qed (rule assms)

lemma lleva_servir_io [lleva_intro]:
  assumes "\<And>r. lleva M (f r) Q"
  shows "lleva M (servir_io fd tipo d \<bind> f) Q"
proof (rule lleva_igual [where R = "\<lambda>_. M"])
  show "lleva M (servir_io fd tipo d) (\<lambda>_ N. N = M)"
    by (auto simp: lleva_def servir_io_def tiene_def split: option.splits)
qed (rule assms)

lemmas aperturas_lleva [lleva_intro] = swap.y_despues io.y_despues km_servidor.y_despues

lemma lleva_liberar [lleva_intro]:
  assumes "fd \<noteq> - 1 \<Longrightarrow> RSocket fd \<in># M" "hay_config \<Longrightarrow> RConfig \<in># M" "hay_logger \<Longrightarrow> RLog \<in># M"
    and "lleva (M - (if fd \<noteq> - 1 then {#RSocket fd#} else {#}) - (if hay_config then {#RConfig#} else {#}) -
      (if hay_logger then {#RLog#} else {#})) (f ()) Q"
  shows "lleva M (liberar_recursos hay_config hay_logger fd \<bind> f) Q"
  unfolding liberar_recursos_def using assms by (intro lleva_intro) (auto simp: in_diff_count)

lemma lleva_saludos:
  "lleva M (swap_hacer_handshake fd) (\<lambda>_ N. N = M)" "lleva M (io_hacer_handshake fd tipo) (\<lambda>_ N. N = M)"
  unfolding swap_hacer_handshake_def io_hacer_handshake_def so_enviar_entero_def so_recibir_entero_def
  by (intro lleva_intro; simp)+

lemmas saludos_lleva [lleva_intro] = lleva_saludos [THEN lleva_quieta]

lemma swap_main_lleva: "lleva M (swap_main conf argv) (\<lambda>_ N. N = M)"
  unfolding swap_main_def by (intro lleva_intro) auto

lemma io_principal_lleva:
  "lleva M (io_principal conf argv d) (\<lambda>r N. r \<noteq> Indefinido \<longrightarrow> N = M)"
  unfolding io_principal_def io_cargar_configuracion_def by (intro lleva_intro) auto

lemma km_main_lleva:
  "lleva M (km_main conf malloc argv)
     (\<lambda>r N. N = (case r of Listo (h, bp, fd) \<Rightarrow> add_mset (RSocket fd) (add_mset RLog (add_mset RConfig M)) | _ \<Rightarrow> M))"
  unfolding km_main_def Let_def by (intro lleva_intro) auto

section \<open>A stick and the swap introduce themselves\<close>

text \<open>Nothing of what the module sends is cut.\<close>

definition envios_enteros :: "so \<Rightarrow> bool" where
  "envios_enteros s \<longleftrightarrow> (\<forall>t fd bs. int (length bs) \<le> so_resultado s t (Send fd bs))"

definition escribe ::
    "(int \<Rightarrow> byte list) \<Rightarrow> (so, 'a) state \<Rightarrow> ('a \<Rightarrow> (int \<Rightarrow> byte list) \<Rightarrow> bool) \<Rightarrow> bool" where
  "escribe sal m Q \<longleftrightarrow>
     (\<forall>s r s'. envios_enteros s \<longrightarrow> so_salida s = sal \<longrightarrow> run_state m s = (r, s') \<longrightarrow>
        envios_enteros s' \<and> Q r (so_salida s'))"

lemma escribeD:
  "escribe sal m Q \<Longrightarrow> envios_enteros s \<Longrightarrow> so_salida s = sal \<Longrightarrow> run_state m s = (r, s') \<Longrightarrow> Q r (so_salida s')"
  by (simp add: escribe_def)

named_theorems escribe_intro "one call and what the module has written after it"

lemma escribe_return [escribe_intro]: "Q x sal \<Longrightarrow> escribe sal (State_Monad.return x) Q"
  by (simp add: escribe_def)

lemma escribe_if [escribe_intro]:
  "(b \<Longrightarrow> escribe sal m Q) \<Longrightarrow> (\<not> b \<Longrightarrow> escribe sal n Q) \<Longrightarrow> escribe sal (if b then m else n) Q"
  by simp

lemma escribe_par [escribe_intro]: "escribe sal (f a b) Q \<Longrightarrow> escribe sal (case (a, b) of (x, y) \<Rightarrow> f x y) Q"
  by simp

lemma escribe_option [escribe_intro]:
  "(x = None \<Longrightarrow> escribe sal m Q) \<Longrightarrow> (\<And>y. x = Some y \<Longrightarrow> escribe sal (f y) Q) \<Longrightarrow>
     escribe sal (case x of None \<Rightarrow> m | Some y \<Rightarrow> f y) Q"
  by (cases x) auto

lemma escribe_bind:
  "escribe sal m R \<Longrightarrow> (\<And>x sal'. R x sal' \<Longrightarrow> escribe sal' (f x) Q) \<Longrightarrow> escribe sal (m \<bind> f) Q"
  by (fastforce simp: escribe_def split: prod.splits)

lemma escribe_llamar [escribe_intro]: "(\<And>r. escribe sal (f r) Q) \<Longrightarrow> escribe sal (llamar c \<bind> f) Q"
  by (rule escribe_bind [where R = "\<lambda>_ sal'. sal' = sal"])
    (auto simp: escribe_def run_llamar envios_enteros_def)

lemma escribe_recv [escribe_intro]:
  "(\<And>r bs. escribe sal (f (r, bs)) Q) \<Longrightarrow> escribe sal (recv w fd n \<bind> f) Q"
proof (rule escribe_bind [where R = "\<lambda>_ sal'. sal' = sal"])
  show "escribe sal (recv w fd n) (\<lambda>_ sal'. sal' = sal)"
    unfolding escribe_def by (simp add: recv_def Let_def envios_enteros_def)
qed auto

lemma escribe_send [escribe_intro]:
  "(\<And>r. escribe (sal(fd := sal fd @ bs)) (f r) Q) \<Longrightarrow> escribe sal (send fd bs \<bind> f) Q"
proof (rule escribe_bind [where R = "\<lambda>_ sal'. sal' = sal(fd := sal fd @ bs)"])
  show "escribe sal (send fd bs) (\<lambda>_ sal'. sal' = sal(fd := sal fd @ bs))"
    unfolding escribe_def by (simp add: send_def Let_def envios_enteros_def min_absorb1)
qed auto

lemma conectar_a_escribe:
  "escribe sal (conectar_a tam puerto) (\<lambda>fd sal'. fd \<noteq> - 1 \<longrightarrow> sal' = sal(fd := sal fd @
     bytes_int (codigo HANDSHAKE_MEMORY_STICK) @ bytes_u32 tam @ bytes_int puerto))"
  unfolding conectar_a_def Let_def by (intro escribe_intro) auto

lemma iniciar_servidor_escribe: "escribe sal stick_iniciar_servidor (\<lambda>_ sal'. sal' = sal)"
  unfolding stick_iniciar_servidor_def by (intro escribe_intro) auto

lemma stick_main_escribe:
  "escribe sal (stick_main conf basura malloc argv) (\<lambda>r sal'. \<forall>st fd esc. r = Listo (st, fd, esc) \<longrightarrow>
     stick_valido st \<and> sal' = sal(fd := sal fd @ bytes_int (codigo HANDSHAKE_MEMORY_STICK) @
       bytes_u32 (st_tamanio st) @ bytes_int (atoi (cf_texto conf ''PUERTO''))))"
  unfolding stick_main_def Let_def
  by (intro escribe_intro escribe_bind [OF conectar_a_escribe] escribe_bind [OF iniciar_servidor_escribe])
    (auto simp: stick_valido_def)

lemma conectar_km_escribe: "escribe sal conectar_a_kernel_memory (\<lambda>_ sal'. sal' = sal)"
  unfolding conectar_a_kernel_memory_def by (intro escribe_intro) auto

lemma escribe_asocia [escribe_intro]:
  "escribe sal (m \<bind> (\<lambda>x. f x \<bind> g)) Q \<Longrightarrow> escribe sal ((m \<bind> f) \<bind> g) Q"
  by simp

lemma escribe_sigue [escribe_intro]: "escribe sal (f x) Q \<Longrightarrow> escribe sal (State_Monad.return x \<bind> f) Q"
  by simp

lemma escribe_if_sigue [escribe_intro]:
  "(b \<Longrightarrow> escribe sal (m \<bind> f) Q) \<Longrightarrow> (\<not> b \<Longrightarrow> escribe sal (n \<bind> f) Q) \<Longrightarrow>
     escribe sal ((if b then m else n) \<bind> f) Q"
  by simp

lemma escribe_par_sigue [escribe_intro]:
  "escribe sal (f a b \<bind> g) Q \<Longrightarrow> escribe sal ((case (a, b) of (x, y) \<Rightarrow> f x y) \<bind> g) Q"
  by simp

lemma liberar_escribe: "escribe sal (liberar_recursos hc hl fd) (\<lambda>_ sal'. sal' = sal)"
  unfolding liberar_recursos_def by (intro escribe_intro) auto

lemma saludo_swap_escribe:
  "escribe sal (swap_hacer_handshake fd) (\<lambda>_ sal'. sal' = sal(fd := sal fd @ bytes_int (codigo HANDSHAKE_SWAP)))"
  unfolding swap_hacer_handshake_def so_enviar_entero_def so_recibir_entero_def
  by (intro escribe_intro) auto

lemma servir_swap_escribe: "escribe sal (servir_swap fd sw) (\<lambda>_ sal'. \<exists>resp. sal' = sal(fd := sal fd @ resp))"
  by (auto simp: escribe_def servir_swap_def envios_enteros_def split: prod.splits)

lemma swap_main_escribe:
  "escribe sal (swap_main conf argv) (\<lambda>r sal'. r = 0 \<longrightarrow>
     (\<exists>fd sw resp. swap_iniciar (cf_entero conf ''BLOCK_SIZE'') (cf_entero conf ''SWAP_FILE_SIZE'') = Some sw \<and>
        fd \<noteq> - 1 \<and> sal' = sal(fd := sal fd @ bytes_int (codigo HANDSHAKE_SWAP) @ bytes_int (sw_block_size sw) @
          bytes_int (sw_swap_size sw) @ resp)))"
  unfolding swap_main_def
  by (intro escribe_intro escribe_bind [OF conectar_km_escribe] escribe_bind [OF liberar_escribe]
      escribe_bind [OF saludo_swap_escribe] escribe_bind [OF servir_swap_escribe]) auto

section \<open>The system that witnesses use\<close>

text \<open>
  Every call succeeds, each peer answers \<open>HANDSHAKE_OK\<close>, and the transfers are of \<open>m\<close> bytes
  at most; with \<open>m = 0\<close> nothing sent is cut.
\<close>

definition so_ej :: "nat \<Rightarrow> (int \<Rightarrow> byte list) \<Rightarrow> so" where
  "so_ej m ent =
     \<lparr>so_traza = [],
      so_resultado = (\<lambda>t c. case c of
         Socket \<Rightarrow> 3 + int (length t) | Send fd bs \<Rightarrow> (if m = 0 then int (length bs) else int m) | Recv fd n \<Rightarrow> int m
       | Malloc n \<Rightarrow> 1 | LogCreate n \<Rightarrow> 1 | ConfigCreate n \<Rightarrow> 1 | Fopen n \<Rightarrow> 1 | _ \<Rightarrow> 0),
      so_entrada = ent, so_salida = (\<lambda>_. [])\<rparr>"

lemma so_ej_campos [simp]:
  "so_entrada (so_ej m ent) = ent" "so_salida (so_ej m ent) = (\<lambda>_. [])" "so_traza (so_ej m ent) = []"
  "sin_fallas_recv (so_ej m ent)" "0 < m \<Longrightarrow> sin_fallas_send (so_ej m ent)"
  "so_resultado (so_ej m ent) t (Malloc n) = 1"
  by (simp_all add: so_ej_def sin_fallas_recv_def sin_fallas_send_def)

definition conf_ej :: config where
  "conf_ej = \<lparr>cf_tiene = (\<lambda>_. True), cf_texto = (\<lambda>k. if k = ''PLANIFICATION_ALGORITHM'' then ''CMN'' else ''8001''),
     cf_entero = (\<lambda>_. 64), cf_arreglo = (\<lambda>_. [''FIFO'', ''RR''])\<rparr>"

lemmas arranque_simps = so_enviar_entero_def so_recibir_entero_def llamar_def send_def recv_def Let_def
  so_ej_def conf_ej_def en_int_def bytes_int_def codigo.simps

section \<open>Properties\<close>

text \<open>C17: however the system splits the stream in pieces, the loops \<open>recibir_exactamente\<close> of the
  CPU, with a counter of 32 or 64 bits or an \<open>int\<close>, deliver exactly the bytes asked for when
  they arrive, in their order and no more, and fail when the connection ends before.\<close>

theorem transporte_exacto:
  assumes "sin_fallas_recv s" "unat tam < 2 ^ 31" "0 \<le> i" "en_int i"
  shows "leido fd (run_state (recibir_exactamente fd tam) s) = recibir_exacto (unat tam) (so_entrada s fd) \<and>
    leido fd (run_state (recibir_exactamente_cpu fd tam) s) = recibir_exacto (unat tam) (so_entrada s fd) \<and>
    leido fd (run_state (recibir_exactamente_socket fd n) s) = recibir_exacto (unat n) (so_entrada s fd) \<and>
    leido fd (run_state (recibir_exactamente_int fd i) s) = recibir_exacto (nat i) (so_entrada s fd)"
  using leido_recibir_todo [OF assms(1)]
  by (simp add: recibir_exactamente_def recibir_exactamente_cpu_def recibir_exactamente_socket_def
      recibir_exactamente_int_def recibir_u32_todo [OF assms(2)] recibir_socket_todo recibir_int_todo [OF assms(3,4)])

lemma transporte_exacto_ejemplo:
  "leido 5 (run_state (recibir_exactamente 5 2) (so_ej 1 (\<lambda>_. [7, 8, 9]))) = Some ([7, 8], [9])"
  using transporte_exacto [of "so_ej 1 (\<lambda>_. [7, 8, 9])" 2 0 5 0]
  by (simp add: en_int_def recibir_exacto_def)

text \<open>C29: a string of up to 10000 characters that the CPU sends through a system that accepts it in
  any pieces is the string that \<open>recibir_string\<close> of \<open>cpu/src/main.c\<close> gives at a system that
  delivers it in any others and grants its \<open>malloc\<close>, and what follows it stays in the stream.
  (No part of the CPU calls that function: the strings it sends are received by the scheduler.)\<close>

theorem cadena_por_el_socket:
  assumes "sin_fallas_send s1" "so_salida s1 fd1 = []" "length cad \<le> 10000" "CHR 0x00 \<notin> set cad"
    and "run_state (cpu_enviar_string fd1 cad) s1 = (ok, s1')"
    and "sin_fallas_recv s2" "\<forall>t n. so_resultado s2 t (Malloc n) \<noteq> 0" "so_entrada s2 fd2 = so_salida s1' fd1 @ resto"
  shows "ok \<and> (\<exists>s2'. run_state (cpu_recibir_string fd2) s2 = (Some cad, s2') \<and> so_entrada s2' fd2 = resto)"
proof -
  have "length cad < 2 ^ 31" using assms(3) by simp
  then obtain s3 where e: "run_state (cpu_enviar_string fd1 cad) s1 = (True, s3)"
    "so_salida s3 = (so_salida s1)(fd1 := so_salida s1 fd1 @ bytes_cadena cad)"
    using run_cpu_enviar_string [OF assms(1)] by metis
  then have ok: "ok" "so_entrada s2 fd2 = bytes_cadena cad @ resto" using assms(2,5,8) by simp_all
  obtain s4 where "run_state (cpu_recibir_string fd2) s2 = (Some cad, s4)"
    "so_entrada s4 = (so_entrada s2)(fd2 := resto)"
    by (rule run_cpu_recibir_string [OF assms(6) ok(2) assms(3,4,7)])
  with ok(1) show ?thesis by simp
qed

lemma cadena_por_el_socket_ejemplo:
  "\<exists>s2'. run_state (cpu_recibir_string 4)
      (so_ej 1 (\<lambda>_. so_salida (snd (run_state (cpu_enviar_string 3 ''MUTEX_A'') (so_ej 2 (\<lambda>_. [])))) 3 @ [1])) =
    (Some ''MUTEX_A'', s2') \<and> so_entrada s2' 4 = [1]"
proof -
  obtain ok s1' where e: "run_state (cpu_enviar_string 3 ''MUTEX_A'') (so_ej 2 (\<lambda>_. [])) = (ok, s1')" by (metis surj_pair)
  show ?thesis
    using cadena_por_el_socket [OF _ _ _ _ e, of "so_ej 1 (\<lambda>_. so_salida s1' 3 @ [1])" 4 "[1]"]
    by (simp add: e)
qed

lemma llevaD: "lleva M m Q \<Longrightarrow> tiene M s \<Longrightarrow> run_state m s = (r, s') \<Longrightarrow> \<exists>N. tiene N s' \<and> Q r N"
  by (simp add: lleva_def)

text \<open>C23: whatever the system answers to its calls, a swap, a device or Kernel Memory that ends with
  an exit code has closed each socket it opened, once, and has released its address lists, its
  configuration, its log and its file.\<close>

theorem arranque_sin_fugas:
  assumes "tiene M s"
  shows "(run_state (swap_main conf argv) s = (r, s') \<longrightarrow> tiene M s') \<and>
    (run_state (io_principal conf argv d) s = (Sale n, s') \<longrightarrow> tiene M s') \<and>
    (run_state (km_main conf malloc argv) s = (Sale n, s') \<longrightarrow> tiene M s')"
proof (intro conjI impI)
  assume "run_state (swap_main conf argv) s = (r, s')"
  from llevaD [OF swap_main_lleva assms this] show "tiene M s'" by simp
next
  assume "run_state (io_principal conf argv d) s = (Sale n, s')"
  from llevaD [OF io_principal_lleva assms this] show "tiene M s'" by simp
next
  assume "run_state (km_main conf malloc argv) s = (Sale n, s')"
  from llevaD [OF km_main_lleva assms this] show "tiene M s'" by simp
qed

lemma arranque_sin_fugas_ejemplo:
  "fst (run_state (swap_main conf_ej [''swap'', ''c'']) (so_ej 4 (\<lambda>_. bytes_int 100))) = 0 \<and>
   tiene {#} (snd (run_state (swap_main conf_ej [''swap'', ''c'']) (so_ej 4 (\<lambda>_. bytes_int 100))))"
proof -
  obtain r s' where e: "run_state (swap_main conf_ej [''swap'', ''c'']) (so_ej 4 (\<lambda>_. bytes_int 100)) = (r, s')"
    by (metis surj_pair)
  have "tiene {#} (so_ej 4 (\<lambda>_. bytes_int 100))" by (simp add: tiene_def)
  then have "tiene {#} s'" using arranque_sin_fugas e by blast
  moreover have "fst (run_state (swap_main conf_ej [''swap'', ''c'']) (so_ej 4 (\<lambda>_. bytes_int 100))) = 0"
    by (simp add: swap_main_def conectar_a_kernel_memory_def swap_hacer_handshake_def liberar_recursos_def
        servir_swap_def swap_iniciar_def arranque_simps)
  ultimately show ?thesis by (simp add: e)
qed

text \<open>C21: a CPU holds exactly one socket for each stick of its list (but for those it could not
  connect to, whose socket is \<open>-1\<close>), whatever the system and Kernel
  Memory answer to a refresh: the sockets of an abandoned list and of the list that is replaced are
  closed, a failed refresh keeps the old list, and the end of the module closes them all.\<close>

theorem un_socket_por_stick:
  assumes "tiene (M + sockets_de l) s"
    and "run_state (refrescar_sticks km i l) s = ((ok, l'), s')"
    and "run_state (memoria_liberar l') s' = (l'', s'')"
  shows "tiene (M + sockets_de l') s' \<and> (\<not> ok \<longrightarrow> l' = l) \<and> tiene (M + sockets_de l'') s'' \<and> l'' = None"
proof -
  have s': "tiene (M + sockets_de l') s'" "\<not> ok \<longrightarrow> l' = l"
    using llevaD [OF lleva_refrescar assms(1,2)] by auto
  moreover have "tiene (M + sockets_de l'') s''"
    using llevaD [OF lleva_liberar_sticks s'(1) assms(3)] by auto
  moreover have "l'' = None"
    using assms(3) by (auto simp: memoria_liberar_def split: option.splits prod.splits)
  ultimately show ?thesis by blast
qed

text \<open>
  A refresh that finds one new stick: Kernel Memory, at descriptor 3, announces it, and the stick,
  at 12, accepts the handshake.  The CPU had a socket, 9, to another one.
\<close>

definition stick_en :: "int \<Rightarrow> t_stick_cpu" where
  "stick_en fd = \<lparr>sc_socket = fd, sc_ip = ''10'', sc_puerto = 9000, sc_base_global = 0, sc_tamanio = 16\<rparr>"

definition so_sticks :: so where
  "so_sticks =
     \<lparr>so_traza = [(Socket, 9)],
      so_resultado = (\<lambda>t c. case c of Socket \<Rightarrow> 12 | Send fd bs \<Rightarrow> 64 | Recv fd n \<Rightarrow> 64 | Malloc n \<Rightarrow> 1 | _ \<Rightarrow> 0),
      so_entrada = (\<lambda>fd. if fd = 3
        then bytes_int 1 @ bytes_int 2 @ bytes_texto ''10'' @ bytes_int 9000 @ bytes_u32 16 else bytes_int 100),
      so_salida = (\<lambda>_. [])\<rparr>"

lemma so_sticks_sin_fallas:
  assumes "so_resultado s = so_resultado so_sticks"
  shows "sin_fallas_recv s" "sin_fallas_send s"
  using assms by (simp_all add: sin_fallas_recv_def sin_fallas_send_def so_sticks_def)

lemma saluda_ej:
  assumes "so_resultado s = so_resultado so_sticks" "so_entrada s fd = bytes_int (codigo HANDSHAKE_OK)" "sc_socket st = fd"
  obtains s' where "run_state (saludar_stick 1 st) s = (True, s')"
proof -
  obtain s1 where s1: "run_state (cpu_enviar_entero fd (codigo HANDSHAKE_CPU)) s = (True, s1)"
    "so_entrada s1 = so_entrada s" "so_resultado s1 = so_resultado s"
    by (rule run_cpu_enviar_entero [OF so_sticks_sin_fallas(2) [OF assms(1)]])
  obtain s2 where s2: "run_state (cpu_enviar_entero fd 1) s1 = (True, s2)"
    "so_entrada s2 = so_entrada s1" "so_resultado s2 = so_resultado s1"
    by (rule run_cpu_enviar_entero [OF so_sticks_sin_fallas(2) [OF trans [OF s1(3) assms(1)]]])
  have e: "so_entrada s2 fd = bytes_int (codigo HANDSHAKE_OK) @ []" using s1(2) s2(2) assms(2) by simp
  have r: "so_resultado s2 = so_resultado so_sticks" using s1(3) s2(3) assms(1) by simp
  obtain s3 where s3: "run_state (cpu_recibir_entero fd) s2 = (Some (codigo HANDSHAKE_OK), s3)"
    by (rule run_cpu_recibir_entero [OF so_sticks_sin_fallas(1) [OF r] e en_int_codigo])
  show ?thesis by (rule that [of s3]) (simp add: saludar_stick_def assms(3) s1(1) s2(1) s3)
qed

lemma anuncia_ej:
  assumes "so_resultado s = so_resultado so_sticks" "so_entrada s 12 = bytes_int 100"
    and e: "so_entrada s 3 = bytes_int 2 @ bytes_texto ''10'' @ bytes_int 9000 @ bytes_u32 16"
  obtains s' where "run_state (anunciados 3 1 1 0 []) s = (Some [stick_en 12], s')"
proof -
  have i: "en_int 2" "en_int 9000" by (simp_all add: en_int_def)
  obtain s1 where s1: "run_state (cpu_recibir_entero 3) s = (Some 2, s1)"
    "so_entrada s1 = (so_entrada s)(3 := bytes_texto ''10'' @ bytes_int 9000 @ bytes_u32 16)"
    "so_resultado s1 = so_resultado s"
    by (rule run_cpu_recibir_entero [OF so_sticks_sin_fallas(1) [OF assms(1)] e i(1)])
  define s2 where "s2 = s1\<lparr>so_traza := (Malloc 3, 1) # so_traza s1\<rparr>"
  have s2: "run_state (llamar (Malloc (nat 2 + 1))) s1 = (1, s2)" "so_entrada s2 = so_entrada s1"
    "so_resultado s2 = so_resultado so_sticks"
    using s1(3) assms(1) by (simp_all add: s2_def run_llamar so_sticks_def)
  have e2: "so_entrada s2 3 = bytes_texto ''10'' @ bytes_int 9000 @ bytes_u32 16" using s1(2) s2(2) by simp
  have dos: "length (bytes_texto ''10'') = unat (u32_de_int 2)" "unat (u32_de_int 2) < 2 ^ 31"
    by (simp_all add: u32_de_int_def)
  obtain s3 where s3: "run_state (recibir_exactamente 3 (u32_de_int 2)) s2 = ((True, bytes_texto ''10''), s3)"
    "so_entrada s3 = (so_entrada s2)(3 := bytes_int 9000 @ bytes_u32 16)" "so_resultado s3 = so_resultado s2"
    by (rule run_recibir_u32 [OF so_sticks_sin_fallas(1) [OF s2(3)] e2 dos])
  have r3: "so_resultado s3 = so_resultado so_sticks" using s3(3) s2(3) by simp
  have e3: "so_entrada s3 3 = bytes_int 9000 @ bytes_u32 16" using s3(2) by simp
  obtain s4 where s4: "run_state (cpu_recibir_entero 3) s3 = (Some 9000, s4)"
    "so_entrada s4 = (so_entrada s3)(3 := bytes_u32 16)" "so_resultado s4 = so_resultado s3"
    by (rule run_cpu_recibir_entero [OF so_sticks_sin_fallas(1) [OF r3] e3 i(2)])
  have r4: "so_resultado s4 = so_resultado so_sticks" using s4(3) r3 by simp
  have e4: "so_entrada s4 3 = bytes_u32 16 @ []" using s4(2) by simp
  have cuatro: "length (bytes_u32 16) = unat (4 :: u32)" "unat (4 :: u32) < 2 ^ 31" by simp_all
  obtain s5 where s5: "run_state (recibir_exactamente 3 4) s4 = ((True, bytes_u32 16), s5)"
    "so_entrada s5 = (so_entrada s4)(3 := [])" "so_resultado s5 = so_resultado s4"
    by (rule run_recibir_u32 [OF so_sticks_sin_fallas(1) [OF r4] e4 cuatro])
  have r5: "so_resultado s5 = so_resultado so_sticks" using s5(3) r4 by simp
  define s6 where "s6 = s5\<lparr>so_traza := [(Nodelay 12, 0), (Connect 12, 0), (Socket, 12), (Malloc 40, 1)] @ so_traza s5\<rparr>"
  define s5' where "s5' = s5\<lparr>so_traza := (Malloc 40, 1) # so_traza s5\<rparr>"
  have s6: "run_state (llamar (Malloc 40)) s5 = (1, s5')" "run_state cpu_conectar s5' = (12, s6)"
    by (simp_all add: cpu_conectar_def llamar_def Let_def r5 s5'_def s6_def) (simp_all add: so_sticks_def)
  have e6: "so_entrada s6 12 = bytes_int (codigo HANDSHAKE_OK)"
    using assms(2) s1(2) s2(2) s3(2) s4(2) s5(2) by (simp add: s6_def codigo.simps)
  have r6: "so_resultado s6 = so_resultado so_sticks" "sc_socket (stick_en 12) = 12"
    by (simp_all add: s6_def r5) (simp add: stick_en_def)
  obtain s7 where s7: "run_state (saludar_stick 1 (stick_en 12)) s6 = (True, s7)"
    by (rule saluda_ej [OF r6(1) e6 r6(2)])
  have "cadena (bytes_texto ''10'') = ''10''" by (rule cadena_bytes) simp
  then have st: "\<lparr>sc_socket = 12, sc_ip = cadena (bytes_texto ''10''), sc_puerto = 9000, sc_base_global = 0, sc_tamanio = 16\<rparr> =
      stick_en 12" by (simp add: stick_en_def)
  show ?thesis
    using s2(1) by (intro that [of s7])
      (simp add: s1(1) s3(1) s4(1) s5(1) s6 st s7 Let_def del: bytes_texto_def)
qed

lemma un_socket_por_stick_ejemplo:
  "\<exists>s'. run_state (refrescar_sticks 3 1 (Some [stick_en 9])) so_sticks = ((True, Some [stick_en 12]), s') \<and>
     tiene {#RSocket 12#} s'"
proof -
  have t: "tiene ({#} + sockets_de (Some [stick_en 9])) so_sticks"
    by (simp add: tiene_def so_sticks_def stick_en_def)
  obtain s1 where s1: "run_state (cpu_enviar_entero 3 (codigo OP_LISTA_STICKS)) so_sticks = (True, s1)"
    "so_entrada s1 = so_entrada so_sticks" "so_resultado s1 = so_resultado so_sticks"
    by (rule run_cpu_enviar_entero [OF so_sticks_sin_fallas(2) [OF refl]])
  have e1: "so_entrada s1 3 = bytes_int 1 @ bytes_int 2 @ bytes_texto ''10'' @ bytes_int 9000 @ bytes_u32 16"
    by (simp add: s1(2)) (simp add: so_sticks_def)
  obtain s2 where s2: "run_state (cpu_recibir_entero 3) s1 = (Some 1, s2)"
    "so_entrada s2 = (so_entrada s1)(3 := bytes_int 2 @ bytes_texto ''10'' @ bytes_int 9000 @ bytes_u32 16)"
    "so_resultado s2 = so_resultado s1"
    by (rule run_cpu_recibir_entero [OF so_sticks_sin_fallas(1) [OF s1(3)] e1]) (simp_all add: en_int_def)
  have e2: "so_entrada s2 12 = bytes_int 100" by (simp add: s2(2) s1(2)) (simp add: so_sticks_def)
  obtain s3 where s3: "run_state (anunciados 3 1 1 0 []) s2 = (Some [stick_en 12], s3)"
    by (rule anuncia_ej [OF trans [OF s2(3) s1(3)] e2]) (simp add: s2(2))
  obtain s4 where s4: "run_state (destruir_sticks [stick_en 9]) s3 = ((), s4)" by (metis surj_pair unit_eq)
  have run: "run_state (refrescar_sticks 3 1 (Some [stick_en 9])) so_sticks = ((True, Some [stick_en 12]), s4)"
    using s4 by (simp add: refrescar_sticks_def s1(1) s2(1) s3 [unfolded One_nat_def] s3 reemplazar_lista_sticks_def
        del: destruir_sticks.simps anunciados.simps)
  obtain s5 where "run_state (memoria_liberar (Some [stick_en 12])) s4 = (fst s5, snd s5)" by (metis surjective_pairing)
  from un_socket_por_stick [OF t run this] run show ?thesis by (simp add: stick_en_def)
qed

text \<open>What \<open>main\<close> leaves is one of the states from which the executions of the threads start.\<close>

lemma planificador_arranca:
  assumes "run_state (ks_main conf argv) s = (Listo (g, servidor), s')" "so_salida s = (\<lambda>_. [])"
    and "(paso_leal ls)\<^sup>*\<^sup>* g y"
  shows "alcanzable_ks ls y"
  using ks_main_listo [OF assms(1,2)] assms(3) unfolding alcanzable_ks_def by metis

text \<open>C22: from the configuration to the first process that runs: when \<open>main\<close> of the scheduler is
  ready, whatever the system and Kernel Memory have answered, the first CPU that connects and
  introduces itself is accepted, and after five steps of the planner it has been told to run the
  initial process, which is the one in \<open>EXEC\<close>, with a quantum exactly when the algorithm of its
  queue is \<open>RR\<close>, and the planner is free to go on.  With \<open>CMN\<close> there is at least one queue.\<close>

theorem primer_despacho:
  assumes "run_state (ks_main conf argv) s = (Listo ((k, hs), servidor), s')"
    and "alg = cf_texto conf ''PLANIFICATION_ALGORITHM''" "algs = cf_arreglo conf ''QUEUES_ALGORITHMS''"
    and "alg = ''CMN'' \<longrightarrow> algs \<noteq> []"
    and "entrada k sc = bytes_int (codigo HANDSHAKE_CPU) @ bytes_int i @ resto" "en_int i"
  shows "\<exists>k'. correr ls leal (primera_cpu sc) (k, hs) =
      Some (k', Planificador_corto P_ready # (if (if alg = ''CMN'' then hd algs else alg) = ''RR'' then [Quantum 0] else []) @
        [Memoria M_escucha, Cpu 0 C_escucha]) \<and>
    salida k' sc = salida k sc @ bytes_int (codigo HANDSHAKE_OK) @ bytes_int (codigo OP_EJECUTAR_PROCESO) @ bytes_int 0 \<and>
    lista_exec k' = [0] \<and> estado (procs k' 0) = EXEC \<and> pr_cpu (procs k' 0) = Some 0 \<and> lista_cpus_libres k' = [] \<and>
    cpus k' 0 = \<lparr>cp_socket = sc, cp_id = i\<rparr> \<and> sem_puede_planificar k' = 1"
proof -
  obtain s_mem s_not ent sal where "arrancar ((inicializar_estructuras alg algs (cf_texto conf ''QUEUE_PREEMPTION'' = ''TRUE'')
      s_mem s_not ent)\<lparr>salida := sal\<rparr>) (argv ! 2) = (k, hs)"
    using ks_main_arrancar [OF assms(1)] assms(2,3) by metis
  from despacho_inicial [OF this assms(4-6)] show ?thesis .
qed

text \<open>A system in which a CPU waits at the socket 50.\<close>

definition so_cpu :: so where
  "so_cpu = so_ej 4 (\<lambda>fd. if fd = 50 then bytes_int (codigo HANDSHAKE_CPU) @ bytes_int 7 else bytes_int 100)"

lemma primer_despacho_ejemplo:
  "\<exists>k hs fd s' y. run_state (ks_main conf_ej [''ks'', ''c'', ''p'']) so_cpu = (Listo ((k, hs), fd), s') \<and>
     correr ordenar_insercion leal (primera_cpu 50) (k, hs) = Some y \<and> lista_exec (fst y) = [0]"
proof -
  let ?m = "run_state (ks_main conf_ej [''ks'', ''c'', ''p'']) so_cpu"
  have "\<exists>k hs fd s'. ?m = (Listo ((k, hs), fd), s') \<and> entrada k 50 = bytes_int (codigo HANDSHAKE_CPU) @ bytes_int 7"
    by (simp add: so_cpu_def ks_main_def ks_cargar_configuracion_def ks_iniciar_logger_def crear_conexion_def
        ks_iniciar_servidor_def ks_hacer_handshake_con_memoria_def arrancar_def entrada_inicial
        inicializar_estructuras_def arranque_simps)
  then obtain k hs fd s' where e: "?m = (Listo ((k, hs), fd), s')"
    "entrada k 50 = bytes_int (codigo HANDSHAKE_CPU) @ bytes_int 7 @ []" by auto
  have "en_int 7" "cf_arreglo conf_ej ''QUEUES_ALGORITHMS'' \<noteq> []" by (simp_all add: en_int_def conf_ej_def)
  with primer_despacho [OF e(1) refl refl _ e(2), of ordenar_insercion] e(1) show ?thesis by fastforce
qed

text \<open>C30: a stick that starts introduces itself to Kernel Memory with what it is: the handler of Kernel
  Memory accepts what \<open>main\<close> wrote and registers a stick with its real size and port, and the
  handshake is of the kind under which Kernel Memory keeps its invariant.  No \<open>send\<close> of the stick
  is cut, whose results \<open>conectar_a\<close> does not check; the socket is new to Kernel Memory; and the
  total memory fits 32 bits, and with a block the positive \<open>int\<close> when the swap is connected.\<close>

theorem stick_se_presenta:
  assumes "envios_enteros s" "so_salida s = (\<lambda>_. [])"
    and "run_state (stick_main conf basura malloc argv) s = (Listo (st, fd, esc), s')"
    and "km_red (sk_km h) cli = Some st" "cli \<notin> ms_fd ` set (km_sticks (sk_km h))"
    and "unat (memoria_total (km_mapa (sk_km h))) + unat (st_tamanio st) < 2 ^ 32"
    and "fd_swap (km_swap (sk_km h)) = - 1 \<or>
      unat (memoria_total (km_mapa (sk_km h))) + unat (st_tamanio st) + km_bs (sk_km h) \<le> 2 ^ 31"
  shows "admisible cli SesionStick (sk_km h) (so_salida s' fd) \<and>
    (\<exists>h' ms. atender_cliente cli ip h (so_salida s' fd) = Some (h', SesionStick, bytes_int (codigo HANDSHAKE_OK), []) \<and>
       km_sticks (sk_km h') = km_sticks (sk_km h) @ [ms] \<and> ms_fd ms = cli \<and> ms_tamanio ms = st_tamanio st \<and>
       ms_puerto ms = atoi (cf_texto conf ''PUERTO''))"
proof -
  let ?p = "atoi (cf_texto conf ''PUERTO'')"
  have e: "stick_valido st" "so_salida s' fd = bytes_int (codigo HANDSHAKE_MEMORY_STICK) @
      bytes_u32 (st_tamanio st) @ bytes_int ?p"
    using escribeD [OF stick_main_escribe assms(1-3)] by simp_all
  have p: "en_int ?p" by (simp add: atoi_def Let_def)
  have "admisible cli SesionStick (sk_km h) (so_salida s' fd)"
    unfolding admisible_def sesion.case e(2) using assms(4-7) e(1) p
    by (intro exI [of _ st] exI [of _ ?p] exI [of _ "[]"]) simp
  then show ?thesis
    using p by (auto simp: e(2) atender_cliente_def HandlersKM.recibir_codigo_def Let_def memory_stick_agregar_def
        notificar_ks_def)
qed

lemma stick_se_presenta_ejemplo:
  "\<exists>st fd esc s'. run_state (stick_main conf_ej (\<lambda>_. []) (\<lambda>_. True) [''ms'', ''c'', ''16'']) (so_ej 0 (\<lambda>_. bytes_int 100)) =
      (Listo (st, fd, esc), s') \<and>
    admisible 7 SesionStick (sk_km (con_km (km_vacio\<lparr>km_red := [7 \<mapsto> st]\<rparr>) h_inicio)) (so_salida s' fd)"
proof -
  let ?m = "run_state (stick_main conf_ej (\<lambda>_. []) (\<lambda>_. True) [''ms'', ''c'', ''16'']) (so_ej 0 (\<lambda>_. bytes_int 100))"
  have "\<exists>st fd esc s'. ?m = (Listo (st, fd, esc), s') \<and> st_tamanio st = u32_de_int 16"
  proof -
    have "atoi ''16'' = 16" by code_simp
    then show ?thesis
      by (simp add: stick_main_def conectar_a_def stick_iniciar_servidor_def arranque_simps)
  qed
  then obtain st fd esc s' where e: "?m = (Listo (st, fd, esc), s')" "st_tamanio st = u32_de_int 16" by blast
  let ?h = "con_km (km_vacio\<lparr>km_red := [7 \<mapsto> st]\<rparr>) h_inicio"
  have "envios_enteros (so_ej 0 (\<lambda>_. bytes_int 100))" by (simp add: envios_enteros_def so_ej_def)
  with stick_se_presenta [OF _ _ e(1), of ?h 7] e show ?thesis
    by (simp add: km_vacio_def km_inicial_def memory_sticks_init_def memoria_usuario_init_def u32_de_int_def)
qed

text \<open>The same for the swap, which goes on to serve: what it wrote starts with its two sizes.\<close>

lemma swap_se_presenta:
  assumes "envios_enteros s" "so_salida s = (\<lambda>_. [])"
    and "run_state (swap_main conf argv) s = (0, s')"
    and "swap_iniciar (cf_entero conf ''BLOCK_SIZE'') (cf_entero conf ''SWAP_FILE_SIZE'') = Some sw"
    and "en_int (cf_entero conf ''BLOCK_SIZE'')" "en_int (cf_entero conf ''SWAP_FILE_SIZE'')"
    and "km_red_swap k cli = Some sw" "cli \<noteq> - 1" "fd_swap (km_swap k) = - 1"
    and "unat (memoria_total (km_mapa k)) + nat (sw_block_size sw) \<le> 2 ^ 31"
  shows "\<exists>fd. admisible cli SesionSwap k (so_salida s' fd)"
proof -
  obtain fd resp where "so_salida s' = (\<lambda>_. [])(fd := bytes_int (codigo HANDSHAKE_SWAP) @
      bytes_int (sw_block_size sw) @ bytes_int (sw_swap_size sw) @ resp)"
    using escribeD [OF swap_main_escribe assms(1-3)] assms(4) by auto
  then have e: "so_salida s' fd = bytes_int (codigo HANDSHAKE_SWAP) @ bytes_int (sw_block_size sw) @
      bytes_int (sw_swap_size sw) @ resp" by simp
  have "sw_block_size sw = cf_entero conf ''BLOCK_SIZE''"
    using assms(4) by (auto simp: swap_iniciar_def split: if_splits)
  moreover have "swap_valido sw" by (rule swap_iniciar_valido [OF assms(4,6)])
  ultimately have "admisible cli SesionSwap k (so_salida s' fd)"
    unfolding admisible_def sesion.case e using assms(5,7-10)
    by (intro exI [of _ sw] exI [of _ resp]) simp
  then show ?thesis ..
qed

end
