(* ===== verification/Spec2Isabelle.thy ===== *)
theory Spec2Isabelle
  imports PropiedadesKM PropiedadesDispositivos PropiedadesCPU PropiedadesKS PropiedadesColas PropiedadesIO CarrerasKS PropiedadesArranque
begin

text \<open>
  A model of a small distributed operating system in C and the theorems that make it correct.
  The system has six kinds of processes that talk over sockets: the Kernel Scheduler
  (\<open>kernel_scheduler\<close>), Kernel Memory (\<open>kernel_memory\<close>), the CPUs (\<open>cpu\<close>), the memory
  sticks (\<open>memory_stick\<close>), the swap (\<open>swap\<close>) and the input and output devices (\<open>io\<close>).  The
  scheduler dispatches processes to the CPUs; a CPU fetches the instructions of the process
  from Kernel Memory, translates its addresses with the segment table of the process and
  reads and writes the sticks directly; Kernel Memory owns the segments, compacts them and
  moves the processes to and from the swap.

  The theories, each over the ones before it:

  \<^item> \<open>Prelude\<close>: machine integers (\<open>32 word\<close>, with the conversions to and from \<open>int\<close>), their bytes,
    reception from a stream, regions of addresses and partitions, splicing of byte images.
  \<^item> \<open>Protocolo\<close> (\<open>utils/protocolo.h\<close>): the operation codes and the segment.
  \<^item> \<open>Huecos\<close> (\<open>huecos.c\<close>): the list of holes; the searches are optimal and every operation
    keeps the count of free addresses.  Two locales, \<open>busqueda\<close> and \<open>colocacion\<close>, hold what both
    policies share.
  \<^item> \<open>StickModulo\<close> (\<open>memory_stick/src/main.c\<close>) and \<open>SwapModulo\<close> (\<open>swap/src/main.c\<close>): the two servers
    of bytes, as functions from the bytes received to the new state and the bytes answered.
  \<^item> \<open>MemoriaFisica\<close> (\<open>memory_stick.c\<close>): global addresses over the sticks; the locale
    \<open>memoria_direccionable\<close> is the array that the rest of the development sees, interpreted here
    for Kernel Memory and in \<open>CpuMemoria\<close> for a CPU.
  \<^item> \<open>Registros\<close> (\<open>cpu.c\<close>, \<open>instrucciones.c\<close>), \<open>Contexto\<close> (\<open>contexto.c\<close> of Kernel Memory).
  \<^item> \<open>MemoriaUsuario\<close> (\<open>memoria_usuario.c\<close>): segments, compaction, suspension and resumption.
    The C code shares the segment structures between the tables and the sorted list of the
    compaction and updates them in place, so the segments live in a store, \<open>km_segs\<close>, and the
    tables hold addresses of it.  \<open>Particion\<close>, \<open>Compactacion\<close>, \<open>Intercambio\<close>, \<open>Suspension\<close> and
    \<open>Dessuspension\<close> hold the lemmas on these operations.
  \<^item> \<open>HandlersKM\<close> (\<open>handlers.c\<close>): one step of each service loop.  \<open>ServidorKM\<close>: the interleaving
    of all the connections as an inductive relation, with the invariant of the module.  Its
    reachable states (\<open>alcanzable\<close>) are those with every \<open>malloc\<close> granted, handshakes that announce
    what is there and fit (\<open>admisible\<close>), no stick gone, and the swap not gone while a process is in
    it: after the others the program itself breaks the invariant.
  \<^item> \<open>Cpu\<close> (\<open>contexto.c\<close>, \<open>mmu.c\<close>), \<open>CpuMemoria\<close> (\<open>memoria.c\<close>), \<open>Ciclo\<close> (\<open>ciclo_instruccion.c\<close> and
    the loop of \<open>main.c\<close>), \<open>Aislamiento\<close>: a CPU in conversation with the model of Kernel Memory.
  \<^item> \<open>Texto\<close>, \<open>Orden\<close>: strings on a socket, and the sort of the commons library.
  \<^item> \<open>Planificador\<close>, \<open>MutexKS\<close>, \<open>SyscallsKS\<close> (\<open>kernel_scheduler/src/main.c\<close>): the state of the
    scheduler and its operations, each given by its critical sections of \<open>mutex_listas\<close>: queues
    and dispatch, timers, mutexes with inheritance of priorities, system calls, requests to the
    devices and to Kernel Memory, compaction, resumption, the end of a corrupt memory.
    \<open>HilosKS\<close>: all its threads as an inductive relation on the state and the list of threads.
  \<^item> \<open>UbicacionKS\<close>, \<open>InvarianteKS\<close>, \<open>InvarianteOps\<close>, \<open>InvariantePasos\<close>: the invariant of all the
    threads.  What a thread relies on at each point is a multiset of resources, so that each
    operation is proved by what it does to those of its thread.  \<open>FichasKS\<close>: the tokens of
    \<open>sem_hay_procesos_ready\<close>.  \<open>EjecucionKS\<close>: what the peers keep of the protocol (\<open>leal\<close>), the
    states reached while they do and at most one thread at a time resumes suspended processes
    (\<open>alcanzable_ks\<close>), and executions that follow a schedule.  The properties over \<open>alcanzable_ks\<close>
    say nothing of the other executions: \<open>CarrerasKS\<close> has two that break the scheduler, and in one
    of them two threads resume the same process.
  \<^item> \<open>CerrojoKS\<close>: the locale \<open>cerrojo\<close>, a mutex as a queue whose head is its owner, under operations
    that ask for it, release it or have nothing to do with it, and its interpretation on the
    mutexes of the scheduler and the critical sections of any of its processes.
  \<^item> \<open>IoModulo\<close> (\<open>io/src/main.c\<close>): a device, with its keyboard, its log and its sleeps.
  \<^item> \<open>Sistema\<close>: the calls to the operating system as programs of the state monad, over a record of
    the calls made and of what the system answers to each, which may be anything that may depend
    on the calls before; and the resources that a module holds after a trace of calls.
    \<open>Transporte\<close>: the loops \<open>recibir_exactamente\<close> and \<open>enviar_exactamente\<close> of the CPU with their
    three kinds of counter; the locale \<open>contador\<close> is what they share, and with it they deliver what
    \<open>recibir_exacto\<close> delivers, which is what the other theories use.  \<open>Conexiones\<close>: how each module
    connects and listens; the locale \<open>conector\<close>, that a failure leaves nothing open, is interpreted
    on nine of these functions.  \<open>Arranque\<close>, \<open>ArranqueKS\<close>: the \<open>main\<close> functions up to their loops,
    and that of the scheduler up to the first dispatch.
    \<open>SticksCPU\<close>: the sockets of the list of sticks of a CPU.
  \<^item> \<open>EstadosConcretos\<close>, \<open>PropiedadesKM\<close>, \<open>PropiedadesDispositivos\<close>, \<open>PropiedadesCPU\<close>,
    \<open>PropiedadesKS\<close>, \<open>PropiedadesColas\<close>, \<open>PropiedadesIO\<close>, \<open>PropiedadesArranque\<close>: concrete states
    and the properties, each one applied to them.  \<open>PropiedadesIO\<close> puts a device, the scheduler
    and Kernel Memory in conversation.

  What the modelled code does not define is explicit: a message cut in the middle, a negative
  length, a refused \<open>malloc\<close> whose result is not checked are the outcomes \<open>IndefinidoKS\<close>,
  \<open>IndefinidoCPU\<close>, \<open>Desborde\<close> and \<open>Falla\<close>, never a default value.  \<open>malloc\<close> is a parameter (which sizes are
  granted), and so are the files of the scripts, the sort of the library (\<open>list_sort_ok\<close>) and
  the actions of the other processes while a CPU waits.  The loops on the sticks are total
  functions, with the number of bytes left as measure; a process may run forever, so
  \<open>ejecutar_proceso\<close> is a \<open>partial_function\<close>.

  The threads of the scheduler interleave at the points where its locks let them, with three
  simplifications: a \<open>sem_post\<close> belongs to the step before it, the messages that follow a
  critical section are sent in its step (except those of a dispatch and of the end of a
  quantum), and the moment in which \<open>encolar_en_ready\<close> releases \<open>mutex_listas\<close> to interrupt a
  CPU lets nobody in.  Processes, CPUs and timers live in stores and the lists hold their
  addresses, which are not reused.  The only fuel is that of \<open>seguir_dess\<close>, three steps for each
  suspended process and two more, which is shown to be enough.

  The configuration files are read by a library: what they hold is the record \<open>config\<close>, a
  parameter of the start-up, and so are the first contents of the buffer of a stick.

  Not modelled: the log messages, the delays, and the reading of the peer's address of a socket.
  Outside \<open>Sistema\<close> and the theories over it, a message is sent whole.
\<close>

end
